(* ===== verification/Prelude.thy ===== *)
theory Prelude
  imports Main "HOL-Library.Word" "HOL-Library.Char_ord" "HOL-Library.List_Lexorder"
begin

text \<open>
  What every component shares: Go's clock values and 64-bit wrap-around, the functions of the
  package \<open>strings\<close> that the program calls, the platform functions it gets from elsewhere
  (hashes, Unicode tables), the loops "first element that matches" of the file store as list
  functions, and the lemmas about them that carry the component proofs.

  A Go string is its bytes, so it is a \<^typ>\<open>string\<close> (a list of 8-bit characters). A
  \<open>time.Time\<close> is the number of nanoseconds since the Unix epoch, an unbounded
  \<^typ>\<open>int\<close>; a \<open>time.Duration\<close> too, and where the program multiplies into one the
  64-bit wrap-around is written out with \<open>wrap64\<close>.
\<close>

named_theorems store_simps \<open>load and save of the file store\<close>
named_theorems repo_simps \<open>what a lookup returns after an operation of a repository\<close>
named_theorems frame_simps \<open>what an operation leaves alone\<close>
named_theorems service_defs \<open>definitions of the services, for case analysis of a whole handler\<close>

section \<open>Time\<close>

type_synonym time = int
type_synonym duration = int

abbreviation second :: duration where
  "second \<equiv> 1000000000"

abbreviation minute :: duration where
  "minute \<equiv> 60 * second"

abbreviation hour :: duration where
  "hour \<equiv> 3600 * second"

text \<open>\<open>time.Time{}\<close>: 1 January of the year 1, UTC.\<close>

definition zero_time :: time where
  "zero_time = - 62135596800 * second"

definition IsZero :: "time \<Rightarrow> bool" where
  "IsZero t \<longleftrightarrow> t = zero_time"

text \<open>\<open>t.Unix()\<close>: whole seconds, rounded towards minus infinity.\<close>

definition Unix :: "time \<Rightarrow> int" where
  "Unix t = t div second"

text \<open>The value an \<open>int64\<close> computation wraps to.\<close>

definition wrap64 :: "int \<Rightarrow> int" where
  "wrap64 n = (n + 2 ^ 63) mod 2 ^ 64 - 2 ^ 63"

text \<open>\<open>a.Sub(b)\<close> and \<open>time.Since\<close> return the nearest duration that fits.\<close>

definition time_Sub :: "time \<Rightarrow> time \<Rightarrow> duration" where
  "time_Sub a b = max (- (2 ^ 63)) (min (2 ^ 63 - 1) (a - b))"

lemma time_Sub_id: "\<bar>a - b\<bar> < 2 ^ 63 \<Longrightarrow> time_Sub a b = a - b"
  by (simp add: time_Sub_def)

lemma time_Sub_less: "- (2 ^ 63) < d \<Longrightarrow> d \<le> 2 ^ 63 - 1 \<Longrightarrow> time_Sub a b < d \<longleftrightarrow> a - b < d"
  by (auto simp: time_Sub_def min_def max_def)

lemma time_Sub_greater: "- (2 ^ 63) \<le> d \<Longrightarrow> d < 2 ^ 63 - 1 \<Longrightarrow> d < time_Sub a b \<longleftrightarrow> d < a - b"
  by (auto simp: time_Sub_def min_def max_def)

lemma wrap64_id: "- (2 ^ 63) \<le> n \<Longrightarrow> n < 2 ^ 63 \<Longrightarrow> wrap64 n = n"
  by (simp add: wrap64_def)

lemma wrap64_range: "- (2 ^ 63) \<le> wrap64 n \<and> wrap64 n < 2 ^ 63"
proof -
  have "0 \<le> (n + 2 ^ 63) mod 2 ^ 64" and "(n + 2 ^ 63) mod 2 ^ 64 < (2::int) ^ 64"
    by (simp_all add: pos_mod_bound pos_mod_sign)
  then show ?thesis by (simp add: wrap64_def)
qed

lemma wrap64_sint: "wrap64 n = sint (word_of_int n :: 64 word)"
  unfolding wrap64_def
  by (simp add: sint_sbintrunc' signed_take_bit_eq_take_bit_shift take_bit_eq_mod)

section \<open>The package strings\<close>

text \<open>
  \<open>strings.Fields\<close> and \<open>strings.TrimSpace\<close> split at the runes of
  \<open>unicode.IsSpace\<close>. \<open>space_len s\<close> is the number of bytes of the white-space rune
  that starts \<open>s\<close>, 0 when there is none: six ASCII characters, U+0085 and U+00A0 in two
  bytes, U+1680, U+2000 to U+200A, U+2028, U+2029, U+202F, U+205F and U+3000 in three. No
  byte inside another rune starts one of these sequences, so a scan that goes byte by byte
  finds the same fields as one that goes rune by rune.
\<close>

definition space_len :: "string \<Rightarrow> nat" where
  "space_len s =
     (case map of_char (take 3 s) :: nat list of
        [] \<Rightarrow> 0
      | a # r \<Rightarrow>
          if a \<in> {9, 10, 11, 12, 13, 32} then 1
          else (case r of
             [] \<Rightarrow> 0
           | b # r' \<Rightarrow>
               if a = 194 \<and> (b = 133 \<or> b = 160) then 2
               else (case r' of
                  [] \<Rightarrow> 0
                | c # _ \<Rightarrow>
                    if (a = 225 \<and> b = 154 \<and> c = 128)
                      \<or> (a = 226 \<and> b = 128 \<and> (128 \<le> c \<and> c \<le> 138 \<or> c \<in> {168, 169, 175}))
                      \<or> (a = 226 \<and> b = 129 \<and> c = 159)
                      \<or> (a = 227 \<and> b = 128 \<and> c = 128)
                    then 3 else 0)))"

lemma space_len_Nil [simp]: "space_len [] = 0"
  by (simp add: space_len_def)

lemma space_len_ascii [simp]: "space_len (CHR '' '' # s) = 1"
  by (simp add: space_len_def)

lemma space_len_drop_less: "0 < space_len s \<Longrightarrow> length (drop (space_len s) s) < length s"
  by (cases s) auto

function fields_from :: "string \<Rightarrow> string \<Rightarrow> string list" where
  "fields_from cur [] = (if cur = [] then [] else [cur])"
| "fields_from cur (c # cs) =
     (if 0 < space_len (c # cs)
      then (if cur = [] then [] else [cur]) @ fields_from [] (drop (space_len (c # cs)) (c # cs))
      else fields_from (cur @ [c]) cs)"
  by pat_completeness auto
termination
  by (relation "measure (\<lambda>(cur, s). length s)") (auto simp: less_Suc_eq_le)

definition Fields :: "string \<Rightarrow> string list" where
  "Fields s = fields_from [] s"

function trim_left :: "string \<Rightarrow> string" where
  "trim_left s = (if 0 < space_len s then trim_left (drop (space_len s) s) else s)"
  by pat_completeness auto
termination
  by (relation "measure length") (auto dest: space_len_drop_less simp del: length_drop)

declare trim_left.simps [simp del]

text \<open>The white-space rune that ends \<open>s\<close>, in bytes; 0 when there is none.\<close>

definition trailing_space :: "string \<Rightarrow> nat" where
  "trailing_space s =
     (if 1 \<le> length s \<and> space_len (drop (length s - 1) s) = 1 then 1
      else if 2 \<le> length s \<and> space_len (drop (length s - 2) s) = 2 then 2
      else if 3 \<le> length s \<and> space_len (drop (length s - 3) s) = 3 then 3
      else 0)"

lemma trailing_space_le: "trailing_space s \<le> length s"
  by (simp add: trailing_space_def)

function trim_right :: "string \<Rightarrow> string" where
  "trim_right s =
     (if 0 < trailing_space s then trim_right (take (length s - trailing_space s) s) else s)"
  by pat_completeness auto
termination
proof (relation "measure length")
  fix s assume "0 < trailing_space s"
  then show "(take (length s - trailing_space s) s, s) \<in> measure length"
    using trailing_space_le [of s] by simp
qed simp

declare trim_right.simps [simp del]

definition TrimSpace :: "string \<Rightarrow> string" where
  "TrimSpace s = trim_right (trim_left s)"

definition HasPrefix :: "string \<Rightarrow> string \<Rightarrow> bool" where
  "HasPrefix s p \<longleftrightarrow> take (length p) s = p"

text \<open>\<open>strings.Split(s, sep)\<close> for a separator of one byte.\<close>

fun Split :: "char \<Rightarrow> string \<Rightarrow> string list" where
  "Split sep [] = [[]]"
| "Split sep (c # cs) =
     (if c = sep then [] # Split sep cs
      else (case Split sep cs of [] \<Rightarrow> [[c]] | f # fs \<Rightarrow> (c # f) # fs))"

text \<open>\<open>strings.SplitN(s, sep, 2)\<close>: at the first separator only.\<close>

fun SplitN2 :: "char \<Rightarrow> string \<Rightarrow> string list" where
  "SplitN2 sep [] = [[]]"
| "SplitN2 sep (c # cs) =
     (if c = sep then [[], cs]
      else (case SplitN2 sep cs of [] \<Rightarrow> [[c]] | f # fs \<Rightarrow> (c # f) # fs))"

subsection \<open>Fields: what comes out, and the round trip\<close>

definition space_free :: "string \<Rightarrow> bool" where
  "space_free w \<longleftrightarrow> (\<forall>i < length w. space_len (drop i w) = 0)"

text \<open>A word of ASCII printable characters, as a scope token is (RFC 6749, section 3.3).\<close>

definition scope_token :: "string \<Rightarrow> bool" where
  "scope_token w \<longleftrightarrow> w \<noteq> [] \<and> (\<forall>c \<in> set w. 33 \<le> (of_char c :: nat) \<and> (of_char c :: nat) < 127)"

lemma space_len_token:
  assumes "33 \<le> (of_char c :: nat)" and "(of_char c :: nat) < 127"
  shows "space_len (c # s) = 0"
  using assms by (auto simp: space_len_def numeral_3_eq_3 split: list.splits)

lemma fields_from_token:
  assumes "\<forall>c \<in> set w. 33 \<le> (of_char c :: nat) \<and> (of_char c :: nat) < 127"
  shows "fields_from cur (w @ s) = fields_from (cur @ w) s"
  using assms by (induction w arbitrary: cur) (simp_all add: space_len_token)

fun join_spaces :: "string list \<Rightarrow> string" where
  "join_spaces [] = []"
| "join_spaces [w] = w"
| "join_spaces (w # ws) = w @ CHR '' '' # join_spaces ws"

lemma Fields_join_spaces: "list_all scope_token ws \<Longrightarrow> Fields (join_spaces ws) = ws"
proof (induction ws rule: join_spaces.induct)
  case 1
  then show ?case by (simp add: Fields_def)
next
  case (2 w)
  then show ?case
    using fields_from_token [of w "[]" "[]"] by (simp add: Fields_def scope_token_def)
next
  case (3 w v vs)
  have w: "fields_from [] (w @ CHR '' '' # join_spaces (v # vs)) =
      fields_from w (CHR '' '' # join_spaces (v # vs))"
    using 3 fields_from_token [of w "[]"] by (simp add: scope_token_def)
  have "fields_from w (CHR '' '' # join_spaces (v # vs)) = w # fields_from [] (join_spaces (v # vs))"
    using 3 by (simp add: scope_token_def)
  with w 3 show ?case by (simp add: Fields_def)
qed

lemma fields_from_nonempty: "w \<in> set (fields_from cur s) \<Longrightarrow> w \<noteq> []"
  by (induction cur s rule: fields_from.induct) (auto split: if_splits)

lemma Fields_nonempty: "w \<in> set (Fields s) \<Longrightarrow> w \<noteq> []"
  by (auto simp: Fields_def dest: fields_from_nonempty)

text \<open>What \<^const>\<open>Fields\<close> returns has no white space in it, so joining it and splitting again gives it back.\<close>

lemma space_len_prefix: "space_len (u @ v) = 0 \<Longrightarrow> space_len u = 0"
proof -
  assume a: "space_len (u @ v) = 0"
  consider "u = []" | c where "u = [c]" | c d where "u = [c, d]" | c d e r where "u = c # d # e # r"
    by (metis list.exhaust)
  then show ?thesis using a by cases (auto simp: space_len_def numeral_3_eq_3 split: list.splits if_splits)
qed

lemma space_len_before_space: "u \<noteq> [] \<Longrightarrow> space_len u = 0 \<Longrightarrow> space_len (u @ CHR '' '' # v) = 0"
proof -
  assume a: "u \<noteq> []" "space_len u = 0"
  consider c where "u = [c]" | c d where "u = [c, d]" | c d e r where "u = c # d # e # r"
    using a(1) by (metis list.exhaust)
  then show ?thesis using a by cases (auto simp: space_len_def numeral_3_eq_3 split: list.splits if_splits)
qed

lemma fields_from_word:
  "(\<And>i. i < length w \<Longrightarrow> space_len (drop i w @ s) = 0) \<Longrightarrow> fields_from cur (w @ s) = fields_from (cur @ w) s"
proof (induction w arbitrary: cur)
  case (Cons c w)
  have "space_len (c # w @ s) = 0" using Cons.prems [of 0] by simp
  moreover have "space_len (drop i w @ s) = 0" if "i < length w" for i using Cons.prems [of "Suc i"] that by simp
  ultimately show ?case using Cons.IH [of "cur @ [c]"] by simp
qed simp

lemma fields_from_space_free:
  "(\<And>i. i < length cur \<Longrightarrow> space_len (drop i cur @ s) = 0) \<Longrightarrow> w \<in> set (fields_from cur s) \<Longrightarrow> space_free w"
proof (induction cur s rule: fields_from.induct)
  case (1 cur)
  then show ?case by (auto simp: space_free_def split: if_splits)
next
  case (2 cur c cs)
  show ?case
  proof (cases "0 < space_len (c # cs)")
    case True
    moreover have "space_free cur" unfolding space_free_def using 2(3) space_len_prefix by blast
    ultimately show ?thesis using 2(1) 2(4) by (auto split: if_splits)
  next
    case False
    have "space_len (drop i (cur @ [c]) @ cs) = 0" if "i < length (cur @ [c])" for i
      using 2(3) [of i] False that by (cases "i = length cur") (auto simp: less_Suc_eq)
    then show ?thesis using 2(2) 2(4) False by auto
  qed
qed

lemma Fields_space_free: "w \<in> set (Fields s) \<Longrightarrow> space_free w"
  unfolding Fields_def by (rule fields_from_space_free) auto

lemma Fields_join_words:
  "(\<And>w. w \<in> set ws \<Longrightarrow> w \<noteq> [] \<and> space_free w) \<Longrightarrow> Fields (join_spaces ws) = ws"
proof (induction ws rule: join_spaces.induct)
  case (2 w)
  then show ?case using fields_from_word [of w "[]" "[]"] by (simp add: Fields_def space_free_def)
next
  case (3 w v vs)
  have "space_len (drop i w @ CHR '' '' # join_spaces (v # vs)) = 0" if "i < length w" for i
    using 3(2) [of w] that by (intro space_len_before_space) (auto simp: space_free_def)
  then have "fields_from [] (w @ CHR '' '' # join_spaces (v # vs)) = fields_from w (CHR '' '' # join_spaces (v # vs))"
    using fields_from_word [of w "CHR '' '' # join_spaces (v # vs)" "[]"] by simp
  also have "\<dots> = w # fields_from [] (join_spaces (v # vs))" using 3(2) [of w] by simp
  finally show ?case using 3 by (simp add: Fields_def)
qed (simp add: Fields_def)

section \<open>The platform: functions the program does not define\<close>

text \<open>
  Hash functions and Unicode tables come as one parameter \<open>P\<close>; every theorem holds for
  any choice of them, under the hypotheses it names. \<open>unicode_lower\<close> and
  \<open>unicode_fold\<close> are used for strings with a non-ASCII byte only; on ASCII strings the
  package \<open>strings\<close> maps A to Z, which is written out below.
\<close>

record platform =
  unicode_lower :: "string \<Rightarrow> string"
  unicode_upper :: "string \<Rightarrow> string"
  unicode_fold :: "string \<Rightarrow> string"
  argon2_IDKey :: "string \<Rightarrow> string \<Rightarrow> int \<Rightarrow> int \<Rightarrow> int \<Rightarrow> int \<Rightarrow> string"
  sha256 :: "string \<Rightarrow> string"
  hmac_sha256 :: "string \<Rightarrow> string \<Rightarrow> string"
  hmac_sha1 :: "8 word list \<Rightarrow> 8 word list \<Rightarrow> 8 word list"

definition ascii :: "string \<Rightarrow> bool" where
  "ascii s \<longleftrightarrow> (\<forall>c \<in> set s. (of_char c :: nat) < 128)"

definition lower_char :: "char \<Rightarrow> char" where
  "lower_char c =
     (if 65 \<le> (of_char c :: nat) \<and> (of_char c :: nat) \<le> 90 then char_of ((of_char c :: nat) + 32) else c)"

definition upper_char :: "char \<Rightarrow> char" where
  "upper_char c =
     (if 97 \<le> (of_char c :: nat) \<and> (of_char c :: nat) \<le> 122 then char_of ((of_char c :: nat) - 32) else c)"

definition ToLower :: "platform \<Rightarrow> string \<Rightarrow> string" where
  "ToLower P s = (if ascii s then map lower_char s else unicode_lower P s)"

definition ToUpper :: "platform \<Rightarrow> string \<Rightarrow> string" where
  "ToUpper P s = (if ascii s then map upper_char s else unicode_upper P s)"

text \<open>
  \<open>strings.EqualFold\<close> is an equivalence (equality of the simply folded runes); two
  strings are equal under it when they have the same representative.
\<close>

definition fold_key :: "platform \<Rightarrow> string \<Rightarrow> string" where
  "fold_key P s = (if ascii s then map lower_char s else unicode_fold P s)"

definition EqualFold :: "platform \<Rightarrow> string \<Rightarrow> string \<Rightarrow> bool" where
  "EqualFold P a b \<longleftrightarrow> fold_key P a = fold_key P b"

lemma EqualFold_refl [simp]: "EqualFold P a a"
  by (simp add: EqualFold_def)

lemma EqualFold_sym: "EqualFold P a b \<longleftrightarrow> EqualFold P b a"
  by (auto simp: EqualFold_def)

lemma EqualFold_trans: "EqualFold P a b \<Longrightarrow> EqualFold P b c \<Longrightarrow> EqualFold P a c"
  by (simp add: EqualFold_def)

section \<open>Loops over a collection\<close>

text \<open>
  \<open>for i, x := range data { if p(x) { data[i] = f(x); break } }\<close> and
  \<open>data = append(data[:i], data[i+1:]...)\<close> at the first match. The search itself is
  \<^const>\<open>find\<close>.
\<close>

fun upd_first :: "('a \<Rightarrow> bool) \<Rightarrow> ('a \<Rightarrow> 'a) \<Rightarrow> 'a list \<Rightarrow> 'a list" where
  "upd_first p f [] = []"
| "upd_first p f (x # xs) = (if p x then f x # xs else x # upd_first p f xs)"

fun del_first :: "('a \<Rightarrow> bool) \<Rightarrow> 'a list \<Rightarrow> 'a list" where
  "del_first p [] = []"
| "del_first p (x # xs) = (if p x then xs else x # del_first p xs)"

lemma find_Some_D: "find p xs = Some x \<Longrightarrow> p x \<and> x \<in> set xs"
  by (auto simp: find_Some_iff)

lemma find_None_D: "find p xs = None \<Longrightarrow> x \<in> set xs \<Longrightarrow> \<not> p x"
  by (auto simp: find_None_iff)

lemma find_append: "find p (xs @ ys) = (case find p xs of None \<Rightarrow> find p ys | Some x \<Rightarrow> Some x)"
  by (induction xs) auto

lemma find_upd_first_same:
  assumes "\<And>x. p x \<Longrightarrow> p (f x)"
  shows "find p (upd_first p f xs) = map_option f (find p xs)"
  using assms by (induction xs) auto

lemma find_upd_first_other:
  assumes "\<And>x. p x \<Longrightarrow> \<not> q x \<and> \<not> q (f x)"
  shows "find q (upd_first p f xs) = find q xs"
  using assms by (induction xs) auto

lemma find_del_first_other:
  assumes "\<And>x. p x \<Longrightarrow> \<not> q x"
  shows "find q (del_first p xs) = find q xs"
  using assms by (induction xs) auto

lemma del_first_filter: "distinct (map f xs) \<Longrightarrow> del_first (\<lambda>x. f x = k) xs = filter (\<lambda>x. f x \<noteq> k) xs"
proof (induction xs)
  case (Cons a xs)
  then have "\<forall>x \<in> set xs. f x \<noteq> f a" by (metis distinct.simps(2) image_eqI list.set_map list.simps(9))
  with Cons show ?case by (cases "f a = k") auto
qed simp

lemma find_filter_same: "(\<And>x. p x \<Longrightarrow> q x) \<Longrightarrow> find p (filter q xs) = find p xs"
  by (induction xs) auto

lemma find_filter_none: "(\<And>x. p x \<Longrightarrow> \<not> q x) \<Longrightarrow> find p (filter q xs) = None"
  by (induction xs) auto

lemma find_map_same:
  assumes "\<And>x. p (f x) = p x"
  shows "find p (map f xs) = map_option f (find p xs)"
  using assms by (induction xs) auto

lemma map_filter_mem: "y \<in> set (List.map_filter f xs) \<longleftrightarrow> (\<exists>x \<in> set xs. f x = Some y)"
  by (force simp: List.map_filter_def)

lemma set_upd_first: "set (upd_first p f xs) \<subseteq> set xs \<union> f ` set xs"
  by (induction xs) auto

lemma set_upd_first_find:
  "set (upd_first p f xs) \<subseteq> set xs \<union> (case find p xs of None \<Rightarrow> {} | Some x \<Rightarrow> {f x})"
  by (induction xs) auto

lemma set_del_first: "set (del_first p xs) \<subseteq> set xs"
  by (induction xs) auto

lemma map_upd_first: "(\<And>x. p x \<Longrightarrow> g (f x) = g x) \<Longrightarrow> map g (upd_first p f xs) = map g xs"
  by (induction xs) auto

lemma length_upd_first [simp]: "length (upd_first p f xs) = length xs"
  by (induction xs) auto

lemma distinct_map_del_first: "distinct (map g xs) \<Longrightarrow> distinct (map g (del_first p xs))"
  using set_del_first [of p] by (induction xs) fastforce+

lemma find_key_distinct:
  assumes "distinct (map k xs)" and "x \<in> set xs"
  shows "find (\<lambda>y. k y = k x) xs = Some x"
  using assms by (induction xs) (auto simp: image_iff)

lemma del_first_key_distinct:
  assumes "distinct (map k xs)"
  shows "find (\<lambda>y. k y = a) (del_first (\<lambda>y. k y = a) xs) = None"
proof (rule ccontr)
  assume "find (\<lambda>y. k y = a) (del_first (\<lambda>y. k y = a) xs) \<noteq> None"
  then obtain x where x: "x \<in> set (del_first (\<lambda>y. k y = a) xs)" "k x = a"
    by (auto dest: find_Some_D)
  with assms show False
    by (induction xs) (auto split: if_splits)
qed

lemma upd_first_distinct:
  "distinct (map k xs) \<Longrightarrow> upd_first (\<lambda>x. k x = a) f xs = map (\<lambda>x. if k x = a then f x else x) xs"
proof (induction xs)
  case (Cons x xs)
  then have "k y \<noteq> k x" if "y \<in> set xs" for y using that by (auto simp: image_iff)
  with Cons show ?case by (auto intro!: map_idI [symmetric])
qed simp

lemma del_first_distinct:
  "distinct (map k xs) \<Longrightarrow> del_first (\<lambda>x. k x = a) xs = filter (\<lambda>x. k x \<noteq> a) xs"
proof (induction xs)
  case (Cons x xs)
  then have "k y \<noteq> k x" if "y \<in> set xs" for y using that by (auto simp: image_iff)
  with Cons show ?case by (auto intro!: filter_True [symmetric])
qed simp

subsection \<open>A collection as a map from its keys\<close>

definition lookup_by :: "('a \<Rightarrow> 'k) \<Rightarrow> 'a list \<Rightarrow> 'k \<rightharpoonup> 'a" where
  "lookup_by key xs = (\<lambda>k. find (\<lambda>x. key x = k) xs)"

lemma lookup_by_Nil [simp]: "lookup_by key [] = Map.empty"
  by (simp add: lookup_by_def)

lemma lookup_by_None_iff: "lookup_by key xs k = None \<longleftrightarrow> k \<notin> key ` set xs"
  by (auto simp: lookup_by_def find_None_iff)

lemma lookup_by_Some_D: "lookup_by key xs k = Some x \<Longrightarrow> key x = k \<and> x \<in> set xs"
  by (auto simp: lookup_by_def dest: find_Some_D)

lemma lookup_by_snoc:
  assumes "lookup_by key xs (key v) = None"
  shows "lookup_by key (xs @ [v]) = (lookup_by key xs)(key v \<mapsto> v)"
  using assms by (auto simp: lookup_by_def find_append fun_eq_iff split: option.splits)

lemma lookup_by_upd_first:
  assumes "lookup_by key xs k \<noteq> None" and "\<And>x. key x = k \<Longrightarrow> key (f x) = k"
  shows "lookup_by key (upd_first (\<lambda>x. key x = k) f xs) =
    (lookup_by key xs)(k \<mapsto> f (the (lookup_by key xs k)))"
proof (rule ext)
  fix j
  show "lookup_by key (upd_first (\<lambda>x. key x = k) f xs) j =
      ((lookup_by key xs)(k \<mapsto> f (the (lookup_by key xs k)))) j"
  proof (cases "j = k")
    case True
    then show ?thesis
      using assms find_upd_first_same [of "\<lambda>x. key x = k" f xs]
      by (auto simp: lookup_by_def)
  next
    case False
    then show ?thesis
      using assms(2) find_upd_first_other [of "\<lambda>x. key x = k" "\<lambda>x. key x = j" f xs]
      by (auto simp: lookup_by_def)
  qed
qed

lemma lookup_by_del_first:
  assumes "distinct (map key xs)"
  shows "lookup_by key (del_first (\<lambda>x. key x = k) xs) = (lookup_by key xs)(k := None)"
proof (rule ext)
  fix j
  show "lookup_by key (del_first (\<lambda>x. key x = k) xs) j = ((lookup_by key xs)(k := None)) j"
    using assms del_first_key_distinct [of key xs k]
      find_del_first_other [of "\<lambda>x. key x = k" "\<lambda>x. key x = j" xs]
    by (cases "j = k") (auto simp: lookup_by_def)
qed

lemma lookup_by_filter_key:
  assumes "\<And>x. Q x \<longleftrightarrow> R (key x)"
  shows "lookup_by key (filter Q xs) = (\<lambda>k. if R k then lookup_by key xs k else None)"
  using assms by (auto simp: lookup_by_def fun_eq_iff intro: find_filter_same find_filter_none)

lemma distinct_snoc_key:
  "distinct (map key (xs @ [v])) \<longleftrightarrow> distinct (map key xs) \<and> lookup_by key xs (key v) = None"
  by (auto simp: lookup_by_None_iff)

subsection \<open>Flags that are only ever set\<close>

text \<open>
  \<open>spent key flag k xs\<close>: every element of key \<open>k\<close> has its flag set. A step from
  \<open>xs\<close> to \<open>ys\<close> is tame for \<open>k\<close> when it adds no element of that key and does
  not undo that.
\<close>

definition spent :: "('a \<Rightarrow> 'k) \<Rightarrow> ('a \<Rightarrow> bool) \<Rightarrow> 'k \<Rightarrow> 'a list \<Rightarrow> bool" where
  "spent key flag k xs \<longleftrightarrow> (\<forall>x \<in> set xs. key x = k \<longrightarrow> flag x)"

definition occurs_once :: "('a \<Rightarrow> 'k) \<Rightarrow> 'k \<Rightarrow> 'a list \<Rightarrow> bool" where
  "occurs_once key k xs \<longleftrightarrow> length (filter (\<lambda>x. key x = k) xs) \<le> 1"

definition tame :: "('a \<Rightarrow> 'k) \<Rightarrow> ('a \<Rightarrow> bool) \<Rightarrow> 'k \<Rightarrow> 'a list \<Rightarrow> 'a list \<Rightarrow> bool" where
  "tame key flag k xs ys \<longleftrightarrow>
     length (filter (\<lambda>x. key x = k) ys) \<le> length (filter (\<lambda>x. key x = k) xs)
     \<and> (spent key flag k xs \<longrightarrow> spent key flag k ys)"

lemma tame_refl [simp]: "tame key flag k xs xs"
  by (simp add: tame_def)

lemma tame_trans: "tame key flag k xs ys \<Longrightarrow> tame key flag k ys zs \<Longrightarrow> tame key flag k xs zs"
  by (auto simp: tame_def)

lemma tame_filter: "tame key flag k xs (filter p xs)"
  by (induction xs) (auto simp: tame_def spent_def)

lemma tame_snoc: "key v \<noteq> k \<Longrightarrow> tame key flag k xs (xs @ [v])"
  by (auto simp: tame_def spent_def)

lemma tame_map:
  assumes "\<And>x. key (f x) = key x" and "\<And>x. flag x \<Longrightarrow> flag (f x)"
  shows "tame key flag k xs (map f xs)"
  using assms by (induction xs) (auto simp: tame_def spent_def)

lemma tame_upd_first:
  assumes "\<And>x. key (f x) = key x" and "\<And>x. flag x \<Longrightarrow> flag (f x)"
  shows "tame key flag k xs (upd_first p f xs)"
  using assms by (induction xs) (auto simp: tame_def spent_def)

lemma tame_once: "tame key flag k xs ys \<Longrightarrow> occurs_once key k xs \<Longrightarrow> occurs_once key k ys"
  by (simp add: tame_def occurs_once_def)

lemma tame_spent: "tame key flag k xs ys \<Longrightarrow> spent key flag k xs \<Longrightarrow> spent key flag k ys"
  by (simp add: tame_def)

text \<open>Setting the flag of the first element of a key that occurs once spends it.\<close>

lemma spent_upd_first:
  assumes "occurs_once key k xs" and "\<And>x. key (f x) = key x" and "\<And>x. flag (f x)"
  shows "spent key flag k (upd_first (\<lambda>x. key x = k) f xs)"
  using assms
proof (induction xs)
  case (Cons x xs)
  show ?case
  proof (cases "key x = k")
    case True
    then have "filter (\<lambda>x. key x = k) xs = []" using Cons.prems(1) by (simp add: occurs_once_def)
    then show ?thesis using True Cons.prems by (auto simp: spent_def filter_empty_conv)
  next
    case False
    then show ?thesis using Cons by (auto simp: spent_def occurs_once_def)
  qed
qed (simp add: spent_def)

lemma lookup_not_spent: "lookup_by key xs k = Some x \<Longrightarrow> \<not> flag x \<Longrightarrow> \<not> spent key flag k xs"
  by (auto simp: spent_def dest: lookup_by_Some_D)

section \<open>Sequences of operations\<close>

fun run_ops :: "('s \<Rightarrow> 'r \<times> 's) list \<Rightarrow> 's \<Rightarrow> 'r list \<times> 's" where
  "run_ops [] s = ([], s)"
| "run_ops (f # fs) s = (let (r, s') = f s; (rs, s'') = run_ops fs s' in (r # rs, s''))"

lemma run_ops_length: "length (fst (run_ops fs s)) = length fs"
  by (induction fs arbitrary: s) (auto simp: case_prod_beta)

lemma run_ops_invariant:
  assumes "I s" and "\<And>f s. f \<in> set fs \<Longrightarrow> I s \<Longrightarrow> I (snd (f s))"
  shows "I (snd (run_ops fs s))"
  using assms by (induction fs arbitrary: s) (auto simp: case_prod_beta)

section \<open>Step relations\<close>

text \<open>A path of a step relation, with the events of its steps in order.\<close>

inductive path :: "('s \<Rightarrow> 'e \<Rightarrow> 's \<Rightarrow> bool) \<Rightarrow> 's \<Rightarrow> 'e list \<Rightarrow> 's \<Rightarrow> bool" for step where
  path_Nil: "path step s [] s"
| path_snoc: "path step s tr s' \<Longrightarrow> step s' e s'' \<Longrightarrow> path step s (tr @ [e]) s''"

inductive_cases path_NilE: "path step s [] s'"

lemma path_restrict:
  "path step s tr s' \<Longrightarrow> \<forall>e \<in> set tr. Q e \<Longrightarrow> path (\<lambda>s e s'. step s e s' \<and> Q e) s tr s'"
  by (induction rule: path.induct) (auto intro: path.intros)

lemma path_single: "step s e s' \<Longrightarrow> path step s [e] s'"
  using path_snoc [OF path_Nil, of step s e s'] by simp

lemma path_append:
  assumes "path step s' tr' s''" and "path step s tr s'"
  shows "path step s (tr @ tr') s''"
  using assms
proof (induction rule: path.induct)
  case (path_snoc u tr1 v e w)
  then show ?case using path.path_snoc [of step s "tr @ tr1" v e w] by simp
qed simp

lemma path_invariant:
  "path step s tr s' \<Longrightarrow> I s \<Longrightarrow> (\<And>s e s'. step s e s' \<Longrightarrow> I s \<Longrightarrow> I s') \<Longrightarrow> I s'"
  by (induction rule: path.induct) auto

text \<open>
  The contract of something that is good for one success: a success finds it unspent and
  spends it, and no step restores it. \<open>once\<close> is what has to hold of the representation.
\<close>

locale single_use =
  fixes step :: "'s \<Rightarrow> 'e \<Rightarrow> 's \<Rightarrow> bool"
    and once :: "'s \<Rightarrow> bool"
    and gone :: "'s \<Rightarrow> bool"
    and win :: "'e \<Rightarrow> bool"
  assumes step_once: "step s e s' \<Longrightarrow> once s \<Longrightarrow> once s'"
    and step_gone: "step s e s' \<Longrightarrow> gone s \<Longrightarrow> gone s'"
    and step_win: "step s e s' \<Longrightarrow> once s \<Longrightarrow> win e \<Longrightarrow> \<not> gone s \<and> gone s'"
begin

lemma path_wins:
  "path step s tr s' \<Longrightarrow> once s \<Longrightarrow>
    once s' \<and> (filter win tr = [] \<or> (length (filter win tr) = 1 \<and> gone s'))"
proof (induction rule: path.induct)
  case (path_Nil s)
  then show ?case by simp
next
  case (path_snoc s tr s' e s'')
  then have "once s'" and IH: "filter win tr = [] \<or> (length (filter win tr) = 1 \<and> gone s')" by simp_all
  with path_snoc(2) step_once step_gone step_win show ?case by (cases "win e") auto
qed

lemma at_most_one: "path step s tr s' \<Longrightarrow> once s \<Longrightarrow> length (filter win tr) \<le> 1"
  using path_wins by fastforce

lemma none_when_gone: "path step s tr s' \<Longrightarrow> once s \<Longrightarrow> gone s \<Longrightarrow> filter win tr = []"
proof (induction rule: path.induct)
  case (path_Nil s)
  then show ?case by simp
next
  case (path_snoc s tr s' e s'')
  have "once s'" using path_wins [OF path_snoc(1)] path_snoc.prems by simp
  moreover have "gone s'"
    using path_invariant [OF path_snoc(1), of gone] path_snoc.prems step_gone by blast
  ultimately show ?case using path_snoc step_win by auto
qed

end

end
