(* ===== verification/Errors.thy ===== *)
theory Errors
  imports Prelude
begin

text \<open>
  The package \<open>internal/errors\<close>: structured errors with a code, and the wrapping of
  \<open>fmt.Errorf("...: %w", err)\<close> that callers put around them. \<open>nil\<close> is
  \<^const>\<open>None\<close>; a function that returns a value or an error returns a sum, with
  \<^const>\<open>Inl\<close> for the error.
\<close>

datatype errcode =
    CodeInternal
  | CodeNotFound
  | CodeAlreadyExists
  | CodeInvalidInput
  | CodeUnauthorized
  | CodeForbidden
  | CodeRateLimited
  | CodeTokenExpired
  | CodeTokenInvalid
  | CodeSessionExpired
  | CodeInvalidGrant
  | CodeInvalidScope
  | CodeUnauthorizedClient
  | CodeConflict

fun code_string :: "errcode \<Rightarrow> string" where
  "code_string CodeInternal = ''internal_error''"
| "code_string CodeNotFound = ''not_found''"
| "code_string CodeAlreadyExists = ''already_exists''"
| "code_string CodeInvalidInput = ''invalid_input''"
| "code_string CodeUnauthorized = ''unauthorized''"
| "code_string CodeForbidden = ''forbidden''"
| "code_string CodeRateLimited = ''rate_limited''"
| "code_string CodeTokenExpired = ''token_expired''"
| "code_string CodeTokenInvalid = ''token_invalid''"
| "code_string CodeSessionExpired = ''session_expired''"
| "code_string CodeInvalidGrant = ''invalid_grant''"
| "code_string CodeInvalidScope = ''invalid_scope''"
| "code_string CodeUnauthorizedClient = ''unauthorized_client''"
| "code_string CodeConflict = ''conflict''"

text \<open>
  An error value: the package's \<open>*Error\<close> (code, message, wrapped error), the
  \<open>*RedirectError\<close> of package \<open>oidc\<close> (code, description), a
  \<open>fmt.Errorf\<close> with \<open>%w\<close>, and any other error (sentinels, library errors).
\<close>

datatype goerr =
    IdpError errcode string "goerr option"
  | RedirectError string string
  | Wrapped string goerr
  | Plain string

type_synonym 'a res = "goerr + 'a"

text \<open>\<open>(*Error).Error()\<close> and the text of the other errors.\<close>

fun error_text :: "goerr \<Rightarrow> string" where
  "error_text (IdpError c m None) = code_string c @ '': '' @ m"
| "error_text (IdpError c m (Some e)) = code_string c @ '': '' @ m @ '': '' @ error_text e"
| "error_text (RedirectError c d) = c @ '': '' @ d"
| "error_text (Wrapped m e) = m @ '': '' @ error_text e"
| "error_text (Plain m) = m"

definition New :: "errcode \<Rightarrow> string \<Rightarrow> goerr" where
  "New code msg = IdpError code msg None"

text \<open>\<open>errors.As\<close> takes the first \<open>*Error\<close> of the chain, and only that one.\<close>

fun IsCode :: "goerr \<Rightarrow> errcode \<Rightarrow> bool" where
  "IsCode (IdpError c m e) code = (c = code)"
| "IsCode (RedirectError c d) code = False"
| "IsCode (Wrapped m e) code = IsCode e code"
| "IsCode (Plain m) code = False"

text \<open>\<open>errors.Is(err, sentinel)\<close> for a sentinel made by \<open>errors.New\<close>.\<close>

fun Is :: "goerr \<Rightarrow> goerr \<Rightarrow> bool" where
  "Is (IdpError c m (Some e)) s = (IdpError c m (Some e) = s \<or> Is e s)"
| "Is (Wrapped m e) s = (Wrapped m e = s \<or> Is e s)"
| "Is e s = (e = s)"

definition NotFound :: "string \<Rightarrow> string \<Rightarrow> goerr" where
  "NotFound resource ident = IdpError CodeNotFound (resource @ '' not found: '' @ ident) None"

definition AlreadyExists :: "string \<Rightarrow> string \<Rightarrow> goerr" where
  "AlreadyExists resource ident = IdpError CodeAlreadyExists (resource @ '' already exists: '' @ ident) None"

definition InvalidInput :: "string \<Rightarrow> goerr" where
  "InvalidInput msg = IdpError CodeInvalidInput msg None"

definition InvalidGrant :: "string \<Rightarrow> goerr" where
  "InvalidGrant msg = IdpError CodeInvalidGrant msg None"

definition InvalidScope :: "string \<Rightarrow> goerr" where
  "InvalidScope msg = IdpError CodeInvalidScope msg None"

definition UnauthorizedClient :: "string \<Rightarrow> goerr" where
  "UnauthorizedClient msg = IdpError CodeUnauthorizedClient msg None"

definition Conflict :: "string \<Rightarrow> goerr" where
  "Conflict msg = IdpError CodeConflict msg None"

definition Unauthorized :: "string \<Rightarrow> goerr" where
  "Unauthorized msg = IdpError CodeUnauthorized msg None"

definition Internal :: "string \<Rightarrow> goerr \<Rightarrow> goerr" where
  "Internal msg e = IdpError CodeInternal msg (Some e)"

text \<open>The code each constructor gives its error, whatever the message.\<close>

lemma IsCode_constructors [simp]:
  "IsCode (New c m) d = (c = d)"
  "IsCode (NotFound r i) d = (CodeNotFound = d)"
  "IsCode (AlreadyExists r i) d = (CodeAlreadyExists = d)"
  "IsCode (InvalidInput m) d = (CodeInvalidInput = d)"
  "IsCode (InvalidGrant m) d = (CodeInvalidGrant = d)"
  "IsCode (InvalidScope m) d = (CodeInvalidScope = d)"
  "IsCode (UnauthorizedClient m) d = (CodeUnauthorizedClient = d)"
  "IsCode (Conflict m) d = (CodeConflict = d)"
  "IsCode (Unauthorized m) d = (CodeUnauthorized = d)"
  "IsCode (Internal m e) d = (CodeInternal = d)"
  by (simp_all add: New_def NotFound_def AlreadyExists_def InvalidInput_def InvalidGrant_def
      InvalidScope_def UnauthorizedClient_def Conflict_def Unauthorized_def Internal_def)

text \<open>An error carries at most one code.\<close>

lemma IsCode_unique: "IsCode e c \<Longrightarrow> IsCode e d \<Longrightarrow> c = d"
  by (induction e) auto

lemma code_string_inj: "code_string c = code_string d \<Longrightarrow> c = d"
  by (cases c; cases d) simp_all

section \<open>Results\<close>

definition errOf :: "'a res \<Rightarrow> goerr option" where
  "errOf r = (case r of Inl e \<Rightarrow> Some e | Inr _ \<Rightarrow> None)"

abbreviation isOk :: "'a res \<Rightarrow> bool" where
  "isOk r \<equiv> \<not> isl r"

lemma isOk_iff: "isOk r \<longleftrightarrow> (\<exists>x. r = Inr x)"
  by (cases r) auto

end
