(* ===== verification/Encoding.thy ===== *)
theory Encoding
  imports Errors
begin

text \<open>
  What the program uses of \<open>encoding/base64\<close>, \<open>encoding/base32\<close>,
  \<open>encoding/hex\<close>, \<open>strconv\<close> and \<open>fmt\<close>: encoders and decoders quantum by
  quantum, decimal printing, and the scanning of \<open>%d\<close>. The text of a decoder's error
  (which names an offset) is not modelled; every caller drops or wraps it.
\<close>

section \<open>Bytes\<close>

abbreviation byte :: "char \<Rightarrow> nat" where
  "byte c \<equiv> of_char c"

definition chr :: "nat \<Rightarrow> char" where
  "chr n = char_of n"

lemma chr_byte [simp]: "chr (byte c) = c"
  by (simp add: chr_def)

lemma byte_less: "byte c < 256"
  by (metis nat_of_char_less_256)

section \<open>Base 64\<close>

definition alphabet_std :: string where
  "alphabet_std = ''ABCDEFGHIJKLMNOPQRSTUVWXYZabcdefghijklmnopqrstuvwxyz0123456789+/''"

definition alphabet_url :: string where
  "alphabet_url = ''ABCDEFGHIJKLMNOPQRSTUVWXYZabcdefghijklmnopqrstuvwxyz0123456789-_''"

fun sextets :: "string \<Rightarrow> nat list" where
  "sextets [] = []"
| "sextets [a] = [byte a div 4, (byte a mod 4) * 16]"
| "sextets [a, b] = [byte a div 4, (byte a mod 4) * 16 + byte b div 16, (byte b mod 16) * 4]"
| "sextets (a # b # c # r) =
     [byte a div 4, (byte a mod 4) * 16 + byte b div 16, (byte b mod 16) * 4 + byte c div 64, byte c mod 64]
       @ sextets r"

fun unsextets :: "nat list \<Rightarrow> string option" where
  "unsextets [] = Some []"
| "unsextets [x] = None"
| "unsextets [x, y] = Some [chr (x * 4 + y div 16)]"
| "unsextets [x, y, z] = Some [chr (x * 4 + y div 16), chr ((y mod 16) * 16 + z div 4)]"
| "unsextets (x # y # z # w # r) =
     (case unsextets r of
        None \<Rightarrow> None
      | Some s \<Rightarrow> Some ([chr (x * 4 + y div 16), chr ((y mod 16) * 16 + z div 4), chr ((z mod 4) * 64 + w)] @ s))"

definition digit_of :: "string \<Rightarrow> char \<Rightarrow> nat option" where
  "digit_of alphabet c = map_of (zip alphabet [0..<length alphabet]) c"

definition raw_encode :: "string \<Rightarrow> string \<Rightarrow> string" where
  "raw_encode alphabet s = map (\<lambda>i. alphabet ! i) (sextets s)"

text \<open>The decoder skips line ends and, not being strict, ignores the unused low bits.\<close>

definition not_newline :: "char \<Rightarrow> bool" where
  "not_newline c \<longleftrightarrow> byte c \<noteq> 10 \<and> byte c \<noteq> 13"

definition raw_decode :: "string \<Rightarrow> string \<Rightarrow> string res" where
  "raw_decode alphabet s =
     (case those (map (digit_of alphabet) (filter not_newline s)) of
        None \<Rightarrow> Inl (Plain ''illegal base64 data'')
      | Some xs \<Rightarrow> (case unsextets xs of None \<Rightarrow> Inl (Plain ''illegal base64 data'') | Some r \<Rightarrow> Inr r))"

definition RawURLEncoding_EncodeToString :: "string \<Rightarrow> string" where
  "RawURLEncoding_EncodeToString = raw_encode alphabet_url"

definition RawStdEncoding_EncodeToString :: "string \<Rightarrow> string" where
  "RawStdEncoding_EncodeToString = raw_encode alphabet_std"

definition RawStdEncoding_DecodeString :: "string \<Rightarrow> string res" where
  "RawStdEncoding_DecodeString = raw_decode alphabet_std"

text \<open>With padding: the last quantum of two or three characters is filled up with \<open>=\<close>.\<close>

definition StdEncoding_DecodeString :: "string \<Rightarrow> string res" where
  "StdEncoding_DecodeString s =
     (let t = filter not_newline s;
          body = takeWhile (\<lambda>c. c \<noteq> CHR ''='') t;
          pad = dropWhile (\<lambda>c. c \<noteq> CHR ''='') t
      in if (length body mod 4 = 0 \<and> pad = '''') \<or> (length body mod 4 = 2 \<and> pad = ''=='')
            \<or> (length body mod 4 = 3 \<and> pad = ''='')
         then raw_decode alphabet_std body
         else Inl (Plain ''illegal base64 data''))"

lemma length_alphabets [simp]: "length alphabet_std = 64" "length alphabet_url = 64"
  by (simp_all add: alphabet_std_def alphabet_url_def)

lemma distinct_alphabets [simp]: "distinct alphabet_std" "distinct alphabet_url"
  by (simp_all add: alphabet_std_def alphabet_url_def)

lemma alphabet_not_newline: "c \<in> set alphabet_std \<or> c \<in> set alphabet_url \<Longrightarrow> not_newline c"
  by (auto simp: alphabet_std_def alphabet_url_def not_newline_def)

lemma digit_of_nth: "distinct a \<Longrightarrow> i < length a \<Longrightarrow> digit_of a (a ! i) = Some i"
  by (simp add: digit_of_def map_of_zip_nth)

lemma sextet_bounds:
  "byte a div 4 < 64" "m mod 4 * 16 + byte a div 16 < 64" "m mod 16 * 4 + byte a div 64 < 64"
  "m mod 4 * 16 < 64" "m mod 16 * 4 < 64"
proof -
  have "byte a div 4 < 64" "byte a div 16 < 16" "byte a div 64 < 4"
    by (rule less_mult_imp_div_less; use byte_less [of a] in simp)+
  moreover have "m mod 4 < 4" "m mod 16 < 16" by simp_all
  ultimately show "byte a div 4 < 64" "m mod 4 * 16 + byte a div 16 < 64"
    "m mod 16 * 4 + byte a div 64 < 64" "m mod 4 * 16 < 64" "m mod 16 * 4 < 64"
    by linarith+
qed

lemma sextets_less: "x \<in> set (sextets s) \<Longrightarrow> x < 64"
  by (induction s rule: sextets.induct) (auto simp: sextet_bounds)

lemma quantum_1: "(n::nat) div 4 * 4 + (n mod 4 * 16 + k div 16) div 16 = n" if "k < 256" for n k
  using that by simp

lemma quantum_2: "((m mod 4 * 16 + n div 16) mod 16) * 16 + (n mod 16 * 4 + k div 64) div 4 = n"
  if "(n::nat) < 256" "k < 256" for m n k
  using that by simp

lemma quantum_3: "((m mod 16 * 4 + n div 64) mod 4) * 64 + n mod 64 = (n::nat)" if "n < 256" for m n
proof -
  have "n div 64 < 4" using that by simp
  then have "(m mod 16 * 4 + n div 64) mod 4 = n div 64" by simp
  then show ?thesis by simp
qed

lemma unsextets_sextets: "unsextets (sextets s) = Some s"
proof (induction s rule: sextets.induct)
  case (2 a)
  then show ?case using quantum_1 [of 0 "byte a"] by (simp add: byte_less)
next
  case (3 a b)
  then show ?case
    using quantum_1 [of "byte b" "byte a"] quantum_2 [of "byte b" 0 "byte a"] by (simp add: byte_less)
next
  case (4 a b c r)
  then show ?case
    using quantum_1 [of "byte b" "byte a"] quantum_2 [of "byte b" "byte c" "byte a"]
      quantum_3 [of "byte c" "byte b"] by (simp add: byte_less)
qed simp

lemma those_map_Some: "(\<And>x. x \<in> set xs \<Longrightarrow> f x = Some (g x)) \<Longrightarrow> those (map f xs) = Some (map g xs)"
  by (induction xs) auto

lemma raw_encode_set: "length a = 64 \<Longrightarrow> set (raw_encode a s) \<subseteq> set a"
  using sextets_less by (fastforce simp: raw_encode_def)

lemma raw_roundtrip:
  assumes "distinct a" and "length a = 64" and "\<And>c. c \<in> set a \<Longrightarrow> not_newline c"
  shows "raw_decode a (raw_encode a s) = Inr s"
proof -
  have "filter not_newline (raw_encode a s) = raw_encode a s"
    using raw_encode_set [OF assms(2), of s] assms(3) by (auto intro: filter_True)
  moreover have "those (map (digit_of a) (raw_encode a s)) = Some (sextets s)"
    unfolding raw_encode_def map_map using those_map_Some [of "sextets s" _ "\<lambda>x. x"]
    by (auto simp: digit_of_nth assms sextets_less)
  ultimately show ?thesis by (simp add: raw_decode_def unsextets_sextets)
qed

lemma RawStd_roundtrip [simp]: "RawStdEncoding_DecodeString (RawStdEncoding_EncodeToString s) = Inr s"
  unfolding RawStdEncoding_DecodeString_def RawStdEncoding_EncodeToString_def
  by (rule raw_roundtrip) (simp_all add: alphabet_not_newline)

lemma RawURL_inj: "RawURLEncoding_EncodeToString s = RawURLEncoding_EncodeToString t \<Longrightarrow> s = t"
  unfolding RawURLEncoding_EncodeToString_def
  by (metis Inr_inject raw_roundtrip alphabet_not_newline distinct_alphabets(2) length_alphabets(2))

lemma RawURL_dot_free: "CHR ''.'' \<notin> set (RawURLEncoding_EncodeToString s)"
  using raw_encode_set [OF length_alphabets(2), of s]
  by (auto simp: RawURLEncoding_EncodeToString_def alphabet_url_def)

section \<open>Hexadecimal and base 32\<close>

definition hex_digits :: string where
  "hex_digits = ''0123456789abcdef''"

definition hex_EncodeToString :: "string \<Rightarrow> string" where
  "hex_EncodeToString s = concat (map (\<lambda>c. [hex_digits ! (byte c div 16), hex_digits ! (byte c mod 16)]) s)"

definition alphabet_b32 :: string where
  "alphabet_b32 = ''ABCDEFGHIJKLMNOPQRSTUVWXYZ234567''"

text \<open>
  Five bytes make eight characters. Without padding the last quantum is as long as its bytes
  need; the decoder drops a quantum of any other length.
\<close>

definition b32_bits :: "nat list \<Rightarrow> nat" where
  "b32_bits xs = foldl (\<lambda>a x. a * 32 + x) 0 xs"

definition b32_quantum :: "nat list \<Rightarrow> 8 word list" where
  "b32_quantum xs =
     (let n = b32_bits (xs @ replicate (8 - length xs) 0);
          all = [of_nat (n div 2 ^ 32), of_nat (n div 2 ^ 24), of_nat (n div 2 ^ 16), of_nat (n div 2 ^ 8), of_nat n]
      in if length xs = 8 then all
         else if length xs = 7 then take 4 all
         else if length xs = 5 then take 3 all
         else if length xs = 4 then take 2 all
         else if length xs = 2 then take 1 all
         else [])"

fun b32_quanta :: "nat list \<Rightarrow> 8 word list" where
  "b32_quanta (a # b # c # d # e # f # g # h # r) = b32_quantum [a, b, c, d, e, f, g, h] @ b32_quanta r"
| "b32_quanta xs = b32_quantum xs"

definition b32_DecodeString :: "string \<Rightarrow> (8 word list) res" where
  "b32_DecodeString s =
     (case those (map (digit_of alphabet_b32) (filter not_newline s)) of
        None \<Rightarrow> Inl (Plain ''illegal base32 data'')
      | Some xs \<Rightarrow> Inr (b32_quanta xs))"

section \<open>Decimal numbers\<close>

fun digits10 :: "nat \<Rightarrow> string" where
  "digits10 n = (if n < 10 then [chr (48 + n)] else digits10 (n div 10) @ [chr (48 + n mod 10)])"

declare digits10.simps [simp del]

definition format_int :: "int \<Rightarrow> string" where
  "format_int i = (if i < 0 then CHR ''-'' # digits10 (nat (- i)) else digits10 (nat i))"

definition is_digit :: "char \<Rightarrow> bool" where
  "is_digit c \<longleftrightarrow> 48 \<le> byte c \<and> byte c \<le> 57"

definition decimal :: "string \<Rightarrow> nat" where
  "decimal ds = foldl (\<lambda>a c. a * 10 + (byte c - 48)) 0 ds"

lemma byte_chr_digit: "d < 10 \<Longrightarrow> byte (chr (48 + d)) = 48 + d"
  by (simp add: chr_def)

lemma digits10_is_digit: "c \<in> set (digits10 n) \<Longrightarrow> is_digit c"
proof (induction n rule: digits10.induct)
  case (1 n)
  show ?case
  proof (cases "n < 10")
    case True
    then show ?thesis using 1(2) by (subst (asm) digits10.simps) (simp add: is_digit_def byte_chr_digit)
  next
    case False
    then have "c \<in> set (digits10 (n div 10)) \<or> c = chr (48 + n mod 10)"
      using 1(2) by (subst (asm) digits10.simps) auto
    with 1(1) False show ?thesis by (auto simp: is_digit_def byte_chr_digit)
  qed
qed

lemma digits10_nonempty: "digits10 n \<noteq> []"
  by (subst digits10.simps) simp

lemma decimal_snoc: "decimal (ds @ [c]) = decimal ds * 10 + (byte c - 48)"
  by (simp add: decimal_def)

lemma decimal_digits10: "decimal (digits10 n) = n"
proof (induction n rule: digits10.induct)
  case (1 n)
  show ?case
  proof (cases "n < 10")
    case True
    then show ?thesis by (subst digits10.simps) (simp add: decimal_def byte_chr_digit)
  next
    case False
    then have "decimal (digits10 n) = decimal (digits10 (n div 10)) * 10 + n mod 10"
      by (subst digits10.simps) (simp add: decimal_snoc byte_chr_digit)
    with 1 False show ?thesis by simp
  qed
qed

text \<open>\<open>strconv.Atoi\<close>: an optional sign and digits, within an \<open>int\<close> of 64 bits.\<close>

definition Atoi :: "string \<Rightarrow> int res" where
  "Atoi s =
     (let neg = (take 1 s = ''-'');
          ds = (if take 1 s = ''-'' \<or> take 1 s = ''+'' then drop 1 s else s)
      in if ds = '''' \<or> \<not> list_all is_digit ds then Inl (Plain ''invalid syntax'')
         else let n = (if neg then - int (decimal ds) else int (decimal ds))
              in if - (2 ^ 63) \<le> n \<and> n < 2 ^ 63 then Inr n else Inl (Plain ''value out of range''))"

lemma Atoi_range: "Atoi s = Inr n \<Longrightarrow> - (2 ^ 63) \<le> n \<and> n < 2 ^ 63"
  by (auto simp: Atoi_def Let_def split: if_splits)

section \<open>Scanning with fmt.Sscanf\<close>

text \<open>
  A verb skips white space, but a line end is an error; the literals of the format must match;
  what follows the last item is not looked at.
\<close>

function skip_space :: "string \<Rightarrow> string option" where
  "skip_space s =
     (if take 1 s = [CHR 0x0A] then None
      else if 0 < space_len s then skip_space (drop (space_len s) s) else Some s)"
  by pat_completeness auto
termination
  by (relation "measure length") (auto dest: space_len_drop_less simp del: length_drop)

declare skip_space.simps [simp del]

definition scan_uint :: "nat \<Rightarrow> string \<Rightarrow> (nat \<times> string) option" where
  "scan_uint w s =
     (case skip_space s of
        None \<Rightarrow> None
      | Some t \<Rightarrow>
          (let ds = takeWhile is_digit t
           in if ds = '''' \<or> \<not> decimal ds < 2 ^ w then None else Some (decimal ds, dropWhile is_digit t)))"

definition scan_int :: "string \<Rightarrow> (int \<times> string) option" where
  "scan_int s =
     (case skip_space s of
        None \<Rightarrow> None
      | Some t \<Rightarrow>
          (let neg = (take 1 t = ''-'');
               u = (if take 1 t = ''-'' \<or> take 1 t = ''+'' then drop 1 t else t);
               ds = takeWhile is_digit u;
               n = (if neg then - int (decimal ds) else int (decimal ds))
           in if ds = '''' \<or> \<not> (- (2 ^ 63) \<le> n \<and> n < 2 ^ 63) then None
              else Some (n, dropWhile is_digit u)))"

definition literal :: "string \<Rightarrow> string \<Rightarrow> string option" where
  "literal p s = (if HasPrefix s p then Some (drop (length p) s) else None)"

lemma literal_append [simp]: "literal p (p @ s) = Some s"
  by (simp add: literal_def HasPrefix_def)

lemma space_len_digit: "is_digit c \<Longrightarrow> space_len (c # s) = 0"
  by (rule space_len_token) (auto simp: is_digit_def)

lemma skip_space_digit: "is_digit c \<Longrightarrow> skip_space (c # s) = Some (c # s)"
  by (subst skip_space.simps) (auto simp: space_len_digit is_digit_def)

text \<open>A printed number scans back, when what follows does not go on with a digit.\<close>

lemma digits10_scan:
  assumes "rest = [] \<or> \<not> is_digit (hd rest)"
  shows "skip_space (digits10 n @ rest) = Some (digits10 n @ rest)"
    and "takeWhile is_digit (digits10 n @ rest) = digits10 n"
    and "dropWhile is_digit (digits10 n @ rest) = rest"
    and "take 1 (digits10 n @ rest) \<noteq> ''-''" and "take 1 (digits10 n @ rest) \<noteq> ''+''"
proof -
  obtain c cs where ds: "digits10 n = c # cs" and c: "is_digit c"
    using digits10_nonempty [of n] digits10_is_digit by (metis list.exhaust list.set_intros(1))
  show "skip_space (digits10 n @ rest) = Some (digits10 n @ rest)"
    using skip_space_digit [OF c] by (simp add: ds)
  have all: "\<forall>x \<in> set (digits10 n). is_digit x" by (simp add: digits10_is_digit)
  show "takeWhile is_digit (digits10 n @ rest) = digits10 n"
    and "dropWhile is_digit (digits10 n @ rest) = rest"
    using all assms by (cases rest; simp)+
  show "take 1 (digits10 n @ rest) \<noteq> ''-''" and "take 1 (digits10 n @ rest) \<noteq> ''+''"
    using c by (auto simp: ds is_digit_def)
qed

lemma scan_uint_digits10:
  assumes "n < 2 ^ w" and "rest = [] \<or> \<not> is_digit (hd rest)"
  shows "scan_uint w (digits10 n @ rest) = Some (n, rest)"
  using digits10_scan [OF assms(2)] assms(1)
  by (simp add: scan_uint_def Let_def decimal_digits10 digits10_nonempty)

lemma scan_int_digits10:
  assumes "n < 2 ^ 63" and "rest = [] \<or> \<not> is_digit (hd rest)"
  shows "scan_int (digits10 n @ rest) = Some (int n, rest)"
  using digits10_scan [OF assms(2)] assms(1)
  by (simp add: scan_int_def Let_def decimal_digits10 digits10_nonempty)

end
