(* ===== verification/Domain.thy ===== *)
theory Domain
  imports Errors
begin

text \<open>
  The package \<open>internal/domain\<close>: the records the program stores and the methods that
  decide whether one is still usable. \<open>now\<close> stands for \<open>time.Now()\<close>. A nil slice
  and an empty one are both \<^const>\<open>Nil\<close>, except where a component tells them apart.
\<close>

section \<open>Users and clients\<close>

record user =
  user_ID :: string
  user_Email :: string
  user_PasswordHash :: string
  user_DisplayName :: string
  user_GivenName :: string
  user_FamilyName :: string
  user_Active :: bool
  user_EmailVerified :: bool
  user_Admin :: bool
  user_TOTPSecret :: string
  user_TOTPLastStep :: int
  user_RecoveryCodes :: "string list"
  user_CreatedAt :: time
  user_UpdatedAt :: time

definition TOTPEnabled :: "user \<Rightarrow> bool" where
  "TOTPEnabled u \<longleftrightarrow> user_TOTPSecret u \<noteq> ''''"

record client =
  client_ID :: string
  client_Secret :: string
  client_Name :: string
  client_RedirectURIs :: "string list"
  client_GrantTypes :: "string list"
  client_Scopes :: "string list"
  client_Public :: bool
  client_SkipConsent :: bool
  client_MinimalIDToken :: bool
  client_AccessTokenTTL :: duration
  client_RefreshTokenTTL :: duration
  client_CreatedAt :: time
  client_UpdatedAt :: time

definition AllowsGrant :: "client \<Rightarrow> string \<Rightarrow> bool" where
  "AllowsGrant c grantType =
     (if length (client_GrantTypes c) = 0
      then grantType = ''authorization_code'' \<or> grantType = ''refresh_token''
      else list_ex (\<lambda>g. g = grantType) (client_GrantTypes c))"

record passkey =
  passkey_ID :: string
  passkey_UserID :: string
  passkey_Name :: string
  passkey_Credential :: string
  passkey_CreatedAt :: time
  passkey_LastUsedAt :: time

record group =
  group_ID :: string
  group_Name :: string
  group_Description :: string
  group_CreatedAt :: time
  group_UpdatedAt :: time

section \<open>Consent\<close>

record consent =
  consent_ID :: string
  consent_UserID :: string
  consent_ClientID :: string
  consent_Scopes :: "string list"
  consent_GrantedAt :: time

text \<open>The two loops of \<open>Covers\<close>: build the set of granted scopes, then test each.\<close>

definition Covers :: "consent \<Rightarrow> string list \<Rightarrow> bool" where
  "Covers c scopes =
     (let granted = fold (\<lambda>s m. m(s \<mapsto> ())) (consent_Scopes c) Map.empty
      in list_all (\<lambda>s. granted s \<noteq> None) scopes)"

lemma fold_upd_dom: "dom (fold (\<lambda>s m. m(s \<mapsto> ())) xs m) = dom m \<union> set xs"
  by (induction xs arbitrary: m) auto

lemma Covers_iff: "Covers c scopes \<longleftrightarrow> set scopes \<subseteq> set (consent_Scopes c)"
proof -
  have "(fold (\<lambda>s m. m(s \<mapsto> ())) (consent_Scopes c) Map.empty s \<noteq> None) \<longleftrightarrow>
      s \<in> set (consent_Scopes c)" for s
    using fold_upd_dom [of "consent_Scopes c" Map.empty] by (auto simp: domIff)
  then show ?thesis by (auto simp: Covers_def list_all_iff)
qed

section \<open>Single-use and time-limited records\<close>

definition PurposePasswordReset :: string where
  "PurposePasswordReset = ''password_reset''"

definition PurposeEmailVerify :: string where
  "PurposeEmailVerify = ''email_verify''"

record verification_token =
  vt_TokenHash :: string
  vt_UserID :: string
  vt_Purpose :: string
  vt_CreatedAt :: time
  vt_ExpiresAt :: time
  vt_Used :: bool

definition vt_IsExpired :: "time \<Rightarrow> verification_token \<Rightarrow> bool" where
  "vt_IsExpired now t \<longleftrightarrow> now > vt_ExpiresAt t"

definition vt_IsValid :: "time \<Rightarrow> verification_token \<Rightarrow> bool" where
  "vt_IsValid now t \<longleftrightarrow> \<not> vt_IsExpired now t \<and> \<not> vt_Used t"

record session =
  session_ID :: string
  session_UserID :: string
  session_CreatedAt :: time
  session_ExpiresAt :: time
  session_UserAgent :: string
  session_IPAddress :: string
  session_AMR :: "string list"

definition session_IsExpired :: "time \<Rightarrow> session \<Rightarrow> bool" where
  "session_IsExpired now s \<longleftrightarrow> now > session_ExpiresAt s"

record auth_code =
  code_Code :: string
  code_ClientID :: string
  code_UserID :: string
  code_RedirectURI :: string
  code_Scope :: string
  code_CodeChallenge :: string
  code_CodeChallengeMethod :: string
  code_Nonce :: string
  code_AuthTime :: time
  code_AMR :: "string list"
  code_CreatedAt :: time
  code_ExpiresAt :: time
  code_Used :: bool

definition code_IsExpired :: "time \<Rightarrow> auth_code \<Rightarrow> bool" where
  "code_IsExpired now a \<longleftrightarrow> now > code_ExpiresAt a"

record token =
  token_ID :: string
  token_UserID :: string
  token_ClientID :: string
  token_Scope :: string
  token_CreatedAt :: time
  token_ExpiresAt :: time
  token_Revoked :: bool

definition token_IsExpired :: "time \<Rightarrow> token \<Rightarrow> bool" where
  "token_IsExpired now t \<longleftrightarrow> now > token_ExpiresAt t"

definition token_IsValid :: "time \<Rightarrow> token \<Rightarrow> bool" where
  "token_IsValid now t \<longleftrightarrow> \<not> token_IsExpired now t \<and> \<not> token_Revoked t"

section \<open>Access-token revocation\<close>

definition RevocationJTI :: string where
  "RevocationJTI = ''jti''"

definition RevocationUser :: string where
  "RevocationUser = ''user''"

definition RevocationUserClient :: string where
  "RevocationUserClient = ''user_client''"

definition RevocationClient :: string where
  "RevocationClient = ''client''"

lemmas revocation_kinds =
  RevocationJTI_def RevocationUser_def RevocationUserClient_def RevocationClient_def

definition RevocationRetention :: duration where
  "RevocationRetention = 7 * 24 * hour"

definition MaxAccessTokenTTL :: duration where
  "MaxAccessTokenTTL = 24 * hour"

definition UserClientKey :: "string \<Rightarrow> string \<Rightarrow> string" where
  "UserClientKey userID clientID = userID @ CHR 0x00 # clientID"

text \<open>
  The key is unambiguous as long as no user ID contains a NUL byte; IDs are UUIDs or come
  from configuration.
\<close>

lemma UserClientKey_inj:
  assumes "UserClientKey u c = UserClientKey u' c'"
    and "CHR 0x00 \<notin> set u" and "CHR 0x00 \<notin> set u'"
  shows "u = u' \<and> c = c'"
  using assms unfolding UserClientKey_def
proof (induction u arbitrary: u')
  case Nil
  then show ?case by (cases u') auto
next
  case (Cons a u)
  then show ?case by (cases u') auto
qed

record revocation =
  rv_Kind :: string
  rv_Key :: string
  rv_NotBefore :: time
  rv_ExpiresAt :: time

section \<open>Signing keys and audit events\<close>

record signing_key =
  sk_ID :: string
  sk_Algorithm :: string
  sk_PrivateKey :: string
  sk_PublicKey :: string
  sk_Active :: bool
  sk_CreatedAt :: time
  sk_ExpiresAt :: time

definition sk_IsExpired :: "time \<Rightarrow> signing_key \<Rightarrow> bool" where
  "sk_IsExpired now k \<longleftrightarrow> now > sk_ExpiresAt k"

record audit_event =
  ev_ID :: string
  ev_At :: time
  ev_ActorID :: string
  ev_ActorEmail :: string
  ev_Action :: string
  ev_TargetType :: string
  ev_TargetID :: string
  ev_Detail :: string
  ev_IP :: string

end
