(* ===== verification/FileStore.thy ===== *)
theory FileStore
  imports Domain
begin

text \<open>
  The file-backed store (\<open>internal/store/file/file.go\<close>): one JSON file per collection,
  read whole by every operation and written back whole. The record \<open>fstore\<close> is the data
  directory. A file is missing (an empty collection), unreadable or corrupt (the error that
  \<open>readFile\<close> returns), or holds its collection; \<open>write_err\<close> says which files
  \<open>writeFile\<close> cannot open. JSON encoding and decoding is the identity on the records.
  An operation is one step here: the interleaving of its read and its write with those of
  other goroutines is not modelled.
\<close>

datatype 'a json_file = Missing | Broken goerr | Content 'a

record membership =
  m_UserID :: string
  m_GroupID :: string

record groups_data =
  gd_Groups :: "group list"
  gd_Memberships :: "membership list"

record fstore =
  f_users :: "user list json_file"
  f_clients :: "client list json_file"
  f_sessions :: "session list json_file"
  f_auth_codes :: "auth_code list json_file"
  f_tokens :: "token list json_file"
  f_revocations :: "revocation list json_file"
  f_signing_keys :: "signing_key list json_file"
  f_consents :: "consent list json_file"
  f_verification_tokens :: "verification_token list json_file"
  f_groups :: "groups_data json_file"
  f_audit_events :: "audit_event list json_file"
  f_passkeys :: "passkey list json_file"
  write_err :: "string \<Rightarrow> goerr option"

definition NewStore :: fstore where
  "NewStore = \<lparr>f_users = Missing, f_clients = Missing, f_sessions = Missing, f_auth_codes = Missing,
     f_tokens = Missing, f_revocations = Missing, f_signing_keys = Missing, f_consents = Missing,
     f_verification_tokens = Missing, f_groups = Missing, f_audit_events = Missing,
     f_passkeys = Missing, write_err = (\<lambda>_. None)\<rparr>"

section \<open>Reading and writing a file\<close>

fun readFile :: "'a \<Rightarrow> 'a json_file \<Rightarrow> 'a res" where
  "readFile zero Missing = Inr zero"
| "readFile zero (Broken e) = Inl e"
| "readFile zero (Content v) = Inr v"

definition writeFile :: "string \<Rightarrow> (fstore \<Rightarrow> fstore) \<Rightarrow> fstore \<Rightarrow> goerr option \<times> fstore" where
  "writeFile name put st = (case write_err st name of Some e \<Rightarrow> (Some e, st) | None \<Rightarrow> (None, put st))"

definition load_users :: "fstore \<Rightarrow> user list res" where
  "load_users st = readFile [] (f_users st)"

definition save_users :: "user list \<Rightarrow> fstore \<Rightarrow> goerr option \<times> fstore" where
  "save_users xs = writeFile ''users'' (\<lambda>st. st\<lparr>f_users := Content xs\<rparr>)"

definition load_clients :: "fstore \<Rightarrow> client list res" where
  "load_clients st = readFile [] (f_clients st)"

definition save_clients :: "client list \<Rightarrow> fstore \<Rightarrow> goerr option \<times> fstore" where
  "save_clients xs = writeFile ''clients'' (\<lambda>st. st\<lparr>f_clients := Content xs\<rparr>)"

definition load_sessions :: "fstore \<Rightarrow> session list res" where
  "load_sessions st = readFile [] (f_sessions st)"

definition save_sessions :: "session list \<Rightarrow> fstore \<Rightarrow> goerr option \<times> fstore" where
  "save_sessions xs = writeFile ''sessions'' (\<lambda>st. st\<lparr>f_sessions := Content xs\<rparr>)"

definition load_auth_codes :: "fstore \<Rightarrow> auth_code list res" where
  "load_auth_codes st = readFile [] (f_auth_codes st)"

definition save_auth_codes :: "auth_code list \<Rightarrow> fstore \<Rightarrow> goerr option \<times> fstore" where
  "save_auth_codes xs = writeFile ''auth_codes'' (\<lambda>st. st\<lparr>f_auth_codes := Content xs\<rparr>)"

definition load_tokens :: "fstore \<Rightarrow> token list res" where
  "load_tokens st = readFile [] (f_tokens st)"

definition save_tokens :: "token list \<Rightarrow> fstore \<Rightarrow> goerr option \<times> fstore" where
  "save_tokens xs = writeFile ''tokens'' (\<lambda>st. st\<lparr>f_tokens := Content xs\<rparr>)"

definition load_revocations :: "fstore \<Rightarrow> revocation list res" where
  "load_revocations st = readFile [] (f_revocations st)"

definition save_revocations :: "revocation list \<Rightarrow> fstore \<Rightarrow> goerr option \<times> fstore" where
  "save_revocations xs = writeFile ''revocations'' (\<lambda>st. st\<lparr>f_revocations := Content xs\<rparr>)"

definition load_signing_keys :: "fstore \<Rightarrow> signing_key list res" where
  "load_signing_keys st = readFile [] (f_signing_keys st)"

definition save_signing_keys :: "signing_key list \<Rightarrow> fstore \<Rightarrow> goerr option \<times> fstore" where
  "save_signing_keys xs = writeFile ''signing_keys'' (\<lambda>st. st\<lparr>f_signing_keys := Content xs\<rparr>)"

definition load_consents :: "fstore \<Rightarrow> consent list res" where
  "load_consents st = readFile [] (f_consents st)"

definition save_consents :: "consent list \<Rightarrow> fstore \<Rightarrow> goerr option \<times> fstore" where
  "save_consents xs = writeFile ''consents'' (\<lambda>st. st\<lparr>f_consents := Content xs\<rparr>)"

definition load_verification_tokens :: "fstore \<Rightarrow> verification_token list res" where
  "load_verification_tokens st = readFile [] (f_verification_tokens st)"

definition save_verification_tokens ::
    "verification_token list \<Rightarrow> fstore \<Rightarrow> goerr option \<times> fstore" where
  "save_verification_tokens xs =
     writeFile ''verification_tokens'' (\<lambda>st. st\<lparr>f_verification_tokens := Content xs\<rparr>)"

definition load_groups :: "fstore \<Rightarrow> groups_data res" where
  "load_groups st = readFile \<lparr>gd_Groups = [], gd_Memberships = []\<rparr> (f_groups st)"

definition save_groups :: "groups_data \<Rightarrow> fstore \<Rightarrow> goerr option \<times> fstore" where
  "save_groups d = writeFile ''groups'' (\<lambda>st. st\<lparr>f_groups := Content d\<rparr>)"

definition load_audit_events :: "fstore \<Rightarrow> audit_event list res" where
  "load_audit_events st = readFile [] (f_audit_events st)"

definition save_audit_events :: "audit_event list \<Rightarrow> fstore \<Rightarrow> goerr option \<times> fstore" where
  "save_audit_events xs = writeFile ''audit_events'' (\<lambda>st. st\<lparr>f_audit_events := Content xs\<rparr>)"

definition load_passkeys :: "fstore \<Rightarrow> passkey list res" where
  "load_passkeys st = readFile [] (f_passkeys st)"

definition save_passkeys :: "passkey list \<Rightarrow> fstore \<Rightarrow> goerr option \<times> fstore" where
  "save_passkeys xs = writeFile ''passkeys'' (\<lambda>st. st\<lparr>f_passkeys := Content xs\<rparr>)"

lemmas load_defs =
  load_users_def load_clients_def load_sessions_def load_auth_codes_def load_tokens_def
  load_revocations_def load_signing_keys_def load_consents_def load_verification_tokens_def
  load_groups_def load_audit_events_def load_passkeys_def

lemmas save_defs =
  save_users_def save_clients_def save_sessions_def save_auth_codes_def save_tokens_def
  save_revocations_def save_signing_keys_def save_consents_def save_verification_tokens_def
  save_groups_def save_audit_events_def save_passkeys_def writeFile_def

section \<open>A store that works\<close>

text \<open>
  \<open>healthy st\<close>: no file is unreadable and every file can be written. Under it no
  operation fails for want of the disk; the error branches that remain are those of the
  program's own conditions.
\<close>

fun readable :: "'a json_file \<Rightarrow> bool" where
  "readable (Broken e) = False"
| "readable _ = True"

definition healthy :: "fstore \<Rightarrow> bool" where
  "healthy st \<longleftrightarrow> readable (f_users st) \<and> readable (f_clients st) \<and> readable (f_sessions st)
     \<and> readable (f_auth_codes st) \<and> readable (f_tokens st) \<and> readable (f_revocations st)
     \<and> readable (f_signing_keys st) \<and> readable (f_consents st) \<and> readable (f_verification_tokens st)
     \<and> readable (f_groups st) \<and> readable (f_audit_events st) \<and> readable (f_passkeys st)
     \<and> write_err st = (\<lambda>_. None)"

lemma readFile_readable: "readable f \<Longrightarrow> \<exists>v. readFile z f = Inr v"
  by (cases f) auto

lemma readFile_Inr_readable: "readFile z f = Inr v \<Longrightarrow> readable f"
  by (cases f) auto

lemma readFile_val: "readable f \<Longrightarrow> readFile z f = Inr (case readFile z f of Inl _ \<Rightarrow> z | Inr v \<Rightarrow> v)"
  by (cases f) auto

lemma healthy_NewStore: "healthy NewStore"
  by (simp add: healthy_def NewStore_def)

text \<open>
  The collection as it would be read, empty when the file cannot be read; the abstraction the
  contracts of the repositories are stated over.
\<close>

definition val :: "'a \<Rightarrow> 'a res \<Rightarrow> 'a" where
  "val z r = (case r of Inl _ \<Rightarrow> z | Inr v \<Rightarrow> v)"

lemma val_Inr [simp]: "val z (Inr v) = v"
  by (simp add: val_def)

definition users_of :: "fstore \<Rightarrow> user list" where
  "users_of st = val [] (load_users st)"

definition clients_of :: "fstore \<Rightarrow> client list" where
  "clients_of st = val [] (load_clients st)"

definition sessions_of :: "fstore \<Rightarrow> session list" where
  "sessions_of st = val [] (load_sessions st)"

definition codes_of :: "fstore \<Rightarrow> auth_code list" where
  "codes_of st = val [] (load_auth_codes st)"

definition tokens_of :: "fstore \<Rightarrow> token list" where
  "tokens_of st = val [] (load_tokens st)"

definition revocations_of :: "fstore \<Rightarrow> revocation list" where
  "revocations_of st = val [] (load_revocations st)"

definition signing_keys_of :: "fstore \<Rightarrow> signing_key list" where
  "signing_keys_of st = val [] (load_signing_keys st)"

definition consents_of :: "fstore \<Rightarrow> consent list" where
  "consents_of st = val [] (load_consents st)"

definition vtokens_of :: "fstore \<Rightarrow> verification_token list" where
  "vtokens_of st = val [] (load_verification_tokens st)"

definition groups_of :: "fstore \<Rightarrow> groups_data" where
  "groups_of st = val \<lparr>gd_Groups = [], gd_Memberships = []\<rparr> (load_groups st)"

definition audit_of :: "fstore \<Rightarrow> audit_event list" where
  "audit_of st = val [] (load_audit_events st)"

definition passkeys_of :: "fstore \<Rightarrow> passkey list" where
  "passkeys_of st = val [] (load_passkeys st)"

lemmas of_defs =
  users_of_def clients_of_def sessions_of_def codes_of_def tokens_of_def revocations_of_def signing_keys_of_def consents_of_def vtokens_of_def groups_of_def audit_of_def passkeys_of_def

lemma of_load:
  "load_users st = Inr v_users \<Longrightarrow> users_of st = v_users"
  "load_clients st = Inr v_clients \<Longrightarrow> clients_of st = v_clients"
  "load_sessions st = Inr v_sessions \<Longrightarrow> sessions_of st = v_sessions"
  "load_auth_codes st = Inr v_codes \<Longrightarrow> codes_of st = v_codes"
  "load_tokens st = Inr v_tokens \<Longrightarrow> tokens_of st = v_tokens"
  "load_revocations st = Inr v_revocations \<Longrightarrow> revocations_of st = v_revocations"
  "load_signing_keys st = Inr v_signing_keys \<Longrightarrow> signing_keys_of st = v_signing_keys"
  "load_consents st = Inr v_consents \<Longrightarrow> consents_of st = v_consents"
  "load_verification_tokens st = Inr v_vtokens \<Longrightarrow> vtokens_of st = v_vtokens"
  "load_groups st = Inr v_groups \<Longrightarrow> groups_of st = v_groups"
  "load_audit_events st = Inr v_audit \<Longrightarrow> audit_of st = v_audit"
  "load_passkeys st = Inr v_passkeys \<Longrightarrow> passkeys_of st = v_passkeys"
  by (simp_all add: of_defs)

lemma readable_load:
  "readable (f_users st) \<Longrightarrow> load_users st = Inr (users_of st)"
  "readable (f_clients st) \<Longrightarrow> load_clients st = Inr (clients_of st)"
  "readable (f_sessions st) \<Longrightarrow> load_sessions st = Inr (sessions_of st)"
  "readable (f_auth_codes st) \<Longrightarrow> load_auth_codes st = Inr (codes_of st)"
  "readable (f_tokens st) \<Longrightarrow> load_tokens st = Inr (tokens_of st)"
  "readable (f_revocations st) \<Longrightarrow> load_revocations st = Inr (revocations_of st)"
  "readable (f_signing_keys st) \<Longrightarrow> load_signing_keys st = Inr (signing_keys_of st)"
  "readable (f_consents st) \<Longrightarrow> load_consents st = Inr (consents_of st)"
  "readable (f_verification_tokens st) \<Longrightarrow> load_verification_tokens st = Inr (vtokens_of st)"
  "readable (f_groups st) \<Longrightarrow> load_groups st = Inr (groups_of st)"
  "readable (f_audit_events st) \<Longrightarrow> load_audit_events st = Inr (audit_of st)"
  "readable (f_passkeys st) \<Longrightarrow> load_passkeys st = Inr (passkeys_of st)"
  by (simp_all add: of_defs load_defs val_def flip: readFile_val)

lemma healthy_of:
  assumes "healthy st"
  shows
    "load_users st = Inr (users_of st)"
    "load_clients st = Inr (clients_of st)"
    "load_sessions st = Inr (sessions_of st)"
    "load_auth_codes st = Inr (codes_of st)"
    "load_tokens st = Inr (tokens_of st)"
    "load_revocations st = Inr (revocations_of st)"
    "load_signing_keys st = Inr (signing_keys_of st)"
    "load_consents st = Inr (consents_of st)"
    "load_verification_tokens st = Inr (vtokens_of st)"
    "load_groups st = Inr (groups_of st)"
    "load_audit_events st = Inr (audit_of st)"
    "load_passkeys st = Inr (passkeys_of st)"
  using assms by (simp_all add: healthy_def readable_load)

text \<open>A successful save: what it wrote, and that everything else is as before.\<close>

lemma writeFile_None: "writeFile name put st = (None, st') \<longleftrightarrow> write_err st name = None \<and> st' = put st"
  by (auto simp: writeFile_def split: option.splits)

lemma writeFile_Some: "writeFile name put st = (Some e, st') \<longleftrightarrow> write_err st name = Some e \<and> st' = st"
  by (auto simp: writeFile_def split: option.splits)

lemma save_healthy:
  assumes "healthy st"
  shows "save_users us st = (None, st\<lparr>f_users := Content us\<rparr>)"
    "save_clients cs st = (None, st\<lparr>f_clients := Content cs\<rparr>)"
    "save_sessions ss st = (None, st\<lparr>f_sessions := Content ss\<rparr>)"
    "save_auth_codes acs st = (None, st\<lparr>f_auth_codes := Content acs\<rparr>)"
    "save_tokens ts st = (None, st\<lparr>f_tokens := Content ts\<rparr>)"
    "save_revocations rs st = (None, st\<lparr>f_revocations := Content rs\<rparr>)"
    "save_signing_keys ks st = (None, st\<lparr>f_signing_keys := Content ks\<rparr>)"
    "save_consents cons st = (None, st\<lparr>f_consents := Content cons\<rparr>)"
    "save_verification_tokens vts st = (None, st\<lparr>f_verification_tokens := Content vts\<rparr>)"
    "save_groups gd st = (None, st\<lparr>f_groups := Content gd\<rparr>)"
    "save_audit_events evs st = (None, st\<lparr>f_audit_events := Content evs\<rparr>)"
    "save_passkeys pks st = (None, st\<lparr>f_passkeys := Content pks\<rparr>)"
  using assms by (simp_all add: healthy_def save_defs)

lemma healthy_update [simp]:
  assumes "healthy st"
  shows "healthy (st\<lparr>f_users := Content us\<rparr>)" "healthy (st\<lparr>f_clients := Content cs\<rparr>)"
    "healthy (st\<lparr>f_sessions := Content ss\<rparr>)" "healthy (st\<lparr>f_auth_codes := Content acs\<rparr>)"
    "healthy (st\<lparr>f_tokens := Content ts\<rparr>)" "healthy (st\<lparr>f_revocations := Content rs\<rparr>)"
    "healthy (st\<lparr>f_signing_keys := Content ks\<rparr>)" "healthy (st\<lparr>f_consents := Content cons\<rparr>)"
    "healthy (st\<lparr>f_verification_tokens := Content vts\<rparr>)" "healthy (st\<lparr>f_groups := Content gd\<rparr>)"
    "healthy (st\<lparr>f_audit_events := Content evs\<rparr>)" "healthy (st\<lparr>f_passkeys := Content pks\<rparr>)"
  using assms by (simp_all add: healthy_def)

lemma load_after_put [simp]:
  "load_users (st\<lparr>f_users := Content us\<rparr>) = Inr us"
  "load_clients (st\<lparr>f_clients := Content cs\<rparr>) = Inr cs"
  "load_sessions (st\<lparr>f_sessions := Content ss\<rparr>) = Inr ss"
  "load_auth_codes (st\<lparr>f_auth_codes := Content acs\<rparr>) = Inr acs"
  "load_tokens (st\<lparr>f_tokens := Content ts\<rparr>) = Inr ts"
  "load_revocations (st\<lparr>f_revocations := Content rs\<rparr>) = Inr rs"
  "load_signing_keys (st\<lparr>f_signing_keys := Content ks\<rparr>) = Inr ks"
  "load_consents (st\<lparr>f_consents := Content cons\<rparr>) = Inr cons"
  "load_verification_tokens (st\<lparr>f_verification_tokens := Content vts\<rparr>) = Inr vts"
  "load_groups (st\<lparr>f_groups := Content gd\<rparr>) = Inr gd"
  "load_audit_events (st\<lparr>f_audit_events := Content evs\<rparr>) = Inr evs"
  "load_passkeys (st\<lparr>f_passkeys := Content pks\<rparr>) = Inr pks"
  by (simp_all add: load_defs)

text \<open>A write to one file leaves every other collection as it was.\<close>

lemma load_users_frame [simp]:
  "load_users (st\<lparr>f_clients := v_clients\<rparr>) = load_users st"
  "load_users (st\<lparr>f_sessions := v_sessions\<rparr>) = load_users st"
  "load_users (st\<lparr>f_auth_codes := v_auth_codes\<rparr>) = load_users st"
  "load_users (st\<lparr>f_tokens := v_tokens\<rparr>) = load_users st"
  "load_users (st\<lparr>f_revocations := v_revocations\<rparr>) = load_users st"
  "load_users (st\<lparr>f_signing_keys := v_signing_keys\<rparr>) = load_users st"
  "load_users (st\<lparr>f_consents := v_consents\<rparr>) = load_users st"
  "load_users (st\<lparr>f_verification_tokens := v_verification_tokens\<rparr>) = load_users st"
  "load_users (st\<lparr>f_groups := v_groups\<rparr>) = load_users st"
  "load_users (st\<lparr>f_audit_events := v_audit_events\<rparr>) = load_users st"
  "load_users (st\<lparr>f_passkeys := v_passkeys\<rparr>) = load_users st"
  by (simp_all add: load_users_def)

lemma load_clients_frame [simp]:
  "load_clients (st\<lparr>f_users := v_users\<rparr>) = load_clients st"
  "load_clients (st\<lparr>f_sessions := v_sessions\<rparr>) = load_clients st"
  "load_clients (st\<lparr>f_auth_codes := v_auth_codes\<rparr>) = load_clients st"
  "load_clients (st\<lparr>f_tokens := v_tokens\<rparr>) = load_clients st"
  "load_clients (st\<lparr>f_revocations := v_revocations\<rparr>) = load_clients st"
  "load_clients (st\<lparr>f_signing_keys := v_signing_keys\<rparr>) = load_clients st"
  "load_clients (st\<lparr>f_consents := v_consents\<rparr>) = load_clients st"
  "load_clients (st\<lparr>f_verification_tokens := v_verification_tokens\<rparr>) = load_clients st"
  "load_clients (st\<lparr>f_groups := v_groups\<rparr>) = load_clients st"
  "load_clients (st\<lparr>f_audit_events := v_audit_events\<rparr>) = load_clients st"
  "load_clients (st\<lparr>f_passkeys := v_passkeys\<rparr>) = load_clients st"
  by (simp_all add: load_clients_def)

lemma load_sessions_frame [simp]:
  "load_sessions (st\<lparr>f_users := v_users\<rparr>) = load_sessions st"
  "load_sessions (st\<lparr>f_clients := v_clients\<rparr>) = load_sessions st"
  "load_sessions (st\<lparr>f_auth_codes := v_auth_codes\<rparr>) = load_sessions st"
  "load_sessions (st\<lparr>f_tokens := v_tokens\<rparr>) = load_sessions st"
  "load_sessions (st\<lparr>f_revocations := v_revocations\<rparr>) = load_sessions st"
  "load_sessions (st\<lparr>f_signing_keys := v_signing_keys\<rparr>) = load_sessions st"
  "load_sessions (st\<lparr>f_consents := v_consents\<rparr>) = load_sessions st"
  "load_sessions (st\<lparr>f_verification_tokens := v_verification_tokens\<rparr>) = load_sessions st"
  "load_sessions (st\<lparr>f_groups := v_groups\<rparr>) = load_sessions st"
  "load_sessions (st\<lparr>f_audit_events := v_audit_events\<rparr>) = load_sessions st"
  "load_sessions (st\<lparr>f_passkeys := v_passkeys\<rparr>) = load_sessions st"
  by (simp_all add: load_sessions_def)

lemma load_auth_codes_frame [simp]:
  "load_auth_codes (st\<lparr>f_users := v_users\<rparr>) = load_auth_codes st"
  "load_auth_codes (st\<lparr>f_clients := v_clients\<rparr>) = load_auth_codes st"
  "load_auth_codes (st\<lparr>f_sessions := v_sessions\<rparr>) = load_auth_codes st"
  "load_auth_codes (st\<lparr>f_tokens := v_tokens\<rparr>) = load_auth_codes st"
  "load_auth_codes (st\<lparr>f_revocations := v_revocations\<rparr>) = load_auth_codes st"
  "load_auth_codes (st\<lparr>f_signing_keys := v_signing_keys\<rparr>) = load_auth_codes st"
  "load_auth_codes (st\<lparr>f_consents := v_consents\<rparr>) = load_auth_codes st"
  "load_auth_codes (st\<lparr>f_verification_tokens := v_verification_tokens\<rparr>) = load_auth_codes st"
  "load_auth_codes (st\<lparr>f_groups := v_groups\<rparr>) = load_auth_codes st"
  "load_auth_codes (st\<lparr>f_audit_events := v_audit_events\<rparr>) = load_auth_codes st"
  "load_auth_codes (st\<lparr>f_passkeys := v_passkeys\<rparr>) = load_auth_codes st"
  by (simp_all add: load_auth_codes_def)

lemma load_tokens_frame [simp]:
  "load_tokens (st\<lparr>f_users := v_users\<rparr>) = load_tokens st"
  "load_tokens (st\<lparr>f_clients := v_clients\<rparr>) = load_tokens st"
  "load_tokens (st\<lparr>f_sessions := v_sessions\<rparr>) = load_tokens st"
  "load_tokens (st\<lparr>f_auth_codes := v_auth_codes\<rparr>) = load_tokens st"
  "load_tokens (st\<lparr>f_revocations := v_revocations\<rparr>) = load_tokens st"
  "load_tokens (st\<lparr>f_signing_keys := v_signing_keys\<rparr>) = load_tokens st"
  "load_tokens (st\<lparr>f_consents := v_consents\<rparr>) = load_tokens st"
  "load_tokens (st\<lparr>f_verification_tokens := v_verification_tokens\<rparr>) = load_tokens st"
  "load_tokens (st\<lparr>f_groups := v_groups\<rparr>) = load_tokens st"
  "load_tokens (st\<lparr>f_audit_events := v_audit_events\<rparr>) = load_tokens st"
  "load_tokens (st\<lparr>f_passkeys := v_passkeys\<rparr>) = load_tokens st"
  by (simp_all add: load_tokens_def)

lemma load_revocations_frame [simp]:
  "load_revocations (st\<lparr>f_users := v_users\<rparr>) = load_revocations st"
  "load_revocations (st\<lparr>f_clients := v_clients\<rparr>) = load_revocations st"
  "load_revocations (st\<lparr>f_sessions := v_sessions\<rparr>) = load_revocations st"
  "load_revocations (st\<lparr>f_auth_codes := v_auth_codes\<rparr>) = load_revocations st"
  "load_revocations (st\<lparr>f_tokens := v_tokens\<rparr>) = load_revocations st"
  "load_revocations (st\<lparr>f_signing_keys := v_signing_keys\<rparr>) = load_revocations st"
  "load_revocations (st\<lparr>f_consents := v_consents\<rparr>) = load_revocations st"
  "load_revocations (st\<lparr>f_verification_tokens := v_verification_tokens\<rparr>) = load_revocations st"
  "load_revocations (st\<lparr>f_groups := v_groups\<rparr>) = load_revocations st"
  "load_revocations (st\<lparr>f_audit_events := v_audit_events\<rparr>) = load_revocations st"
  "load_revocations (st\<lparr>f_passkeys := v_passkeys\<rparr>) = load_revocations st"
  by (simp_all add: load_revocations_def)

lemma load_signing_keys_frame [simp]:
  "load_signing_keys (st\<lparr>f_users := v_users\<rparr>) = load_signing_keys st"
  "load_signing_keys (st\<lparr>f_clients := v_clients\<rparr>) = load_signing_keys st"
  "load_signing_keys (st\<lparr>f_sessions := v_sessions\<rparr>) = load_signing_keys st"
  "load_signing_keys (st\<lparr>f_auth_codes := v_auth_codes\<rparr>) = load_signing_keys st"
  "load_signing_keys (st\<lparr>f_tokens := v_tokens\<rparr>) = load_signing_keys st"
  "load_signing_keys (st\<lparr>f_revocations := v_revocations\<rparr>) = load_signing_keys st"
  "load_signing_keys (st\<lparr>f_consents := v_consents\<rparr>) = load_signing_keys st"
  "load_signing_keys (st\<lparr>f_verification_tokens := v_verification_tokens\<rparr>) = load_signing_keys st"
  "load_signing_keys (st\<lparr>f_groups := v_groups\<rparr>) = load_signing_keys st"
  "load_signing_keys (st\<lparr>f_audit_events := v_audit_events\<rparr>) = load_signing_keys st"
  "load_signing_keys (st\<lparr>f_passkeys := v_passkeys\<rparr>) = load_signing_keys st"
  by (simp_all add: load_signing_keys_def)

lemma load_consents_frame [simp]:
  "load_consents (st\<lparr>f_users := v_users\<rparr>) = load_consents st"
  "load_consents (st\<lparr>f_clients := v_clients\<rparr>) = load_consents st"
  "load_consents (st\<lparr>f_sessions := v_sessions\<rparr>) = load_consents st"
  "load_consents (st\<lparr>f_auth_codes := v_auth_codes\<rparr>) = load_consents st"
  "load_consents (st\<lparr>f_tokens := v_tokens\<rparr>) = load_consents st"
  "load_consents (st\<lparr>f_revocations := v_revocations\<rparr>) = load_consents st"
  "load_consents (st\<lparr>f_signing_keys := v_signing_keys\<rparr>) = load_consents st"
  "load_consents (st\<lparr>f_verification_tokens := v_verification_tokens\<rparr>) = load_consents st"
  "load_consents (st\<lparr>f_groups := v_groups\<rparr>) = load_consents st"
  "load_consents (st\<lparr>f_audit_events := v_audit_events\<rparr>) = load_consents st"
  "load_consents (st\<lparr>f_passkeys := v_passkeys\<rparr>) = load_consents st"
  by (simp_all add: load_consents_def)

lemma load_verification_tokens_frame [simp]:
  "load_verification_tokens (st\<lparr>f_users := v_users\<rparr>) = load_verification_tokens st"
  "load_verification_tokens (st\<lparr>f_clients := v_clients\<rparr>) = load_verification_tokens st"
  "load_verification_tokens (st\<lparr>f_sessions := v_sessions\<rparr>) = load_verification_tokens st"
  "load_verification_tokens (st\<lparr>f_auth_codes := v_auth_codes\<rparr>) = load_verification_tokens st"
  "load_verification_tokens (st\<lparr>f_tokens := v_tokens\<rparr>) = load_verification_tokens st"
  "load_verification_tokens (st\<lparr>f_revocations := v_revocations\<rparr>) = load_verification_tokens st"
  "load_verification_tokens (st\<lparr>f_signing_keys := v_signing_keys\<rparr>) = load_verification_tokens st"
  "load_verification_tokens (st\<lparr>f_consents := v_consents\<rparr>) = load_verification_tokens st"
  "load_verification_tokens (st\<lparr>f_groups := v_groups\<rparr>) = load_verification_tokens st"
  "load_verification_tokens (st\<lparr>f_audit_events := v_audit_events\<rparr>) = load_verification_tokens st"
  "load_verification_tokens (st\<lparr>f_passkeys := v_passkeys\<rparr>) = load_verification_tokens st"
  by (simp_all add: load_verification_tokens_def)

lemma load_groups_frame [simp]:
  "load_groups (st\<lparr>f_users := v_users\<rparr>) = load_groups st"
  "load_groups (st\<lparr>f_clients := v_clients\<rparr>) = load_groups st"
  "load_groups (st\<lparr>f_sessions := v_sessions\<rparr>) = load_groups st"
  "load_groups (st\<lparr>f_auth_codes := v_auth_codes\<rparr>) = load_groups st"
  "load_groups (st\<lparr>f_tokens := v_tokens\<rparr>) = load_groups st"
  "load_groups (st\<lparr>f_revocations := v_revocations\<rparr>) = load_groups st"
  "load_groups (st\<lparr>f_signing_keys := v_signing_keys\<rparr>) = load_groups st"
  "load_groups (st\<lparr>f_consents := v_consents\<rparr>) = load_groups st"
  "load_groups (st\<lparr>f_verification_tokens := v_verification_tokens\<rparr>) = load_groups st"
  "load_groups (st\<lparr>f_audit_events := v_audit_events\<rparr>) = load_groups st"
  "load_groups (st\<lparr>f_passkeys := v_passkeys\<rparr>) = load_groups st"
  by (simp_all add: load_groups_def)

lemma load_audit_events_frame [simp]:
  "load_audit_events (st\<lparr>f_users := v_users\<rparr>) = load_audit_events st"
  "load_audit_events (st\<lparr>f_clients := v_clients\<rparr>) = load_audit_events st"
  "load_audit_events (st\<lparr>f_sessions := v_sessions\<rparr>) = load_audit_events st"
  "load_audit_events (st\<lparr>f_auth_codes := v_auth_codes\<rparr>) = load_audit_events st"
  "load_audit_events (st\<lparr>f_tokens := v_tokens\<rparr>) = load_audit_events st"
  "load_audit_events (st\<lparr>f_revocations := v_revocations\<rparr>) = load_audit_events st"
  "load_audit_events (st\<lparr>f_signing_keys := v_signing_keys\<rparr>) = load_audit_events st"
  "load_audit_events (st\<lparr>f_consents := v_consents\<rparr>) = load_audit_events st"
  "load_audit_events (st\<lparr>f_verification_tokens := v_verification_tokens\<rparr>) = load_audit_events st"
  "load_audit_events (st\<lparr>f_groups := v_groups\<rparr>) = load_audit_events st"
  "load_audit_events (st\<lparr>f_passkeys := v_passkeys\<rparr>) = load_audit_events st"
  by (simp_all add: load_audit_events_def)

lemma load_passkeys_frame [simp]:
  "load_passkeys (st\<lparr>f_users := v_users\<rparr>) = load_passkeys st"
  "load_passkeys (st\<lparr>f_clients := v_clients\<rparr>) = load_passkeys st"
  "load_passkeys (st\<lparr>f_sessions := v_sessions\<rparr>) = load_passkeys st"
  "load_passkeys (st\<lparr>f_auth_codes := v_auth_codes\<rparr>) = load_passkeys st"
  "load_passkeys (st\<lparr>f_tokens := v_tokens\<rparr>) = load_passkeys st"
  "load_passkeys (st\<lparr>f_revocations := v_revocations\<rparr>) = load_passkeys st"
  "load_passkeys (st\<lparr>f_signing_keys := v_signing_keys\<rparr>) = load_passkeys st"
  "load_passkeys (st\<lparr>f_consents := v_consents\<rparr>) = load_passkeys st"
  "load_passkeys (st\<lparr>f_verification_tokens := v_verification_tokens\<rparr>) = load_passkeys st"
  "load_passkeys (st\<lparr>f_groups := v_groups\<rparr>) = load_passkeys st"
  "load_passkeys (st\<lparr>f_audit_events := v_audit_events\<rparr>) = load_passkeys st"
  by (simp_all add: load_passkeys_def)

lemma of_put [simp]:
  "users_of (st\<lparr>f_users := Content v_users\<rparr>) = v_users"
  "clients_of (st\<lparr>f_clients := Content v_clients\<rparr>) = v_clients"
  "sessions_of (st\<lparr>f_sessions := Content v_sessions\<rparr>) = v_sessions"
  "codes_of (st\<lparr>f_auth_codes := Content v_codes\<rparr>) = v_codes"
  "tokens_of (st\<lparr>f_tokens := Content v_tokens\<rparr>) = v_tokens"
  "revocations_of (st\<lparr>f_revocations := Content v_revocations\<rparr>) = v_revocations"
  "signing_keys_of (st\<lparr>f_signing_keys := Content v_signing_keys\<rparr>) = v_signing_keys"
  "consents_of (st\<lparr>f_consents := Content v_consents\<rparr>) = v_consents"
  "vtokens_of (st\<lparr>f_verification_tokens := Content v_vtokens\<rparr>) = v_vtokens"
  "groups_of (st\<lparr>f_groups := Content v_groups\<rparr>) = v_groups"
  "audit_of (st\<lparr>f_audit_events := Content v_audit\<rparr>) = v_audit"
  "passkeys_of (st\<lparr>f_passkeys := Content v_passkeys\<rparr>) = v_passkeys"
  by (simp_all add: of_defs)

lemma users_of_frame [simp]:
  "users_of (st\<lparr>f_clients := v_clients\<rparr>) = users_of st"
  "users_of (st\<lparr>f_sessions := v_sessions\<rparr>) = users_of st"
  "users_of (st\<lparr>f_auth_codes := v_auth_codes\<rparr>) = users_of st"
  "users_of (st\<lparr>f_tokens := v_tokens\<rparr>) = users_of st"
  "users_of (st\<lparr>f_revocations := v_revocations\<rparr>) = users_of st"
  "users_of (st\<lparr>f_signing_keys := v_signing_keys\<rparr>) = users_of st"
  "users_of (st\<lparr>f_consents := v_consents\<rparr>) = users_of st"
  "users_of (st\<lparr>f_verification_tokens := v_verification_tokens\<rparr>) = users_of st"
  "users_of (st\<lparr>f_groups := v_groups\<rparr>) = users_of st"
  "users_of (st\<lparr>f_audit_events := v_audit_events\<rparr>) = users_of st"
  "users_of (st\<lparr>f_passkeys := v_passkeys\<rparr>) = users_of st"
  by (simp_all add: users_of_def)

lemma clients_of_frame [simp]:
  "clients_of (st\<lparr>f_users := v_users\<rparr>) = clients_of st"
  "clients_of (st\<lparr>f_sessions := v_sessions\<rparr>) = clients_of st"
  "clients_of (st\<lparr>f_auth_codes := v_auth_codes\<rparr>) = clients_of st"
  "clients_of (st\<lparr>f_tokens := v_tokens\<rparr>) = clients_of st"
  "clients_of (st\<lparr>f_revocations := v_revocations\<rparr>) = clients_of st"
  "clients_of (st\<lparr>f_signing_keys := v_signing_keys\<rparr>) = clients_of st"
  "clients_of (st\<lparr>f_consents := v_consents\<rparr>) = clients_of st"
  "clients_of (st\<lparr>f_verification_tokens := v_verification_tokens\<rparr>) = clients_of st"
  "clients_of (st\<lparr>f_groups := v_groups\<rparr>) = clients_of st"
  "clients_of (st\<lparr>f_audit_events := v_audit_events\<rparr>) = clients_of st"
  "clients_of (st\<lparr>f_passkeys := v_passkeys\<rparr>) = clients_of st"
  by (simp_all add: clients_of_def)

lemma sessions_of_frame [simp]:
  "sessions_of (st\<lparr>f_users := v_users\<rparr>) = sessions_of st"
  "sessions_of (st\<lparr>f_clients := v_clients\<rparr>) = sessions_of st"
  "sessions_of (st\<lparr>f_auth_codes := v_auth_codes\<rparr>) = sessions_of st"
  "sessions_of (st\<lparr>f_tokens := v_tokens\<rparr>) = sessions_of st"
  "sessions_of (st\<lparr>f_revocations := v_revocations\<rparr>) = sessions_of st"
  "sessions_of (st\<lparr>f_signing_keys := v_signing_keys\<rparr>) = sessions_of st"
  "sessions_of (st\<lparr>f_consents := v_consents\<rparr>) = sessions_of st"
  "sessions_of (st\<lparr>f_verification_tokens := v_verification_tokens\<rparr>) = sessions_of st"
  "sessions_of (st\<lparr>f_groups := v_groups\<rparr>) = sessions_of st"
  "sessions_of (st\<lparr>f_audit_events := v_audit_events\<rparr>) = sessions_of st"
  "sessions_of (st\<lparr>f_passkeys := v_passkeys\<rparr>) = sessions_of st"
  by (simp_all add: sessions_of_def)

lemma codes_of_frame [simp]:
  "codes_of (st\<lparr>f_users := v_users\<rparr>) = codes_of st"
  "codes_of (st\<lparr>f_clients := v_clients\<rparr>) = codes_of st"
  "codes_of (st\<lparr>f_sessions := v_sessions\<rparr>) = codes_of st"
  "codes_of (st\<lparr>f_tokens := v_tokens\<rparr>) = codes_of st"
  "codes_of (st\<lparr>f_revocations := v_revocations\<rparr>) = codes_of st"
  "codes_of (st\<lparr>f_signing_keys := v_signing_keys\<rparr>) = codes_of st"
  "codes_of (st\<lparr>f_consents := v_consents\<rparr>) = codes_of st"
  "codes_of (st\<lparr>f_verification_tokens := v_verification_tokens\<rparr>) = codes_of st"
  "codes_of (st\<lparr>f_groups := v_groups\<rparr>) = codes_of st"
  "codes_of (st\<lparr>f_audit_events := v_audit_events\<rparr>) = codes_of st"
  "codes_of (st\<lparr>f_passkeys := v_passkeys\<rparr>) = codes_of st"
  by (simp_all add: codes_of_def)

lemma tokens_of_frame [simp]:
  "tokens_of (st\<lparr>f_users := v_users\<rparr>) = tokens_of st"
  "tokens_of (st\<lparr>f_clients := v_clients\<rparr>) = tokens_of st"
  "tokens_of (st\<lparr>f_sessions := v_sessions\<rparr>) = tokens_of st"
  "tokens_of (st\<lparr>f_auth_codes := v_auth_codes\<rparr>) = tokens_of st"
  "tokens_of (st\<lparr>f_revocations := v_revocations\<rparr>) = tokens_of st"
  "tokens_of (st\<lparr>f_signing_keys := v_signing_keys\<rparr>) = tokens_of st"
  "tokens_of (st\<lparr>f_consents := v_consents\<rparr>) = tokens_of st"
  "tokens_of (st\<lparr>f_verification_tokens := v_verification_tokens\<rparr>) = tokens_of st"
  "tokens_of (st\<lparr>f_groups := v_groups\<rparr>) = tokens_of st"
  "tokens_of (st\<lparr>f_audit_events := v_audit_events\<rparr>) = tokens_of st"
  "tokens_of (st\<lparr>f_passkeys := v_passkeys\<rparr>) = tokens_of st"
  by (simp_all add: tokens_of_def)

lemma revocations_of_frame [simp]:
  "revocations_of (st\<lparr>f_users := v_users\<rparr>) = revocations_of st"
  "revocations_of (st\<lparr>f_clients := v_clients\<rparr>) = revocations_of st"
  "revocations_of (st\<lparr>f_sessions := v_sessions\<rparr>) = revocations_of st"
  "revocations_of (st\<lparr>f_auth_codes := v_auth_codes\<rparr>) = revocations_of st"
  "revocations_of (st\<lparr>f_tokens := v_tokens\<rparr>) = revocations_of st"
  "revocations_of (st\<lparr>f_signing_keys := v_signing_keys\<rparr>) = revocations_of st"
  "revocations_of (st\<lparr>f_consents := v_consents\<rparr>) = revocations_of st"
  "revocations_of (st\<lparr>f_verification_tokens := v_verification_tokens\<rparr>) = revocations_of st"
  "revocations_of (st\<lparr>f_groups := v_groups\<rparr>) = revocations_of st"
  "revocations_of (st\<lparr>f_audit_events := v_audit_events\<rparr>) = revocations_of st"
  "revocations_of (st\<lparr>f_passkeys := v_passkeys\<rparr>) = revocations_of st"
  by (simp_all add: revocations_of_def)

lemma signing_keys_of_frame [simp]:
  "signing_keys_of (st\<lparr>f_users := v_users\<rparr>) = signing_keys_of st"
  "signing_keys_of (st\<lparr>f_clients := v_clients\<rparr>) = signing_keys_of st"
  "signing_keys_of (st\<lparr>f_sessions := v_sessions\<rparr>) = signing_keys_of st"
  "signing_keys_of (st\<lparr>f_auth_codes := v_auth_codes\<rparr>) = signing_keys_of st"
  "signing_keys_of (st\<lparr>f_tokens := v_tokens\<rparr>) = signing_keys_of st"
  "signing_keys_of (st\<lparr>f_revocations := v_revocations\<rparr>) = signing_keys_of st"
  "signing_keys_of (st\<lparr>f_consents := v_consents\<rparr>) = signing_keys_of st"
  "signing_keys_of (st\<lparr>f_verification_tokens := v_verification_tokens\<rparr>) = signing_keys_of st"
  "signing_keys_of (st\<lparr>f_groups := v_groups\<rparr>) = signing_keys_of st"
  "signing_keys_of (st\<lparr>f_audit_events := v_audit_events\<rparr>) = signing_keys_of st"
  "signing_keys_of (st\<lparr>f_passkeys := v_passkeys\<rparr>) = signing_keys_of st"
  by (simp_all add: signing_keys_of_def)

lemma consents_of_frame [simp]:
  "consents_of (st\<lparr>f_users := v_users\<rparr>) = consents_of st"
  "consents_of (st\<lparr>f_clients := v_clients\<rparr>) = consents_of st"
  "consents_of (st\<lparr>f_sessions := v_sessions\<rparr>) = consents_of st"
  "consents_of (st\<lparr>f_auth_codes := v_auth_codes\<rparr>) = consents_of st"
  "consents_of (st\<lparr>f_tokens := v_tokens\<rparr>) = consents_of st"
  "consents_of (st\<lparr>f_revocations := v_revocations\<rparr>) = consents_of st"
  "consents_of (st\<lparr>f_signing_keys := v_signing_keys\<rparr>) = consents_of st"
  "consents_of (st\<lparr>f_verification_tokens := v_verification_tokens\<rparr>) = consents_of st"
  "consents_of (st\<lparr>f_groups := v_groups\<rparr>) = consents_of st"
  "consents_of (st\<lparr>f_audit_events := v_audit_events\<rparr>) = consents_of st"
  "consents_of (st\<lparr>f_passkeys := v_passkeys\<rparr>) = consents_of st"
  by (simp_all add: consents_of_def)

lemma vtokens_of_frame [simp]:
  "vtokens_of (st\<lparr>f_users := v_users\<rparr>) = vtokens_of st"
  "vtokens_of (st\<lparr>f_clients := v_clients\<rparr>) = vtokens_of st"
  "vtokens_of (st\<lparr>f_sessions := v_sessions\<rparr>) = vtokens_of st"
  "vtokens_of (st\<lparr>f_auth_codes := v_auth_codes\<rparr>) = vtokens_of st"
  "vtokens_of (st\<lparr>f_tokens := v_tokens\<rparr>) = vtokens_of st"
  "vtokens_of (st\<lparr>f_revocations := v_revocations\<rparr>) = vtokens_of st"
  "vtokens_of (st\<lparr>f_signing_keys := v_signing_keys\<rparr>) = vtokens_of st"
  "vtokens_of (st\<lparr>f_consents := v_consents\<rparr>) = vtokens_of st"
  "vtokens_of (st\<lparr>f_groups := v_groups\<rparr>) = vtokens_of st"
  "vtokens_of (st\<lparr>f_audit_events := v_audit_events\<rparr>) = vtokens_of st"
  "vtokens_of (st\<lparr>f_passkeys := v_passkeys\<rparr>) = vtokens_of st"
  by (simp_all add: vtokens_of_def)

lemma groups_of_frame [simp]:
  "groups_of (st\<lparr>f_users := v_users\<rparr>) = groups_of st"
  "groups_of (st\<lparr>f_clients := v_clients\<rparr>) = groups_of st"
  "groups_of (st\<lparr>f_sessions := v_sessions\<rparr>) = groups_of st"
  "groups_of (st\<lparr>f_auth_codes := v_auth_codes\<rparr>) = groups_of st"
  "groups_of (st\<lparr>f_tokens := v_tokens\<rparr>) = groups_of st"
  "groups_of (st\<lparr>f_revocations := v_revocations\<rparr>) = groups_of st"
  "groups_of (st\<lparr>f_signing_keys := v_signing_keys\<rparr>) = groups_of st"
  "groups_of (st\<lparr>f_consents := v_consents\<rparr>) = groups_of st"
  "groups_of (st\<lparr>f_verification_tokens := v_verification_tokens\<rparr>) = groups_of st"
  "groups_of (st\<lparr>f_audit_events := v_audit_events\<rparr>) = groups_of st"
  "groups_of (st\<lparr>f_passkeys := v_passkeys\<rparr>) = groups_of st"
  by (simp_all add: groups_of_def)

lemma audit_of_frame [simp]:
  "audit_of (st\<lparr>f_users := v_users\<rparr>) = audit_of st"
  "audit_of (st\<lparr>f_clients := v_clients\<rparr>) = audit_of st"
  "audit_of (st\<lparr>f_sessions := v_sessions\<rparr>) = audit_of st"
  "audit_of (st\<lparr>f_auth_codes := v_auth_codes\<rparr>) = audit_of st"
  "audit_of (st\<lparr>f_tokens := v_tokens\<rparr>) = audit_of st"
  "audit_of (st\<lparr>f_revocations := v_revocations\<rparr>) = audit_of st"
  "audit_of (st\<lparr>f_signing_keys := v_signing_keys\<rparr>) = audit_of st"
  "audit_of (st\<lparr>f_consents := v_consents\<rparr>) = audit_of st"
  "audit_of (st\<lparr>f_verification_tokens := v_verification_tokens\<rparr>) = audit_of st"
  "audit_of (st\<lparr>f_groups := v_groups\<rparr>) = audit_of st"
  "audit_of (st\<lparr>f_passkeys := v_passkeys\<rparr>) = audit_of st"
  by (simp_all add: audit_of_def)

lemma passkeys_of_frame [simp]:
  "passkeys_of (st\<lparr>f_users := v_users\<rparr>) = passkeys_of st"
  "passkeys_of (st\<lparr>f_clients := v_clients\<rparr>) = passkeys_of st"
  "passkeys_of (st\<lparr>f_sessions := v_sessions\<rparr>) = passkeys_of st"
  "passkeys_of (st\<lparr>f_auth_codes := v_auth_codes\<rparr>) = passkeys_of st"
  "passkeys_of (st\<lparr>f_tokens := v_tokens\<rparr>) = passkeys_of st"
  "passkeys_of (st\<lparr>f_revocations := v_revocations\<rparr>) = passkeys_of st"
  "passkeys_of (st\<lparr>f_signing_keys := v_signing_keys\<rparr>) = passkeys_of st"
  "passkeys_of (st\<lparr>f_consents := v_consents\<rparr>) = passkeys_of st"
  "passkeys_of (st\<lparr>f_verification_tokens := v_verification_tokens\<rparr>) = passkeys_of st"
  "passkeys_of (st\<lparr>f_groups := v_groups\<rparr>) = passkeys_of st"
  "passkeys_of (st\<lparr>f_audit_events := v_audit_events\<rparr>) = passkeys_of st"
  by (simp_all add: passkeys_of_def)

text \<open>A store is itself with one file put back.\<close>

lemma same_users [intro!]: "\<exists>v. st = st\<lparr>f_users := v\<rparr>"
  by (rule exI [of _ "f_users st"]) simp

lemma same_clients [intro!]: "\<exists>v. st = st\<lparr>f_clients := v\<rparr>"
  by (rule exI [of _ "f_clients st"]) simp

lemma same_sessions [intro!]: "\<exists>v. st = st\<lparr>f_sessions := v\<rparr>"
  by (rule exI [of _ "f_sessions st"]) simp

lemma same_auth_codes [intro!]: "\<exists>v. st = st\<lparr>f_auth_codes := v\<rparr>"
  by (rule exI [of _ "f_auth_codes st"]) simp

lemma same_tokens [intro!]: "\<exists>v. st = st\<lparr>f_tokens := v\<rparr>"
  by (rule exI [of _ "f_tokens st"]) simp

lemma same_revocations [intro!]: "\<exists>v. st = st\<lparr>f_revocations := v\<rparr>"
  by (rule exI [of _ "f_revocations st"]) simp

lemma same_signing_keys [intro!]: "\<exists>v. st = st\<lparr>f_signing_keys := v\<rparr>"
  by (rule exI [of _ "f_signing_keys st"]) simp

lemma same_consents [intro!]: "\<exists>v. st = st\<lparr>f_consents := v\<rparr>"
  by (rule exI [of _ "f_consents st"]) simp

lemma same_verification_tokens [intro!]: "\<exists>v. st = st\<lparr>f_verification_tokens := v\<rparr>"
  by (rule exI [of _ "f_verification_tokens st"]) simp

lemma same_groups [intro!]: "\<exists>v. st = st\<lparr>f_groups := v\<rparr>"
  by (rule exI [of _ "f_groups st"]) simp

lemma same_audit_events [intro!]: "\<exists>v. st = st\<lparr>f_audit_events := v\<rparr>"
  by (rule exI [of _ "f_audit_events st"]) simp

lemma same_passkeys [intro!]: "\<exists>v. st = st\<lparr>f_passkeys := v\<rparr>"
  by (rule exI [of _ "f_passkeys st"]) simp

end
