(* ===== verification/RepoUsers.thy ===== *)
theory RepoUsers
  imports FileStore
begin

text \<open>
  The repositories of users and clients of the file store, and the contract of a repository
  that is keyed by an ID (\<open>internal/store/interfaces.go\<close>): what a lookup returns after
  each operation, and which error a refused operation returns. The contract is a locale; the
  users and the clients are its instances here, other repositories follow in their theories.
\<close>

section \<open>Users\<close>

definition users_Create :: "platform \<Rightarrow> time \<Rightarrow> user \<Rightarrow> fstore \<Rightarrow> goerr option \<times> fstore" where
  "users_Create P now user st =
     (case load_users st of
        Inl e \<Rightarrow> (Some (Internal ''failed to load users'' e), st)
      | Inr us \<Rightarrow>
          (case find (\<lambda>u. user_ID u = user_ID user \<or> EqualFold P (user_Email u) (user_Email user)) us of
             Some u \<Rightarrow>
               (Some (if user_ID u = user_ID user then AlreadyExists ''user'' (user_ID user)
                      else AlreadyExists ''user with email'' (user_Email user)), st)
           | None \<Rightarrow> save_users (us @ [user\<lparr>user_CreatedAt := now, user_UpdatedAt := now\<rparr>]) st))"

definition users_GetByID :: "string \<Rightarrow> fstore \<Rightarrow> user res" where
  "users_GetByID ident st =
     (case load_users st of
        Inl e \<Rightarrow> Inl (Internal ''failed to load users'' e)
      | Inr us \<Rightarrow> (case find (\<lambda>u. user_ID u = ident) us of
                     Some u \<Rightarrow> Inr u | None \<Rightarrow> Inl (NotFound ''user'' ident)))"

definition users_GetByEmail :: "platform \<Rightarrow> string \<Rightarrow> fstore \<Rightarrow> user res" where
  "users_GetByEmail P email st =
     (case load_users st of
        Inl e \<Rightarrow> Inl (Internal ''failed to load users'' e)
      | Inr us \<Rightarrow> (case find (\<lambda>u. EqualFold P (user_Email u) email) us of
                     Some u \<Rightarrow> Inr u | None \<Rightarrow> Inl (NotFound ''user with email'' email)))"

definition users_Update :: "time \<Rightarrow> user \<Rightarrow> fstore \<Rightarrow> goerr option \<times> fstore" where
  "users_Update now user st =
     (case load_users st of
        Inl e \<Rightarrow> (Some (Internal ''failed to load users'' e), st)
      | Inr us \<Rightarrow>
          (case find (\<lambda>u. user_ID u = user_ID user) us of
             Some _ \<Rightarrow>
               save_users (upd_first (\<lambda>u. user_ID u = user_ID user) (\<lambda>_. user\<lparr>user_UpdatedAt := now\<rparr>) us) st
           | None \<Rightarrow> (Some (NotFound ''user'' (user_ID user)), st)))"

definition users_Delete :: "string \<Rightarrow> fstore \<Rightarrow> goerr option \<times> fstore" where
  "users_Delete ident st =
     (case load_users st of
        Inl e \<Rightarrow> (Some (Internal ''failed to load users'' e), st)
      | Inr us \<Rightarrow>
          (case find (\<lambda>u. user_ID u = ident) us of
             Some _ \<Rightarrow> save_users (del_first (\<lambda>u. user_ID u = ident) us) st
           | None \<Rightarrow> (Some (NotFound ''user'' ident), st)))"

definition users_List :: "fstore \<Rightarrow> user list res" where
  "users_List st =
     (case load_users st of
        Inl e \<Rightarrow> Inl (Internal ''failed to load users'' e)
      | Inr us \<Rightarrow> Inr us)"

section \<open>Clients\<close>

definition clients_Create :: "time \<Rightarrow> client \<Rightarrow> fstore \<Rightarrow> goerr option \<times> fstore" where
  "clients_Create now client st =
     (case load_clients st of
        Inl e \<Rightarrow> (Some (Internal ''failed to load clients'' e), st)
      | Inr cs \<Rightarrow>
          (case find (\<lambda>c. client_ID c = client_ID client) cs of
             Some _ \<Rightarrow> (Some (AlreadyExists ''client'' (client_ID client)), st)
           | None \<Rightarrow>
               save_clients (cs @ [client\<lparr>client_CreatedAt := now, client_UpdatedAt := now\<rparr>]) st))"

definition clients_GetByID :: "string \<Rightarrow> fstore \<Rightarrow> client res" where
  "clients_GetByID ident st =
     (case load_clients st of
        Inl e \<Rightarrow> Inl (Internal ''failed to load clients'' e)
      | Inr cs \<Rightarrow> (case find (\<lambda>c. client_ID c = ident) cs of
                     Some c \<Rightarrow> Inr c | None \<Rightarrow> Inl (NotFound ''client'' ident)))"

definition clients_Update :: "time \<Rightarrow> client \<Rightarrow> fstore \<Rightarrow> goerr option \<times> fstore" where
  "clients_Update now client st =
     (case load_clients st of
        Inl e \<Rightarrow> (Some (Internal ''failed to load clients'' e), st)
      | Inr cs \<Rightarrow>
          (case find (\<lambda>c. client_ID c = client_ID client) cs of
             Some _ \<Rightarrow>
               save_clients
                 (upd_first (\<lambda>c. client_ID c = client_ID client) (\<lambda>_. client\<lparr>client_UpdatedAt := now\<rparr>) cs) st
           | None \<Rightarrow> (Some (NotFound ''client'' (client_ID client)), st)))"

definition clients_Delete :: "string \<Rightarrow> fstore \<Rightarrow> goerr option \<times> fstore" where
  "clients_Delete ident st =
     (case load_clients st of
        Inl e \<Rightarrow> (Some (Internal ''failed to load clients'' e), st)
      | Inr cs \<Rightarrow>
          (case find (\<lambda>c. client_ID c = ident) cs of
             Some _ \<Rightarrow> save_clients (del_first (\<lambda>c. client_ID c = ident) cs) st
           | None \<Rightarrow> (Some (NotFound ''client'' ident), st)))"

definition clients_List :: "fstore \<Rightarrow> client list res" where
  "clients_List st =
     (case load_clients st of
        Inl e \<Rightarrow> Inl (Internal ''failed to load clients'' e)
      | Inr cs \<Rightarrow> Inr cs)"

section \<open>The contract of a keyed repository\<close>

text \<open>
  \<open>look s\<close> is the repository as a map. \<open>ready s\<close> says that its storage works and
  that its representation invariant holds; every operation keeps it. \<open>stamp now v\<close> is
  what \<open>Create\<close> stores for \<open>v\<close>, \<open>touch now v\<close> what \<open>Update\<close> does.
\<close>

locale keyed_repository =
  fixes look :: "'s \<Rightarrow> string \<rightharpoonup> 'v"
    and ready :: "'s \<Rightarrow> bool"
    and key :: "'v \<Rightarrow> string"
    and get :: "string \<Rightarrow> 's \<Rightarrow> 'v res"
    and create :: "time \<Rightarrow> 'v \<Rightarrow> 's \<Rightarrow> goerr option \<times> 's"
    and update :: "time \<Rightarrow> 'v \<Rightarrow> 's \<Rightarrow> goerr option \<times> 's"
    and delete :: "string \<Rightarrow> 's \<Rightarrow> goerr option \<times> 's"
    and stamp :: "time \<Rightarrow> 'v \<Rightarrow> 'v"
    and touch :: "time \<Rightarrow> 'v \<Rightarrow> 'v"
  assumes get_Some: "ready s \<Longrightarrow> look s k = Some v \<Longrightarrow> get k s = Inr v"
    and get_None: "ready s \<Longrightarrow> look s k = None \<Longrightarrow> \<exists>e. get k s = Inl e \<and> IsCode e CodeNotFound"
    and create_Ok: "ready s \<Longrightarrow> create now v s = (None, s') \<Longrightarrow>
      look s (key v) = None \<and> look s' = (look s)(key v \<mapsto> stamp now v) \<and> ready s'"
    and create_Err: "ready s \<Longrightarrow> create now v s = (Some e, s') \<Longrightarrow> s' = s \<and> IsCode e CodeAlreadyExists"
    and update_present: "ready s \<Longrightarrow> look s (key v) \<noteq> None \<Longrightarrow>
      \<exists>s'. update now v s = (None, s') \<and> look s' = (look s)(key v \<mapsto> touch now v) \<and> ready s'"
    and update_absent: "ready s \<Longrightarrow> look s (key v) = None \<Longrightarrow>
      \<exists>e. update now v s = (Some e, s) \<and> IsCode e CodeNotFound"
    and delete_present: "ready s \<Longrightarrow> look s k \<noteq> None \<Longrightarrow>
      \<exists>s'. delete k s = (None, s') \<and> look s' = (look s)(k := None) \<and> ready s'"
    and delete_absent: "ready s \<Longrightarrow> look s k = None \<Longrightarrow>
      \<exists>e. delete k s = (Some e, s) \<and> IsCode e CodeNotFound"
begin

lemma get_iff: "ready s \<Longrightarrow> get k s = Inr v \<longleftrightarrow> look s k = Some v"
  using get_Some [of s k] get_None [of s k] by (cases "look s k") auto

lemma get_after_create:
  "ready s \<Longrightarrow> create now v s = (None, s') \<Longrightarrow> get (key v) s' = Inr (stamp now v)"
  using create_Ok get_Some by fastforce

lemma create_keeps_others:
  "ready s \<Longrightarrow> create now v s = (None, s') \<Longrightarrow> k \<noteq> key v \<Longrightarrow> get k s' = Inr w \<longleftrightarrow> get k s = Inr w"
  using create_Ok [of s now v s'] get_iff by auto

lemma create_duplicate:
  "ready s \<Longrightarrow> look s (key v) \<noteq> None \<Longrightarrow> \<exists>e. create now v s = (Some e, s) \<and> IsCode e CodeAlreadyExists"
  using create_Ok create_Err by (metis not_None_eq surj_pair)

lemma update_then_get:
  "ready s \<Longrightarrow> update now v s = (None, s') \<Longrightarrow> get (key v) s' = Inr (touch now v)"
  using update_present update_absent get_Some
  by (metis fun_upd_same not_None_eq option.distinct(1) prod.inject)

lemma delete_then_get:
  assumes "ready s" and "delete k s = (None, s')"
  shows "\<exists>e. get k s' = Inl e \<and> IsCode e CodeNotFound"
proof -
  have "look s k \<noteq> None" using delete_absent [of s k] assms by fastforce
  then obtain s'' where "delete k s = (None, s'')" "look s'' = (look s)(k := None)" "ready s''"
    using delete_present assms(1) by blast
  with assms(2) show ?thesis using get_None [of s' k] by simp
qed

lemma ready_create: "ready s \<Longrightarrow> ready (snd (create now v s))"
  using create_Ok create_Err by (metis not_None_eq prod.exhaust_sel)

lemma ready_update: "ready s \<Longrightarrow> ready (snd (update now v s))"
  using update_present [of s v now] update_absent [of s v now] by (cases "look s (key v)") auto

lemma ready_delete: "ready s \<Longrightarrow> ready (snd (delete k s))"
  using delete_present [of s k] delete_absent [of s k] by (cases "look s k") auto

end

text \<open>The proof that the two repositories of this theory meet it.\<close>

definition users_ready :: "fstore \<Rightarrow> bool" where
  "users_ready st \<longleftrightarrow> readable (f_users st) \<and> write_err st ''users'' = None
     \<and> distinct (map user_ID (users_of st))"

definition clients_ready :: "fstore \<Rightarrow> bool" where
  "clients_ready st \<longleftrightarrow> readable (f_clients st) \<and> write_err st ''clients'' = None
     \<and> distinct (map client_ID (clients_of st))"

lemma users_ready_load: "users_ready st \<Longrightarrow> load_users st = Inr (users_of st)"
  by (simp add: users_ready_def readable_load)

lemma clients_ready_load: "clients_ready st \<Longrightarrow> load_clients st = Inr (clients_of st)"
  by (simp add: clients_ready_def readable_load)

lemma users_ready_save:
  "users_ready st \<Longrightarrow> save_users us st = (None, st\<lparr>f_users := Content us\<rparr>)"
  by (simp add: users_ready_def save_users_def writeFile_def)

lemma clients_ready_save:
  "clients_ready st \<Longrightarrow> save_clients cs st = (None, st\<lparr>f_clients := Content cs\<rparr>)"
  by (simp add: clients_ready_def save_clients_def writeFile_def)

lemma users_ready_put:
  "users_ready st \<Longrightarrow> distinct (map user_ID us) \<Longrightarrow> users_ready (st\<lparr>f_users := Content us\<rparr>)"
  by (simp add: users_ready_def)

lemma clients_ready_put:
  "clients_ready st \<Longrightarrow> distinct (map client_ID cs) \<Longrightarrow> clients_ready (st\<lparr>f_clients := Content cs\<rparr>)"
  by (simp add: clients_ready_def)

lemmas users_ready_rules = users_ready_load users_ready_save users_ready_put
lemmas clients_ready_rules = clients_ready_load clients_ready_save clients_ready_put

lemma distinct_upd_first_key:
  "distinct (map key xs) \<Longrightarrow> key v = k \<Longrightarrow> distinct (map key (upd_first (\<lambda>x. key x = k) (\<lambda>_. v) xs))"
  by (subst map_upd_first) auto

interpretation users: keyed_repository
  "\<lambda>st. lookup_by user_ID (users_of st)" users_ready user_ID users_GetByID "users_Create P"
  users_Update users_Delete
  "\<lambda>now u. u\<lparr>user_CreatedAt := now, user_UpdatedAt := now\<rparr>" "\<lambda>now u. u\<lparr>user_UpdatedAt := now\<rparr>"
  for P
proof (unfold_locales, goal_cases)
  case (1 s k v)
  then show ?case by (simp add: users_GetByID_def users_ready_load lookup_by_def)
next
  case (2 s k)
  then show ?case by (simp add: users_GetByID_def users_ready_load lookup_by_def)
next
  case (3 s now v s')
  then have new: "find (\<lambda>u. user_ID u = user_ID v \<or> EqualFold P (user_Email u) (user_Email v)) (users_of s) = None"
    and s': "s' = s\<lparr>f_users := Content (users_of s @ [v\<lparr>user_CreatedAt := now, user_UpdatedAt := now\<rparr>])\<rparr>"
    by (auto simp: users_Create_def users_ready_load users_ready_save split: option.splits)
  from new have "lookup_by user_ID (users_of s) (user_ID v) = None"
    by (auto simp: lookup_by_None_iff find_None_iff)
  with 3(1) show ?case unfolding s'
    by (simp add: users_ready_def lookup_by_snoc distinct_snoc_key del: map_append)
next
  case (4 s now v e s')
  then show ?case by (auto simp: users_Create_def users_ready_load users_ready_save split: option.splits)
next
  case (5 s v now)
  then show ?case
    using lookup_by_upd_first [of user_ID "users_of s" "user_ID v" "\<lambda>_. v\<lparr>user_UpdatedAt := now\<rparr>"]
      distinct_upd_first_key [of user_ID "users_of s" "v\<lparr>user_UpdatedAt := now\<rparr>" "user_ID v"]
    by (auto simp: users_Update_def users_ready_rules lookup_by_def users_ready_def [of s])
next
  case (6 s v now)
  then show ?case by (auto simp: users_Update_def users_ready_load lookup_by_def)
next
  case (7 s k)
  then show ?case
    using lookup_by_del_first [of user_ID "users_of s" k] distinct_map_del_first [of user_ID "users_of s"]
    by (auto simp: users_Delete_def users_ready_rules lookup_by_def users_ready_def [of s])
next
  case (8 s k)
  then show ?case by (auto simp: users_Delete_def users_ready_load lookup_by_def)
qed

interpretation clients: keyed_repository
  "\<lambda>st. lookup_by client_ID (clients_of st)" clients_ready client_ID clients_GetByID clients_Create
  clients_Update clients_Delete
  "\<lambda>now c. c\<lparr>client_CreatedAt := now, client_UpdatedAt := now\<rparr>" "\<lambda>now c. c\<lparr>client_UpdatedAt := now\<rparr>"
proof (unfold_locales, goal_cases)
  case (1 s k v)
  then show ?case by (simp add: clients_GetByID_def clients_ready_load lookup_by_def)
next
  case (2 s k)
  then show ?case by (simp add: clients_GetByID_def clients_ready_load lookup_by_def)
next
  case (3 s now v s')
  then have new: "lookup_by client_ID (clients_of s) (client_ID v) = None"
    and s': "s' = s\<lparr>f_clients := Content (clients_of s @ [v\<lparr>client_CreatedAt := now, client_UpdatedAt := now\<rparr>])\<rparr>"
    by (auto simp: clients_Create_def clients_ready_load clients_ready_save lookup_by_def split: option.splits)
  from new 3(1) show ?case unfolding s'
    by (simp add: clients_ready_def lookup_by_snoc distinct_snoc_key del: map_append)
next
  case (4 s now v e s')
  then show ?case by (auto simp: clients_Create_def clients_ready_load clients_ready_save split: option.splits)
next
  case (5 s v now)
  then show ?case
    using lookup_by_upd_first [of client_ID "clients_of s" "client_ID v" "\<lambda>_. v\<lparr>client_UpdatedAt := now\<rparr>"]
      distinct_upd_first_key [of client_ID "clients_of s" "v\<lparr>client_UpdatedAt := now\<rparr>" "client_ID v"]
    by (auto simp: clients_Update_def clients_ready_rules lookup_by_def clients_ready_def [of s])
next
  case (6 s v now)
  then show ?case by (auto simp: clients_Update_def clients_ready_load lookup_by_def)
next
  case (7 s k)
  then show ?case
    using lookup_by_del_first [of client_ID "clients_of s" k]
      distinct_map_del_first [of client_ID "clients_of s"]
    by (auto simp: clients_Delete_def clients_ready_rules lookup_by_def clients_ready_def [of s])
next
  case (8 s k)
  then show ?case by (auto simp: clients_Delete_def clients_ready_load lookup_by_def)
qed

section \<open>Email addresses\<close>

text \<open>
  No two users share an email address up to case folding: \<open>Create\<close> and \<open>Delete\<close>
  keep that, and \<open>Update\<close> keeps it when the address is not changed.
\<close>

definition emails_distinct :: "platform \<Rightarrow> user list \<Rightarrow> bool" where
  "emails_distinct P us \<longleftrightarrow> distinct (map (\<lambda>u. fold_key P (user_Email u)) us)"

lemma users_Create_emails:
  assumes "emails_distinct P (users_of st)"
  shows "emails_distinct P (users_of (snd (users_Create P now u st)))"
proof (cases "load_users st")
  case (Inl e)
  then show ?thesis using assms by (simp add: users_Create_def)
next
  case (Inr us)
  show ?thesis
  proof (cases "find (\<lambda>v. user_ID v = user_ID u \<or> EqualFold P (user_Email v) (user_Email u)) us")
    case None
    then have "fold_key P (user_Email u) \<notin> (\<lambda>v. fold_key P (user_Email v)) ` set us"
      by (auto simp: find_None_iff EqualFold_def)
    with None Inr assms show ?thesis
      by (auto simp: users_of_def users_Create_def emails_distinct_def save_users_def writeFile_def split: option.splits)
  next
    case (Some v)
    with Inr assms show ?thesis by (simp add: users_Create_def)
  qed
qed

lemma users_Delete_emails:
  assumes "emails_distinct P (users_of st)"
  shows "emails_distinct P (users_of (snd (users_Delete k st)))"
  using assms
  by (auto simp: users_Delete_def users_of_def [of st] emails_distinct_def save_users_def writeFile_def distinct_map_del_first
      split: sum.splits option.splits)

lemma users_Update_emails:
  assumes "emails_distinct P (users_of st)"
    and "lookup_by user_ID (users_of st) (user_ID u) = Some w" and "user_Email u = user_Email w"
    and "users_ready st"
  shows "emails_distinct P (users_of (snd (users_Update now u st)))"
proof -
  have "map (\<lambda>v. fold_key P (user_Email v))
      (upd_first (\<lambda>v. user_ID v = user_ID u) (\<lambda>_. u\<lparr>user_UpdatedAt := now\<rparr>) xs) =
      map (\<lambda>v. fold_key P (user_Email v)) xs"
    if "lookup_by user_ID xs (user_ID u) = Some w" for xs
    using that assms(3) by (induction xs) (auto simp: lookup_by_def split: if_splits)
  from this [OF assms(2)] assms show ?thesis
    by (auto simp: users_Update_def users_ready_rules lookup_by_def emails_distinct_def)
qed

lemma users_GetByEmail_D:
  "users_GetByEmail P email st = Inr u \<Longrightarrow> u \<in> set (users_of st) \<and> EqualFold P (user_Email u) email"
  by (auto simp: users_GetByEmail_def users_of_def split: sum.splits option.splits dest: find_Some_D)

lemma users_GetByID_D:
  "users_GetByID k st = Inr u \<Longrightarrow> u \<in> set (users_of st) \<and> user_ID u = k"
  by (auto simp: users_GetByID_def users_of_def split: sum.splits option.splits dest: find_Some_D)

lemma clients_GetByID_D:
  "clients_GetByID k st = Inr c \<Longrightarrow> c \<in> set (clients_of st) \<and> client_ID c = k"
  by (auto simp: clients_GetByID_def clients_of_def split: sum.splits option.splits dest: find_Some_D)

end
