(* ===== verification/Password.thy ===== *)
theory Password
  imports Encoding RepoUsers
begin

text \<open>
  Password hashing (\<open>internal/auth/password.go\<close>) and the secrets of clients, which use
  the same scheme (\<open>internal/oidc/clientsecret.go\<close>). Argon2id is a parameter of the
  platform; the salt that \<open>rand.Read\<close> returns, or its error, is an argument.
\<close>

section \<open>Passwords\<close>

definition argonTime :: int where
  "argonTime = 1"

definition argonMemory :: int where
  "argonMemory = 64 * 1024"

definition argonThreads :: int where
  "argonThreads = 4"

definition argonKeyLen :: int where
  "argonKeyLen = 32"

text \<open>\<open>argon2.Version\<close>, the version number of the algorithm.\<close>

definition argon2_Version :: nat where
  "argon2_Version = 19"

definition HashPassword :: "platform \<Rightarrow> string res \<Rightarrow> string \<Rightarrow> string res" where
  "HashPassword P salt password =
     (case salt of
        Inl e \<Rightarrow> Inl (Wrapped ''failed to generate salt'' e)
      | Inr salt \<Rightarrow>
          (let hash = argon2_IDKey P password salt argonTime argonMemory argonThreads argonKeyLen;
               b64Salt = RawStdEncoding_EncodeToString salt;
               b64Hash = RawStdEncoding_EncodeToString hash
           in Inr (''$argon2id$v='' @ digits10 argon2_Version @ ''$m='' @ digits10 (nat argonMemory) @ '',t='' @
                   digits10 (nat argonTime) @ '',p='' @ digits10 (nat argonThreads) @ ''$'' @ b64Salt @ ''$'' @ b64Hash)))"

text \<open>\<open>fmt.Sscanf\<close> with the formats \<open>v=%d\<close> and \<open>m=%d,t=%d,p=%d\<close>.\<close>

definition Sscanf_version :: "string \<Rightarrow> int option" where
  "Sscanf_version s =
     (case literal ''v='' s of
        None \<Rightarrow> None
      | Some r \<Rightarrow> map_option fst (scan_int r))"

definition Sscanf_params :: "string \<Rightarrow> (nat \<times> nat \<times> nat) option" where
  "Sscanf_params s =
     (case literal ''m='' s of None \<Rightarrow> None | Some r \<Rightarrow>
      (case scan_uint 32 r of None \<Rightarrow> None | Some (m, r) \<Rightarrow>
      (case literal '',t='' r of None \<Rightarrow> None | Some r \<Rightarrow>
      (case scan_uint 32 r of None \<Rightarrow> None | Some (t, r) \<Rightarrow>
      (case literal '',p='' r of None \<Rightarrow> None | Some r \<Rightarrow>
      (case scan_uint 8 r of None \<Rightarrow> None | Some (p, _) \<Rightarrow> Some (m, t, p)))))))"

text \<open>
  The version is parsed and not used. \<open>argon2.IDKey\<close> panics on zero rounds or zero
  threads, which only a stored hash that this program did not write can ask for; that is the
  last error branch.
\<close>

definition VerifyPassword :: "platform \<Rightarrow> string \<Rightarrow> string \<Rightarrow> bool res" where
  "VerifyPassword P password encodedHash =
     (let parts = Split CHR ''$'' encodedHash
      in if length parts \<noteq> 6 then Inl (Plain ''invalid hash format'')
         else if parts ! 1 \<noteq> ''argon2id'' then Inl (Plain (''unsupported algorithm: '' @ parts ! 1))
         else case Sscanf_version (parts ! 2) of
           None \<Rightarrow> Inl (Wrapped ''invalid version'' (Plain ''scan''))
         | Some version \<Rightarrow>
         (case Sscanf_params (parts ! 3) of
           None \<Rightarrow> Inl (Wrapped ''invalid parameters'' (Plain ''scan''))
         | Some (memory, time, threads) \<Rightarrow>
         (case RawStdEncoding_DecodeString (parts ! 4) of
           Inl e \<Rightarrow> Inl (Wrapped ''invalid salt'' e)
         | Inr salt \<Rightarrow>
         (case RawStdEncoding_DecodeString (parts ! 5) of
           Inl e \<Rightarrow> Inl (Wrapped ''invalid hash'' e)
         | Inr expectedHash \<Rightarrow>
             if time < 1 \<or> threads < 1 then Inl (Plain ''panic: argon2'')
             else Inr (argon2_IDKey P password salt (int time) (int memory) (int threads) (int (length expectedHash))
                       = expectedHash)))))"

text \<open>Argon2 returns as many bytes as it is asked for.\<close>

definition argon2_length :: "platform \<Rightarrow> bool" where
  "argon2_length P \<longleftrightarrow> (\<forall>pw salt t m p. length (argon2_IDKey P pw salt t m p argonKeyLen) = nat argonKeyLen)"

lemma Split_append: "sep \<notin> set a \<Longrightarrow> Split sep (a @ sep # b) = a # Split sep b"
  by (induction a) auto

lemma Split_single: "sep \<notin> set a \<Longrightarrow> Split sep a = [a]"
  by (induction a) auto

lemma digits10_no_dollar: "CHR ''$'' \<notin> set (digits10 n)"
  using digits10_is_digit [of "CHR ''$''" n] by (auto simp: is_digit_def)

lemma RawStd_no_dollar: "CHR ''$'' \<notin> set (RawStdEncoding_EncodeToString s)"
  using raw_encode_set [OF length_alphabets(1), of s]
  by (auto simp: RawStdEncoding_EncodeToString_def alphabet_std_def)

lemma Sscanf_version_ok: "n < 2 ^ 63 \<Longrightarrow> Sscanf_version (''v='' @ digits10 n) = Some (int n)"
  using scan_int_digits10 [of n "[]"] by (simp add: Sscanf_version_def del: append_Cons)

lemma Sscanf_params_ok:
  assumes "m < 2 ^ 32" and "t < 2 ^ 32" and "p < 2 ^ 8"
  shows "Sscanf_params (''m='' @ digits10 m @ '',t='' @ digits10 t @ '',p='' @ digits10 p) = Some (m, t, p)"
proof -
  have "scan_uint 32 (digits10 m @ '',t='' @ digits10 t @ '',p='' @ digits10 p) =
      Some (m, '',t='' @ digits10 t @ '',p='' @ digits10 p)"
    by (rule scan_uint_digits10) (use assms in \<open>simp_all add: is_digit_def\<close>)
  moreover have "scan_uint 32 (digits10 t @ '',p='' @ digits10 p) = Some (t, '',p='' @ digits10 p)"
    by (rule scan_uint_digits10) (use assms in \<open>simp_all add: is_digit_def\<close>)
  moreover have "scan_uint 8 (digits10 p) = Some (p, [])"
    using scan_uint_digits10 [of p 8 "[]"] assms by simp
  ultimately show ?thesis by (simp add: Sscanf_params_def del: append_Cons)
qed

lemma HashPassword_parts:
  assumes "HashPassword P (Inr salt) password = Inr h"
  shows "Split CHR ''$'' h = ['''', ''argon2id'', ''v='' @ digits10 argon2_Version,
     ''m='' @ digits10 (nat argonMemory) @ '',t='' @ digits10 (nat argonTime) @ '',p='' @ digits10 (nat argonThreads),
     RawStdEncoding_EncodeToString salt,
     RawStdEncoding_EncodeToString
       (argon2_IDKey P password salt argonTime argonMemory argonThreads argonKeyLen)]"
proof -
  let ?a = "''argon2id''" and ?v = "''v='' @ digits10 argon2_Version"
    and ?p = "''m='' @ digits10 (nat argonMemory) @ '',t='' @ digits10 (nat argonTime) @ '',p='' @ digits10 (nat argonThreads)"
    and ?s = "RawStdEncoding_EncodeToString salt"
    and ?h = "RawStdEncoding_EncodeToString (argon2_IDKey P password salt argonTime argonMemory argonThreads argonKeyLen)"
  have "h = [] @ CHR ''$'' # (?a @ CHR ''$'' # (?v @ CHR ''$'' # (?p @ CHR ''$'' # (?s @ CHR ''$'' # ?h))))"
    using assms by (simp add: HashPassword_def Let_def)
  then show ?thesis
    by (simp only: Split_append Split_single RawStd_no_dollar)
      (simp add: Split_append Split_single digits10_no_dollar RawStd_no_dollar del: append_Cons append_assoc)
qed

text \<open>
  A hash made by \<open>HashPassword\<close> verifies exactly the passwords with the same Argon2 key,
  the hashed one among them.
\<close>

lemma Verify_after_Hash:
  assumes "HashPassword P (Inr salt) password = Inr h" and "argon2_length P"
  shows "VerifyPassword P guess h =
    Inr (argon2_IDKey P guess salt argonTime argonMemory argonThreads argonKeyLen =
         argon2_IDKey P password salt argonTime argonMemory argonThreads argonKeyLen)"
proof -
  have "Sscanf_version (''v='' @ digits10 argon2_Version) = Some 19"
    using Sscanf_version_ok [of argon2_Version] by (simp add: argon2_Version_def)
  moreover have "Sscanf_params (''m='' @ digits10 (nat argonMemory) @ '',t='' @ digits10 (nat argonTime) @ '',p='' @ digits10 (nat argonThreads)) =
      Some (nat argonMemory, nat argonTime, nat argonThreads)"
    by (rule Sscanf_params_ok) (simp_all add: argonMemory_def argonTime_def argonThreads_def)
  ultimately show ?thesis
    using assms(2) unfolding VerifyPassword_def HashPassword_parts [OF assms(1)]
    by (simp add: argon2_length_def argonTime_def argonThreads_def argonMemory_def argonKeyLen_def
        nat_mult_distrib)
qed

section \<open>Client secrets\<close>

definition clientSecretHashPrefix :: string where
  "clientSecretHashPrefix = ''$argon2id$''"

definition HashClientSecret :: "platform \<Rightarrow> string res \<Rightarrow> string \<Rightarrow> string res" where
  "HashClientSecret P salt secret = HashPassword P salt secret"

definition IsHashedClientSecret :: "string \<Rightarrow> bool" where
  "IsHashedClientSecret stored \<longleftrightarrow> HasPrefix stored clientSecretHashPrefix"

definition VerifyClientSecret :: "platform \<Rightarrow> string \<Rightarrow> string \<Rightarrow> bool \<times> bool" where
  "VerifyClientSecret P stored presented =
     (if stored = '''' \<or> presented = '''' then (False, False)
      else if IsHashedClientSecret stored
      then ((case VerifyPassword P presented stored of Inr match \<Rightarrow> match | Inl _ \<Rightarrow> False), False)
      else (stored = presented, True))"

text \<open>
  \<open>authenticateClient\<close> works on the caller's copy of the client: the result is whether
  the secret is right, the client with the upgraded secret, and the store. A failed upgrade is
  only logged. (The time stamp that \<open>Update\<close> leaves on the caller's copy is not read
  again and is left out.)
\<close>

definition authenticateClient ::
    "platform \<Rightarrow> string res \<Rightarrow> time \<Rightarrow> client \<Rightarrow> string \<Rightarrow> fstore \<Rightarrow> bool \<times> client \<times> fstore" where
  "authenticateClient P salt now client presented st =
     (if client_Public client then (True, client, st)
      else case VerifyClientSecret P (client_Secret client) presented of (ok, legacy) \<Rightarrow>
        if \<not> ok then (False, client, st)
        else if legacy then
          (case HashClientSecret P salt presented of
             Inr hash \<Rightarrow>
               (let client1 = client\<lparr>client_Secret := hash\<rparr>
                in (True, client1, snd (clients_Update now client1 st)))
           | Inl _ \<Rightarrow> (True, client, st))
        else (True, client, st))"

definition client_credentials_ok :: "platform \<Rightarrow> client \<Rightarrow> string \<Rightarrow> bool" where
  "client_credentials_ok P client presented \<longleftrightarrow>
     client_Public client \<or> fst (VerifyClientSecret P (client_Secret client) presented)"

lemma clients_Update_frame: "\<exists>v. snd (clients_Update now c st) = st\<lparr>f_clients := v\<rparr>"
  by (auto simp: clients_Update_def save_clients_def writeFile_def split: sum.splits option.splits)

lemma authenticateClient_spec:
  assumes "authenticateClient P salt now c presented st = (ok, c', st')"
  shows "ok \<longleftrightarrow> client_credentials_ok P c presented"
    and "\<exists>s. c' = c\<lparr>client_Secret := s\<rparr>"
    and "\<exists>v. st' = st\<lparr>f_clients := v\<rparr>"
proof -
  have same: "\<exists>s. x = x\<lparr>client_Secret := s\<rparr>" for x :: client
    by (rule exI [of _ "client_Secret x"]) simp
  show "ok \<longleftrightarrow> client_credentials_ok P c presented"
    using assms
    by (auto simp: authenticateClient_def client_credentials_ok_def Let_def split: prod.splits if_splits sum.splits)
  show "\<exists>s. c' = c\<lparr>client_Secret := s\<rparr>"
    using assms same
    by (auto simp: authenticateClient_def Let_def split: prod.splits if_splits sum.splits)
  show "\<exists>v. st' = st\<lparr>f_clients := v\<rparr>"
    using assms clients_Update_frame
    by (auto simp: authenticateClient_def Let_def split: prod.splits if_splits sum.splits)
qed

lemma IsHashed_HashPassword: "HashPassword P (Inr salt) pw = Inr h \<Longrightarrow> IsHashedClientSecret h"
  by (auto simp: HashPassword_def IsHashedClientSecret_def HasPrefix_def clientSecretHashPrefix_def Let_def)

text \<open>
  A secret still stored in the clear is replaced by a hash on its first correct use, and the
  same secret goes on working; no other client changes.
\<close>

lemma authenticateClient_upgrades:
  assumes "clients_ready st" and "lookup_by client_ID (clients_of st) (client_ID c) = Some c"
    and "\<not> client_Public c" and "client_Secret c = secret" and "secret \<noteq> ''''"
    and "\<not> IsHashedClientSecret secret" and "argon2_length P"
  shows "\<exists>c' st'. authenticateClient P (Inr salt) now c secret st = (True, c', st')
    \<and> IsHashedClientSecret (client_Secret c')
    \<and> VerifyClientSecret P (client_Secret c') secret = (True, False)
    \<and> lookup_by client_ID (clients_of st') =
        (lookup_by client_ID (clients_of st))(client_ID c \<mapsto> c'\<lparr>client_UpdatedAt := now\<rparr>)"
proof -
  obtain h where h: "HashPassword P (Inr salt) secret = Inr h" by (simp add: HashPassword_def Let_def)
  let ?c = "c\<lparr>client_Secret := h\<rparr>"
  have hashed: "IsHashedClientSecret h" by (rule IsHashed_HashPassword [OF h])
  then have "h \<noteq> ''''" by (auto simp: IsHashedClientSecret_def HasPrefix_def clientSecretHashPrefix_def)
  then have "VerifyClientSecret P h secret = (True, False)"
    using hashed assms(5) by (simp add: VerifyClientSecret_def Verify_after_Hash [OF h assms(7)])
  moreover obtain st' where up: "clients_Update now ?c st = (None, st')"
      "lookup_by client_ID (clients_of st') = (lookup_by client_ID (clients_of st))(client_ID c \<mapsto> ?c\<lparr>client_UpdatedAt := now\<rparr>)"
    using clients.update_present [OF assms(1), of ?c now] assms(2) by auto
  moreover have "authenticateClient P (Inr salt) now c secret st = (True, ?c, st')"
    using assms h up(1)
    by (simp add: authenticateClient_def VerifyClientSecret_def HashClientSecret_def Let_def)
  ultimately show ?thesis using hashed by simp
qed

end
