(* ===== verification/RepoSessions.thy ===== *)
theory RepoSessions
  imports FileStore
begin

text \<open>
  The repositories of sessions and authorization codes of the file store, and the contract of
  a consume-once record: the operation that consumes it succeeds for exactly one of any number
  of calls, the others get a conflict (\<open>AuthCodeRepository.MarkUsed\<close> and
  \<open>TokenRepository.Rotate\<close> in \<open>internal/store/interfaces.go\<close>).
\<close>

section \<open>Sessions\<close>

definition sessions_Create :: "time \<Rightarrow> session \<Rightarrow> fstore \<Rightarrow> goerr option \<times> fstore" where
  "sessions_Create now s st =
     (case load_sessions st of
        Inl e \<Rightarrow> (Some (Internal ''failed to load sessions'' e), st)
      | Inr ss \<Rightarrow> save_sessions (ss @ [s\<lparr>session_CreatedAt := now\<rparr>]) st)"

definition sessions_GetByID :: "string \<Rightarrow> fstore \<Rightarrow> session res" where
  "sessions_GetByID ident st =
     (case load_sessions st of
        Inl e \<Rightarrow> Inl (Internal ''failed to load sessions'' e)
      | Inr ss \<Rightarrow> (case find (\<lambda>s. session_ID s = ident) ss of
                     Some s \<Rightarrow> Inr s | None \<Rightarrow> Inl (NotFound ''session'' ident)))"

definition sessions_Delete :: "string \<Rightarrow> fstore \<Rightarrow> goerr option \<times> fstore" where
  "sessions_Delete ident st =
     (case load_sessions st of
        Inl e \<Rightarrow> (Some (Internal ''failed to load sessions'' e), st)
      | Inr ss \<Rightarrow>
          (case find (\<lambda>s. session_ID s = ident) ss of
             Some _ \<Rightarrow> save_sessions (del_first (\<lambda>s. session_ID s = ident) ss) st
           | None \<Rightarrow> (Some (NotFound ''session'' ident), st)))"

definition sessions_DeleteByUserID :: "string \<Rightarrow> fstore \<Rightarrow> goerr option \<times> fstore" where
  "sessions_DeleteByUserID userID st =
     (case load_sessions st of
        Inl e \<Rightarrow> (Some (Internal ''failed to load sessions'' e), st)
      | Inr ss \<Rightarrow> save_sessions (filter (\<lambda>s. session_UserID s \<noteq> userID) ss) st)"

definition sessions_DeleteExpired :: "time \<Rightarrow> fstore \<Rightarrow> goerr option \<times> fstore" where
  "sessions_DeleteExpired now st =
     (case load_sessions st of
        Inl e \<Rightarrow> (Some (Internal ''failed to load sessions'' e), st)
      | Inr ss \<Rightarrow> save_sessions (filter (\<lambda>s. session_ExpiresAt s > now) ss) st)"

text \<open>
  \<open>sort.Slice\<close> leaves the order of equal elements open; the model takes the stable one.
\<close>

definition sessions_ListByUserID :: "time \<Rightarrow> string \<Rightarrow> fstore \<Rightarrow> session list res" where
  "sessions_ListByUserID now userID st =
     (case load_sessions st of
        Inl e \<Rightarrow> Inl (Internal ''failed to load sessions'' e)
      | Inr ss \<Rightarrow>
          Inr (sort_key (\<lambda>s. - session_CreatedAt s)
                 (filter (\<lambda>s. session_UserID s = userID \<and> session_ExpiresAt s > now) ss)))"

section \<open>Authorization codes\<close>

definition codes_Create :: "time \<Rightarrow> auth_code \<Rightarrow> fstore \<Rightarrow> goerr option \<times> fstore" where
  "codes_Create now c st =
     (case load_auth_codes st of
        Inl e \<Rightarrow> (Some (Internal ''failed to load auth codes'' e), st)
      | Inr acs \<Rightarrow> save_auth_codes (acs @ [c\<lparr>code_CreatedAt := now\<rparr>]) st)"

definition codes_GetByCode :: "string \<Rightarrow> fstore \<Rightarrow> auth_code res" where
  "codes_GetByCode code st =
     (case load_auth_codes st of
        Inl e \<Rightarrow> Inl (Internal ''failed to load auth codes'' e)
      | Inr acs \<Rightarrow> (case find (\<lambda>a. code_Code a = code) acs of
                      Some a \<Rightarrow> Inr a | None \<Rightarrow> Inl (NotFound ''auth code'' code)))"

definition codes_MarkUsed :: "string \<Rightarrow> fstore \<Rightarrow> goerr option \<times> fstore" where
  "codes_MarkUsed code st =
     (case load_auth_codes st of
        Inl e \<Rightarrow> (Some (Internal ''failed to load auth codes'' e), st)
      | Inr acs \<Rightarrow>
          (case find (\<lambda>a. code_Code a = code) acs of
             Some a \<Rightarrow>
               if code_Used a then (Some (Conflict ''auth code already used''), st)
               else save_auth_codes (upd_first (\<lambda>a. code_Code a = code) (\<lambda>a. a\<lparr>code_Used := True\<rparr>) acs) st
           | None \<Rightarrow> (Some (NotFound ''auth code'' code), st)))"

definition codes_Delete :: "string \<Rightarrow> fstore \<Rightarrow> goerr option \<times> fstore" where
  "codes_Delete code st =
     (case load_auth_codes st of
        Inl e \<Rightarrow> (Some (Internal ''failed to load auth codes'' e), st)
      | Inr acs \<Rightarrow>
          (case find (\<lambda>a. code_Code a = code) acs of
             Some _ \<Rightarrow> save_auth_codes (del_first (\<lambda>a. code_Code a = code) acs) st
           | None \<Rightarrow> (Some (NotFound ''auth code'' code), st)))"

definition codes_DeleteExpired :: "time \<Rightarrow> fstore \<Rightarrow> goerr option \<times> fstore" where
  "codes_DeleteExpired now st =
     (case load_auth_codes st of
        Inl e \<Rightarrow> (Some (Internal ''failed to load auth codes'' e), st)
      | Inr acs \<Rightarrow> save_auth_codes (filter (\<lambda>a. code_ExpiresAt a > now) acs) st)"

section \<open>Consume-once records\<close>

text \<open>
  How many of a sequence of calls, for the keys \<open>ks\<close> with the results \<open>rs\<close>,
  succeeded for the key \<open>k\<close>.
\<close>

definition wins :: "string \<Rightarrow> string list \<Rightarrow> goerr option list \<Rightarrow> nat" where
  "wins k ks rs = length (filter (\<lambda>(k', r). k' = k \<and> r = None) (zip ks rs))"

lemma wins_Cons: "wins k (k' # ks) (r # rs) = (if k' = k \<and> r = None then 1 else 0) + wins k ks rs"
  by (simp add: wins_def)

locale consume_once =
  fixes look :: "'s \<Rightarrow> string \<rightharpoonup> 'v"
    and used :: "'v \<Rightarrow> bool"
    and ready :: "'s \<Rightarrow> bool"
    and consume :: "string \<Rightarrow> 's \<Rightarrow> goerr option \<times> 's"
  assumes consume_fresh: "ready s \<Longrightarrow> look s k = Some v \<Longrightarrow> \<not> used v \<Longrightarrow>
      \<exists>s' v'. consume k s = (None, s') \<and> look s' = (look s)(k \<mapsto> v') \<and> used v' \<and> ready s'"
    and consume_used: "ready s \<Longrightarrow> look s k = Some v \<Longrightarrow> used v \<Longrightarrow>
      \<exists>e. consume k s = (Some e, s) \<and> IsCode e CodeConflict"
    and consume_absent: "ready s \<Longrightarrow> look s k = None \<Longrightarrow>
      \<exists>e. consume k s = (Some e, s) \<and> IsCode e CodeNotFound"
begin

lemma consume_Ok_D:
  assumes "ready s" and "consume k s = (None, s')"
  shows "\<exists>v v'. look s k = Some v \<and> \<not> used v \<and> look s' = (look s)(k \<mapsto> v') \<and> used v' \<and> ready s'"
proof (cases "look s k")
  case None
  with assms show ?thesis using consume_absent [of s k] by auto
next
  case (Some v)
  with assms consume_used [of s k v] have "\<not> used v" by auto
  with Some assms show ?thesis using consume_fresh [of s k v] by auto
qed

lemma ready_consume: "ready s \<Longrightarrow> ready (snd (consume k s))"
  using consume_Ok_D [of s k] consume_used [of s k] consume_absent [of s k] consume_fresh [of s k]
  by (cases "look s k") (auto, metis snd_conv)

text \<open>Once used, always used: no later call for any key changes that.\<close>

lemma used_stays:
  assumes "ready s" and "look s k = Some v" and "used v"
  shows "\<exists>v'. look (snd (consume k' s)) k = Some v' \<and> used v'"
proof (cases "consume k' s")
  case (Pair r s')
  show ?thesis
  proof (cases r)
    case None
    with Pair assms consume_Ok_D [of s k' s'] show ?thesis by auto
  next
    case (Some e)
    have "s' = s"
      using Pair Some assms(1) consume_fresh [of s k'] consume_used [of s k'] consume_absent [of s k']
      by (cases "look s k'") fastforce+
    with Pair assms show ?thesis by simp
  qed
qed

lemma used_refused: "ready s \<Longrightarrow> look s k = Some v \<Longrightarrow> used v \<Longrightarrow> fst (consume k s) \<noteq> None"
  using consume_used [of s k v] by auto

lemma wins_used:
  assumes "ready s" and "look s k = Some v" and "used v"
  shows "wins k ks (fst (run_ops (map consume ks) s)) = 0"
  using assms
proof (induction ks arbitrary: s v)
  case Nil
  then show ?case by (simp add: wins_def)
next
  case (Cons k' ks)
  obtain v' where "look (snd (consume k' s)) k = Some v'" "used v'"
    using used_stays [OF Cons.prems] by blast
  then have "wins k ks (fst (run_ops (map consume ks) (snd (consume k' s)))) = 0"
    using Cons.IH Cons.prems(1) ready_consume by blast
  moreover have "\<not> (k' = k \<and> fst (consume k' s) = None)"
    using used_refused Cons.prems by blast
  ultimately show ?case by (auto simp: case_prod_beta wins_Cons)
qed

text \<open>Of any sequence of calls, at most one succeeds for each record.\<close>

lemma at_most_once:
  assumes "ready s"
  shows "wins k ks (fst (run_ops (map consume ks) s)) \<le> 1"
  using assms
proof (induction ks arbitrary: s)
  case Nil
  then show ?case by (simp add: wins_def)
next
  case (Cons k' ks)
  show ?case
  proof (cases "k' = k \<and> fst (consume k' s) = None")
    case True
    then obtain v' where "look (snd (consume k' s)) k = Some v'" "used v'" "ready (snd (consume k' s))"
      using consume_Ok_D [of s k "snd (consume k' s)"] Cons.prems by (metis fun_upd_same prod.collapse)
    then show ?thesis
      using wins_used [of "snd (consume k' s)" k v' ks] by (auto simp: case_prod_beta wins_Cons)
  next
    case False
    then show ?thesis
      using Cons.IH [of "snd (consume k' s)"] Cons.prems ready_consume
      by (auto simp: case_prod_beta wins_Cons)
  qed
qed

end

definition codes_ready :: "fstore \<Rightarrow> bool" where
  "codes_ready st \<longleftrightarrow> readable (f_auth_codes st) \<and> write_err st ''auth_codes'' = None"

lemma codes_ready_load: "codes_ready st \<Longrightarrow> load_auth_codes st = Inr (codes_of st)"
  by (simp add: codes_ready_def readable_load)

lemma codes_ready_save:
  "codes_ready st \<Longrightarrow> save_auth_codes xs st = (None, st\<lparr>f_auth_codes := Content xs\<rparr>)"
  by (simp add: codes_ready_def save_auth_codes_def writeFile_def)

lemma codes_ready_put: "codes_ready st \<Longrightarrow> codes_ready (st\<lparr>f_auth_codes := Content xs\<rparr>)"
  by (simp add: codes_ready_def)

lemmas codes_ready_rules = codes_ready_load codes_ready_save codes_ready_put

interpretation auth_codes: consume_once
  "\<lambda>st. lookup_by code_Code (codes_of st)" code_Used codes_ready codes_MarkUsed
proof (unfold_locales, goal_cases)
  case (1 s k v)
  then show ?case
    using lookup_by_upd_first [of code_Code "codes_of s" k "\<lambda>a. a\<lparr>code_Used := True\<rparr>"]
    by (auto simp: codes_MarkUsed_def codes_ready_rules lookup_by_def)
next
  case (2 s k v)
  then show ?case by (auto simp: codes_MarkUsed_def codes_ready_load lookup_by_def)
next
  case (3 s k)
  then show ?case by (auto simp: codes_MarkUsed_def codes_ready_load lookup_by_def)
qed

section \<open>What the other operations do\<close>

lemma codes_GetByCode_D:
  "codes_GetByCode k st = Inr a \<Longrightarrow> lookup_by code_Code (codes_of st) k = Some a"
  by (auto simp: codes_GetByCode_def codes_of_def lookup_by_def split: sum.splits option.splits)

lemma codes_MarkUsed_Ok_D:
  assumes "codes_MarkUsed k st = (None, st')"
  shows "\<exists>a. lookup_by code_Code (codes_of st) k = Some a \<and> \<not> code_Used a \<and>
    st' = st\<lparr>f_auth_codes :=
      Content (upd_first (\<lambda>a. code_Code a = k) (\<lambda>a. a\<lparr>code_Used := True\<rparr>) (codes_of st))\<rparr>"
  using assms
  by (auto simp: codes_MarkUsed_def codes_of_def lookup_by_def save_auth_codes_def writeFile_None
      split: sum.splits option.splits if_splits)

lemma codes_MarkUsed_Err_D: "codes_MarkUsed k st = (Some e, st') \<Longrightarrow> st' = st"
  by (auto simp: codes_MarkUsed_def save_auth_codes_def writeFile_Some
      split: sum.splits option.splits if_splits)

lemma sessions_GetByID_D: "sessions_GetByID k st = Inr s \<Longrightarrow> s \<in> set (sessions_of st) \<and> session_ID s = k"
  by (auto simp: sessions_GetByID_def sessions_of_def split: sum.splits option.splits dest: find_Some_D)

lemma sessions_DeleteByUserID_none:
  "sessions_DeleteByUserID u st = (None, st') \<Longrightarrow> s \<in> set (sessions_of st') \<Longrightarrow> session_UserID s \<noteq> u"
  by (auto simp: sessions_DeleteByUserID_def save_sessions_def writeFile_None split: sum.splits)

text \<open>
  \<open>ListByUserID\<close> returns the user's unexpired sessions, all of them, newest first.
\<close>

lemma sessions_ListByUserID_spec:
  assumes "sessions_ListByUserID now u st = Inr ss"
  shows "set ss = {s \<in> set (sessions_of st). session_UserID s = u \<and> now < session_ExpiresAt s}"
    and "sorted_wrt (\<lambda>a b. session_CreatedAt a \<ge> session_CreatedAt b) ss"
proof -
  obtain xs where ld: "load_sessions st = Inr xs"
    and ss: "ss = sort_key (\<lambda>s. - session_CreatedAt s)
      (filter (\<lambda>s. session_UserID s = u \<and> now < session_ExpiresAt s) xs)"
    using assms by (auto simp: sessions_ListByUserID_def split: sum.splits)
  from ld ss show "set ss = {s \<in> set (sessions_of st). session_UserID s = u \<and> now < session_ExpiresAt s}"
    by (auto simp: sessions_of_def)
  have "sorted (map (\<lambda>s. - session_CreatedAt s) ss)" using ss by simp
  then show "sorted_wrt (\<lambda>a b. session_CreatedAt a \<ge> session_CreatedAt b) ss"
    by (simp add: sorted_map)
qed

end
