(* ===== verification/RepoConsents.thy ===== *)
theory RepoConsents
  imports FileStore
begin

text \<open>
  The repositories of consents and of emailed verification tokens of the file store
  (\<open>internal/store/file/consents.go\<close>).
\<close>

section \<open>Consents\<close>

text \<open>\<open>uuid\<close> is the identifier drawn for a consent that has none yet.\<close>

definition consents_Upsert :: "string \<Rightarrow> time \<Rightarrow> consent \<Rightarrow> fstore \<Rightarrow> goerr option \<times> fstore" where
  "consents_Upsert uuid now consent st =
     (case load_consents st of
        Inl e \<Rightarrow> (Some (Internal ''failed to load consents'' e), st)
      | Inr cs \<Rightarrow>
          let consent1 = (if consent_ID consent = '''' then consent\<lparr>consent_ID := uuid\<rparr> else consent);
              consent2 = consent1\<lparr>consent_GrantedAt := now\<rparr>;
              same = (\<lambda>c. consent_UserID c = consent_UserID consent \<and> consent_ClientID c = consent_ClientID consent)
          in case find same cs of
               Some c \<Rightarrow> save_consents (upd_first same (\<lambda>c. consent2\<lparr>consent_ID := consent_ID c\<rparr>) cs) st
             | None \<Rightarrow> save_consents (cs @ [consent2]) st)"

definition consents_Get :: "string \<Rightarrow> string \<Rightarrow> fstore \<Rightarrow> consent res" where
  "consents_Get userID clientID st =
     (case load_consents st of
        Inl e \<Rightarrow> Inl (Internal ''failed to load consents'' e)
      | Inr cs \<Rightarrow>
          (case find (\<lambda>c. consent_UserID c = userID \<and> consent_ClientID c = clientID) cs of
             Some c \<Rightarrow> Inr c
           | None \<Rightarrow> Inl (NotFound ''consent'' (userID @ ''/'' @ clientID))))"

definition consents_ListByUserID :: "string \<Rightarrow> fstore \<Rightarrow> consent list res" where
  "consents_ListByUserID userID st =
     (case load_consents st of
        Inl e \<Rightarrow> Inl (Internal ''failed to load consents'' e)
      | Inr cs \<Rightarrow> Inr (filter (\<lambda>c. consent_UserID c = userID) cs))"

definition consents_Delete :: "string \<Rightarrow> string \<Rightarrow> fstore \<Rightarrow> goerr option \<times> fstore" where
  "consents_Delete userID clientID st =
     (case load_consents st of
        Inl e \<Rightarrow> (Some (Internal ''failed to load consents'' e), st)
      | Inr cs \<Rightarrow>
          (case find (\<lambda>c. consent_UserID c = userID \<and> consent_ClientID c = clientID) cs of
             Some _ \<Rightarrow> save_consents (del_first (\<lambda>c. consent_UserID c = userID \<and> consent_ClientID c = clientID) cs) st
           | None \<Rightarrow> (Some (NotFound ''consent'' (userID @ ''/'' @ clientID)), st)))"

definition consents_DeleteByUserID :: "string \<Rightarrow> fstore \<Rightarrow> goerr option \<times> fstore" where
  "consents_DeleteByUserID userID st =
     (case load_consents st of
        Inl e \<Rightarrow> (Some (Internal ''failed to load consents'' e), st)
      | Inr cs \<Rightarrow> save_consents (filter (\<lambda>c. consent_UserID c \<noteq> userID) cs) st)"

text \<open>At most one consent per user and client.\<close>

definition consents_distinct :: "consent list \<Rightarrow> bool" where
  "consents_distinct cs \<longleftrightarrow> distinct (map (\<lambda>c. (consent_UserID c, consent_ClientID c)) cs)"

abbreviation consent_at :: "fstore \<Rightarrow> string \<Rightarrow> string \<Rightarrow> consent option" where
  "consent_at st u c \<equiv> find (\<lambda>x. consent_UserID x = u \<and> consent_ClientID x = c) (consents_of st)"

lemma consents_Upsert_distinct:
  assumes "consents_distinct (consents_of st)"
  shows "consents_distinct (consents_of (snd (consents_Upsert uuid now con st)))"
proof (cases "load_consents st")
  case (Inl e)
  then show ?thesis using assms by (simp add: consents_Upsert_def)
next
  case (Inr cs)
  let ?same = "\<lambda>c. consent_UserID c = consent_UserID con \<and> consent_ClientID c = consent_ClientID con"
  have cs: "consents_of st = cs" using Inr by (simp add: of_load)
  show ?thesis
  proof (cases "find ?same cs")
    case None
    then have "(consent_UserID con, consent_ClientID con) \<notin> (\<lambda>c. (consent_UserID c, consent_ClientID c)) ` set cs"
      by (auto simp: find_None_iff)
    with None Inr assms cs show ?thesis
      by (auto simp: consents_Upsert_def Let_def consents_distinct_def save_consents_def writeFile_def
          split: option.splits)
  next
    case (Some c)
    have "map (\<lambda>c. (consent_UserID c, consent_ClientID c)) (upd_first ?same f cs) =
        map (\<lambda>c. (consent_UserID c, consent_ClientID c)) cs"
      if "\<And>c. consent_UserID (f c) = consent_UserID con \<and> consent_ClientID (f c) = consent_ClientID con" for f
      by (rule map_upd_first) (use that in auto)
    with Some Inr assms cs show ?thesis
      by (auto simp: consents_Upsert_def Let_def consents_distinct_def save_consents_def writeFile_def
          split: option.splits)
  qed
qed

text \<open>What a consent reads back as after it was stored; other pairs are untouched.\<close>

lemma consents_Upsert_at:
  assumes "consents_Upsert uuid now con st = (None, st')"
  shows "\<exists>x. consent_at st' (consent_UserID con) (consent_ClientID con) = Some x \<and>
      consent_UserID x = consent_UserID con \<and> consent_ClientID x = consent_ClientID con \<and>
      consent_Scopes x = consent_Scopes con"
    and "(u, c) \<noteq> (consent_UserID con, consent_ClientID con) \<Longrightarrow> consent_at st' u c = consent_at st u c"
proof -
  obtain cs where ld: "load_consents st = Inr cs"
    using assms by (auto simp: consents_Upsert_def split: sum.splits)
  then have cs: "consents_of st = cs" by (simp add: of_load)
  let ?same = "\<lambda>c. consent_UserID c = consent_UserID con \<and> consent_ClientID c = consent_ClientID con"
  define con2 where "con2 =
    (if consent_ID con = '''' then con\<lparr>consent_ID := uuid\<rparr> else con)\<lparr>consent_GrantedAt := now\<rparr>"
  let ?f = "\<lambda>c. con2\<lparr>consent_ID := consent_ID c\<rparr>"
  have con2: "consent_UserID con2 = consent_UserID con" "consent_ClientID con2 = consent_ClientID con"
    "consent_Scopes con2 = consent_Scopes con"
    by (simp_all add: con2_def)
  have st': "consents_of st' =
      (case find ?same cs of Some _ \<Rightarrow> upd_first ?same ?f cs | None \<Rightarrow> cs @ [con2])"
    using assms ld
    by (auto simp: consents_Upsert_def Let_def con2_def save_consents_def writeFile_None split: option.splits)
  show "\<exists>x. consent_at st' (consent_UserID con) (consent_ClientID con) = Some x \<and>
      consent_UserID x = consent_UserID con \<and> consent_ClientID x = consent_ClientID con \<and>
      consent_Scopes x = consent_Scopes con"
    using st' con2 find_upd_first_same [of ?same ?f cs]
    by (cases "find ?same cs") (auto simp: find_append)
  show "consent_at st' u c = consent_at st u c"
    if "(u, c) \<noteq> (consent_UserID con, consent_ClientID con)"
    using st' con2 that cs
      find_upd_first_other [of ?same "\<lambda>x. consent_UserID x = u \<and> consent_ClientID x = c" ?f cs]
    by (cases "find ?same cs") (auto simp: find_append split: option.splits)
qed

lemma consents_Get_at: "consents_Get u c st = Inr x \<Longrightarrow> consent_at st u c = Some x"
  by (auto simp: consents_Get_def consents_of_def split: sum.splits option.splits)

lemma consents_Get_NotFound:
  "consents_Get u c st = Inl e \<Longrightarrow> IsCode e CodeNotFound \<Longrightarrow> consent_at st u c = None"
  by (auto simp: consents_Get_def consents_of_def split: sum.splits option.splits)

section \<open>Verification tokens\<close>

definition vtokens_Create :: "time \<Rightarrow> verification_token \<Rightarrow> fstore \<Rightarrow> goerr option \<times> fstore" where
  "vtokens_Create now t st =
     (case load_verification_tokens st of
        Inl e \<Rightarrow> (Some (Internal ''failed to load verification tokens'' e), st)
      | Inr ts \<Rightarrow>
          (case find (\<lambda>x. vt_TokenHash x = vt_TokenHash t) ts of
             Some _ \<Rightarrow> (Some (AlreadyExists ''verification token'' (vt_TokenHash t)), st)
           | None \<Rightarrow> save_verification_tokens (ts @ [t\<lparr>vt_CreatedAt := now\<rparr>]) st))"

definition vtokens_GetByHash :: "string \<Rightarrow> fstore \<Rightarrow> verification_token res" where
  "vtokens_GetByHash hash st =
     (case load_verification_tokens st of
        Inl e \<Rightarrow> Inl (Internal ''failed to load verification tokens'' e)
      | Inr ts \<Rightarrow> (case find (\<lambda>x. vt_TokenHash x = hash) ts of
                     Some t \<Rightarrow> Inr t | None \<Rightarrow> Inl (NotFound ''verification token'' '''')))"

definition vtokens_MarkUsed :: "string \<Rightarrow> fstore \<Rightarrow> goerr option \<times> fstore" where
  "vtokens_MarkUsed hash st =
     (case load_verification_tokens st of
        Inl e \<Rightarrow> (Some (Internal ''failed to load verification tokens'' e), st)
      | Inr ts \<Rightarrow>
          (case find (\<lambda>x. vt_TokenHash x = hash) ts of
             Some _ \<Rightarrow>
               save_verification_tokens (upd_first (\<lambda>x. vt_TokenHash x = hash) (\<lambda>x. x\<lparr>vt_Used := True\<rparr>) ts) st
           | None \<Rightarrow> (Some (NotFound ''verification token'' ''''), st)))"

definition vtokens_DeleteByUserID :: "string \<Rightarrow> string \<Rightarrow> fstore \<Rightarrow> goerr option \<times> fstore" where
  "vtokens_DeleteByUserID userID purpose st =
     (case load_verification_tokens st of
        Inl e \<Rightarrow> (Some (Internal ''failed to load verification tokens'' e), st)
      | Inr ts \<Rightarrow>
          save_verification_tokens
            (filter (\<lambda>t. \<not> (vt_UserID t = userID \<and> (purpose = '''' \<or> vt_Purpose t = purpose))) ts) st)"

definition vtokens_DeleteExpired :: "time \<Rightarrow> fstore \<Rightarrow> goerr option \<times> fstore" where
  "vtokens_DeleteExpired now st =
     (case load_verification_tokens st of
        Inl e \<Rightarrow> (Some (Internal ''failed to load verification tokens'' e), st)
      | Inr ts \<Rightarrow> save_verification_tokens (filter (\<lambda>t. vt_ExpiresAt t > now) ts) st)"

abbreviation vtoken_at :: "fstore \<Rightarrow> string \<rightharpoonup> verification_token" where
  "vtoken_at st \<equiv> lookup_by vt_TokenHash (vtokens_of st)"

lemma vtokens_GetByHash_D: "vtokens_GetByHash h st = Inr t \<Longrightarrow> vtoken_at st h = Some t"
  by (auto simp: vtokens_GetByHash_def vtokens_of_def lookup_by_def split: sum.splits option.splits)

lemma vtokens_MarkUsed_Ok_D:
  assumes "vtokens_MarkUsed h st = (None, st')"
  shows "\<exists>t. vtoken_at st h = Some t \<and> vtoken_at st' = (vtoken_at st)(h \<mapsto> t\<lparr>vt_Used := True\<rparr>)
    \<and> (\<exists>ts. st' = st\<lparr>f_verification_tokens := Content ts\<rparr>)"
proof -
  obtain ts t where ld: "load_verification_tokens st = Inr ts"
    and f: "find (\<lambda>x. vt_TokenHash x = h) ts = Some t"
    and st': "st' = st\<lparr>f_verification_tokens :=
      Content (upd_first (\<lambda>x. vt_TokenHash x = h) (\<lambda>x. x\<lparr>vt_Used := True\<rparr>) ts)\<rparr>"
    using assms
    by (auto simp: vtokens_MarkUsed_def save_verification_tokens_def writeFile_None
        split: sum.splits option.splits)
  have "vtoken_at st h = Some t" using ld f by (simp add: of_load lookup_by_def)
  with ld st' lookup_by_upd_first [of vt_TokenHash ts h "\<lambda>x. x\<lparr>vt_Used := True\<rparr>"]
  show ?thesis by (auto simp: of_load)
qed

lemma vtokens_Create_Ok_D:
  assumes "vtokens_Create now t st = (None, st')"
  shows "vtoken_at st (vt_TokenHash t) = None
    \<and> vtoken_at st' = (vtoken_at st)(vt_TokenHash t \<mapsto> t\<lparr>vt_CreatedAt := now\<rparr>)
    \<and> vtokens_of st' = vtokens_of st @ [t\<lparr>vt_CreatedAt := now\<rparr>]"
proof -
  obtain ts where ld: "load_verification_tokens st = Inr ts"
    and f: "lookup_by vt_TokenHash ts (vt_TokenHash t) = None"
    and st': "st' = st\<lparr>f_verification_tokens := Content (ts @ [t\<lparr>vt_CreatedAt := now\<rparr>])\<rparr>"
    using assms
    by (auto simp: vtokens_Create_def save_verification_tokens_def writeFile_None lookup_by_def
        split: sum.splits option.splits)
  with lookup_by_snoc [of vt_TokenHash ts "t\<lparr>vt_CreatedAt := now\<rparr>"] show ?thesis
    by (simp add: of_load)
qed

lemma vtokens_DeleteByUserID_Ok_D:
  assumes "vtokens_DeleteByUserID u p st = (None, st')"
  shows "vtokens_of st' = filter (\<lambda>t. \<not> (vt_UserID t = u \<and> (p = '''' \<or> vt_Purpose t = p))) (vtokens_of st)"
    and "\<exists>ts. st' = st\<lparr>f_verification_tokens := Content ts\<rparr>"
  using assms
  by (auto simp: vtokens_DeleteByUserID_def save_verification_tokens_def writeFile_None of_load split: sum.splits)

end
