(* ===== verification/RepoGroups.thy ===== *)
theory RepoGroups
  imports RepoUsers
begin

text \<open>
  The remaining repositories of the file store: groups and memberships
  (\<open>internal/store/file/groups.go\<close>), passkeys (\<open>passkeys.go\<close>), the audit log
  (\<open>audit.go\<close>) and the signing keys of \<open>Store.SigningKeys\<close> (\<open>file.go\<close>).
\<close>

section \<open>Groups\<close>

text \<open>
  \<open>sortGroups\<close>: by lower-cased name, in byte order. \<open>sort.Slice\<close> leaves the order
  of equal names open; the model takes the stable one.
\<close>

definition sortGroups :: "platform \<Rightarrow> group list \<Rightarrow> group list" where
  "sortGroups P gs = sort_key (\<lambda>g. ToLower P (group_Name g)) gs"

definition findGroup :: "groups_data \<Rightarrow> string \<Rightarrow> group res" where
  "findGroup d ident =
     (case find (\<lambda>g. group_ID g = ident) (gd_Groups d) of
        Some g \<Rightarrow> Inr g | None \<Rightarrow> Inl (NotFound ''group'' ident))"

definition groups_Create :: "platform \<Rightarrow> time \<Rightarrow> group \<Rightarrow> fstore \<Rightarrow> goerr option \<times> fstore" where
  "groups_Create P now grp st =
     (case load_groups st of
        Inl e \<Rightarrow> (Some (Internal ''failed to load groups'' e), st)
      | Inr d \<Rightarrow>
          (case find (\<lambda>g. group_ID g = group_ID grp \<or> EqualFold P (group_Name g) (group_Name grp)) (gd_Groups d) of
             Some g \<Rightarrow>
               (Some (if group_ID g = group_ID grp then AlreadyExists ''group'' (group_ID grp)
                      else AlreadyExists ''group with name'' (group_Name grp)), st)
           | None \<Rightarrow>
               save_groups
                 (d\<lparr>gd_Groups := gd_Groups d @ [grp\<lparr>group_CreatedAt := now, group_UpdatedAt := now\<rparr>]\<rparr>) st))"

definition groups_GetByID :: "string \<Rightarrow> fstore \<Rightarrow> group res" where
  "groups_GetByID ident st =
     (case load_groups st of
        Inl e \<Rightarrow> Inl (Internal ''failed to load groups'' e)
      | Inr d \<Rightarrow> (case find (\<lambda>g. group_ID g = ident) (gd_Groups d) of
                    Some g \<Rightarrow> Inr g | None \<Rightarrow> Inl (NotFound ''group'' ident)))"

definition groups_GetByName :: "platform \<Rightarrow> string \<Rightarrow> fstore \<Rightarrow> group res" where
  "groups_GetByName P name st =
     (case load_groups st of
        Inl e \<Rightarrow> Inl (Internal ''failed to load groups'' e)
      | Inr d \<Rightarrow> (case find (\<lambda>g. EqualFold P (group_Name g) name) (gd_Groups d) of
                    Some g \<Rightarrow> Inr g | None \<Rightarrow> Inl (NotFound ''group with name'' name)))"

definition groups_Update :: "platform \<Rightarrow> time \<Rightarrow> group \<Rightarrow> fstore \<Rightarrow> goerr option \<times> fstore" where
  "groups_Update P now grp st =
     (case load_groups st of
        Inl e \<Rightarrow> (Some (Internal ''failed to load groups'' e), st)
      | Inr d \<Rightarrow>
          if list_ex (\<lambda>g. group_ID g \<noteq> group_ID grp \<and> EqualFold P (group_Name g) (group_Name grp)) (gd_Groups d)
          then (Some (AlreadyExists ''group with name'' (group_Name grp)), st)
          else (case find (\<lambda>g. group_ID g = group_ID grp) (gd_Groups d) of
             Some _ \<Rightarrow>
               save_groups
                 (d\<lparr>gd_Groups := upd_first (\<lambda>g. group_ID g = group_ID grp)
                      (\<lambda>_. grp\<lparr>group_UpdatedAt := now\<rparr>) (gd_Groups d)\<rparr>) st
           | None \<Rightarrow> (Some (NotFound ''group'' (group_ID grp)), st)))"

definition groups_Delete :: "string \<Rightarrow> fstore \<Rightarrow> goerr option \<times> fstore" where
  "groups_Delete ident st =
     (case load_groups st of
        Inl e \<Rightarrow> (Some (Internal ''failed to load groups'' e), st)
      | Inr d \<Rightarrow>
          (case find (\<lambda>g. group_ID g = ident) (gd_Groups d) of
             Some _ \<Rightarrow>
               save_groups
                 (d\<lparr>gd_Groups := del_first (\<lambda>g. group_ID g = ident) (gd_Groups d),
                    gd_Memberships := filter (\<lambda>m. m_GroupID m \<noteq> ident) (gd_Memberships d)\<rparr>) st
           | None \<Rightarrow> (Some (NotFound ''group'' ident), st)))"

definition groups_List :: "platform \<Rightarrow> fstore \<Rightarrow> group list res" where
  "groups_List P st =
     (case load_groups st of
        Inl e \<Rightarrow> Inl (Internal ''failed to load groups'' e)
      | Inr d \<Rightarrow> Inr (sortGroups P (gd_Groups d)))"

definition groups_AddMember :: "string \<Rightarrow> string \<Rightarrow> fstore \<Rightarrow> goerr option \<times> fstore" where
  "groups_AddMember groupID userID st =
     (case load_groups st of
        Inl e \<Rightarrow> (Some (Internal ''failed to load groups'' e), st)
      | Inr d \<Rightarrow>
          (case findGroup d groupID of
             Inl e \<Rightarrow> (Some e, st)
           | Inr _ \<Rightarrow>
               if list_ex (\<lambda>m. m_GroupID m = groupID \<and> m_UserID m = userID) (gd_Memberships d)
               then (None, st)
               else save_groups
                 (d\<lparr>gd_Memberships := gd_Memberships d @ [\<lparr>m_UserID = userID, m_GroupID = groupID\<rparr>]\<rparr>) st))"

definition groups_RemoveMember :: "string \<Rightarrow> string \<Rightarrow> fstore \<Rightarrow> goerr option \<times> fstore" where
  "groups_RemoveMember groupID userID st =
     (case load_groups st of
        Inl e \<Rightarrow> (Some (Internal ''failed to load groups'' e), st)
      | Inr d \<Rightarrow>
          (case find (\<lambda>m. m_GroupID m = groupID \<and> m_UserID m = userID) (gd_Memberships d) of
             Some _ \<Rightarrow>
               save_groups
                 (d\<lparr>gd_Memberships := del_first (\<lambda>m. m_GroupID m = groupID \<and> m_UserID m = userID) (gd_Memberships d)\<rparr>) st
           | None \<Rightarrow> (Some (NotFound ''group membership'' (userID @ ''/'' @ groupID)), st)))"

definition groups_MemberIDs :: "string \<Rightarrow> fstore \<Rightarrow> string list res" where
  "groups_MemberIDs groupID st =
     (case load_groups st of
        Inl e \<Rightarrow> Inl (Internal ''failed to load groups'' e)
      | Inr d \<Rightarrow> Inr (map m_UserID (filter (\<lambda>m. m_GroupID m = groupID) (gd_Memberships d))))"

text \<open>
  \<open>byID\<close> is a Go map filled in the order of the list, so a later group of the same ID
  wins; the groups of the user's memberships are looked up in it.
\<close>

definition groups_GroupsForUser :: "platform \<Rightarrow> string \<Rightarrow> fstore \<Rightarrow> group list res" where
  "groups_GroupsForUser P userID st =
     (case load_groups st of
        Inl e \<Rightarrow> Inl (Internal ''failed to load groups'' e)
      | Inr d \<Rightarrow>
          let byID = fold (\<lambda>g m. m(group_ID g \<mapsto> g)) (gd_Groups d) Map.empty;
              gs = List.map_filter (\<lambda>m. if m_UserID m = userID then byID (m_GroupID m) else None) (gd_Memberships d)
          in Inr (sortGroups P gs))"

definition groups_RemoveUser :: "string \<Rightarrow> fstore \<Rightarrow> goerr option \<times> fstore" where
  "groups_RemoveUser userID st =
     (case load_groups st of
        Inl e \<Rightarrow> (Some (Internal ''failed to load groups'' e), st)
      | Inr d \<Rightarrow> save_groups (d\<lparr>gd_Memberships := filter (\<lambda>m. m_UserID m \<noteq> userID) (gd_Memberships d)\<rparr>) st)"

subsection \<open>Well-formed group data\<close>

text \<open>
  Group IDs are distinct, names are distinct up to case, a membership is recorded once and
  names an existing group. Every operation keeps this.
\<close>

definition groups_wf :: "platform \<Rightarrow> groups_data \<Rightarrow> bool" where
  "groups_wf P d \<longleftrightarrow> distinct (map group_ID (gd_Groups d))
     \<and> distinct (map (\<lambda>g. fold_key P (group_Name g)) (gd_Groups d))
     \<and> distinct (gd_Memberships d)
     \<and> m_GroupID ` set (gd_Memberships d) \<subseteq> group_ID ` set (gd_Groups d)"

lemma upd_first_image: "(\<And>x. p x \<Longrightarrow> g (f x) = g x) \<Longrightarrow> g ` set (upd_first p f xs) = g ` set xs"
  by (metis list.set_map map_upd_first)

lemma del_first_image_other:
  "x \<in> set xs \<Longrightarrow> \<not> p x \<Longrightarrow> x \<in> set (del_first p xs)"
  by (induction xs) auto

lemma distinct_del_first: "distinct xs \<Longrightarrow> distinct (del_first p xs)"
  using distinct_map_del_first [of "\<lambda>x. x" xs p] by simp

lemma distinct_names_upd_first:
  assumes "distinct (map h gs)" and "distinct (map key gs)"
    and "\<forall>g \<in> set gs. key g \<noteq> k \<longrightarrow> h g \<noteq> h v"
  shows "distinct (map h (upd_first (\<lambda>g. key g = k) (\<lambda>_. v) gs))"
  using assms
proof (induction gs)
  case Nil
  then show ?case by simp
next
  case (Cons g gs)
  show ?case
  proof (cases "key g = k")
    case True
    with Cons.prems have "key x \<noteq> k" if "x \<in> set gs" for x
      using that by (auto simp: image_iff)
    with Cons.prems have "h v \<notin> h ` set gs" by (metis image_iff list.set_intros(2))
    with True Cons.prems show ?thesis by simp
  next
    case False
    have "h g \<notin> h ` set (upd_first (\<lambda>g. key g = k) (\<lambda>_. v) gs)"
      using set_upd_first [of "\<lambda>g. key g = k" "\<lambda>_. v" gs] Cons.prems False by fastforce
    with False Cons show ?thesis by simp
  qed
qed

lemma groups_Create_wf:
  "groups_wf P (groups_of st) \<Longrightarrow> groups_wf P (groups_of (snd (groups_Create P now g st)))"
  by (auto simp: groups_Create_def groups_wf_def save_groups_def writeFile_def of_load find_None_iff EqualFold_def
      image_subset_iff
      split: sum.splits option.splits)

lemma groups_Update_wf:
  assumes "groups_wf P (groups_of st)"
  shows "groups_wf P (groups_of (snd (groups_Update P now g st)))"
proof (cases "load_groups st")
  case (Inl e)
  then show ?thesis using assms by (simp add: groups_Update_def)
next
  case (Inr d)
  then have d: "groups_of st = d" by (simp add: of_load)
  let ?u = "upd_first (\<lambda>x. group_ID x = group_ID g) (\<lambda>_. g\<lparr>group_UpdatedAt := now\<rparr>) (gd_Groups d)"
  show ?thesis
  proof (cases "list_ex (\<lambda>x. group_ID x \<noteq> group_ID g \<and> EqualFold P (group_Name x) (group_Name g)) (gd_Groups d)")
    case True
    with Inr assms show ?thesis by (simp add: groups_Update_def)
  next
    case False
    then have "\<forall>x \<in> set (gd_Groups d). group_ID x \<noteq> group_ID g \<longrightarrow>
        fold_key P (group_Name x) \<noteq> fold_key P (group_Name (g\<lparr>group_UpdatedAt := now\<rparr>))"
      by (auto simp: list_ex_iff EqualFold_def)
    then have "distinct (map (\<lambda>x. fold_key P (group_Name x)) ?u)"
      using assms d by (intro distinct_names_upd_first) (auto simp: groups_wf_def)
    moreover have "distinct (map group_ID ?u)" "group_ID ` set ?u = group_ID ` set (gd_Groups d)"
      using assms d distinct_upd_first_key [of group_ID "gd_Groups d" "g\<lparr>group_UpdatedAt := now\<rparr>" "group_ID g"]
        upd_first_image [of "\<lambda>x. group_ID x = group_ID g" group_ID "\<lambda>_. g\<lparr>group_UpdatedAt := now\<rparr>" "gd_Groups d"]
      by (auto simp: groups_wf_def)
    ultimately show ?thesis using False Inr assms d
      by (auto simp: groups_Update_def groups_wf_def save_groups_def writeFile_def split: option.splits)
  qed
qed

lemma groups_Delete_wf:
  assumes "groups_wf P (groups_of st)"
  shows "groups_wf P (groups_of (snd (groups_Delete k st)))"
proof (cases "load_groups st")
  case (Inl e)
  then show ?thesis using assms by (simp add: groups_Delete_def)
next
  case (Inr d)
  then have wf: "groups_wf P d" using assms by (simp add: of_load)
  have "m_GroupID ` set (filter (\<lambda>m. m_GroupID m \<noteq> k) (gd_Memberships d))
      \<subseteq> group_ID ` set (del_first (\<lambda>g. group_ID g = k) (gd_Groups d))"
  proof
    fix i assume "i \<in> m_GroupID ` set (filter (\<lambda>m. m_GroupID m \<noteq> k) (gd_Memberships d))"
    then have "i \<noteq> k" and "i \<in> group_ID ` set (gd_Groups d)" using wf by (auto simp: groups_wf_def)
    then obtain g where "g \<in> set (gd_Groups d)" "group_ID g = i" "\<not> group_ID g = k" by auto
    then show "i \<in> group_ID ` set (del_first (\<lambda>g. group_ID g = k) (gd_Groups d))"
      using del_first_image_other [of g "gd_Groups d" "\<lambda>g. group_ID g = k"] by auto
  qed
  with Inr wf assms show ?thesis
    by (auto simp: groups_Delete_def groups_wf_def save_groups_def writeFile_def distinct_map_del_first
        split: option.splits)
qed

lemma groups_AddMember_wf:
  "groups_wf P (groups_of st) \<Longrightarrow> groups_wf P (groups_of (snd (groups_AddMember g u st)))"
  by (auto simp: groups_AddMember_def groups_wf_def save_groups_def writeFile_def of_load findGroup_def
      list_ex_iff image_subset_iff split: sum.splits option.splits dest: find_Some_D)

lemma groups_RemoveMember_wf:
  assumes "groups_wf P (groups_of st)"
  shows "groups_wf P (groups_of (snd (groups_RemoveMember g u st)))"
proof (cases "load_groups st")
  case (Inl e)
  then show ?thesis using assms by (simp add: groups_RemoveMember_def)
next
  case (Inr d)
  then have wf: "groups_wf P d" using assms by (simp add: of_load)
  let ?p = "\<lambda>m. m_GroupID m = g \<and> m_UserID m = u"
  have "groups_wf P (d\<lparr>gd_Memberships := del_first ?p (gd_Memberships d)\<rparr>)"
    using wf set_del_first [of ?p "gd_Memberships d"] by (auto simp: groups_wf_def distinct_del_first)
  with Inr wf assms show ?thesis
    by (auto simp: groups_RemoveMember_def save_groups_def writeFile_def split: option.splits)
qed

lemma groups_RemoveUser_wf:
  "groups_wf P (groups_of st) \<Longrightarrow> groups_wf P (groups_of (snd (groups_RemoveUser u st)))"
  by (fastforce simp: groups_RemoveUser_def groups_wf_def save_groups_def writeFile_def of_load
      image_subset_iff split: sum.splits option.splits)

subsection \<open>The groups of a user\<close>

lemma fold_byID:
  "distinct (map group_ID gs) \<Longrightarrow>
    fold (\<lambda>g m. m(group_ID g \<mapsto> g)) gs M i =
      (case lookup_by group_ID gs i of Some g \<Rightarrow> Some g | None \<Rightarrow> M i)"
proof (induction gs arbitrary: M)
  case (Cons g gs)
  then have "lookup_by group_ID gs (group_ID g) = None" by (simp add: lookup_by_None_iff)
  with Cons show ?case by (cases "group_ID g = i") (simp_all add: lookup_by_def split: option.splits)
qed simp

text \<open>On well-formed data: exactly the groups the user is a member of, in order of name.\<close>

lemma groups_GroupsForUser_spec:
  assumes "groups_GroupsForUser P u st = Inr gs" and "groups_wf P (groups_of st)"
  shows "set gs = {g \<in> set (gd_Groups (groups_of st)).
      \<lparr>m_UserID = u, m_GroupID = group_ID g\<rparr> \<in> set (gd_Memberships (groups_of st))}"
    and "sorted (map (\<lambda>g. ToLower P (group_Name g)) gs)"
proof -
  obtain d where ld: "load_groups st = Inr d"
    using assms(1) by (auto simp: groups_GroupsForUser_def split: sum.splits)
  then have d: "groups_of st = d" by (simp add: of_load)
  then have dist: "distinct (map group_ID (gd_Groups d))" using assms(2) by (simp add: groups_wf_def)
  define byID where "byID = fold (\<lambda>g m. m(group_ID g \<mapsto> g)) (gd_Groups d) Map.empty"
  have byID: "byID i = lookup_by group_ID (gd_Groups d) i" for i
    using fold_byID [OF dist, of Map.empty i] by (simp add: byID_def split: option.splits)
  have gs: "gs = sortGroups P (List.map_filter (\<lambda>m. if m_UserID m = u then byID (m_GroupID m) else None) (gd_Memberships d))"
    using assms(1) ld unfolding groups_GroupsForUser_def byID_def by (simp add: Let_def)
  then show "sorted (map (\<lambda>g. ToLower P (group_Name g)) gs)" by (simp add: sortGroups_def)
  have look: "lookup_by group_ID (gd_Groups d) (group_ID g) = Some g" if "g \<in> set (gd_Groups d)" for g
    using find_key_distinct [OF dist that] by (simp add: lookup_by_def)
  have mem: "g \<in> set gs \<longleftrightarrow> (\<exists>m \<in> set (gd_Memberships d). m_UserID m = u \<and> lookup_by group_ID (gd_Groups d) (m_GroupID m) = Some g)" for g
    by (force simp: gs sortGroups_def byID List.map_filter_def image_iff split: if_splits)
  have "g \<in> set gs \<longleftrightarrow> g \<in> set (gd_Groups d) \<and> \<lparr>m_UserID = u, m_GroupID = group_ID g\<rparr> \<in> set (gd_Memberships d)" for g
  proof
    assume "g \<in> set gs"
    then obtain m where m: "m \<in> set (gd_Memberships d)" "m_UserID m = u"
        and lk: "lookup_by group_ID (gd_Groups d) (m_GroupID m) = Some g" unfolding mem by blast
    have "m = \<lparr>m_UserID = u, m_GroupID = group_ID g\<rparr>"
      using m(2) lookup_by_Some_D [OF lk] by (cases m) simp
    then show "g \<in> set (gd_Groups d) \<and> \<lparr>m_UserID = u, m_GroupID = group_ID g\<rparr> \<in> set (gd_Memberships d)"
      using m(1) lookup_by_Some_D [OF lk] by simp
  next
    assume "g \<in> set (gd_Groups d) \<and> \<lparr>m_UserID = u, m_GroupID = group_ID g\<rparr> \<in> set (gd_Memberships d)"
    then show "g \<in> set gs" unfolding mem using look [of g]
      by (intro bexI [of _ "\<lparr>m_UserID = u, m_GroupID = group_ID g\<rparr>"]) simp_all
  qed
  then show "set gs = {g \<in> set (gd_Groups (groups_of st)).
      \<lparr>m_UserID = u, m_GroupID = group_ID g\<rparr> \<in> set (gd_Memberships (groups_of st))}"
    unfolding d by blast
qed

section \<open>Passkeys\<close>

definition passkeys_Create :: "time \<Rightarrow> passkey \<Rightarrow> fstore \<Rightarrow> goerr option \<times> fstore" where
  "passkeys_Create now p st =
     (case load_passkeys st of
        Inl e \<Rightarrow> (Some (Internal ''failed to load passkeys'' e), st)
      | Inr ps \<Rightarrow>
          (case find (\<lambda>x. passkey_ID x = passkey_ID p) ps of
             Some _ \<Rightarrow> (Some (AlreadyExists ''passkey'' (passkey_ID p)), st)
           | None \<Rightarrow> save_passkeys (ps @ [p\<lparr>passkey_CreatedAt := now\<rparr>]) st))"

definition passkeys_ListByUserID :: "string \<Rightarrow> fstore \<Rightarrow> passkey list res" where
  "passkeys_ListByUserID userID st =
     (case load_passkeys st of
        Inl e \<Rightarrow> Inl (Internal ''failed to load passkeys'' e)
      | Inr ps \<Rightarrow> Inr (filter (\<lambda>p. passkey_UserID p = userID) ps))"

definition passkeys_Update :: "passkey \<Rightarrow> fstore \<Rightarrow> goerr option \<times> fstore" where
  "passkeys_Update p st =
     (case load_passkeys st of
        Inl e \<Rightarrow> (Some (Internal ''failed to load passkeys'' e), st)
      | Inr ps \<Rightarrow>
          (case find (\<lambda>x. passkey_ID x = passkey_ID p \<and> passkey_UserID x = passkey_UserID p) ps of
             Some _ \<Rightarrow>
               save_passkeys
                 (upd_first (\<lambda>x. passkey_ID x = passkey_ID p \<and> passkey_UserID x = passkey_UserID p) (\<lambda>_. p) ps) st
           | None \<Rightarrow> (Some (NotFound ''passkey'' (passkey_ID p)), st)))"

definition passkeys_Delete :: "string \<Rightarrow> string \<Rightarrow> fstore \<Rightarrow> goerr option \<times> fstore" where
  "passkeys_Delete userID ident st =
     (case load_passkeys st of
        Inl e \<Rightarrow> (Some (Internal ''failed to load passkeys'' e), st)
      | Inr ps \<Rightarrow>
          (case find (\<lambda>p. passkey_ID p = ident \<and> passkey_UserID p = userID) ps of
             Some _ \<Rightarrow> save_passkeys (del_first (\<lambda>p. passkey_ID p = ident \<and> passkey_UserID p = userID) ps) st
           | None \<Rightarrow> (Some (NotFound ''passkey'' ident), st)))"

definition passkeys_DeleteByUserID :: "string \<Rightarrow> fstore \<Rightarrow> goerr option \<times> fstore" where
  "passkeys_DeleteByUserID userID st =
     (case load_passkeys st of
        Inl e \<Rightarrow> (Some (Internal ''failed to load passkeys'' e), st)
      | Inr ps \<Rightarrow> save_passkeys (filter (\<lambda>p. passkey_UserID p \<noteq> userID) ps) st)"

section \<open>The audit log\<close>

definition audit_Append :: "string \<Rightarrow> time \<Rightarrow> audit_event \<Rightarrow> fstore \<Rightarrow> goerr option \<times> fstore" where
  "audit_Append uuid now e st =
     (case load_audit_events st of
        Inl err \<Rightarrow> (Some (Internal ''failed to load audit events'' err), st)
      | Inr evs \<Rightarrow>
          let e1 = (if ev_ID e = '''' then e\<lparr>ev_ID := uuid\<rparr> else e);
              e2 = (if IsZero (ev_At e1) then e1\<lparr>ev_At := now\<rparr> else e1)
          in save_audit_events (evs @ [e2]) st)"

definition audit_List :: "int \<Rightarrow> fstore \<Rightarrow> audit_event list res" where
  "audit_List limit st =
     (case load_audit_events st of
        Inl err \<Rightarrow> Inl (Internal ''failed to load audit events'' err)
      | Inr evs \<Rightarrow>
          let limit' = (if limit \<le> 0 then 100 else limit);
              events = sort_key (\<lambda>e. - ev_At e) evs
          in Inr (if int (length events) > limit' then take (nat limit') events else events))"

definition audit_DeleteBefore :: "time \<Rightarrow> fstore \<Rightarrow> goerr option \<times> fstore" where
  "audit_DeleteBefore cutoff st =
     (case load_audit_events st of
        Inl err \<Rightarrow> (Some (Internal ''failed to load audit events'' err), st)
      | Inr evs \<Rightarrow> save_audit_events (filter (\<lambda>e. \<not> ev_At e < cutoff) evs) st)"

section \<open>Signing keys of the store\<close>

definition skeys_Create :: "time \<Rightarrow> signing_key \<Rightarrow> fstore \<Rightarrow> goerr option \<times> fstore" where
  "skeys_Create now k st =
     (case load_signing_keys st of
        Inl e \<Rightarrow> (Some (Internal ''failed to load signing keys'' e), st)
      | Inr ks \<Rightarrow>
          (case find (\<lambda>x. sk_ID x = sk_ID k) ks of
             Some _ \<Rightarrow> (Some (AlreadyExists ''signing key'' (sk_ID k)), st)
           | None \<Rightarrow> save_signing_keys (ks @ [k\<lparr>sk_CreatedAt := now\<rparr>]) st))"

definition skeys_GetByID :: "string \<Rightarrow> fstore \<Rightarrow> signing_key res" where
  "skeys_GetByID ident st =
     (case load_signing_keys st of
        Inl e \<Rightarrow> Inl (Internal ''failed to load signing keys'' e)
      | Inr ks \<Rightarrow> (case find (\<lambda>k. sk_ID k = ident) ks of
                     Some k \<Rightarrow> Inr k | None \<Rightarrow> Inl (NotFound ''signing key'' ident)))"

definition skeys_GetActive :: "fstore \<Rightarrow> signing_key res" where
  "skeys_GetActive st =
     (case load_signing_keys st of
        Inl e \<Rightarrow> Inl (Internal ''failed to load signing keys'' e)
      | Inr ks \<Rightarrow> (case find sk_Active ks of
                     Some k \<Rightarrow> Inr k | None \<Rightarrow> Inl (NotFound ''active signing key'' '''')))"

definition skeys_GetAll :: "fstore \<Rightarrow> signing_key list res" where
  "skeys_GetAll st =
     (case load_signing_keys st of
        Inl e \<Rightarrow> Inl (Internal ''failed to load signing keys'' e)
      | Inr ks \<Rightarrow> Inr ks)"

definition skeys_SetActive :: "string \<Rightarrow> fstore \<Rightarrow> goerr option \<times> fstore" where
  "skeys_SetActive ident st =
     (case load_signing_keys st of
        Inl e \<Rightarrow> (Some (Internal ''failed to load signing keys'' e), st)
      | Inr ks \<Rightarrow>
          if list_ex (\<lambda>k. sk_ID k = ident) ks
          then save_signing_keys (map (\<lambda>k. k\<lparr>sk_Active := (sk_ID k = ident)\<rparr>) ks) st
          else (Some (NotFound ''signing key'' ident), st))"

definition skeys_Delete :: "string \<Rightarrow> fstore \<Rightarrow> goerr option \<times> fstore" where
  "skeys_Delete ident st =
     (case load_signing_keys st of
        Inl e \<Rightarrow> (Some (Internal ''failed to load signing keys'' e), st)
      | Inr ks \<Rightarrow>
          (case find (\<lambda>k. sk_ID k = ident) ks of
             Some _ \<Rightarrow> save_signing_keys (del_first (\<lambda>k. sk_ID k = ident) ks) st
           | None \<Rightarrow> (Some (NotFound ''signing key'' ident), st)))"

text \<open>The audit log is only ever appended to; the newest entries come first.\<close>

lemma audit_Append_extends:
  "\<exists>evs. audit_of (snd (audit_Append uuid now e st)) = audit_of st @ evs"
  by (auto simp: audit_Append_def Let_def save_audit_events_def writeFile_def of_load
      split: sum.splits option.splits)

lemma audit_List_bounded:
  assumes "audit_List limit st = Inr evs"
  shows "int (length evs) \<le> (if limit \<le> 0 then 100 else limit)"
    and "set evs \<subseteq> set (audit_of st)"
    and "sorted_wrt (\<lambda>a b. ev_At a \<ge> ev_At b) evs"
proof -
  obtain xs where ld: "load_audit_events st = Inr xs"
    using assms by (auto simp: audit_List_def split: sum.splits)
  let ?s = "sort_key (\<lambda>e. - ev_At e) xs"
  have evs: "evs = (if int (length ?s) > (if limit \<le> 0 then 100 else limit)
      then take (nat (if limit \<le> 0 then 100 else limit)) ?s else ?s)"
    using assms ld by (simp add: audit_List_def Let_def)
  show "int (length evs) \<le> (if limit \<le> 0 then 100 else limit)" by (auto simp: evs)
  show "set evs \<subseteq> set (audit_of st)" using ld by (auto simp: evs of_load dest: in_set_takeD)
  have "sorted_wrt (\<lambda>a b. ev_At a \<ge> ev_At b) ?s"
    using sorted_sort_key [of "\<lambda>e. - ev_At e" xs] by (simp add: sorted_map)
  then show "sorted_wrt (\<lambda>a b. ev_At a \<ge> ev_At b) evs"
    by (simp add: evs sorted_wrt_take)
qed

end
