(* ===== verification/Keys.thy ===== *)
theory Keys
  imports Encoding Domain FileStore
begin

text \<open>
  Signing keys: \<open>internal/crypto/keys.go\<close> (key pairs and their PEM form),
  \<open>internal/store/file/keys.go\<close> (the repository, one JSON file) and
  \<open>internal/crypto/service.go\<close> (rotation, the cache of the active key, the key set).

  The encodings of \<open>crypto/x509\<close> and \<open>encoding/pem\<close> are modelled by their
  structure, not by their bytes: a PEM text is a block type with a DER value, and parsing
  inverts marshalling. The keys that \<open>rsa.GenerateKey\<close>,
  \<open>ed25519.GenerateKey\<close> and \<open>uuid.New\<close> draw are an argument. Messages that
  print a type or a quoted value (\<open>%T\<close>, \<open>%q\<close>, \<open>%v\<close>) are cut before it.
\<close>

section \<open>Key pairs\<close>

datatype private_key =
    RSA_private nat nat nat
  | Ed25519_private string string
  | Other_private string bool

datatype public_key =
    RSA_public nat nat
  | Ed25519_public string
  | Other_public string

datatype der = PKCS1 private_key | PKCS8 private_key | PKIX public_key | NotDER

datatype pem = PEM string der | NotPEM

record keypair =
  kp_Kid :: string
  kp_Alg :: string
  kp_PrivateKey :: "private_key option"
  kp_PublicKey :: "public_key option"
  kp_CreatedAt :: time
  kp_ExpiresAt :: time
  kp_Active :: bool
  kp_PrivateKeyPEM :: "pem option"
  kp_PublicKeyPEM :: "pem option"

definition AlgRS256 :: string where
  "AlgRS256 = ''RS256''"

definition AlgEdDSA :: string where
  "AlgEdDSA = ''EdDSA''"

definition SupportedAlgorithms :: "string list" where
  "SupportedAlgorithms = [AlgRS256, AlgEdDSA]"

definition ValidAlgorithm :: "string \<Rightarrow> bool" where
  "ValidAlgorithm alg \<longleftrightarrow> list_ex (\<lambda>a. a = alg) SupportedAlgorithms"

lemmas alg_defs = AlgRS256_def AlgEdDSA_def

text \<open>What is drawn when a key is made: the key material of either kind, and the kid.\<close>

record keygen =
  gen_rsa :: "(private_key \<times> public_key) res"
  gen_ed25519 :: "(private_key \<times> public_key) res"
  gen_kid :: string

fun MarshalPKCS8PrivateKey :: "private_key \<Rightarrow> der res" where
  "MarshalPKCS8PrivateKey (Other_private _ _) = Inl (Plain ''x509: unknown key type'')"
| "MarshalPKCS8PrivateKey k = Inr (PKCS8 k)"

fun MarshalPKIXPublicKey :: "public_key \<Rightarrow> der res" where
  "MarshalPKIXPublicKey (Other_public _) = Inl (Plain ''x509: unsupported public key type'')"
| "MarshalPKIXPublicKey k = Inr (PKIX k)"

fun ParsePKCS1PrivateKey :: "der \<Rightarrow> private_key res" where
  "ParsePKCS1PrivateKey (PKCS1 (RSA_private n e d)) = Inr (RSA_private n e d)"
| "ParsePKCS1PrivateKey _ = Inl (Plain ''x509: failed to parse private key'')"

fun ParsePKCS8PrivateKey :: "der \<Rightarrow> private_key res" where
  "ParsePKCS8PrivateKey (PKCS8 k) = Inr k"
| "ParsePKCS8PrivateKey _ = Inl (Plain ''x509: failed to parse private key'')"

fun ParsePKIXPublicKey :: "der \<Rightarrow> public_key res" where
  "ParsePKIXPublicKey (PKIX k) = Inr k"
| "ParsePKIXPublicKey _ = Inl (Plain ''x509: failed to parse public key'')"

fun can_sign :: "private_key \<Rightarrow> bool" where
  "can_sign (Other_private _ b) = b"
| "can_sign _ = True"

definition is_rsa_private :: "private_key \<Rightarrow> bool" where
  "is_rsa_private k = (case k of RSA_private _ _ _ \<Rightarrow> True | _ \<Rightarrow> False)"

definition is_rsa_public :: "public_key \<Rightarrow> bool" where
  "is_rsa_public k = (case k of RSA_public _ _ \<Rightarrow> True | _ \<Rightarrow> False)"

definition is_ed25519_private :: "private_key \<Rightarrow> bool" where
  "is_ed25519_private k = (case k of Ed25519_private _ _ \<Rightarrow> True | _ \<Rightarrow> False)"

definition is_ed25519_public :: "public_key \<Rightarrow> bool" where
  "is_ed25519_public k = (case k of Ed25519_public _ \<Rightarrow> True | _ \<Rightarrow> False)"

lemmas key_kind_defs = is_rsa_private_def is_rsa_public_def is_ed25519_private_def is_ed25519_public_def

definition serializeToPEM :: "private_key \<Rightarrow> public_key \<Rightarrow> keypair \<Rightarrow> keypair res" where
  "serializeToPEM priv pub kp =
     (case (if is_rsa_private priv then Inr (PEM ''RSA PRIVATE KEY'' (PKCS1 priv))
            else case MarshalPKCS8PrivateKey priv of
                   Inl e \<Rightarrow> Inl (Wrapped ''failed to marshal private key'' e)
                 | Inr d \<Rightarrow> Inr (PEM ''PRIVATE KEY'' d)) of
        Inl e \<Rightarrow> Inl e
      | Inr privPEM \<Rightarrow>
          (case MarshalPKIXPublicKey pub of
             Inl e \<Rightarrow> Inl (Wrapped ''failed to marshal public key'' e)
           | Inr d \<Rightarrow> Inr (kp\<lparr>kp_PrivateKeyPEM := Some privPEM, kp_PublicKeyPEM := Some (PEM ''PUBLIC KEY'' d)\<rparr>)))"

definition newKeyPair :: "string \<Rightarrow> time \<Rightarrow> string \<Rightarrow> private_key \<Rightarrow> public_key \<Rightarrow> keypair res" where
  "newKeyPair kid now alg privateKey publicKey =
     serializeToPEM privateKey publicKey
       \<lparr>kp_Kid = kid, kp_Alg = alg, kp_PrivateKey = Some privateKey, kp_PublicKey = Some publicKey,
        kp_CreatedAt = now, kp_ExpiresAt = zero_time, kp_Active = True,
        kp_PrivateKeyPEM = None, kp_PublicKeyPEM = None\<rparr>"

definition GenerateKeyPair :: "keygen \<Rightarrow> time \<Rightarrow> keypair res" where
  "GenerateKeyPair g now =
     (case gen_rsa g of
        Inl e \<Rightarrow> Inl (Wrapped ''failed to generate RSA key'' e)
      | Inr (priv, pub) \<Rightarrow> newKeyPair (gen_kid g) now AlgRS256 priv pub)"

definition GenerateKeyPairForAlg :: "keygen \<Rightarrow> time \<Rightarrow> string \<Rightarrow> keypair res" where
  "GenerateKeyPairForAlg g now alg =
     (if alg = AlgRS256 then GenerateKeyPair g now
      else if alg = AlgEdDSA then
        (case gen_ed25519 g of
           Inl e \<Rightarrow> Inl (Wrapped ''failed to generate Ed25519 key'' e)
         | Inr (priv, pub) \<Rightarrow> newKeyPair (gen_kid g) now AlgEdDSA priv pub)
      else Inl (Plain ''unsupported signing algorithm''))"

definition loadPrivate :: "pem option \<Rightarrow> private_key res" where
  "loadPrivate p =
     (case p of
        Some (PEM ty d) \<Rightarrow>
          if ty = ''RSA PRIVATE KEY'' then
            (case ParsePKCS1PrivateKey d of
               Inl e \<Rightarrow> Inl (Wrapped ''failed to parse private key'' e)
             | Inr k \<Rightarrow> Inr k)
          else
            (case ParsePKCS8PrivateKey d of
               Inl e \<Rightarrow> Inl (Wrapped ''failed to parse private key'' e)
             | Inr k \<Rightarrow> if can_sign k then Inr k else Inl (Plain ''private key type cannot sign''))
      | _ \<Rightarrow> Inl (Plain ''failed to decode private key PEM''))"

definition loadPublic :: "pem option \<Rightarrow> public_key res" where
  "loadPublic p =
     (case p of
        Some (PEM ty d) \<Rightarrow>
          (case ParsePKIXPublicKey d of
             Inl e \<Rightarrow> Inl (Wrapped ''failed to parse public key'' e)
           | Inr k \<Rightarrow> Inr k)
      | _ \<Rightarrow> Inl (Plain ''failed to decode public key PEM''))"

definition LoadFromPEM :: "keypair \<Rightarrow> keypair res" where
  "LoadFromPEM kp =
     (if kp_PrivateKeyPEM kp = None \<or> kp_PublicKeyPEM kp = None then Inl (Plain ''PEM data is missing'')
      else case loadPrivate (kp_PrivateKeyPEM kp) of Inl e \<Rightarrow> Inl e | Inr privateKey \<Rightarrow>
        (case loadPublic (kp_PublicKeyPEM kp) of Inl e \<Rightarrow> Inl e | Inr publicKey \<Rightarrow>
          (let alg = (if kp_Alg kp = '''' then AlgRS256 else kp_Alg kp);
               loaded = kp\<lparr>kp_Alg := alg, kp_PrivateKey := Some privateKey, kp_PublicKey := Some publicKey\<rparr>;
               pre = ''key '' @ kp_Kid kp @ '' is '' @ alg
           in if alg = AlgRS256 then
                (if \<not> is_rsa_private privateKey then Inl (Plain (pre @ '' but its private key is''))
                 else if \<not> is_rsa_public publicKey then Inl (Plain (pre @ '' but its public key is''))
                 else Inr loaded)
              else if alg = AlgEdDSA then
                (if \<not> is_ed25519_private privateKey then Inl (Plain (pre @ '' but its private key is''))
                 else if \<not> is_ed25519_public publicKey then Inl (Plain (pre @ '' but its public key is''))
                 else Inr loaded)
              else Inl (Plain (''key '' @ kp_Kid kp @ '' has unsupported algorithm'')))))"

definition kp_IsExpired :: "time \<Rightarrow> keypair \<Rightarrow> bool" where
  "kp_IsExpired now kp = (if IsZero (kp_ExpiresAt kp) then False else now > kp_ExpiresAt kp)"

text \<open>\<open>RandomToken\<close>: the random bytes, or the error of \<open>rand.Read\<close>, are an argument.\<close>

definition RandomToken :: "string res \<Rightarrow> string res" where
  "RandomToken rnd =
     (case rnd of
        Inl e \<Rightarrow> Inl (Wrapped ''failed to generate random bytes'' e)
      | Inr b \<Rightarrow> Inr (RawURLEncoding_EncodeToString b))"

section \<open>The repository\<close>

record keys_data =
  kd_Keys :: "keypair list"
  kd_ActiveKid :: string

record key_file =
  kf_data :: "keys_data json_file"
  kf_write_err :: "goerr option"

definition keys_load :: "key_file \<Rightarrow> keys_data res" where
  "keys_load kf = readFile \<lparr>kd_Keys = [], kd_ActiveKid = ''''\<rparr> (kf_data kf)"

text \<open>The key material itself has no place in the JSON; only its PEM text is written.\<close>

definition json_keypair :: "keypair \<Rightarrow> keypair" where
  "json_keypair kp = kp\<lparr>kp_PrivateKey := None, kp_PublicKey := None\<rparr>"

definition keys_save :: "keys_data \<Rightarrow> key_file \<Rightarrow> goerr option \<times> key_file" where
  "keys_save kd kf =
     (case kf_write_err kf of
        Some e \<Rightarrow> (Some e, kf)
      | None \<Rightarrow> (None, kf\<lparr>kf_data := Content (kd\<lparr>kd_Keys := map json_keypair (kd_Keys kd)\<rparr>)\<rparr>))"

definition keys_GetByID :: "string \<Rightarrow> key_file \<Rightarrow> keypair res" where
  "keys_GetByID kid kf =
     (case keys_load kf of
        Inl e \<Rightarrow> Inl (Internal ''failed to load keys'' e)
      | Inr kd \<Rightarrow> (case find (\<lambda>k. kp_Kid k = kid) (kd_Keys kd) of
                     Some k \<Rightarrow> Inr k | None \<Rightarrow> Inl (NotFound ''signing key'' kid)))"

definition keys_GetActive :: "key_file \<Rightarrow> keypair res" where
  "keys_GetActive kf =
     (case keys_load kf of
        Inl e \<Rightarrow> Inl (Internal ''failed to load keys'' e)
      | Inr kd \<Rightarrow>
          if kd_ActiveKid kd = '''' then Inl (NotFound ''active signing key'' '''')
          else (case find (\<lambda>k. kp_Kid k = kd_ActiveKid kd) (kd_Keys kd) of
                  Some k \<Rightarrow> Inr k | None \<Rightarrow> Inl (NotFound ''active signing key'' (kd_ActiveKid kd))))"

definition keys_GetAll :: "key_file \<Rightarrow> keypair list res" where
  "keys_GetAll kf =
     (case keys_load kf of
        Inl e \<Rightarrow> Inl (Internal ''failed to load keys'' e)
      | Inr kd \<Rightarrow> Inr (kd_Keys kd))"

definition keys_Save :: "keypair \<Rightarrow> key_file \<Rightarrow> goerr option \<times> key_file" where
  "keys_Save kp kf =
     (case keys_load kf of
        Inl e \<Rightarrow> (Some (Internal ''failed to load keys'' e), kf)
      | Inr kd \<Rightarrow>
          (case find (\<lambda>k. kp_Kid k = kp_Kid kp) (kd_Keys kd) of
             Some _ \<Rightarrow> keys_save (kd\<lparr>kd_Keys := upd_first (\<lambda>k. kp_Kid k = kp_Kid kp) (\<lambda>_. kp) (kd_Keys kd)\<rparr>) kf
           | None \<Rightarrow> keys_save (kd\<lparr>kd_Keys := kd_Keys kd @ [kp]\<rparr>) kf))"

definition keys_SetActive :: "string \<Rightarrow> key_file \<Rightarrow> goerr option \<times> key_file" where
  "keys_SetActive kid kf =
     (case keys_load kf of
        Inl e \<Rightarrow> (Some (Internal ''failed to load keys'' e), kf)
      | Inr kd \<Rightarrow>
          if \<not> list_ex (\<lambda>k. kp_Kid k = kid) (kd_Keys kd) then (Some (NotFound ''signing key'' kid), kf)
          else keys_save \<lparr>kd_Keys = map (\<lambda>k. k\<lparr>kp_Active := (kp_Kid k = kid)\<rparr>) (kd_Keys kd), kd_ActiveKid = kid\<rparr> kf)"

definition keys_Delete :: "string \<Rightarrow> key_file \<Rightarrow> goerr option \<times> key_file" where
  "keys_Delete kid kf =
     (case keys_load kf of
        Inl e \<Rightarrow> (Some (Internal ''failed to load keys'' e), kf)
      | Inr kd \<Rightarrow>
          (case find (\<lambda>k. kp_Kid k = kid) (kd_Keys kd) of
             Some _ \<Rightarrow>
               keys_save \<lparr>kd_Keys = del_first (\<lambda>k. kp_Kid k = kid) (kd_Keys kd),
                          kd_ActiveKid = (if kd_ActiveKid kd = kid then '''' else kd_ActiveKid kd)\<rparr> kf
           | None \<Rightarrow> (Some (NotFound ''signing key'' kid), kf)))"

section \<open>The key service\<close>

record key_service =
  ks_repo :: key_file
  ks_active :: "keypair option"
  ks_activeAt :: time
  ks_cacheTTL :: duration
  ks_algorithm :: string

definition DefaultActiveKeyCacheTTL :: duration where
  "DefaultActiveKeyCacheTTL = minute"

definition NewKeyService :: "key_file \<Rightarrow> string \<Rightarrow> key_service" where
  "NewKeyService repo alg =
     \<lparr>ks_repo = repo, ks_active = None, ks_activeAt = zero_time,
      ks_cacheTTL = DefaultActiveKeyCacheTTL, ks_algorithm = alg\<rparr>"

definition setActive :: "time \<Rightarrow> keypair \<Rightarrow> key_service \<Rightarrow> key_service" where
  "setActive now key s = s\<lparr>ks_active := Some key, ks_activeAt := now\<rparr>"

definition cachedActive :: "time \<Rightarrow> key_service \<Rightarrow> keypair option" where
  "cachedActive now s =
     (case ks_active s of
        None \<Rightarrow> None
      | Some k \<Rightarrow> if ks_cacheTTL s \<le> 0 \<or> time_Sub now (ks_activeAt s) \<ge> ks_cacheTTL s then None else Some k)"

text \<open>A key read from the repository gets its key material from its PEM text.\<close>

definition restore :: "keypair \<Rightarrow> keypair res" where
  "restore key =
     (if kp_PrivateKey key = None then
        (case LoadFromPEM key of
           Inl e \<Rightarrow> Inl (Wrapped ''failed to load key from PEM'' e)
         | Inr k \<Rightarrow> Inr k)
      else Inr key)"

text \<open>Save and activate a new key, the tail of \<open>EnsureActiveKey\<close> and \<open>RotateKey\<close>.\<close>

definition saveAndActivate :: "keygen \<Rightarrow> time \<Rightarrow> key_service \<Rightarrow> keypair res \<times> key_service" where
  "saveAndActivate g now s =
     (case GenerateKeyPairForAlg g now (ks_algorithm s) of
        Inl e \<Rightarrow> (Inl (Wrapped ''failed to generate key'' e), s)
      | Inr key \<Rightarrow>
          (case keys_Save key (ks_repo s) of
             (Some e, r) \<Rightarrow> (Inl (Wrapped ''failed to save key'' e), s\<lparr>ks_repo := r\<rparr>)
           | (None, r) \<Rightarrow>
               (case keys_SetActive (kp_Kid key) r of
                  (Some e, r) \<Rightarrow> (Inl (Wrapped ''failed to activate key'' e), s\<lparr>ks_repo := r\<rparr>)
                | (None, r) \<Rightarrow> (Inr key, setActive now key (s\<lparr>ks_repo := r\<rparr>)))))"

definition EnsureActiveKey :: "keygen \<Rightarrow> time \<Rightarrow> key_service \<Rightarrow> keypair res \<times> key_service" where
  "EnsureActiveKey g now s =
     (case keys_GetActive (ks_repo s) of
        Inr key \<Rightarrow>
          (case restore key of
             Inl e \<Rightarrow> (Inl e, s)
           | Inr key' \<Rightarrow> (Inr key', setActive now key' s))
      | Inl _ \<Rightarrow> saveAndActivate g now s)"

definition GetActiveKey :: "time \<Rightarrow> key_service \<Rightarrow> keypair res \<times> key_service" where
  "GetActiveKey now s =
     (case cachedActive now s of
        Some key \<Rightarrow> (Inr key, s)
      | None \<Rightarrow>
          (case keys_GetActive (ks_repo s) of
             Inl e \<Rightarrow> (Inl e, s)
           | Inr key \<Rightarrow>
               (case restore key of
                  Inl e \<Rightarrow> (Inl e, s)
                | Inr key' \<Rightarrow> (Inr key', setActive now key' s))))"

definition ListKeys :: "key_service \<Rightarrow> keypair list res" where
  "ListKeys s =
     (case keys_GetAll (ks_repo s) of
        Inl e \<Rightarrow> Inl e
      | Inr keys \<Rightarrow> Inr (sort_key (\<lambda>k. - kp_CreatedAt k) keys))"

definition RotateKey :: "keygen \<Rightarrow> time \<Rightarrow> duration \<Rightarrow> key_service \<Rightarrow> keypair res \<times> key_service" where
  "RotateKey g now expiresIn s =
     (case keys_GetActive (ks_repo s) of
        Inr oldKey \<Rightarrow>
          (case keys_Save (oldKey\<lparr>kp_Active := False, kp_ExpiresAt := now + expiresIn\<rparr>) (ks_repo s) of
             (Some e, r) \<Rightarrow> (Inl (Wrapped ''failed to update old key'' e), s\<lparr>ks_repo := r\<rparr>)
           | (None, r) \<Rightarrow> saveAndActivate g now (s\<lparr>ks_repo := r\<rparr>))
      | Inl _ \<Rightarrow> saveAndActivate g now s)"

definition ShouldRotate :: "time \<Rightarrow> duration \<Rightarrow> key_service \<Rightarrow> bool res \<times> key_service" where
  "ShouldRotate now maxAge s =
     (if maxAge \<le> 0 then (Inr False, s)
      else case GetActiveKey now s of
        (Inl e, s') \<Rightarrow> (Inl e, s')
      | (Inr key, s') \<Rightarrow> (Inr (time_Sub now (kp_CreatedAt key) \<ge> maxAge), s'))"

definition GetKeyByID :: "string \<Rightarrow> key_service \<Rightarrow> keypair res" where
  "GetKeyByID kid s =
     (case keys_GetByID kid (ks_repo s) of
        Inl e \<Rightarrow> Inl e
      | Inr key \<Rightarrow>
          if kp_PrivateKey key = None \<or> kp_PublicKey key = None then
            (case LoadFromPEM key of
               Inl e \<Rightarrow> Inl (Wrapped ''failed to load key from PEM'' e)
             | Inr k \<Rightarrow> Inr k)
          else Inr key)"

fun cleanup_loop :: "time \<Rightarrow> keypair list \<Rightarrow> key_file \<Rightarrow> goerr option \<times> key_file" where
  "cleanup_loop now [] r = (None, r)"
| "cleanup_loop now (key # keys) r =
     (if kp_IsExpired now key \<and> \<not> kp_Active key then
        (case keys_Delete (kp_Kid key) r of
           (Some e, r') \<Rightarrow> (Some (Wrapped (''failed to delete expired key '' @ kp_Kid key) e), r')
         | (None, r') \<Rightarrow> cleanup_loop now keys r')
      else cleanup_loop now keys r)"

definition CleanupExpiredKeys :: "time \<Rightarrow> key_service \<Rightarrow> goerr option \<times> key_service" where
  "CleanupExpiredKeys now s =
     (case keys_GetAll (ks_repo s) of
        Inl e \<Rightarrow> (Some e, s)
      | Inr keys \<Rightarrow> (case cleanup_loop now keys (ks_repo s) of (e, r) \<Rightarrow> (e, s\<lparr>ks_repo := r\<rparr>)))"

section \<open>The key set\<close>

record jwk =
  jwk_Kty :: string
  jwk_Use :: string
  jwk_Kid :: string
  jwk_Alg :: string
  jwk_N :: string
  jwk_E :: string
  jwk_Crv :: string
  jwk_X :: string

text \<open>\<open>(*big.Int).Bytes()\<close>: big-endian, without leading zeros.\<close>

fun bigint_Bytes :: "nat \<Rightarrow> string" where
  "bigint_Bytes n = (if n = 0 then [] else bigint_Bytes (n div 256) @ [chr (n mod 256)])"

declare bigint_Bytes.simps [simp del]

definition ToJWK :: "keypair \<Rightarrow> jwk" where
  "ToJWK kp =
     (let j = \<lparr>jwk_Kty = '''', jwk_Use = ''sig'', jwk_Kid = kp_Kid kp, jwk_Alg = kp_Alg kp,
               jwk_N = '''', jwk_E = '''', jwk_Crv = '''', jwk_X = ''''\<rparr>
      in case kp_PublicKey kp of
           Some (RSA_public n e) \<Rightarrow>
             j\<lparr>jwk_Kty := ''RSA'', jwk_N := RawURLEncoding_EncodeToString (bigint_Bytes n),
               jwk_E := RawURLEncoding_EncodeToString (bigint_Bytes e)\<rparr>
         | Some (Ed25519_public x) \<Rightarrow>
             j\<lparr>jwk_Kty := ''OKP'', jwk_Crv := ''Ed25519'', jwk_X := RawURLEncoding_EncodeToString x\<rparr>
         | _ \<Rightarrow> j)"

definition jwk_entry :: "time \<Rightarrow> keypair \<Rightarrow> jwk option" where
  "jwk_entry now key =
     (if kp_IsExpired now key then None
      else if kp_PublicKey key = None then
        (case LoadFromPEM key of Inl _ \<Rightarrow> None | Inr k \<Rightarrow> Some (ToJWK k))
      else Some (ToJWK key))"

definition GetJWKS :: "time \<Rightarrow> key_service \<Rightarrow> jwk list res" where
  "GetJWKS now s =
     (case keys_GetAll (ks_repo s) of
        Inl e \<Rightarrow> Inl e
      | Inr keys \<Rightarrow> Inr (List.map_filter (jwk_entry now) keys))"

section \<open>The invariant of the key file\<close>

text \<open>
  The kids are distinct, the active kid names a key, the flags agree with it, and the active
  key has no expiry; key material is only present as PEM text.
\<close>

definition keys_of :: "key_file \<Rightarrow> keys_data" where
  "keys_of kf = val \<lparr>kd_Keys = [], kd_ActiveKid = ''''\<rparr> (keys_load kf)"

definition keys_wf :: "keys_data \<Rightarrow> bool" where
  "keys_wf kd \<longleftrightarrow> distinct (map kp_Kid (kd_Keys kd))
     \<and> (kd_ActiveKid kd \<noteq> '''' \<longrightarrow> kd_ActiveKid kd \<in> kp_Kid ` set (kd_Keys kd))
     \<and> (\<forall>k \<in> set (kd_Keys kd). kp_Kid k \<noteq> '''' \<and> json_keypair k = k
          \<and> (kp_Active k \<longleftrightarrow> kp_Kid k = kd_ActiveKid kd) \<and> (kp_Active k \<longrightarrow> IsZero (kp_ExpiresAt k)))"

lemma keys_load_of: "keys_load kf = Inr kd \<Longrightarrow> keys_of kf = kd"
  by (simp add: keys_of_def)

lemma json_keypair_sel [simp]:
  "kp_Kid (json_keypair k) = kp_Kid k" "kp_Alg (json_keypair k) = kp_Alg k"
  "kp_CreatedAt (json_keypair k) = kp_CreatedAt k" "kp_ExpiresAt (json_keypair k) = kp_ExpiresAt k"
  "kp_Active (json_keypair k) = kp_Active k" "kp_PrivateKeyPEM (json_keypair k) = kp_PrivateKeyPEM k"
  "kp_PublicKeyPEM (json_keypair k) = kp_PublicKeyPEM k" "kp_PrivateKey (json_keypair k) = None"
  "kp_PublicKey (json_keypair k) = None" "json_keypair (json_keypair k) = json_keypair k"
  by (simp_all add: json_keypair_def)

lemma json_keypair_upd:
  "json_keypair (k\<lparr>kp_Active := b\<rparr>) = (json_keypair k)\<lparr>kp_Active := b\<rparr>"
  "json_keypair (k\<lparr>kp_ExpiresAt := t\<rparr>) = (json_keypair k)\<lparr>kp_ExpiresAt := t\<rparr>"
  by (simp_all add: json_keypair_def)

lemma keys_save_Ok:
  "keys_save kd kf = (None, kf') \<Longrightarrow>
    kf' = kf\<lparr>kf_data := Content (kd\<lparr>kd_Keys := map json_keypair (kd_Keys kd)\<rparr>)\<rparr>
    \<and> keys_load kf' = Inr (kd\<lparr>kd_Keys := map json_keypair (kd_Keys kd)\<rparr>)"
  by (auto simp: keys_save_def keys_load_def split: option.splits)

lemma keys_Save_Ok:
  assumes "keys_Save kp kf = (None, kf')" and "distinct (map kp_Kid (kd_Keys (keys_of kf)))"
  shows "keys_load kf' = Inr ((keys_of kf)\<lparr>kd_Keys := map json_keypair
     (if kp_Kid kp \<in> kp_Kid ` set (kd_Keys (keys_of kf))
      then map (\<lambda>k. if kp_Kid k = kp_Kid kp then kp else k) (kd_Keys (keys_of kf))
      else kd_Keys (keys_of kf) @ [kp])\<rparr>)"
proof -
  obtain kd where ld: "keys_load kf = Inr kd"
    using assms(1) by (auto simp: keys_Save_def split: sum.splits)
  then have kd: "keys_of kf = kd" by (rule keys_load_of)
  have "find (\<lambda>k. kp_Kid k = kp_Kid kp) (kd_Keys kd) = None \<longleftrightarrow> kp_Kid kp \<notin> kp_Kid ` set (kd_Keys kd)"
    using lookup_by_None_iff [of kp_Kid "kd_Keys kd" "kp_Kid kp"] by (simp add: lookup_by_def)
  then show ?thesis using assms ld unfolding kd
    by (auto simp: keys_Save_def upd_first_distinct dest!: keys_save_Ok split: option.splits)
qed

lemma keys_SetActive_Ok:
  assumes "keys_SetActive kid kf = (None, kf')"
  shows "kid \<in> kp_Kid ` set (kd_Keys (keys_of kf))"
    and "keys_load kf' = Inr \<lparr>kd_Keys = map (\<lambda>k. json_keypair (k\<lparr>kp_Active := (kp_Kid k = kid)\<rparr>)) (kd_Keys (keys_of kf)),
           kd_ActiveKid = kid\<rparr>"
proof -
  obtain kd where ld: "keys_load kf = Inr kd"
    using assms(1) by (auto simp: keys_SetActive_def split: sum.splits)
  then have kd: "keys_of kf = kd" by (rule keys_load_of)
  show "kid \<in> kp_Kid ` set (kd_Keys (keys_of kf))"
    using assms ld unfolding kd by (auto simp: keys_SetActive_def list_ex_iff split: if_splits)
  show "keys_load kf' = Inr \<lparr>kd_Keys = map (\<lambda>k. json_keypair (k\<lparr>kp_Active := (kp_Kid k = kid)\<rparr>)) (kd_Keys (keys_of kf)),
           kd_ActiveKid = kid\<rparr>"
    using assms ld unfolding kd
    by (auto simp: keys_SetActive_def comp_def dest!: keys_save_Ok split: if_splits)
qed

lemma GenerateKeyPairForAlg_Ok:
  assumes "GenerateKeyPairForAlg g now alg = Inr k"
  shows "kp_Kid k = gen_kid g" and "kp_Alg k = alg" and "kp_Active k" and "IsZero (kp_ExpiresAt k)"
    and "kp_CreatedAt k = now" and "ValidAlgorithm alg"
  using assms
  by (auto simp: GenerateKeyPairForAlg_def GenerateKeyPair_def newKeyPair_def serializeToPEM_def IsZero_def
      ValidAlgorithm_def SupportedAlgorithms_def split: if_splits sum.splits)

text \<open>The effect of \<open>saveAndActivate\<close> with a fresh kid.\<close>

lemma saveAndActivate_Ok:
  assumes "saveAndActivate g now s = (Inr k, s')" and "distinct (map kp_Kid (kd_Keys (keys_of (ks_repo s))))"
    and "gen_kid g \<notin> kp_Kid ` set (kd_Keys (keys_of (ks_repo s)))"
  shows "keys_load (ks_repo s') = Inr
      \<lparr>kd_Keys = map (\<lambda>k. json_keypair (k\<lparr>kp_Active := False\<rparr>)) (kd_Keys (keys_of (ks_repo s))) @ [json_keypair k],
       kd_ActiveKid = gen_kid g\<rparr>"
    and "ks_active s' = Some k" and "ks_activeAt s' = now"
    and "GenerateKeyPairForAlg g now (ks_algorithm s) = Inr k"
proof -
  obtain r1 r2 where gen: "GenerateKeyPairForAlg g now (ks_algorithm s) = Inr k"
    and sv: "keys_Save k (ks_repo s) = (None, r1)" and act: "keys_SetActive (kp_Kid k) r1 = (None, r2)"
    and s': "s' = setActive now k (s\<lparr>ks_repo := r2\<rparr>)"
    using assms(1) by (auto simp: saveAndActivate_def split: sum.splits prod.splits option.splits)
  note k = GenerateKeyPairForAlg_Ok [OF gen]
  let ?ks = "kd_Keys (keys_of (ks_repo s))"
  have "keys_of r1 = (keys_of (ks_repo s))\<lparr>kd_Keys := map json_keypair (?ks @ [k])\<rparr>"
    using keys_Save_Ok [OF sv assms(2)] assms(3) k(1) by (simp add: keys_load_of)
  then have "keys_load r2 = Inr \<lparr>kd_Keys = map (\<lambda>k'. json_keypair (k'\<lparr>kp_Active := (kp_Kid k' = gen_kid g)\<rparr>)) (map json_keypair (?ks @ [k])),
      kd_ActiveKid = gen_kid g\<rparr>"
    using keys_SetActive_Ok(2) [OF act] k(1) by simp
  moreover have "json_keypair ((json_keypair k')\<lparr>kp_Active := (kp_Kid k' = gen_kid g)\<rparr>) =
      json_keypair (k'\<lparr>kp_Active := False\<rparr>)" if "k' \<in> set ?ks" for k'
    using that assms(3) by (auto simp: json_keypair_def image_iff)
  moreover have "json_keypair ((json_keypair k)\<lparr>kp_Active := (kp_Kid k = gen_kid g)\<rparr>) = json_keypair k"
    using k by (simp add: json_keypair_def)
  ultimately show "keys_load (ks_repo s') = Inr
      \<lparr>kd_Keys = map (\<lambda>k. json_keypair (k\<lparr>kp_Active := False\<rparr>)) ?ks @ [json_keypair k],
       kd_ActiveKid = gen_kid g\<rparr>"
    by (simp add: s' setActive_def)
  show "ks_active s' = Some k" "ks_activeAt s' = now" by (simp_all add: s' setActive_def)
  show "GenerateKeyPairForAlg g now (ks_algorithm s) = Inr k" by (rule gen)
qed

definition retire :: "time \<Rightarrow> duration \<Rightarrow> string \<Rightarrow> keypair \<Rightarrow> keypair" where
  "retire now expiresIn kid k =
     (if kp_Kid k = kid then k\<lparr>kp_Active := False, kp_ExpiresAt := now + expiresIn\<rparr> else k)"

text \<open>
  What a successful rotation leaves in the repository, exactly: the old active key is inactive
  and expires after the grace period, every other key is as it was, the new key is the last
  and the active one.
\<close>

lemma RotateKey_Ok:
  assumes "RotateKey g now expiresIn s = (Inr k, s')" and wf: "keys_wf (keys_of (ks_repo s))"
    and fresh: "gen_kid g \<notin> kp_Kid ` set (kd_Keys (keys_of (ks_repo s)))"
  shows "keys_load (ks_repo s') = Inr
      \<lparr>kd_Keys = map (retire now expiresIn (kd_ActiveKid (keys_of (ks_repo s)))) (kd_Keys (keys_of (ks_repo s)))
         @ [json_keypair k],
       kd_ActiveKid = gen_kid g\<rparr>"
    and "ks_active s' = Some k" and "GenerateKeyPairForAlg g now (ks_algorithm s) = Inr k"
proof -
  let ?kd = "keys_of (ks_repo s)"
  have dist: "distinct (map kp_Kid (kd_Keys ?kd))" using wf by (simp add: keys_wf_def)
  have json: "json_keypair x = x" if "x \<in> set (kd_Keys ?kd)" for x using wf that by (simp add: keys_wf_def)
  have inact: "x\<lparr>kp_Active := False\<rparr> = x" if "x \<in> set (kd_Keys ?kd)" "kp_Kid x \<noteq> kd_ActiveKid ?kd" for x
    using wf that by (cases x) (auto simp: keys_wf_def)
  have "keys_load (ks_repo s') = Inr
      \<lparr>kd_Keys = map (retire now expiresIn (kd_ActiveKid ?kd)) (kd_Keys ?kd) @ [json_keypair k],
       kd_ActiveKid = gen_kid g\<rparr> \<and> ks_active s' = Some k \<and> GenerateKeyPairForAlg g now (ks_algorithm s) = Inr k"
  proof (cases "keys_GetActive (ks_repo s)")
    case (Inl e)
    with assms(1) have sa: "saveAndActivate g now s = (Inr k, s')" by (simp add: RotateKey_def)
    have "keys_load (ks_repo s) \<noteq> Inl x" for x
      using sa by (auto simp: saveAndActivate_def keys_Save_def split: sum.splits)
    then obtain kd where ld: "keys_load (ks_repo s) = Inr kd" by (cases "keys_load (ks_repo s)") auto
    then have kd: "?kd = kd" by (rule keys_load_of)
    have "kd_ActiveKid kd = ''''"
      using Inl ld wf unfolding kd
      by (auto simp: keys_GetActive_def keys_wf_def find_None_iff split: if_splits option.splits)
    moreover have "kp_Kid x \<noteq> ''''" if "x \<in> set (kd_Keys ?kd)" for x
      using wf that by (simp add: keys_wf_def)
    ultimately have "retire now expiresIn (kd_ActiveKid ?kd) x = json_keypair (x\<lparr>kp_Active := False\<rparr>)"
      if "x \<in> set (kd_Keys ?kd)" for x
      using json [OF that] inact [OF that] that by (simp add: retire_def kd)
    then show ?thesis using saveAndActivate_Ok [OF sa dist fresh] by (auto cong: map_cong)
  next
    case (Inr old)
    then obtain r where sv: "keys_Save (old\<lparr>kp_Active := False, kp_ExpiresAt := now + expiresIn\<rparr>) (ks_repo s) = (None, r)"
      and sa: "saveAndActivate g now (s\<lparr>ks_repo := r\<rparr>) = (Inr k, s')"
      using assms(1) by (auto simp: RotateKey_def split: prod.splits option.splits)
    from Inr have old: "old \<in> set (kd_Keys ?kd)" "kp_Kid old = kd_ActiveKid ?kd"
      by (auto simp: keys_GetActive_def keys_of_def split: sum.splits if_splits option.splits dest: find_Some_D)
    have ks: "kd_Keys (keys_of r) = map (retire now expiresIn (kd_ActiveKid ?kd)) (kd_Keys ?kd)"
    proof -
      have "json_keypair (if kp_Kid x = kp_Kid old then old\<lparr>kp_Active := False, kp_ExpiresAt := now + expiresIn\<rparr> else x) =
          retire now expiresIn (kd_ActiveKid ?kd) x" if "x \<in> set (kd_Keys ?kd)" for x
      proof (cases "kp_Kid x = kp_Kid old")
        case True
        then have "x = old" using dist that old(1) by (auto simp: distinct_map inj_on_def)
        with old(2) json [OF old(1)] show ?thesis
          by (simp add: retire_def json_keypair_def) (cases old, simp)
      next
        case False
        with old(2) json [OF that] show ?thesis by (simp add: retire_def)
      qed
      then show ?thesis
        using keys_Save_Ok [OF sv dist] old(1) by (auto simp: keys_load_of comp_def)
    qed
    have kids: "map kp_Kid (kd_Keys (keys_of r)) = map kp_Kid (kd_Keys ?kd)"
      by (simp add: ks retire_def comp_def)
    have ret: "json_keypair ((retire now expiresIn a y)\<lparr>kp_Active := False\<rparr>) = retire now expiresIn a y"
      if "y \<in> set (kd_Keys ?kd)" "a = kd_ActiveKid ?kd" for y a
      using json [OF that(1)] inact [OF that(1)] that(2)
      by (cases "kp_Kid y = a") (simp_all add: retire_def json_keypair_upd)
    then have "json_keypair (x\<lparr>kp_Active := False\<rparr>) = x" if "x \<in> set (kd_Keys (keys_of r))" for x
      using that unfolding ks by auto
    then have same: "map (\<lambda>x. json_keypair (x\<lparr>kp_Active := False\<rparr>)) (kd_Keys (keys_of r)) = kd_Keys (keys_of r)"
      by (simp add: map_idI)
    have fresh': "gen_kid g \<notin> kp_Kid ` set (kd_Keys (keys_of r))"
      using fresh kids by (metis list.set_map)
    have dist': "distinct (map kp_Kid (kd_Keys (keys_of r)))" using dist kids by simp
    have r: "ks_repo (s\<lparr>ks_repo := r\<rparr>) = r" "ks_algorithm (s\<lparr>ks_repo := r\<rparr>) = ks_algorithm s" by simp_all
    from saveAndActivate_Ok [OF sa, unfolded r, OF dist' fresh'] same ks show ?thesis by simp
  qed
  then show "keys_load (ks_repo s') = Inr
      \<lparr>kd_Keys = map (retire now expiresIn (kd_ActiveKid ?kd)) (kd_Keys ?kd) @ [json_keypair k],
       kd_ActiveKid = gen_kid g\<rparr>" and "ks_active s' = Some k" and "GenerateKeyPairForAlg g now (ks_algorithm s) = Inr k"
    by blast+
qed

lemma RotateKey_wf:
  assumes "RotateKey g now expiresIn s = (Inr k, s')" and wf: "keys_wf (keys_of (ks_repo s))"
    and "gen_kid g \<notin> kp_Kid ` set (kd_Keys (keys_of (ks_repo s)))" and "gen_kid g \<noteq> ''''"
  shows "keys_wf (keys_of (ks_repo s'))"
proof -
  note r = RotateKey_Ok [OF assms(1-3)]
  note k = GenerateKeyPairForAlg_Ok [OF r(3)]
  let ?kd = "keys_of (ks_repo s)" and ?ret = "retire now expiresIn (kd_ActiveKid (keys_of (ks_repo s)))"
  have old: "kp_Kid (?ret x) = kp_Kid x \<and> json_keypair (?ret x) = ?ret x \<and> \<not> kp_Active (?ret x)"
    if "x \<in> set (kd_Keys ?kd)" for x
    using wf that by (auto simp: keys_wf_def retire_def json_keypair_upd)
  have kids: "map kp_Kid (map ?ret (kd_Keys ?kd)) = map kp_Kid (kd_Keys ?kd)"
    using old by simp
  have "distinct (map kp_Kid (map ?ret (kd_Keys ?kd)))" unfolding kids using wf by (simp add: keys_wf_def)
  then have "distinct (map kp_Kid (map ?ret (kd_Keys ?kd) @ [json_keypair k]))"
    using assms(3) k(1) old by (auto simp: image_iff)
  moreover have "kp_Kid y \<noteq> '''' \<and> json_keypair y = y \<and> (kp_Active y \<longleftrightarrow> kp_Kid y = gen_kid g)
      \<and> (kp_Active y \<longrightarrow> IsZero (kp_ExpiresAt y))"
    if y: "y \<in> set (map ?ret (kd_Keys ?kd) @ [json_keypair k])" for y
  proof (cases "y = json_keypair k")
    case True
    then show ?thesis using k assms(4) by simp
  next
    case False
    then obtain x where x: "x \<in> set (kd_Keys ?kd)" "y = ?ret x" using y by auto
    moreover have "kp_Kid x \<noteq> ''''" using wf x(1) by (simp add: keys_wf_def)
    moreover have "kp_Kid x \<noteq> gen_kid g" using assms(3) x(1) by (metis imageI)
    ultimately show ?thesis using old [OF x(1)] by simp
  qed
  moreover have "gen_kid g \<in> kp_Kid ` set (map ?ret (kd_Keys ?kd) @ [json_keypair k])" using k(1) by simp
  ultimately show ?thesis unfolding keys_load_of [OF r(1)] keys_wf_def keys_data.select_convs by blast
qed

lemma LoadFromPEM_retire:
  "LoadFromPEM (k\<lparr>kp_Active := a, kp_ExpiresAt := x\<rparr>) =
    map_sum id (\<lambda>l. l\<lparr>kp_Active := a, kp_ExpiresAt := x\<rparr>) (LoadFromPEM k)"
  by (auto simp: LoadFromPEM_def Let_def split: sum.splits)

lemma ToJWK_retire [simp]: "ToJWK (l\<lparr>kp_Active := a, kp_ExpiresAt := x\<rparr>) = ToJWK l"
  by (simp add: ToJWK_def)

lemma ToJWK_Kid [simp]: "jwk_Kid (ToJWK k) = kp_Kid k"
  by (simp add: ToJWK_def Let_def split: option.splits public_key.splits)

lemma LoadFromPEM_sel:
  "LoadFromPEM k = Inr l \<Longrightarrow> kp_Kid l = kp_Kid k \<and> kp_ExpiresAt l = kp_ExpiresAt k \<and> kp_Active l = kp_Active k"
  by (auto simp: LoadFromPEM_def Let_def split: sum.splits if_splits)

lemma keys_GetActive_D:
  "keys_GetActive kf = Inr k \<Longrightarrow> k \<in> set (kd_Keys (keys_of kf)) \<and> kp_Kid k = kd_ActiveKid (keys_of kf)"
  by (auto simp: keys_GetActive_def keys_of_def split: sum.splits if_splits option.splits dest: find_Some_D)

text \<open>
  Through the grace period the retired key is published and found by its kid with the same
  public key; afterwards it is no longer published.
\<close>

lemma RotateKey_grace:
  assumes "RotateKey g now expiresIn s = (Inr k, s')" and wf: "keys_wf (keys_of (ks_repo s))"
    and fresh: "gen_kid g \<notin> kp_Kid ` set (kd_Keys (keys_of (ks_repo s)))"
    and old: "keys_GetActive (ks_repo s) = Inr old" and ld: "LoadFromPEM old = Inr loaded"
    and nz: "\<not> IsZero (now + expiresIn)"
  shows "t \<le> now + expiresIn \<Longrightarrow> (\<exists>js. GetJWKS t s' = Inr js \<and> ToJWK loaded \<in> set js)"
    and "\<exists>key. GetKeyByID (kp_Kid old) s' = Inr key \<and> kp_PublicKey key = kp_PublicKey loaded
           \<and> (kp_IsExpired t key \<longleftrightarrow> now + expiresIn < t)"
    and "now + expiresIn < t \<Longrightarrow> GetJWKS t s' = Inr js \<Longrightarrow> kp_Kid old \<notin> jwk_Kid ` set js"
proof -
  note r = RotateKey_Ok(1) [OF assms(1) wf fresh]
  let ?kd = "keys_of (ks_repo s)" and ?ret = "retire now expiresIn (kd_ActiveKid (keys_of (ks_repo s)))"
  let ?old = "old\<lparr>kp_Active := False, kp_ExpiresAt := now + expiresIn\<rparr>"
  note mem = keys_GetActive_D [OF old]
  have dist: "distinct (map kp_Kid (kd_Keys ?kd))" using wf by (simp add: keys_wf_def)
  have ret: "?ret old = ?old" using mem by (simp add: retire_def)
  have all: "keys_GetAll (ks_repo s') = Inr (map ?ret (kd_Keys ?kd) @ [json_keypair k])"
    by (simp add: keys_GetAll_def r)
  have "json_keypair old = old" using wf mem by (simp add: keys_wf_def)
  then have nomat: "kp_PublicKey old = None" "kp_PrivateKey old = None"
    using json_keypair_sel(8,9) [of old] by simp_all
  have exp: "kp_IsExpired t ?old \<longleftrightarrow> now + expiresIn < t" using nz by (simp add: kp_IsExpired_def)
  have entry: "jwk_entry t ?old = (if now + expiresIn < t then None else Some (ToJWK loaded))"
    using nomat exp ld by (simp add: jwk_entry_def LoadFromPEM_retire)
  show "\<exists>js. GetJWKS t s' = Inr js \<and> ToJWK loaded \<in> set js" if "t \<le> now + expiresIn"
  proof -
    have "?old \<in> ?ret ` set (kd_Keys ?kd)" using mem ret by (metis imageI)
    then have "ToJWK loaded \<in> set (List.map_filter (jwk_entry t) (map ?ret (kd_Keys ?kd) @ [json_keypair k]))"
      using entry that unfolding map_filter_mem by (intro bexI [of _ ?old]) simp_all
    then show ?thesis by (simp add: GetJWKS_def all)
  qed
  have "find (\<lambda>x. kp_Kid x = kp_Kid old) (kd_Keys ?kd) = Some old"
    using find_key_distinct [OF dist] mem by blast
  then have "find (\<lambda>x. kp_Kid x = kp_Kid old) (map ?ret (kd_Keys ?kd)) = Some ?old"
    using find_map_same [of "\<lambda>x. kp_Kid x = kp_Kid old" ?ret] ret by (simp add: retire_def)
  then have "keys_GetByID (kp_Kid old) (ks_repo s') = Inr ?old"
    by (simp add: keys_GetByID_def r find_append)
  then have "GetKeyByID (kp_Kid old) s' = Inr (loaded\<lparr>kp_Active := False, kp_ExpiresAt := now + expiresIn\<rparr>)"
    using nomat ld by (simp add: GetKeyByID_def LoadFromPEM_retire)
  then show "\<exists>key. GetKeyByID (kp_Kid old) s' = Inr key \<and> kp_PublicKey key = kp_PublicKey loaded
           \<and> (kp_IsExpired t key \<longleftrightarrow> now + expiresIn < t)"
    using nz by (simp add: kp_IsExpired_def)
  show "kp_Kid old \<notin> jwk_Kid ` set js" if late: "now + expiresIn < t" and js: "GetJWKS t s' = Inr js"
  proof
    assume "kp_Kid old \<in> jwk_Kid ` set js"
    then obtain j where j1: "j \<in> set js" "jwk_Kid j = kp_Kid old" by auto
    have "js = List.map_filter (jwk_entry t) (map ?ret (kd_Keys ?kd) @ [json_keypair k])"
      using js by (simp add: GetJWKS_def all)
    with j1(1) obtain x where x: "x \<in> set (map ?ret (kd_Keys ?kd) @ [json_keypair k])" and j2: "jwk_entry t x = Some j"
      by (simp only: map_filter_mem) blast
    note j = j2 j1(2)
    have "kp_Kid x = kp_Kid old"
      using j by (auto simp: jwk_entry_def LoadFromPEM_sel split: if_splits sum.splits)
    moreover have "kp_Kid (json_keypair k) = gen_kid g"
      using GenerateKeyPairForAlg_Ok(1) [OF RotateKey_Ok(3) [OF assms(1) wf fresh]] by simp
    moreover have "kp_Kid old \<noteq> gen_kid g" using fresh mem by (metis imageI)
    ultimately obtain y where y: "y \<in> set (kd_Keys ?kd)" "x = ?ret y" "kp_Kid y = kp_Kid old"
      using x by (auto simp: retire_def split: if_splits)
    then have "y = old" using dist mem by (auto simp: distinct_map inj_on_def)
    with y ret entry late j show False by simp
  qed
qed

section \<open>Cleaning up\<close>

lemma keys_Delete_Ok:
  assumes "keys_Delete kid kf = (None, kf')" and "keys_wf (keys_of kf)" and "kid \<noteq> kd_ActiveKid (keys_of kf)"
  shows "keys_load kf' = Inr ((keys_of kf)\<lparr>kd_Keys := filter (\<lambda>k. kp_Kid k \<noteq> kid) (kd_Keys (keys_of kf))\<rparr>)"
proof -
  obtain kd where ld: "keys_load kf = Inr kd"
    using assms(1) by (auto simp: keys_Delete_def split: sum.splits)
  then have kd: "keys_of kf = kd" by (rule keys_load_of)
  have "map json_keypair (filter (\<lambda>k. kp_Kid k \<noteq> kid) (kd_Keys kd)) = filter (\<lambda>k. kp_Kid k \<noteq> kid) (kd_Keys kd)"
    using assms(2) unfolding kd by (intro map_idI) (simp add: keys_wf_def)
  moreover have "distinct (map kp_Kid (kd_Keys kd))" using assms(2) by (simp add: kd keys_wf_def)
  ultimately show ?thesis
    using assms(1,3) ld unfolding kd
    by (auto simp: keys_Delete_def del_first_distinct dest!: keys_save_Ok split: option.splits)
qed

lemma keys_wf_filter:
  assumes "keys_wf kd" and "\<And>k. k \<in> set (kd_Keys kd) \<Longrightarrow> kp_Active k \<Longrightarrow> p k"
  shows "keys_wf (kd\<lparr>kd_Keys := filter p (kd_Keys kd)\<rparr>)"
proof -
  have "distinct (map kp_Kid (filter p (kd_Keys kd)))" using assms(1) by (simp add: keys_wf_def distinct_map_filter)
  moreover have "kd_ActiveKid kd \<in> kp_Kid ` set (filter p (kd_Keys kd))" if "kd_ActiveKid kd \<noteq> ''''"
  proof -
    have "kd_ActiveKid kd \<in> kp_Kid ` set (kd_Keys kd)" using assms(1) that by (simp add: keys_wf_def)
    then obtain k where k: "k \<in> set (kd_Keys kd)" "kp_Kid k = kd_ActiveKid kd" by auto
    moreover from k have "kp_Active k" using assms(1) by (simp add: keys_wf_def)
    moreover from this k have "p k" using assms(2) by blast
    ultimately show ?thesis by (intro image_eqI [of _ _ k]) simp_all
  qed
  ultimately show ?thesis using assms(1) by (simp add: keys_wf_def)
qed

lemma cleanup_loop_Ok:
  assumes "cleanup_loop now ks r = (None, r')" and "keys_wf (keys_of r)"
    and "set ks \<subseteq> set (kd_Keys (keys_of r))" and "distinct ks"
  shows "keys_of r' = (keys_of r)\<lparr>kd_Keys :=
      filter (\<lambda>k. \<not> (k \<in> set ks \<and> kp_IsExpired now k \<and> \<not> kp_Active k)) (kd_Keys (keys_of r))\<rparr>"
  using assms
proof (induction now ks r rule: cleanup_loop.induct)
  case (1 now r)
  then show ?case by simp
next
  case (2 now key ks r)
  let ?kd = "keys_of r"
  have key: "key \<in> set (kd_Keys ?kd)" using 2 by simp
  show ?case
  proof (cases "kp_IsExpired now key \<and> \<not> kp_Active key")
    case True
    then obtain r1 where del: "keys_Delete (kp_Kid key) r = (None, r1)"
      and loop: "cleanup_loop now ks r1 = (None, r')"
      using 2(3) by (auto split: prod.splits option.splits)
    have na: "kp_Kid key \<noteq> kd_ActiveKid ?kd" using True key 2(4) by (auto simp: keys_wf_def)
    have "keys_of r1 = ?kd\<lparr>kd_Keys := filter (\<lambda>k. kp_Kid k \<noteq> kp_Kid key) (kd_Keys ?kd)\<rparr>"
      using keys_Delete_Ok [OF del 2(4) na] by (rule keys_load_of)
    moreover have "filter (\<lambda>k. kp_Kid k \<noteq> kp_Kid key) (kd_Keys ?kd) = filter (\<lambda>k. k \<noteq> key) (kd_Keys ?kd)"
      using 2(4) key by (intro filter_cong) (auto simp: keys_wf_def distinct_map inj_on_def)
    ultimately have r1: "keys_of r1 = ?kd\<lparr>kd_Keys := filter (\<lambda>k. k \<noteq> key) (kd_Keys ?kd)\<rparr>" by simp
    have "keys_wf (keys_of r1)" unfolding r1 by (rule keys_wf_filter [OF 2(4)]) (use True in auto)
    moreover have "set ks \<subseteq> set (kd_Keys (keys_of r1))" "distinct ks" using 2(5,6) by (auto simp: r1)
    ultimately have "keys_of r' = (keys_of r1)\<lparr>kd_Keys :=
      filter (\<lambda>k. \<not> (k \<in> set ks \<and> kp_IsExpired now k \<and> \<not> kp_Active k)) (kd_Keys (keys_of r1))\<rparr>"
      using 2(1) True del loop by simp
    moreover have "filter (\<lambda>k. \<not> (k \<in> set ks \<and> kp_IsExpired now k \<and> \<not> kp_Active k)) (filter (\<lambda>k. k \<noteq> key) (kd_Keys ?kd)) =
        filter (\<lambda>k. \<not> (k \<in> set (key # ks) \<and> kp_IsExpired now k \<and> \<not> kp_Active k)) (kd_Keys ?kd)"
      unfolding filter_filter by (rule filter_cong) (use True in auto)
    ultimately show ?thesis by (simp add: r1)
  next
    case False
    then have "keys_of r' = ?kd\<lparr>kd_Keys :=
      filter (\<lambda>k. \<not> (k \<in> set ks \<and> kp_IsExpired now k \<and> \<not> kp_Active k)) (kd_Keys ?kd)\<rparr>"
      using 2 by (auto split: if_splits)
    also have "\<dots> = ?kd\<lparr>kd_Keys :=
      filter (\<lambda>k. \<not> (k \<in> set (key # ks) \<and> kp_IsExpired now k \<and> \<not> kp_Active k)) (kd_Keys ?kd)\<rparr>"
      using False by (auto intro!: filter_cong arg_cong [where f = "\<lambda>ks. ?kd\<lparr>kd_Keys := ks\<rparr>"])
    finally show ?thesis .
  qed
qed

lemma CleanupExpiredKeys_Ok:
  assumes "CleanupExpiredKeys now s = (None, s')" and "keys_wf (keys_of (ks_repo s))"
  shows "keys_of (ks_repo s') = (keys_of (ks_repo s))\<lparr>kd_Keys :=
      filter (\<lambda>k. kp_Active k \<or> \<not> kp_IsExpired now k) (kd_Keys (keys_of (ks_repo s)))\<rparr>"
    and "keys_wf (keys_of (ks_repo s'))"
proof -
  obtain kd r where ld: "keys_load (ks_repo s) = Inr kd"
    and loop: "cleanup_loop now (kd_Keys kd) (ks_repo s) = (None, r)" and s': "ks_repo s' = r"
    using assms(1) by (auto simp: CleanupExpiredKeys_def keys_GetAll_def split: sum.splits prod.splits)
  have kd: "keys_of (ks_repo s) = kd" using ld by (rule keys_load_of)
  have "distinct (kd_Keys kd)" using assms(2) by (auto simp: kd keys_wf_def distinct_map)
  with cleanup_loop_Ok [OF loop assms(2)]
  have "keys_of r = kd\<lparr>kd_Keys := filter (\<lambda>k. \<not> (k \<in> set (kd_Keys kd) \<and> kp_IsExpired now k \<and> \<not> kp_Active k)) (kd_Keys kd)\<rparr>"
    by (simp add: kd)
  also have "\<dots> = kd\<lparr>kd_Keys := filter (\<lambda>k. kp_Active k \<or> \<not> kp_IsExpired now k) (kd_Keys kd)\<rparr>"
    by (auto intro!: filter_cong arg_cong [where f = "\<lambda>ks. kd\<lparr>kd_Keys := ks\<rparr>"])
  finally show eq: "keys_of (ks_repo s') = (keys_of (ks_repo s))\<lparr>kd_Keys :=
      filter (\<lambda>k. kp_Active k \<or> \<not> kp_IsExpired now k) (kd_Keys (keys_of (ks_repo s)))\<rparr>"
    by (simp add: s' kd)
  show "keys_wf (keys_of (ks_repo s'))" unfolding eq by (rule keys_wf_filter [OF assms(2)]) simp
qed

section \<open>Key material through the file\<close>

text \<open>The generators of the standard library return keys of their own kind.\<close>

definition keygen_ok :: "keygen \<Rightarrow> bool" where
  "keygen_ok g \<longleftrightarrow>
     (case gen_rsa g of Inr (priv, pub) \<Rightarrow> is_rsa_private priv \<and> is_rsa_public pub | Inl _ \<Rightarrow> True)
   \<and> (case gen_ed25519 g of Inr (priv, pub) \<Rightarrow> is_ed25519_private priv \<and> is_ed25519_public pub | Inl _ \<Rightarrow> True)"

lemma newKeyPair_rsa_reload:
  "newKeyPair kid now AlgRS256 (RSA_private n e d) (RSA_public n' e') = Inr k \<Longrightarrow>
    LoadFromPEM (json_keypair k) = Inr k"
  by (auto simp: newKeyPair_def serializeToPEM_def LoadFromPEM_def loadPrivate_def loadPublic_def
      json_keypair_def key_kind_defs alg_defs Let_def)

lemma newKeyPair_ed25519_reload:
  "newKeyPair kid now AlgEdDSA (Ed25519_private sd p) (Ed25519_public x) = Inr k \<Longrightarrow>
    LoadFromPEM (json_keypair k) = Inr k"
  by (auto simp: newKeyPair_def serializeToPEM_def LoadFromPEM_def loadPrivate_def loadPublic_def
      json_keypair_def key_kind_defs alg_defs Let_def)

lemma LoadFromPEM_generated:
  assumes "GenerateKeyPairForAlg g now alg = Inr k" and "keygen_ok g"
  shows "LoadFromPEM (json_keypair k) = Inr k"
proof -
  consider priv pub where "gen_rsa g = Inr (priv, pub)" "newKeyPair (gen_kid g) now AlgRS256 priv pub = Inr k"
    | priv pub where "gen_ed25519 g = Inr (priv, pub)" "newKeyPair (gen_kid g) now AlgEdDSA priv pub = Inr k"
    using assms(1) by (auto simp: GenerateKeyPairForAlg_def GenerateKeyPair_def split: if_splits sum.splits)
  then show ?thesis
  proof cases
    case 1
    then have "is_rsa_private priv" "is_rsa_public pub" using assms(2) by (simp_all add: keygen_ok_def)
    with 1(2) show ?thesis
      by (cases priv; cases pub) (simp_all add: key_kind_defs newKeyPair_rsa_reload)
  next
    case 2
    then have "is_ed25519_private priv" "is_ed25519_public pub" using assms(2) by (simp_all add: keygen_ok_def)
    with 2(2) show ?thesis
      by (cases priv; cases pub) (simp_all add: key_kind_defs newKeyPair_ed25519_reload)
  qed
qed

text \<open>A loaded key is of the kind its algorithm names.\<close>

definition alg_matches :: "keypair \<Rightarrow> bool" where
  "alg_matches k \<longleftrightarrow>
     (kp_Alg k = AlgRS256 \<and> (\<exists>p q. kp_PrivateKey k = Some p \<and> kp_PublicKey k = Some q \<and> is_rsa_private p \<and> is_rsa_public q))
   \<or> (kp_Alg k = AlgEdDSA \<and> (\<exists>p q. kp_PrivateKey k = Some p \<and> kp_PublicKey k = Some q \<and> is_ed25519_private p \<and> is_ed25519_public q))"

lemma LoadFromPEM_alg: "LoadFromPEM k = Inr l \<Longrightarrow> alg_matches l"
  by (auto simp: LoadFromPEM_def alg_matches_def Let_def split: sum.splits if_splits)

text \<open>
  The cached key is at most \<open>cacheTTL\<close> old; otherwise the repository's active key is read.
\<close>

lemma GetActiveKey_cases:
  assumes "GetActiveKey now s = (Inr k, s')"
  shows "(ks_active s = Some k \<and> time_Sub now (ks_activeAt s) < ks_cacheTTL s \<and> s' = s)
    \<or> (\<exists>k0. keys_GetActive (ks_repo s) = Inr k0 \<and> restore k0 = Inr k \<and> ks_active s' = Some k \<and> ks_activeAt s' = now
          \<and> ks_repo s' = ks_repo s)"
  using assms
  by (auto simp: GetActiveKey_def cachedActive_def setActive_def split: option.splits sum.splits if_splits)

lemma GetActiveKey_repo [simp]: "ks_repo (snd (GetActiveKey now s)) = ks_repo s"
  by (auto simp: GetActiveKey_def setActive_def split: option.splits sum.splits)

end
