(* ===== verification/Jwt.thy ===== *)
theory Jwt
  imports Keys
begin

text \<open>
  Tokens: \<open>internal/crypto/jwt.go\<close>. The claims with their JSON form, the token generator,
  and the checks a token passes before its claims are believed.

  The libraries golang-jwt and uuid are not part of the program; they are the parameter
  \<open>J\<close> of type \<open>jwtlib\<close>: signing, decoding a token into its header and payload
  without verifying it, verifying the signature, validating the time claims, the rounding of
  \<open>NewNumericDate\<close>, and the time inside a version 7 UUID. What a theorem relies on of
  them is a hypothesis of it. JSON objects are finite maps; member names are matched exactly.
\<close>

section \<open>Claims\<close>

datatype json = JNull | JBool bool | JNum int | JString string | JArr "json list" | JObj "(string \<times> json) list"

type_synonym json_object = "string \<rightharpoonup> json"

text \<open>
  \<open>cl_Groups\<close> tells a nil slice (\<^const>\<open>None\<close>) from an empty one; the two
  mean different things to a client. The last fields are those of the embedded
  \<open>jwt.RegisteredClaims\<close>.
\<close>

record claims =
  cl_Email :: string
  cl_EmailVerified :: bool
  cl_Name :: string
  cl_Groups :: "string list option"
  cl_Scope :: string
  cl_ClientID :: string
  cl_Extra :: json_object
  cl_Issuer :: string
  cl_Subject :: string
  cl_Audience :: "string list"
  cl_ExpiresAt :: "time option"
  cl_NotBefore :: "time option"
  cl_IssuedAt :: "time option"
  cl_ID :: string

definition empty_claims :: claims where
  "empty_claims = \<lparr>cl_Email = '''', cl_EmailVerified = False, cl_Name = '''', cl_Groups = None, cl_Scope = '''',
     cl_ClientID = '''', cl_Extra = Map.empty, cl_Issuer = '''', cl_Subject = '''', cl_Audience = [],
     cl_ExpiresAt = None, cl_NotBefore = None, cl_IssuedAt = None, cl_ID = ''''\<rparr>"

definition SetExtra :: "string \<Rightarrow> json \<Rightarrow> claims \<Rightarrow> claims" where
  "SetExtra name value c = c\<lparr>cl_Extra := (cl_Extra c)(name \<mapsto> value)\<rparr>"

definition knownClaims :: "string list" where
  "knownClaims = [''email'', ''email_verified'', ''name'', ''groups'', ''scope'', ''client_id'',
     ''iss'', ''sub'', ''aud'', ''exp'', ''nbf'', ''iat'', ''jti'']"

definition opt_string :: "string \<Rightarrow> json option" where
  "opt_string s = (if s = '''' then None else Some (JString s))"

definition opt_strings :: "string list \<Rightarrow> json option" where
  "opt_strings xs = (if xs = [] then None else Some (JArr (map JString xs)))"

definition opt_time :: "time option \<Rightarrow> json option" where
  "opt_time t = map_option (\<lambda>t. JNum (Unix t)) t"

text \<open>The struct as \<open>json.Marshal\<close> writes it, empty fields left out.\<close>

definition claimsJSON :: "claims \<Rightarrow> json_object" where
  "claimsJSON c k =
     (if k = ''email'' then opt_string (cl_Email c)
      else if k = ''email_verified'' then (if cl_EmailVerified c then Some (JBool True) else None)
      else if k = ''name'' then opt_string (cl_Name c)
      else if k = ''groups'' then (case cl_Groups c of None \<Rightarrow> None | Some gs \<Rightarrow> opt_strings gs)
      else if k = ''scope'' then opt_string (cl_Scope c)
      else if k = ''client_id'' then opt_string (cl_ClientID c)
      else if k = ''iss'' then opt_string (cl_Issuer c)
      else if k = ''sub'' then opt_string (cl_Subject c)
      else if k = ''aud'' then opt_strings (cl_Audience c)
      else if k = ''exp'' then opt_time (cl_ExpiresAt c)
      else if k = ''nbf'' then opt_time (cl_NotBefore c)
      else if k = ''iat'' then opt_time (cl_IssuedAt c)
      else if k = ''jti'' then opt_string (cl_ID c)
      else None)"

text \<open>
  The early return of the source (nothing extra, no empty groups list) gives the same object
  as the merge and needs no case of its own.
\<close>

definition MarshalJSON :: "claims \<Rightarrow> json_object" where
  "MarshalJSON c =
     (let base = claimsJSON c;
          merged = (if cl_Groups c = Some [] then base(''groups'' \<mapsto> JArr []) else base)
      in (\<lambda>k. case merged k of Some v \<Rightarrow> Some v | None \<Rightarrow> cl_Extra c k))"

fun bindR :: "'a res \<Rightarrow> ('a \<Rightarrow> 'b res) \<Rightarrow> 'b res" where
  "bindR (Inl e) f = Inl e"
| "bindR (Inr x) f = f x"

definition type_error :: goerr where
  "type_error = Plain ''json: cannot unmarshal''"

fun get_string :: "json option \<Rightarrow> string res" where
  "get_string None = Inr ''''"
| "get_string (Some JNull) = Inr ''''"
| "get_string (Some (JString s)) = Inr s"
| "get_string (Some _) = Inl type_error"

fun get_bool :: "json option \<Rightarrow> bool res" where
  "get_bool None = Inr False"
| "get_bool (Some JNull) = Inr False"
| "get_bool (Some (JBool b)) = Inr b"
| "get_bool (Some _) = Inl type_error"

fun strings_of :: "json list \<Rightarrow> string list res" where
  "strings_of [] = Inr []"
| "strings_of (j # js) = bindR (get_string (Some j)) (\<lambda>s. bindR (strings_of js) (\<lambda>ss. Inr (s # ss)))"

fun get_groups :: "json option \<Rightarrow> string list option res" where
  "get_groups None = Inr None"
| "get_groups (Some JNull) = Inr None"
| "get_groups (Some (JArr js)) = bindR (strings_of js) (\<lambda>ss. Inr (Some ss))"
| "get_groups (Some _) = Inl type_error"

text \<open>\<open>aud\<close> is one string or a list of strings (RFC 7519, section 4.1.3).\<close>

fun get_audience :: "json option \<Rightarrow> string list res" where
  "get_audience None = Inr []"
| "get_audience (Some JNull) = Inr []"
| "get_audience (Some (JString s)) = Inr [s]"
| "get_audience (Some (JArr js)) = strings_of js"
| "get_audience (Some _) = Inl type_error"

fun get_time :: "json option \<Rightarrow> time option res" where
  "get_time None = Inr None"
| "get_time (Some JNull) = Inr None"
| "get_time (Some (JNum n)) = Inr (Some (n * second))"
| "get_time (Some _) = Inl type_error"

definition UnmarshalJSON :: "json_object \<Rightarrow> claims res" where
  "UnmarshalJSON obj =
     bindR (get_string (obj ''email'')) (\<lambda>email.
     bindR (get_bool (obj ''email_verified'')) (\<lambda>verified.
     bindR (get_string (obj ''name'')) (\<lambda>name.
     bindR (get_groups (obj ''groups'')) (\<lambda>groups.
     bindR (get_string (obj ''scope'')) (\<lambda>scope.
     bindR (get_string (obj ''client_id'')) (\<lambda>clientID.
     bindR (get_string (obj ''iss'')) (\<lambda>iss.
     bindR (get_string (obj ''sub'')) (\<lambda>sub.
     bindR (get_audience (obj ''aud'')) (\<lambda>aud.
     bindR (get_time (obj ''exp'')) (\<lambda>exp.
     bindR (get_time (obj ''nbf'')) (\<lambda>nbf.
     bindR (get_time (obj ''iat'')) (\<lambda>iat.
     bindR (get_string (obj ''jti'')) (\<lambda>jti.
       Inr \<lparr>cl_Email = email, cl_EmailVerified = verified, cl_Name = name, cl_Groups = groups, cl_Scope = scope,
            cl_ClientID = clientID, cl_Extra = (\<lambda>k. if k \<in> set knownClaims then None else obj k),
            cl_Issuer = iss, cl_Subject = sub, cl_Audience = aud, cl_ExpiresAt = exp, cl_NotBefore = nbf,
            cl_IssuedAt = iat, cl_ID = jti\<rparr>)))))))))))))"

lemma strings_of_map [simp]: "strings_of (map JString xs) = Inr xs"
  by (induction xs) auto

lemma get_opt_string [simp]: "get_string (opt_string s) = Inr s"
  by (simp add: opt_string_def)

lemma get_opt_strings [simp]: "get_audience (opt_strings xs) = Inr xs"
  by (simp add: opt_strings_def)

definition whole_seconds :: "time option \<Rightarrow> bool" where
  "whole_seconds t \<longleftrightarrow> (case t of None \<Rightarrow> True | Some t \<Rightarrow> t mod second = 0)"

lemma get_opt_time [simp]: "whole_seconds t \<Longrightarrow> get_time (opt_time t) = Inr t"
  by (cases t) (auto simp: opt_time_def whole_seconds_def Unix_def)

text \<open>
  Claims come back from their JSON form unchanged when their dates are whole seconds, as
  \<open>NewNumericDate\<close> makes them, and no extra claim has the name of a typed field.
\<close>

lemma Unmarshal_Marshal:
  assumes "\<forall>k \<in> set knownClaims. cl_Extra c k = None"
    and "whole_seconds (cl_ExpiresAt c)" and "whole_seconds (cl_NotBefore c)" and "whole_seconds (cl_IssuedAt c)"
  shows "UnmarshalJSON (MarshalJSON c) = Inr c"
proof -
  have known: "MarshalJSON c k = (if k = ''groups'' \<and> cl_Groups c = Some [] then Some (JArr []) else claimsJSON c k)"
    if "k \<in> set knownClaims" for k
    using assms(1) that by (auto simp: MarshalJSON_def Let_def split: option.splits)
  have other: "MarshalJSON c k = cl_Extra c k" if "k \<notin> set knownClaims" for k
    using that by (auto simp: MarshalJSON_def Let_def claimsJSON_def knownClaims_def split: option.splits)
  have extra: "(\<lambda>k. if k \<in> set knownClaims then None else MarshalJSON c k) = cl_Extra c"
    using assms(1) other by (auto simp: fun_eq_iff)
  have groups: "get_groups (MarshalJSON c ''groups'') = Inr (cl_Groups c)"
    by (subst known) (auto simp: knownClaims_def claimsJSON_def opt_strings_def split: option.splits)
  have verified: "get_bool (MarshalJSON c ''email_verified'') = Inr (cl_EmailVerified c)"
    by (subst known) (auto simp: knownClaims_def claimsJSON_def)
  have rest: "MarshalJSON c ''email'' = opt_string (cl_Email c)" "MarshalJSON c ''name'' = opt_string (cl_Name c)"
    "MarshalJSON c ''scope'' = opt_string (cl_Scope c)" "MarshalJSON c ''client_id'' = opt_string (cl_ClientID c)"
    "MarshalJSON c ''iss'' = opt_string (cl_Issuer c)" "MarshalJSON c ''sub'' = opt_string (cl_Subject c)"
    "MarshalJSON c ''aud'' = opt_strings (cl_Audience c)" "MarshalJSON c ''exp'' = opt_time (cl_ExpiresAt c)"
    "MarshalJSON c ''nbf'' = opt_time (cl_NotBefore c)" "MarshalJSON c ''iat'' = opt_time (cl_IssuedAt c)"
    "MarshalJSON c ''jti'' = opt_string (cl_ID c)"
    by (subst known; simp add: knownClaims_def claimsJSON_def)+
  show ?thesis
    unfolding UnmarshalJSON_def extra groups verified rest by (simp add: assms)
qed

section \<open>The token generator\<close>

datatype jwt_family = FamilyRSA | FamilyEd25519 | FamilyOther

record jwt_header =
  hdr_family :: jwt_family
  hdr_alg :: string
  hdr_kid :: "string option"

record jwtlib =
  jwt_sign :: "string \<Rightarrow> private_key option \<Rightarrow> string \<Rightarrow> json_object \<Rightarrow> string res"
  jwt_decode :: "string \<Rightarrow> (jwt_header \<times> json_object) res"
  jwt_verify :: "string \<Rightarrow> public_key option \<Rightarrow> string \<Rightarrow> bool"
  jwt_validate :: "time \<Rightarrow> claims \<Rightarrow> goerr option"
  NewNumericDate :: "time \<Rightarrow> time"
  uuid_v7_time :: "string \<Rightarrow> time option"

record token_generator =
  tg_keyPair :: keypair
  tg_withKeyService :: bool
  tg_issuer :: string
  tg_audience :: string

definition NewTokenGenerator :: "keypair \<Rightarrow> string \<Rightarrow> string \<Rightarrow> token_generator" where
  "NewTokenGenerator keyPair issuer audience =
     \<lparr>tg_keyPair = keyPair, tg_withKeyService = False, tg_issuer = issuer, tg_audience = audience\<rparr>"

definition NewTokenGeneratorWithKeyService :: "keypair \<Rightarrow> string \<Rightarrow> string \<Rightarrow> token_generator" where
  "NewTokenGeneratorWithKeyService keyPair issuer audience =
     \<lparr>tg_keyPair = keyPair, tg_withKeyService = True, tg_issuer = issuer, tg_audience = audience\<rparr>"

definition signingMethodFor :: "string \<Rightarrow> string" where
  "signingMethodFor alg = (if alg = AlgEdDSA then ''EdDSA'' else ''RS256'')"

definition signingKey :: "time \<Rightarrow> token_generator \<Rightarrow> key_service \<Rightarrow> keypair res \<times> key_service" where
  "signingKey now g ks =
     (if \<not> tg_withKeyService g then (Inr (tg_keyPair g), ks)
      else case GetActiveKey now ks of
        (Inl e, ks') \<Rightarrow> (Inl (Wrapped ''failed to get active signing key'' e), ks')
      | (Inr key, ks') \<Rightarrow> (Inr key, ks'))"

definition GetKeyID :: "time \<Rightarrow> token_generator \<Rightarrow> key_service \<Rightarrow> string \<times> key_service" where
  "GetKeyID now g ks =
     (case signingKey now g ks of (Inl e, ks') \<Rightarrow> ('''', ks') | (Inr key, ks') \<Rightarrow> (kp_Kid key, ks'))"

text \<open>The registered claims that every token gets; \<open>jti\<close> is the UUID drawn for it.\<close>

definition register ::
    "jwtlib \<Rightarrow> time \<Rightarrow> string \<Rightarrow> token_generator \<Rightarrow> string \<Rightarrow> string \<Rightarrow> duration \<Rightarrow> claims \<Rightarrow> claims" where
  "register J now jti g subject audience expiry c =
     c\<lparr>cl_Issuer := tg_issuer g, cl_Subject := subject, cl_Audience := [audience],
       cl_ExpiresAt := Some (NewNumericDate J (now + expiry)),
       cl_IssuedAt := Some (NewNumericDate J now),
       cl_NotBefore := Some (NewNumericDate J (now - 5 * minute)),
       cl_ID := jti\<rparr>"

definition GenerateIDTokenFor ::
    "jwtlib \<Rightarrow> time \<Rightarrow> string \<Rightarrow> token_generator \<Rightarrow> string \<Rightarrow> string \<Rightarrow> duration \<Rightarrow> claims \<Rightarrow> key_service
      \<Rightarrow> (string \<times> time) res \<times> key_service" where
  "GenerateIDTokenFor J now jti g subject audience expiry c ks =
     (let expiresAt = now + expiry; c' = register J now jti g subject audience expiry c
      in case signingKey now g ks of
           (Inl e, ks') \<Rightarrow> (Inl e, ks')
         | (Inr key, ks') \<Rightarrow>
             (case jwt_sign J (signingMethodFor (kp_Alg key)) (kp_PrivateKey key) (kp_Kid key) (MarshalJSON c') of
                Inl e \<Rightarrow> (Inl (Wrapped ''failed to sign token'' e), ks')
              | Inr tokenString \<Rightarrow> (Inr (tokenString, expiresAt), ks')))"

definition GenerateIDToken ::
    "jwtlib \<Rightarrow> time \<Rightarrow> string \<Rightarrow> token_generator \<Rightarrow> string \<Rightarrow> duration \<Rightarrow> claims \<Rightarrow> key_service
      \<Rightarrow> (string \<times> time) res \<times> key_service" where
  "GenerateIDToken J now jti g subject expiry c ks =
     (let audience = (if cl_ClientID c \<noteq> '''' then cl_ClientID c else tg_audience g)
      in GenerateIDTokenFor J now jti g subject audience expiry c ks)"

definition GenerateAccessTokenWithClaims ::
    "jwtlib \<Rightarrow> time \<Rightarrow> string \<Rightarrow> token_generator \<Rightarrow> string \<Rightarrow> duration \<Rightarrow> claims \<Rightarrow> key_service
      \<Rightarrow> (string \<times> time) res \<times> key_service" where
  "GenerateAccessTokenWithClaims J now jti g subject expiry c ks = GenerateIDToken J now jti g subject expiry c ks"

definition GenerateAccessToken ::
    "jwtlib \<Rightarrow> time \<Rightarrow> string \<Rightarrow> token_generator \<Rightarrow> string \<Rightarrow> duration \<Rightarrow> string \<Rightarrow> string \<Rightarrow> key_service
      \<Rightarrow> (string \<times> time) res \<times> key_service" where
  "GenerateAccessToken J now jti g subject expiry scope clientID ks =
     GenerateAccessTokenWithClaims J now jti g subject expiry
       (empty_claims\<lparr>cl_Scope := scope, cl_ClientID := clientID\<rparr>) ks"

definition IssuedAtOf :: "jwtlib \<Rightarrow> claims \<Rightarrow> time" where
  "IssuedAtOf J c =
     (case uuid_v7_time J (cl_ID c) of
        Some t \<Rightarrow> t
      | None \<Rightarrow> (case cl_IssuedAt c of Some t \<Rightarrow> t | None \<Rightarrow> zero_time))"

section \<open>Reading a token\<close>

text \<open>The callback that picks the key to verify with.\<close>

definition keyfunc :: "time \<Rightarrow> token_generator \<Rightarrow> key_service \<Rightarrow> jwt_header \<Rightarrow> public_key option res" where
  "keyfunc now g ks hdr =
     (if hdr_family hdr = FamilyOther then Inl (Plain (''unexpected signing method: '' @ hdr_alg hdr))
      else case hdr_kid hdr of
        None \<Rightarrow> Inl (Plain ''missing key ID in token header'')
      | Some kid \<Rightarrow>
          bindR
            (if tg_withKeyService g then
               (case GetKeyByID kid ks of
                  Inl e \<Rightarrow> Inl (Plain (''unknown key ID: '' @ kid))
                | Inr kp \<Rightarrow> if kp_IsExpired now kp then Inl (Plain (''key has expired: '' @ kid)) else Inr kp)
             else if kid \<noteq> kp_Kid (tg_keyPair g) then Inl (Plain (''unknown key ID: '' @ kid))
             else Inr (tg_keyPair g))
            (\<lambda>keyPair.
               if hdr_alg hdr \<noteq> kp_Alg keyPair
               then Inl (Plain (''token alg '' @ hdr_alg hdr @ '' does not match key '' @ kid @ '' ('' @ kp_Alg keyPair @ '')''))
               else Inr (kp_PublicKey keyPair)))"

text \<open>
  \<open>jwt.ParseWithClaims\<close>: decode, ask the callback for the key, verify the signature, and
  validate the claims unless that is switched off.
\<close>

definition parse ::
    "jwtlib \<Rightarrow> time \<Rightarrow> token_generator \<Rightarrow> key_service \<Rightarrow> bool \<Rightarrow> string \<Rightarrow> claims res" where
  "parse J now g ks withoutClaimsValidation tokenString =
     (case (case jwt_decode J tokenString of
              Inl e \<Rightarrow> Inl e
            | Inr (hdr, obj) \<Rightarrow>
                bindR (UnmarshalJSON obj) (\<lambda>c.
                bindR (keyfunc now g ks hdr) (\<lambda>pub.
                  if \<not> jwt_verify J (hdr_alg hdr) pub tokenString then Inl (Plain ''token signature is invalid'')
                  else if withoutClaimsValidation then Inr c
                  else (case jwt_validate J now c of Some e \<Rightarrow> Inl e | None \<Rightarrow> Inr c)))) of
        Inl e \<Rightarrow> Inl (Wrapped ''failed to parse token'' e)
      | Inr c \<Rightarrow> Inr c)"

definition ParseToken :: "jwtlib \<Rightarrow> time \<Rightarrow> token_generator \<Rightarrow> key_service \<Rightarrow> string \<Rightarrow> claims res" where
  "ParseToken J now g ks tokenString = parse J now g ks False tokenString"

definition ParseIDTokenHint :: "jwtlib \<Rightarrow> time \<Rightarrow> token_generator \<Rightarrow> key_service \<Rightarrow> string \<Rightarrow> claims res" where
  "ParseIDTokenHint J now g ks tokenString =
     (case parse J now g ks True tokenString of
        Inl e \<Rightarrow> Inl e
      | Inr c \<Rightarrow> if cl_Issuer c \<noteq> tg_issuer g then Inl (Plain ''invalid issuer'') else Inr c)"

text \<open>The library marks every token it returns without an error as valid.\<close>

definition ValidateAccessToken :: "jwtlib \<Rightarrow> time \<Rightarrow> token_generator \<Rightarrow> key_service \<Rightarrow> string \<Rightarrow> claims res" where
  "ValidateAccessToken J now g ks tokenString =
     (case ParseToken J now g ks tokenString of
        Inl e \<Rightarrow> Inl e
      | Inr c \<Rightarrow>
          if cl_Issuer c \<noteq> tg_issuer g then Inl (Plain ''invalid issuer'')
          else if cl_ClientID c = '''' then Inl (Plain ''not an access token'')
          else Inr c)"

section \<open>What an accepted token has passed\<close>

lemma bindR_Inr: "bindR r f = Inr y \<longleftrightarrow> (\<exists>x. r = Inr x \<and> f x = Inr y)"
  by (cases r) auto

lemma keyfunc_Inr:
  assumes "keyfunc now g ks hdr = Inr pub"
  shows "hdr_family hdr \<noteq> FamilyOther \<and> (\<exists>kid kp. hdr_kid hdr = Some kid \<and> hdr_alg hdr = kp_Alg kp \<and> pub = kp_PublicKey kp
     \<and> (if tg_withKeyService g then GetKeyByID kid ks = Inr kp \<and> \<not> kp_IsExpired now kp
        else kp = tg_keyPair g \<and> kid = kp_Kid kp))"
  using assms
  by (auto simp: keyfunc_def bindR_Inr split: if_splits option.splits sum.splits)

lemma parse_Inr:
  assumes "parse J now g ks skip tok = Inr c"
  shows "\<exists>hdr obj pub. jwt_decode J tok = Inr (hdr, obj) \<and> UnmarshalJSON obj = Inr c
     \<and> keyfunc now g ks hdr = Inr pub \<and> jwt_verify J (hdr_alg hdr) pub tok
     \<and> (skip \<or> jwt_validate J now c = None)"
  using assms
  by (auto simp: parse_def bindR_Inr split: sum.splits if_splits option.splits)

lemma ValidateAccessToken_Inr:
  assumes "ValidateAccessToken J now g ks tok = Inr c"
  shows "parse J now g ks False tok = Inr c \<and> cl_Issuer c = tg_issuer g \<and> cl_ClientID c \<noteq> ''''"
  using assms by (auto simp: ValidateAccessToken_def ParseToken_def split: sum.splits if_splits)

section \<open>A token of ours\<close>

text \<open>
  What the library promises about one token: what was signed decodes to the same header and
  payload, and verifies with the public key of the signing key. The dates are cut to whole
  seconds; validation refuses a token from its \<open>exp\<close> on and before its \<open>nbf\<close>.
\<close>

definition signs_back :: "jwtlib \<Rightarrow> keypair \<Rightarrow> json_object \<Rightarrow> bool" where
  "signs_back J key obj \<longleftrightarrow>
     (\<forall>tok. jwt_sign J (signingMethodFor (kp_Alg key)) (kp_PrivateKey key) (kp_Kid key) obj = Inr tok \<longrightarrow>
        (\<exists>hdr. jwt_decode J tok = Inr (hdr, obj) \<and> hdr_alg hdr = signingMethodFor (kp_Alg key)
           \<and> hdr_kid hdr = Some (kp_Kid key) \<and> hdr_family hdr \<noteq> FamilyOther
           \<and> jwt_verify J (signingMethodFor (kp_Alg key)) (kp_PublicKey key) tok))"

definition date_law :: "jwtlib \<Rightarrow> bool" where
  "date_law J \<longleftrightarrow> (\<forall>t. NewNumericDate J t = second * (t div second))"

definition time_claims_law :: "jwtlib \<Rightarrow> bool" where
  "time_claims_law J \<longleftrightarrow> (\<forall>now c. jwt_validate J now c = None \<longleftrightarrow>
     (case cl_ExpiresAt c of Some e \<Rightarrow> now < e | None \<Rightarrow> True) \<and> (case cl_NotBefore c of Some n \<Rightarrow> n \<le> now | None \<Rightarrow> True))"

lemma date_law_D:
  assumes "date_law J"
  shows "NewNumericDate J t mod second = 0" and "NewNumericDate J t \<le> t" and "t < NewNumericDate J t + second"
proof -
  have nd: "NewNumericDate J t = second * (t div second)" using assms by (simp add: date_law_def)
  show "NewNumericDate J t mod second = 0" by (simp add: nd)
  have "second * (t div second) + t mod second = t" by (rule mult_div_mod_eq)
  moreover have "0 \<le> t mod second" "t mod second < second" by simp_all
  ultimately show "NewNumericDate J t \<le> t" "t < NewNumericDate J t + second" unfolding nd by linarith+
qed

text \<open>
  The key a token was signed with is the one that verification finds: same algorithm and
  public key under its kid, not yet expired.
\<close>

definition verifiable :: "time \<Rightarrow> token_generator \<Rightarrow> key_service \<Rightarrow> keypair \<Rightarrow> bool" where
  "verifiable now g ks key \<longleftrightarrow> signingMethodFor (kp_Alg key) = kp_Alg key \<and>
     (if tg_withKeyService g
      then (case GetKeyByID (kp_Kid key) ks of
              Inl _ \<Rightarrow> False
            | Inr kp \<Rightarrow> kp_Alg kp = kp_Alg key \<and> kp_PublicKey kp = kp_PublicKey key \<and> \<not> kp_IsExpired now kp)
      else tg_keyPair g = key)"

lemma keyfunc_verifiable:
  assumes "verifiable now g ks key" and "hdr_family hdr \<noteq> FamilyOther"
    and "hdr_kid hdr = Some (kp_Kid key)" and "hdr_alg hdr = kp_Alg key"
  shows "keyfunc now g ks hdr = Inr (kp_PublicKey key)"
  using assms by (auto simp: keyfunc_def verifiable_def split: if_splits sum.splits)

lemma register_sel [simp]:
  "cl_Issuer (register J now jti g sub aud ttl c) = tg_issuer g"
  "cl_Subject (register J now jti g sub aud ttl c) = sub"
  "cl_Audience (register J now jti g sub aud ttl c) = [aud]"
  "cl_ClientID (register J now jti g sub aud ttl c) = cl_ClientID c"
  "cl_Scope (register J now jti g sub aud ttl c) = cl_Scope c"
  "cl_Extra (register J now jti g sub aud ttl c) = cl_Extra c"
  "cl_Groups (register J now jti g sub aud ttl c) = cl_Groups c"
  "cl_ID (register J now jti g sub aud ttl c) = jti"
  "cl_ExpiresAt (register J now jti g sub aud ttl c) = Some (NewNumericDate J (now + ttl))"
  "cl_IssuedAt (register J now jti g sub aud ttl c) = Some (NewNumericDate J now)"
  "cl_NotBefore (register J now jti g sub aud ttl c) = Some (NewNumericDate J (now - 5 * minute))"
  by (simp_all add: register_def)

lemma register_roundtrip:
  assumes "date_law J" and "\<forall>k \<in> set knownClaims. cl_Extra c k = None"
  shows "UnmarshalJSON (MarshalJSON (register J now jti g sub aud ttl c)) = Inr (register J now jti g sub aud ttl c)"
  by (rule Unmarshal_Marshal) (use assms in \<open>simp_all add: whole_seconds_def date_law_D(1)\<close>)

lemma GenerateIDTokenFor_Inr:
  assumes "GenerateIDTokenFor J now jti g sub aud ttl c ks = (Inr (tok, xp), ks')"
  shows "\<exists>key. signingKey now g ks = (Inr key, ks') \<and> xp = now + ttl
    \<and> jwt_sign J (signingMethodFor (kp_Alg key)) (kp_PrivateKey key) (kp_Kid key)
        (MarshalJSON (register J now jti g sub aud ttl c)) = Inr tok"
  using assms by (auto simp: GenerateIDTokenFor_def Let_def split: prod.splits sum.splits)

text \<open>Parsing gives back exactly the claims the token was made with, as long as it is in time.\<close>

lemma parse_generated:
  assumes gen: "GenerateIDTokenFor J now jti g sub aud ttl c ks = (Inr (tok, xp), ks')"
    and key: "signingKey now g ks = (Inr key, ks')" and ver: "verifiable t g ks2 key"
    and sb: "signs_back J key (MarshalJSON (register J now jti g sub aud ttl c))"
    and "date_law J" and "time_claims_law J" and "\<forall>k \<in> set knownClaims. cl_Extra c k = None"
  shows "skip \<or> now - 5 * minute \<le> t \<and> t < NewNumericDate J (now + ttl) \<Longrightarrow>
      parse J t g ks2 skip tok = Inr (register J now jti g sub aud ttl c)"
    and "NewNumericDate J (now + ttl) \<le> t \<Longrightarrow> \<exists>e. parse J t g ks2 False tok = Inl e"
proof -
  let ?c = "register J now jti g sub aud ttl c"
  obtain hdr where dec: "jwt_decode J tok = Inr (hdr, MarshalJSON ?c)"
    and hdr: "hdr_alg hdr = signingMethodFor (kp_Alg key)" "hdr_kid hdr = Some (kp_Kid key)" "hdr_family hdr \<noteq> FamilyOther"
    and vf: "jwt_verify J (signingMethodFor (kp_Alg key)) (kp_PublicKey key) tok"
    using GenerateIDTokenFor_Inr [OF gen] key sb by (auto simp: signs_back_def)
  have alg: "signingMethodFor (kp_Alg key) = kp_Alg key" using ver by (simp add: verifiable_def)
  have kf: "keyfunc t g ks2 hdr = Inr (kp_PublicKey key)"
    using keyfunc_verifiable [OF ver] hdr alg by simp
  have nbf: "NewNumericDate J (now - 5 * minute) \<le> t" if "now - 5 * minute \<le> t"
    using date_law_D(2) [OF assms(5), of "now - 5 * minute"] that by linarith
  have rt: "UnmarshalJSON (MarshalJSON ?c) = Inr ?c" by (rule register_roundtrip) (use assms in auto)
  have vf': "jwt_verify J (kp_Alg key) (kp_PublicKey key) tok" using vf alg by simp
  have val: "jwt_validate J t ?c = None \<longleftrightarrow> t < NewNumericDate J (now + ttl) \<and> NewNumericDate J (now - 5 * minute) \<le> t"
    using assms(6) [unfolded time_claims_law_def, rule_format, of t ?c] by simp
  note p = parse_def dec rt kf hdr alg vf'
  show "parse J t g ks2 skip tok = Inr ?c"
    if "skip \<or> now - 5 * minute \<le> t \<and> t < NewNumericDate J (now + ttl)"
    using that nbf val by (cases skip) (simp_all add: p)
  show "\<exists>e. parse J t g ks2 False tok = Inl e" if "NewNumericDate J (now + ttl) \<le> t"
    using that val by (auto simp: p split: option.splits)
qed

end
