(* ===== verification/Authorize.thy ===== *)
theory Authorize
  imports Password RepoSessions RepoConsents RepoGroups Jwt
begin

text \<open>
  The authorization endpoint's services: scopes and group claims
  (\<open>internal/oidc/groups.go\<close>), consent (\<open>internal/oidc/consent.go\<close>) and the
  validation of authorization requests (\<open>internal/oidc/authorize.go\<close>).
\<close>

section \<open>Scopes and group claims\<close>

definition ScopeGroups :: string where
  "ScopeGroups = ''groups''"

definition DefaultGroupsClaim :: string where
  "DefaultGroupsClaim = ''groups''"

definition hasScope :: "string \<Rightarrow> string \<Rightarrow> bool" where
  "hasScope scope want \<longleftrightarrow> list_ex (\<lambda>s. s = want) (Fields scope)"

lemma hasScope_iff: "hasScope scope want \<longleftrightarrow> want \<in> set (Fields scope)"
  by (auto simp: hasScope_def list_ex_iff)

text \<open>
  A \<open>*GroupClaims\<close> is the claim name it was made with, over the group repository of the
  store; nil is \<^const>\<open>None\<close>.
\<close>

definition NewGroupClaims :: "string \<Rightarrow> string option" where
  "NewGroupClaims claimName = Some (if claimName = '''' then DefaultGroupsClaim else claimName)"

definition gc_Names :: "platform \<Rightarrow> string \<Rightarrow> fstore \<Rightarrow> string list res" where
  "gc_Names P userID st =
     (case groups_GroupsForUser P userID st of
        Inl e \<Rightarrow> Inl (Wrapped ''failed to load groups'' e)
      | Inr groups \<Rightarrow> Inr (map group_Name groups))"

definition gc_Apply :: "platform \<Rightarrow> string option \<Rightarrow> user \<Rightarrow> string \<Rightarrow> claims \<Rightarrow> fstore \<Rightarrow> claims res" where
  "gc_Apply P g user scope c st =
     (case g of
        None \<Rightarrow> Inr c
      | Some claimName \<Rightarrow>
          if \<not> hasScope scope ScopeGroups then Inr c
          else case gc_Names P (user_ID user) st of
            Inl e \<Rightarrow> Inl e
          | Inr names \<Rightarrow>
              if claimName = DefaultGroupsClaim then Inr (c\<lparr>cl_Groups := Some names\<rparr>)
              else Inr (SetExtra claimName (JArr (map JString names)) c))"

section \<open>Consent\<close>

definition IsGranted :: "string \<Rightarrow> client \<Rightarrow> string list \<Rightarrow> fstore \<Rightarrow> bool res" where
  "IsGranted userID client scopes st =
     (if client_SkipConsent client then Inr True
      else case consents_Get userID (client_ID client) st of
        Inl e \<Rightarrow> if IsCode e CodeNotFound then Inr False else Inl (Wrapped ''failed to load consent'' e)
      | Inr consent \<Rightarrow> Inr (Covers consent scopes))"

text \<open>The double loop of \<open>unionScopes\<close>: what has been seen is what is in \<open>out\<close>.\<close>

fun union_loop :: "string list \<Rightarrow> string list \<Rightarrow> string list" where
  "union_loop out [] = out"
| "union_loop out (s # ss) = (if s \<in> set out then union_loop out ss else union_loop (out @ [s]) ss)"

definition unionScopes :: "string list \<Rightarrow> string list \<Rightarrow> string list" where
  "unionScopes a b = union_loop (union_loop [] a) b"

definition Grant :: "string \<Rightarrow> time \<Rightarrow> string \<Rightarrow> string \<Rightarrow> string list \<Rightarrow> fstore \<Rightarrow> goerr option \<times> fstore" where
  "Grant uuid now userID clientID scopes st =
     (case (case consents_Get userID clientID st of
              Inr existing \<Rightarrow> Inr (unionScopes (consent_Scopes existing) scopes)
            | Inl e \<Rightarrow> if \<not> IsCode e CodeNotFound then Inl (Wrapped ''failed to load consent'' e) else Inr scopes) of
        Inl e \<Rightarrow> (Some e, st)
      | Inr merged \<Rightarrow>
          consents_Upsert uuid now
            \<lparr>consent_ID = '''', consent_UserID = userID, consent_ClientID = clientID, consent_Scopes = merged,
             consent_GrantedAt = zero_time\<rparr> st)"

definition consent_Revoke :: "string \<Rightarrow> string \<Rightarrow> fstore \<Rightarrow> goerr option \<times> fstore" where
  "consent_Revoke userID clientID st = consents_Delete userID clientID st"

definition ListForUser :: "string \<Rightarrow> fstore \<Rightarrow> consent list res" where
  "ListForUser userID st = consents_ListByUserID userID st"

definition ScopeDescription :: "string \<Rightarrow> string" where
  "ScopeDescription scope =
     (if scope = ''openid'' then ''Verify your identity''
      else if scope = ''profile'' then ''View your name and profile details''
      else if scope = ''email'' then ''View your email address''
      else if scope = ''offline_access'' then ''Stay signed in (issue refresh tokens)''
      else if scope = ScopeGroups then ''See which groups you belong to''
      else ''Access: '' @ scope)"

lemma union_loop_set [simp]: "set (union_loop out ss) = set out \<union> set ss"
  by (induction out ss rule: union_loop.induct) auto

lemma union_loop_distinct: "distinct out \<Longrightarrow> distinct (union_loop out ss)"
  by (induction out ss rule: union_loop.induct) auto

lemma unionScopes_set: "set (unionScopes a b) = set a \<union> set b"
  by (simp add: unionScopes_def)

lemma unionScopes_distinct: "distinct (unionScopes a b)"
  by (simp add: unionScopes_def union_loop_distinct)

text \<open>The scopes a user has granted a client; none without a consent record.\<close>

definition granted_scopes :: "fstore \<Rightarrow> string \<Rightarrow> string \<Rightarrow> string set" where
  "granted_scopes st u c = (case consent_at st u c of None \<Rightarrow> {} | Some x \<Rightarrow> set (consent_Scopes x))"

lemma Grant_scopes:
  assumes "Grant uuid now u c scopes st = (None, st')"
  shows "granted_scopes st' u c = granted_scopes st u c \<union> set scopes"
    and "(u', c') \<noteq> (u, c) \<Longrightarrow> granted_scopes st' u' c' = granted_scopes st u' c'"
proof -
  obtain merged where up: "consents_Upsert uuid now \<lparr>consent_ID = '''', consent_UserID = u, consent_ClientID = c,
      consent_Scopes = merged, consent_GrantedAt = zero_time\<rparr> st = (None, st')"
    and m: "set merged = granted_scopes st u c \<union> set scopes"
  proof (cases "consents_Get u c st")
    case (Inl e)
    then have nf: "IsCode e CodeNotFound" using assms by (simp add: Grant_def split: if_splits)
    have "granted_scopes st u c = {}" by (simp add: granted_scopes_def consents_Get_NotFound [OF Inl nf])
    then show ?thesis by (intro that [of scopes]) (use Inl nf assms in \<open>simp_all add: Grant_def\<close>)
  next
    case (Inr x)
    then have "granted_scopes st u c = set (consent_Scopes x)" by (simp add: granted_scopes_def consents_Get_at)
    then show ?thesis
      by (intro that [of "unionScopes (consent_Scopes x) scopes"])
        (use Inr assms in \<open>simp_all add: Grant_def unionScopes_set\<close>)
  qed
  show "granted_scopes st' u c = granted_scopes st u c \<union> set scopes"
  proof -
    obtain x where "consent_at st' u c = Some x" "consent_Scopes x = merged"
      using consents_Upsert_at(1) [OF up] by auto
    then have "granted_scopes st' u c = set merged" by (simp add: granted_scopes_def)
    with m show ?thesis by simp
  qed
  show "granted_scopes st' u' c' = granted_scopes st u' c'" if "(u', c') \<noteq> (u, c)"
  proof -
    have "consent_at st' u' c' = consent_at st u' c'"
      using consents_Upsert_at(2) [OF up, of u' c'] that by simp
    then show ?thesis by (simp add: granted_scopes_def)
  qed
qed

lemma IsGranted_iff:
  assumes "IsGranted u cl scopes st = Inr b"
  shows "b \<longleftrightarrow> client_SkipConsent cl \<or>
    (set scopes \<subseteq> granted_scopes st u (client_ID cl) \<and> consent_at st u (client_ID cl) \<noteq> None)"
  using assms consents_Get_at [of u "client_ID cl" st] consents_Get_NotFound [of u "client_ID cl" st]
  by (auto simp: IsGranted_def granted_scopes_def Covers_iff split: if_splits sum.splits)

section \<open>Authorization requests\<close>

type_synonym url_values = "string \<rightharpoonup> string list"

definition values_Get :: "url_values \<Rightarrow> string \<Rightarrow> string" where
  "values_Get q k = (case q k of Some (v # _) \<Rightarrow> v | _ \<Rightarrow> '''')"

definition values_Has :: "url_values \<Rightarrow> string \<Rightarrow> bool" where
  "values_Has q k \<longleftrightarrow> q k \<noteq> None"

record authorize_request =
  ar_ClientID :: string
  ar_RedirectURI :: string
  ar_ResponseType :: string
  ar_Scope :: string
  ar_State :: string
  ar_Nonce :: string
  ar_CodeChallenge :: string
  ar_CodeChallengeMethod :: string
  ar_Prompt :: "string list"
  ar_MaxAge :: int
  ar_maxAge_raw :: string
  ar_hasRequest :: bool
  ar_hasRequestURI :: bool
  ar_hasRegistration :: bool

definition HasPrompt :: "authorize_request \<Rightarrow> string \<Rightarrow> bool" where
  "HasPrompt r v \<longleftrightarrow> list_ex (\<lambda>p. p = v) (ar_Prompt r)"

definition Scopes :: "authorize_request \<Rightarrow> string list" where
  "Scopes r = Fields (ar_Scope r)"

text \<open>\<open>time.Duration(r.MaxAge)*time.Second\<close> is a 64-bit product.\<close>

definition RequiresFreshLogin :: "time \<Rightarrow> authorize_request \<Rightarrow> time \<Rightarrow> bool" where
  "RequiresFreshLogin now r authTime =
     (if HasPrompt r ''login'' \<or> HasPrompt r ''select_account'' then True
      else if ar_MaxAge r \<ge> 0 \<and> (IsZero authTime \<or> time_Sub now authTime > wrap64 (ar_MaxAge r * second)) then True
      else False)"

definition ParseAuthorizeQuery :: "url_values \<Rightarrow> authorize_request res" where
  "ParseAuthorizeQuery q =
     (let req = \<lparr>ar_ClientID = values_Get q ''client_id'', ar_RedirectURI = values_Get q ''redirect_uri'',
                 ar_ResponseType = values_Get q ''response_type'', ar_Scope = values_Get q ''scope'',
                 ar_State = values_Get q ''state'', ar_Nonce = values_Get q ''nonce'',
                 ar_CodeChallenge = values_Get q ''code_challenge'',
                 ar_CodeChallengeMethod = values_Get q ''code_challenge_method'',
                 ar_Prompt = Fields (values_Get q ''prompt''), ar_MaxAge = -1,
                 ar_maxAge_raw = values_Get q ''max_age'', ar_hasRequest = values_Has q ''request'',
                 ar_hasRequestURI = values_Has q ''request_uri'', ar_hasRegistration = values_Has q ''registration''\<rparr>
      in if ar_ClientID req = '''' then Inl (InvalidInput ''client_id is required'')
         else if ar_RedirectURI req = '''' then Inl (InvalidInput ''redirect_uri is required'')
         else Inr req)"

definition parse_max_age :: "authorize_request \<Rightarrow> authorize_request res" where
  "parse_max_age req =
     (if ar_maxAge_raw req \<noteq> '''' then
        (case Atoi (ar_maxAge_raw req) of
           Inl _ \<Rightarrow> Inl (RedirectError ''invalid_request'' ''max_age must be a non-negative integer'')
         | Inr n \<Rightarrow>
             if n < 0 then Inl (RedirectError ''invalid_request'' ''max_age must be a non-negative integer'')
             else Inr (req\<lparr>ar_MaxAge := n\<rparr>))
      else Inr req)"

definition quoted :: "string \<Rightarrow> string" where
  "quoted s = CHR 0x27 # s @ [CHR 0x27]"

text \<open>
  \<open>ValidateClient\<close> fills in \<open>MaxAge\<close> of the caller's request; the result has the
  request as it leaves it. After the redirect URI every refusal goes to the client.
\<close>

definition validate_rest :: "client \<Rightarrow> authorize_request \<Rightarrow> goerr option" where
  "validate_rest client req =
     (if HasPrompt req ''none'' \<and> length (ar_Prompt req) > 1 then
        Some (RedirectError ''invalid_request'' ''prompt=none cannot be combined with other prompt values'')
      else if ar_ResponseType req \<noteq> ''code'' then
        Some (RedirectError ''unsupported_response_type'' (''response_type must be '' @ quoted ''code''))
      else if \<not> AllowsGrant client ''authorization_code'' then
        Some (RedirectError ''unauthorized_client'' ''client is not allowed the authorization_code grant'')
      else if \<not> list_ex (\<lambda>s. s = ''openid'') (Scopes req) then
        Some (RedirectError ''invalid_scope'' (''scope must contain '' @ quoted ''openid''))
      else if client_Public client \<and> ar_CodeChallenge req = '''' then
        Some (RedirectError ''invalid_request'' ''code_challenge is required for public clients'')
      else if ar_CodeChallenge req \<noteq> '''' \<and> ar_CodeChallengeMethod req \<noteq> ''S256'' then
        Some (RedirectError ''invalid_request'' ''code_challenge_method must be S256'')
      else case find (\<lambda>scope. \<not> list_ex (\<lambda>s. s = scope) (client_Scopes client)) (Scopes req) of
        Some scope \<Rightarrow> Some (RedirectError ''invalid_scope'' (''scope '' @ quoted scope @ '' not allowed for this client''))
      | None \<Rightarrow> None)"

definition ValidateClient :: "authorize_request \<Rightarrow> fstore \<Rightarrow> client res \<times> authorize_request" where
  "ValidateClient req st =
     (case clients_GetByID (ar_ClientID req) st of
        Inl e \<Rightarrow> (Inl (if IsCode e CodeNotFound then InvalidInput ''unknown client_id'' else e), req)
      | Inr client \<Rightarrow>
          if \<not> list_ex (\<lambda>uri. uri = ar_RedirectURI req) (client_RedirectURIs client)
          then (Inl (InvalidInput ''invalid redirect_uri''), req)
          else if ar_hasRequest req
          then (Inl (RedirectError ''request_not_supported'' ''request objects are not supported''), req)
          else if ar_hasRequestURI req
          then (Inl (RedirectError ''request_uri_not_supported'' ''request_uri is not supported''), req)
          else if ar_hasRegistration req
          then (Inl (RedirectError ''registration_not_supported'' ''the registration parameter is not supported''), req)
          else case parse_max_age req of
            Inl e \<Rightarrow> (Inl e, req)
          | Inr req' \<Rightarrow>
              (case validate_rest client req' of
                 Some e \<Rightarrow> (Inl e, req')
               | None \<Rightarrow> (Inr client, req')))"

definition CreateAuthCode ::
    "string \<Rightarrow> time \<Rightarrow> duration \<Rightarrow> authorize_request \<Rightarrow> string \<Rightarrow> time \<Rightarrow> string list \<Rightarrow> fstore
      \<Rightarrow> auth_code res \<times> fstore" where
  "CreateAuthCode uuid now codeTTL req userID authTime amr st =
     (let code = \<lparr>code_Code = uuid, code_ClientID = ar_ClientID req, code_UserID = userID,
                  code_RedirectURI = ar_RedirectURI req, code_Scope = ar_Scope req,
                  code_CodeChallenge = ar_CodeChallenge req, code_CodeChallengeMethod = ar_CodeChallengeMethod req,
                  code_Nonce = ar_Nonce req, code_AuthTime = authTime, code_AMR = amr,
                  code_CreatedAt = zero_time, code_ExpiresAt = now + codeTTL, code_Used = False\<rparr>
      in case codes_Create now code st of
           (Some e, st') \<Rightarrow> (Inl (Wrapped ''failed to create auth code'' e), st')
         | (None, st') \<Rightarrow> (Inr (code\<lparr>code_CreatedAt := now\<rparr>), st'))"

definition ValidateCodeVerifier :: "platform \<Rightarrow> string \<Rightarrow> string \<Rightarrow> string \<Rightarrow> bool" where
  "ValidateCodeVerifier P codeVerifier codeChallenge codeChallengeMethod =
     (if codeChallenge = '''' then codeVerifier = ''''
      else if codeVerifier = '''' then False
      else if codeChallengeMethod = ''plain'' then codeVerifier = codeChallenge
      else if codeChallengeMethod = ''S256''
      then RawURLEncoding_EncodeToString (sha256 P codeVerifier) = codeChallenge
      else False)"

subsection \<open>What validation accepts, and where its errors go\<close>

definition is_redirect :: "goerr \<Rightarrow> bool" where
  "is_redirect e = (case e of RedirectError _ _ \<Rightarrow> True | _ \<Rightarrow> False)"

lemma is_redirect_simps [simp]:
  "is_redirect (RedirectError c d)" "\<not> is_redirect (InvalidInput m)" "\<not> is_redirect (Internal m e)"
  "\<not> is_redirect (NotFound r i)"
  by (simp_all add: is_redirect_def InvalidInput_def Internal_def NotFound_def)

lemma clients_GetByID_not_redirect: "clients_GetByID k st = Inl e \<Longrightarrow> \<not> is_redirect e"
  by (auto simp: clients_GetByID_def split: sum.splits option.splits)

lemma parse_max_age_Inr:
  "parse_max_age req = Inr req' \<Longrightarrow>
    (ar_maxAge_raw req = '''' \<and> req' = req) \<or> (\<exists>n. Atoi (ar_maxAge_raw req) = Inr n \<and> 0 \<le> n \<and> req' = req\<lparr>ar_MaxAge := n\<rparr>)"
  by (auto simp: parse_max_age_def split: if_splits sum.splits)

lemma parse_max_age_Inl: "parse_max_age req = Inl e \<Longrightarrow> is_redirect e"
  by (auto simp: parse_max_age_def split: if_splits sum.splits)

lemma validate_rest_redirect: "validate_rest cl req = Some e \<Longrightarrow> is_redirect e"
  by (auto simp: validate_rest_def split: if_splits option.splits)

lemma validate_rest_None:
  "validate_rest cl req = None \<longleftrightarrow>
    \<not> (HasPrompt req ''none'' \<and> length (ar_Prompt req) > 1) \<and> ar_ResponseType req = ''code''
    \<and> AllowsGrant cl ''authorization_code'' \<and> ''openid'' \<in> set (Scopes req)
    \<and> (client_Public cl \<longrightarrow> ar_CodeChallenge req \<noteq> '''')
    \<and> (ar_CodeChallenge req \<noteq> '''' \<longrightarrow> ar_CodeChallengeMethod req = ''S256'')
    \<and> set (Scopes req) \<subseteq> set (client_Scopes cl)"
  by (auto simp: validate_rest_def find_None_iff list_ex_iff split: if_splits option.splits dest!: find_Some_D)

lemma validate_rest_MaxAge [simp]: "validate_rest cl (req\<lparr>ar_MaxAge := n\<rparr>) = validate_rest cl req"
  by (simp add: validate_rest_def HasPrompt_def Scopes_def)

lemma ValidateClient_Inr:
  assumes "ValidateClient req st = (Inr cl, req')"
  shows "clients_GetByID (ar_ClientID req) st = Inr cl" and "ar_RedirectURI req \<in> set (client_RedirectURIs cl)"
    and "\<not> ar_hasRequest req" and "\<not> ar_hasRequestURI req" and "\<not> ar_hasRegistration req"
    and "validate_rest cl req = None" and "parse_max_age req = Inr req'"
  using assms
  by (auto simp: ValidateClient_def list_ex_iff split: sum.splits if_splits option.splits
      dest!: parse_max_age_Inr)

lemma ValidateClient_Inl:
  assumes "ValidateClient req st = (Inl e, req')"
  shows "is_redirect e \<longleftrightarrow>
    (\<exists>cl. clients_GetByID (ar_ClientID req) st = Inr cl \<and> ar_RedirectURI req \<in> set (client_RedirectURIs cl))"
  using assms clients_GetByID_not_redirect [of "ar_ClientID req" st]
  by (auto simp: ValidateClient_def list_ex_iff split: sum.splits if_splits option.splits
      dest: parse_max_age_Inl validate_rest_redirect)

subsection \<open>Age of the session\<close>

text \<open>
  As long as \<open>max_age\<close> in nanoseconds fits 63 bits, about 292 years, the request insists on
  a fresh login exactly when the prompt asks for it or the session is older than that.
\<close>

lemma RequiresFreshLogin_iff:
  assumes "ar_MaxAge r * second < 2 ^ 63 - 1"
  shows "RequiresFreshLogin now r authTime \<longleftrightarrow>
    HasPrompt r ''login'' \<or> HasPrompt r ''select_account''
    \<or> (0 \<le> ar_MaxAge r \<and> (IsZero authTime \<or> ar_MaxAge r * second < now - authTime))"
proof (cases "0 \<le> ar_MaxAge r")
  case True
  then have "wrap64 (ar_MaxAge r * second) = ar_MaxAge r * second"
    using assms by (intro wrap64_id) simp_all
  then show ?thesis
    using assms True time_Sub_greater [of "ar_MaxAge r * second" now authTime]
    by (auto simp: RequiresFreshLogin_def)
next
  case False
  then show ?thesis by (auto simp: RequiresFreshLogin_def)
qed

end
