(* ===== verification/RepoTokens.thy ===== *)
theory RepoTokens
  imports RepoSessions
begin

text \<open>
  The repositories of refresh tokens and of access-token revocations of the file store.
  Access tokens are not stored; a revocation row names one token by its \<open>jti\<close>, or is a
  watermark: every token of a user, a client or a user and client issued at or before it is
  revoked. Revoking refresh tokens writes the watermark of their grant.
\<close>

section \<open>Revocations\<close>

definition upsert :: "string \<Rightarrow> string \<Rightarrow> time \<Rightarrow> time \<Rightarrow> fstore \<Rightarrow> goerr option \<times> fstore" where
  "upsert kind key notBefore expiresAt st =
     (case load_revocations st of
        Inl e \<Rightarrow> (Some (Internal ''failed to load revocations'' e), st)
      | Inr rs \<Rightarrow>
          (case find (\<lambda>rv. rv_Kind rv = kind \<and> rv_Key rv = key) rs of
             Some _ \<Rightarrow>
               save_revocations
                 (upd_first (\<lambda>rv. rv_Kind rv = kind \<and> rv_Key rv = key)
                    (\<lambda>rv. rv\<lparr>rv_NotBefore := (if notBefore > rv_NotBefore rv then notBefore else rv_NotBefore rv),
                            rv_ExpiresAt := (if expiresAt > rv_ExpiresAt rv then expiresAt else rv_ExpiresAt rv)\<rparr>)
                    rs) st
           | None \<Rightarrow>
               save_revocations
                 (rs @ [\<lparr>rv_Kind = kind, rv_Key = key, rv_NotBefore = notBefore, rv_ExpiresAt = expiresAt\<rparr>]) st))"

definition RevokeAccessToken :: "time \<Rightarrow> string \<Rightarrow> time \<Rightarrow> fstore \<Rightarrow> goerr option \<times> fstore" where
  "RevokeAccessToken now jti expiresAt = upsert RevocationJTI jti now expiresAt"

definition RevokeBefore :: "string \<Rightarrow> string \<Rightarrow> time \<Rightarrow> fstore \<Rightarrow> goerr option \<times> fstore" where
  "RevokeBefore kind key notBefore = upsert kind key notBefore (notBefore + RevocationRetention)"

text \<open>The body of the loop of \<open>IsRevoked\<close>: does this row revoke the token?\<close>

definition row_revokes :: "string \<Rightarrow> string \<Rightarrow> string \<Rightarrow> time \<Rightarrow> revocation \<Rightarrow> bool" where
  "row_revokes jti userID clientID issuedAt rv =
     (if rv_Kind rv = RevocationJTI then rv_Key rv = jti
      else if rv_Kind rv = RevocationUser then rv_Key rv = userID \<and> \<not> issuedAt > rv_NotBefore rv
      else if rv_Kind rv = RevocationUserClient
        then rv_Key rv = UserClientKey userID clientID \<and> \<not> issuedAt > rv_NotBefore rv
      else if rv_Kind rv = RevocationClient then rv_Key rv = clientID \<and> \<not> issuedAt > rv_NotBefore rv
      else False)"

definition IsRevoked :: "string \<Rightarrow> string \<Rightarrow> string \<Rightarrow> time \<Rightarrow> fstore \<Rightarrow> bool res" where
  "IsRevoked jti userID clientID issuedAt st =
     (case load_revocations st of
        Inl e \<Rightarrow> Inl (Internal ''failed to load revocations'' e)
      | Inr rs \<Rightarrow> Inr (list_ex (row_revokes jti userID clientID issuedAt) rs))"

definition revocations_DeleteExpired :: "time \<Rightarrow> fstore \<Rightarrow> goerr option \<times> fstore" where
  "revocations_DeleteExpired now st =
     (case load_revocations st of
        Inl e \<Rightarrow> (Some (Internal ''failed to load revocations'' e), st)
      | Inr rs \<Rightarrow> save_revocations (filter (\<lambda>rv. rv_ExpiresAt rv > now) rs) st)"

section \<open>Refresh tokens\<close>

definition tokens_Create :: "time \<Rightarrow> token \<Rightarrow> fstore \<Rightarrow> goerr option \<times> fstore" where
  "tokens_Create now t st =
     (case load_tokens st of
        Inl e \<Rightarrow> (Some (Internal ''failed to load tokens'' e), st)
      | Inr ts \<Rightarrow> save_tokens (ts @ [t\<lparr>token_CreatedAt := now\<rparr>]) st)"

definition tokens_GetByID :: "string \<Rightarrow> fstore \<Rightarrow> token res" where
  "tokens_GetByID ident st =
     (case load_tokens st of
        Inl e \<Rightarrow> Inl (Internal ''failed to load tokens'' e)
      | Inr ts \<Rightarrow> (case find (\<lambda>t. token_ID t = ident) ts of
                     Some t \<Rightarrow> Inr t | None \<Rightarrow> Inl (NotFound ''token'' ident)))"

definition tokens_Revoke :: "time \<Rightarrow> string \<Rightarrow> fstore \<Rightarrow> goerr option \<times> fstore" where
  "tokens_Revoke now ident st =
     (case load_tokens st of
        Inl e \<Rightarrow> (Some (Internal ''failed to load tokens'' e), st)
      | Inr ts \<Rightarrow>
          (case find (\<lambda>t. token_ID t = ident) ts of
             Some t \<Rightarrow>
               (case save_tokens (upd_first (\<lambda>t. token_ID t = ident) (\<lambda>t. t\<lparr>token_Revoked := True\<rparr>) ts) st of
                  (Some e, st') \<Rightarrow> (Some e, st')
                | (None, st') \<Rightarrow>
                    RevokeBefore RevocationUserClient (UserClientKey (token_UserID t) (token_ClientID t)) now st')
           | None \<Rightarrow> (Some (NotFound ''token'' ident), st)))"

definition tokens_Rotate :: "string \<Rightarrow> fstore \<Rightarrow> goerr option \<times> fstore" where
  "tokens_Rotate ident st =
     (case load_tokens st of
        Inl e \<Rightarrow> (Some (Internal ''failed to load tokens'' e), st)
      | Inr ts \<Rightarrow>
          (case find (\<lambda>t. token_ID t = ident) ts of
             Some t \<Rightarrow>
               if token_Revoked t then (Some (Conflict ''refresh token already used''), st)
               else save_tokens (upd_first (\<lambda>t. token_ID t = ident) (\<lambda>t. t\<lparr>token_Revoked := True\<rparr>) ts) st
           | None \<Rightarrow> (Some (NotFound ''token'' ident), st)))"

definition tokens_RevokeByUserID :: "time \<Rightarrow> string \<Rightarrow> fstore \<Rightarrow> goerr option \<times> fstore" where
  "tokens_RevokeByUserID now userID st =
     (case load_tokens st of
        Inl e \<Rightarrow> (Some (Internal ''failed to load tokens'' e), st)
      | Inr ts \<Rightarrow>
          (case save_tokens (map (\<lambda>t. if token_UserID t = userID then t\<lparr>token_Revoked := True\<rparr> else t) ts) st of
             (Some e, st') \<Rightarrow> (Some e, st')
           | (None, st') \<Rightarrow> RevokeBefore RevocationUser userID now st'))"

definition tokens_RevokeByClientID :: "time \<Rightarrow> string \<Rightarrow> fstore \<Rightarrow> goerr option \<times> fstore" where
  "tokens_RevokeByClientID now clientID st =
     (case load_tokens st of
        Inl e \<Rightarrow> (Some (Internal ''failed to load tokens'' e), st)
      | Inr ts \<Rightarrow>
          (case save_tokens (map (\<lambda>t. if token_ClientID t = clientID then t\<lparr>token_Revoked := True\<rparr> else t) ts) st of
             (Some e, st') \<Rightarrow> (Some e, st')
           | (None, st') \<Rightarrow> RevokeBefore RevocationClient clientID now st'))"

definition tokens_DeleteExpired :: "time \<Rightarrow> fstore \<Rightarrow> goerr option \<times> fstore" where
  "tokens_DeleteExpired now st =
     (case load_tokens st of
        Inl e \<Rightarrow> (Some (Internal ''failed to load tokens'' e), st)
      | Inr ts \<Rightarrow> save_tokens (filter (\<lambda>t. token_ExpiresAt t > now) ts) st)"

definition tokens_ListByUserID :: "time \<Rightarrow> string \<Rightarrow> fstore \<Rightarrow> token list res" where
  "tokens_ListByUserID now userID st =
     (case load_tokens st of
        Inl e \<Rightarrow> Inl (Internal ''failed to load tokens'' e)
      | Inr ts \<Rightarrow>
          Inr (sort_key (\<lambda>t. - token_CreatedAt t)
                 (filter (\<lambda>t. token_UserID t = userID \<and> token_ExpiresAt t > now) ts)))"

section \<open>The contract of the revocation list\<close>

text \<open>
  \<open>revoked s jti u c iat\<close> is what the list says about an access token. A watermark
  revokes every token of its key issued up to it; no revocation takes another one back.
\<close>

locale revocation_list =
  fixes revoked :: "'s \<Rightarrow> string \<Rightarrow> string \<Rightarrow> string \<Rightarrow> time \<Rightarrow> bool"
    and revoke_jti :: "time \<Rightarrow> string \<Rightarrow> time \<Rightarrow> 's \<Rightarrow> goerr option \<times> 's"
    and revoke_before :: "string \<Rightarrow> string \<Rightarrow> time \<Rightarrow> 's \<Rightarrow> goerr option \<times> 's"
  assumes jti_revokes: "revoke_jti now jti xp s = (None, s') \<Longrightarrow> revoked s' jti u c iat"
    and user_revokes: "revoke_before RevocationUser u nb s = (None, s') \<Longrightarrow> iat \<le> nb \<Longrightarrow> revoked s' jti u c iat"
    and user_client_revokes: "revoke_before RevocationUserClient (UserClientKey u c) nb s = (None, s') \<Longrightarrow>
      iat \<le> nb \<Longrightarrow> revoked s' jti u c iat"
    and client_revokes: "revoke_before RevocationClient c nb s = (None, s') \<Longrightarrow> iat \<le> nb \<Longrightarrow> revoked s' jti u c iat"
    and jti_mono: "revoked s jti u c iat \<Longrightarrow> revoked (snd (revoke_jti now jti' xp s)) jti u c iat"
    and before_mono: "revoked s jti u c iat \<Longrightarrow> revoked (snd (revoke_before k key nb s)) jti u c iat"
begin

lemma mono_seq:
  assumes "revoked s jti u c iat"
    and "\<And>f. f \<in> set fs \<Longrightarrow> (\<exists>now j xp. f = revoke_jti now j xp) \<or> (\<exists>k key nb. f = revoke_before k key nb)"
  shows "revoked (snd (run_ops fs s)) jti u c iat"
proof (rule run_ops_invariant [where I = "\<lambda>s. revoked s jti u c iat"])
  show "revoked s jti u c iat" by (rule assms(1))
next
  fix f s assume "f \<in> set fs" and s: "revoked s jti u c iat"
  from assms(2) [OF this(1)] show "revoked (snd (f s)) jti u c iat"
    using s jti_mono before_mono by blast
qed

end

text \<open>The rows of the file are such a list.\<close>

definition revoked_in :: "fstore \<Rightarrow> string \<Rightarrow> string \<Rightarrow> string \<Rightarrow> time \<Rightarrow> bool" where
  "revoked_in st jti u c iat \<longleftrightarrow> (\<exists>rv \<in> set (revocations_of st). row_revokes jti u c iat rv)"

lemma IsRevoked_revoked_in: "IsRevoked jti u c iat st = Inr b \<Longrightarrow> b = revoked_in st jti u c iat"
  by (auto simp: IsRevoked_def revoked_in_def revocations_of_def list_ex_iff split: sum.splits)

lemma row_revokes_later:
  "row_revokes jti u c iat rv \<Longrightarrow> rv_NotBefore rv \<le> nb \<Longrightarrow>
    row_revokes jti u c iat (rv\<lparr>rv_NotBefore := nb, rv_ExpiresAt := xp\<rparr>)"
  by (auto simp: row_revokes_def split: if_splits)

lemma upsert_Ok_D:
  assumes "upsert k key nb xp st = (None, st')"
  shows "\<exists>rv \<in> set (revocations_of st'). rv_Kind rv = k \<and> rv_Key rv = key \<and> nb \<le> rv_NotBefore rv \<and> xp \<le> rv_ExpiresAt rv"
proof -
  obtain rs where ld: "load_revocations st = Inr rs"
    using assms by (auto simp: upsert_def split: sum.splits)
  show ?thesis
  proof (cases "find (\<lambda>rv. rv_Kind rv = k \<and> rv_Key rv = key) rs")
    case None
    with ld assms show ?thesis by (auto simp: upsert_def save_revocations_def writeFile_None)
  next
    case (Some r)
    let ?f = "\<lambda>rv. rv\<lparr>rv_NotBefore := (if nb > rv_NotBefore rv then nb else rv_NotBefore rv),
       rv_ExpiresAt := (if xp > rv_ExpiresAt rv then xp else rv_ExpiresAt rv)\<rparr>"
    have "find (\<lambda>rv. rv_Kind rv = k \<and> rv_Key rv = key)
        (upd_first (\<lambda>rv. rv_Kind rv = k \<and> rv_Key rv = key) ?f rs) = Some (?f r)"
      using find_upd_first_same [of "\<lambda>rv. rv_Kind rv = k \<and> rv_Key rv = key" ?f rs] Some by simp
    from find_Some_D [OF this] find_Some_D [OF Some] ld Some assms show ?thesis
      by (auto simp: upsert_def save_revocations_def writeFile_None intro!: bexI [of _ "?f r"])
  qed
qed

text \<open>Every row is still there afterwards, with its watermark and its expiry no earlier.\<close>

lemma upd_first_rows:
  assumes "rv \<in> set rs"
  shows "\<exists>rv' \<in> set (upd_first p (\<lambda>rv. rv\<lparr>rv_NotBefore := (if nb > rv_NotBefore rv then nb else rv_NotBefore rv),
       rv_ExpiresAt := (if xp > rv_ExpiresAt rv then xp else rv_ExpiresAt rv)\<rparr>) rs).
     rv_Kind rv' = rv_Kind rv \<and> rv_Key rv' = rv_Key rv \<and> rv_NotBefore rv \<le> rv_NotBefore rv' \<and> rv_ExpiresAt rv \<le> rv_ExpiresAt rv'"
  using assms by (induction rs) auto

lemma upsert_rows:
  assumes "rv \<in> set (revocations_of st)"
  shows "\<exists>rv' \<in> set (revocations_of (snd (upsert k key nb xp st))).
     rv_Kind rv' = rv_Kind rv \<and> rv_Key rv' = rv_Key rv \<and> rv_NotBefore rv \<le> rv_NotBefore rv' \<and> rv_ExpiresAt rv \<le> rv_ExpiresAt rv'"
proof (cases "load_revocations st")
  case (Inl e)
  then show ?thesis using assms by (auto simp: upsert_def)
next
  case (Inr rs)
  then have rv: "rv \<in> set rs" using assms by (simp add: of_load)
  show ?thesis
  proof (cases "write_err st ''revocations''")
    case None
    with Inr rv upd_first_rows [OF rv] show ?thesis
      by (auto simp: upsert_def save_revocations_def writeFile_def split: option.splits)
  next
    case (Some e)
    with Inr assms show ?thesis
      by (auto simp: upsert_def save_revocations_def writeFile_def split: option.splits)
  qed
qed

lemma row_revokes_cong:
  "row_revokes jti u c iat rv \<Longrightarrow> rv_Kind rv' = rv_Kind rv \<Longrightarrow> rv_Key rv' = rv_Key rv \<Longrightarrow>
    rv_NotBefore rv \<le> rv_NotBefore rv' \<Longrightarrow> row_revokes jti u c iat rv'"
  by (auto simp: row_revokes_def split: if_splits)

lemma upsert_mono: "revoked_in st jti u c iat \<Longrightarrow> revoked_in (snd (upsert k key nb xp st)) jti u c iat"
  unfolding revoked_in_def using upsert_rows row_revokes_cong by metis

lemma upsert_revokes:
  assumes "upsert k key nb xp st = (None, st')"
    and "\<And>rv. rv_Kind rv = k \<Longrightarrow> rv_Key rv = key \<Longrightarrow> nb \<le> rv_NotBefore rv \<Longrightarrow> row_revokes jti u c iat rv"
  shows "revoked_in st' jti u c iat"
  using upsert_Ok_D [OF assms(1)] assms(2) by (auto simp: revoked_in_def)

interpretation revocations: revocation_list revoked_in RevokeAccessToken RevokeBefore
proof (unfold_locales, goal_cases)
  case (1 now jti xp s s' u c iat)
  then show ?case
    unfolding RevokeAccessToken_def by (rule upsert_revokes) (simp add: row_revokes_def)
next
  case (2 u nb s s' iat jti c)
  from 2(1) show ?case unfolding RevokeBefore_def
    by (rule upsert_revokes) (use 2(2) in \<open>simp add: row_revokes_def revocation_kinds\<close>)
next
  case (3 u c nb s s' iat jti)
  from 3(1) show ?case unfolding RevokeBefore_def
    by (rule upsert_revokes) (use 3(2) in \<open>simp add: row_revokes_def revocation_kinds\<close>)
next
  case (4 c nb s s' iat jti u)
  from 4(1) show ?case unfolding RevokeBefore_def
    by (rule upsert_revokes) (use 4(2) in \<open>simp add: row_revokes_def revocation_kinds\<close>)
next
  case (5 s jti u c iat now jti' xp)
  then show ?case by (simp add: RevokeAccessToken_def upsert_mono)
next
  case (6 s jti u c iat k key nb)
  then show ?case by (simp add: RevokeBefore_def upsert_mono)
qed

section \<open>Rotation consumes a refresh token once\<close>

definition tokens_ready :: "fstore \<Rightarrow> bool" where
  "tokens_ready st \<longleftrightarrow> readable (f_tokens st) \<and> write_err st ''tokens'' = None"

lemma tokens_ready_load: "tokens_ready st \<Longrightarrow> load_tokens st = Inr (tokens_of st)"
  by (simp add: tokens_ready_def readable_load)

lemma tokens_ready_save:
  "tokens_ready st \<Longrightarrow> save_tokens xs st = (None, st\<lparr>f_tokens := Content xs\<rparr>)"
  by (simp add: tokens_ready_def save_tokens_def writeFile_def)

lemma tokens_ready_put: "tokens_ready st \<Longrightarrow> tokens_ready (st\<lparr>f_tokens := Content xs\<rparr>)"
  by (simp add: tokens_ready_def)

lemmas tokens_ready_rules = tokens_ready_load tokens_ready_save tokens_ready_put

interpretation refresh_tokens: consume_once
  "\<lambda>st. lookup_by token_ID (tokens_of st)" token_Revoked tokens_ready tokens_Rotate
proof (unfold_locales, goal_cases)
  case (1 s k v)
  then show ?case
    using lookup_by_upd_first [of token_ID "tokens_of s" k "\<lambda>t. t\<lparr>token_Revoked := True\<rparr>"]
    by (auto simp: tokens_Rotate_def tokens_ready_rules lookup_by_def)
next
  case (2 s k v)
  then show ?case by (auto simp: tokens_Rotate_def tokens_ready_load lookup_by_def)
next
  case (3 s k)
  then show ?case by (auto simp: tokens_Rotate_def tokens_ready_load lookup_by_def)
qed

section \<open>What the other operations do\<close>

lemma tokens_GetByID_D:
  "tokens_GetByID k st = Inr t \<Longrightarrow> lookup_by token_ID (tokens_of st) k = Some t"
  by (auto simp: tokens_GetByID_def tokens_of_def lookup_by_def split: sum.splits option.splits)

lemma tokens_Rotate_Ok_D:
  assumes "tokens_Rotate k st = (None, st')"
  shows "\<exists>t. lookup_by token_ID (tokens_of st) k = Some t \<and> \<not> token_Revoked t \<and>
    st' = st\<lparr>f_tokens :=
      Content (upd_first (\<lambda>t. token_ID t = k) (\<lambda>t. t\<lparr>token_Revoked := True\<rparr>) (tokens_of st))\<rparr>"
  using assms
  by (auto simp: tokens_Rotate_def tokens_of_def lookup_by_def save_tokens_def writeFile_None
      split: sum.splits option.splits if_splits)

lemma tokens_Rotate_Err_D: "tokens_Rotate k st = (Some e, st') \<Longrightarrow> st' = st"
  by (auto simp: tokens_Rotate_def save_tokens_def writeFile_Some
      split: sum.splits option.splits if_splits)

lemma upsert_tokens [simp]: "tokens_of (snd (upsert k key nb xp st)) = tokens_of st"
  by (auto simp: upsert_def save_revocations_def writeFile_def split: sum.splits option.splits)

lemma upsert_ready [simp]: "tokens_ready (snd (upsert k key nb xp st)) = tokens_ready st"
  by (auto simp: upsert_def tokens_ready_def save_revocations_def writeFile_def split: sum.splits option.splits)

lemma upsert_healthy:
  assumes "healthy st"
  shows "\<exists>rs. upsert k key nb xp st = (None, st\<lparr>f_revocations := Content rs\<rparr>)"
  using assms by (auto simp: upsert_def healthy_of save_healthy split: option.splits)

lemma RevokeBefore_healthy:
  assumes "healthy st"
  shows "\<exists>rs. RevokeBefore k key nb st = (None, st\<lparr>f_revocations := Content rs\<rparr>)"
  unfolding RevokeBefore_def using assms by (rule upsert_healthy)

text \<open>
  \<open>ListByUserID\<close> returns the user's unexpired tokens, revoked ones too, newest first.
\<close>

lemma tokens_ListByUserID_set:
  assumes "tokens_ListByUserID now u st = Inr ts"
  shows "set ts = {t \<in> set (tokens_of st). token_UserID t = u \<and> now < token_ExpiresAt t}"
  using assms by (auto simp: tokens_ListByUserID_def tokens_of_def split: sum.splits)

end
