(* ===== verification/Token.thy ===== *)
theory Token
  imports Authorize RepoTokens
begin

text \<open>
  The token service (\<open>internal/oidc/token.go\<close>): the authorization code and refresh token
  grants, revocation and introspection. A handler takes what it draws at random as
  \<open>ent\<close> and the clock as \<open>now\<close>, and returns its response or error with the new
  state. Metrics are left out.
\<close>

section \<open>Requests, responses and the service\<close>

record token_request =
  rq_GrantType :: string
  rq_Code :: string
  rq_RedirectURI :: string
  rq_ClientID :: string
  rq_ClientSecret :: string
  rq_CodeVerifier :: string
  rq_RefreshToken :: string
  rq_Scope :: string

text \<open>Revocation and introspection requests have the same fields.\<close>

record token_query =
  tq_Token :: string
  tq_TokenTypeHint :: string
  tq_ClientID :: string
  tq_ClientSecret :: string

record introspection_response =
  ir_Active :: bool
  ir_Scope :: string
  ir_ClientID :: string
  ir_Username :: string
  ir_TokenType :: string
  ir_Exp :: int
  ir_Iat :: int
  ir_Sub :: string
  ir_Aud :: string
  ir_Iss :: string

record token_response =
  tr_AccessToken :: string
  tr_TokenType :: string
  tr_ExpiresIn :: int
  tr_RefreshToken :: string
  tr_IDToken :: string
  tr_Scope :: string

text \<open>The configuration of a service, and the state it works on.\<close>

record token_service =
  ts_tokenGenerator :: token_generator
  ts_accessTTL :: duration
  ts_refreshTTL :: duration
  ts_issuer :: string
  ts_groupClaims :: "string option"
  ts_revocations :: bool

record sys =
  sys_store :: fstore
  sys_keys :: key_service

record entropy =
  ent_salt :: "string res"
  ent_idJTI :: string
  ent_accessJTI :: string
  ent_refreshID :: string

definition NewTokenService :: "token_generator \<Rightarrow> string \<Rightarrow> duration \<Rightarrow> duration \<Rightarrow> token_service" where
  "NewTokenService tokenGenerator issuer accessTTL refreshTTL =
     \<lparr>ts_tokenGenerator = tokenGenerator, ts_accessTTL = accessTTL, ts_refreshTTL = refreshTTL,
      ts_issuer = issuer, ts_groupClaims = None, ts_revocations = False\<rparr>"

definition WithGroupClaims :: "string option \<Rightarrow> token_service \<Rightarrow> token_service" where
  "WithGroupClaims gc s = s\<lparr>ts_groupClaims := gc\<rparr>"

definition WithRevocations :: "token_service \<Rightarrow> token_service" where
  "WithRevocations s = s\<lparr>ts_revocations := True\<rparr>"

section \<open>Parsing\<close>

record http_request =
  hr_form :: "url_values res"
  hr_Authorization :: string

text \<open>Client credentials in the \<open>Authorization\<close> header win over those in the form.\<close>

definition basicCredentials :: "string \<Rightarrow> (string \<times> string) option" where
  "basicCredentials auth =
     (if auth \<noteq> '''' \<and> HasPrefix auth ''Basic '' then
        (case StdEncoding_DecodeString (drop 6 auth) of
           Inl _ \<Rightarrow> None
         | Inr decoded \<Rightarrow> (case SplitN2 CHR '':'' decoded of [ident, secret] \<Rightarrow> Some (ident, secret) | _ \<Rightarrow> None))
      else None)"

definition ParseTokenRequest :: "http_request \<Rightarrow> token_request res" where
  "ParseTokenRequest r =
     (case hr_form r of
        Inl _ \<Rightarrow> Inl (InvalidInput ''invalid form data'')
      | Inr form \<Rightarrow>
          (let req = \<lparr>rq_GrantType = values_Get form ''grant_type'', rq_Code = values_Get form ''code'',
                      rq_RedirectURI = values_Get form ''redirect_uri'', rq_ClientID = values_Get form ''client_id'',
                      rq_ClientSecret = values_Get form ''client_secret'',
                      rq_CodeVerifier = values_Get form ''code_verifier'',
                      rq_RefreshToken = values_Get form ''refresh_token'', rq_Scope = values_Get form ''scope''\<rparr>;
               req1 = (case basicCredentials (hr_Authorization r) of
                         None \<Rightarrow> req | Some (i, p) \<Rightarrow> req\<lparr>rq_ClientID := i, rq_ClientSecret := p\<rparr>)
           in if rq_GrantType req1 = '''' then Inl (InvalidInput ''grant_type is required'') else Inr req1))"

definition parseTokenQuery :: "http_request \<Rightarrow> token_query res" where
  "parseTokenQuery r =
     (case hr_form r of
        Inl _ \<Rightarrow> Inl (InvalidInput ''invalid form data'')
      | Inr form \<Rightarrow>
          (let req = \<lparr>tq_Token = values_Get form ''token'', tq_TokenTypeHint = values_Get form ''token_type_hint'',
                      tq_ClientID = values_Get form ''client_id'', tq_ClientSecret = values_Get form ''client_secret''\<rparr>;
               req1 = (case basicCredentials (hr_Authorization r) of
                         None \<Rightarrow> req | Some (i, p) \<Rightarrow> req\<lparr>tq_ClientID := i, tq_ClientSecret := p\<rparr>)
           in if tq_Token req1 = '''' then Inl (InvalidInput ''token is required'') else Inr req1))"

definition ParseRevocationRequest :: "http_request \<Rightarrow> token_query res" where
  "ParseRevocationRequest r = parseTokenQuery r"

definition ParseIntrospectionRequest :: "http_request \<Rightarrow> token_query res" where
  "ParseIntrospectionRequest r = parseTokenQuery r"

section \<open>Issuing tokens\<close>

definition ttlsFor :: "token_service \<Rightarrow> client \<Rightarrow> duration \<times> duration" where
  "ttlsFor s client =
     ((if client_AccessTokenTTL client > 0 then client_AccessTokenTTL client else ts_accessTTL s),
      (if client_RefreshTokenTTL client > 0 then client_RefreshTokenTTL client else ts_refreshTTL s))"

text \<open>
  \<open>int(d.Seconds())\<close>: truncated towards zero. (The source goes through a
  \<open>float64\<close>, which is exact for the whole seconds that lifetimes are.)
\<close>

definition int_Seconds :: "duration \<Rightarrow> int" where
  "int_Seconds d = (if 0 \<le> d then d div second else - ((- d) div second))"

definition applyScopeClaims :: "user \<Rightarrow> string \<Rightarrow> claims \<Rightarrow> claims" where
  "applyScopeClaims user scope c =
     (let c1 = (if hasScope scope ''email''
                then c\<lparr>cl_Email := user_Email user, cl_EmailVerified := user_EmailVerified user\<rparr> else c)
      in if hasScope scope ''profile'' then
           (let c2 = c1\<lparr>cl_Name := user_DisplayName user\<rparr>;
                c3 = (if user_GivenName user \<noteq> '''' then SetExtra ''given_name'' (JString (user_GivenName user)) c2 else c2)
            in if user_FamilyName user \<noteq> '''' then SetExtra ''family_name'' (JString (user_FamilyName user)) c3 else c3)
         else c1)"

text \<open>The claims of the two tokens, the first half of \<open>generateTokens\<close>.\<close>

definition idTokenClaims :: "user \<Rightarrow> client \<Rightarrow> string \<Rightarrow> string \<Rightarrow> time \<Rightarrow> string list \<Rightarrow> claims" where
  "idTokenClaims user client scope nonce authTime amr =
     (let c0 = (if \<not> client_MinimalIDToken client then applyScopeClaims user scope empty_claims else empty_claims);
          c1 = (if nonce \<noteq> '''' then SetExtra ''nonce'' (JString nonce) c0 else c0);
          c2 = (if \<not> IsZero authTime then SetExtra ''auth_time'' (JNum (Unix authTime)) c1 else c1)
      in if length amr > 0 then SetExtra ''amr'' (JArr (map JString amr)) c2 else c2)"

definition tokenClaims ::
    "platform \<Rightarrow> token_service \<Rightarrow> user \<Rightarrow> client \<Rightarrow> string \<Rightarrow> string \<Rightarrow> time \<Rightarrow> string list \<Rightarrow> fstore \<Rightarrow> (claims \<times> claims) res" where
  "tokenClaims P s user client scope nonce authTime amr st =
     (let idc = idTokenClaims user client scope nonce authTime amr;
          acc = empty_claims\<lparr>cl_Scope := scope, cl_ClientID := client_ID client\<rparr>
      in bindR (if \<not> client_MinimalIDToken client then gc_Apply P (ts_groupClaims s) user scope idc st else Inr idc) (\<lambda>idc'.
         bindR (gc_Apply P (ts_groupClaims s) user scope acc st) (\<lambda>acc'.
           Inr (idc', acc'))))"

definition generateTokens ::
    "platform \<Rightarrow> jwtlib \<Rightarrow> entropy \<Rightarrow> time \<Rightarrow> token_service \<Rightarrow> user \<Rightarrow> client \<Rightarrow> string \<Rightarrow> string \<Rightarrow> time \<Rightarrow> string list
      \<Rightarrow> sys \<Rightarrow> token_response res \<times> sys" where
  "generateTokens P J ent now s user client scope nonce authTime amr sys =
     (case tokenClaims P s user client scope nonce authTime amr (sys_store sys) of
        Inl e \<Rightarrow> (Inl e, sys)
      | Inr (idc, acc) \<Rightarrow>
          (let (accessTTL, refreshTTL) = ttlsFor s client
           in case GenerateIDTokenFor J now (ent_idJTI ent) (ts_tokenGenerator s) (user_ID user) (client_ID client)
                     accessTTL idc (sys_keys sys) of
                (Inl e, ks) \<Rightarrow> (Inl (Wrapped ''failed to generate ID token'' e), sys\<lparr>sys_keys := ks\<rparr>)
              | (Inr (idToken, _), ks) \<Rightarrow>
                  (case GenerateAccessTokenWithClaims J now (ent_accessJTI ent) (ts_tokenGenerator s) (user_ID user)
                          accessTTL acc ks of
                     (Inl e, ks) \<Rightarrow> (Inl (Wrapped ''failed to generate access token'' e), sys\<lparr>sys_keys := ks\<rparr>)
                   | (Inr (accessToken, _), ks) \<Rightarrow>
                       (let response = \<lparr>tr_AccessToken = accessToken, tr_TokenType = ''Bearer'',
                                        tr_ExpiresIn = int_Seconds accessTTL, tr_RefreshToken = '''',
                                        tr_IDToken = idToken, tr_Scope = scope\<rparr>;
                            sys1 = sys\<lparr>sys_keys := ks\<rparr>
                        in if hasScope scope ''offline_access'' \<and> AllowsGrant client ''refresh_token'' then
                             (let refreshToken = \<lparr>token_ID = ent_refreshID ent, token_UserID = user_ID user,
                                    token_ClientID = client_ID client, token_Scope = scope, token_CreatedAt = zero_time,
                                    token_ExpiresAt = now + refreshTTL, token_Revoked = False\<rparr>
                              in case tokens_Create now refreshToken (sys_store sys1) of
                                   (Some e, st) \<Rightarrow>
                                     (Inl (Wrapped ''failed to create refresh token'' e), sys1\<lparr>sys_store := st\<rparr>)
                                 | (None, st) \<Rightarrow>
                                     (Inr (response\<lparr>tr_RefreshToken := token_ID refreshToken\<rparr>), sys1\<lparr>sys_store := st\<rparr>))
                           else (Inr response, sys1)))))"

section \<open>Cutting off a grant\<close>

fun revoke_loop :: "time \<Rightarrow> string \<Rightarrow> token list \<Rightarrow> fstore \<Rightarrow> goerr option \<times> fstore" where
  "revoke_loop now clientID [] st = (None, st)"
| "revoke_loop now clientID (t # ts) st =
     (if token_ClientID t \<noteq> clientID \<or> token_Revoked t then revoke_loop now clientID ts st
      else case tokens_Revoke now (token_ID t) st of
        (Some e, st') \<Rightarrow> (Some e, st')
      | (None, st') \<Rightarrow> revoke_loop now clientID ts st')"

definition revokeGrant :: "time \<Rightarrow> token_service \<Rightarrow> string \<Rightarrow> string \<Rightarrow> fstore \<Rightarrow> goerr option \<times> fstore" where
  "revokeGrant now s userID clientID st =
     (case tokens_ListByUserID now userID st of
        Inl e \<Rightarrow> (Some e, st)
      | Inr tokens \<Rightarrow>
          (case revoke_loop now clientID tokens st of
             (Some e, st') \<Rightarrow> (Some e, st')
           | (None, st') \<Rightarrow>
               if ts_revocations s then RevokeBefore RevocationUserClient (UserClientKey userID clientID) now st'
               else (None, st')))"

section \<open>The authorization code grant\<close>

text \<open>The client must authenticate before anything about the grant is looked at.\<close>

definition clientForGrant ::
    "platform \<Rightarrow> string res \<Rightarrow> time \<Rightarrow> string \<Rightarrow> token_request \<Rightarrow> fstore \<Rightarrow> client res \<times> fstore" where
  "clientForGrant P salt now grant req st =
     (case clients_GetByID (rq_ClientID req) st of
        Inl _ \<Rightarrow> (Inl (Unauthorized ''invalid client''), st)
      | Inr client \<Rightarrow>
          (case authenticateClient P salt now client (rq_ClientSecret req) st of
             (False, _, st') \<Rightarrow> (Inl (Unauthorized ''invalid client credentials''), st')
           | (True, client', st') \<Rightarrow>
               if \<not> AllowsGrant client' grant
               then (Inl (UnauthorizedClient (''client is not allowed the '' @ grant @ '' grant'')), st')
               else (Inr client', st')))"

definition cutOff :: "time \<Rightarrow> token_service \<Rightarrow> string \<Rightarrow> string \<Rightarrow> string \<Rightarrow> string \<Rightarrow> fstore \<Rightarrow> goerr \<times> fstore" where
  "cutOff now s failed reused userID clientID st =
     (case revokeGrant now s userID clientID st of
        (Some e, st') \<Rightarrow> (Wrapped failed e, st')
      | (None, st') \<Rightarrow> (InvalidGrant reused, st'))"

text \<open>Checking a code and consuming it.\<close>

definition consumeCode ::
    "platform \<Rightarrow> time \<Rightarrow> token_service \<Rightarrow> token_request \<Rightarrow> fstore \<Rightarrow> auth_code res \<times> fstore" where
  "consumeCode P now s req st =
     (case codes_GetByCode (rq_Code req) st of
        Inl e \<Rightarrow> (Inl (if IsCode e CodeNotFound then InvalidGrant ''invalid code'' else e), st)
      | Inr authCode \<Rightarrow>
          (let reuse = (\<lambda>st. case cutOff now s ''failed to revoke tokens after code reuse''
                              ''code already used; all tokens for this client were revoked''
                              (code_UserID authCode) (code_ClientID authCode) st of (e, st') \<Rightarrow> (Inl e, st'))
           in if code_ClientID authCode \<noteq> rq_ClientID req then (Inl (InvalidGrant ''client_id mismatch''), st)
              else if code_Used authCode then reuse st
              else if code_IsExpired now authCode then (Inl (InvalidGrant ''code expired''), st)
              else if code_RedirectURI authCode \<noteq> rq_RedirectURI req then (Inl (InvalidGrant ''redirect_uri mismatch''), st)
              else if \<not> ValidateCodeVerifier P (rq_CodeVerifier req) (code_CodeChallenge authCode)
                          (code_CodeChallengeMethod authCode)
              then (Inl (InvalidGrant ''invalid code_verifier''), st)
              else case codes_MarkUsed (rq_Code req) st of
                (None, st') \<Rightarrow> (Inr authCode, st')
              | (Some e, st') \<Rightarrow>
                  if IsCode e CodeConflict then reuse st'
                  else (Inl (Wrapped ''failed to mark code as used'' e), st')))"

definition activeUser :: "string \<Rightarrow> fstore \<Rightarrow> user res" where
  "activeUser userID st =
     (case users_GetByID userID st of
        Inl e \<Rightarrow> Inl (Wrapped ''failed to get user'' e)
      | Inr user \<Rightarrow> if \<not> user_Active user then Inl (InvalidGrant ''user account is disabled'') else Inr user)"

definition HandleAuthorizationCode ::
    "platform \<Rightarrow> jwtlib \<Rightarrow> entropy \<Rightarrow> time \<Rightarrow> token_service \<Rightarrow> token_request \<Rightarrow> sys \<Rightarrow> token_response res \<times> sys" where
  "HandleAuthorizationCode P J ent now s req sys =
     (if rq_Code req = '''' then (Inl (InvalidInput ''code is required''), sys)
      else if rq_RedirectURI req = '''' then (Inl (InvalidInput ''redirect_uri is required''), sys)
      else case clientForGrant P (ent_salt ent) now ''authorization_code'' req (sys_store sys) of
        (Inl e, st) \<Rightarrow> (Inl e, sys\<lparr>sys_store := st\<rparr>)
      | (Inr client, st) \<Rightarrow>
          (case consumeCode P now s req st of
             (Inl e, st) \<Rightarrow> (Inl e, sys\<lparr>sys_store := st\<rparr>)
           | (Inr authCode, st) \<Rightarrow>
               (case activeUser (code_UserID authCode) st of
                  Inl e \<Rightarrow> (Inl e, sys\<lparr>sys_store := st\<rparr>)
                | Inr user \<Rightarrow>
                    generateTokens P J ent now s user client (code_Scope authCode) (code_Nonce authCode)
                      (code_AuthTime authCode) (code_AMR authCode) (sys\<lparr>sys_store := st\<rparr>))))"

section \<open>The refresh token grant\<close>

definition scopeSubset :: "string \<Rightarrow> string \<Rightarrow> bool" where
  "scopeSubset requested granted =
     (let have = fold (\<lambda>sc m. m(sc \<mapsto> True)) (Fields granted) Map.empty
      in list_all (\<lambda>sc. have sc = Some True) (Fields requested))"

definition refreshScope :: "token_request \<Rightarrow> token \<Rightarrow> string res" where
  "refreshScope req token =
     (if rq_Scope req \<noteq> '''' then
        (if \<not> scopeSubset (rq_Scope req) (token_Scope token)
         then Inl (InvalidScope ''requested scope exceeds the scope of the refresh token'')
         else Inr (rq_Scope req))
      else Inr (token_Scope token))"

text \<open>Checking a refresh token and retiring it.\<close>

definition consumeRefresh ::
    "time \<Rightarrow> token_service \<Rightarrow> token_request \<Rightarrow> fstore \<Rightarrow> (token \<times> user \<times> string) res \<times> fstore" where
  "consumeRefresh now s req st =
     (case tokens_GetByID (rq_RefreshToken req) st of
        Inl e \<Rightarrow> (Inl (if IsCode e CodeNotFound then InvalidGrant ''invalid refresh_token'' else e), st)
      | Inr token \<Rightarrow>
          (let reuse = (\<lambda>st. case cutOff now s ''failed to revoke tokens after refresh token reuse''
                              ''refresh_token has already been used; all tokens for this client were revoked''
                              (token_UserID token) (token_ClientID token) st of (e, st') \<Rightarrow> (Inl e, st'))
           in if token_ClientID token \<noteq> rq_ClientID req then (Inl (InvalidGrant ''client_id mismatch''), st)
              else if token_Revoked token \<and> \<not> token_IsExpired now token then reuse st
              else if \<not> token_IsValid now token then (Inl (InvalidGrant ''refresh_token is invalid or expired''), st)
              else case activeUser (token_UserID token) st of
                Inl e \<Rightarrow> (Inl e, st)
              | Inr user \<Rightarrow>
                  (case refreshScope req token of
                     Inl e \<Rightarrow> (Inl e, st)
                   | Inr scope \<Rightarrow>
                       (case tokens_Rotate (rq_RefreshToken req) st of
                          (None, st') \<Rightarrow> (Inr (token, user, scope), st')
                        | (Some e, st') \<Rightarrow>
                            if IsCode e CodeConflict then reuse st'
                            else (Inl (Wrapped ''failed to rotate old token'' e), st')))))"

definition HandleRefreshToken ::
    "platform \<Rightarrow> jwtlib \<Rightarrow> entropy \<Rightarrow> time \<Rightarrow> token_service \<Rightarrow> token_request \<Rightarrow> sys \<Rightarrow> token_response res \<times> sys" where
  "HandleRefreshToken P J ent now s req sys =
     (if rq_RefreshToken req = '''' then (Inl (InvalidInput ''refresh_token is required''), sys)
      else case clientForGrant P (ent_salt ent) now ''refresh_token'' req (sys_store sys) of
        (Inl e, st) \<Rightarrow> (Inl e, sys\<lparr>sys_store := st\<rparr>)
      | (Inr client, st) \<Rightarrow>
          (case consumeRefresh now s req st of
             (Inl e, st) \<Rightarrow> (Inl e, sys\<lparr>sys_store := st\<rparr>)
           | (Inr (token, user, scope), st) \<Rightarrow>
               generateTokens P J ent now s user client scope '''' zero_time [] (sys\<lparr>sys_store := st\<rparr>)))"

section \<open>Revocation and introspection\<close>

definition accessTokenRevoked :: "jwtlib \<Rightarrow> bool \<Rightarrow> claims \<Rightarrow> fstore \<Rightarrow> bool res" where
  "accessTokenRevoked J revocations c st =
     (if \<not> revocations then Inr False
      else let issued = IssuedAtOf J c
           in if IsZero issued then Inr False
              else IsRevoked (cl_ID c) (cl_Subject c) (cl_ClientID c) issued st)"

definition userActive :: "string \<Rightarrow> fstore \<Rightarrow> bool" where
  "userActive userID st = (case users_GetByID userID st of Inr user \<Rightarrow> user_Active user | Inl _ \<Rightarrow> False)"

definition HandleRevocation ::
    "platform \<Rightarrow> jwtlib \<Rightarrow> string res \<Rightarrow> time \<Rightarrow> token_service \<Rightarrow> token_query \<Rightarrow> sys \<Rightarrow> goerr option \<times> sys" where
  "HandleRevocation P J salt now s req sys =
     (if tq_ClientID req = '''' then (Some (Unauthorized ''client authentication required''), sys)
      else case clients_GetByID (tq_ClientID req) (sys_store sys) of
        Inl _ \<Rightarrow> (Some (Unauthorized ''invalid client credentials''), sys)
      | Inr client \<Rightarrow>
          (case authenticateClient P salt now client (tq_ClientSecret req) (sys_store sys) of
             (False, _, st) \<Rightarrow> (Some (Unauthorized ''invalid client credentials''), sys\<lparr>sys_store := st\<rparr>)
           | (True, _, st) \<Rightarrow>
               (case tokens_GetByID (tq_Token req) st of
                  Inr token \<Rightarrow>
                    if tq_ClientID req \<noteq> '''' \<and> token_ClientID token \<noteq> tq_ClientID req then (None, sys\<lparr>sys_store := st\<rparr>)
                    else (case tokens_Revoke now (tq_Token req) st of (e, st') \<Rightarrow> (e, sys\<lparr>sys_store := st'\<rparr>))
                | Inl _ \<Rightarrow>
                    if ts_revocations s then
                      (case ValidateAccessToken J now (ts_tokenGenerator s) (sys_keys sys) (tq_Token req) of
                         Inl _ \<Rightarrow> (None, sys\<lparr>sys_store := st\<rparr>)
                       | Inr c \<Rightarrow>
                           (case cl_ExpiresAt c of
                              None \<Rightarrow> (None, sys\<lparr>sys_store := st\<rparr>)
                            | Some expiresAt \<Rightarrow>
                                if tq_ClientID req \<noteq> '''' \<and> cl_ClientID c \<noteq> tq_ClientID req then (None, sys\<lparr>sys_store := st\<rparr>)
                                else (case RevokeAccessToken now (cl_ID c) expiresAt st of
                                        (e, st') \<Rightarrow> (e, sys\<lparr>sys_store := st'\<rparr>))))
                    else (None, sys\<lparr>sys_store := st\<rparr>))))"

definition inactive :: introspection_response where
  "inactive = \<lparr>ir_Active = False, ir_Scope = '''', ir_ClientID = '''', ir_Username = '''', ir_TokenType = '''',
     ir_Exp = 0, ir_Iat = 0, ir_Sub = '''', ir_Aud = '''', ir_Iss = ''''\<rparr>"

text \<open>
  \<open>claims.ExpiresAt.Unix()\<close> and \<open>claims.IssuedAt.Unix()\<close> go through pointers that
  are nil when the claim is missing; that is a panic, modelled as an error.
\<close>

definition introspectToken :: "jwtlib \<Rightarrow> time \<Rightarrow> token_service \<Rightarrow> string \<Rightarrow> fstore \<Rightarrow> key_service \<Rightarrow> introspection_response res" where
  "introspectToken J now s tok st ks =
     (case ValidateAccessToken J now (ts_tokenGenerator s) ks tok of
        Inr c \<Rightarrow>
          bindR (accessTokenRevoked J (ts_revocations s) c st) (\<lambda>revoked.
            if revoked \<or> \<not> userActive (cl_Subject c) st then Inr inactive
            else case (cl_ExpiresAt c, cl_IssuedAt c) of
              (Some ex, Some ia) \<Rightarrow>
                Inr \<lparr>ir_Active = True, ir_Scope = cl_Scope c, ir_ClientID = cl_ClientID c, ir_Username = '''',
                     ir_TokenType = ''Bearer'', ir_Exp = Unix ex, ir_Iat = Unix ia, ir_Sub = cl_Subject c,
                     ir_Aud = cl_ClientID c, ir_Iss = cl_Issuer c\<rparr>
            | _ \<Rightarrow> Inl (Plain ''panic: nil NumericDate''))
      | Inl _ \<Rightarrow>
          (case tokens_GetByID tok st of
             Inr token \<Rightarrow>
               if token_IsValid now token \<and> userActive (token_UserID token) st then
                 (let username = (case users_GetByID (token_UserID token) st of Inr user \<Rightarrow> user_Email user | Inl _ \<Rightarrow> '''')
                  in Inr (inactive\<lparr>ir_Active := True, ir_Scope := token_Scope token, ir_ClientID := token_ClientID token,
                          ir_Username := username, ir_Sub := token_UserID token, ir_Exp := Unix (token_ExpiresAt token),
                          ir_TokenType := ''refresh_token''\<rparr>))
               else Inr inactive
           | Inl _ \<Rightarrow> Inr inactive))"

definition introspect ::
    "platform \<Rightarrow> jwtlib \<Rightarrow> string res \<Rightarrow> time \<Rightarrow> token_service \<Rightarrow> token_query \<Rightarrow> sys \<Rightarrow> introspection_response res \<times> sys" where
  "introspect P J salt now s req sys =
     (if tq_ClientID req = '''' then (Inl (Unauthorized ''client authentication required''), sys)
      else case clients_GetByID (tq_ClientID req) (sys_store sys) of
        Inl _ \<Rightarrow> (Inl (Unauthorized ''invalid client credentials''), sys)
      | Inr client \<Rightarrow>
          if client_Public client then (Inl (Unauthorized ''introspection requires a confidential client''), sys)
          else (case authenticateClient P salt now client (tq_ClientSecret req) (sys_store sys) of
             (False, _, st) \<Rightarrow> (Inl (Unauthorized ''invalid client credentials''), sys\<lparr>sys_store := st\<rparr>)
           | (True, _, st) \<Rightarrow> (introspectToken J now s (tq_Token req) st (sys_keys sys), sys\<lparr>sys_store := st\<rparr>)))"

definition HandleIntrospection ::
    "platform \<Rightarrow> jwtlib \<Rightarrow> string res \<Rightarrow> time \<Rightarrow> token_service \<Rightarrow> token_query \<Rightarrow> sys \<Rightarrow> introspection_response res \<times> sys" where
  "HandleIntrospection P J salt now s req sys = introspect P J salt now s req sys"

end
