(* ===== verification/TokenGrants.thy ===== *)
theory TokenGrants
  imports Token
begin

text \<open>
  What the token service guarantees: the conditions under which a grant succeeds, that a code
  and a refresh token are good for one success whatever calls are made in between, and that
  reuse cuts off the grant.
\<close>

section \<open>The steps of the handlers\<close>

lemma clientForGrant_frame:
  "\<exists>v. snd (clientForGrant P salt now grant req st) = st\<lparr>f_clients := v\<rparr>"
proof (cases "clients_GetByID (rq_ClientID req) st")
  case (Inl e)
  then show ?thesis by (auto simp: clientForGrant_def)
next
  case (Inr c)
  obtain ok c' st' where a: "authenticateClient P salt now c (rq_ClientSecret req) st = (ok, c', st')"
    by (metis prod_cases3)
  obtain v where "st' = st\<lparr>f_clients := v\<rparr>" using authenticateClient_spec(3) [OF a] by blast
  with Inr a show ?thesis by (auto simp: clientForGrant_def split: bool.splits)
qed

lemma AllowsGrant_Secret [simp]: "AllowsGrant (c\<lparr>client_Secret := s\<rparr>) g = AllowsGrant c g"
  by (simp add: AllowsGrant_def)

lemma clientForGrant_Inr:
  assumes "clientForGrant P salt now grant req st = (Inr c, st')"
  shows "\<exists>c0 s. clients_GetByID (rq_ClientID req) st = Inr c0 \<and> client_credentials_ok P c0 (rq_ClientSecret req)
    \<and> AllowsGrant c0 grant \<and> c = c0\<lparr>client_Secret := s\<rparr>"
proof (cases "clients_GetByID (rq_ClientID req) st")
  case (Inl e)
  with assms show ?thesis by (simp add: clientForGrant_def)
next
  case (Inr c0)
  obtain ok c' st'' where a: "authenticateClient P salt now c0 (rq_ClientSecret req) st = (ok, c', st'')"
    by (metis prod_cases3)
  obtain s where "c' = c0\<lparr>client_Secret := s\<rparr>" using authenticateClient_spec(2) [OF a] by blast
  with authenticateClient_spec(1) [OF a] Inr a assms show ?thesis
    by (auto simp: clientForGrant_def split: bool.splits if_splits)
qed

lemma consumeCode_Inr:
  assumes "consumeCode P now s req st = (Inr a, st')"
  shows "lookup_by code_Code (codes_of st) (rq_Code req) = Some a \<and> \<not> code_Used a \<and> \<not> code_IsExpired now a
    \<and> code_ClientID a = rq_ClientID req \<and> code_RedirectURI a = rq_RedirectURI req
    \<and> ValidateCodeVerifier P (rq_CodeVerifier req) (code_CodeChallenge a) (code_CodeChallengeMethod a)
    \<and> codes_MarkUsed (rq_Code req) st = (None, st')"
proof -
  obtain a' where get: "codes_GetByCode (rq_Code req) st = Inr a'"
    using assms by (cases "codes_GetByCode (rq_Code req) st") (auto simp: consumeCode_def)
  from codes_GetByCode_D [OF get] get assms show ?thesis
    by (auto simp: consumeCode_def Let_def split: if_splits prod.splits option.splits)
qed

lemma activeUser_Inr: "activeUser u st = Inr user \<longleftrightarrow> users_GetByID u st = Inr user \<and> user_Active user"
  by (auto simp: activeUser_def split: sum.splits)

lemma tokens_Create_tokens:
  "tokens_Create now t st = (None, st') \<Longrightarrow>
    st' = st\<lparr>f_tokens := Content (tokens_of st @ [t\<lparr>token_CreatedAt := now\<rparr>])\<rparr>"
  by (auto simp: tokens_Create_def save_tokens_def writeFile_None of_load split: sum.splits)

lemma tokens_Create_Err: "tokens_Create now t st = (Some e, st') \<Longrightarrow> st' = st"
  by (auto simp: tokens_Create_def save_tokens_def writeFile_Some split: sum.splits)

text \<open>
  Issuing tokens adds at most one refresh token to the store and changes nothing else there.
\<close>

definition newRefreshToken :: "entropy \<Rightarrow> time \<Rightarrow> token_service \<Rightarrow> user \<Rightarrow> client \<Rightarrow> string \<Rightarrow> token" where
  "newRefreshToken ent now s user client scope =
     \<lparr>token_ID = ent_refreshID ent, token_UserID = user_ID user, token_ClientID = client_ID client,
      token_Scope = scope, token_CreatedAt = now, token_ExpiresAt = now + snd (ttlsFor s client), token_Revoked = False\<rparr>"

lemma generateTokens_cases:
  assumes "generateTokens P J ent now s user client scope nonce authTime amr sys = (r, sys')"
  shows "sys_store sys' = sys_store sys \<or>
    (\<exists>resp. r = Inr resp \<and> sys_store sys' = (sys_store sys)\<lparr>f_tokens := Content (tokens_of (sys_store sys)
        @ [newRefreshToken ent now s user client scope])\<rparr>)"
    and "r = Inr resp \<Longrightarrow> tr_Scope resp = scope \<and> tr_TokenType resp = ''Bearer''
      \<and> tr_ExpiresIn resp = int_Seconds (fst (ttlsFor s client))"
    and "r = Inr resp \<Longrightarrow>
      (if hasScope scope ''offline_access'' \<and> AllowsGrant client ''refresh_token''
       then tr_RefreshToken resp = ent_refreshID ent
         \<and> tokens_of (sys_store sys') = tokens_of (sys_store sys) @ [newRefreshToken ent now s user client scope]
       else tr_RefreshToken resp = '''' \<and> sys_store sys' = sys_store sys)"
  using assms
  by (auto simp: generateTokens_def newRefreshToken_def Let_def
      split: sum.splits prod.splits option.splits if_splits
      dest!: tokens_Create_tokens tokens_Create_Err)

lemma scopeSubset_iff: "scopeSubset req granted \<longleftrightarrow> set (Fields req) \<subseteq> set (Fields granted)"
proof -
  have "fold (\<lambda>sc m. m(sc \<mapsto> True)) xs M sc = Some True \<longleftrightarrow> sc \<in> set xs \<or> M sc = Some True" for xs M sc
    by (induction xs arbitrary: M) auto
  from this [of "Fields granted" Map.empty] show ?thesis
    by (auto simp: scopeSubset_def list_all_iff)
qed

lemma refreshScope_Inr:
  assumes "refreshScope req t = Inr sc"
  shows "set (Fields sc) \<subseteq> set (Fields (token_Scope t))" and "sc = (if rq_Scope req = '''' then token_Scope t else rq_Scope req)"
  using assms by (auto simp: refreshScope_def scopeSubset_iff split: if_splits)

lemma consumeRefresh_Inr:
  assumes "consumeRefresh now s req st = (Inr (t, user, scope), st')"
  shows "lookup_by token_ID (tokens_of st) (rq_RefreshToken req) = Some t \<and> token_IsValid now t
    \<and> token_ClientID t = rq_ClientID req \<and> users_GetByID (token_UserID t) st = Inr user \<and> user_Active user
    \<and> refreshScope req t = Inr scope \<and> tokens_Rotate (rq_RefreshToken req) st = (None, st')"
proof -
  obtain t' where get: "tokens_GetByID (rq_RefreshToken req) st = Inr t'"
    using assms by (cases "tokens_GetByID (rq_RefreshToken req) st") (auto simp: consumeRefresh_def)
  from tokens_GetByID_D [OF get] get assms show ?thesis
    by (auto simp: consumeRefresh_def Let_def activeUser_Inr split: if_splits prod.splits option.splits sum.splits)
qed

section \<open>Cutting off a grant\<close>

text \<open>Revoking writes to two files only.\<close>

definition token_frame :: "fstore \<Rightarrow> fstore \<Rightarrow> bool" where
  "token_frame st st' \<longleftrightarrow> (\<exists>ts rs. st' = st\<lparr>f_tokens := ts, f_revocations := rs\<rparr>)"

lemma token_frame_refl [simp]: "token_frame st st"
  unfolding token_frame_def by (intro exI [of _ "f_tokens st"] exI [of _ "f_revocations st"]) simp

lemma token_frame_trans: "token_frame a b \<Longrightarrow> token_frame b c \<Longrightarrow> token_frame a c"
  by (force simp: token_frame_def)

lemma token_frame_of:
  assumes "token_frame st st'"
  shows "codes_of st' = codes_of st" and "users_of st' = users_of st" and "clients_of st' = clients_of st"
    and "load_users st' = load_users st"
  using assms by (auto simp: token_frame_def)

lemma tokens_Revoke_Ok:
  assumes "tokens_Revoke now k st = (None, st')"
  shows "tokens_of st' = upd_first (\<lambda>t. token_ID t = k) (\<lambda>t. t\<lparr>token_Revoked := True\<rparr>) (tokens_of st)"
    and "token_frame st st'"
proof -
  obtain ts where ld: "load_tokens st = Inr ts"
    using assms by (cases "load_tokens st") (simp_all add: tokens_Revoke_def)
  obtain t where f: "find (\<lambda>t. token_ID t = k) ts = Some t"
    using assms by (cases "find (\<lambda>t. token_ID t = k) ts") (simp_all add: tokens_Revoke_def ld)
  have rb: "RevokeBefore RevocationUserClient (UserClientKey (token_UserID t) (token_ClientID t)) now
      (st\<lparr>f_tokens := Content (upd_first (\<lambda>t. token_ID t = k) (\<lambda>t. t\<lparr>token_Revoked := True\<rparr>) ts)\<rparr>) = (None, st')"
    using assms by (auto simp: tokens_Revoke_def ld f save_tokens_def writeFile_None split: option.splits prod.splits)
  let ?st1 = "st\<lparr>f_tokens := Content (upd_first (\<lambda>t. token_ID t = k) (\<lambda>t. t\<lparr>token_Revoked := True\<rparr>) ts)\<rparr>"
  have st': "st' = snd (upsert RevocationUserClient (UserClientKey (token_UserID t) (token_ClientID t)) now
      (now + RevocationRetention) ?st1)"
    using rb by (simp add: RevokeBefore_def)
  show "tokens_of st' = upd_first (\<lambda>t. token_ID t = k) (\<lambda>t. t\<lparr>token_Revoked := True\<rparr>) (tokens_of st)"
    by (simp add: st' of_load(5) [OF ld])
  show "token_frame st st'"
    using rb unfolding RevokeBefore_def upsert_def token_frame_def
    by (auto simp: save_revocations_def writeFile_None split: sum.splits option.splits)
qed

definition revokeIf :: "(token \<Rightarrow> bool) \<Rightarrow> token \<Rightarrow> token" where
  "revokeIf p t = (if p t then t\<lparr>token_Revoked := True\<rparr> else t)"

lemma revokeIf_sel [simp]:
  "token_ID (revokeIf p t) = token_ID t" "token_UserID (revokeIf p t) = token_UserID t"
  "token_ClientID (revokeIf p t) = token_ClientID t" "token_ExpiresAt (revokeIf p t) = token_ExpiresAt t"
  "token_Scope (revokeIf p t) = token_Scope t" "token_Revoked (revokeIf p t) \<longleftrightarrow> p t \<or> token_Revoked t"
  by (simp_all add: revokeIf_def)

text \<open>The loop revokes exactly the listed live tokens of the client.\<close>

lemma revoke_loop_Ok:
  assumes "revoke_loop now c ts st = (None, st')" and "distinct (map token_ID (tokens_of st))"
  shows "tokens_of st' = map (revokeIf (\<lambda>t. \<exists>u \<in> set ts. token_ID u = token_ID t \<and> token_ClientID u = c \<and> \<not> token_Revoked u))
      (tokens_of st)"
    and "token_frame st st'"
  using assms
proof (induction now c ts st rule: revoke_loop.induct)
  case (1 now c st)
  {
    case 1
    then show ?case by (simp add: revokeIf_def)
  next
    case 2
    then show ?case by simp
  }
next
  case (2 now c t ts st)
  have step: "tokens_of st' = map (revokeIf (\<lambda>x. \<exists>u \<in> set (t # ts). token_ID u = token_ID x \<and> token_ClientID u = c \<and> \<not> token_Revoked u))
      (tokens_of st) \<and> token_frame st st'"
    if run: "revoke_loop now c (t # ts) st = (None, st')" and dist: "distinct (map token_ID (tokens_of st))"
  proof (cases "token_ClientID t \<noteq> c \<or> token_Revoked t")
    case True
    with 2(1,2) run dist show ?thesis by (auto simp: revokeIf_def)
  next
    case False
    then obtain st1 where rv: "tokens_Revoke now (token_ID t) st = (None, st1)" and lp: "revoke_loop now c ts st1 = (None, st')"
      using run by (auto split: prod.splits option.splits)
    have t1: "tokens_of st1 = map (revokeIf (\<lambda>x. token_ID x = token_ID t)) (tokens_of st)"
      using tokens_Revoke_Ok(1) [OF rv] upd_first_distinct [OF dist] by (simp add: revokeIf_def [abs_def])
    then have "distinct (map token_ID (tokens_of st1))" using dist by (simp add: comp_def)
    then have t2: "tokens_of st' = map (revokeIf (\<lambda>x. \<exists>u \<in> set ts. token_ID u = token_ID x \<and> token_ClientID u = c \<and> \<not> token_Revoked u)) (tokens_of st1)"
      and fr: "token_frame st1 st'"
      using 2(3,4) False rv lp by auto
    have "tokens_of st' = map (revokeIf (\<lambda>x. \<exists>u \<in> set (t # ts). token_ID u = token_ID x \<and> token_ClientID u = c \<and> \<not> token_Revoked u)) (tokens_of st)"
      unfolding t2 t1 using False by (auto simp: revokeIf_def)
    with fr tokens_Revoke_Ok(2) [OF rv] show ?thesis using token_frame_trans by blast
  qed
  {
    case 1
    then show ?case using step by blast
  next
    case 2
    then show ?case using step by blast
  }
qed

lemma RevokeBefore_tokens: "RevokeBefore k key nb st = (e, st') \<Longrightarrow> tokens_of st' = tokens_of st"
  using upsert_tokens [of k key nb "nb + RevocationRetention" st] by (simp add: RevokeBefore_def)

text \<open>
  After \<open>revokeGrant\<close> every unexpired refresh token of the user at the client is revoked and
  no other token is touched; every access token of the grant issued until now is revoked.
\<close>

lemma revokeGrant_Ok:
  assumes "revokeGrant now s u c st = (None, st')" and dist: "distinct (map token_ID (tokens_of st))"
  shows "tokens_of st' = map (revokeIf (\<lambda>t. token_UserID t = u \<and> token_ClientID t = c \<and> now < token_ExpiresAt t)) (tokens_of st)"
    and "ts_revocations s \<Longrightarrow> iat \<le> now \<Longrightarrow> revoked_in st' jti u c iat"
proof -
  obtain ts st1 where ls: "tokens_ListByUserID now u st = Inr ts" and lp: "revoke_loop now c ts st = (None, st1)"
    and fin: "if ts_revocations s then RevokeBefore RevocationUserClient (UserClientKey u c) now st1 = (None, st') else st' = st1"
    using assms(1) by (auto simp: revokeGrant_def split: sum.splits prod.splits option.splits if_splits)
  have ts: "set ts = {t \<in> set (tokens_of st). token_UserID t = u \<and> now < token_ExpiresAt t}"
    by (rule tokens_ListByUserID_set [OF ls])
  have "tokens_of st' = tokens_of st1" using fin by (auto dest: RevokeBefore_tokens split: if_splits)
  also have "\<dots> = map (revokeIf (\<lambda>t. \<exists>x \<in> set ts. token_ID x = token_ID t \<and> token_ClientID x = c \<and> \<not> token_Revoked x)) (tokens_of st)"
    by (rule revoke_loop_Ok [OF lp dist])
  also have "\<dots> = map (revokeIf (\<lambda>t. token_UserID t = u \<and> token_ClientID t = c \<and> now < token_ExpiresAt t)) (tokens_of st)"
  proof (rule map_cong [OF refl])
    fix t assume t: "t \<in> set (tokens_of st)"
    have "(\<exists>x \<in> set ts. token_ID x = token_ID t \<and> token_ClientID x = c \<and> \<not> token_Revoked x) \<longleftrightarrow>
        token_UserID t = u \<and> token_ClientID t = c \<and> now < token_ExpiresAt t \<and> \<not> token_Revoked t"
      using dist t by (auto simp: ts distinct_map inj_on_def)
    then show "revokeIf (\<lambda>t. \<exists>x \<in> set ts. token_ID x = token_ID t \<and> token_ClientID x = c \<and> \<not> token_Revoked x) t =
        revokeIf (\<lambda>t. token_UserID t = u \<and> token_ClientID t = c \<and> now < token_ExpiresAt t) t"
      by (cases t) (auto simp: revokeIf_def)
  qed
  finally show "tokens_of st' = map (revokeIf (\<lambda>t. token_UserID t = u \<and> token_ClientID t = c \<and> now < token_ExpiresAt t)) (tokens_of st)" .
  show "revoked_in st' jti u c iat" if "ts_revocations s" "iat \<le> now"
    using fin that revocations.user_client_revokes by simp
qed

text \<open>On a store that works it always gets there.\<close>

lemma tokens_Revoke_healthy:
  assumes "healthy st" and "k \<in> token_ID ` set (tokens_of st)"
  shows "\<exists>st'. tokens_Revoke now k st = (None, st') \<and> healthy st'"
proof -
  obtain t where t: "find (\<lambda>t. token_ID t = k) (tokens_of st) = Some t"
    using assms(2) lookup_by_None_iff [of token_ID "tokens_of st" k] by (cases "find (\<lambda>t. token_ID t = k) (tokens_of st)") (auto simp: lookup_by_def)
  let ?st1 = "st\<lparr>f_tokens := Content (upd_first (\<lambda>t. token_ID t = k) (\<lambda>t. t\<lparr>token_Revoked := True\<rparr>) (tokens_of st))\<rparr>"
  have h1: "healthy ?st1" using assms(1) by (simp add: healthy_update)
  obtain rs where "RevokeBefore RevocationUserClient (UserClientKey (token_UserID t) (token_ClientID t)) now ?st1
      = (None, ?st1\<lparr>f_revocations := Content rs\<rparr>)"
    using RevokeBefore_healthy [OF h1] by blast
  with assms(1) t h1 show ?thesis
    by (simp add: tokens_Revoke_def healthy_of save_healthy healthy_update)
qed

lemma revoke_loop_healthy:
  assumes "healthy st" and "set ts \<subseteq> {t. token_ID t \<in> token_ID ` set (tokens_of st)}"
  shows "\<exists>st'. revoke_loop now c ts st = (None, st') \<and> healthy st'"
  using assms
proof (induction now c ts st rule: revoke_loop.induct)
  case (1 now c st)
  then show ?case by simp
next
  case (2 now c t ts st)
  show ?case
  proof (cases "token_ClientID t \<noteq> c \<or> token_Revoked t")
    case True
    with 2 show ?thesis by auto
  next
    case False
    obtain st1 where rv: "tokens_Revoke now (token_ID t) st = (None, st1)" and h: "healthy st1"
      using tokens_Revoke_healthy [OF 2(3), of "token_ID t" now] 2(4) by auto
    have "token_ID ` set (tokens_of st1) = token_ID ` set (tokens_of st)"
      unfolding tokens_Revoke_Ok(1) [OF rv] set_map [symmetric] by (subst map_upd_first) simp_all
    then have "\<exists>st'. revoke_loop now c ts st1 = (None, st') \<and> healthy st'"
      using 2(2) False rv h 2(4) by auto
    with False rv show ?thesis by auto
  qed
qed

lemma revokeGrant_healthy:
  assumes "healthy st"
  shows "\<exists>st'. revokeGrant now s u c st = (None, st') \<and> healthy st'"
proof -
  obtain ts where ls: "tokens_ListByUserID now u st = Inr ts"
    using assms by (simp add: tokens_ListByUserID_def healthy_of)
  have "set ts \<subseteq> {t. token_ID t \<in> token_ID ` set (tokens_of st)}"
    using tokens_ListByUserID_set [OF ls] by auto
  then obtain st1 where lp: "revoke_loop now c ts st = (None, st1)" and h: "healthy st1"
    using revoke_loop_healthy [OF assms] by blast
  obtain rs where "RevokeBefore RevocationUserClient (UserClientKey u c) now st1 = (None, st1\<lparr>f_revocations := Content rs\<rparr>)"
    using RevokeBefore_healthy [OF h] by blast
  with ls lp h show ?thesis by (simp add: revokeGrant_def healthy_update)
qed

end
