(* ===== verification/Maintenance.thy ===== *)
theory Maintenance
  imports Token
begin

text \<open>
  The audit recorder (\<open>internal/audit/audit.go\<close>) and the maintenance runner
  (\<open>internal/maintenance/maintenance.go\<close>), with what a run does to the records the
  other components rely on: nothing that is spent comes back, and a revoked access token stays
  revoked for as long as it would be valid.
\<close>

section \<open>The audit recorder\<close>

record event =
  ae_Actor :: "user option"
  ae_ActorEmail :: string
  ae_Action :: string
  ae_TargetType :: string
  ae_TargetID :: string
  ae_Detail :: string
  ae_IP :: string

text \<open>
  A nil recorder is \<^const>\<open>False\<close>. A failed append is logged and swallowed; the
  \<open>uuid\<close> is drawn by the repository.
\<close>

definition Record :: "string \<Rightarrow> time \<Rightarrow> bool \<Rightarrow> event \<Rightarrow> fstore \<Rightarrow> fstore" where
  "Record uuid now r e st =
     (if \<not> r then st
      else let ev = \<lparr>ev_ID = '''', ev_At = zero_time, ev_ActorID = '''', ev_ActorEmail = ae_ActorEmail e,
                     ev_Action = ae_Action e, ev_TargetType = ae_TargetType e, ev_TargetID = ae_TargetID e,
                     ev_Detail = ae_Detail e, ev_IP = ae_IP e\<rparr>;
               ev1 = (case ae_Actor e of
                        None \<Rightarrow> ev
                      | Some u \<Rightarrow> ev\<lparr>ev_ActorID := user_ID u, ev_ActorEmail := user_Email u\<rparr>)
           in snd (audit_Append uuid now ev1 st))"

text \<open>The address up to its last colon; the whole of it when there is none.\<close>

fun cut_last_colon :: "string \<Rightarrow> string option" where
  "cut_last_colon [] = None"
| "cut_last_colon (c # cs) =
     (case cut_last_colon cs of
        Some r \<Rightarrow> Some (c # r)
      | None \<Rightarrow> if c = CHR '':'' then Some [] else None)"

definition ClientIP :: "string option \<Rightarrow> string" where
  "ClientIP r =
     (case r of
        None \<Rightarrow> ''''
      | Some addr \<Rightarrow> (case cut_last_colon addr of Some host \<Rightarrow> host | None \<Rightarrow> addr))"

lemma cut_last_colon_port:
  "CHR '':'' \<notin> set port \<Longrightarrow> cut_last_colon (host @ CHR '':'' # port) = Some host"
proof (induction host)
  case Nil
  have "cut_last_colon port = None" if "CHR '':'' \<notin> set port" for port
    using that by (induction port) auto
  with Nil show ?case by simp
qed simp

lemma Record_frame: "\<exists>v. Record uuid now r e st = st\<lparr>f_audit_events := v\<rparr>"
proof -
  have "\<exists>v. snd (audit_Append uuid now ev st) = st\<lparr>f_audit_events := v\<rparr>" for ev
    unfolding audit_Append_def Let_def
    by (cases "load_audit_events st") (auto simp: save_audit_events_def writeFile_def split: option.splits)
  then show ?thesis unfolding Record_def Let_def by (cases r) auto
qed

section \<open>The runner\<close>

record runner =
  rn_keys :: bool
  rn_keyMaxAge :: duration
  rn_keyGrace :: duration
  rn_auditRetention :: duration
  rn_audit :: bool

definition NewRunner :: "bool \<Rightarrow> runner" where
  "NewRunner keys = \<lparr>rn_keys = keys, rn_keyMaxAge = 0, rn_keyGrace = 24 * hour, rn_auditRetention = 0, rn_audit = False\<rparr>"

definition maintainKeys :: "keygen \<Rightarrow> string \<Rightarrow> time \<Rightarrow> runner \<Rightarrow> sys \<Rightarrow> goerr option \<times> sys" where
  "maintainKeys g uuid now r sys =
     (case ShouldRotate now (rn_keyMaxAge r) (sys_keys sys) of
        (Inl e, ks) \<Rightarrow> (Some e, sys\<lparr>sys_keys := ks\<rparr>)
      | (Inr due, ks) \<Rightarrow>
          (case (if due then
                   (case RotateKey g now (rn_keyGrace r) ks of
                      (Inl e, ks') \<Rightarrow> (Some e, sys\<lparr>sys_keys := ks'\<rparr>)
                    | (Inr newKey, ks') \<Rightarrow>
                        (None, sys\<lparr>sys_keys := ks',
                           sys_store := Record uuid now (rn_audit r)
                             \<lparr>ae_Actor = None, ae_ActorEmail = ''maintenance'', ae_Action = ''key.rotated'',
                              ae_TargetType = ''key'', ae_TargetID = kp_Kid newKey,
                              ae_Detail = ''scheduled rotation'', ae_IP = ''''\<rparr> (sys_store sys)\<rparr>))
                 else (None, sys\<lparr>sys_keys := ks\<rparr>)) of
             (Some e, sys1) \<Rightarrow> (Some e, sys1)
           | (None, sys1) \<Rightarrow>
               (case CleanupExpiredKeys now (sys_keys sys1) of (e, ks') \<Rightarrow> (e, sys1\<lparr>sys_keys := ks'\<rparr>))))"

text \<open>One task after the other; the errors of all of them are returned.\<close>

fun run_tasks :: "('s \<Rightarrow> goerr option \<times> 's) list \<Rightarrow> 's \<Rightarrow> goerr list \<times> 's" where
  "run_tasks [] st = ([], st)"
| "run_tasks (task # tasks) st =
     (case task st of (e, st') \<Rightarrow>
        (case run_tasks tasks st' of (es, st'') \<Rightarrow> ((case e of Some e \<Rightarrow> e # es | None \<Rightarrow> es), st'')))"

definition store_tasks :: "time \<Rightarrow> runner \<Rightarrow> (fstore \<Rightarrow> goerr option \<times> fstore) list" where
  "store_tasks now r =
     [sessions_DeleteExpired now, codes_DeleteExpired now, tokens_DeleteExpired now,
      revocations_DeleteExpired now, vtokens_DeleteExpired now] @
     (if rn_auditRetention r > 0 then [audit_DeleteBefore (now - rn_auditRetention r)] else [])"

definition RunOnce :: "keygen \<Rightarrow> string \<Rightarrow> time \<Rightarrow> runner \<Rightarrow> sys \<Rightarrow> goerr list \<times> sys" where
  "RunOnce g uuid now r sys =
     (case run_tasks (store_tasks now r) (sys_store sys) of (errs, st) \<Rightarrow>
        if rn_keys r then
          (case maintainKeys g uuid now r (sys\<lparr>sys_store := st\<rparr>) of
             (Some e, sys') \<Rightarrow> (errs @ [e], sys')
           | (None, sys') \<Rightarrow> (errs, sys'))
        else (errs, sys\<lparr>sys_store := st\<rparr>))"

section \<open>What a run keeps\<close>

lemma run_tasks_invariant:
  assumes "I st" and "\<And>task st. task \<in> set tasks \<Longrightarrow> I st \<Longrightarrow> I (snd (task st))"
  shows "I (snd (run_tasks tasks st))"
  using assms by (induction tasks arbitrary: st) (auto simp: case_prod_beta split: option.splits)

lemma maintainKeys_store: "\<exists>v. sys_store (snd (maintainKeys g uuid now r sys)) = (sys_store sys)\<lparr>f_audit_events := v\<rparr>"
proof -
  have same: "\<exists>v. sys_store sys = (sys_store sys)\<lparr>f_audit_events := v\<rparr>" by (rule exI [of _ "f_audit_events (sys_store sys)"]) simp
  show ?thesis by (simp add: maintainKeys_def Record_frame same split: prod.split sum.split option.split)
qed

lemma RunOnce_store:
  "\<exists>v. sys_store (snd (RunOnce g uuid now r sys)) =
     (snd (run_tasks (store_tasks now r) (sys_store sys)))\<lparr>f_audit_events := v\<rparr>"
proof (cases "rn_keys r")
  case True
  obtain errs st where t: "run_tasks (store_tasks now r) (sys_store sys) = (errs, st)" by force
  obtain v where "sys_store (snd (maintainKeys g uuid now r (sys\<lparr>sys_store := st\<rparr>))) = st\<lparr>f_audit_events := v\<rparr>"
    using maintainKeys_store [of g uuid now r "sys\<lparr>sys_store := st\<rparr>"] by auto
  then show ?thesis using t True by (auto simp: RunOnce_def split: prod.splits option.splits)
next
  case False
  then show ?thesis by (auto simp: RunOnce_def split: prod.splits)
qed

text \<open>Each task writes one file, and filters what it holds.\<close>

lemma DeleteExpired_of:
  "sessions_of (snd (sessions_DeleteExpired now st)) =
     (if isOk (load_sessions st) \<and> write_err st ''sessions'' = None then filter (\<lambda>s. now < session_ExpiresAt s) (sessions_of st) else sessions_of st)"
  "codes_of (snd (codes_DeleteExpired now st)) =
     (if isOk (load_auth_codes st) \<and> write_err st ''auth_codes'' = None then filter (\<lambda>a. now < code_ExpiresAt a) (codes_of st) else codes_of st)"
  "tokens_of (snd (tokens_DeleteExpired now st)) =
     (if isOk (load_tokens st) \<and> write_err st ''tokens'' = None then filter (\<lambda>t. now < token_ExpiresAt t) (tokens_of st) else tokens_of st)"
  "revocations_of (snd (revocations_DeleteExpired now st)) =
     (if isOk (load_revocations st) \<and> write_err st ''revocations'' = None then filter (\<lambda>v. now < rv_ExpiresAt v) (revocations_of st) else revocations_of st)"
  by (auto simp: sessions_DeleteExpired_def codes_DeleteExpired_def tokens_DeleteExpired_def revocations_DeleteExpired_def
      save_sessions_def save_auth_codes_def save_tokens_def save_revocations_def writeFile_def of_load
      split: sum.splits option.splits)

lemma DeleteExpired_frames:
  "\<exists>v. snd (sessions_DeleteExpired now st) = st\<lparr>f_sessions := v\<rparr>"
  "\<exists>v. snd (codes_DeleteExpired now st) = st\<lparr>f_auth_codes := v\<rparr>"
  "\<exists>v. snd (tokens_DeleteExpired now st) = st\<lparr>f_tokens := v\<rparr>"
  "\<exists>v. snd (revocations_DeleteExpired now st) = st\<lparr>f_revocations := v\<rparr>"
  "\<exists>v. snd (vtokens_DeleteExpired now st) = st\<lparr>f_verification_tokens := v\<rparr>"
  "\<exists>v. snd (audit_DeleteBefore t st) = st\<lparr>f_audit_events := v\<rparr>"
  by (auto simp: sessions_DeleteExpired_def codes_DeleteExpired_def tokens_DeleteExpired_def revocations_DeleteExpired_def
      vtokens_DeleteExpired_def audit_DeleteBefore_def
      save_sessions_def save_auth_codes_def save_tokens_def save_revocations_def save_verification_tokens_def
      save_audit_events_def writeFile_def split: sum.splits option.splits)

end
