(* ===== verification/Server.thy ===== *)
theory Server
  imports TokenGrants Maintenance
begin

text \<open>
  The token endpoints and the maintenance run together, as any sequence of calls: a state
  machine over the store and the key service. Codes and refresh tokens are good for one
  success in every such sequence.
\<close>

section \<open>Calls\<close>

datatype call =
    CallCode entropy time token_request
  | CallRefresh entropy time token_request
  | CallRevoke "string res" time token_query
  | CallIntrospect "string res" time token_query
  | CallMaintenance keygen string time runner
  | CallAuthCode string time duration authorize_request string time "string list"

datatype reply =
    Tokens "token_response res"
  | Revoked "goerr option"
  | Report "introspection_response res"
  | Errors "goerr list"
  | NewCode "auth_code res"

fun serve :: "platform \<Rightarrow> jwtlib \<Rightarrow> token_service \<Rightarrow> call \<Rightarrow> sys \<Rightarrow> reply \<times> sys" where
  "serve P J s (CallCode ent now req) sys = apfst Tokens (HandleAuthorizationCode P J ent now s req sys)"
| "serve P J s (CallRefresh ent now req) sys = apfst Tokens (HandleRefreshToken P J ent now s req sys)"
| "serve P J s (CallRevoke salt now req) sys = apfst Revoked (HandleRevocation P J salt now s req sys)"
| "serve P J s (CallIntrospect salt now req) sys = apfst Report (HandleIntrospection P J salt now s req sys)"
| "serve P J s (CallMaintenance g uuid now r) sys = apfst Errors (RunOnce g uuid now r sys)"
| "serve P J s (CallAuthCode uuid now ttl req u at amr) sys =
     (case CreateAuthCode uuid now ttl req u at amr (sys_store sys) of (r, st) \<Rightarrow> (NewCode r, sys\<lparr>sys_store := st\<rparr>))"

fun serve_all :: "platform \<Rightarrow> jwtlib \<Rightarrow> token_service \<Rightarrow> call list \<Rightarrow> sys \<Rightarrow> (call \<times> reply) list \<times> sys" where
  "serve_all P J s [] sys = ([], sys)"
| "serve_all P J s (c # cs) sys =
     (case serve P J s c sys of (r, sys1) \<Rightarrow>
        (case serve_all P J s cs sys1 of (tr, sys2) \<Rightarrow> ((c, r) # tr, sys2)))"

text \<open>One call is a step; a run is a path of such steps.\<close>

definition serve_step :: "platform \<Rightarrow> jwtlib \<Rightarrow> token_service \<Rightarrow> sys \<Rightarrow> call \<times> reply \<Rightarrow> sys \<Rightarrow> bool" where
  "serve_step P J s sys e sys' \<longleftrightarrow> serve P J s (fst e) sys = (snd e, sys')"

abbreviation steps :: "platform \<Rightarrow> jwtlib \<Rightarrow> token_service \<Rightarrow> sys \<Rightarrow> (call \<times> reply) list \<Rightarrow> sys \<Rightarrow> bool" where
  "steps P J s \<equiv> path (serve_step P J s)"

lemma serve_all_steps: "steps P J s sys (fst (serve_all P J s cs sys)) (snd (serve_all P J s cs sys))"
proof (induction cs arbitrary: sys)
  case (Cons c cs)
  obtain r sys1 where c: "serve P J s c sys = (r, sys1)" by force
  then have "steps P J s sys [(c, r)] sys1" by (simp add: path_single serve_step_def)
  from path_append [OF Cons.IH this] c show ?case by (simp add: case_prod_beta)
qed (simp add: path_Nil)

section \<open>What every call leaves alone\<close>

abbreviation codes_tame :: "string \<Rightarrow> fstore \<Rightarrow> fstore \<Rightarrow> bool" where
  "codes_tame k st st' \<equiv> tame code_Code code_Used k (codes_of st) (codes_of st')"

abbreviation tokens_tame :: "string \<Rightarrow> fstore \<Rightarrow> fstore \<Rightarrow> bool" where
  "tokens_tame k st st' \<equiv> tame token_ID token_Revoked k (tokens_of st) (tokens_of st')"

lemma tokens_Revoke_tame: "codes_tame k st (snd (tokens_Revoke now i st))" "tokens_tame k st (snd (tokens_Revoke now i st))"
proof -
  have rb: "codes_of (snd (RevokeBefore kd key nb st)) = codes_of st" "tokens_of (snd (RevokeBefore kd key nb st)) = tokens_of st"
    for kd key nb st
    by (auto simp: RevokeBefore_def upsert_def save_revocations_def writeFile_def split: sum.splits option.splits)
  show "codes_tame k st (snd (tokens_Revoke now i st))"
    by (auto simp: tokens_Revoke_def save_tokens_def writeFile_def rb split: sum.splits option.splits prod.splits)
  have "tame token_ID token_Revoked k ts (upd_first (\<lambda>t. token_ID t = i) (\<lambda>t. t\<lparr>token_Revoked := True\<rparr>) ts)" for ts
    by (rule tame_upd_first) simp_all
  then show "tokens_tame k st (snd (tokens_Revoke now i st))"
    by (auto simp: tokens_Revoke_def save_tokens_def writeFile_def rb of_load split: sum.splits option.splits prod.splits)
qed

lemma revoke_loop_tame:
  "codes_tame k st (snd (revoke_loop now c ts st)) \<and> tokens_tame k st (snd (revoke_loop now c ts st))"
proof (induction now c ts st rule: revoke_loop.induct)
  case (2 now c t ts st)
  show ?case
  proof (cases "token_ClientID t \<noteq> c \<or> token_Revoked t")
    case True
    with 2 show ?thesis by auto
  next
    case False
    obtain e st1 where rv: "tokens_Revoke now (token_ID t) st = (e, st1)" by force
    then have "codes_tame k st st1" "tokens_tame k st st1"
      using tokens_Revoke_tame [of k st now "token_ID t"] by simp_all
    with 2(2) [OF False rv [symmetric]] False rv show ?thesis
      by (cases e) (auto intro: tame_trans)
  qed
qed simp

lemma RevokeBefore_of:
  "codes_of (snd (RevokeBefore kd key nb st)) = codes_of st"
  "tokens_of (snd (RevokeBefore kd key nb st)) = tokens_of st"
  "codes_of (snd (RevokeAccessToken now jti xp st)) = codes_of st"
  "tokens_of (snd (RevokeAccessToken now jti xp st)) = tokens_of st"
  by (auto simp: RevokeBefore_def RevokeAccessToken_def upsert_def save_revocations_def writeFile_def
      split: sum.splits option.splits)

lemma revokeGrant_tame:
  "codes_tame k st (snd (revokeGrant now s u c st)) \<and> tokens_tame k st (snd (revokeGrant now s u c st))"
proof (cases "tokens_ListByUserID now u st")
  case (Inl e)
  then show ?thesis by (simp add: revokeGrant_def)
next
  case (Inr ts)
  obtain e st1 where lp: "revoke_loop now c ts st = (e, st1)" by force
  with revoke_loop_tame [of k st now c ts] Inr show ?thesis
    by (cases e) (auto simp: revokeGrant_def RevokeBefore_of)
qed

lemma cutOff_tame:
  "codes_tame k st (snd (cutOff now s f m u c st)) \<and> tokens_tame k st (snd (cutOff now s f m u c st))"
proof -
  obtain e st1 where "revokeGrant now s u c st = (e, st1)" by force
  with revokeGrant_tame [of k st now s u c] show ?thesis by (cases e) (auto simp: cutOff_def)
qed

lemma codes_MarkUsed_tame: "codes_tame k st (snd (codes_MarkUsed c st))" "tokens_of (snd (codes_MarkUsed c st)) = tokens_of st"
proof -
  have "tame code_Code code_Used k acs (upd_first (\<lambda>a. code_Code a = c) (\<lambda>a. a\<lparr>code_Used := True\<rparr>) acs)" for acs
    by (rule tame_upd_first) simp_all
  then show "codes_tame k st (snd (codes_MarkUsed c st))"
    by (auto simp: codes_MarkUsed_def save_auth_codes_def writeFile_def of_load split: sum.splits option.splits)
  show "tokens_of (snd (codes_MarkUsed c st)) = tokens_of st"
    by (auto simp: codes_MarkUsed_def save_auth_codes_def writeFile_def split: sum.splits option.splits)
qed

lemma tokens_Rotate_tame: "tokens_tame k st (snd (tokens_Rotate i st))" "codes_of (snd (tokens_Rotate i st)) = codes_of st"
proof -
  have "tame token_ID token_Revoked k ts (upd_first (\<lambda>t. token_ID t = i) (\<lambda>t. t\<lparr>token_Revoked := True\<rparr>) ts)" for ts
    by (rule tame_upd_first) simp_all
  then show "tokens_tame k st (snd (tokens_Rotate i st))"
    by (auto simp: tokens_Rotate_def save_tokens_def writeFile_def of_load split: sum.splits option.splits)
  show "codes_of (snd (tokens_Rotate i st)) = codes_of st"
    by (auto simp: tokens_Rotate_def save_tokens_def writeFile_def split: sum.splits option.splits)
qed

lemma consumeCode_tame:
  "codes_tame k st (snd (consumeCode P now s req st)) \<and> tokens_tame k st (snd (consumeCode P now s req st))"
proof (cases "codes_GetByCode (rq_Code req) st")
  case (Inl e)
  then show ?thesis by (simp add: consumeCode_def)
next
  case (Inr a)
  obtain e st1 where mk: "codes_MarkUsed (rq_Code req) st = (e, st1)" by force
  have t1: "codes_tame k st st1" "tokens_of st1 = tokens_of st"
    using codes_MarkUsed_tame(1) [of k st "rq_Code req"] codes_MarkUsed_tame(2) [of "rq_Code req" st] mk by simp_all
  have "codes_tame k st (snd (cutOff now s f m u c st1)) \<and> tokens_tame k st (snd (cutOff now s f m u c st1))" for f m u c
    using cutOff_tame [of k st1 now s f m u c] t1 by (auto intro: tame_trans)
  with Inr mk t1 cutOff_tame [of k st now s] show ?thesis
    by (auto simp: consumeCode_def Let_def case_prod_beta split: option.splits)
qed

lemma consumeRefresh_tame:
  "codes_tame k st (snd (consumeRefresh now s req st)) \<and> tokens_tame k st (snd (consumeRefresh now s req st))"
proof (cases "tokens_GetByID (rq_RefreshToken req) st")
  case (Inl e)
  then show ?thesis by (simp add: consumeRefresh_def)
next
  case (Inr a)
  obtain e st1 where mk: "tokens_Rotate (rq_RefreshToken req) st = (e, st1)" by force
  have t1: "tokens_tame k st st1" "codes_of st1 = codes_of st"
    using tokens_Rotate_tame(1) [of k st "rq_RefreshToken req"] tokens_Rotate_tame(2) [of "rq_RefreshToken req" st] mk by simp_all
  have "codes_tame k st (snd (cutOff now s f m u c st1)) \<and> tokens_tame k st (snd (cutOff now s f m u c st1))" for f m u c
    using cutOff_tame [of k st1 now s f m u c] t1 by (auto intro: tame_trans)
  with Inr mk t1 cutOff_tame [of k st now s] show ?thesis
    by (auto simp: consumeRefresh_def Let_def case_prod_beta split: option.splits sum.splits)
qed

lemma clientForGrant_of:
  "codes_of (snd (clientForGrant P salt now g req st)) = codes_of st"
  "tokens_of (snd (clientForGrant P salt now g req st)) = tokens_of st"
  "users_of (snd (clientForGrant P salt now g req st)) = users_of st"
  "load_users (snd (clientForGrant P salt now g req st)) = load_users st"
proof -
  obtain v where "snd (clientForGrant P salt now g req st) = st\<lparr>f_clients := v\<rparr>"
    using clientForGrant_frame by blast
  then show "codes_of (snd (clientForGrant P salt now g req st)) = codes_of st"
    "tokens_of (snd (clientForGrant P salt now g req st)) = tokens_of st"
    "users_of (snd (clientForGrant P salt now g req st)) = users_of st"
    "load_users (snd (clientForGrant P salt now g req st)) = load_users st" by simp_all
qed

lemma authenticateClient_of:
  assumes "authenticateClient P salt now c secret st = (ok, c', st')"
  shows "codes_of st' = codes_of st" and "tokens_of st' = tokens_of st" and "revocations_of st' = revocations_of st"
  using authenticateClient_spec(3) [OF assms] by auto

lemma generateTokens_tame:
  assumes "ent_refreshID ent \<noteq> k"
  shows "codes_of (sys_store (snd (generateTokens P J ent now s u c sc n at amr sys))) = codes_of (sys_store sys)"
    and "tokens_tame k (sys_store sys) (sys_store (snd (generateTokens P J ent now s u c sc n at amr sys)))"
proof -
  obtain r sys' where g: "generateTokens P J ent now s u c sc n at amr sys = (r, sys')" by force
  have "token_ID (newRefreshToken ent now s u c sc) \<noteq> k" using assms by (simp add: newRefreshToken_def)
  then show "codes_of (sys_store (snd (generateTokens P J ent now s u c sc n at amr sys))) = codes_of (sys_store sys)"
    and "tokens_tame k (sys_store sys) (sys_store (snd (generateTokens P J ent now s u c sc n at amr sys)))"
    using generateTokens_cases(1) [OF g] g by (auto intro: tame_snoc)
qed

lemma generateTokens_codes:
  "codes_of (sys_store (snd (generateTokens P J ent now s u c sc n at amr sys))) = codes_of (sys_store sys)"
proof -
  obtain k where "ent_refreshID ent \<noteq> k" by (metis list.distinct(1))
  then show ?thesis by (rule generateTokens_tame)
qed

lemma HandleAuthorizationCode_tame:
  "codes_tame k (sys_store sys) (sys_store (snd (HandleAuthorizationCode P J ent now s req sys)))"
  "ent_refreshID ent \<noteq> k \<Longrightarrow> tokens_tame k (sys_store sys) (sys_store (snd (HandleAuthorizationCode P J ent now s req sys)))"
proof -
  obtain rc st1 where c: "clientForGrant P (ent_salt ent) now ''authorization_code'' req (sys_store sys) = (rc, st1)" by force
  have c1: "codes_of st1 = codes_of (sys_store sys)" "tokens_of st1 = tokens_of (sys_store sys)"
    using clientForGrant_of(1,2) [of P "ent_salt ent" now "''authorization_code''" req "sys_store sys"] c by simp_all
  obtain ra st2 where a: "consumeCode P now s req st1 = (ra, st2)" by force
  have c2: "codes_tame k (sys_store sys) st2" "tokens_tame k (sys_store sys) st2"
    using consumeCode_tame [of k st1 P now s req] a c1 by auto
  note d = HandleAuthorizationCode_def c a c1 c2
  show "codes_tame k (sys_store sys) (sys_store (snd (HandleAuthorizationCode P J ent now s req sys)))"
    by (simp add: d generateTokens_codes split: sum.split)
  show "tokens_tame k (sys_store sys) (sys_store (snd (HandleAuthorizationCode P J ent now s req sys)))"
    if "ent_refreshID ent \<noteq> k"
  proof -
    have "tokens_tame k (sys_store sys) (sys_store (snd (generateTokens P J ent now s u cl sc n at amr (sys\<lparr>sys_store := st2\<rparr>))))"
      for u cl sc n at amr
      using generateTokens_tame(2) [OF that, of "sys\<lparr>sys_store := st2\<rparr>"] c2(2) by (auto intro: tame_trans)
    then show ?thesis by (simp add: d split: sum.split)
  qed
qed

lemma HandleRefreshToken_tame:
  "codes_tame k (sys_store sys) (sys_store (snd (HandleRefreshToken P J ent now s req sys)))"
  "ent_refreshID ent \<noteq> k \<Longrightarrow> tokens_tame k (sys_store sys) (sys_store (snd (HandleRefreshToken P J ent now s req sys)))"
proof -
  obtain rc st1 where c: "clientForGrant P (ent_salt ent) now ''refresh_token'' req (sys_store sys) = (rc, st1)" by force
  have c1: "codes_of st1 = codes_of (sys_store sys)" "tokens_of st1 = tokens_of (sys_store sys)"
    using clientForGrant_of(1,2) [of P "ent_salt ent" now "''refresh_token''" req "sys_store sys"] c by simp_all
  obtain ra st2 where a: "consumeRefresh now s req st1 = (ra, st2)" by force
  have c2: "codes_tame k (sys_store sys) st2" "tokens_tame k (sys_store sys) st2"
    using consumeRefresh_tame [of k st1 now s req] a c1 by auto
  note d = HandleRefreshToken_def c a c1 c2
  show "codes_tame k (sys_store sys) (sys_store (snd (HandleRefreshToken P J ent now s req sys)))"
    by (simp add: d generateTokens_codes split: sum.split prod.split)
  show "tokens_tame k (sys_store sys) (sys_store (snd (HandleRefreshToken P J ent now s req sys)))"
    if "ent_refreshID ent \<noteq> k"
  proof -
    have "tokens_tame k (sys_store sys) (sys_store (snd (generateTokens P J ent now s u cl sc n at amr (sys\<lparr>sys_store := st2\<rparr>))))"
      for u cl sc n at amr
      using generateTokens_tame(2) [OF that, of "sys\<lparr>sys_store := st2\<rparr>"] c2(2) by (auto intro: tame_trans)
    then show ?thesis by (simp add: d split: sum.split prod.split)
  qed
qed

lemma HandleRevocation_tame:
  "codes_tame k (sys_store sys) (sys_store (snd (HandleRevocation P J salt now s req sys)))
   \<and> tokens_tame k (sys_store sys) (sys_store (snd (HandleRevocation P J salt now s req sys)))"
proof (cases "clients_GetByID (tq_ClientID req) (sys_store sys)")
  case (Inl e)
  then show ?thesis by (simp add: HandleRevocation_def)
next
  case (Inr c)
  obtain ok c' st1 where a: "authenticateClient P salt now c (tq_ClientSecret req) (sys_store sys) = (ok, c', st1)"
    by (metis prod_cases3)
  note c1 = authenticateClient_of [OF a]
  have "codes_tame k (sys_store sys) (snd (tokens_Revoke now i st1)) \<and> tokens_tame k (sys_store sys) (snd (tokens_Revoke now i st1))" for i
    using tokens_Revoke_tame [of k st1 now i] c1 by simp
  with Inr a c1 RevokeBefore_of(3,4) [of now _ _ st1] show ?thesis
    by (auto simp: HandleRevocation_def case_prod_beta split: bool.splits sum.splits option.splits)
qed

lemma introspect_store: "\<exists>v. sys_store (snd (HandleIntrospection P J salt now s req sys)) = (sys_store sys)\<lparr>f_clients := v\<rparr>"
proof (cases "clients_GetByID (tq_ClientID req) (sys_store sys)")
  case (Inl e)
  then show ?thesis by (auto simp: HandleIntrospection_def introspect_def)
next
  case (Inr c)
  obtain ok c' st1 where a: "authenticateClient P salt now c (tq_ClientSecret req) (sys_store sys) = (ok, c', st1)"
    by (metis prod_cases3)
  from authenticateClient_spec(3) [OF a] Inr a show ?thesis
    by (auto simp: HandleIntrospection_def introspect_def split: bool.splits)
qed

lemma introspect_of:
  "codes_of (sys_store (snd (HandleIntrospection P J salt now s req sys))) = codes_of (sys_store sys)"
  "tokens_of (sys_store (snd (HandleIntrospection P J salt now s req sys))) = tokens_of (sys_store sys)"
proof -
  obtain v where "sys_store (snd (HandleIntrospection P J salt now s req sys)) = (sys_store sys)\<lparr>f_clients := v\<rparr>"
    using introspect_store by blast
  then show "codes_of (sys_store (snd (HandleIntrospection P J salt now s req sys))) = codes_of (sys_store sys)"
    "tokens_of (sys_store (snd (HandleIntrospection P J salt now s req sys))) = tokens_of (sys_store sys)" by simp_all
qed

lemma store_tasks_tame:
  "codes_tame k st (snd (run_tasks (store_tasks now r) st)) \<and> tokens_tame k st (snd (run_tasks (store_tasks now r) st))"
proof (rule run_tasks_invariant [where I = "\<lambda>st'. codes_tame k st st' \<and> tokens_tame k st st'"])
  fix task st' assume task: "task \<in> set (store_tasks now r)" and I: "codes_tame k st st' \<and> tokens_tame k st st'"
  have "codes_tame k st' (snd (task st')) \<and> tokens_tame k st' (snd (task st'))"
  proof -
    have "codes_tame k st' (snd (codes_DeleteExpired now st'))" "tokens_tame k st' (snd (tokens_DeleteExpired now st'))"
      by (simp_all add: DeleteExpired_of tame_filter)
    moreover obtain v1 v2 v3 v4 v5 v6 where
      "snd (sessions_DeleteExpired now st') = st'\<lparr>f_sessions := v1\<rparr>" "snd (codes_DeleteExpired now st') = st'\<lparr>f_auth_codes := v2\<rparr>"
      "snd (tokens_DeleteExpired now st') = st'\<lparr>f_tokens := v3\<rparr>" "snd (revocations_DeleteExpired now st') = st'\<lparr>f_revocations := v4\<rparr>"
      "snd (vtokens_DeleteExpired now st') = st'\<lparr>f_verification_tokens := v5\<rparr>"
      "snd (audit_DeleteBefore (now - rn_auditRetention r) st') = st'\<lparr>f_audit_events := v6\<rparr>"
      using DeleteExpired_frames by metis
    ultimately show ?thesis using task by (auto simp: store_tasks_def split: if_splits)
  qed
  with I show "codes_tame k st (snd (task st')) \<and> tokens_tame k st (snd (task st'))" by (auto intro: tame_trans)
qed simp

lemma RunOnce_tame:
  "codes_tame k (sys_store sys) (sys_store (snd (RunOnce g uuid now r sys)))
   \<and> tokens_tame k (sys_store sys) (sys_store (snd (RunOnce g uuid now r sys)))"
proof -
  obtain v where "sys_store (snd (RunOnce g uuid now r sys)) =
      (snd (run_tasks (store_tasks now r) (sys_store sys)))\<lparr>f_audit_events := v\<rparr>"
    using RunOnce_store by blast
  then show ?thesis using store_tasks_tame [of k "sys_store sys" now r] by simp
qed

text \<open>A call that draws \<open>k\<close> as the identifier of a new refresh token.\<close>

text \<open>The creation of a code appends it, or does nothing.\<close>

lemma CreateAuthCode_store:
  "snd (CreateAuthCode uuid now ttl req u at amr st) = st
   \<or> (\<exists>a. code_Code a = uuid \<and> snd (CreateAuthCode uuid now ttl req u at amr st) =
          st\<lparr>f_auth_codes := Content (codes_of st @ [a])\<rparr>)"
  by (simp add: CreateAuthCode_def codes_Create_def save_auth_codes_def writeFile_def Let_def
      split: sum.split option.split) (auto simp: of_load intro: exI [of _ "\<lparr>code_Code = uuid, code_ClientID = _, code_UserID = _,
        code_RedirectURI = _, code_Scope = _, code_CodeChallenge = _, code_CodeChallengeMethod = _, code_Nonce = _,
        code_AuthTime = _, code_AMR = _, code_CreatedAt = _, code_ExpiresAt = _, code_Used = _\<rparr>"])

lemma CreateAuthCode_tame:
  "uuid \<noteq> k \<Longrightarrow> codes_tame k st (snd (CreateAuthCode uuid now ttl req u at amr st))"
  "tokens_of (snd (CreateAuthCode uuid now ttl req u at amr st)) = tokens_of st"
  using CreateAuthCode_store [of uuid now ttl req u at amr st] by (auto simp: tame_snoc)

text \<open>A call that draws \<open>k\<close> as the value of a new authorization code.\<close>

fun draws_code :: "call \<Rightarrow> string \<Rightarrow> bool" where
  "draws_code (CallAuthCode uuid now ttl req u at amr) k = (uuid = k)"
| "draws_code _ k = False"

fun draws :: "call \<Rightarrow> string \<Rightarrow> bool" where
  "draws (CallCode ent now req) k = (ent_refreshID ent = k)"
| "draws (CallRefresh ent now req) k = (ent_refreshID ent = k)"
| "draws _ k = False"

lemma serve_tame:
  assumes "serve P J s c sys = (r, sys')"
  shows "\<not> draws_code c k \<Longrightarrow> codes_tame k (sys_store sys) (sys_store sys')"
    and "\<not> draws c k \<Longrightarrow> tokens_tame k (sys_store sys) (sys_store sys')"
proof -
  have sys': "sys' = snd (serve P J s c sys)" using assms by simp
  show "codes_tame k (sys_store sys) (sys_store sys')" if "\<not> draws_code c k"
    using that unfolding sys'
    by (cases c) (simp_all add: HandleAuthorizationCode_tame HandleRefreshToken_tame HandleRevocation_tame RunOnce_tame
        introspect_of CreateAuthCode_tame case_prod_beta)
  show "tokens_tame k (sys_store sys) (sys_store sys')" if "\<not> draws c k"
    using that unfolding sys'
    by (cases c) (simp_all add: HandleAuthorizationCode_tame HandleRefreshToken_tame HandleRevocation_tame RunOnce_tame
        introspect_of CreateAuthCode_tame case_prod_beta)
qed

section \<open>One success each\<close>

text \<open>The success of a code exchange, and what it tells about the request.\<close>

lemma HandleAuthorizationCode_Inr:
  assumes "HandleAuthorizationCode P J ent now s req sys = (Inr resp, sys')"
  shows "\<exists>c0 secret a user st1.
      clients_GetByID (rq_ClientID req) (sys_store sys) = Inr c0
    \<and> client_credentials_ok P c0 (rq_ClientSecret req) \<and> AllowsGrant c0 ''authorization_code''
    \<and> lookup_by code_Code (codes_of (sys_store sys)) (rq_Code req) = Some a \<and> \<not> code_Used a \<and> \<not> code_IsExpired now a
    \<and> code_ClientID a = rq_ClientID req \<and> code_RedirectURI a = rq_RedirectURI req
    \<and> ValidateCodeVerifier P (rq_CodeVerifier req) (code_CodeChallenge a) (code_CodeChallengeMethod a)
    \<and> users_GetByID (code_UserID a) (sys_store sys) = Inr user \<and> user_Active user
    \<and> codes_of st1 = upd_first (\<lambda>a. code_Code a = rq_Code req) (\<lambda>a. a\<lparr>code_Used := True\<rparr>) (codes_of (sys_store sys))
    \<and> tokens_of st1 = tokens_of (sys_store sys)
    \<and> generateTokens P J ent now s user (c0\<lparr>client_Secret := secret\<rparr>) (code_Scope a) (code_Nonce a) (code_AuthTime a) (code_AMR a)
        (sys\<lparr>sys_store := st1\<rparr>) = (Inr resp, sys')"
proof -
  obtain c st1 a st2 user where cl: "clientForGrant P (ent_salt ent) now ''authorization_code'' req (sys_store sys) = (Inr c, st1)"
    and co: "consumeCode P now s req st1 = (Inr a, st2)" and us: "activeUser (code_UserID a) st2 = Inr user"
    and g: "generateTokens P J ent now s user c (code_Scope a) (code_Nonce a) (code_AuthTime a) (code_AMR a) (sys\<lparr>sys_store := st2\<rparr>) = (Inr resp, sys')"
    using assms by (auto simp: HandleAuthorizationCode_def split: if_splits prod.splits sum.splits)
  have st1: "codes_of st1 = codes_of (sys_store sys)" "tokens_of st1 = tokens_of (sys_store sys)"
    "load_users st1 = load_users (sys_store sys)"
    using clientForGrant_of [of P "ent_salt ent" now "''authorization_code''" req "sys_store sys"] cl by simp_all
  note cc = consumeCode_Inr [OF co]
  from cc have mk: "codes_MarkUsed (rq_Code req) st1 = (None, st2)" by blast
  have st2: "codes_of st2 = upd_first (\<lambda>a. code_Code a = rq_Code req) (\<lambda>a. a\<lparr>code_Used := True\<rparr>) (codes_of st1)"
    "tokens_of st2 = tokens_of st1" "load_users st2 = load_users st1"
    using codes_MarkUsed_Ok_D [OF mk] by auto
  have "users_GetByID (code_UserID a) (sys_store sys) = Inr user \<and> user_Active user"
    using us st1(3) st2(3) by (auto simp: activeUser_Inr users_GetByID_def)
  with clientForGrant_Inr [OF cl] cc st1 st2 g show ?thesis by auto
qed

lemma HandleRefreshToken_Inr:
  assumes "HandleRefreshToken P J ent now s req sys = (Inr resp, sys')"
  shows "\<exists>c0 secret t user scope st1.
      clients_GetByID (rq_ClientID req) (sys_store sys) = Inr c0
    \<and> client_credentials_ok P c0 (rq_ClientSecret req) \<and> AllowsGrant c0 ''refresh_token''
    \<and> lookup_by token_ID (tokens_of (sys_store sys)) (rq_RefreshToken req) = Some t \<and> token_IsValid now t
    \<and> token_ClientID t = rq_ClientID req
    \<and> users_GetByID (token_UserID t) (sys_store sys) = Inr user \<and> user_Active user
    \<and> refreshScope req t = Inr scope
    \<and> tokens_of st1 = upd_first (\<lambda>t. token_ID t = rq_RefreshToken req) (\<lambda>t. t\<lparr>token_Revoked := True\<rparr>) (tokens_of (sys_store sys))
    \<and> generateTokens P J ent now s user (c0\<lparr>client_Secret := secret\<rparr>) scope '''' zero_time [] (sys\<lparr>sys_store := st1\<rparr>)
        = (Inr resp, sys')"
proof -
  obtain c st1 t user scope st2 where cl: "clientForGrant P (ent_salt ent) now ''refresh_token'' req (sys_store sys) = (Inr c, st1)"
    and co: "consumeRefresh now s req st1 = (Inr (t, user, scope), st2)"
    and g: "generateTokens P J ent now s user c scope '''' zero_time [] (sys\<lparr>sys_store := st2\<rparr>) = (Inr resp, sys')"
    using assms by (auto simp: HandleRefreshToken_def split: if_splits prod.splits sum.splits)
  have st1: "tokens_of st1 = tokens_of (sys_store sys)" "load_users st1 = load_users (sys_store sys)"
    using clientForGrant_of [of P "ent_salt ent" now "''refresh_token''" req "sys_store sys"] cl by simp_all
  note cc = consumeRefresh_Inr [OF co]
  from cc have mk: "tokens_Rotate (rq_RefreshToken req) st1 = (None, st2)" by blast
  have st2: "tokens_of st2 = upd_first (\<lambda>t. token_ID t = rq_RefreshToken req) (\<lambda>t. t\<lparr>token_Revoked := True\<rparr>) (tokens_of st1)"
    using tokens_Rotate_Ok_D [OF mk] by auto
  have "users_GetByID (token_UserID t) (sys_store sys) = Inr user" using cc st1 by (auto simp: users_GetByID_def)
  with clientForGrant_Inr [OF cl] cc st1 st2 g show ?thesis by auto
qed

fun code_win :: "string \<Rightarrow> call \<times> reply \<Rightarrow> bool" where
  "code_win k (CallCode ent now req, Tokens (Inr resp)) = (rq_Code req = k)"
| "code_win k _ = False"

fun refresh_win :: "string \<Rightarrow> call \<times> reply \<Rightarrow> bool" where
  "refresh_win k (CallRefresh ent now req, Tokens (Inr resp)) = (rq_RefreshToken req = k)"
| "refresh_win k _ = False"

lemma code_win_cases:
  assumes "code_win k e"
  obtains ent now req resp where "e = (CallCode ent now req, Tokens (Inr resp))" "rq_Code req = k"
  using assms by (cases "(k, e)" rule: code_win.cases) auto

lemma refresh_win_cases:
  assumes "refresh_win k e"
  obtains ent now req resp where "e = (CallRefresh ent now req, Tokens (Inr resp))" "rq_RefreshToken req = k"
  using assms by (cases "(k, e)" rule: refresh_win.cases) auto

lemma apfst_eq: "apfst f x = (y, z) \<longleftrightarrow> (\<exists>w. x = (w, z) \<and> y = f w)"
  by (cases x) auto

interpretation code_use: single_use
  "\<lambda>sys e sys'. serve_step P J s sys e sys' \<and> \<not> draws_code (fst e) k" "\<lambda>sys. occurs_once code_Code k (codes_of (sys_store sys))"
  "\<lambda>sys. spent code_Code code_Used k (codes_of (sys_store sys))" "code_win k"
  for P J s k
proof (unfold_locales, goal_cases)
  case (1 sys e sys')
  then show ?case using serve_tame(1) tame_once by (metis serve_step_def prod.collapse)
next
  case (2 sys e sys')
  then show ?case using serve_tame(1) tame_spent by (metis serve_step_def prod.collapse)
next
  case (3 sys e sys')
  obtain ent now req resp where e: "e = (CallCode ent now req, Tokens (Inr resp))" and k: "rq_Code req = k"
    using 3(3) by (rule code_win_cases)
  have "HandleAuthorizationCode P J ent now s req sys = (Inr resp, sys')"
    using 3(1) e by (auto simp: serve_step_def apfst_eq)
  from HandleAuthorizationCode_Inr [OF this] obtain a st1 c user where
      a: "lookup_by code_Code (codes_of (sys_store sys)) k = Some a" "\<not> code_Used a"
    and st1: "codes_of st1 = upd_first (\<lambda>a. code_Code a = k) (\<lambda>a. a\<lparr>code_Used := True\<rparr>) (codes_of (sys_store sys))"
    and g: "generateTokens P J ent now s user c (code_Scope a) (code_Nonce a) (code_AuthTime a) (code_AMR a) (sys\<lparr>sys_store := st1\<rparr>) = (Inr resp, sys')"
    using k by auto
  have "codes_of (sys_store sys') = codes_of st1"
    using generateTokens_codes [of P J ent now s user c "code_Scope a" "code_Nonce a" "code_AuthTime a" "code_AMR a" "sys\<lparr>sys_store := st1\<rparr>"] g
    by simp
  moreover have "spent code_Code code_Used k (codes_of st1)"
    unfolding st1 using 3(2) by (rule spent_upd_first) simp_all
  ultimately show ?case using lookup_not_spent [OF a(1), of code_Used] a(2) by simp
qed

interpretation refresh_use: single_use
  "\<lambda>sys e sys'. serve_step P J s sys e sys' \<and> \<not> draws (fst e) k"
  "\<lambda>sys. occurs_once token_ID k (tokens_of (sys_store sys))"
  "\<lambda>sys. spent token_ID token_Revoked k (tokens_of (sys_store sys))" "refresh_win k"
  for P J s k
proof (unfold_locales, goal_cases)
  case (1 sys e sys')
  then show ?case using serve_tame(2) tame_once by (metis serve_step_def)
next
  case (2 sys e sys')
  then show ?case using serve_tame(2) tame_spent by (metis serve_step_def)
next
  case (3 sys e sys')
  obtain ent now req resp where e: "e = (CallRefresh ent now req, Tokens (Inr resp))" and k: "rq_RefreshToken req = k"
    using 3(3) by (rule refresh_win_cases)
  have "HandleRefreshToken P J ent now s req sys = (Inr resp, sys')" and fresh: "ent_refreshID ent \<noteq> k"
    using 3(1) e by (auto simp: serve_step_def apfst_eq)
  from HandleRefreshToken_Inr [OF this(1)] obtain t st1 c user scope where
      t: "lookup_by token_ID (tokens_of (sys_store sys)) k = Some t" "token_IsValid now t"
    and st1: "tokens_of st1 = upd_first (\<lambda>t. token_ID t = k) (\<lambda>t. t\<lparr>token_Revoked := True\<rparr>) (tokens_of (sys_store sys))"
    and g: "generateTokens P J ent now s user c scope '''' zero_time [] (sys\<lparr>sys_store := st1\<rparr>) = (Inr resp, sys')"
    using k by auto
  have tm: "tokens_tame k st1 (sys_store sys')"
    using generateTokens_tame(2) [OF fresh, of "sys\<lparr>sys_store := st1\<rparr>" P J now s user c scope "''''" zero_time "[]"] g by simp
  have "spent token_ID token_Revoked k (tokens_of st1)"
    unfolding st1 using 3(2) by (rule spent_upd_first) simp_all
  with tm have "spent token_ID token_Revoked k (tokens_of (sys_store sys'))" by (rule tame_spent)
  moreover have "\<not> token_Revoked t" using t(2) by (simp add: token_IsValid_def)
  ultimately show ?case using lookup_not_spent [OF t(1), of token_Revoked] by simp
qed

end
