(* ===== verification/Example.thy ===== *)
theory Example
  imports Server
begin

text \<open>
  A small deployment to apply the theorems to: one active user, one public client, one
  authorization code with a PKCE challenge, one refresh token, and concrete functions for the
  parameters (hashes, Unicode tables, the token library).
\<close>

definition exP :: platform where
  "exP = \<lparr>unicode_lower = (\<lambda>s. s), unicode_upper = (\<lambda>s. s), unicode_fold = (\<lambda>s. s),
     argon2_IDKey = (\<lambda>pw salt t m p len. take (nat len) (pw @ salt @ replicate (nat len) CHR ''x'')),
     sha256 = (\<lambda>s. s), hmac_sha256 = (\<lambda>k s. s), hmac_sha1 = (\<lambda>k s. replicate 20 0)\<rparr>"

definition exNow :: time where
  "exNow = 1000 * second"

definition exUser :: user where
  "exUser = \<lparr>user_ID = ''u1'', user_Email = ''a@x'', user_PasswordHash = '''', user_DisplayName = ''A'',
     user_GivenName = '''', user_FamilyName = '''', user_Active = True, user_EmailVerified = True,
     user_Admin = False, user_TOTPSecret = '''', user_TOTPLastStep = 0, user_RecoveryCodes = [],
     user_CreatedAt = 0, user_UpdatedAt = 0\<rparr>"

definition exClient :: client where
  "exClient = \<lparr>client_ID = ''c1'', client_Secret = '''', client_Name = ''C'', client_RedirectURIs = [''r''],
     client_GrantTypes = [], client_Scopes = [''openid'', ''offline_access''], client_Public = True,
     client_SkipConsent = False, client_MinimalIDToken = False, client_AccessTokenTTL = 0,
     client_RefreshTokenTTL = 0, client_CreatedAt = 0, client_UpdatedAt = 0\<rparr>"

definition exCode :: auth_code where
  "exCode = \<lparr>code_Code = ''k'', code_ClientID = ''c1'', code_UserID = ''u1'', code_RedirectURI = ''r'',
     code_Scope = ''openid offline_access'', code_CodeChallenge = RawURLEncoding_EncodeToString ''v'',
     code_CodeChallengeMethod = ''S256'', code_Nonce = ''n'', code_AuthTime = exNow, code_AMR = [''pwd''],
     code_CreatedAt = exNow, code_ExpiresAt = exNow + minute, code_Used = False\<rparr>"

definition exToken :: token where
  "exToken = \<lparr>token_ID = ''t'', token_UserID = ''u1'', token_ClientID = ''c1'', token_Scope = ''openid offline_access'',
     token_CreatedAt = exNow, token_ExpiresAt = exNow + hour, token_Revoked = False\<rparr>"

definition exStore :: fstore where
  "exStore = NewStore\<lparr>f_users := Content [exUser], f_clients := Content [exClient],
     f_auth_codes := Content [exCode], f_tokens := Content [exToken]\<rparr>"

definition exKey :: keypair where
  "exKey = \<lparr>kp_Kid = ''kid'', kp_Alg = AlgRS256, kp_PrivateKey = Some (RSA_private 5 3 3), kp_PublicKey = Some (RSA_public 5 3),
     kp_CreatedAt = 0, kp_ExpiresAt = zero_time, kp_Active = True,
     kp_PrivateKeyPEM = Some (PEM ''RSA PRIVATE KEY'' (PKCS1 (RSA_private 5 3 3))),
     kp_PublicKeyPEM = Some (PEM ''PUBLIC KEY'' (PKIX (RSA_public 5 3)))\<rparr>"

definition exKeyFile :: key_file where
  "exKeyFile = \<lparr>kf_data = Content \<lparr>kd_Keys = [json_keypair exKey], kd_ActiveKid = ''kid''\<rparr>, kf_write_err = None\<rparr>"

definition exKeys :: key_service where
  "exKeys = \<lparr>ks_repo = exKeyFile, ks_active = None, ks_activeAt = zero_time, ks_cacheTTL = minute, ks_algorithm = AlgRS256\<rparr>"

definition exGen :: token_generator where
  "exGen = \<lparr>tg_keyPair = exKey, tg_withKeyService = True, tg_issuer = ''iss'', tg_audience = ''aud''\<rparr>"

definition exService :: token_service where
  "exService = \<lparr>ts_tokenGenerator = exGen, ts_accessTTL = 900 * second, ts_refreshTTL = 24 * hour, ts_issuer = ''iss'',
     ts_groupClaims = None, ts_revocations = True\<rparr>"

definition exSys :: sys where
  "exSys = \<lparr>sys_store = exStore, sys_keys = exKeys\<rparr>"

definition exEnt :: entropy where
  "exEnt = \<lparr>ent_salt = Inr ''salt'', ent_idJTI = ''ID'', ent_accessJTI = ''AT'', ent_refreshID = ''t2''\<rparr>"

text \<open>The access token \<open>AT\<close> of the user, issued at \<open>exNow\<close>.\<close>

definition exClaims :: claims where
  "exClaims = \<lparr>cl_Email = '''', cl_EmailVerified = False, cl_Name = '''', cl_Groups = None,
     cl_Scope = ''openid offline_access'', cl_ClientID = ''c1'', cl_Extra = Map.empty, cl_Issuer = ''iss'',
     cl_Subject = ''u1'', cl_Audience = [''c1''], cl_ExpiresAt = Some (exNow + 900 * second),
     cl_NotBefore = Some (exNow - 5 * minute), cl_IssuedAt = Some exNow, cl_ID = ''AT''\<rparr>"

definition exJ :: jwtlib where
  "exJ = \<lparr>jwt_sign = (\<lambda>alg priv kid obj. case obj ''jti'' of Some (JString j) \<Rightarrow> Inr j | _ \<Rightarrow> Inl (Plain ''jti'')),
     jwt_decode = (\<lambda>tok. if tok = ''AT''
        then Inr (\<lparr>hdr_family = FamilyRSA, hdr_alg = ''RS256'', hdr_kid = Some ''kid''\<rparr>, MarshalJSON exClaims)
        else Inl (Plain ''malformed'')),
     jwt_verify = (\<lambda>alg pub tok. pub = Some (RSA_public 5 3)),
     jwt_validate = (\<lambda>now c.
        if (case cl_ExpiresAt c of Some e \<Rightarrow> now < e | None \<Rightarrow> True) \<and> (case cl_NotBefore c of Some n \<Rightarrow> n \<le> now | None \<Rightarrow> True)
        then None else Some (Plain ''token is expired'')),
     NewNumericDate = (\<lambda>t. second * (t div second)),
     uuid_v7_time = (\<lambda>i. if i = ''AT'' then Some exNow else None)\<rparr>"

definition exReq :: token_request where
  "exReq = \<lparr>rq_GrantType = ''authorization_code'', rq_Code = ''k'', rq_RedirectURI = ''r'', rq_ClientID = ''c1'',
     rq_ClientSecret = '''', rq_CodeVerifier = ''v'', rq_RefreshToken = ''t'', rq_Scope = ''openid''\<rparr>"

lemma exStore_healthy: "healthy exStore"
  by (simp add: exStore_def healthy_NewStore)

lemma exLaws: "date_law exJ" "time_claims_law exJ"
  by (simp_all add: date_law_def time_claims_law_def exJ_def)

lemma exCode_grant: "isOk (fst (HandleAuthorizationCode exP exJ exEnt exNow exService exReq exSys))"
  by code_simp

lemma exRefresh_grant: "isOk (fst (HandleRefreshToken exP exJ exEnt exNow exService exReq exSys))"
  by code_simp

definition exKeygen :: keygen where
  "exKeygen = \<lparr>gen_rsa = Inr (RSA_private 7 3 3, RSA_public 7 3), gen_ed25519 = Inr (Ed25519_private ''s'' ''p'', Ed25519_public ''p''),
     gen_kid = ''kid2''\<rparr>"

end
