(* ===== verification/TokenReplay.thy ===== *)
theory TokenReplay
  imports Server
begin

text \<open>
  The replay of a used code or of a rotated refresh token: on a store that can be read and
  written the handlers revoke everything the grant produced, and say so with
  \<open>invalid_grant\<close>. Also what a revocation survives: every later call, and maintenance until
  its row expires.
\<close>

section \<open>Authentication on a healthy store\<close>

lemma clients_Update_healthy: "healthy st \<Longrightarrow> healthy (snd (clients_Update now c st))"
  by (simp add: clients_Update_def healthy_of save_healthy healthy_update split: option.split)

lemma authenticateClient_healthy:
  "healthy st \<Longrightarrow> authenticateClient P salt now c presented st = (ok, c', st') \<Longrightarrow> healthy st'"
  by (auto simp: authenticateClient_def clients_Update_healthy Let_def split: if_splits prod.splits sum.splits)

lemma clientForGrant_ok:
  assumes "healthy st" and "clients_GetByID (rq_ClientID req) st = Inr c0"
    and "client_credentials_ok P c0 (rq_ClientSecret req)" and "AllowsGrant c0 grant"
  shows "\<exists>secret v. clientForGrant P salt now grant req st = (Inr (c0\<lparr>client_Secret := secret\<rparr>), st\<lparr>f_clients := v\<rparr>)
    \<and> healthy (st\<lparr>f_clients := v\<rparr>)"
proof -
  obtain ok c' st' where a: "authenticateClient P salt now c0 (rq_ClientSecret req) st = (ok, c', st')"
    by (metis prod_cases3)
  from authenticateClient_spec [OF a] obtain secret v where "ok" "c' = c0\<lparr>client_Secret := secret\<rparr>" "st' = st\<lparr>f_clients := v\<rparr>"
    using assms(3) by blast
  with a assms authenticateClient_healthy [OF assms(1) a] show ?thesis by (auto simp: clientForGrant_def)
qed

section \<open>The cut-off\<close>

text \<open>
  What is left of a grant that was cut off at \<open>now\<close>: its live refresh tokens are revoked and,
  when access tokens are tracked, so is every access token issued for it so far.
\<close>

definition cut_at :: "time \<Rightarrow> token_service \<Rightarrow> string \<Rightarrow> string \<Rightarrow> fstore \<Rightarrow> fstore \<Rightarrow> bool" where
  "cut_at now s u c st st' \<longleftrightarrow>
     tokens_of st' = map (revokeIf (\<lambda>t. token_UserID t = u \<and> token_ClientID t = c \<and> now < token_ExpiresAt t)) (tokens_of st)
     \<and> (ts_revocations s \<longrightarrow> (\<forall>jti iat. iat \<le> now \<longrightarrow> revoked_in st' jti u c iat))"

lemma cutOff_healthy:
  assumes "healthy st" and "distinct (map token_ID (tokens_of st))"
  shows "\<exists>st'. cutOff now s failed reused u c st = (InvalidGrant reused, st') \<and> healthy st' \<and> cut_at now s u c st st'"
proof -
  obtain st' where rg: "revokeGrant now s u c st = (None, st')" and h: "healthy st'"
    using revokeGrant_healthy [OF assms(1)] by blast
  with revokeGrant_Ok [OF rg assms(2)] show ?thesis by (auto simp: cutOff_def cut_at_def)
qed

lemma lookup_codes_healthy:
  "healthy st \<Longrightarrow> lookup_by code_Code (codes_of st) k = Some a \<Longrightarrow> codes_GetByCode k st = Inr a"
  by (simp add: codes_GetByCode_def healthy_of lookup_by_def)

lemma lookup_tokens_healthy:
  "healthy st \<Longrightarrow> lookup_by token_ID (tokens_of st) k = Some a \<Longrightarrow> tokens_GetByID k st = Inr a"
  by (simp add: tokens_GetByID_def healthy_of lookup_by_def)

lemma consumeCode_replay:
  assumes "healthy st" and "distinct (map token_ID (tokens_of st))"
    and "lookup_by code_Code (codes_of st) (rq_Code req) = Some a" and "code_Used a" and "code_ClientID a = rq_ClientID req"
  shows "\<exists>st'. consumeCode P now s req st =
      (Inl (InvalidGrant ''code already used; all tokens for this client were revoked''), st')
    \<and> healthy st' \<and> cut_at now s (code_UserID a) (code_ClientID a) st st'"
proof -
  obtain st' where c: "cutOff now s ''failed to revoke tokens after code reuse''
      ''code already used; all tokens for this client were revoked'' (code_UserID a) (code_ClientID a) st
      = (InvalidGrant ''code already used; all tokens for this client were revoked'', st')"
    and h: "healthy st'" "cut_at now s (code_UserID a) (code_ClientID a) st st'"
    using cutOff_healthy [OF assms(1,2)] by blast
  have "consumeCode P now s req st =
      (Inl (InvalidGrant ''code already used; all tokens for this client were revoked''), st')"
    unfolding consumeCode_def lookup_codes_healthy [OF assms(1,3)]
    by (simp add: assms(4,5) c [unfolded assms(5)] Let_def)
  with h show ?thesis by blast
qed

lemma consumeRefresh_replay:
  assumes "healthy st" and "distinct (map token_ID (tokens_of st))"
    and "lookup_by token_ID (tokens_of st) (rq_RefreshToken req) = Some a" and "token_Revoked a"
    and "\<not> token_IsExpired now a" and "token_ClientID a = rq_ClientID req"
  shows "\<exists>st'. consumeRefresh now s req st =
      (Inl (InvalidGrant ''refresh_token has already been used; all tokens for this client were revoked''), st')
    \<and> healthy st' \<and> cut_at now s (token_UserID a) (token_ClientID a) st st'"
proof -
  obtain st' where c: "cutOff now s ''failed to revoke tokens after refresh token reuse''
      ''refresh_token has already been used; all tokens for this client were revoked'' (token_UserID a) (token_ClientID a) st
      = (InvalidGrant ''refresh_token has already been used; all tokens for this client were revoked'', st')"
    and h: "healthy st'" "cut_at now s (token_UserID a) (token_ClientID a) st st'"
    using cutOff_healthy [OF assms(1,2)] by blast
  have "consumeRefresh now s req st =
      (Inl (InvalidGrant ''refresh_token has already been used; all tokens for this client were revoked''), st')"
    unfolding consumeRefresh_def lookup_tokens_healthy [OF assms(1,3)]
    by (simp add: assms(4,5,6) c [unfolded assms(6)] Let_def)
  with h show ?thesis by blast
qed

lemma cut_at_frame: "cut_at now s u c (st\<lparr>f_clients := v\<rparr>) st' \<longleftrightarrow> cut_at now s u c st st'"
  by (simp add: cut_at_def)

section \<open>What a revocation survives\<close>

text \<open>A row that revokes the token and is kept at least until \<open>t\<close>.\<close>

definition revoked_until :: "fstore \<Rightarrow> string \<Rightarrow> string \<Rightarrow> string \<Rightarrow> time \<Rightarrow> time \<Rightarrow> bool" where
  "revoked_until st jti u c iat t \<longleftrightarrow>
     (\<exists>rv \<in> set (revocations_of st). row_revokes jti u c iat rv \<and> t \<le> rv_ExpiresAt rv)"

definition rows_kept :: "fstore \<Rightarrow> fstore \<Rightarrow> bool" where
  "rows_kept st st' \<longleftrightarrow> (\<forall>jti u c iat t. revoked_until st jti u c iat t \<longrightarrow> revoked_until st' jti u c iat t)"

lemma rows_kept_refl [simp]: "rows_kept st st"
  by (simp add: rows_kept_def)

lemma rows_kept_trans: "rows_kept a b \<Longrightarrow> rows_kept b c \<Longrightarrow> rows_kept a c"
  by (simp add: rows_kept_def)

lemma rows_kept_same: "revocations_of st' = revocations_of st \<Longrightarrow> rows_kept st st'"
  by (simp add: rows_kept_def revoked_until_def)

lemma upsert_kept: "rows_kept st (snd (upsert k key nb xp st))"
  unfolding rows_kept_def revoked_until_def
proof (intro allI impI)
  fix jti u c iat t
  assume "\<exists>rv \<in> set (revocations_of st). row_revokes jti u c iat rv \<and> t \<le> rv_ExpiresAt rv"
  then obtain rv where rv: "rv \<in> set (revocations_of st)" "row_revokes jti u c iat rv" "t \<le> rv_ExpiresAt rv" by blast
  from upsert_rows [OF rv(1)] row_revokes_cong [OF rv(2)] rv(3)
  show "\<exists>rv \<in> set (revocations_of (snd (upsert k key nb xp st))). row_revokes jti u c iat rv \<and> t \<le> rv_ExpiresAt rv"
    by (meson order_trans)
qed

lemma RevokeBefore_kept: "rows_kept st (snd (RevokeBefore k key nb st))"
  by (simp add: RevokeBefore_def upsert_kept)

lemma RevokeAccessToken_kept: "rows_kept st (snd (RevokeAccessToken now jti xp st))"
  by (simp add: RevokeAccessToken_def upsert_kept)

lemma tokens_Revoke_kept: "rows_kept st (snd (tokens_Revoke now i st))"
proof -
  have "rows_kept st (snd (RevokeBefore k key nb (st\<lparr>f_tokens := v\<rparr>)))" for k key nb v
    using RevokeBefore_kept [of "st\<lparr>f_tokens := v\<rparr>" k key nb] rows_kept_same [of "st\<lparr>f_tokens := v\<rparr>" st]
    by (auto intro: rows_kept_trans)
  then show ?thesis
    by (auto simp: tokens_Revoke_def save_tokens_def writeFile_def split: sum.splits option.splits prod.splits)
qed

lemma revoke_loop_kept: "rows_kept st (snd (revoke_loop now c ts st))"
proof (induction now c ts st rule: revoke_loop.induct)
  case (2 now c t ts st)
  obtain e st1 where rv: "tokens_Revoke now (token_ID t) st = (e, st1)" by force
  then have "rows_kept st st1" using tokens_Revoke_kept [of st now "token_ID t"] by simp
  with 2 rv show ?case by (cases e) (auto intro: rows_kept_trans)
qed simp

lemma revokeGrant_kept: "rows_kept st (snd (revokeGrant now s u c st))"
proof (cases "tokens_ListByUserID now u st")
  case (Inl e)
  then show ?thesis by (simp add: revokeGrant_def)
next
  case (Inr ts)
  obtain e st1 where lp: "revoke_loop now c ts st = (e, st1)" by force
  with revoke_loop_kept [of st now c ts] RevokeBefore_kept [of st1] Inr show ?thesis
    by (cases e) (auto simp: revokeGrant_def intro: rows_kept_trans)
qed

lemma cutOff_kept: "rows_kept st (snd (cutOff now s f m u c st))"
proof -
  obtain e st1 where "revokeGrant now s u c st = (e, st1)" by force
  with revokeGrant_kept [of st now s u c] show ?thesis by (cases e) (auto simp: cutOff_def)
qed


lemma consumeCode_kept: "rows_kept st (snd (consumeCode P now s req st))"
proof (cases "codes_GetByCode (rq_Code req) st")
  case (Inl e)
  then show ?thesis by (simp add: consumeCode_def)
next
  case (Inr a)
  obtain e st1 where mk: "codes_MarkUsed (rq_Code req) st = (e, st1)" by force
  then have "revocations_of st1 = revocations_of st"
    by (auto simp: codes_MarkUsed_def save_auth_codes_def writeFile_def split: sum.splits option.splits if_splits)
  then have "rows_kept st st1" by (rule rows_kept_same)
  moreover have "rows_kept st (snd (cutOff now s f m u c st1))" for f m u c
    using cutOff_kept \<open>rows_kept st st1\<close> rows_kept_trans by blast
  ultimately show ?thesis using Inr mk cutOff_kept [of st now s]
    by (auto simp: consumeCode_def Let_def case_prod_beta split: option.splits)
qed

lemma consumeRefresh_kept: "rows_kept st (snd (consumeRefresh now s req st))"
proof (cases "tokens_GetByID (rq_RefreshToken req) st")
  case (Inl e)
  then show ?thesis by (simp add: consumeRefresh_def)
next
  case (Inr a)
  obtain e st1 where mk: "tokens_Rotate (rq_RefreshToken req) st = (e, st1)" by force
  then have "revocations_of st1 = revocations_of st"
    by (auto simp: tokens_Rotate_def save_tokens_def writeFile_def split: sum.splits option.splits if_splits)
  then have "rows_kept st st1" by (rule rows_kept_same)
  moreover have "rows_kept st (snd (cutOff now s f m u c st1))" for f m u c
    using cutOff_kept \<open>rows_kept st st1\<close> rows_kept_trans by blast
  ultimately show ?thesis using Inr mk cutOff_kept [of st now s]
    by (auto simp: consumeRefresh_def Let_def case_prod_beta split: option.splits sum.splits)
qed

lemma clientForGrant_kept: "rows_kept st (snd (clientForGrant P salt now grant req st))"
  using clientForGrant_frame [of P salt now grant req st] by (auto intro!: rows_kept_same)

lemma generateTokens_kept:
  "rows_kept (sys_store sys) (sys_store (snd (generateTokens P J ent now s user client sc n at amr sys)))"
proof -
  obtain r sys' where g: "generateTokens P J ent now s user client sc n at amr sys = (r, sys')" by force
  from generateTokens_cases(1) [OF g] g show ?thesis by (auto intro!: rows_kept_same)
qed

lemma HandleAuthorizationCode_kept:
  "rows_kept (sys_store sys) (sys_store (snd (HandleAuthorizationCode P J ent now s req sys)))"
proof -
  obtain r1 st1 where c1: "clientForGrant P (ent_salt ent) now ''authorization_code'' req (sys_store sys) = (r1, st1)" by force
  obtain r2 st2 where c2: "consumeCode P now s req st1 = (r2, st2)" by force
  have k: "rows_kept (sys_store sys) st1" "rows_kept (sys_store sys) st2"
    using clientForGrant_kept [of "sys_store sys" P "ent_salt ent" now "''authorization_code''" req] consumeCode_kept [of st1 P now s req] c1 c2
    by (auto intro: rows_kept_trans)
  have "rows_kept (sys_store sys) (sys_store (snd (generateTokens P J ent now s u c sc n at amr (sys\<lparr>sys_store := st2\<rparr>))))"
    for u c sc n at amr
    using generateTokens_kept [of "sys\<lparr>sys_store := st2\<rparr>"] k(2) by (auto intro: rows_kept_trans)
  with k c1 c2 show ?thesis by (auto simp: HandleAuthorizationCode_def split: sum.split)
qed

lemma HandleRefreshToken_kept:
  "rows_kept (sys_store sys) (sys_store (snd (HandleRefreshToken P J ent now s req sys)))"
proof -
  obtain r1 st1 where c1: "clientForGrant P (ent_salt ent) now ''refresh_token'' req (sys_store sys) = (r1, st1)" by force
  obtain r2 st2 where c2: "consumeRefresh now s req st1 = (r2, st2)" by force
  have k: "rows_kept (sys_store sys) st1" "rows_kept (sys_store sys) st2"
    using clientForGrant_kept [of "sys_store sys" P "ent_salt ent" now "''refresh_token''" req] consumeRefresh_kept [of st1 now s req] c1 c2
    by (auto intro: rows_kept_trans)
  have "rows_kept (sys_store sys) (sys_store (snd (generateTokens P J ent now s u c sc n at amr (sys\<lparr>sys_store := st2\<rparr>))))"
    for u c sc n at amr
    using generateTokens_kept [of "sys\<lparr>sys_store := st2\<rparr>"] k(2) by (auto intro: rows_kept_trans)
  with k c1 c2 show ?thesis by (auto simp: HandleRefreshToken_def split: sum.split prod.split)
qed

lemma HandleRevocation_kept:
  "rows_kept (sys_store sys) (sys_store (snd (HandleRevocation P J salt now s req sys)))"
proof (cases "clients_GetByID (tq_ClientID req) (sys_store sys)")
  case (Inl e)
  then show ?thesis by (simp add: HandleRevocation_def)
next
  case (Inr c)
  obtain ok c' st1 where a: "authenticateClient P salt now c (tq_ClientSecret req) (sys_store sys) = (ok, c', st1)"
    by (metis prod_cases3)
  then have k1: "rows_kept (sys_store sys) st1"
    using authenticateClient_spec(3) [OF a] by (auto intro!: rows_kept_same)
  have "rows_kept (sys_store sys) (snd (tokens_Revoke now i st1))" "rows_kept (sys_store sys) (snd (RevokeAccessToken now i xp st1))" for i xp
    using tokens_Revoke_kept RevokeAccessToken_kept k1 rows_kept_trans by blast+
  with Inr a k1 show ?thesis
    by (auto simp: HandleRevocation_def case_prod_beta split: bool.splits sum.splits option.splits)
qed

lemma store_tasks_revoked:
  assumes "now < t" and "revoked_until st jti u c iat t"
  shows "revoked_until (snd (run_tasks (store_tasks now r) st)) jti u c iat t"
proof (rule run_tasks_invariant [where I = "\<lambda>st. revoked_until st jti u c iat t"])
  fix task st' assume task: "task \<in> set (store_tasks now r)" and I: "revoked_until st' jti u c iat t"
  have "revoked_until (snd (revocations_DeleteExpired now st')) jti u c iat t"
    using I assms(1) by (auto simp: revoked_until_def DeleteExpired_of)
  moreover obtain v1 v2 v3 v5 v6 where
      "snd (sessions_DeleteExpired now st') = st'\<lparr>f_sessions := v1\<rparr>" "snd (codes_DeleteExpired now st') = st'\<lparr>f_auth_codes := v2\<rparr>"
      "snd (tokens_DeleteExpired now st') = st'\<lparr>f_tokens := v3\<rparr>"
      "snd (vtokens_DeleteExpired now st') = st'\<lparr>f_verification_tokens := v5\<rparr>"
      "snd (audit_DeleteBefore (now - rn_auditRetention r) st') = st'\<lparr>f_audit_events := v6\<rparr>"
    using DeleteExpired_frames by metis
  ultimately show "revoked_until (snd (task st')) jti u c iat t"
    using task I by (auto simp: store_tasks_def revoked_until_def split: if_splits)
qed (rule assms(2))

lemma RunOnce_revoked:
  assumes "now < t" and "revoked_until (sys_store sys) jti u c iat t"
  shows "revoked_until (sys_store (snd (RunOnce g uuid now r sys))) jti u c iat t"
proof -
  obtain v where "sys_store (snd (RunOnce g uuid now r sys)) =
      (snd (run_tasks (store_tasks now r) (sys_store sys)))\<lparr>f_audit_events := v\<rparr>"
    using RunOnce_store by blast
  then show ?thesis using store_tasks_revoked [OF assms, of r] by (simp add: revoked_until_def)
qed

text \<open>A call that purges at or after \<open>t\<close>.\<close>

fun purges_at :: "time \<Rightarrow> call \<Rightarrow> bool" where
  "purges_at t (CallMaintenance g uuid now r) = (t \<le> now)"
| "purges_at t _ = False"

lemma serve_revoked:
  assumes "serve P J s c sys = (r, sys')" and "\<not> purges_at t c" and "revoked_until (sys_store sys) jti u cl iat t"
  shows "revoked_until (sys_store sys') jti u cl iat t"
proof (cases "\<exists>g uuid now rn. c = CallMaintenance g uuid now rn")
  case True
  then obtain g uuid now rn where c: "c = CallMaintenance g uuid now rn" by blast
  with assms have "sys' = snd (RunOnce g uuid now rn sys)" "now < t" by (auto simp: apfst_eq)
  with RunOnce_revoked [OF this(2) assms(3)] show ?thesis by simp
next
  case False
  have "rows_kept (sys_store sys) (sys_store (snd (serve P J s c sys)))"
  proof (cases c)
    case (CallIntrospect salt now q)
    then show ?thesis using introspect_store [of P J salt now s q sys] by (auto intro!: rows_kept_same)
  next
    case (CallAuthCode uuid now ttl req u at amr)
    then show ?thesis using CreateAuthCode_store [of uuid now ttl req u at amr "sys_store sys"]
      by (auto intro!: rows_kept_same simp: case_prod_beta)
  qed (use False HandleAuthorizationCode_kept HandleRefreshToken_kept HandleRevocation_kept in auto)
  with assms show ?thesis by (simp add: rows_kept_def)
qed

section \<open>A grant that goes through\<close>

text \<open>The key signs whatever it is given; the token library fails only on a key it cannot use.\<close>

definition signs :: "jwtlib \<Rightarrow> keypair \<Rightarrow> bool" where
  "signs J key \<longleftrightarrow> (\<forall>obj. \<exists>tok. jwt_sign J (signingMethodFor (kp_Alg key)) (kp_PrivateKey key) (kp_Kid key) obj = Inr tok)"

lemma GetActiveKey_again:
  assumes "GetActiveKey now s = (Inr k, s')"
  shows "\<exists>s''. GetActiveKey now s' = (Inr k, s'')"
proof (cases "s' = s")
  case True
  with assms show ?thesis by blast
next
  case False
  with GetActiveKey_cases [OF assms] obtain k0 where k0: "keys_GetActive (ks_repo s') = Inr k0" "restore k0 = Inr k"
    and a: "ks_active s' = Some k" by auto
  then show ?thesis by (simp add: GetActiveKey_def cachedActive_def split: option.split)
qed

lemma signingKey_again:
  assumes "signingKey now g ks = (Inr key, ks')"
  shows "\<exists>ks''. signingKey now g ks' = (Inr key, ks'')"
  using assms by (auto simp: signingKey_def split: if_splits prod.splits sum.splits dest: GetActiveKey_again)

lemma GenerateIDTokenFor_ok:
  assumes "signingKey now g ks = (Inr key, ks')" and "signs J key"
  shows "\<exists>tok. GenerateIDTokenFor J now jti g sub aud ttl c ks = (Inr (tok, now + ttl), ks')"
proof -
  obtain tok where "jwt_sign J (signingMethodFor (kp_Alg key)) (kp_PrivateKey key) (kp_Kid key)
      (MarshalJSON (register J now jti g sub aud ttl c)) = Inr tok"
    using assms(2) unfolding signs_def by blast
  with assms(1) show ?thesis by (simp add: GenerateIDTokenFor_def)
qed

lemma gc_Apply_healthy: "healthy st \<Longrightarrow> \<exists>c'. gc_Apply P g user scope c st = Inr c'"
  by (auto simp: gc_Apply_def gc_Names_def groups_GroupsForUser_def healthy_of Let_def split: option.split)

lemma tokenClaims_healthy:
  assumes "healthy st"
  shows "\<exists>i a. tokenClaims P s user client scope nonce at amr st = Inr (i, a)"
proof -
  obtain c1 c2 where "gc_Apply P (ts_groupClaims s) user scope (idTokenClaims user client scope nonce at amr) st = Inr c1"
    "gc_Apply P (ts_groupClaims s) user scope (empty_claims\<lparr>cl_Scope := scope, cl_ClientID := client_ID client\<rparr>) st = Inr c2"
    using gc_Apply_healthy [OF assms] by metis
  then show ?thesis by (simp add: tokenClaims_def Let_def)
qed

lemma generateTokens_ok:
  assumes "healthy (sys_store sys)" and "signingKey now (ts_tokenGenerator s) (sys_keys sys) = (Inr key, ksa)" and "signs J key"
  shows "\<exists>resp sys'. generateTokens P J ent now s user client scope nonce at amr sys = (Inr resp, sys')"
proof -
  obtain i a where cl: "tokenClaims P s user client scope nonce at amr (sys_store sys) = Inr (i, a)"
    using tokenClaims_healthy [OF assms(1)] by blast
  obtain ks2 where k2: "signingKey now (ts_tokenGenerator s) ksa = (Inr key, ks2)"
    using signingKey_again [OF assms(2)] by blast
  obtain t1 where t1: "GenerateIDTokenFor J now (ent_idJTI ent) (ts_tokenGenerator s) (user_ID user) (client_ID client)
      (fst (ttlsFor s client)) i (sys_keys sys) = (Inr (t1, now + fst (ttlsFor s client)), ksa)"
    using GenerateIDTokenFor_ok [OF assms(2,3)] by blast
  obtain t2 where t2: "GenerateAccessTokenWithClaims J now (ent_accessJTI ent) (ts_tokenGenerator s) (user_ID user)
      (fst (ttlsFor s client)) a ksa = (Inr (t2, now + fst (ttlsFor s client)), ks2)"
    using GenerateIDTokenFor_ok [OF k2 assms(3)] by (force simp: GenerateAccessTokenWithClaims_def GenerateIDToken_def Let_def)
  show ?thesis using t1 t2 assms(1)
    by (auto simp: generateTokens_def cl case_prod_beta Let_def tokens_Create_def healthy_of save_healthy)
qed

lemma consumeCode_ok:
  assumes "healthy st" and "lookup_by code_Code (codes_of st) (rq_Code req) = Some a" and "\<not> code_Used a"
    and "\<not> code_IsExpired now a" and "code_ClientID a = rq_ClientID req" and "code_RedirectURI a = rq_RedirectURI req"
    and "ValidateCodeVerifier P (rq_CodeVerifier req) (code_CodeChallenge a) (code_CodeChallengeMethod a)"
  shows "\<exists>acs. consumeCode P now s req st = (Inr a, st\<lparr>f_auth_codes := Content acs\<rparr>)"
  using assms lookup_codes_healthy [OF assms(1,2)]
  by (simp add: consumeCode_def Let_def codes_MarkUsed_def healthy_of save_healthy lookup_by_def) blast

lemma HandleAuthorizationCode_ok:
  assumes "healthy (sys_store sys)" and "clients_GetByID (rq_ClientID req) (sys_store sys) = Inr c"
    and "client_credentials_ok P c (rq_ClientSecret req)" and "AllowsGrant c ''authorization_code''"
    and "rq_Code req \<noteq> ''''" and "rq_RedirectURI req \<noteq> ''''"
    and "lookup_by code_Code (codes_of (sys_store sys)) (rq_Code req) = Some a" and "\<not> code_Used a"
    and "\<not> code_IsExpired now a" and "code_ClientID a = rq_ClientID req" and "code_RedirectURI a = rq_RedirectURI req"
    and "ValidateCodeVerifier P (rq_CodeVerifier req) (code_CodeChallenge a) (code_CodeChallengeMethod a)"
    and "users_GetByID (code_UserID a) (sys_store sys) = Inr user" and "user_Active user"
    and "signingKey now (ts_tokenGenerator s) (sys_keys sys) = (Inr key, ksa)" and "signs J key"
  shows "\<exists>resp sys'. HandleAuthorizationCode P J ent now s req sys = (Inr resp, sys')"
proof -
  obtain secret v where c: "clientForGrant P (ent_salt ent) now ''authorization_code'' req (sys_store sys)
      = (Inr (c\<lparr>client_Secret := secret\<rparr>), (sys_store sys)\<lparr>f_clients := v\<rparr>)" and h: "healthy ((sys_store sys)\<lparr>f_clients := v\<rparr>)"
    using clientForGrant_ok [OF assms(1-4)] by blast
  obtain acs where k: "consumeCode P now s req ((sys_store sys)\<lparr>f_clients := v\<rparr>) =
      (Inr a, (sys_store sys)\<lparr>f_clients := v\<rparr>\<lparr>f_auth_codes := Content acs\<rparr>)"
    using consumeCode_ok [OF h, of req a now P s] assms(7-12) by auto
  let ?st = "(sys_store sys)\<lparr>f_clients := v\<rparr>\<lparr>f_auth_codes := Content acs\<rparr>"
  have "activeUser (code_UserID a) ?st = Inr user" using assms(13,14) by (simp add: activeUser_Inr users_GetByID_def)
  moreover have "\<exists>resp sys'. generateTokens P J ent now s user (c\<lparr>client_Secret := secret\<rparr>) (code_Scope a) (code_Nonce a)
      (code_AuthTime a) (code_AMR a) (sys\<lparr>sys_store := ?st\<rparr>) = (Inr resp, sys')"
    by (intro generateTokens_ok [where key = key and ksa = ksa]) (simp_all add: assms(15,16) h)
  ultimately show ?thesis using c k by (auto simp: HandleAuthorizationCode_def assms(5,6))
qed

end
