(* ===== verification/GrantProps.thy ===== *)
theory GrantProps
  imports Example TokenReplay
begin

text \<open>
  What the token endpoint promises: one success per code and per refresh token in every run,
  the conditions of every success, and the cut-off of a grant whose code or token is replayed.
\<close>

text \<open>
  C1. In every run of the server (codes issued, code exchanges, refreshes, revocations,
  introspections and maintenance in any order and with any outcome) an authorization code is
  exchanged for tokens at most once, given that the store holds it at most once and no code
  created during the run draws the same value.
\<close>

theorem code_single_use:
  assumes "steps P J s sys tr sys'" and "occurs_once code_Code k (codes_of (sys_store sys))"
    and "\<forall>e \<in> set tr. \<not> draws_code (fst e) k"
  shows "length (filter (code_win k) tr) \<le> 1"
  using code_use.at_most_one [OF path_restrict [OF assms(1,3)] assms(2)] .

definition exTwice :: "(call \<times> reply) list \<times> sys" where
  "exTwice = serve_all exP exJ exService [CallCode exEnt exNow exReq, CallCode exEnt exNow exReq] exSys"

theorem code_single_use_witness:
  "length (filter (code_win ''k'') (fst exTwice)) \<le> 1 \<and> list_ex (code_win ''k'') (fst exTwice) \<and> length (fst exTwice) = 2"
proof -
  have "occurs_once code_Code ''k'' (codes_of (sys_store exSys))" by code_simp
  moreover have "\<forall>e \<in> set (fst exTwice). \<not> draws_code (fst e) ''k''" by code_simp
  ultimately have "length (filter (code_win ''k'') (fst exTwice)) \<le> 1"
    using code_single_use [OF serve_all_steps [of exP exJ exService exSys], of "''k''"] by (simp only: exTwice_def)
  moreover have "list_ex (code_win ''k'') (fst exTwice)" "length (fst exTwice) = 2" by code_simp+
  ultimately show ?thesis by simp
qed

text \<open>
  C2. In every run a refresh token is accepted at most once: it is rotated by the request
  that wins it, and nothing during the run makes it valid again.
\<close>

theorem refresh_single_use:
  assumes "steps P J s sys tr sys'" and "occurs_once token_ID k (tokens_of (sys_store sys))"
    and "\<forall>e \<in> set tr. \<not> draws (fst e) k"
  shows "length (filter (refresh_win k) tr) \<le> 1"
  using refresh_use.at_most_one [OF path_restrict [OF assms(1,3)] assms(2)] .

definition exRefreshTwice :: "(call \<times> reply) list \<times> sys" where
  "exRefreshTwice = serve_all exP exJ exService [CallRefresh exEnt exNow exReq, CallRefresh exEnt exNow exReq] exSys"

theorem refresh_single_use_witness:
  "length (filter (refresh_win ''t'') (fst exRefreshTwice)) \<le> 1 \<and> list_ex (refresh_win ''t'') (fst exRefreshTwice)"
proof -
  have "occurs_once token_ID ''t'' (tokens_of (sys_store exSys))" by code_simp
  moreover have "\<forall>e \<in> set (fst exRefreshTwice). \<not> draws (fst e) ''t''" by code_simp
  ultimately have "length (filter (refresh_win ''t'') (fst exRefreshTwice)) \<le> 1"
    using refresh_single_use [OF serve_all_steps [of exP exJ exService exSys], of "''t''"] by (simp only: exRefreshTwice_def)
  moreover have "list_ex (refresh_win ''t'') (fst exRefreshTwice)" by code_simp
  ultimately show ?thesis by simp
qed

text \<open>
  What the signed access token of a grant says: \<open>signed_access\<close> holds of a token that is the signature of claims with
  this subject, client and scope, and whose payload has exactly this scope.
\<close>

definition signed_access :: "jwtlib \<Rightarrow> string \<Rightarrow> string \<Rightarrow> string \<Rightarrow> string \<Rightarrow> bool" where
  "signed_access J tok subject clientID scope \<longleftrightarrow>
     (\<exists>alg pk kid c. jwt_sign J alg pk kid (MarshalJSON c) = Inr tok \<and> cl_Subject c = subject \<and> cl_ClientID c = clientID
        \<and> cl_Scope c = scope \<and> MarshalJSON c ''scope'' = opt_string scope)"

lemma hasScope_empty: "\<not> hasScope '''' x"
  by (simp add: hasScope_def Fields_def fields_from.simps)

lemma accessClaims:
  assumes "tokenClaims P s user client scope nonce at amr st = Inr (idc, acc)"
  shows "cl_Scope acc = scope" and "cl_ClientID acc = client_ID client" and "scope = '''' \<longrightarrow> cl_Extra acc = Map.empty"
  using assms hasScope_empty
  by (auto simp: tokenClaims_def gc_Apply_def Let_def bindR_Inr SetExtra_def empty_claims_def split: if_splits option.splits sum.splits)

lemma MarshalJSON_scope:
  assumes "cl_Scope c = '''' \<longrightarrow> cl_Extra c = Map.empty"
  shows "MarshalJSON c ''scope'' = opt_string (cl_Scope c)"
  using assms by (auto simp: MarshalJSON_def claimsJSON_def opt_string_def Let_def)

lemma generateTokens_access:
  assumes "generateTokens P J ent now s user client scope nonce at amr sys = (Inr resp, sys')"
  shows "signed_access J (tr_AccessToken resp) (user_ID user) (client_ID client) scope"
proof -
  obtain idc acc where cl: "tokenClaims P s user client scope nonce at amr (sys_store sys) = Inr (idc, acc)"
    using assms by (auto simp: generateTokens_def split: sum.splits)
  obtain ks xp ks' where g: "GenerateAccessTokenWithClaims J now (ent_accessJTI ent) (ts_tokenGenerator s) (user_ID user)
      (fst (ttlsFor s client)) acc ks = (Inr (tr_AccessToken resp, xp), ks')"
    using assms by (auto simp: generateTokens_def cl Let_def split: sum.splits prod.splits if_splits option.splits)
  let ?c = "register J now (ent_accessJTI ent) (ts_tokenGenerator s) (user_ID user)
    (if cl_ClientID acc \<noteq> '''' then cl_ClientID acc else tg_audience (ts_tokenGenerator s)) (fst (ttlsFor s client)) acc"
  from GenerateIDTokenFor_Inr [OF g [unfolded GenerateAccessTokenWithClaims_def GenerateIDToken_def Let_def]]
  obtain key :: keypair where "jwt_sign J (signingMethodFor (kp_Alg key)) (kp_PrivateKey key) (kp_Kid key) (MarshalJSON ?c) = Inr (tr_AccessToken resp)"
    by blast
  moreover have "MarshalJSON ?c ''scope'' = opt_string scope"
    using MarshalJSON_scope [of ?c] accessClaims [OF cl] by simp
  moreover have "cl_Subject ?c = user_ID user" "cl_ClientID ?c = client_ID client" "cl_Scope ?c = scope" using accessClaims [OF cl] by simp_all
  ultimately show ?thesis unfolding signed_access_def by blast
qed

lemma newRefreshToken_Secret [simp]:
  "newRefreshToken ent now s user (c\<lparr>client_Secret := x\<rparr>) sc = newRefreshToken ent now s user c sc"
  by (simp add: newRefreshToken_def ttlsFor_def)

text \<open>
  C4. A code exchange that yields tokens had a registered client with valid credentials and the
  grant allowed, an unused and unexpired code issued to that client for the same redirect URI,
  the verifier of the code's challenge, and an active user. The response names exactly the scope of
  the code, the access token is signed for that user, that client and exactly that scope, and a refresh
  token is stored, with that user, client and scope, iff the scope has \<open>offline_access\<close> and the
  client may refresh.
\<close>

theorem code_exchange_sound:
  assumes "HandleAuthorizationCode P J ent now s req sys = (Inr resp, sys')"
  shows "\<exists>c a user.
      clients_GetByID (rq_ClientID req) (sys_store sys) = Inr c
    \<and> client_credentials_ok P c (rq_ClientSecret req) \<and> AllowsGrant c ''authorization_code''
    \<and> lookup_by code_Code (codes_of (sys_store sys)) (rq_Code req) = Some a \<and> \<not> code_Used a \<and> \<not> code_IsExpired now a
    \<and> code_ClientID a = rq_ClientID req \<and> code_RedirectURI a = rq_RedirectURI req
    \<and> ValidateCodeVerifier P (rq_CodeVerifier req) (code_CodeChallenge a) (code_CodeChallengeMethod a)
    \<and> users_GetByID (code_UserID a) (sys_store sys) = Inr user \<and> user_Active user
    \<and> tr_Scope resp = code_Scope a
    \<and> signed_access J (tr_AccessToken resp) (code_UserID a) (rq_ClientID req) (code_Scope a)
    \<and> (if hasScope (code_Scope a) ''offline_access'' \<and> AllowsGrant c ''refresh_token''
       then tr_RefreshToken resp = ent_refreshID ent \<and>
         tokens_of (sys_store sys') = tokens_of (sys_store sys) @ [newRefreshToken ent now s user c (code_Scope a)]
       else tr_RefreshToken resp = '''' \<and> tokens_of (sys_store sys') = tokens_of (sys_store sys))"
proof -
  obtain c secret a user st1 where
      pre: "clients_GetByID (rq_ClientID req) (sys_store sys) = Inr c"
        "client_credentials_ok P c (rq_ClientSecret req)" "AllowsGrant c ''authorization_code''"
        "lookup_by code_Code (codes_of (sys_store sys)) (rq_Code req) = Some a" "\<not> code_Used a" "\<not> code_IsExpired now a"
        "code_ClientID a = rq_ClientID req" "code_RedirectURI a = rq_RedirectURI req"
        "ValidateCodeVerifier P (rq_CodeVerifier req) (code_CodeChallenge a) (code_CodeChallengeMethod a)"
        "users_GetByID (code_UserID a) (sys_store sys) = Inr user" "user_Active user"
    and t: "tokens_of st1 = tokens_of (sys_store sys)"
    and g: "generateTokens P J ent now s user (c\<lparr>client_Secret := secret\<rparr>) (code_Scope a) (code_Nonce a) (code_AuthTime a)
        (code_AMR a) (sys\<lparr>sys_store := st1\<rparr>) = (Inr resp, sys')"
    using HandleAuthorizationCode_Inr [OF assms] by blast
  have "if hasScope (code_Scope a) ''offline_access'' \<and> AllowsGrant c ''refresh_token''
       then tr_RefreshToken resp = ent_refreshID ent \<and>
         tokens_of (sys_store sys') = tokens_of (sys_store sys) @ [newRefreshToken ent now s user c (code_Scope a)]
       else tr_RefreshToken resp = '''' \<and> tokens_of (sys_store sys') = tokens_of (sys_store sys)"
    using generateTokens_cases(3) [OF g] t by (auto split: if_splits)
  moreover have "signed_access J (tr_AccessToken resp) (code_UserID a) (rq_ClientID req) (code_Scope a)"
    using generateTokens_access [OF g] pre(1,10) clients_GetByID_D users_GetByID_D by fastforce
  ultimately show ?thesis using pre generateTokens_cases(2) [OF g] by blast
qed

theorem code_exchange_sound_witness:
  "\<exists>a. lookup_by code_Code (codes_of exStore) ''k'' = Some a \<and> code_ClientID a = ''c1''
     \<and> ValidateCodeVerifier exP ''v'' (code_CodeChallenge a) (code_CodeChallengeMethod a)"
proof -
  obtain resp sys' where "HandleAuthorizationCode exP exJ exEnt exNow exService exReq exSys = (Inr resp, sys')"
    using exCode_grant by (metis isOk_iff prod.collapse)
  from code_exchange_sound [OF this] show ?thesis by (auto simp: exReq_def exSys_def)
qed

text \<open>
  C5. A refresh that yields tokens had a registered client with valid credentials, a refresh token
  of that client that was neither revoked nor expired, and an active user. The scope is the one asked
  for, or that of the old token if none was, and in either case within that of the old token; the
  response names it, the access token is signed for that user, that client and exactly that scope, and
  the old token is revoked and a new one is stored with that scope iff the scope has
  \<open>offline_access\<close>; no other refresh token changes.
\<close>

theorem refresh_sound:
  assumes "HandleRefreshToken P J ent now s req sys = (Inr resp, sys')"
  shows "\<exists>c t user.
      clients_GetByID (rq_ClientID req) (sys_store sys) = Inr c
    \<and> client_credentials_ok P c (rq_ClientSecret req) \<and> AllowsGrant c ''refresh_token''
    \<and> lookup_by token_ID (tokens_of (sys_store sys)) (rq_RefreshToken req) = Some t \<and> token_IsValid now t
    \<and> token_ClientID t = rq_ClientID req
    \<and> users_GetByID (token_UserID t) (sys_store sys) = Inr user \<and> user_Active user
    \<and> tr_Scope resp = (if rq_Scope req = '''' then token_Scope t else rq_Scope req)
    \<and> set (Fields (tr_Scope resp)) \<subseteq> set (Fields (token_Scope t))
    \<and> signed_access J (tr_AccessToken resp) (token_UserID t) (rq_ClientID req) (tr_Scope resp)
    \<and> tokens_of (sys_store sys') =
        upd_first (\<lambda>t. token_ID t = rq_RefreshToken req) (\<lambda>t. t\<lparr>token_Revoked := True\<rparr>) (tokens_of (sys_store sys))
        @ (if hasScope (tr_Scope resp) ''offline_access'' then [newRefreshToken ent now s user c (tr_Scope resp)] else [])
    \<and> lookup_by token_ID (tokens_of (sys_store sys')) (rq_RefreshToken req) = Some (t\<lparr>token_Revoked := True\<rparr>)"
proof -
  obtain c secret t user scope st1 where
      pre: "clients_GetByID (rq_ClientID req) (sys_store sys) = Inr c"
        "client_credentials_ok P c (rq_ClientSecret req)" "AllowsGrant c ''refresh_token''"
        "lookup_by token_ID (tokens_of (sys_store sys)) (rq_RefreshToken req) = Some t" "token_IsValid now t"
        "token_ClientID t = rq_ClientID req"
        "users_GetByID (token_UserID t) (sys_store sys) = Inr user" "user_Active user"
    and sc: "refreshScope req t = Inr scope"
    and t1: "tokens_of st1 = upd_first (\<lambda>t. token_ID t = rq_RefreshToken req) (\<lambda>t. t\<lparr>token_Revoked := True\<rparr>) (tokens_of (sys_store sys))"
    and g: "generateTokens P J ent now s user (c\<lparr>client_Secret := secret\<rparr>) scope '''' zero_time [] (sys\<lparr>sys_store := st1\<rparr>)
        = (Inr resp, sys')"
    using HandleRefreshToken_Inr [OF assms] by blast
  have r: "tr_Scope resp = scope" using generateTokens_cases(2) [OF g] by simp
  have ids: "client_ID c = rq_ClientID req" "user_ID user = token_UserID t"
    using pre(1,7) clients_GetByID_D users_GetByID_D by fastforce+
  have ac: "signed_access J (tr_AccessToken resp) (token_UserID t) (rq_ClientID req) (tr_Scope resp)"
    using generateTokens_access [OF g] ids r by simp
  have tk: "tokens_of (sys_store sys') = tokens_of st1 @ (if hasScope (tr_Scope resp) ''offline_access'' then [newRefreshToken ent now s user c (tr_Scope resp)] else [])"
    using generateTokens_cases(3) [OF g] pre(3) r by (auto split: if_splits)
  have "lookup_by token_ID (tokens_of st1) (rq_RefreshToken req) = Some (t\<lparr>token_Revoked := True\<rparr>)"
    unfolding t1 using pre(4) by (subst lookup_by_upd_first) simp_all
  then have "lookup_by token_ID (tokens_of (sys_store sys')) (rq_RefreshToken req) = Some (t\<lparr>token_Revoked := True\<rparr>)"
    unfolding tk by (auto simp: lookup_by_def find_append)
  then show ?thesis using pre ac tk [unfolded t1] r refreshScope_Inr [OF sc] by blast
qed

theorem refresh_sound_witness:
  "\<exists>t. lookup_by token_ID (tokens_of exStore) ''t'' = Some t \<and> token_IsValid exNow t"
proof -
  obtain resp sys' where "HandleRefreshToken exP exJ exEnt exNow exService exReq exSys = (Inr resp, sys')"
    using exRefresh_grant by (metis isOk_iff prod.collapse)
  from refresh_sound [OF this] show ?thesis by (auto simp: exReq_def exSys_def)
qed

text \<open>
  C8. Replaying a used authorization code cuts the grant off: on a store that can be read and
  written, a client that presents a code of its own again gets \<open>invalid_grant\<close>, every live refresh
  token of that user and client is revoked, no other refresh token changes, and every access token
  issued for the pair so far is revoked.
\<close>

theorem code_replay_cuts_off:
  assumes "healthy (sys_store sys)" and "distinct (map token_ID (tokens_of (sys_store sys)))"
    and "clients_GetByID (rq_ClientID req) (sys_store sys) = Inr c" and "client_credentials_ok P c (rq_ClientSecret req)"
    and "AllowsGrant c ''authorization_code''" and "rq_Code req \<noteq> ''''" and "rq_RedirectURI req \<noteq> ''''"
    and "lookup_by code_Code (codes_of (sys_store sys)) (rq_Code req) = Some a" and "code_Used a"
    and "code_ClientID a = rq_ClientID req"
  shows "\<exists>sys'. HandleAuthorizationCode P J ent now s req sys =
      (Inl (InvalidGrant ''code already used; all tokens for this client were revoked''), sys')
    \<and> cut_at now s (code_UserID a) (code_ClientID a) (sys_store sys) (sys_store sys')"
proof -
  obtain secret v where c: "clientForGrant P (ent_salt ent) now ''authorization_code'' req (sys_store sys)
      = (Inr (c\<lparr>client_Secret := secret\<rparr>), (sys_store sys)\<lparr>f_clients := v\<rparr>)" and h: "healthy ((sys_store sys)\<lparr>f_clients := v\<rparr>)"
    using clientForGrant_ok [OF assms(1,3,4,5)] by blast
  obtain st' where r: "consumeCode P now s req ((sys_store sys)\<lparr>f_clients := v\<rparr>) =
      (Inl (InvalidGrant ''code already used; all tokens for this client were revoked''), st')"
    and k: "cut_at now s (code_UserID a) (code_ClientID a) (sys_store sys) st'"
    using consumeCode_replay [OF h, of req a P now s] assms(2,8,9,10) by (auto simp: cut_at_frame)
  have "HandleAuthorizationCode P J ent now s req sys =
      (Inl (InvalidGrant ''code already used; all tokens for this client were revoked''), sys\<lparr>sys_store := st'\<rparr>)"
    by (simp add: HandleAuthorizationCode_def assms(6,7) c r)
  with k show ?thesis by (intro exI [of _ "sys\<lparr>sys_store := st'\<rparr>"]) simp
qed

definition exUsed :: sys where
  "exUsed = exSys\<lparr>sys_store := exStore\<lparr>f_auth_codes := Content [exCode\<lparr>code_Used := True\<rparr>]\<rparr>\<rparr>"

theorem code_replay_witness:
  "\<exists>st'. fst (HandleAuthorizationCode exP exJ exEnt exNow exService exReq exUsed)
      = Inl (InvalidGrant ''code already used; all tokens for this client were revoked'')
    \<and> cut_at exNow exService ''u1'' ''c1'' (sys_store exUsed) st' \<and> list_all token_Revoked (tokens_of st')"
proof -
  have "healthy (sys_store exUsed)" using exStore_healthy by (simp add: exUsed_def)
  moreover have "distinct (map token_ID (tokens_of (sys_store exUsed)))" by code_simp
  moreover have "clients_GetByID (rq_ClientID exReq) (sys_store exUsed) = Inr exClient" by code_simp
  moreover have "client_credentials_ok exP exClient (rq_ClientSecret exReq)" by code_simp
  moreover have "AllowsGrant exClient ''authorization_code''" by code_simp
  moreover have "lookup_by code_Code (codes_of (sys_store exUsed)) (rq_Code exReq) = Some (exCode\<lparr>code_Used := True\<rparr>)" by code_simp
  ultimately obtain sys' where r: "HandleAuthorizationCode exP exJ exEnt exNow exService exReq exUsed
        = (Inl (InvalidGrant ''code already used; all tokens for this client were revoked''), sys')"
      and c: "cut_at exNow exService ''u1'' ''c1'' (sys_store exUsed) (sys_store sys')"
    using code_replay_cuts_off [of exUsed exReq exClient exP "exCode\<lparr>code_Used := True\<rparr>" exJ exEnt exNow exService]
    by (auto simp: exReq_def exCode_def)
  have "tokens_of (sys_store exUsed) = [exToken]" by code_simp
  with c have "list_all token_Revoked (tokens_of (sys_store sys'))"
    by (simp add: cut_at_def exToken_def)
  with r c show ?thesis by auto
qed

text \<open>
  Replaying a rotated refresh token before it expires cuts the grant off in the same way.
\<close>

theorem refresh_replay_cuts_off:
  assumes "healthy (sys_store sys)" and "distinct (map token_ID (tokens_of (sys_store sys)))"
    and "clients_GetByID (rq_ClientID req) (sys_store sys) = Inr c" and "client_credentials_ok P c (rq_ClientSecret req)"
    and "AllowsGrant c ''refresh_token''" and "rq_RefreshToken req \<noteq> ''''"
    and "lookup_by token_ID (tokens_of (sys_store sys)) (rq_RefreshToken req) = Some t" and "token_Revoked t"
    and "\<not> token_IsExpired now t" and "token_ClientID t = rq_ClientID req"
  shows "\<exists>sys'. HandleRefreshToken P J ent now s req sys =
      (Inl (InvalidGrant ''refresh_token has already been used; all tokens for this client were revoked''), sys')
    \<and> cut_at now s (token_UserID t) (token_ClientID t) (sys_store sys) (sys_store sys')"
proof -
  obtain secret v where c: "clientForGrant P (ent_salt ent) now ''refresh_token'' req (sys_store sys)
      = (Inr (c\<lparr>client_Secret := secret\<rparr>), (sys_store sys)\<lparr>f_clients := v\<rparr>)" and h: "healthy ((sys_store sys)\<lparr>f_clients := v\<rparr>)"
    using clientForGrant_ok [OF assms(1,3,4,5)] by blast
  obtain st' where r: "consumeRefresh now s req ((sys_store sys)\<lparr>f_clients := v\<rparr>) =
      (Inl (InvalidGrant ''refresh_token has already been used; all tokens for this client were revoked''), st')"
    and k: "cut_at now s (token_UserID t) (token_ClientID t) (sys_store sys) st'"
    using consumeRefresh_replay [OF h, of req t now s] assms(2,7-10) by (auto simp: cut_at_frame)
  have "HandleRefreshToken P J ent now s req sys =
      (Inl (InvalidGrant ''refresh_token has already been used; all tokens for this client were revoked''), sys\<lparr>sys_store := st'\<rparr>)"
    by (simp add: HandleRefreshToken_def assms(6) c r)
  with k show ?thesis by (intro exI [of _ "sys\<lparr>sys_store := st'\<rparr>"]) simp
qed

definition exRotated :: sys where
  "exRotated = exSys\<lparr>sys_store := exStore\<lparr>f_tokens := Content [exToken\<lparr>token_Revoked := True\<rparr>, exToken\<lparr>token_ID := ''t2''\<rparr>]\<rparr>\<rparr>"

theorem refresh_replay_witness:
  "\<exists>st'. fst (HandleRefreshToken exP exJ exEnt exNow exService exReq exRotated)
      = Inl (InvalidGrant ''refresh_token has already been used; all tokens for this client were revoked'')
    \<and> cut_at exNow exService ''u1'' ''c1'' (sys_store exRotated) st' \<and> list_all token_Revoked (tokens_of st')"
proof -
  have "healthy (sys_store exRotated)" using exStore_healthy by (simp add: exRotated_def)
  moreover have "distinct (map token_ID (tokens_of (sys_store exRotated)))" by code_simp
  moreover have "clients_GetByID (rq_ClientID exReq) (sys_store exRotated) = Inr exClient" by code_simp
  moreover have "client_credentials_ok exP exClient (rq_ClientSecret exReq)" by code_simp
  moreover have "AllowsGrant exClient ''refresh_token''" by code_simp
  moreover have "lookup_by token_ID (tokens_of (sys_store exRotated)) (rq_RefreshToken exReq) = Some (exToken\<lparr>token_Revoked := True\<rparr>)" by code_simp
  moreover have "\<not> token_IsExpired exNow (exToken\<lparr>token_Revoked := True\<rparr>)" by code_simp
  ultimately obtain sys' where r: "HandleRefreshToken exP exJ exEnt exNow exService exReq exRotated
        = (Inl (InvalidGrant ''refresh_token has already been used; all tokens for this client were revoked''), sys')"
      and c: "cut_at exNow exService ''u1'' ''c1'' (sys_store exRotated) (sys_store sys')"
    using refresh_replay_cuts_off [of exRotated exReq exClient exP "exToken\<lparr>token_Revoked := True\<rparr>" exNow exJ exEnt exService]
    by (auto simp: exReq_def exToken_def)
  have "tokens_of (sys_store exRotated) = [exToken\<lparr>token_Revoked := True\<rparr>, exToken\<lparr>token_ID := ''t2''\<rparr>]" by code_simp
  with c have "list_all token_Revoked (tokens_of (sys_store sys'))"
    by (simp add: cut_at_def exToken_def)
  with r c show ?thesis by auto
qed

lemma accessTokenRevoked_D:
  assumes "accessTokenRevoked J tracked c st = Inr b"
  shows "b \<longleftrightarrow> tracked \<and> \<not> IsZero (IssuedAtOf J c) \<and> revoked_in st (cl_ID c) (cl_Subject c) (cl_ClientID c) (IssuedAtOf J c)"
  using assms IsRevoked_revoked_in by (auto simp: accessTokenRevoked_def Let_def split: if_splits)

text \<open>
  C9. Introspection answers \<open>active\<close> exactly for a valid access token that is not revoked and
  whose user is active, or, for what is no valid access token, for a stored refresh token that is
  neither revoked nor expired and whose user is active; everything else is reported inactive and
  with no other detail.
\<close>

theorem introspection_active_iff:
  assumes "introspectToken J now s tok st ks = Inr r"
  shows "(ir_Active r \<longleftrightarrow>
      (case ValidateAccessToken J now (ts_tokenGenerator s) ks tok of
         Inr c \<Rightarrow> userActive (cl_Subject c) st \<and>
           \<not> (ts_revocations s \<and> \<not> IsZero (IssuedAtOf J c)
              \<and> revoked_in st (cl_ID c) (cl_Subject c) (cl_ClientID c) (IssuedAtOf J c))
       | Inl _ \<Rightarrow> (\<exists>t. tokens_GetByID tok st = Inr t \<and> token_IsValid now t \<and> userActive (token_UserID t) st)))
    \<and> (\<not> ir_Active r \<longrightarrow> r = inactive)"
proof (cases "ValidateAccessToken J now (ts_tokenGenerator s) ks tok")
  case (Inl e)
  with assms show ?thesis
    by (auto simp: introspectToken_def inactive_def split: sum.splits if_splits)
next
  case (Inr c)
  then obtain b where b: "accessTokenRevoked J (ts_revocations s) c st = Inr b"
    using assms by (auto simp: introspectToken_def bindR_Inr)
  from accessTokenRevoked_D [OF b] Inr b assms show ?thesis
    by (auto simp: introspectToken_def inactive_def split: if_splits option.splits)
qed

theorem introspection_witness:
  "\<exists>r. introspectToken exJ exNow exService ''AT'' exStore exKeys = Inr r \<and> ir_Active r
     \<and> \<not> (ts_revocations exService \<and> \<not> IsZero (IssuedAtOf exJ exClaims) \<and> revoked_in exStore ''AT'' ''u1'' ''c1'' (IssuedAtOf exJ exClaims))"
proof -
  have "list_ex ir_Active (case introspectToken exJ exNow exService ''AT'' exStore exKeys of Inr r \<Rightarrow> [r] | Inl _ \<Rightarrow> [])"
    by code_simp
  then obtain r where r: "introspectToken exJ exNow exService ''AT'' exStore exKeys = Inr r" "ir_Active r"
    by (auto split: sum.splits)
  have "cl_ID c = ''AT'' \<and> cl_Subject c = ''u1'' \<and> cl_ClientID c = ''c1'' \<and> IssuedAtOf exJ c = IssuedAtOf exJ exClaims"
    if "ValidateAccessToken exJ exNow exGen exKeys ''AT'' = Inr c" for c
  proof -
    have "(case ValidateAccessToken exJ exNow exGen exKeys ''AT'' of
        Inr c \<Rightarrow> cl_ID c = ''AT'' \<and> cl_Subject c = ''u1'' \<and> cl_ClientID c = ''c1'' \<and> IssuedAtOf exJ c = IssuedAtOf exJ exClaims
      | Inl _ \<Rightarrow> True)" by code_simp
    with that show ?thesis by simp
  qed
  moreover have "isOk (ValidateAccessToken exJ exNow exGen exKeys ''AT'')" by code_simp
  ultimately show ?thesis using introspection_active_iff [OF r(1)] r
    by (auto simp: exService_def isOk_iff)
qed

text \<open>What authenticating a client does to the store: at most the upgrade of its own secret, stored in the clear, to a hash.\<close>

lemma authenticateClient_store:
  assumes "authenticateClient P salt now c presented st = (ok, c', st')"
  shows "st' = st \<or> ok \<and> \<not> client_Public c \<and> \<not> IsHashedClientSecret (client_Secret c)
    \<and> (\<exists>h. HashClientSecret P salt presented = Inr h \<and> st' = st\<lparr>f_clients := Content (upd_first (\<lambda>x. client_ID x = client_ID c)
         (\<lambda>_. c\<lparr>client_Secret := h, client_UpdatedAt := now\<rparr>) (clients_of st))\<rparr>)"
proof -
  have up: "snd (clients_Update now x st) = st
      \<or> snd (clients_Update now x st) = st\<lparr>f_clients := Content (upd_first (\<lambda>y. client_ID y = client_ID x) (\<lambda>_. x\<lparr>client_UpdatedAt := now\<rparr>) (clients_of st))\<rparr>" for x
    by (auto simp: clients_Update_def save_clients_def writeFile_def of_load split: sum.splits option.splits)
  have lg: "snd (VerifyClientSecret P (client_Secret c) presented) \<Longrightarrow> \<not> IsHashedClientSecret (client_Secret c)"
    by (auto simp: VerifyClientSecret_def split: if_splits)
  show ?thesis using assms lg up [of "c\<lparr>client_Secret := h\<rparr>" for h]
    by (auto simp: authenticateClient_def Let_def split: prod.splits if_splits sum.splits)
qed

text \<open>
  C32. Revocation is confined to the caller's own tokens: a client that names a refresh token of another client,
  or an access token issued to another client, gets the success the specification prescribes if it is
  authenticated and an \<open>invalid_client\<close> error otherwise, and nothing changes; except that a confidential
  client's own secret that is still stored in the clear may be replaced by its hash.
\<close>

theorem revocation_confined:
  assumes "HandleRevocation P J salt now s req sys = (e, sys')"
    and "\<And>t. lookup_by token_ID (tokens_of (sys_store sys)) (tq_Token req) = Some t \<Longrightarrow> token_ClientID t \<noteq> tq_ClientID req"
    and "\<And>c. ValidateAccessToken J now (ts_tokenGenerator s) (sys_keys sys) (tq_Token req) = Inr c \<Longrightarrow> cl_ClientID c \<noteq> tq_ClientID req"
  shows "(if tq_ClientID req \<noteq> '''' \<and> (\<exists>c. clients_GetByID (tq_ClientID req) (sys_store sys) = Inr c \<and> client_credentials_ok P c (tq_ClientSecret req))
          then e = None else \<exists>m. e = Some (Unauthorized m))
    \<and> (sys' = sys \<or> e = None
        \<and> (\<exists>c h. clients_GetByID (tq_ClientID req) (sys_store sys) = Inr c \<and> \<not> client_Public c \<and> \<not> IsHashedClientSecret (client_Secret c)
             \<and> HashClientSecret P salt (tq_ClientSecret req) = Inr h
             \<and> sys' = sys\<lparr>sys_store := (sys_store sys)\<lparr>f_clients := Content (upd_first (\<lambda>x. client_ID x = tq_ClientID req)
                 (\<lambda>_. c\<lparr>client_Secret := h, client_UpdatedAt := now\<rparr>) (clients_of (sys_store sys)))\<rparr>\<rparr>))"
proof (cases "tq_ClientID req = '''' \<or> (\<exists>e. clients_GetByID (tq_ClientID req) (sys_store sys) = Inl e)")
  case True
  with assms(1) show ?thesis by (auto simp: HandleRevocation_def split: if_splits)
next
  case False
  then obtain c where id: "tq_ClientID req \<noteq> ''''" and c: "clients_GetByID (tq_ClientID req) (sys_store sys) = Inr c"
    by (cases "clients_GetByID (tq_ClientID req) (sys_store sys)") auto
  obtain ok c' st1 where a: "authenticateClient P salt now c (tq_ClientSecret req) (sys_store sys) = (ok, c', st1)"
    by (metis prod_cases3)
  then obtain v where v: "st1 = (sys_store sys)\<lparr>f_clients := v\<rparr>" using authenticateClient_spec(3) [OF a] by blast
  have "token_ClientID t \<noteq> tq_ClientID req" if "tokens_GetByID (tq_Token req) st1 = Inr t" for t
    using tokens_GetByID_D [OF that] v by (intro assms(2)) simp
  with assms(1,3) id c a have r: "sys' = sys\<lparr>sys_store := st1\<rparr>" "if ok then e = None else \<exists>m. e = Some (Unauthorized m)"
    by (auto simp: HandleRevocation_def split: bool.splits sum.splits option.splits if_splits)
  have ck: "ok \<longleftrightarrow> client_credentials_ok P c (tq_ClientSecret req)" by (rule authenticateClient_spec(1) [OF a])
  have "client_ID c = tq_ClientID req" using clients_GetByID_D [OF c] by simp
  then show ?thesis using authenticateClient_store [OF a] r ck id c by auto
qed

definition exOther :: token_query where
  "exOther = \<lparr>tq_Token = ''t'', tq_TokenTypeHint = '''', tq_ClientID = ''c2'', tq_ClientSecret = ''''\<rparr>"

definition exTwoClients :: sys where
  "exTwoClients = exSys\<lparr>sys_store := exStore\<lparr>f_clients := Content [exClient, exClient\<lparr>client_ID := ''c2''\<rparr>]\<rparr>\<rparr>"

theorem revocation_confined_witness:
  "tokens_of (sys_store (snd (HandleRevocation exP exJ (Inr ''salt'') exNow exService exOther exTwoClients))) = [exToken]
   \<and> fst (HandleRevocation exP exJ (Inr ''salt'') exNow exService exOther exTwoClients) = None"
proof -
  obtain e sys' where h: "HandleRevocation exP exJ (Inr ''salt'') exNow exService exOther exTwoClients = (e, sys')" by force
  have "lookup_by token_ID (tokens_of (sys_store exTwoClients)) (tq_Token exOther) = Some exToken" by code_simp
  moreover have "\<not> isOk (ValidateAccessToken exJ exNow (ts_tokenGenerator exService) (sys_keys exTwoClients) (tq_Token exOther))" by code_simp
  moreover have "clients_GetByID (tq_ClientID exOther) (sys_store exTwoClients) = Inr (exClient\<lparr>client_ID := ''c2''\<rparr>)"
    "client_credentials_ok exP (exClient\<lparr>client_ID := ''c2''\<rparr>) (tq_ClientSecret exOther)" by code_simp+
  moreover have "tokens_of (sys_store exTwoClients) = [exToken]" by code_simp
  ultimately show ?thesis using revocation_confined [OF h] h by (auto simp: isOk_iff exToken_def exOther_def)
qed

text \<open>
  C10. Once an access token is revoked by a row that is kept until \<open>t\<close>, it stays revoked through
  every run in which no maintenance happens at or after \<open>t\<close>: no request ever weakens a revocation,
  and maintenance only drops a row after it has expired.
\<close>

theorem revocation_survives:
  assumes "steps P J s sys tr sys'" and "revoked_until (sys_store sys) jti u c iat t"
    and "\<forall>e \<in> set tr. \<not> purges_at t (fst e)"
  shows "revoked_until (sys_store sys') jti u c iat t"
  using path_invariant [OF path_restrict [OF assms(1,3)], where I = "\<lambda>sys. revoked_until (sys_store sys) jti u c iat t"]
    assms(2) serve_revoked [of P J s]
  by (metis (no_types, lifting) serve_step_def prod.collapse)

definition exRevoked :: sys where
  "exRevoked = exSys\<lparr>sys_store := snd (revokeGrant exNow exService ''u1'' ''c1'' exStore)\<rparr>"

definition exLater :: "call list" where
  "exLater = [CallMaintenance exKeygen ''id'' (exNow + 24 * hour) (NewRunner False), CallCode exEnt (exNow + 25 * hour) exReq]"

theorem revocation_survives_witness:
  "revoked_until (sys_store (snd (serve_all exP exJ exService exLater exRevoked)))
     ''AT'' ''u1'' ''c1'' exNow (exNow + 7 * (24 * hour))"
proof -
  have "revoked_until (sys_store exRevoked) ''AT'' ''u1'' ''c1'' exNow (exNow + 7 * (24 * hour))" by code_simp
  moreover have "\<forall>e \<in> set (fst (serve_all exP exJ exService exLater exRevoked)). \<not> purges_at (exNow + 7 * (24 * hour)) (fst e)"
    by (simp add: exLater_def case_prod_beta)
  ultimately show ?thesis by (rule revocation_survives [OF serve_all_steps])
qed

text \<open>
  C21. A code handed out by the authorization endpoint is redeemable: the client it was issued to,
  authenticated and with the redirect URI of the request and the verifier of its challenge, gets
  tokens for it before it expires, on a healthy store whose user is still active and whose signing
  key signs.
\<close>

theorem issued_code_redeems:
  assumes issue: "CreateAuthCode uuid t0 ttl areq u at amr (sys_store sys) = (Inr a, st1)"
    and "healthy (sys_store sys)" and "lookup_by code_Code (codes_of (sys_store sys)) uuid = None" and "uuid \<noteq> ''''"
    and "clients_GetByID (ar_ClientID areq) (sys_store sys) = Inr c" and "AllowsGrant c ''authorization_code''"
    and "client_credentials_ok P c (rq_ClientSecret req)"
    and "users_GetByID u (sys_store sys) = Inr user" and "user_Active user" and "ar_RedirectURI areq \<noteq> ''''"
    and "rq_Code req = uuid" and "rq_ClientID req = ar_ClientID areq" and "rq_RedirectURI req = ar_RedirectURI areq"
    and "ValidateCodeVerifier P (rq_CodeVerifier req) (ar_CodeChallenge areq) (ar_CodeChallengeMethod areq)"
    and "now \<le> t0 + ttl"
    and "signingKey now (ts_tokenGenerator s) (sys_keys sys) = (Inr key, ks1)" and "signs J key"
  shows "\<exists>resp sys'. HandleAuthorizationCode P J ent now s req (sys\<lparr>sys_store := st1\<rparr>) = (Inr resp, sys')
    \<and> tr_Scope resp = ar_Scope areq"
proof -
  have st1: "st1 = (sys_store sys)\<lparr>f_auth_codes := Content (codes_of (sys_store sys) @ [a])\<rparr>"
    and a: "code_Code a = uuid" "\<not> code_Used a" "code_ExpiresAt a = t0 + ttl" "code_ClientID a = ar_ClientID areq"
      "code_RedirectURI a = ar_RedirectURI areq" "code_CodeChallenge a = ar_CodeChallenge areq"
      "code_CodeChallengeMethod a = ar_CodeChallengeMethod areq" "code_UserID a = u" "code_Scope a = ar_Scope areq"
    using issue assms(2)
    by (auto simp: CreateAuthCode_def codes_Create_def healthy_of save_healthy Let_def)
  have look: "lookup_by code_Code (codes_of st1) uuid = Some a"
    using assms(3) a(1) by (simp add: st1 lookup_by_def find_append)
  have "\<exists>resp sys'. HandleAuthorizationCode P J ent now s req (sys\<lparr>sys_store := st1\<rparr>) = (Inr resp, sys')"
    using assms look a by (intro HandleAuthorizationCode_ok [where a = a and c = c and user = user and key = key and ksa = ks1])
      (simp_all add: st1 clients_GetByID_def users_GetByID_def code_IsExpired_def)
  then obtain resp sys' where r: "HandleAuthorizationCode P J ent now s req (sys\<lparr>sys_store := st1\<rparr>) = (Inr resp, sys')" by blast
  from HandleAuthorizationCode_Inr [OF this] look a(9) assms(11) have "tr_Scope resp = ar_Scope areq"
    using generateTokens_cases(2) by fastforce
  with r show ?thesis by blast
qed

definition exAuthorize :: authorize_request where
  "exAuthorize = \<lparr>ar_ClientID = ''c1'', ar_RedirectURI = ''r'', ar_ResponseType = ''code'', ar_Scope = ''openid'', ar_State = '''',
     ar_Nonce = '''', ar_CodeChallenge = RawURLEncoding_EncodeToString ''v'', ar_CodeChallengeMethod = ''S256'', ar_Prompt = [],
     ar_MaxAge = -1, ar_maxAge_raw = '''', ar_hasRequest = False, ar_hasRequestURI = False, ar_hasRegistration = False\<rparr>"

definition exAnySigner :: jwtlib where
  "exAnySigner = exJ\<lparr>jwt_sign := (\<lambda>alg priv kid obj. Inr kid)\<rparr>"

theorem issued_code_redeems_witness:
  "\<exists>resp sys'. HandleAuthorizationCode exP exAnySigner exEnt exNow exService (exReq\<lparr>rq_Code := ''k2''\<rparr>)
      (exSys\<lparr>sys_store := snd (CreateAuthCode ''k2'' exNow minute exAuthorize ''u1'' exNow [''pwd''] exStore)\<rparr>) = (Inr resp, sys')
    \<and> tr_Scope resp = ''openid''"
proof -
  obtain a where a: "CreateAuthCode ''k2'' exNow minute exAuthorize ''u1'' exNow [''pwd''] exStore =
      (Inr a, snd (CreateAuthCode ''k2'' exNow minute exAuthorize ''u1'' exNow [''pwd''] exStore))"
    using exStore_healthy by (auto simp: CreateAuthCode_def codes_Create_def healthy_of save_healthy Let_def)
  have "isOk (fst (signingKey exNow exGen exKeys))" by code_simp
  then obtain key ks1 where key: "signingKey exNow exGen exKeys = (Inr key, ks1)" by (metis isOk_iff prod.collapse)
  have "lookup_by code_Code (codes_of exStore) ''k2'' = None" by code_simp
  moreover have "clients_GetByID ''c1'' exStore = Inr exClient" "users_GetByID ''u1'' exStore = Inr exUser" by code_simp+
  moreover have "client_credentials_ok exP exClient ''''" "AllowsGrant exClient ''authorization_code''" by code_simp+
  moreover have "ValidateCodeVerifier exP ''v'' (ar_CodeChallenge exAuthorize) (ar_CodeChallengeMethod exAuthorize)" by code_simp
  moreover have "signs exAnySigner key" by (simp add: signs_def exAnySigner_def)
  ultimately show ?thesis
    using issued_code_redeems [where sys = exSys and areq = exAuthorize and c = exClient and user = exUser
        and req = "exReq\<lparr>rq_Code := ''k2''\<rparr>" and P = exP and uuid = "''k2''" and J = exAnySigner and s = exService, simplified exSys_def sys.simps, OF a exStore_healthy]
      key by (simp add: exReq_def exAuthorize_def exService_def exUser_def exSys_def)
qed

end
