(* ===== verification/AuthzProps.thy ===== *)
theory AuthzProps
  imports Example
begin

text \<open>
  What the authorization endpoint promises: which requests it accepts, which errors may be sent
  to the redirect URI, when a session is too old, and what a consent covers.
\<close>

text \<open>
  C14. An authorization request is accepted exactly when its client is registered, its redirect URI
  is one of that client's, it carries no request object, request URI or registration, its
  \<open>max_age\<close> is absent or a non-negative integer, and the remaining rules hold: \<open>prompt=none\<close> stands
  alone, the response type is \<open>code\<close>, the client may use the grant, the scope contains \<open>openid\<close> and
  nothing the client was not given, and PKCE is present for a public client and always S256.
\<close>

theorem authorize_accepts_iff:
  "(\<exists>cl req'. ValidateClient req st = (Inr cl, req')) \<longleftrightarrow>
   (\<exists>cl. clients_GetByID (ar_ClientID req) st = Inr cl \<and> ar_RedirectURI req \<in> set (client_RedirectURIs cl)
      \<and> \<not> ar_hasRequest req \<and> \<not> ar_hasRequestURI req \<and> \<not> ar_hasRegistration req
      \<and> (ar_maxAge_raw req = '''' \<or> (\<exists>n. Atoi (ar_maxAge_raw req) = Inr n \<and> 0 \<le> n))
      \<and> \<not> (HasPrompt req ''none'' \<and> length (ar_Prompt req) > 1) \<and> ar_ResponseType req = ''code''
      \<and> AllowsGrant cl ''authorization_code'' \<and> ''openid'' \<in> set (Scopes req)
      \<and> set (Scopes req) \<subseteq> set (client_Scopes cl)
      \<and> (client_Public cl \<longrightarrow> ar_CodeChallenge req \<noteq> '''')
      \<and> (ar_CodeChallenge req \<noteq> '''' \<longrightarrow> ar_CodeChallengeMethod req = ''S256''))" (is "?ok \<longleftrightarrow> (\<exists>cl. ?cond cl)")
proof
  assume ?ok
  then obtain cl req' where "ValidateClient req st = (Inr cl, req')" by blast
  from ValidateClient_Inr [OF this] have "?cond cl"
    by (auto simp: validate_rest_None dest: parse_max_age_Inr)
  then show "\<exists>cl. ?cond cl" by blast
next
  assume "\<exists>cl. ?cond cl"
  then obtain cl where c: "?cond cl" by blast
  then have "\<exists>req'. parse_max_age req = Inr req'"
    by (cases "ar_maxAge_raw req = []") (auto simp: parse_max_age_def)
  then obtain req' where p: "parse_max_age req = Inr req'" by blast
  with parse_max_age_Inr [OF p] have "validate_rest cl req' = validate_rest cl req" by auto
  moreover have "validate_rest cl req = None" using c by (simp add: validate_rest_None)
  ultimately have "ValidateClient req st = (Inr cl, req')" using c p by (auto simp: ValidateClient_def list_ex_iff)
  then show ?ok by blast
qed

definition exAuthz :: authorize_request where
  "exAuthz = \<lparr>ar_ClientID = ''c1'', ar_RedirectURI = ''evil'', ar_ResponseType = ''token'', ar_Scope = ''openid'', ar_State = '''',
     ar_Nonce = '''', ar_CodeChallenge = '''', ar_CodeChallengeMethod = '''', ar_Prompt = [],
     ar_MaxAge = -1, ar_maxAge_raw = '''', ar_hasRequest = False, ar_hasRequestURI = False, ar_hasRegistration = False\<rparr>"

theorem authorize_accepts_iff_witness:
  "\<not> (\<exists>cl req'. ValidateClient exAuthz exStore = (Inr cl, req'))
   \<and> (\<exists>cl req'. ValidateClient (exAuthz\<lparr>ar_RedirectURI := ''r'', ar_ResponseType := ''code'', ar_CodeChallenge := ''x'',
        ar_CodeChallengeMethod := ''S256''\<rparr>) exStore = (Inr cl, req'))"
proof -
  have c: "clients_GetByID ''c1'' exStore = Inr exClient" by code_simp
  moreover have "Fields ''openid'' = [''openid'']" by code_simp
  moreover have "AllowsGrant exClient ''authorization_code''" by code_simp
  ultimately show ?thesis unfolding authorize_accepts_iff
    by (simp add: exAuthz_def exClient_def Scopes_def HasPrompt_def)
qed

text \<open>
  A rejected request is answered with an error on the redirect URI only when the client is
  registered and the URI is one of its own; in every other case the error stays with the server, so
  an unregistered URI is never redirected to.
\<close>

theorem redirect_errors_safe:
  assumes "ValidateClient req st = (Inl e, req')"
  shows "is_redirect e \<longleftrightarrow>
    (\<exists>cl. clients_GetByID (ar_ClientID req) st = Inr cl \<and> ar_RedirectURI req \<in> set (client_RedirectURIs cl))"
  using ValidateClient_Inl [OF assms] .

theorem redirect_errors_safe_witness:
  "\<exists>e req'. ValidateClient exAuthz exStore = (Inl e, req') \<and> \<not> is_redirect e"
proof -
  have "isl (fst (ValidateClient exAuthz exStore))" by code_simp
  then obtain e req' where e: "ValidateClient exAuthz exStore = (Inl e, req')" by (metis isl_def prod.collapse)
  moreover have "clients_GetByID ''c1'' exStore = Inr exClient" by code_simp
  ultimately show ?thesis using redirect_errors_safe [OF e] by (auto simp: exAuthz_def exClient_def)
qed

text \<open>
  Below the overflow of \<open>time.Duration\<close>, a session is too old exactly when the prompt asks for a
  login or an account choice, or a \<open>max_age\<close> was given and the login is unknown or older than it.
\<close>

lemma fresh_login_iff:
  assumes "ar_MaxAge r * second < 2 ^ 63 - 1"
  shows "RequiresFreshLogin now r authTime \<longleftrightarrow>
    HasPrompt r ''login'' \<or> HasPrompt r ''select_account''
    \<or> (0 \<le> ar_MaxAge r \<and> (IsZero authTime \<or> ar_MaxAge r * second < now - authTime))"
  using RequiresFreshLogin_iff [OF assms] .

text \<open>
  Above the overflow the comparison goes wrong: a \<open>max_age\<close> of 9223372037 seconds, which
  \<open>strconv.Atoi\<close> accepts, wraps to a negative duration, and a login that has only just happened is
  already too old for it.
\<close>

lemma max_age_overflow:
  "Atoi ''9223372037'' = Inr 9223372037 \<and> RequiresFreshLogin exNow (exAuthz\<lparr>ar_MaxAge := 9223372037\<rparr>) exNow"
  by (simp add: RequiresFreshLogin_def HasPrompt_def exAuthz_def time_Sub_def wrap64_def Atoi_def decimal_def is_digit_def)

lemma Grant_load: "Grant uuid now u c scopes st = (None, st') \<Longrightarrow> \<exists>cs. load_consents st' = Inr cs"
  by (auto simp: Grant_def consents_Upsert_def save_consents_def writeFile_def Let_def split: sum.splits option.splits if_splits)

text \<open>
  A consent that was granted covers the scopes granted and everything granted to the same client
  before, nothing else, and leaves the consents of other users and clients as they were.
\<close>

lemma grant_covers:
  assumes g: "Grant uuid now u (client_ID cl) scopes st = (None, st')"
  shows "IsGranted u cl want st' = Inr (client_SkipConsent cl \<or> set want \<subseteq> granted_scopes st u (client_ID cl) \<union> set scopes)
    \<and> (\<forall>u' c'. (u', c') \<noteq> (u, client_ID cl) \<longrightarrow> granted_scopes st' u' c' = granted_scopes st u' c')"
proof -
  obtain cs where "load_consents st' = Inr cs" using Grant_load [OF g] by blast
  then have "\<exists>b. IsGranted u cl want st' = Inr b"
    by (simp add: IsGranted_def consents_Get_def split: option.split) blast
  then obtain b where b: "IsGranted u cl want st' = Inr b" by blast
  obtain con where con: "consents_Upsert uuid now con st = (None, st')" "consent_UserID con = u" "consent_ClientID con = client_ID cl"
    using g by (simp add: Grant_def split: sum.splits if_splits)
  have "consent_at st' u (client_ID cl) \<noteq> None"
    using consents_Upsert_at(1) [OF con(1)] con(2,3) by auto
  with IsGranted_iff [OF b] b Grant_scopes [OF g] show ?thesis by auto
qed

end
