(* ===== verification/KeyProps.thy ===== *)
theory KeyProps
  imports Example
begin

text \<open>
  What the key service and the token generator promise: one active key through every rotation, a
  grace period for the key that was replaced, and tokens that verify for exactly their lifetime.
\<close>

text \<open>
  C22. A rotation that succeeds leaves a well-formed key file with exactly one active key, the new
  one, which has the configured algorithm and no expiry; the other keys are kept.
\<close>

theorem rotation_one_active:
  assumes r: "RotateKey g now grace s = (Inr k, s')" and wf: "keys_wf (keys_of (ks_repo s))"
    and "gen_kid g \<notin> kp_Kid ` set (kd_Keys (keys_of (ks_repo s)))" and "gen_kid g \<noteq> ''''"
  shows "keys_wf (keys_of (ks_repo s'))
    \<and> filter kp_Active (kd_Keys (keys_of (ks_repo s'))) = [json_keypair k]
    \<and> kp_Alg k = ks_algorithm s \<and> kp_Kid k = gen_kid g \<and> IsZero (kp_ExpiresAt k)
    \<and> kp_Kid ` set (kd_Keys (keys_of (ks_repo s'))) = insert (gen_kid g) (kp_Kid ` set (kd_Keys (keys_of (ks_repo s))))"
proof -
  note ok = RotateKey_Ok [OF r wf assms(3)]
  note gen = GenerateKeyPairForAlg_Ok [OF ok(3)]
  have kf: "keys_of (ks_repo s') =
      \<lparr>kd_Keys = map (retire now grace (kd_ActiveKid (keys_of (ks_repo s)))) (kd_Keys (keys_of (ks_repo s))) @ [json_keypair k],
       kd_ActiveKid = gen_kid g\<rparr>"
    using keys_load_of [OF ok(1)] .
  have "\<not> kp_Active (retire now grace (kd_ActiveKid (keys_of (ks_repo s))) x)" if "x \<in> set (kd_Keys (keys_of (ks_repo s)))" for x
    using that wf by (auto simp: retire_def keys_wf_def)
  then have "filter kp_Active (kd_Keys (keys_of (ks_repo s'))) = [json_keypair k]"
    using gen(3) by (simp add: kf filter_empty_conv)
  moreover have "kp_Kid (retire now grace i x) = kp_Kid x" for i x by (simp add: retire_def)
  then have "kp_Kid ` set (kd_Keys (keys_of (ks_repo s'))) = insert (gen_kid g) (kp_Kid ` set (kd_Keys (keys_of (ks_repo s))))"
    using gen(1) by (simp add: kf image_image)
  ultimately show ?thesis using RotateKey_wf [OF assms] gen by simp
qed

lemma exKeys_wf: "keys_wf (keys_of (ks_repo exKeys))"
  by (simp add: keys_wf_def keys_of_def keys_load_def exKeys_def exKeyFile_def exKey_def IsZero_def json_keypair_def)

lemma exRotate: "\<exists>k s'. RotateKey exKeygen exNow hour exKeys = (Inr k, s')"
proof -
  have "isOk (fst (RotateKey exKeygen exNow hour exKeys))" by code_simp
  then show ?thesis by (metis isOk_iff prod.collapse)
qed

lemma exFresh: "gen_kid exKeygen \<notin> kp_Kid ` set (kd_Keys (keys_of (ks_repo exKeys)))" "gen_kid exKeygen \<noteq> ''''"
  by code_simp+

theorem rotation_one_active_witness:
  "\<exists>k s'. RotateKey exKeygen exNow hour exKeys = (Inr k, s') \<and> keys_wf (keys_of (ks_repo s'))
     \<and> kp_Kid ` set (kd_Keys (keys_of (ks_repo s'))) = {''kid'', ''kid2''}"
proof -
  obtain k s' where r: "RotateKey exKeygen exNow hour exKeys = (Inr k, s')" using exRotate by blast
  have "gen_kid exKeygen = ''kid2''" "kp_Kid ` set (kd_Keys (keys_of (ks_repo exKeys))) = {''kid''}" by code_simp+
  with rotation_one_active [OF r exKeys_wf exFresh] r show ?thesis by auto
qed

text \<open>
  C23. A rotated key keeps verifying for the grace period: until then it is published in the JWKS and
  found with its public key, unexpired; after it, it is expired and no longer published.
\<close>

theorem rotation_grace:
  assumes "RotateKey g now grace s = (Inr k, s')" and "keys_wf (keys_of (ks_repo s))"
    and "gen_kid g \<notin> kp_Kid ` set (kd_Keys (keys_of (ks_repo s)))"
    and "keys_GetActive (ks_repo s) = Inr old" and "LoadFromPEM old = Inr loaded" and "\<not> IsZero (now + grace)"
  shows "(t \<le> now + grace \<longrightarrow> (\<exists>js. GetJWKS t s' = Inr js \<and> ToJWK loaded \<in> set js))
    \<and> (now + grace < t \<longrightarrow> (\<forall>js. GetJWKS t s' = Inr js \<longrightarrow> kp_Kid old \<notin> jwk_Kid ` set js))
    \<and> (\<exists>key. GetKeyByID (kp_Kid old) s' = Inr key \<and> kp_PublicKey key = kp_PublicKey loaded
           \<and> (kp_IsExpired t key \<longleftrightarrow> now + grace < t))"
  using RotateKey_grace [OF assms] by blast

theorem rotation_grace_witness:
  "\<exists>k s' js. RotateKey exKeygen exNow hour exKeys = (Inr k, s') \<and> GetJWKS (exNow + minute) s' = Inr js \<and> ToJWK exKey \<in> set js"
proof -
  obtain k s' where r: "RotateKey exKeygen exNow hour exKeys = (Inr k, s')" using exRotate by blast
  have "keys_GetActive (ks_repo exKeys) = Inr (json_keypair exKey)" by code_simp
  moreover have "LoadFromPEM (json_keypair exKey) = Inr exKey" by code_simp
  moreover have "\<not> IsZero (exNow + hour)" by code_simp
  ultimately show ?thesis using rotation_grace [OF r exKeys_wf exFresh(1), of _ exKey "exNow + minute"] r by auto
qed

text \<open>
  When the generation of the new key fails, the rotation has already rewritten the key it meant
  to retire: that key stays the active one, but now carries an expiry, so once the grace period has
  passed tokens signed with the active key no longer verify.
\<close>

lemma failed_rotation_expires_active:
  assumes "keys_wf (keys_of (ks_repo s))" and old: "keys_GetActive (ks_repo s) = Inr old" and "kf_write_err (ks_repo s) = None"
    and gen: "GenerateKeyPairForAlg g now (ks_algorithm s) = Inl e" and "\<not> IsZero (now + grace)" and "now + grace < t"
  shows "\<exists>s' k. RotateKey g now grace s = (Inl (Wrapped ''failed to generate key'' e), s')
    \<and> keys_GetActive (ks_repo s') = Inr k \<and> kp_Kid k = kp_Kid old \<and> kp_IsExpired t k"
proof -
  let ?new = "old\<lparr>kp_Active := False, kp_ExpiresAt := now + grace\<rparr>"
  obtain kd where kd: "keys_load (ks_repo s) = Inr kd" using old by (auto simp: keys_GetActive_def split: sum.splits)
  note o = keys_GetActive_D [OF old, unfolded keys_load_of [OF kd]]
  have dist: "distinct (map kp_Kid (kd_Keys kd))" using assms(1) by (simp add: keys_wf_def keys_load_of [OF kd])
  have f: "find (\<lambda>k. kp_Kid k = kp_Kid old) (kd_Keys kd) = Some old"
    using find_key_distinct [OF dist conjunct1 [OF o]] .
  let ?kd = "kd\<lparr>kd_Keys := map json_keypair (upd_first (\<lambda>k. kp_Kid k = kp_Kid old) (\<lambda>_. ?new) (kd_Keys kd))\<rparr>"
  have sv: "keys_Save ?new (ks_repo s) = (None, (ks_repo s)\<lparr>kf_data := Content ?kd\<rparr>)"
    by (simp add: keys_Save_def kd f keys_save_def assms(3))
  have "kd_ActiveKid kd \<noteq> ''''" using old kd by (auto simp: keys_GetActive_def)
  moreover have "find (\<lambda>k. kp_Kid k = kp_Kid old) (kd_Keys ?kd) = Some (json_keypair ?new)"
    using f by (simp add: find_map_same find_upd_first_same)
  ultimately have "keys_GetActive ((ks_repo s)\<lparr>kf_data := Content ?kd\<rparr>) = Inr (json_keypair ?new)"
    using o by (simp add: keys_GetActive_def keys_load_def)
  moreover have "kp_IsExpired t (json_keypair ?new)" using assms(5,6) by (simp add: kp_IsExpired_def)
  moreover have "RotateKey g now grace s = (Inl (Wrapped ''failed to generate key'' e),
      s\<lparr>ks_repo := (ks_repo s)\<lparr>kf_data := Content ?kd\<rparr>\<rparr>)"
    by (simp add: RotateKey_def old sv saveAndActivate_def gen)
  ultimately show ?thesis by (intro exI [of _ "s\<lparr>ks_repo := (ks_repo s)\<lparr>kf_data := Content ?kd\<rparr>\<rparr>"] exI [of _ "json_keypair ?new"]) simp
qed

text \<open>
  The cleanup removes exactly the keys that are expired and not active, and keeps the key file
  well formed, so the active key always survives.
\<close>

lemma cleanup_keeps_active:
  assumes "CleanupExpiredKeys now s = (None, s')" and "keys_wf (keys_of (ks_repo s))"
  shows "kd_Keys (keys_of (ks_repo s')) = filter (\<lambda>k. kp_Active k \<or> \<not> kp_IsExpired now k) (kd_Keys (keys_of (ks_repo s)))
    \<and> kd_ActiveKid (keys_of (ks_repo s')) = kd_ActiveKid (keys_of (ks_repo s)) \<and> keys_wf (keys_of (ks_repo s'))"
  using CleanupExpiredKeys_Ok [OF assms] by simp

text \<open>
  A generated key survives the key file: what is written (PEM blocks, no key objects) is read
  back as the same key pair.
\<close>

lemma key_file_roundtrip:
  assumes "GenerateKeyPairForAlg g now alg = Inr k" and "keygen_ok g" and "keys_Save k kf = (None, kf')"
    and "distinct (map kp_Kid (kd_Keys (keys_of kf)))"
  shows "\<exists>stored. keys_GetByID (kp_Kid k) kf' = Inr stored \<and> LoadFromPEM stored = Inr k"
proof -
  let ?ks = "kd_Keys (keys_of kf)"
  note sv = keys_Save_Ok [OF assms(3,4)]
  have "find (\<lambda>x. kp_Kid x = kp_Kid k) (map json_keypair (if kp_Kid k \<in> kp_Kid ` set ?ks
      then map (\<lambda>x. if kp_Kid x = kp_Kid k then k else x) ?ks else ?ks @ [k])) = Some (json_keypair k)"
  proof (cases "kp_Kid k \<in> kp_Kid ` set ?ks")
    case True
    then have "find (\<lambda>x. kp_Kid x = kp_Kid k) (map (\<lambda>x. if kp_Kid x = kp_Kid k then k else x) xs) = Some k"
      if "kp_Kid k \<in> kp_Kid ` set xs" for xs
      using that by (induction xs) auto
    from this [OF True] True show ?thesis by (subst find_map_same) simp_all
  next
    case False
    then have "find (\<lambda>x. kp_Kid x = kp_Kid k) (map json_keypair ?ks) = None" by (force simp: find_None_iff image_iff)
    with False show ?thesis by (simp add: find_append)
  qed
  with sv have "keys_GetByID (kp_Kid k) kf' = Inr (json_keypair k)" by (simp add: keys_GetByID_def)
  with LoadFromPEM_generated [OF assms(1,2)] show ?thesis by blast
qed

text \<open>
  Claims survive the wire: decoding the JSON object a set of claims is encoded to gives the same
  claims back, given whole-second times and extra claims that do not shadow a known one.
\<close>

theorem claims_roundtrip:
  assumes "\<forall>k \<in> set knownClaims. cl_Extra c k = None"
    and "whole_seconds (cl_ExpiresAt c)" and "whole_seconds (cl_NotBefore c)" and "whole_seconds (cl_IssuedAt c)"
  shows "UnmarshalJSON (MarshalJSON c) = Inr c"
  using Unmarshal_Marshal [OF assms] .

theorem claims_roundtrip_witness: "UnmarshalJSON (MarshalJSON (SetExtra ''nonce'' (JString ''n'') exClaims)) =
    Inr (SetExtra ''nonce'' (JString ''n'') exClaims)"
  by (rule claims_roundtrip) (simp_all add: knownClaims_def SetExtra_def exClaims_def whole_seconds_def exNow_def)

text \<open>
  C25. An access token is good for exactly its lifetime: from five minutes before it was issued until
  the whole second it expires in, a validator that knows the signing key reads back the subject,
  scope and client it was issued for; from then on it refuses it.
\<close>

theorem access_token_lifetime:
  assumes gen: "GenerateAccessToken J now jti g sub ttl scope client ks = (Inr (tok, xp), ks')"
    and key: "signingKey now g ks = (Inr key, ks')" and ver: "verifiable t g ks2 key"
    and sb: "signs_back J key (MarshalJSON (register J now jti g sub client ttl (empty_claims\<lparr>cl_Scope := scope, cl_ClientID := client\<rparr>)))"
    and "date_law J" and "time_claims_law J" and "client \<noteq> ''''"
  shows "xp = now + ttl
    \<and> (now - 5 * minute \<le> t \<and> t < second * (xp div second) \<longrightarrow>
        (\<exists>c. ValidateAccessToken J t g ks2 tok = Inr c \<and> cl_Subject c = sub \<and> cl_Scope c = scope \<and> cl_ClientID c = client
           \<and> cl_Audience c = [client] \<and> cl_ID c = jti))
    \<and> (second * (xp div second) \<le> t \<longrightarrow> (\<exists>e. ValidateAccessToken J t g ks2 tok = Inl e))"
proof -
  let ?c = "empty_claims\<lparr>cl_Scope := scope, cl_ClientID := client\<rparr>"
  let ?r = "register J now jti g sub client ttl ?c"
  have for_client: "GenerateIDTokenFor J now jti g sub client ttl ?c ks = (Inr (tok, xp), ks')"
    using gen assms(7) by (simp add: GenerateAccessToken_def GenerateAccessTokenWithClaims_def GenerateIDToken_def)
  have xp: "xp = now + ttl" using GenerateIDTokenFor_Inr [OF for_client] by blast
  have exp: "NewNumericDate J (now + ttl) = second * (xp div second)" using assms(5) xp by (simp add: date_law_def)
  note pg = parse_generated [OF for_client key ver sb assms(5,6)]
  have "parse J t g ks2 False tok = Inr ?r" if "now - 5 * minute \<le> t \<and> t < second * (xp div second)"
    using pg(1) [of False] that exp by (simp add: empty_claims_def)
  then have "ValidateAccessToken J t g ks2 tok = Inr ?r" if "now - 5 * minute \<le> t \<and> t < second * (xp div second)"
    using that assms(7) by (simp add: ValidateAccessToken_def ParseToken_def)
  moreover have "\<exists>e. ValidateAccessToken J t g ks2 tok = Inl e" if "second * (xp div second) \<le> t"
    using pg(2) that exp by (auto simp: empty_claims_def ValidateAccessToken_def ParseToken_def)
  ultimately show ?thesis using xp by auto
qed

lemma exRegister: "register exJ exNow ''AT'' exGen ''u1'' ''c1'' (900 * second)
    (empty_claims\<lparr>cl_Scope := ''openid offline_access'', cl_ClientID := ''c1''\<rparr>) = exClaims"
  by (simp add: register_def exJ_def exGen_def empty_claims_def exClaims_def exNow_def)

lemma exSigning: "\<exists>ks'. signingKey exNow exGen exKeys = (Inr exKey, ks')"
proof -
  have "fst (signingKey exNow exGen exKeys) = Inr exKey" by code_simp
  then show ?thesis by (metis prod.collapse)
qed

lemma exVerifiable: "verifiable t exGen exKeys exKey"
proof -
  have "GetKeyByID ''kid'' exKeys = Inr exKey" "signingMethodFor (kp_Alg exKey) = kp_Alg exKey" by code_simp+
  then show ?thesis by (simp add: verifiable_def exGen_def exKey_def kp_IsExpired_def IsZero_def)
qed

theorem access_token_lifetime_witness:
  "\<exists>tok xp ks'. GenerateAccessToken exJ exNow ''AT'' exGen ''u1'' (900 * second) ''openid offline_access'' ''c1'' exKeys = (Inr (tok, xp), ks')
     \<and> (\<exists>c. ValidateAccessToken exJ (exNow + minute) exGen exKeys tok = Inr c \<and> cl_Subject c = ''u1'')
     \<and> (\<exists>e. ValidateAccessToken exJ (exNow + 900 * second) exGen exKeys tok = Inl e)"
proof -
  obtain ks' where k: "signingKey exNow exGen exKeys = (Inr exKey, ks')" using exSigning by blast
  have sb: "signs_back exJ exKey (MarshalJSON exClaims)"
  proof -
    have "MarshalJSON exClaims ''jti'' = Some (JString ''AT'')" by code_simp
    then show ?thesis by (simp add: signs_back_def exJ_def exKey_def signingMethodFor_def AlgRS256_def AlgEdDSA_def)
  qed
  have "isOk (fst (GenerateAccessToken exJ exNow ''AT'' exGen ''u1'' (900 * second) ''openid offline_access'' ''c1'' exKeys))" by code_simp
  then obtain tok xp ks'' where g: "GenerateAccessToken exJ exNow ''AT'' exGen ''u1'' (900 * second) ''openid offline_access'' ''c1'' exKeys
      = (Inr (tok, xp), ks'')" by (metis isOk_iff prod.collapse)
  then have "ks'' = ks'" using k by (auto simp: GenerateAccessToken_def GenerateAccessTokenWithClaims_def GenerateIDToken_def
        GenerateIDTokenFor_def Let_def split: sum.splits)
  note g' = g [unfolded this]
  note lt = access_token_lifetime [OF g' k exVerifiable _ exLaws, unfolded exRegister, OF sb]
  have "xp = exNow + 900 * second" using lt [of "exNow"] by simp
  then show ?thesis using lt [of "exNow + minute"] lt [of "exNow + 900 * second"] g by (auto simp: exNow_def)
qed

lemma gc_Apply_ClientID:
  "gc_Apply P g user scope c st = Inr c' \<Longrightarrow> cl_ClientID c' = cl_ClientID c"
  by (auto simp: gc_Apply_def SetExtra_def split: option.splits if_splits sum.splits)

lemma idTokenClaims_plain:
  "cl_ClientID (idTokenClaims user client scope nonce at amr) = ''''"
  "\<forall>k \<in> set knownClaims. cl_Extra (idTokenClaims user client scope nonce at amr) k = None"
  by (simp_all add: idTokenClaims_def applyScopeClaims_def SetExtra_def empty_claims_def Let_def knownClaims_def)

text \<open>The groups of a user go into the field of that name or, as an array, into an extra claim; no extra claim of an ID token is a string \<open>client_id\<close>.\<close>

lemma gc_Apply_client_id:
  assumes "gc_Apply P g user scope c st = Inr c'" and "cl_Extra c ''client_id'' = None"
  shows "cl_Extra c' ''client_id'' = None \<or> g = Some ''client_id'' \<and> (\<exists>js. cl_Extra c' ''client_id'' = Some (JArr js))"
  using assms by (auto simp: gc_Apply_def SetExtra_def split: option.splits if_splits sum.splits)

lemma id_token_client_id:
  assumes "tokenClaims P s user client scope nonce at amr st = Inr (idc, acc)"
  shows "MarshalJSON (register J now jti g sub aud ttl idc) ''client_id'' = None
    \<or> ts_groupClaims s = Some ''client_id'' \<and> (\<exists>js. MarshalJSON (register J now jti g sub aud ttl idc) ''client_id'' = Some (JArr js))"
proof -
  have k: "''client_id'' \<in> set knownClaims" by (simp add: knownClaims_def)
  let ?id = "idTokenClaims user client scope nonce at amr"
  have plain: "cl_ClientID ?id = ''''" "cl_Extra ?id ''client_id'' = None"
    using idTokenClaims_plain(1) bspec [OF idTokenClaims_plain(2) k] by blast+
  have "idc = ?id \<or> gc_Apply P (ts_groupClaims s) user scope ?id st = Inr idc"
    using assms by (auto simp: tokenClaims_def Let_def bindR_Inr split: if_splits)
  then have "cl_ClientID idc = ''''" "cl_Extra idc ''client_id'' = None \<or> ts_groupClaims s = Some ''client_id'' \<and> (\<exists>js. cl_Extra idc ''client_id'' = Some (JArr js))"
    using plain gc_Apply_ClientID gc_Apply_client_id [OF _ plain(2)] by metis+
  then show ?thesis by (auto simp: MarshalJSON_def claimsJSON_def opt_string_def Let_def)
qed

lemma UnmarshalJSON_client_id:
  assumes "UnmarshalJSON obj = Inr c" and "obj ''client_id'' = None \<or> (\<exists>js. obj ''client_id'' = Some (JArr js))"
  shows "cl_ClientID c = ''''"
  using assms by (auto simp: UnmarshalJSON_def bindR_Inr)

text \<open>
  C26. An ID token is never taken for an access token: whatever the request was and however the server is
  configured, the validator of access tokens refuses the ID token of a grant, with every key set and at every
  moment. Its payload has no \<open>client_id\<close>, unless the operator has named the groups claim so, and then it is an
  array, which does not decode as claims. (The library decodes the token to the payload that was signed.)
\<close>

theorem id_token_not_access:
  assumes cl: "tokenClaims P s user client scope nonce at amr st = Inr (idc, acc)"
    and gen: "GenerateIDTokenFor J now jti g (user_ID user) (client_ID client) ttl idc ks = (Inr (tok, xp), ks')"
    and key: "signingKey now g ks = (Inr key, ks')"
    and sb: "signs_back J key (MarshalJSON (register J now jti g (user_ID user) (client_ID client) ttl idc))"
  shows "(\<exists>e. ValidateAccessToken J t g2 ks2 tok = Inl e)
    \<and> (\<exists>hdr obj. jwt_decode J tok = Inr (hdr, obj)
         \<and> (obj ''client_id'' = None \<or> ts_groupClaims s = Some ''client_id'' \<and> (\<exists>js. obj ''client_id'' = Some (JArr js))))"
proof -
  let ?obj = "MarshalJSON (register J now jti g (user_ID user) (client_ID client) ttl idc)"
  obtain hdr where dec: "jwt_decode J tok = Inr (hdr, ?obj)"
    using GenerateIDTokenFor_Inr [OF gen] key sb by (auto simp: signs_back_def)
  note cid = id_token_client_id [OF cl, of J now jti g "user_ID user" "client_ID client" ttl]
  have "\<exists>e. ValidateAccessToken J t g2 ks2 tok = Inl e"
  proof (cases "ValidateAccessToken J t g2 ks2 tok")
    case (Inr c)
    then have "UnmarshalJSON ?obj = Inr c" "cl_ClientID c \<noteq> ''''"
      using ValidateAccessToken_Inr [OF Inr] parse_Inr [of J t g2 ks2 False tok c] dec by auto
    then show ?thesis using UnmarshalJSON_client_id cid by blast
  qed simp
  then show ?thesis using dec cid by blast
qed

definition exIDClaims :: claims where
  "exIDClaims = register exJ exNow ''ID'' exGen ''u1'' ''c1'' (900 * second) (idTokenClaims exUser exClient ''openid'' ''n'' exNow [''pwd''])"

definition exIDLib :: jwtlib where
  "exIDLib = exJ\<lparr>jwt_decode := (\<lambda>tok. Inr (\<lparr>hdr_family = FamilyRSA, hdr_alg = ''RS256'', hdr_kid = Some ''kid''\<rparr>, MarshalJSON exIDClaims))\<rparr>"

theorem id_token_not_access_witness:
  "\<exists>tok xp ks' e. GenerateIDTokenFor exIDLib exNow ''ID'' exGen ''u1'' ''c1'' (900 * second)
        (idTokenClaims exUser exClient ''openid'' ''n'' exNow [''pwd'']) exKeys = (Inr (tok, xp), ks')
     \<and> ValidateAccessToken exIDLib (exNow + minute) exGen exKeys tok = Inl e
     \<and> isOk (ParseToken exIDLib (exNow + minute) exGen exKeys tok)"
proof -
  let ?idc = "idTokenClaims exUser exClient ''openid'' ''n'' exNow [''pwd'']"
  obtain ks' where k: "signingKey exNow exGen exKeys = (Inr exKey, ks')" using exSigning by blast
  have jti: "MarshalJSON exIDClaims ''jti'' = Some (JString ''ID'')" by code_simp
  have reg: "register exIDLib exNow ''ID'' exGen (user_ID exUser) (client_ID exClient) (900 * second) ?idc = exIDClaims"
    by (simp add: exIDClaims_def register_def exIDLib_def exUser_def exClient_def)
  have sb: "signs_back exIDLib exKey (MarshalJSON exIDClaims)"
    using jti by (simp add: signs_back_def exIDLib_def exJ_def exKey_def signingMethodFor_def AlgRS256_def AlgEdDSA_def)
  have g: "GenerateIDTokenFor exIDLib exNow ''ID'' exGen (user_ID exUser) (client_ID exClient) (900 * second) ?idc exKeys
      = (Inr (''ID'', exNow + 900 * second), ks')"
    unfolding GenerateIDTokenFor_def Let_def reg k using jti by (simp add: exIDLib_def exJ_def)
  have cl: "tokenClaims exP exService exUser exClient ''openid'' ''n'' exNow [''pwd''] exStore
      = Inr (?idc, empty_claims\<lparr>cl_Scope := ''openid'', cl_ClientID := client_ID exClient\<rparr>)"
    by (simp add: tokenClaims_def gc_Apply_def exService_def Let_def)
  have "\<exists>e. ValidateAccessToken exIDLib (exNow + minute) exGen exKeys ''ID'' = Inl e"
    using id_token_not_access [OF cl g k, unfolded reg, OF sb] by blast
  moreover have "isOk (ParseToken exIDLib (exNow + minute) exGen exKeys ''ID'')" by code_simp
  ultimately show ?thesis using g by (auto simp: exUser_def exClient_def)
qed

end
