(* ===== verification/KeyCache.thy ===== *)
theory KeyCache
  imports Example
begin

text \<open>
  The cache of the active signing key. \<open>key_steps\<close> are the histories of a key service whose operations
  report success; along them the cached key is always the one a read of the key file would give, so
  caching changes no answer.
\<close>

section \<open>Histories of a key service\<close>

text \<open>A fresh key: the generators return keys of their kind, under a kid that is not in use.\<close>

definition fresh_key :: "keygen \<Rightarrow> key_service \<Rightarrow> bool" where
  "fresh_key g s \<longleftrightarrow> keygen_ok g \<and> gen_kid g \<noteq> '''' \<and> gen_kid g \<notin> kp_Kid ` set (kd_Keys (keys_of (ks_repo s)))"

inductive key_steps :: "key_service \<Rightarrow> key_service \<Rightarrow> bool" for s0 where
  start: "key_steps s0 s0"
| get: "key_steps s0 s \<Longrightarrow> key_steps s0 (snd (GetActiveKey now s))"
| should: "key_steps s0 s \<Longrightarrow> key_steps s0 (snd (ShouldRotate now maxAge s))"
| ensure: "key_steps s0 s \<Longrightarrow> fresh_key g s \<Longrightarrow> EnsureActiveKey g now s = (Inr k, s') \<Longrightarrow> key_steps s0 s'"
| rotate: "key_steps s0 s \<Longrightarrow> fresh_key g s \<Longrightarrow> RotateKey g now grace s = (Inr k, s') \<Longrightarrow> key_steps s0 s'"
| cleanup: "key_steps s0 s \<Longrightarrow> CleanupExpiredKeys now s = (None, s') \<Longrightarrow> key_steps s0 s'"

section \<open>The cache agrees with the file\<close>

definition cache_ok :: "key_service \<Rightarrow> bool" where
  "cache_ok s \<longleftrightarrow> (\<forall>k. ks_active s = Some k \<longrightarrow> (\<exists>k0. keys_GetActive (ks_repo s) = Inr k0 \<and> restore k0 = Inr k))"

lemma GetActiveKey_cache_ok: "cache_ok s \<Longrightarrow> cache_ok (snd (GetActiveKey now s))"
  by (auto simp: cache_ok_def GetActiveKey_def setActive_def split: option.splits sum.splits)

text \<open>After a rotation the last key of the file is the active one, and it is the key in memory.\<close>

lemma RotateKey_cache_ok:
  assumes "RotateKey g now grace s = (Inr k, s')" and "keys_wf (keys_of (ks_repo s))" and "fresh_key g s"
  shows "cache_ok s'" and "keys_wf (keys_of (ks_repo s'))"
proof -
  have f: "gen_kid g \<notin> kp_Kid ` set (kd_Keys (keys_of (ks_repo s)))" "gen_kid g \<noteq> ''''" "keygen_ok g"
    using assms(3) by (simp_all add: fresh_key_def)
  note r = RotateKey_Ok [OF assms(1,2) f(1)]
  have "find (\<lambda>x. kp_Kid x = gen_kid g) (map (retire now grace (kd_ActiveKid (keys_of (ks_repo s)))) (kd_Keys (keys_of (ks_repo s)))) = None"
    using f(1) [unfolded image_iff] by (auto simp: find_None_iff retire_def split: if_splits)
  then have "keys_GetActive (ks_repo s') = Inr (json_keypair k)"
    using r(1) f(2) GenerateKeyPairForAlg_Ok(1) [OF r(3)] by (simp add: keys_GetActive_def find_append)
  then show "cache_ok s'" using r(2) LoadFromPEM_generated [OF r(3) f(3)] by (simp add: cache_ok_def restore_def)
  show "keys_wf (keys_of (ks_repo s'))" by (rule RotateKey_wf [OF assms(1,2) f(1,2)])
qed

text \<open>A key is made when there is none exactly as a rotation makes it.\<close>

lemma EnsureActiveKey_cache_ok:
  assumes "EnsureActiveKey g now s = (Inr k, s')" and "keys_wf (keys_of (ks_repo s))" and "fresh_key g s" and "cache_ok s"
  shows "cache_ok s'" and "keys_wf (keys_of (ks_repo s'))"
proof -
  have "cache_ok s' \<and> keys_wf (keys_of (ks_repo s'))"
  proof (cases "keys_GetActive (ks_repo s)")
    case (Inl e)
    then have "RotateKey g now 0 s = (Inr k, s')" using assms(1) by (simp add: EnsureActiveKey_def RotateKey_def)
    then show ?thesis using RotateKey_cache_ok assms(2,3) by blast
  next
    case (Inr k0)
    then show ?thesis using assms(1,2) by (auto simp: EnsureActiveKey_def cache_ok_def setActive_def split: sum.splits)
  qed
  then show "cache_ok s'" and "keys_wf (keys_of (ks_repo s'))" by blast+
qed

lemma keys_GetActive_of:
  "keys_GetActive kf = Inr k \<longleftrightarrow> kd_ActiveKid (keys_of kf) \<noteq> '''' \<and> find (\<lambda>k. kp_Kid k = kd_ActiveKid (keys_of kf)) (kd_Keys (keys_of kf)) = Some k"
  by (auto simp: keys_GetActive_def keys_of_def val_def split: sum.splits if_splits option.splits)

lemma find_filter_keep: "(\<And>x. x \<in> set xs \<Longrightarrow> p x \<Longrightarrow> q x) \<Longrightarrow> find p (filter q xs) = find p xs"
  by (induction xs) auto

lemma Cleanup_cache_ok:
  assumes "CleanupExpiredKeys now s = (None, s')" and "keys_wf (keys_of (ks_repo s))" and "cache_ok s"
  shows "cache_ok s'"
proof -
  note c = CleanupExpiredKeys_Ok [OF assms(1,2)]
  have a: "ks_active s' = ks_active s" using assms(1) by (auto simp: CleanupExpiredKeys_def split: sum.splits prod.splits)
  have "keys_GetActive (ks_repo s') = Inr k" if "keys_GetActive (ks_repo s) = Inr k" for k
  proof -
    have "find (\<lambda>k. kp_Kid k = kd_ActiveKid (keys_of (ks_repo s))) (kd_Keys (keys_of (ks_repo s'))) =
        find (\<lambda>k. kp_Kid k = kd_ActiveKid (keys_of (ks_repo s))) (kd_Keys (keys_of (ks_repo s)))"
      using find_filter_keep [of "kd_Keys (keys_of (ks_repo s))" "\<lambda>k. kp_Kid k = kd_ActiveKid (keys_of (ks_repo s))"
          "\<lambda>k. kp_Active k \<or> \<not> kp_IsExpired now k"] assms(2)
      by (simp add: c(1) keys_wf_def)
    moreover have "kd_ActiveKid (keys_of (ks_repo s')) = kd_ActiveKid (keys_of (ks_repo s))" unfolding c(1) by simp
    ultimately show ?thesis using that by (simp add: keys_GetActive_of)
  qed
  then show ?thesis using assms(3) a by (fastforce simp: cache_ok_def)
qed

lemma key_steps_ok:
  assumes "key_steps s0 s" and "cache_ok s0" and "keys_wf (keys_of (ks_repo s0))"
  shows "cache_ok s \<and> keys_wf (keys_of (ks_repo s))"
  using assms(1)
proof induction
  case (should s now maxAge)
  moreover have "snd (ShouldRotate now maxAge s) \<in> {s, snd (GetActiveKey now s)}"
    by (auto simp: ShouldRotate_def split: prod.split sum.split)
  ultimately show ?case using GetActiveKey_cache_ok [of s now] by auto
qed (use assms GetActiveKey_cache_ok RotateKey_cache_ok EnsureActiveKey_cache_ok Cleanup_cache_ok CleanupExpiredKeys_Ok(2) in auto)

text \<open>
  C24. Caching the active key changes no answer: after any history of successful operations of a key service
  that starts on a well-formed key file with nothing cached, the active key it hands out, whether from
  the cache or not and at any time, is the one a service that has nothing cached reads from the file, with the
  same key material. (The generators return keys of their kind and kids are fresh.)
\<close>

theorem key_cache_equivalent:
  assumes "key_steps (NewKeyService kf alg) s" and "keys_wf (keys_of kf)"
  shows "fst (GetActiveKey now s) = fst (GetActiveKey now (s\<lparr>ks_active := None\<rparr>))"
proof -
  have "cache_ok s" using key_steps_ok [OF assms(1)] assms(2) by (simp add: cache_ok_def NewKeyService_def)
  then show ?thesis by (auto simp: cache_ok_def GetActiveKey_def cachedActive_def split: option.splits sum.splits)
qed

theorem key_cache_equivalent_witness:
  "\<exists>k s. RotateKey exKeygen exNow hour (snd (GetActiveKey exNow (NewKeyService exKeyFile AlgRS256))) = (Inr k, s)
     \<and> ks_active s = Some k \<and> fst (GetActiveKey exNow s) = fst (GetActiveKey exNow (s\<lparr>ks_active := None\<rparr>))"
proof -
  let ?s0 = "NewKeyService exKeyFile AlgRS256"
  let ?s1 = "snd (GetActiveKey exNow ?s0)"
  have "isOk (fst (RotateKey exKeygen exNow hour ?s1))" by code_simp
  then obtain k s where r: "RotateKey exKeygen exNow hour ?s1 = (Inr k, s)"
    by (cases "RotateKey exKeygen exNow hour ?s1"; cases "fst (RotateKey exKeygen exNow hour ?s1)") auto
  have kf: "keys_of (ks_repo ?s1) = \<lparr>kd_Keys = [json_keypair exKey], kd_ActiveKid = ''kid''\<rparr>"
    by (simp add: NewKeyService_def keys_of_def keys_load_def exKeyFile_def)
  have wf: "keys_wf (keys_of exKeyFile)"
    by (simp add: keys_wf_def keys_of_def keys_load_def exKeyFile_def exKey_def IsZero_def)
  have f: "fresh_key exKeygen ?s1" unfolding fresh_key_def kf
    by (simp add: keygen_ok_def exKeygen_def key_kind_defs exKey_def)
  have "key_steps ?s0 s" by (rule key_steps.rotate [OF key_steps.get [OF key_steps.start] f r])
  moreover have "ks_active s = Some k"
    using RotateKey_Ok(2) [OF r] f wf by (simp add: fresh_key_def NewKeyService_def)
  ultimately show ?thesis using r key_cache_equivalent [OF _ wf] by blast
qed

end
