(* ===== verification/StoreProps.thy ===== *)
theory StoreProps
  imports Example
begin

text \<open>
  What the repositories, the password functions and the maintenance run promise.
\<close>

text \<open>
  C34. The user repository of a readable and writable store refines a finite map from ID to user:
  creation adds the stamped user under a new key or refuses with \<open>already_exists\<close>, an update
  replaces the user under its key, a deletion removes it, an update or deletion of a missing key
  is \<open>not_found\<close>, and a read answers from the map.
\<close>

theorem users_refine_map:
  assumes "users_ready st"
  shows "(users_GetByID k st = Inr v \<longleftrightarrow> lookup_by user_ID (users_of st) k = Some v)
    \<and> (case users_Create P now u st of
        (None, st') \<Rightarrow> users_ready st' \<and> lookup_by user_ID (users_of st) (user_ID u) = None
          \<and> lookup_by user_ID (users_of st') =
             (lookup_by user_ID (users_of st))(user_ID u \<mapsto> u\<lparr>user_CreatedAt := now, user_UpdatedAt := now\<rparr>)
      | (Some e, st') \<Rightarrow> st' = st \<and> IsCode e CodeAlreadyExists)
    \<and> (case users_Update now u st of
        (None, st') \<Rightarrow> users_ready st' \<and> lookup_by user_ID (users_of st) (user_ID u) \<noteq> None
          \<and> lookup_by user_ID (users_of st') = (lookup_by user_ID (users_of st))(user_ID u \<mapsto> u\<lparr>user_UpdatedAt := now\<rparr>)
      | (Some e, st') \<Rightarrow> st' = st \<and> IsCode e CodeNotFound \<and> lookup_by user_ID (users_of st) (user_ID u) = None)
    \<and> (case users_Delete k st of
        (None, st') \<Rightarrow> users_ready st' \<and> lookup_by user_ID (users_of st) k \<noteq> None
          \<and> lookup_by user_ID (users_of st') = (lookup_by user_ID (users_of st))(k := None)
      | (Some e, st') \<Rightarrow> st' = st \<and> IsCode e CodeNotFound \<and> lookup_by user_ID (users_of st) k = None)"
proof (intro conjI)
  show "users_GetByID k st = Inr v \<longleftrightarrow> lookup_by user_ID (users_of st) k = Some v"
    using users.get_iff [OF assms] .
  show "case users_Create P now u st of
        (None, st') \<Rightarrow> users_ready st' \<and> lookup_by user_ID (users_of st) (user_ID u) = None
          \<and> lookup_by user_ID (users_of st') =
             (lookup_by user_ID (users_of st))(user_ID u \<mapsto> u\<lparr>user_CreatedAt := now, user_UpdatedAt := now\<rparr>)
      | (Some e, st') \<Rightarrow> st' = st \<and> IsCode e CodeAlreadyExists"
    using users.create_Ok [OF assms, of P now u] users.create_Err [OF assms, of P now u] by (auto split: prod.split option.split)
  show "case users_Update now u st of
        (None, st') \<Rightarrow> users_ready st' \<and> lookup_by user_ID (users_of st) (user_ID u) \<noteq> None
          \<and> lookup_by user_ID (users_of st') = (lookup_by user_ID (users_of st))(user_ID u \<mapsto> u\<lparr>user_UpdatedAt := now\<rparr>)
      | (Some e, st') \<Rightarrow> st' = st \<and> IsCode e CodeNotFound \<and> lookup_by user_ID (users_of st) (user_ID u) = None"
    using users.update_present [OF assms, of u now] users.update_absent [OF assms, of u now]
    by (cases "lookup_by user_ID (users_of st) (user_ID u)") auto
  show "case users_Delete k st of
        (None, st') \<Rightarrow> users_ready st' \<and> lookup_by user_ID (users_of st) k \<noteq> None
          \<and> lookup_by user_ID (users_of st') = (lookup_by user_ID (users_of st))(k := None)
      | (Some e, st') \<Rightarrow> st' = st \<and> IsCode e CodeNotFound \<and> lookup_by user_ID (users_of st) k = None"
    using users.delete_present [OF assms, of k] users.delete_absent [OF assms, of k]
    by (cases "lookup_by user_ID (users_of st) k") auto
qed

lemma exStore_users_ready: "users_ready exStore"
  by (simp add: users_ready_def exStore_def users_of_def load_users_def NewStore_def)

theorem users_refine_map_witness:
  "\<exists>st'. users_Create exP exNow (exUser\<lparr>user_ID := ''u2'', user_Email := ''b@x''\<rparr>) exStore = (None, st')
     \<and> lookup_by user_ID (users_of st') ''u2'' \<noteq> None \<and> lookup_by user_ID (users_of st') ''u1'' = Some exUser"
proof -
  have "fst (users_Create exP exNow (exUser\<lparr>user_ID := ''u2'', user_Email := ''b@x''\<rparr>) exStore) = None" by code_simp
  then obtain st' where c: "users_Create exP exNow (exUser\<lparr>user_ID := ''u2'', user_Email := ''b@x''\<rparr>) exStore = (None, st')"
    by (metis prod.collapse)
  have "lookup_by user_ID (users_of exStore) ''u1'' = Some exUser" by code_simp
  with users_refine_map [OF exStore_users_ready, where P = exP and now = exNow and u = "exUser\<lparr>user_ID := ''u2'', user_Email := ''b@x''\<rparr>"] c
  show ?thesis by auto
qed

datatype user_op = OpCreate time user | OpDelete string

fun do_user :: "platform \<Rightarrow> user_op \<Rightarrow> fstore \<Rightarrow> goerr option \<times> fstore" where
  "do_user P (OpCreate now u) = users_Create P now u"
| "do_user P (OpDelete k) = users_Delete k"

text \<open>
  Creations and deletions, in any order and whether they succeed or fail, never give two users
  the same e-mail address up to case folding.
\<close>

lemma emails_stay_distinct:
  assumes "emails_distinct P (users_of st)"
  shows "emails_distinct P (users_of (snd (run_ops (map (do_user P) ops) st)))"
proof (rule run_ops_invariant [where I = "\<lambda>st. emails_distinct P (users_of st)"])
  fix f st assume "f \<in> set (map (do_user P) ops)" and I: "emails_distinct P (users_of st)"
  then obtain opn where "f = do_user P opn" by auto
  with I show "emails_distinct P (users_of (snd (f st)))"
    by (cases opn) (simp_all add: users_Create_emails users_Delete_emails)
qed (rule assms)

text \<open>
  An update does not check the address: two users of the file store can be given the same e-mail
  address, and the lookup by e-mail then finds only the first.
\<close>

lemma update_duplicates_email:
  "\<exists>st st'. emails_distinct exP (users_of st) \<and> users_ready st
     \<and> users_Update exNow (exUser\<lparr>user_ID := ''u2'', user_Email := ''a@x''\<rparr>) st = (None, st')
     \<and> \<not> emails_distinct exP (users_of st')"
proof -
  let ?st = "exStore\<lparr>f_users := Content [exUser, exUser\<lparr>user_ID := ''u2'', user_Email := ''b@x''\<rparr>]\<rparr>"
  let ?u = "exUser\<lparr>user_ID := ''u2'', user_Email := ''a@x''\<rparr>"
  have "emails_distinct exP (users_of ?st)" by code_simp
  moreover have "users_ready ?st" by (simp add: users_ready_def exStore_def NewStore_def exUser_def users_of_def load_users_def)
  moreover have "fst (users_Update exNow ?u ?st) = None" by code_simp
  moreover have "\<not> emails_distinct exP (users_of (snd (users_Update exNow ?u ?st)))" by code_simp
  ultimately show ?thesis by (metis prod.collapse)
qed

datatype group_op = GCreate time group | GUpdate time group | GDelete string | GAdd string string | GRemove string string | GDrop string

fun do_group :: "platform \<Rightarrow> group_op \<Rightarrow> fstore \<Rightarrow> goerr option \<times> fstore" where
  "do_group P (GCreate now g) = groups_Create P now g"
| "do_group P (GUpdate now g) = groups_Update P now g"
| "do_group P (GDelete k) = groups_Delete k"
| "do_group P (GAdd g u) = groups_AddMember g u"
| "do_group P (GRemove g u) = groups_RemoveMember g u"
| "do_group P (GDrop u) = groups_RemoveUser u"

text \<open>
  Every sequence of group operations keeps the group file well formed: IDs and names (up to case)
  are unique, memberships are unique and name existing groups.
\<close>

theorem groups_stay_wf:
  assumes "groups_wf P (groups_of st)"
  shows "groups_wf P (groups_of (snd (run_ops (map (do_group P) ops) st)))"
proof (rule run_ops_invariant [where I = "\<lambda>st. groups_wf P (groups_of st)"])
  fix f st assume "f \<in> set (map (do_group P) ops)" and I: "groups_wf P (groups_of st)"
  then obtain opn where "f = do_group P opn" by auto
  with I show "groups_wf P (groups_of (snd (f st)))"
    by (cases opn) (simp_all add: groups_Create_wf groups_Update_wf groups_Delete_wf groups_AddMember_wf
        groups_RemoveMember_wf groups_RemoveUser_wf)
qed (rule assms)

definition exGroup :: group where
  "exGroup = \<lparr>group_ID = ''g1'', group_Name = ''Staff'', group_Description = '''', group_CreatedAt = 0, group_UpdatedAt = 0\<rparr>"

definition exGroupOps :: "group_op list" where
  "exGroupOps = [GCreate exNow exGroup, GAdd ''g1'' ''u1'', GAdd ''g1'' ''u1'', GCreate exNow (exGroup\<lparr>group_ID := ''g2'', group_Name := ''STAFF''\<rparr>)]"

theorem groups_stay_wf_witness:
  "groups_wf exP (groups_of (snd (run_ops (map (do_group exP) exGroupOps) exStore)))
   \<and> length (gd_Memberships (groups_of (snd (run_ops (map (do_group exP) exGroupOps) exStore)))) = 1"
proof -
  have "groups_wf exP (groups_of exStore)" by code_simp
  from groups_stay_wf [OF this, of exGroupOps]
  have "groups_wf exP (groups_of (snd (run_ops (map (do_group exP) exGroupOps) exStore)))" .
  moreover have "length (gd_Memberships (groups_of (snd (run_ops (map (do_group exP) exGroupOps) exStore)))) = 1" by code_simp
  ultimately show ?thesis by simp
qed

text \<open>
  A password verifies against its own hash, whatever the salt, and another password verifies
  only if Argon2id maps it to the same key under that salt.
\<close>

theorem password_roundtrip:
  assumes "HashPassword P (Inr salt) password = Inr h" and "argon2_length P"
  shows "VerifyPassword P password h = Inr True
    \<and> (VerifyPassword P guess h = Inr True \<longleftrightarrow>
         argon2_IDKey P guess salt argonTime argonMemory argonThreads argonKeyLen =
         argon2_IDKey P password salt argonTime argonMemory argonThreads argonKeyLen)"
  using Verify_after_Hash [OF assms] by simp

lemma exP_length: "argon2_length exP"
  by (auto simp: argon2_length_def exP_def argonKeyLen_def min_def)

theorem password_roundtrip_witness:
  "\<exists>h. HashPassword exP (Inr ''salt'') ''secret'' = Inr h \<and> VerifyPassword exP ''secret'' h = Inr True
     \<and> VerifyPassword exP ''guess'' h \<noteq> Inr True"
proof -
  obtain h where h: "HashPassword exP (Inr ''salt'') ''secret'' = Inr h" by (simp add: HashPassword_def Let_def)
  have "argon2_IDKey exP ''guess'' ''salt'' argonTime argonMemory argonThreads argonKeyLen \<noteq>
      argon2_IDKey exP ''secret'' ''salt'' argonTime argonMemory argonThreads argonKeyLen"
    by (simp add: exP_def argonKeyLen_def)
  with password_roundtrip [OF h exP_length, of "''guess''"] h show ?thesis by blast
qed

text \<open>
  A client secret that is still stored in plain text is replaced by its hash on the first
  successful authentication: the client stays able to authenticate with the same secret, and no
  other client of the store changes.
\<close>

lemma client_secret_upgraded:
  assumes "clients_ready st" and "lookup_by client_ID (clients_of st) (client_ID c) = Some c"
    and "\<not> client_Public c" and "client_Secret c = secret" and "secret \<noteq> ''''"
    and "\<not> IsHashedClientSecret secret" and "argon2_length P"
  shows "\<exists>c' st'. authenticateClient P (Inr salt) now c secret st = (True, c', st')
    \<and> IsHashedClientSecret (client_Secret c')
    \<and> VerifyClientSecret P (client_Secret c') secret = (True, False)
    \<and> lookup_by client_ID (clients_of st') =
        (lookup_by client_ID (clients_of st))(client_ID c \<mapsto> c'\<lparr>client_UpdatedAt := now\<rparr>)"
  using authenticateClient_upgrades [OF assms] .

lemma purge_healthy:
  assumes "healthy st"
  shows "sessions_DeleteExpired now st = (None, st\<lparr>f_sessions := Content (filter (\<lambda>s. session_ExpiresAt s > now) (sessions_of st))\<rparr>)"
    and "codes_DeleteExpired now st = (None, st\<lparr>f_auth_codes := Content (filter (\<lambda>a. code_ExpiresAt a > now) (codes_of st))\<rparr>)"
    and "tokens_DeleteExpired now st = (None, st\<lparr>f_tokens := Content (filter (\<lambda>t. token_ExpiresAt t > now) (tokens_of st))\<rparr>)"
    and "revocations_DeleteExpired now st = (None, st\<lparr>f_revocations := Content (filter (\<lambda>v. rv_ExpiresAt v > now) (revocations_of st))\<rparr>)"
    and "vtokens_DeleteExpired now st = (None, st\<lparr>f_verification_tokens := Content (filter (\<lambda>t. vt_ExpiresAt t > now) (vtokens_of st))\<rparr>)"
    and "audit_DeleteBefore t0 st = (None, st\<lparr>f_audit_events := Content (filter (\<lambda>e. \<not> ev_At e < t0) (audit_of st))\<rparr>)"
  using assms by (simp_all add: sessions_DeleteExpired_def codes_DeleteExpired_def tokens_DeleteExpired_def
      revocations_DeleteExpired_def vtokens_DeleteExpired_def audit_DeleteBefore_def healthy_of save_healthy)

text \<open>
  On a store that can be read and written a maintenance run reports no error and drops exactly
  the sessions, codes, refresh tokens, revocations and verification tokens that have expired and
  the audit events past their retention; everything else of the store is untouched.
\<close>

lemma maintenance_purges:
  assumes "healthy (sys_store sys)" and "\<not> rn_keys r"
  shows "\<exists>sys'. RunOnce g uuid now r sys = ([], sys') \<and> sys_keys sys' = sys_keys sys \<and> healthy (sys_store sys')
    \<and> sessions_of (sys_store sys') = filter (\<lambda>s. session_ExpiresAt s > now) (sessions_of (sys_store sys))
    \<and> codes_of (sys_store sys') = filter (\<lambda>a. code_ExpiresAt a > now) (codes_of (sys_store sys))
    \<and> tokens_of (sys_store sys') = filter (\<lambda>t. token_ExpiresAt t > now) (tokens_of (sys_store sys))
    \<and> revocations_of (sys_store sys') = filter (\<lambda>v. rv_ExpiresAt v > now) (revocations_of (sys_store sys))
    \<and> vtokens_of (sys_store sys') = filter (\<lambda>t. vt_ExpiresAt t > now) (vtokens_of (sys_store sys))
    \<and> audit_of (sys_store sys') = (if rn_auditRetention r > 0
         then filter (\<lambda>e. \<not> ev_At e < now - rn_auditRetention r) (audit_of (sys_store sys)) else audit_of (sys_store sys))
    \<and> f_users (sys_store sys') = f_users (sys_store sys) \<and> f_clients (sys_store sys') = f_clients (sys_store sys)
    \<and> f_consents (sys_store sys') = f_consents (sys_store sys) \<and> f_groups (sys_store sys') = f_groups (sys_store sys)
    \<and> f_passkeys (sys_store sys') = f_passkeys (sys_store sys) \<and> f_signing_keys (sys_store sys') = f_signing_keys (sys_store sys)"
proof -
  let ?st = "sys_store sys"
  let ?st' = "?st\<lparr>f_sessions := Content (filter (\<lambda>s. session_ExpiresAt s > now) (sessions_of ?st)),
     f_auth_codes := Content (filter (\<lambda>a. code_ExpiresAt a > now) (codes_of ?st)),
     f_tokens := Content (filter (\<lambda>t. token_ExpiresAt t > now) (tokens_of ?st)),
     f_revocations := Content (filter (\<lambda>v. rv_ExpiresAt v > now) (revocations_of ?st)),
     f_verification_tokens := Content (filter (\<lambda>t. vt_ExpiresAt t > now) (vtokens_of ?st))\<rparr>"
  let ?fin = "if rn_auditRetention r > 0
     then ?st'\<lparr>f_audit_events := Content (filter (\<lambda>e. \<not> ev_At e < now - rn_auditRetention r) (audit_of ?st))\<rparr> else ?st'"
  have run: "run_tasks (store_tasks now r) ?st = ([], ?fin)"
    using assms(1) by (simp add: store_tasks_def purge_healthy)
  have "healthy ?fin" using assms(1) by simp
  moreover have "RunOnce g uuid now r sys = ([], sys\<lparr>sys_store := ?fin\<rparr>)" by (simp add: RunOnce_def run assms(2))
  ultimately show ?thesis by (intro exI [of _ "sys\<lparr>sys_store := ?fin\<rparr>"]) simp
qed

end
