(* ===== verification/Url.thy ===== *)
theory Url
  imports Authorize
begin

text \<open>
  Query strings as \<open>net/url\<close> reads and writes them (\<open>ParseQuery\<close>, \<open>Values.Set\<close>, \<open>Values.Encode\<close>,
  \<open>QueryEscape\<close>), and the redirects the authorization endpoint builds with them
  (\<open>BuildAuthorizationResponse\<close> and \<open>BuildErrorResponse\<close> of \<open>internal/oidc/authorize.go\<close>).
  \<open>url.Parse\<close> and \<open>URL.String\<close> are parameters: only the query part of a URL is rewritten.
\<close>

section \<open>Escaping\<close>

text \<open>Unreserved characters stay, a space becomes a plus, the rest is percent-encoded.\<close>

definition unreserved :: "char \<Rightarrow> bool" where
  "unreserved c \<longleftrightarrow> (let b = byte c in 48 \<le> b \<and> b \<le> 57 \<or> 65 \<le> b \<and> b \<le> 90 \<or> 97 \<le> b \<and> b \<le> 122)
     \<or> c \<in> {CHR ''-'', CHR ''_'', CHR ''.'', CHR ''~''}"

definition upperhex :: string where
  "upperhex = ''0123456789ABCDEF''"

definition escape_char :: "char \<Rightarrow> string" where
  "escape_char c =
     (if unreserved c then [c]
      else if c = CHR '' '' then ''+''
      else [CHR ''%'', upperhex ! (byte c div 16), upperhex ! (byte c mod 16)])"

definition QueryEscape :: "string \<Rightarrow> string" where
  "QueryEscape s = concat (map escape_char s)"

definition unhex :: "char \<Rightarrow> nat option" where
  "unhex c =
     (let b = byte c
      in if 48 \<le> b \<and> b \<le> 57 then Some (b - 48)
         else if 97 \<le> b \<and> b \<le> 102 then Some (b - 97 + 10)
         else if 65 \<le> b \<and> b \<le> 70 then Some (b - 65 + 10)
         else None)"

fun QueryUnescape :: "string \<Rightarrow> string option" where
  "QueryUnescape [] = Some []"
| "QueryUnescape (c # s) =
     (if c = CHR ''%'' then
        (case s of
           h # l # r \<Rightarrow>
             (case (unhex h, unhex l) of
                (Some x, Some y) \<Rightarrow> map_option ((#) (char_of (16 * x + y))) (QueryUnescape r)
              | _ \<Rightarrow> None)
         | _ \<Rightarrow> None)
      else if c = CHR ''+'' then map_option ((#) CHR '' '') (QueryUnescape s)
      else map_option ((#) c) (QueryUnescape s))"

lemma unhex_upperhex: "n < 16 \<Longrightarrow> unhex (upperhex ! n) = Some n"
  by (auto simp: less_Suc_eq numeral_eq_Suc upperhex_def unhex_def)

lemma byte_halves: "byte c div 16 < 16" "char_of (16 * (byte c div 16) + byte c mod 16) = c"
proof -
  have "byte c < 16 * 16" using byte_less [of c] by simp
  then show "byte c div 16 < 16" by (simp only: less_mult_imp_div_less)
  show "char_of (16 * (byte c div 16) + byte c mod 16) = c" by simp
qed

lemma QueryUnescape_escape_char: "QueryUnescape (escape_char c @ s) = map_option ((#) c) (QueryUnescape s)"
proof (cases "unreserved c")
  case True
  then have "c \<noteq> CHR ''%'' \<and> c \<noteq> CHR ''+''" by (auto simp: unreserved_def)
  with True show ?thesis by (simp add: escape_char_def)
next
  case False
  then show ?thesis by (simp add: escape_char_def unhex_upperhex byte_halves)
qed

lemma QueryEscape_Cons: "QueryEscape (c # s) = escape_char c @ QueryEscape s"
  by (simp add: QueryEscape_def)

lemma QueryUnescape_QueryEscape [simp]: "QueryUnescape (QueryEscape s) = Some s"
  by (induction s) (simp_all add: QueryEscape_Cons QueryUnescape_escape_char, simp add: QueryEscape_def)

lemma QueryEscape_unreserved: "list_all unreserved s \<Longrightarrow> QueryEscape s = s"
  by (induction s) (auto simp: QueryEscape_def escape_char_def)

lemma upperhex_set: "n < 16 \<Longrightarrow> upperhex ! n \<in> set upperhex"
  by (rule nth_mem) (simp add: upperhex_def)

lemma QueryEscape_set: "c \<in> set (QueryEscape s) \<Longrightarrow> unreserved c \<or> c \<in> {CHR ''+'', CHR ''%''}"
proof -
  have "\<forall>d \<in> set upperhex. unreserved d" by (simp add: upperhex_def unreserved_def)
  then show "c \<in> set (QueryEscape s) \<Longrightarrow> ?thesis"
    using upperhex_set byte_halves(1) by (fastforce simp: QueryEscape_def escape_char_def split: if_splits)
qed

lemma QueryEscape_separators: "CHR ''&'' \<notin> set (QueryEscape s)" "CHR ''='' \<notin> set (QueryEscape s)" "CHR '';'' \<notin> set (QueryEscape s)"
  by (auto dest!: QueryEscape_set simp: unreserved_def)

section \<open>Queries\<close>

definition Cut :: "char \<Rightarrow> string \<Rightarrow> string \<times> string" where
  "Cut sep s = (takeWhile (\<lambda>c. c \<noteq> sep) s, drop 1 (dropWhile (\<lambda>c. c \<noteq> sep) s))"

definition values_Set :: "url_values \<Rightarrow> string \<Rightarrow> string \<Rightarrow> url_values" where
  "values_Set q k v = q(k \<mapsto> [v])"

definition add_value :: "url_values \<Rightarrow> string \<times> string \<Rightarrow> url_values" where
  "add_value q p = q(fst p \<mapsto> (case q (fst p) of None \<Rightarrow> [] | Some vs \<Rightarrow> vs) @ [snd p])"

text \<open>One \<open>&\<close>-separated part of the query; the first error is kept and the part skipped.\<close>

definition parse_part :: "url_values \<times> goerr option \<Rightarrow> string \<Rightarrow> url_values \<times> goerr option" where
  "parse_part acc part =
     (case acc of (q, err) \<Rightarrow>
        let bad = (\<lambda>e. (q, case err of None \<Rightarrow> Some e | Some e0 \<Rightarrow> Some e0))
        in if CHR '';'' \<in> set part then bad (Plain ''invalid semicolon separator in query'')
           else if part = '''' then (q, err)
           else case Cut CHR ''='' part of (key, raw) \<Rightarrow>
             (case QueryUnescape key of
                None \<Rightarrow> bad (Plain ''invalid URL escape'')
              | Some k \<Rightarrow>
                  (case QueryUnescape raw of
                     None \<Rightarrow> bad (Plain ''invalid URL escape'')
                   | Some v \<Rightarrow> (add_value q (k, v), err))))"

definition ParseQuery :: "string \<Rightarrow> url_values \<times> goerr option" where
  "ParseQuery s = foldl parse_part (Map.empty, None) (Split CHR ''&'' s)"

fun join_amp :: "string list \<Rightarrow> string" where
  "join_amp [] = []"
| "join_amp [w] = w"
| "join_amp (w # ws) = w @ CHR ''&'' # join_amp ws"

definition encode_pair :: "string \<times> string \<Rightarrow> string" where
  "encode_pair p = QueryEscape (fst p) @ CHR ''='' # QueryEscape (snd p)"

definition query_pairs :: "url_values \<Rightarrow> string list \<Rightarrow> (string \<times> string) list" where
  "query_pairs q ks = concat (map (\<lambda>k. map (Pair k) (case q k of None \<Rightarrow> [] | Some vs \<Rightarrow> vs)) ks)"

text \<open>The keys come in byte order, the values of a key in their own.\<close>

definition values_Encode :: "url_values \<Rightarrow> string" where
  "values_Encode q = join_amp (map encode_pair (query_pairs q (sorted_list_of_set (dom q))))"

lemma values_Encode_keys:
  "sorted ks \<Longrightarrow> distinct ks \<Longrightarrow> dom q = set ks \<Longrightarrow> values_Encode q = join_amp (map encode_pair (query_pairs q ks))"
  by (simp add: values_Encode_def sorted_list_of_set.idem_if_sorted_distinct)

subsection \<open>The round trip\<close>

lemma Cut_append: "sep \<notin> set a \<Longrightarrow> Cut sep (a @ sep # b) = (a, b)"
  by (induction a) (auto simp: Cut_def)

lemma parse_part_encode_pair: "parse_part (q, err) (encode_pair p) = (add_value q p, err)"
  by (cases p) (simp add: parse_part_def encode_pair_def Cut_append QueryEscape_separators)

lemma parse_parts_encode: "foldl parse_part (q, err) (map encode_pair ps) = (foldl add_value q ps, err)"
  by (induction ps arbitrary: q) (simp_all add: parse_part_encode_pair)

lemma Split_join_amp:
  "(\<And>w. w \<in> set ws \<Longrightarrow> CHR ''&'' \<notin> set w) \<Longrightarrow> ws \<noteq> [] \<Longrightarrow> Split CHR ''&'' (join_amp ws) = ws"
  by (induction ws rule: join_amp.induct) (simp_all add: Split_append Split_single)

lemma ParseQuery_pairs: "ParseQuery (join_amp (map encode_pair ps)) = (foldl add_value Map.empty ps, None)"
proof (cases "ps = []")
  case True
  then show ?thesis by (simp add: ParseQuery_def parse_part_def)
next
  case False
  then have "Split CHR ''&'' (join_amp (map encode_pair ps)) = map encode_pair ps"
    by (intro Split_join_amp) (auto simp: encode_pair_def QueryEscape_separators)
  then show ?thesis by (simp add: ParseQuery_def parse_parts_encode)
qed

lemma foldl_add_value:
  "foldl add_value q ps k =
     (let vs = map snd (filter (\<lambda>p. fst p = k) ps)
      in if vs = [] then q k else Some ((case q k of None \<Rightarrow> [] | Some ws \<Rightarrow> ws) @ vs))"
  by (induction ps arbitrary: q) (auto simp: add_value_def Let_def split: option.splits)

lemma filter_query_pairs:
  "distinct ks \<Longrightarrow> filter (\<lambda>p. fst p = k) (query_pairs q ks) =
     (if k \<in> set ks then map (Pair k) (case q k of None \<Rightarrow> [] | Some vs \<Rightarrow> vs) else [])"
proof (induction ks)
  case (Cons a ks)
  have "filter (\<lambda>p. fst p = k) (map (Pair a) vs) = (if a = k then map (Pair a) vs else [])" for vs :: "string list"
    by (induction vs) auto
  with Cons show ?case by (auto simp: query_pairs_def)
qed (simp add: query_pairs_def)

theorem ParseQuery_Encode:
  assumes "finite (dom q)" and "\<And>k. q k \<noteq> Some []"
  shows "ParseQuery (values_Encode q) = (q, None)"
proof -
  let ?ps = "query_pairs q (sorted_list_of_set (dom q))"
  have "foldl add_value Map.empty ?ps k = q k" for k
    using assms by (cases "q k") (auto simp: foldl_add_value filter_query_pairs Let_def o_def domIff split: if_splits)
  then show ?thesis by (simp add: values_Encode_def ParseQuery_pairs fun_eq_iff)
qed

text \<open>What a query parses to is finite and has a value for each of its keys, so it can be written back.\<close>

definition values_wf :: "url_values \<Rightarrow> bool" where
  "values_wf q \<longleftrightarrow> finite (dom q) \<and> (\<forall>k. q k \<noteq> Some [])"

lemma values_wf_intros [simp, intro]:
  "values_wf Map.empty" "values_wf q \<Longrightarrow> values_wf (values_Set q k v)" "values_wf q \<Longrightarrow> values_wf (add_value q p)"
  by (auto simp: values_wf_def values_Set_def add_value_def)

lemma ParseQuery_wf: "values_wf (fst (ParseQuery s))"
proof -
  have "values_wf (fst acc) \<Longrightarrow> values_wf (fst (foldl parse_part acc parts))" for acc parts
    by (induction parts arbitrary: acc) (auto simp: parse_part_def Let_def split: option.split prod.split)
  then show ?thesis by (simp add: ParseQuery_def)
qed

lemma ParseQuery_Encode_wf: "values_wf q \<Longrightarrow> ParseQuery (values_Encode q) = (q, None)"
  by (rule ParseQuery_Encode) (auto simp: values_wf_def)

section \<open>Redirects\<close>

record url =
  url_Scheme :: string
  url_Host :: string
  url_User :: bool
  url_Path :: string
  url_RawQuery :: string
  url_Fragment :: string
  url_rest :: string

record urllib =
  ul_Parse :: "string \<Rightarrow> url res"
  ul_String :: "url \<Rightarrow> string"

text \<open>\<open>u.Query()\<close> drops what it cannot parse.\<close>

definition url_Query :: "url \<Rightarrow> url_values" where
  "url_Query u = fst (ParseQuery (url_RawQuery u))"

text \<open>The parse error is ignored and the nil URL dereferenced: \<^const>\<open>None\<close> is that panic.\<close>

definition BuildAuthorizationResponse :: "urllib \<Rightarrow> string \<Rightarrow> string \<Rightarrow> string \<Rightarrow> string option" where
  "BuildAuthorizationResponse U redirectURI code state =
     (case ul_Parse U redirectURI of
        Inl _ \<Rightarrow> None
      | Inr u \<Rightarrow>
          (let q = values_Set (url_Query u) ''code'' code;
               q1 = (if state \<noteq> '''' then values_Set q ''state'' state else q)
           in Some (ul_String U (u\<lparr>url_RawQuery := values_Encode q1\<rparr>))))"

definition BuildErrorResponse :: "urllib \<Rightarrow> string \<Rightarrow> string \<Rightarrow> string \<Rightarrow> string \<Rightarrow> string option" where
  "BuildErrorResponse U redirectURI errorCode errorDescription state =
     (case ul_Parse U redirectURI of
        Inl _ \<Rightarrow> None
      | Inr u \<Rightarrow>
          (let q = values_Set (url_Query u) ''error'' errorCode;
               q1 = (if errorDescription \<noteq> '''' then values_Set q ''error_description'' errorDescription else q);
               q2 = (if state \<noteq> '''' then values_Set q1 ''state'' state else q1)
           in Some (ul_String U (u\<lparr>url_RawQuery := values_Encode q2\<rparr>))))"

lemma url_Query_wf [simp, intro]: "values_wf (url_Query u)"
  by (simp add: url_Query_def ParseQuery_wf)

lemma url_Query_Encode [simp]: "values_wf q \<Longrightarrow> url_Query (u\<lparr>url_RawQuery := values_Encode q\<rparr>) = q"
  by (simp add: url_Query_def ParseQuery_Encode_wf)

section \<open>Redirect URIs of a client\<close>

text \<open>\<open>domain.ValidateRedirectURI\<close>: the message of its error, or none; \<open>quote\<close> is the verb \<open>%q\<close>.\<close>

definition ValidateRedirectURI :: "platform \<Rightarrow> urllib \<Rightarrow> (string \<Rightarrow> string) \<Rightarrow> string \<Rightarrow> string option" where
  "ValidateRedirectURI P U quote raw =
     (case ul_Parse U raw of
        Inl _ \<Rightarrow> Some (''redirect URI '' @ quote raw @ '' must be an absolute URI'')
      | Inr u \<Rightarrow>
          if url_Scheme u = '''' then Some (''redirect URI '' @ quote raw @ '' must be an absolute URI'')
          else if url_Fragment u \<noteq> '''' \<or> CHR ''#'' \<in> set raw
          then Some (''redirect URI '' @ quote raw @ '' must not contain a fragment'')
          else if ToLower P (url_Scheme u) \<in> {''javascript'', ''data'', ''vbscript'', ''file'', ''blob''}
          then Some (''redirect URI '' @ quote raw @ '' uses a forbidden scheme'')
          else if ToLower P (url_Scheme u) \<in> {''http'', ''https''} \<and> url_Host u = ''''
          then Some (''redirect URI '' @ quote raw @ '' has no host'')
          else None)"

end
