(* ===== verification/Lockout.thy ===== *)
theory Lockout
  imports Domain
begin

text \<open>
  \<open>internal/auth/lockout.go\<close>: failed sign-ins are counted per address, and the address is locked
  for a while when they reach a limit. \<open>now\<close> stands for \<open>time.Now()\<close>; \<open>time.Since\<close> is the
  saturating difference. The theorem bounds the guesses an address lets through.
\<close>

section \<open>The service\<close>

record lockoutEntry =
  le_count :: int
  le_lockedAt :: time

record lockout =
  lo_maxAttempts :: int
  lo_duration :: duration
  lo_attempts :: "string \<rightharpoonup> lockoutEntry"

definition NewLockoutService :: "int \<Rightarrow> duration \<Rightarrow> lockout" where
  "NewLockoutService maxAttempts d = \<lparr>lo_maxAttempts = maxAttempts, lo_duration = d, lo_attempts = Map.empty\<rparr>"

definition lockoutKey :: "platform \<Rightarrow> string \<Rightarrow> string" where
  "lockoutKey P email = ToLower P (TrimSpace email)"

definition IsLocked :: "platform \<Rightarrow> time \<Rightarrow> string \<Rightarrow> lockout \<Rightarrow> bool" where
  "IsLocked P now email s =
     (if lo_maxAttempts s \<le> 0 then False
      else case lo_attempts s (lockoutKey P email) of
        None \<Rightarrow> False
      | Some entry \<Rightarrow> \<not> IsZero (le_lockedAt entry) \<and> time_Sub now (le_lockedAt entry) < lo_duration s)"

definition RecordFailure :: "platform \<Rightarrow> time \<Rightarrow> string \<Rightarrow> lockout \<Rightarrow> bool \<times> lockout" where
  "RecordFailure P now email s =
     (if lo_maxAttempts s \<le> 0 then (False, s)
      else
        let k = lockoutKey P email;
            entry = (case lo_attempts s k of Some e \<Rightarrow> e | None \<Rightarrow> \<lparr>le_count = 0, le_lockedAt = zero_time\<rparr>);
            entry1 = (if \<not> IsZero (le_lockedAt entry) \<and> time_Sub now (le_lockedAt entry) \<ge> lo_duration s
                      then \<lparr>le_count = 0, le_lockedAt = zero_time\<rparr> else entry);
            entry2 = entry1\<lparr>le_count := le_count entry1 + 1\<rparr>
        in if le_count entry2 \<ge> lo_maxAttempts s
           then (True, s\<lparr>lo_attempts := (lo_attempts s)(k \<mapsto> entry2\<lparr>le_lockedAt := now\<rparr>)\<rparr>)
           else (False, s\<lparr>lo_attempts := (lo_attempts s)(k \<mapsto> entry2)\<rparr>))"

definition RecordSuccess :: "platform \<Rightarrow> string \<Rightarrow> lockout \<Rightarrow> lockout" where
  "RecordSuccess P email s =
     (if lo_maxAttempts s \<le> 0 then s
      else s\<lparr>lo_attempts := (lo_attempts s)(lockoutKey P email := None)\<rparr>)"

definition GetRemainingAttempts :: "platform \<Rightarrow> time \<Rightarrow> string \<Rightarrow> lockout \<Rightarrow> int" where
  "GetRemainingAttempts P now email s =
     (if lo_maxAttempts s \<le> 0 then -1
      else case lo_attempts s (lockoutKey P email) of
        None \<Rightarrow> lo_maxAttempts s
      | Some entry \<Rightarrow>
          if \<not> IsZero (le_lockedAt entry) \<and> time_Sub now (le_lockedAt entry) \<ge> lo_duration s then lo_maxAttempts s
          else let remaining = lo_maxAttempts s - le_count entry in if remaining < 0 then 0 else remaining)"

definition GetLockoutRemaining :: "platform \<Rightarrow> time \<Rightarrow> string \<Rightarrow> lockout \<Rightarrow> duration" where
  "GetLockoutRemaining P now email s =
     (if lo_maxAttempts s \<le> 0 then 0
      else case lo_attempts s (lockoutKey P email) of
        None \<Rightarrow> 0
      | Some entry \<Rightarrow>
          if IsZero (le_lockedAt entry) then 0
          else let remaining = lo_duration s - time_Sub now (le_lockedAt entry) in if remaining < 0 then 0 else remaining)"

section \<open>How many guesses get through\<close>

text \<open>An entry is locked exactly when its count has reached the limit.\<close>

definition entry_wf :: "int \<Rightarrow> lockoutEntry \<Rightarrow> bool" where
  "entry_wf m e \<longleftrightarrow> 0 \<le> le_count e \<and> (IsZero (le_lockedAt e) \<longleftrightarrow> le_count e < m)"

definition lockout_wf :: "lockout \<Rightarrow> bool" where
  "lockout_wf s \<longleftrightarrow> (\<forall>k e. lo_attempts s k = Some e \<longrightarrow> entry_wf (lo_maxAttempts s) e)"

text \<open>
  A guarded attempt, as \<open>Login\<close> makes it: refused while locked; otherwise the password is looked at, and what it
  turns out to be is recorded. An attempt has its time, the address as it was typed, and whether the password
  is right. Two addresses are the same one when they differ in case or in the spaces around them only.
\<close>

definition same_address :: "platform \<Rightarrow> string \<Rightarrow> string \<Rightarrow> bool" where
  "same_address P e e' \<longleftrightarrow> ToLower P (TrimSpace e) = ToLower P (TrimSpace e')"

definition attempt :: "platform \<Rightarrow> time \<times> string \<times> bool \<Rightarrow> lockout \<Rightarrow> bool \<times> lockout" where
  "attempt P a s =
     (case a of (now, email, right) \<Rightarrow>
        if IsLocked P now email s then (False, s)
        else (True, if right then RecordSuccess P email s else snd (RecordFailure P now email s)))"

text \<open>How many of a sequence of attempts had their password looked at for the address \<open>email\<close>.\<close>

fun guesses :: "platform \<Rightarrow> string \<Rightarrow> (time \<times> string \<times> bool) list \<Rightarrow> lockout \<Rightarrow> nat" where
  "guesses P email [] s = 0"
| "guesses P email (a # as) s =
     (case attempt P a s of (through, s') \<Rightarrow>
        (if through \<and> same_address P (fst (snd a)) email then 1 else 0) + guesses P email as s')"

lemma NewLockoutService_wf: "lockout_wf (NewLockoutService m d)"
  by (simp add: lockout_wf_def NewLockoutService_def)

lemma RecordFailure_params [simp]:
  "lo_maxAttempts (snd (RecordFailure P now email s)) = lo_maxAttempts s"
  "lo_duration (snd (RecordFailure P now email s)) = lo_duration s"
  by (simp_all add: RecordFailure_def Let_def)

lemma RecordFailure_wf:
  assumes "lockout_wf s" and "\<not> IsZero now"
  shows "lockout_wf (snd (RecordFailure P now email s))"
proof -
  let ?e = "case lo_attempts s (lockoutKey P email) of Some e \<Rightarrow> e | None \<Rightarrow> \<lparr>le_count = 0, le_lockedAt = zero_time\<rparr>"
  have "entry_wf (lo_maxAttempts s) ?e" if "\<not> lo_maxAttempts s \<le> 0"
    using assms(1) that by (auto simp: lockout_wf_def entry_wf_def IsZero_def split: option.split)
  with assms show ?thesis
    by (auto simp: RecordFailure_def lockout_wf_def Let_def entry_wf_def IsZero_def split: if_splits)
qed

lemma RecordSuccess_wf: "lockout_wf s \<Longrightarrow> lockout_wf (RecordSuccess P email s)"
  by (simp add: RecordSuccess_def lockout_wf_def)

text \<open>The same on the entry of one address.\<close>

definition locked_entry :: "duration \<Rightarrow> time \<Rightarrow> lockoutEntry option \<Rightarrow> bool" where
  "locked_entry d now e = (case e of None \<Rightarrow> False | Some e \<Rightarrow> \<not> IsZero (le_lockedAt e) \<and> time_Sub now (le_lockedAt e) < d)"

definition bump :: "int \<Rightarrow> duration \<Rightarrow> time \<Rightarrow> lockoutEntry option \<Rightarrow> lockoutEntry" where
  "bump m d now e =
     (let n = (case e of None \<Rightarrow> 0
                 | Some e \<Rightarrow> if \<not> IsZero (le_lockedAt e) \<and> time_Sub now (le_lockedAt e) \<ge> d then 0 else le_count e);
          l = (case e of None \<Rightarrow> zero_time
                 | Some e \<Rightarrow> if \<not> IsZero (le_lockedAt e) \<and> time_Sub now (le_lockedAt e) \<ge> d then zero_time else le_lockedAt e)
      in \<lparr>le_count = n + 1, le_lockedAt = (if n + 1 \<ge> m then now else l)\<rparr>)"

lemma IsLocked_entry:
  "0 < lo_maxAttempts s \<Longrightarrow> IsLocked P now email s = locked_entry (lo_duration s) now (lo_attempts s (lockoutKey P email))"
  by (simp add: IsLocked_def locked_entry_def)

lemma RecordFailure_entry:
  "0 < lo_maxAttempts s \<Longrightarrow> snd (RecordFailure P now email s) =
    s\<lparr>lo_attempts := (lo_attempts s)(lockoutKey P email \<mapsto>
      bump (lo_maxAttempts s) (lo_duration s) now (lo_attempts s (lockoutKey P email)))\<rparr>"
proof (cases "lo_attempts s (lockoutKey P email)")
  case (Some a)
  obtain n l where "a = \<lparr>le_count = n, le_lockedAt = l\<rparr>" by (cases a) auto
  with Some show "0 < lo_maxAttempts s \<Longrightarrow> ?thesis" by (auto simp: RecordFailure_def bump_def Let_def IsZero_def)
qed (auto simp: RecordFailure_def bump_def Let_def IsZero_def)

fun entry_guesses :: "int \<Rightarrow> duration \<Rightarrow> time list \<Rightarrow> lockoutEntry option \<Rightarrow> nat" where
  "entry_guesses m d [] e = 0"
| "entry_guesses m d (t # ts) e =
     (if locked_entry d t e then entry_guesses m d ts e else Suc (entry_guesses m d ts (Some (bump m d t e))))"

lemma same_address_key: "same_address P e e' \<longleftrightarrow> lockoutKey P e = lockoutKey P e'"
  by (simp add: same_address_def lockoutKey_def)

lemma attempt_other:
  assumes "0 < lo_maxAttempts s" and "\<not> same_address P (fst (snd a)) email"
  shows "lo_attempts (snd (attempt P a s)) (lockoutKey P email) = lo_attempts s (lockoutKey P email)"
  using assms by (cases a) (auto simp: attempt_def RecordFailure_entry RecordSuccess_def same_address_key)

lemma attempt_params [simp]:
  "lo_maxAttempts (snd (attempt P a s)) = lo_maxAttempts s" "lo_duration (snd (attempt P a s)) = lo_duration s"
  by (cases a; simp add: attempt_def RecordSuccess_def)+

lemma guesses_entry:
  assumes "0 < lo_maxAttempts s" and "\<forall>(_, e, right) \<in> set as. same_address P e email \<longrightarrow> \<not> right"
  shows "guesses P email as s = entry_guesses (lo_maxAttempts s) (lo_duration s)
    (map fst (filter (\<lambda>a. same_address P (fst (snd a)) email) as)) (lo_attempts s (lockoutKey P email))"
  using assms
proof (induction as arbitrary: s)
  case (Cons a as)
  obtain t e right where a: "a = (t, e, right)" by (cases a)
  show ?case
  proof (cases "same_address P e email")
    case True
    then have "lockoutKey P e = lockoutKey P email" "\<not> right" using Cons.prems a by (auto simp: same_address_key)
    with Cons True a show ?thesis by (auto simp: attempt_def IsLocked_entry RecordFailure_entry)
  next
    case False
    then have "guesses P email (a # as) s = guesses P email as (snd (attempt P a s))" by (simp add: a split: prod.split)
    also have "\<dots> = entry_guesses (lo_maxAttempts s) (lo_duration s)
        (map fst (filter (\<lambda>a. same_address P (fst (snd a)) email) as)) (lo_attempts s (lockoutKey P email))"
      using Cons.IH [of "snd (attempt P a s)"] Cons.prems attempt_other [of s P a email] False a by simp
    finally show ?thesis using False a by simp
  qed
qed simp

lemma locked_no_guesses:
  assumes "\<not> IsZero (le_lockedAt e)" and "0 < d" and "d < 2 ^ 63" and "\<forall>t \<in> set ts. t < le_lockedAt e + d"
  shows "entry_guesses m d ts (Some e) = 0"
  using assms(4)
proof (induction ts)
  case (Cons t ts)
  then have "time_Sub t (le_lockedAt e) < d" using assms(2,3) by (subst time_Sub_less) auto
  then show ?case using Cons assms(1) by (simp add: locked_entry_def)
qed simp

text \<open>The guesses an entry leaves open before it locks.\<close>

definition left_open :: "int \<Rightarrow> lockoutEntry option \<Rightarrow> nat" where
  "left_open m e = (case e of None \<Rightarrow> nat m | Some e \<Rightarrow> if IsZero (le_lockedAt e) then nat (m - le_count e) else nat m)"

lemma entry_guesses_bound:
  assumes "0 < m" and d: "0 < d" "d < 2 ^ 63" and "\<forall>x. e = Some x \<longrightarrow> entry_wf m x"
    and "sorted ts" and "\<forall>t \<in> set ts. zero_time < t \<and> t < hi" and "\<forall>t \<in> set ts. hi \<le> t + d"
  shows "entry_guesses m d ts e \<le> left_open m e"
  using assms(4-7)
proof (induction ts arbitrary: e)
  case (Cons t ts)
  have nz: "\<not> IsZero t" using Cons.prems by (auto simp: IsZero_def)
  show ?case
  proof (cases "locked_entry d t e")
    case True
    with Cons show ?thesis by simp
  next
    case False
    let ?e = "bump m d t e"
    have le: "le_count ?e \<le> m \<and> 0 < le_count ?e" "le_count ?e = m \<longrightarrow> le_lockedAt ?e = t"
      "le_count ?e < m \<longrightarrow> IsZero (le_lockedAt ?e) \<and> left_open m (Some ?e) + 1 \<le> left_open m e"
      using Cons.prems(1) False assms(1)
      by (auto simp: bump_def left_open_def entry_wf_def IsZero_def locked_entry_def Let_def split: option.splits)
    have one: "1 \<le> left_open m e"
      using Cons.prems(1) assms(1) by (auto simp: left_open_def entry_wf_def split: option.splits)
    show ?thesis
    proof (cases "le_count ?e = m")
      case True
      then have "entry_guesses m d ts (Some ?e) = 0"
        using le(2) nz Cons.prems d by (intro locked_no_guesses) auto
      with False one show ?thesis by simp
    next
      case neq: False
      then have "entry_guesses m d ts (Some ?e) \<le> left_open m (Some ?e)"
        using Cons.prems le by (intro Cons.IH) (auto simp: entry_wf_def)
      with neq le False show ?thesis by simp
    qed
  qed
qed simp

lemma guesses_bound:
  assumes "lockout_wf s" and "0 < lo_maxAttempts s" and "0 < lo_duration s" and "lo_duration s < 2 ^ 63"
    and "sorted (map fst as)" and "\<forall>(t, _) \<in> set as. zero_time < t \<and> lo \<le> t \<and> t < lo + lo_duration s"
    and "\<forall>(_, e, right) \<in> set as. same_address P e email \<longrightarrow> \<not> right"
  shows "int (guesses P email as s) \<le> lo_maxAttempts s"
proof -
  let ?e = "lo_attempts s (lockoutKey P email)" and ?ts = "map fst (filter (\<lambda>a. same_address P (fst (snd a)) email) as)"
  have "sorted ?ts" using assms(5) by (rule sorted_filter)
  moreover have "\<forall>t \<in> set ?ts. zero_time < t \<and> lo \<le> t \<and> t < lo + lo_duration s" using assms(6) by auto
  ultimately have "guesses P email as s \<le> left_open (lo_maxAttempts s) ?e"
    unfolding guesses_entry [OF assms(2,7)] using assms(1-4)
    by (intro entry_guesses_bound [where hi = "lo + lo_duration s"]) (auto simp: lockout_wf_def)
  also have "int (left_open (lo_maxAttempts s) ?e) \<le> lo_maxAttempts s"
    using assms(1,2) by (auto simp: left_open_def lockout_wf_def entry_wf_def split: option.split)
  finally show ?thesis by simp
qed

end
