(* ===== verification/Web.thy ===== *)
theory Web
  imports Url Maintenance Lockout
begin

text \<open>
  The HTTP side of the authentication package: what it reads from a request and the cookies it
  sets, \<open>internal/auth/csrf.go\<close>, \<open>internal/auth/session.go\<close> and the peer address of
  \<open>service.go\<close>. The bytes of \<open>crypto/rand\<close> are an argument, an error or the bytes read.
\<close>

section \<open>Requests and cookies\<close>

record web_request =
  wq_form :: url_values
  wq_cookies :: "(string \<times> string) list"
  wq_CSRFHeader :: string
  wq_UserAgent :: string
  wq_RemoteAddr :: string

record cookie =
  ck_Name :: string
  ck_Value :: string
  ck_Path :: string
  ck_Domain :: string
  ck_MaxAge :: int
  ck_HttpOnly :: bool
  ck_Secure :: bool
  ck_SameSite :: string

text \<open>\<open>r.Cookie\<close>: the first cookie of the name.\<close>

definition req_Cookie :: "web_request \<Rightarrow> string \<Rightarrow> string option" where
  "req_Cookie r name = map_option snd (find (\<lambda>c. fst c = name) (wq_cookies r))"

text \<open>
  \<open>net.SplitHostPort\<close>, as far as the host: the port follows the last colon, a bracketed host ends
  just before it, an unbracketed one has no colon, and no stray bracket is left.
\<close>

fun last_index :: "char \<Rightarrow> string \<Rightarrow> nat option" where
  "last_index c [] = None"
| "last_index c (x # xs) =
     (case last_index c xs of Some i \<Rightarrow> Some (Suc i) | None \<Rightarrow> if x = c then Some 0 else None)"

fun first_index :: "char \<Rightarrow> string \<Rightarrow> nat option" where
  "first_index c [] = None"
| "first_index c (x # xs) = (if x = c then Some 0 else map_option Suc (first_index c xs))"

definition SplitHostPort :: "string \<Rightarrow> string option" where
  "SplitHostPort s =
     (case last_index CHR '':'' s of
        None \<Rightarrow> None
      | Some i \<Rightarrow>
          if take 1 s = ''['' then
            (case first_index CHR '']'' s of
               None \<Rightarrow> None
             | Some e \<Rightarrow>
                 if Suc e \<noteq> i then None
                 else if CHR ''['' \<in> set (drop 1 s) \<or> CHR '']'' \<in> set (drop (Suc e) s) then None
                 else Some (take (e - 1) (drop 1 s)))
          else if CHR '':'' \<in> set (take i s) \<or> CHR ''['' \<in> set s \<or> CHR '']'' \<in> set s then None
          else Some (take i s))"

definition getClientIP :: "web_request \<Rightarrow> string" where
  "getClientIP r = (case SplitHostPort (wq_RemoteAddr r) of Some host \<Rightarrow> host | None \<Rightarrow> wq_RemoteAddr r)"

lemma first_index_append: "c \<notin> set a \<Longrightarrow> first_index c (a @ c # b) = Some (length a)"
  by (induction a) auto

lemma last_index_append: "c \<notin> set b \<Longrightarrow> last_index c (a @ c # b) = Some (length a)"
proof (induction a)
  case Nil
  have "last_index c b = None" using Nil by (induction b) auto
  then show ?case by simp
qed auto

lemma SplitHostPort_plain:
  assumes "CHR '':'' \<notin> set host" and "CHR '':'' \<notin> set port"
    and "CHR ''['' \<notin> set (host @ port)" and "CHR '']'' \<notin> set (host @ port)"
  shows "SplitHostPort (host @ CHR '':'' # port) = Some host"
proof -
  have "take 1 (host @ CHR '':'' # port) \<noteq> ''[''" using assms by (cases host) auto
  with assms show ?thesis by (auto simp: SplitHostPort_def last_index_append)
qed

lemma SplitHostPort_bracketed:
  assumes "CHR '']'' \<notin> set host" and "CHR ''['' \<notin> set host" and "CHR '':'' \<notin> set port"
    and "CHR ''['' \<notin> set port" and "CHR '']'' \<notin> set port"
  shows "SplitHostPort (CHR ''['' # host @ CHR '']'' # CHR '':'' # port) = Some host"
proof -
  have "last_index CHR '':'' ((CHR ''['' # host @ [CHR '']'']) @ CHR '':'' # port) = Some (length host + 2)"
    using last_index_append [OF assms(3), of "CHR ''['' # host @ [CHR '']'']"] by simp
  then have l: "last_index CHR '':'' (CHR ''['' # host @ CHR '']'' # CHR '':'' # port) = Some (length host + 2)" by simp
  have f: "first_index CHR '']'' (CHR ''['' # host @ CHR '']'' # CHR '':'' # port) = Some (length host + 1)"
    using first_index_append [of "CHR '']''" "CHR ''['' # host" "CHR '':'' # port"] assms(1) by simp
  have "CHR '']'' \<notin> set (drop (length host + 2) (CHR ''['' # host @ CHR '']'' # CHR '':'' # port))" using assms by simp
  with l f assms show ?thesis by (simp add: SplitHostPort_def)
qed

section \<open>CSRF tokens\<close>

definition CSRFCookieName :: string where
  "CSRFCookieName = ''idpico_csrf''"

definition csrfHostCookieName :: string where
  "csrfHostCookieName = ''__Host-idpico_csrf''"

definition CSRFFormField :: string where
  "CSRFFormField = ''csrf_token''"

definition CSRFTTL :: duration where
  "CSRFTTL = hour"

record csrf_service =
  cs_secret :: string
  cs_cookieSecure :: bool
  cs_cookieDomain :: string

definition NewCSRFService :: "string \<Rightarrow> bool \<Rightarrow> string \<Rightarrow> csrf_service" where
  "NewCSRFService secret cookieSecure cookieDomain =
     \<lparr>cs_secret = secret, cs_cookieSecure = cookieSecure, cs_cookieDomain = cookieDomain\<rparr>"

definition csrf_cookieName :: "csrf_service \<Rightarrow> string" where
  "csrf_cookieName s =
     (if cs_cookieSecure s \<and> cs_cookieDomain s = '''' then csrfHostCookieName else CSRFCookieName)"

definition csrf_sign :: "platform \<Rightarrow> csrf_service \<Rightarrow> string \<Rightarrow> string" where
  "csrf_sign P s data = RawURLEncoding_EncodeToString (hmac_sha256 P (cs_secret s) data)"

definition csrf_GenerateToken :: "platform \<Rightarrow> string res \<Rightarrow> time \<Rightarrow> csrf_service \<Rightarrow> (string \<times> cookie) res" where
  "csrf_GenerateToken P rnd now s =
     (case rnd of
        Inl e \<Rightarrow> Inl (Wrapped ''failed to generate CSRF token'' e)
      | Inr tokenBytes \<Rightarrow>
          (let data = format_int (Unix now) @ '':'' @ RawURLEncoding_EncodeToString tokenBytes;
               token = data @ ''.'' @ csrf_sign P s data
           in Inr (token,
                \<lparr>ck_Name = csrf_cookieName s, ck_Value = token, ck_Path = ''/'', ck_Domain = cs_cookieDomain s,
                 ck_MaxAge = int_Seconds CSRFTTL, ck_HttpOnly = False, ck_Secure = cs_cookieSecure s,
                 ck_SameSite = ''Strict''\<rparr>)))"

text \<open>The loop from the end of the token to its last dot; without one both parts stay empty.\<close>

definition split_last_dot :: "string \<Rightarrow> string \<times> string" where
  "split_last_dot tok =
     (case last_index CHR ''.'' tok of Some i \<Rightarrow> (take i tok, drop (Suc i) tok) | None \<Rightarrow> ('''', ''''))"

definition Sscanf_timestamp :: "string \<Rightarrow> int option" where
  "Sscanf_timestamp s =
     (case scan_int s of
        None \<Rightarrow> None
      | Some (n, r) \<Rightarrow> (case literal '':'' r of None \<Rightarrow> None | Some _ \<Rightarrow> Some n))"

definition validateTokenFormat :: "platform \<Rightarrow> time \<Rightarrow> csrf_service \<Rightarrow> string \<Rightarrow> goerr option" where
  "validateTokenFormat P now s token =
     (case split_last_dot token of (data, signature) \<Rightarrow>
        if data = '''' \<or> signature = '''' then Some (Plain ''invalid CSRF token format'')
        else if signature \<noteq> csrf_sign P s data then Some (Plain ''invalid CSRF token signature'')
        else case Sscanf_timestamp data of
          None \<Rightarrow> Some (Plain ''invalid CSRF token timestamp'')
        | Some timestamp \<Rightarrow>
            if time_Sub now (timestamp * second) > CSRFTTL then Some (Plain ''CSRF token expired'') else None)"

definition csrf_ValidateToken :: "platform \<Rightarrow> time \<Rightarrow> csrf_service \<Rightarrow> web_request \<Rightarrow> goerr option" where
  "csrf_ValidateToken P now s r =
     (let f0 = values_Get (wq_form r) CSRFFormField;
          formToken = (if f0 = '''' then wq_CSRFHeader r else f0)
      in if formToken = '''' then Some (Plain ''missing CSRF token'')
         else case req_Cookie r (csrf_cookieName s) of
           None \<Rightarrow> Some (Plain ''missing CSRF cookie'')
         | Some value \<Rightarrow>
             if formToken \<noteq> value then Some (Plain ''CSRF token mismatch'')
             else validateTokenFormat P now s formToken)"

definition csrf_ClearToken :: "csrf_service \<Rightarrow> cookie" where
  "csrf_ClearToken s =
     \<lparr>ck_Name = csrf_cookieName s, ck_Value = '''', ck_Path = ''/'', ck_Domain = cs_cookieDomain s,
      ck_MaxAge = -1, ck_HttpOnly = False, ck_Secure = cs_cookieSecure s, ck_SameSite = ''Strict''\<rparr>"

lemma split_last_dot_append:
  "CHR ''.'' \<notin> set b \<Longrightarrow> split_last_dot (a @ CHR ''.'' # b) = (a, b)"
  by (simp add: split_last_dot_def last_index_append)

text \<open>What a valid token tells: it was in the form and in the cookie, and it is signed and recent.\<close>

lemma csrf_ValidateToken_None:
  assumes "csrf_ValidateToken P now s r = None"
  shows "\<exists>tok data sig ts. req_Cookie r (csrf_cookieName s) = Some tok
    \<and> tok \<in> {values_Get (wq_form r) CSRFFormField, wq_CSRFHeader r}
    \<and> split_last_dot tok = (data, sig) \<and> sig = csrf_sign P s data \<and> Sscanf_timestamp data = Some ts
    \<and> time_Sub now (ts * second) \<le> CSRFTTL"
  using assms
  by (auto simp: csrf_ValidateToken_def validateTokenFormat_def Let_def not_less split: if_splits option.splits prod.splits)

text \<open>HMAC-SHA-256 yields 32 bytes.\<close>

definition hmac_length :: "platform \<Rightarrow> bool" where
  "hmac_length P \<longleftrightarrow> (\<forall>key msg. length (hmac_sha256 P key msg) = 32)"

lemma RawURL_nonempty: "s \<noteq> [] \<Longrightarrow> RawURLEncoding_EncodeToString s \<noteq> []"
  using RawURL_inj [of s "[]"] by (auto simp: RawURLEncoding_EncodeToString_def raw_encode_def)

lemma Sscanf_timestamp_ok:
  assumes "0 \<le> t" and "t < 2 ^ 63"
  shows "Sscanf_timestamp (format_int t @ CHR '':'' # r) = Some t"
proof -
  have "scan_int (digits10 (nat t) @ CHR '':'' # r) = Some (t, CHR '':'' # r)"
    using scan_int_digits10 [of "nat t" "CHR '':'' # r"] assms by (simp add: is_digit_def)
  with assms show ?thesis by (simp add: Sscanf_timestamp_def format_int_def literal_def HasPrefix_def)
qed

lemma csrf_roundtrip:
  assumes gen: "csrf_GenerateToken P (Inr rnd) t0 s = Inr (tok, ck)" and "hmac_length P"
    and "0 \<le> t0" and "Unix t0 < 2 ^ 63" and "req_Cookie r (ck_Name ck) = Some (ck_Value ck)"
    and "values_Get (wq_form r) CSRFFormField = tok"
  shows "csrf_ValidateToken P now s r = None \<longleftrightarrow> now \<le> Unix t0 * second + CSRFTTL"
proof -
  let ?data = "format_int (Unix t0) @ '':'' @ RawURLEncoding_EncodeToString rnd"
  have ck: "ck_Name ck = csrf_cookieName s" "ck_Value ck = tok" and tok: "tok = ?data @ CHR ''.'' # csrf_sign P s ?data"
    using gen by (auto simp: csrf_GenerateToken_def Let_def)
  have split: "split_last_dot tok = (?data, csrf_sign P s ?data)"
    unfolding tok by (rule split_last_dot_append) (simp add: csrf_sign_def RawURL_dot_free)
  have "csrf_sign P s ?data \<noteq> ''''"
    using assms(2) by (auto simp: csrf_sign_def hmac_length_def intro!: RawURL_nonempty dest: arg_cong [of _ _ length])
  moreover have "Unix t0 \<ge> 0" using assms(3) by (simp add: Unix_def)
  then have ts: "Sscanf_timestamp ?data = Some (Unix t0)" using Sscanf_timestamp_ok [of "Unix t0"] assms(4) by simp
  moreover have "(time_Sub now (Unix t0 * second) > CSRFTTL) \<longleftrightarrow> CSRFTTL < now - Unix t0 * second"
    by (rule time_Sub_greater) (simp_all add: CSRFTTL_def)
  ultimately have "validateTokenFormat P now s tok = None \<longleftrightarrow> now \<le> Unix t0 * second + CSRFTTL"
    using split by (auto simp: validateTokenFormat_def)
  moreover have "tok \<noteq> ''''" by (simp add: tok)
  ultimately show ?thesis using ck assms(5,6) by (simp add: csrf_ValidateToken_def)
qed

section \<open>Sessions\<close>

definition SessionCookieName :: string where
  "SessionCookieName = ''idpico_session''"

definition SessionTokenLength :: nat where
  "SessionTokenLength = 32"

record session_service =
  ss_cookieSecret :: string
  ss_cookieSecure :: bool
  ss_cookieDomain :: string
  ss_sessionTTL :: duration

definition NewSessionService :: "string \<Rightarrow> session_service" where
  "NewSessionService cookieSecret =
     \<lparr>ss_cookieSecret = cookieSecret, ss_cookieSecure = False, ss_cookieDomain = '''', ss_sessionTTL = 24 * hour\<rparr>"

definition WithCookieSecure :: "bool \<Rightarrow> session_service \<Rightarrow> session_service" where
  "WithCookieSecure secure s = s\<lparr>ss_cookieSecure := secure\<rparr>"

definition WithCookieDomain :: "string \<Rightarrow> session_service \<Rightarrow> session_service" where
  "WithCookieDomain host s = s\<lparr>ss_cookieDomain := host\<rparr>"

definition WithSessionTTL :: "duration \<Rightarrow> session_service \<Rightarrow> session_service" where
  "WithSessionTTL ttl s = s\<lparr>ss_sessionTTL := ttl\<rparr>"

definition CreateSession ::
    "string res \<Rightarrow> time \<Rightarrow> session_service \<Rightarrow> string \<Rightarrow> string \<Rightarrow> string \<Rightarrow> string list \<Rightarrow> fstore
      \<Rightarrow> (session \<times> string) res \<times> fstore" where
  "CreateSession rnd now s userID userAgent ipAddress amr st =
     (case rnd of
        Inl e \<Rightarrow> (Inl (Wrapped ''failed to generate session token'' e), st)
      | Inr tokenBytes \<Rightarrow>
          (let token = RawURLEncoding_EncodeToString tokenBytes;
               session = \<lparr>session_ID = token, session_UserID = userID, session_CreatedAt = now,
                          session_ExpiresAt = now + ss_sessionTTL s, session_UserAgent = userAgent,
                          session_IPAddress = ipAddress, session_AMR = amr\<rparr>
           in case sessions_Create now session st of
                (Some e, st') \<Rightarrow> (Inl (Wrapped ''failed to create session'' e), st')
              | (None, st') \<Rightarrow> (Inr (session, token), st')))"

definition GetSession :: "time \<Rightarrow> string \<Rightarrow> fstore \<Rightarrow> session res \<times> fstore" where
  "GetSession now token st =
     (case sessions_GetByID token st of
        Inl e \<Rightarrow> (Inl e, st)
      | Inr session \<Rightarrow>
          if session_IsExpired now session
          then (Inl (New CodeSessionExpired ''session expired''), snd (sessions_Delete token st))
          else (Inr session, st))"

definition DeleteSession :: "string \<Rightarrow> fstore \<Rightarrow> goerr option \<times> fstore" where
  "DeleteSession token st = sessions_Delete token st"

definition DeleteUserSessions :: "string \<Rightarrow> fstore \<Rightarrow> goerr option \<times> fstore" where
  "DeleteUserSessions userID st = sessions_DeleteByUserID userID st"

definition SetSessionCookie :: "session_service \<Rightarrow> string \<Rightarrow> cookie" where
  "SetSessionCookie s token =
     \<lparr>ck_Name = SessionCookieName, ck_Value = token, ck_Path = ''/'', ck_Domain = ss_cookieDomain s,
      ck_MaxAge = int_Seconds (ss_sessionTTL s), ck_HttpOnly = True, ck_Secure = ss_cookieSecure s, ck_SameSite = ''Lax''\<rparr>"

definition ClearSessionCookie :: "session_service \<Rightarrow> cookie" where
  "ClearSessionCookie s =
     \<lparr>ck_Name = SessionCookieName, ck_Value = '''', ck_Path = ''/'', ck_Domain = ss_cookieDomain s,
      ck_MaxAge = -1, ck_HttpOnly = True, ck_Secure = ss_cookieSecure s, ck_SameSite = ''Lax''\<rparr>"

definition GetSessionFromRequest :: "time \<Rightarrow> web_request \<Rightarrow> fstore \<Rightarrow> session res \<times> fstore" where
  "GetSessionFromRequest now r st =
     (case req_Cookie r SessionCookieName of
        None \<Rightarrow> (Inl (New CodeUnauthorized ''no session cookie''), st)
      | Some value \<Rightarrow> GetSession now value st)"

definition RotateSession ::
    "string res \<Rightarrow> time \<Rightarrow> session_service \<Rightarrow> string \<Rightarrow> string \<Rightarrow> string \<Rightarrow> string \<Rightarrow> string list \<Rightarrow> fstore
      \<Rightarrow> (session \<times> string) res \<times> fstore" where
  "RotateSession rnd now s oldToken userID userAgent ipAddress amr st =
     (let st1 = (if oldToken \<noteq> '''' then snd (sessions_Delete oldToken st) else st)
      in CreateSession rnd now s userID userAgent ipAddress amr st1)"

text \<open>Session operations write the session file only.\<close>

lemma sessions_frames:
  "\<exists>v. snd (sessions_Create now x st) = st\<lparr>f_sessions := v\<rparr>"
  "\<exists>v. snd (sessions_Delete k st) = st\<lparr>f_sessions := v\<rparr>"
  "\<exists>v. snd (sessions_DeleteByUserID u st) = st\<lparr>f_sessions := v\<rparr>"
proof -
  have f: "\<exists>v. snd (save_sessions xs st) = st\<lparr>f_sessions := v\<rparr>" "\<exists>v. st = st\<lparr>f_sessions := v\<rparr>" for xs
    by (auto simp: save_sessions_def writeFile_def split: option.split intro: exI [of _ "f_sessions st"])
  show "\<exists>v. snd (sessions_Create now x st) = st\<lparr>f_sessions := v\<rparr>"
    "\<exists>v. snd (sessions_Delete k st) = st\<lparr>f_sessions := v\<rparr>"
    "\<exists>v. snd (sessions_DeleteByUserID u st) = st\<lparr>f_sessions := v\<rparr>"
    using f by (auto simp: sessions_Create_def sessions_Delete_def sessions_DeleteByUserID_def split: sum.split option.split)
qed

lemma RotateSession_frame:
  "\<exists>v. snd (RotateSession rnd now s old u ua ip amr st) = st\<lparr>f_sessions := v\<rparr>"
proof -
  obtain v where v: "(if old \<noteq> '''' then snd (sessions_Delete old st) else st) = st\<lparr>f_sessions := v\<rparr>"
  proof (cases "old = ''''")
    case True
    then show ?thesis by (intro that [of "f_sessions st"]) simp
  next
    case False
    then show ?thesis using sessions_frames(2) [of old st] that by auto
  qed
  have "\<exists>w. snd (CreateSession rnd now s u ua ip amr (st\<lparr>f_sessions := v\<rparr>)) = st\<lparr>f_sessions := w\<rparr>"
  proof (cases rnd)
    case (Inr b)
    let ?x = "\<lparr>session_ID = RawURLEncoding_EncodeToString b, session_UserID = u, session_CreatedAt = now,
                          session_ExpiresAt = now + ss_sessionTTL s, session_UserAgent = ua,
                          session_IPAddress = ip, session_AMR = amr\<rparr>"
    obtain e w where "sessions_Create now ?x (st\<lparr>f_sessions := v\<rparr>) = (e, st\<lparr>f_sessions := w\<rparr>)"
      using sessions_frames(1) [of now ?x "st\<lparr>f_sessions := v\<rparr>"] by (metis fstore.surjective fstore.update_convs(3) prod.collapse)
    with Inr show ?thesis by (auto simp: CreateSession_def Let_def split: option.split)
  qed (auto simp: CreateSession_def)
  with v show ?thesis by (simp add: RotateSession_def Let_def)
qed

lemma GetSession_Inr:
  "GetSession now tok st = (Inr s, st') \<Longrightarrow>
    st' = st \<and> s \<in> set (sessions_of st) \<and> session_ID s = tok \<and> now \<le> session_ExpiresAt s"
  by (auto simp: GetSession_def session_IsExpired_def dest: sessions_GetByID_D split: sum.splits if_splits)

text \<open>
  After a rotation on a healthy store the new token is the only one of the two that still opens a
  session, for as long as the session lasts.
\<close>

lemma RotateSession_healthy:
  assumes "healthy st" and "distinct (map session_ID (sessions_of st))" and "old \<noteq> ''''"
    and fresh: "RawURLEncoding_EncodeToString b \<notin> session_ID ` set (sessions_of st)" "RawURLEncoding_EncodeToString b \<noteq> old"
  shows "\<exists>x st'. RotateSession (Inr b) now s old u ua ip amr st = (Inr (x, RawURLEncoding_EncodeToString b), st')
    \<and> session_UserID x = u \<and> session_AMR x = amr \<and> session_ExpiresAt x = now + ss_sessionTTL s
    \<and> sessions_of st' = filter (\<lambda>y. session_ID y \<noteq> old) (sessions_of st) @ [x]
    \<and> healthy st'"
proof -
  let ?del = "snd (sessions_Delete old st)"
  have del: "?del = st\<lparr>f_sessions := Content (filter (\<lambda>y. session_ID y \<noteq> old) (sessions_of st))\<rparr> \<or>
      (?del = st \<and> filter (\<lambda>y. session_ID y \<noteq> old) (sessions_of st) = sessions_of st)"
    using assms(1,2)
    by (auto simp: sessions_Delete_def healthy_of save_healthy del_first_distinct find_None_iff filter_id_conv split: option.split)
  then have h: "healthy ?del" "sessions_of ?del = filter (\<lambda>y. session_ID y \<noteq> old) (sessions_of st)"
    using assms(1) by auto
  let ?x = "\<lparr>session_ID = RawURLEncoding_EncodeToString b, session_UserID = u, session_CreatedAt = now,
     session_ExpiresAt = now + ss_sessionTTL s, session_UserAgent = ua, session_IPAddress = ip, session_AMR = amr\<rparr>"
  have "RotateSession (Inr b) now s old u ua ip amr st = (Inr (?x, RawURLEncoding_EncodeToString b),
      ?del\<lparr>f_sessions := Content (sessions_of ?del @ [?x])\<rparr>)"
    using assms(3) h(1) by (simp add: RotateSession_def CreateSession_def sessions_Create_def healthy_of save_healthy Let_def)
  with h show ?thesis by auto
qed

end
