(* ===== verification/Totp.thy ===== *)
theory Totp
  imports Web
begin

text \<open>
  \<open>internal/auth/totp.go\<close>: time-based one-time passwords and recovery codes. HMAC-SHA-1 and
  SHA-256 are parameters of the platform; the step counter is an \<open>int64\<close> written in big-endian
  order, the code six decimal digits of the truncated sum.
\<close>

section \<open>Codes\<close>

definition totpDigits :: nat where
  "totpDigits = 6"

definition totpPeriod :: duration where
  "totpPeriod = 30 * second"

definition totpSkew :: int where
  "totpSkew = 1"

definition RecoveryCodeCount :: nat where
  "RecoveryCodeCount = 10"

text \<open>Base32 without padding: five bytes are eight digits, fewer bytes as many digits as they need.\<close>

definition b32_digits :: "nat list \<Rightarrow> nat list" where
  "b32_digits bs =
     (let n = foldl (\<lambda>a x. a * 256 + x) 0 (bs @ replicate (5 - length bs) 0)
      in take ((8 * length bs + 4) div 5) (map (\<lambda>i. n div 32 ^ (7 - i) mod 32) [0..<8]))"

fun b32_groups :: "nat list \<Rightarrow> nat list" where
  "b32_groups (a # b # c # d # e # r) = b32_digits [a, b, c, d, e] @ b32_groups r"
| "b32_groups bs = b32_digits bs"

definition b32_EncodeToString :: "string \<Rightarrow> string" where
  "b32_EncodeToString s = map (\<lambda>d. alphabet_b32 ! d) (b32_groups (map byte s))"

definition NewTOTPSecret :: "string res \<Rightarrow> string res" where
  "NewTOTPSecret rnd = (case rnd of Inl e \<Rightarrow> Inl e | Inr b \<Rightarrow> Inr (b32_EncodeToString b))"

definition PutUint64 :: "int \<Rightarrow> 8 word list" where
  "PutUint64 n = map (\<lambda>i. of_int (n div 2 ^ (8 * (7 - i)))) [0..<8]"

definition BigEndian_Uint32 :: "8 word list \<Rightarrow> nat" where
  "BigEndian_Uint32 bs = foldl (\<lambda>a b. a * 256 + unat b) 0 bs"

definition zero_padded :: "nat \<Rightarrow> nat \<Rightarrow> string" where
  "zero_padded w n = replicate (w - length (digits10 n)) CHR ''0'' @ digits10 n"

definition totpCode :: "platform \<Rightarrow> 8 word list \<Rightarrow> int \<Rightarrow> string" where
  "totpCode P key step =
     (let sum = hmac_sha1 P key (PutUint64 step);
          off = unat (last sum) mod 16;
          bin = BigEndian_Uint32 (take 4 (drop off sum)) mod 2 ^ 31
      in zero_padded totpDigits (bin mod 1000000))"

definition totpStep :: "time \<Rightarrow> int" where
  "totpStep t = (let u = Unix t; p = totpPeriod div second in if 0 \<le> u then u div p else - ((- u) div p))"

definition GenerateTOTP :: "platform \<Rightarrow> string \<Rightarrow> time \<Rightarrow> string res" where
  "GenerateTOTP P secret t =
     (case b32_DecodeString (ToUpper P secret) of
        Inl e \<Rightarrow> Inl e
      | Inr key \<Rightarrow> Inr (totpCode P key (totpStep t)))"

definition VerifyTOTP :: "platform \<Rightarrow> string \<Rightarrow> string \<Rightarrow> time \<Rightarrow> int \<Rightarrow> int \<times> bool" where
  "VerifyTOTP P secret code now lastStep =
     (let code' = filter (\<lambda>c. c \<noteq> CHR '' '') (TrimSpace code)
      in if length code' \<noteq> totpDigits then (0, False)
         else case b32_DecodeString (ToUpper P secret) of
           Inl _ \<Rightarrow> (0, False)
         | Inr key \<Rightarrow>
             (let current = totpStep now
              in case find (\<lambda>step. \<not> step \<le> lastStep \<and> totpCode P key step = code') [current - totpSkew..current + totpSkew] of
                   Some step \<Rightarrow> (step, True)
                 | None \<Rightarrow> (0, False)))"

section \<open>Recovery codes\<close>

definition normalizeRecoveryCode :: "platform \<Rightarrow> string \<Rightarrow> string" where
  "normalizeRecoveryCode P code =
     ToLower P (filter (\<lambda>c. c \<noteq> CHR ''-'' \<and> c \<noteq> CHR '' '') (TrimSpace code))"

definition hashRecoveryCode :: "platform \<Rightarrow> string \<Rightarrow> string" where
  "hashRecoveryCode P normalized = hex_EncodeToString (sha256 P (''idpico-recovery:'' @ normalized))"

fun recovery_loop :: "platform \<Rightarrow> string res list \<Rightarrow> string list \<Rightarrow> string list \<Rightarrow> (string list \<times> string list) res" where
  "recovery_loop P [] codes hashes = Inr (codes, hashes)"
| "recovery_loop P (draw # draws) codes hashes =
     (case draw of
        Inl e \<Rightarrow> Inl e
      | Inr b \<Rightarrow>
          (let raw = take 10 (ToLower P (b32_EncodeToString b))
           in recovery_loop P draws (codes @ [take 5 raw @ ''-'' @ drop 5 raw]) (hashes @ [hashRecoveryCode P raw])))"

definition NewRecoveryCodes :: "platform \<Rightarrow> (nat \<Rightarrow> string res) \<Rightarrow> (string list \<times> string list) res" where
  "NewRecoveryCodes P rnd = recovery_loop P (map rnd [0..<RecoveryCodeCount]) [] []"

definition UseRecoveryCode :: "platform \<Rightarrow> string list \<Rightarrow> string \<Rightarrow> string list \<times> bool" where
  "UseRecoveryCode P hashes code =
     (let n = normalizeRecoveryCode P code
      in if length n \<noteq> 10 then (hashes, False)
         else let h = hashRecoveryCode P n
              in case find (\<lambda>stored. stored = h) hashes of
                   Some _ \<Rightarrow> (del_first (\<lambda>stored. stored = h) hashes, True)
                 | None \<Rightarrow> (hashes, False))"

section \<open>Strings without white space\<close>

lemma trim_left_token: "scope_token s \<Longrightarrow> trim_left s = s"
  by (subst trim_left.simps) (cases s, auto simp: scope_token_def space_len_token)

lemma trailing_space_token:
  assumes "scope_token s"
  shows "trailing_space s = 0"
proof -
  have "space_len (drop (length s - n) s) = 0" if "1 \<le> n" "n \<le> length s" for n
  proof -
    have "drop (length s - n) s \<noteq> []" using that by simp
    then obtain c r where d: "drop (length s - n) s = c # r" by (meson neq_Nil_conv)
    then have "c \<in> set s" by (metis in_set_dropD list.set_intros(1))
    with assms d show ?thesis using space_len_token by (auto simp: scope_token_def)
  qed
  then show ?thesis by (simp add: trailing_space_def)
qed

lemma TrimSpace_token: "scope_token s \<Longrightarrow> TrimSpace s = s"
  unfolding TrimSpace_def trim_left_token by (subst trim_right.simps) (simp add: trailing_space_token)

lemma filter_token: "scope_token s \<Longrightarrow> filter (\<lambda>c. c \<noteq> CHR '' '') s = s"
  by (induction s) (auto simp: scope_token_def filter_id_conv)

lemma length_digits10: "n < 10 ^ k \<Longrightarrow> 0 < k \<Longrightarrow> length (digits10 n) \<le> k"
proof (induction n arbitrary: k rule: digits10.induct)
  case (1 n)
  show ?case
  proof (cases "n < 10")
    case True
    with 1 show ?thesis by (subst digits10.simps) simp
  next
    case False
    then obtain j where k: "k = Suc j" "0 < j" using 1(2,3) by (cases k; cases "k - 1") auto
    then have "n div 10 < 10 ^ j" using 1(2) by (simp add: less_mult_imp_div_less)
    with 1(1) [OF False] k have "length (digits10 (n div 10)) \<le> j" by blast
    with False k show ?thesis by (subst digits10.simps) simp
  qed
qed

lemma is_digit_token: "is_digit c \<Longrightarrow> 33 \<le> (of_char c :: nat) \<and> (of_char c :: nat) < 127"
  by (auto simp: is_digit_def)

lemma totpCode_shape: "length (totpCode P key step) = totpDigits \<and> list_all is_digit (totpCode P key step)"
proof -
  have "length (digits10 (n mod 1000000)) \<le> 6" for n by (rule length_digits10) simp_all
  then show ?thesis
    by (auto simp: totpCode_def zero_padded_def totpDigits_def Let_def list_all_iff digits10_is_digit)
       (simp add: is_digit_def)
qed

lemma totpCode_token: "scope_token (totpCode P key step)"
  using totpCode_shape [of P key step] is_digit_token by (auto simp: scope_token_def list_all_iff totpDigits_def)

section \<open>What a code proves\<close>

lemma VerifyTOTP_True:
  assumes "VerifyTOTP P secret code now lastStep = (step, True)"
  shows "lastStep < step \<and> \<bar>step - totpStep now\<bar> \<le> totpSkew
    \<and> (\<exists>key. b32_DecodeString (ToUpper P secret) = Inr key \<and> filter (\<lambda>c. c \<noteq> CHR '' '') (TrimSpace code) = totpCode P key step)"
  using assms by (auto simp: VerifyTOTP_def Let_def totpSkew_def dest!: find_Some_D split: if_splits sum.splits option.splits)

lemma VerifyTOTP_iff:
  "snd (VerifyTOTP P secret code now lastStep) \<longleftrightarrow>
     (\<exists>key step. b32_DecodeString (ToUpper P secret) = Inr key \<and> lastStep < step \<and> \<bar>step - totpStep now\<bar> \<le> totpSkew
        \<and> filter (\<lambda>c. c \<noteq> CHR '' '') (TrimSpace code) = totpCode P key step)"
proof
  assume "snd (VerifyTOTP P secret code now lastStep)"
  then obtain step where "VerifyTOTP P secret code now lastStep = (step, True)" by (metis prod.collapse)
  from VerifyTOTP_True [OF this] show "\<exists>key step. b32_DecodeString (ToUpper P secret) = Inr key \<and> lastStep < step
    \<and> \<bar>step - totpStep now\<bar> \<le> totpSkew \<and> filter (\<lambda>c. c \<noteq> CHR '' '') (TrimSpace code) = totpCode P key step" by blast
next
  assume "\<exists>key step. b32_DecodeString (ToUpper P secret) = Inr key \<and> lastStep < step \<and> \<bar>step - totpStep now\<bar> \<le> totpSkew
    \<and> filter (\<lambda>c. c \<noteq> CHR '' '') (TrimSpace code) = totpCode P key step"
  then obtain key step where k: "b32_DecodeString (ToUpper P secret) = Inr key" "lastStep < step" "\<bar>step - totpStep now\<bar> \<le> totpSkew"
    "filter (\<lambda>c. c \<noteq> CHR '' '') (TrimSpace code) = totpCode P key step" by blast
  have "find (\<lambda>x. \<not> x \<le> lastStep \<and> totpCode P key x = totpCode P key step) [totpStep now - totpSkew..totpStep now + totpSkew] \<noteq> None"
    using k(2,3) by (auto simp: find_None_iff intro: exI [of _ step])
  then show "snd (VerifyTOTP P secret code now lastStep)"
    using k totpCode_shape [of P key step] by (auto simp: VerifyTOTP_def Let_def split: option.split)
qed

lemma VerifyTOTP_generated:
  assumes "GenerateTOTP P secret now = Inr code" and "lastStep < totpStep now"
  shows "snd (VerifyTOTP P secret code now lastStep)"
proof -
  obtain key where key: "b32_DecodeString (ToUpper P secret) = Inr key" and code: "code = totpCode P key (totpStep now)"
    using assms(1) by (auto simp: GenerateTOTP_def split: sum.splits)
  have c: "filter (\<lambda>c. c \<noteq> CHR '' '') (TrimSpace code) = code"
    unfolding code by (simp add: TrimSpace_token totpCode_token filter_token)
  have "length code = totpDigits" unfolding code using totpCode_shape by blast
  moreover have "find (\<lambda>step. \<not> step \<le> lastStep \<and> totpCode P key step = code) [totpStep now - totpSkew..totpStep now + totpSkew] \<noteq> None"
    using assms(2) code by (auto simp: find_None_iff totpSkew_def intro: exI [of _ "totpStep now"])
  ultimately show ?thesis by (auto simp: VerifyTOTP_def Let_def c key split: option.split)
qed

section \<open>Recovery codes work once\<close>

definition b32_lower :: string where
  "b32_lower = ''abcdefghijklmnopqrstuvwxyz234567''"

lemma b32_lower_facts:
  "list_all (\<lambda>c. lower_char c \<in> set b32_lower) alphabet_b32"
  "list_all (\<lambda>c. (of_char c :: nat) < 128) alphabet_b32"
  "list_all (\<lambda>c. lower_char c = c \<and> 33 \<le> (of_char c :: nat) \<and> (of_char c :: nat) < 127 \<and> c \<noteq> CHR ''-'' \<and> c \<noteq> CHR '' '') b32_lower"
  by code_simp+

lemma b32_groups_less: "d \<in> set (b32_groups bs) \<Longrightarrow> d < 32"
proof -
  have 1: "d \<in> set (b32_digits xs) \<Longrightarrow> d < 32" for d xs
    by (auto simp: b32_digits_def Let_def dest!: in_set_takeD)
  show "d \<in> set (b32_groups bs) \<Longrightarrow> d < 32"
    by (induction bs rule: b32_groups.induct) (auto dest: 1)
qed

lemma b32_Encode_alphabet: "c \<in> set (b32_EncodeToString s) \<Longrightarrow> c \<in> set alphabet_b32"
proof -
  have "length alphabet_b32 = 32" by (simp add: alphabet_b32_def)
  then show "c \<in> set (b32_EncodeToString s) \<Longrightarrow> c \<in> set alphabet_b32"
    by (auto simp: b32_EncodeToString_def dest!: b32_groups_less)
qed

lemma length_b32_7:
  assumes "length b = 7"
  shows "length (b32_EncodeToString b) = 12"
proof -
  have "b = [b ! 0, b ! 1, b ! 2, b ! 3, b ! 4, b ! 5, b ! 6]"
    using assms by (intro nth_equalityI) (auto simp: less_Suc_eq numeral_eq_Suc nth_Cons split: nat.split)
  then have "map byte b = map byte [b ! 0, b ! 1, b ! 2, b ! 3, b ! 4, b ! 5, b ! 6]" by (rule arg_cong)
  then show ?thesis unfolding b32_EncodeToString_def by (simp add: b32_digits_def)
qed

definition raw_code :: "string \<Rightarrow> bool" where
  "raw_code raw \<longleftrightarrow> length raw = 10 \<and> set raw \<subseteq> set b32_lower"

definition shown :: "string \<Rightarrow> string" where
  "shown raw = take 5 raw @ ''-'' @ drop 5 raw"

lemma raw_code_draw: "length b = 7 \<Longrightarrow> raw_code (take 10 (ToLower P (b32_EncodeToString b)))"
proof -
  assume l: "length b = 7"
  have low: "ToLower P (b32_EncodeToString b) = map lower_char (b32_EncodeToString b)"
    using b32_lower_facts(2) b32_Encode_alphabet by (auto simp: ToLower_def ascii_def list_all_iff)
  have "set (map lower_char (b32_EncodeToString b)) \<subseteq> set b32_lower"
    using b32_lower_facts(1) b32_Encode_alphabet by (auto simp: list_all_iff)
  then have "set (take 10 (map lower_char (b32_EncodeToString b))) \<subseteq> set b32_lower"
    by (rule order_trans [OF set_take_subset])
  then show ?thesis using length_b32_7 [OF l] by (simp add: raw_code_def low)
qed

lemma normalize_shown: "raw_code raw \<Longrightarrow> normalizeRecoveryCode P (shown raw) = raw"
proof -
  assume r: "raw_code raw"
  have c: "lower_char x = x" "33 \<le> (of_char x :: nat)" "(of_char x :: nat) < 127" "x \<noteq> CHR ''-''" "x \<noteq> CHR '' ''"
    if "x \<in> set raw" for x
    using r that b32_lower_facts(3) by (auto simp: raw_code_def list_all_iff)
  have "scope_token (shown raw)"
    using c(2,3) by (auto simp: scope_token_def shown_def dest: in_set_takeD in_set_dropD)
  then have "TrimSpace (shown raw) = shown raw" by (rule TrimSpace_token)
  moreover have "filter (\<lambda>c. c \<noteq> CHR ''-'' \<and> c \<noteq> CHR '' '') (shown raw) = raw"
  proof -
    have "filter (\<lambda>c. c \<noteq> CHR ''-'' \<and> c \<noteq> CHR '' '') (take 5 raw) = take 5 raw"
      "filter (\<lambda>c. c \<noteq> CHR ''-'' \<and> c \<noteq> CHR '' '') (drop 5 raw) = drop 5 raw"
      using c(4,5) by (auto simp: filter_id_conv dest: in_set_takeD in_set_dropD)
    then show ?thesis by (simp add: shown_def)
  qed
  moreover have "ToLower P raw = raw"
    using c(1,3) by (force simp: ToLower_def ascii_def map_idI)
  ultimately show ?thesis by (simp add: normalizeRecoveryCode_def)
qed

lemma recovery_loop_Inr:
  assumes "recovery_loop P draws codes hashes = Inr (cs, hs)" and "\<forall>b. Inr b \<in> set draws \<longrightarrow> length b = 7"
  shows "\<exists>raws. length raws = length draws \<and> list_all raw_code raws
    \<and> cs = codes @ map shown raws \<and> hs = hashes @ map (hashRecoveryCode P) raws"
  using assms
proof (induction P draws codes hashes rule: recovery_loop.induct)
  case (2 P draw draws codes hashes)
  then obtain b where b: "draw = Inr b" by (cases draw) auto
  let ?raw = "take 10 (ToLower P (b32_EncodeToString b))"
  obtain raws where "length raws = length draws" "list_all raw_code raws"
    "cs = (codes @ [shown ?raw]) @ map shown raws" "hs = (hashes @ [hashRecoveryCode P ?raw]) @ map (hashRecoveryCode P) raws"
    using 2(1) [OF b refl] 2(2,3) b by (auto simp: Let_def shown_def)
  moreover have "raw_code ?raw" using 2(3) b by (intro raw_code_draw) simp
  ultimately show ?case by (intro exI [of _ "?raw # raws"]) simp
qed simp

lemma UseRecoveryCode_shown:
  assumes "raw_code raw" and "hashRecoveryCode P raw \<in> set hashes"
  shows "UseRecoveryCode P hashes (shown raw) = (del_first (\<lambda>h. h = hashRecoveryCode P raw) hashes, True)"
  using assms normalize_shown [OF assms(1), of P]
  by (auto simp: UseRecoveryCode_def Let_def raw_code_def find_None_iff split: option.split)

lemma UseRecoveryCode_spent:
  assumes "UseRecoveryCode P hashes code = (rest, True)" and "distinct hashes"
  shows "UseRecoveryCode P rest code = (rest, False)" and "distinct rest" and "set rest \<subseteq> set hashes"
proof -
  let ?n = "normalizeRecoveryCode P code"
  have n: "length ?n = 10" and rest: "rest = filter (\<lambda>h. h \<noteq> hashRecoveryCode P ?n) hashes"
    using assms del_first_distinct [of id hashes "hashRecoveryCode P ?n"]
    by (auto simp: UseRecoveryCode_def Let_def split: if_splits option.splits)
  have "find (\<lambda>stored. stored = hashRecoveryCode P ?n) rest = None"
    unfolding rest by (rule find_filter_none) simp
  with n show "UseRecoveryCode P rest code = (rest, False)" by (simp add: UseRecoveryCode_def Let_def)
  show "distinct rest" "set rest \<subseteq> set hashes" using rest assms(2) by auto
qed

section \<open>What an authenticator app scans\<close>

definition path_escape_char :: "char \<Rightarrow> string" where
  "path_escape_char c =
     (if unreserved c \<or> c \<in> {CHR '':'', CHR ''@'', CHR ''&'', CHR ''='', CHR ''+'', CHR ''$''} then [c]
      else [CHR ''%'', upperhex ! (byte c div 16), upperhex ! (byte c mod 16)])"

definition PathEscape :: "string \<Rightarrow> string" where
  "PathEscape s = concat (map path_escape_char s)"

definition TOTPURI :: "string \<Rightarrow> string \<Rightarrow> string \<Rightarrow> string" where
  "TOTPURI issuer account secret =
     (let lbl = PathEscape issuer @ '':'' @ PathEscape account;
          q = [''secret'' \<mapsto> [secret], ''issuer'' \<mapsto> [issuer], ''algorithm'' \<mapsto> [''SHA1''], ''digits'' \<mapsto> [''6''], ''period'' \<mapsto> [''30'']]
      in ''otpauth://totp/'' @ lbl @ ''?'' @ values_Encode q)"

end
