(* ===== verification/AuthService.thy ===== *)
theory AuthService
  imports Totp
begin

text \<open>
  The sign-in state machine of \<open>internal/auth/service.go\<close> and \<open>secondfactor.go\<close>: password,
  pending login, second factor, session. The state is the store with what the service keeps in
  memory (lockout entries, pending logins, passkey challenges); an operation returns its result,
  the cookies it sets in order, and the new state. One \<open>now\<close> stands for every \<open>time.Now()\<close> of a
  call, and \<open>randoms\<close> for what it draws. A stored password hash that Argon2 refuses counts as a
  malformed one.
\<close>

section \<open>State\<close>

record pendingLogin =
  pl_userID :: string
  pl_email :: string
  pl_expires :: time
  pl_attempts :: int
  pl_passkey :: "string option"

record registrationCeremony =
  rc_data :: string
  rc_expires :: time

record auth =
  au_store :: fstore
  au_lockout :: "lockout option"
  au_pending :: "string \<rightharpoonup> pendingLogin"
  au_registrations :: "string \<rightharpoonup> registrationCeremony"

text \<open>
  What does not change: the session and CSRF settings, whether there is an audit recorder, whether
  there is a passkey store and whether WebAuthn can be used with the issuer.
\<close>

record auth_config =
  ac_sessions :: session_service
  ac_csrf :: csrf_service
  ac_audit :: bool
  ac_passkeys :: bool
  ac_webauthn :: bool

record randoms =
  rd_session :: "string res"
  rd_pending :: "string res"
  rd_recovery :: "nat \<Rightarrow> string res"
  rd_salt :: "string res"
  rd_uuid :: string

definition NewService :: "fstore \<Rightarrow> lockout option \<Rightarrow> auth" where
  "NewService st lockout =
     \<lparr>au_store = st, au_lockout = lockout, au_pending = Map.empty, au_registrations = Map.empty\<rparr>"

definition PendingLoginCookieName :: string where
  "PendingLoginCookieName = ''idpico_pending_login''"

definition pendingLoginTTL :: duration where
  "pendingLoginTTL = 5 * minute"

definition pendingLoginAttempts :: int where
  "pendingLoginAttempts = 5"

definition AMRPassword :: string where
  "AMRPassword = ''pwd''"

definition AMROneTimePassword :: string where
  "AMROneTimePassword = ''otp''"

definition AMRMultiFactor :: string where
  "AMRMultiFactor = ''mfa''"

definition ErrSecondFactorRequired :: goerr where
  "ErrSecondFactorRequired = Plain ''second factor required''"

definition ErrPendingLoginExpired :: goerr where
  "ErrPendingLoginExpired = Plain ''sign-in expired; enter your password again''"

definition ErrInvalidCode :: goerr where
  "ErrInvalidCode = Plain ''invalid code''"

definition ErrInvalidPassword :: goerr where
  "ErrInvalidPassword = Plain ''current password is incorrect''"

definition ErrAccountLocked :: goerr where
  "ErrAccountLocked = Plain ''account is temporarily locked''"

section \<open>Pending logins\<close>

definition pending_add ::
    "string res \<Rightarrow> time \<Rightarrow> user \<Rightarrow> (string \<rightharpoonup> pendingLogin) \<Rightarrow> string res \<times> (string \<rightharpoonup> pendingLogin)" where
  "pending_add rnd now user p =
     (case rnd of
        Inl e \<Rightarrow> (Inl e, p)
      | Inr b \<Rightarrow>
          (let token = RawURLEncoding_EncodeToString b;
               live = (\<lambda>k. case p k of None \<Rightarrow> None | Some e \<Rightarrow> if now > pl_expires e then None else Some e)
           in (Inr token, live(token \<mapsto> \<lparr>pl_userID = user_ID user, pl_email = user_Email user,
                 pl_expires = now + pendingLoginTTL, pl_attempts = 0, pl_passkey = None\<rparr>))))"

definition pending_get ::
    "time \<Rightarrow> string \<Rightarrow> (string \<rightharpoonup> pendingLogin) \<Rightarrow> pendingLogin option \<times> (string \<rightharpoonup> pendingLogin)" where
  "pending_get now token p =
     (case p token of
        None \<Rightarrow> (None, p(token := None))
      | Some e \<Rightarrow> if now > pl_expires e then (None, p(token := None)) else (Some e, p))"

definition pending_reserve ::
    "time \<Rightarrow> string \<Rightarrow> (string \<rightharpoonup> pendingLogin) \<Rightarrow> pendingLogin option \<times> (string \<rightharpoonup> pendingLogin)" where
  "pending_reserve now token p =
     (case p token of
        None \<Rightarrow> (None, p(token := None))
      | Some e \<Rightarrow>
          if now > pl_expires e \<or> pl_attempts e \<ge> pendingLoginAttempts then (None, p(token := None))
          else (let e' = e\<lparr>pl_attempts := pl_attempts e + 1\<rparr> in (Some e', p(token \<mapsto> e'))))"

definition setPasskeyChallenge ::
    "time \<Rightarrow> string \<Rightarrow> string \<Rightarrow> (string \<rightharpoonup> pendingLogin) \<Rightarrow> bool \<times> (string \<rightharpoonup> pendingLogin)" where
  "setPasskeyChallenge now token data p =
     (case p token of
        None \<Rightarrow> (False, p)
      | Some e \<Rightarrow> if now > pl_expires e then (False, p) else (True, p(token \<mapsto> e\<lparr>pl_passkey := Some data\<rparr>)))"

definition takePasskeyChallenge ::
    "string \<Rightarrow> (string \<rightharpoonup> pendingLogin) \<Rightarrow> string option \<times> (string \<rightharpoonup> pendingLogin)" where
  "takePasskeyChallenge token p =
     (case p token of
        None \<Rightarrow> (None, p)
      | Some e \<Rightarrow> (pl_passkey e, p(token \<mapsto> e\<lparr>pl_passkey := None\<rparr>)))"

definition pending_remove :: "string \<Rightarrow> (string \<rightharpoonup> pendingLogin) \<Rightarrow> (string \<rightharpoonup> pendingLogin)" where
  "pending_remove token p = p(token := None)"

definition setPendingCookie :: "auth_config \<Rightarrow> string \<Rightarrow> cookie" where
  "setPendingCookie cfg token =
     \<lparr>ck_Name = PendingLoginCookieName, ck_Value = token, ck_Path = ''/login'', ck_Domain = ss_cookieDomain (ac_sessions cfg),
      ck_MaxAge = int_Seconds pendingLoginTTL, ck_HttpOnly = True, ck_Secure = ss_cookieSecure (ac_sessions cfg), ck_SameSite = ''Lax''\<rparr>"

definition clearPendingCookie :: "auth_config \<Rightarrow> cookie" where
  "clearPendingCookie cfg =
     \<lparr>ck_Name = PendingLoginCookieName, ck_Value = '''', ck_Path = ''/login'', ck_Domain = ss_cookieDomain (ac_sessions cfg),
      ck_MaxAge = -1, ck_HttpOnly = True, ck_Secure = ss_cookieSecure (ac_sessions cfg), ck_SameSite = ''Lax''\<rparr>"

section \<open>Password sign-in\<close>

definition Authenticate :: "platform \<Rightarrow> string \<Rightarrow> string \<Rightarrow> fstore \<Rightarrow> user res" where
  "Authenticate P email password st =
     (case users_GetByEmail P email st of
        Inl e \<Rightarrow>
          if IsCode e CodeNotFound then Inl (New CodeUnauthorized ''invalid credentials'')
          else Inl (Wrapped ''failed to get user'' e)
      | Inr user \<Rightarrow>
          if \<not> user_Active user then Inl (New CodeUnauthorized ''account is disabled'')
          else (case VerifyPassword P password (user_PasswordHash user) of
                  Inl _ \<Rightarrow> Inl (New CodeUnauthorized ''invalid credentials'')
                | Inr valid \<Rightarrow> if \<not> valid then Inl (New CodeUnauthorized ''invalid credentials'') else Inr user))"

definition hasSecondFactor :: "auth_config \<Rightarrow> user \<Rightarrow> fstore \<Rightarrow> bool" where
  "hasSecondFactor cfg user st =
     (if TOTPEnabled user then True
      else if \<not> ac_passkeys cfg then False
      else case passkeys_ListByUserID (user_ID user) st of Inl _ \<Rightarrow> True | Inr list \<Rightarrow> length list > 0)"

definition lockout_IsLocked :: "platform \<Rightarrow> time \<Rightarrow> string \<Rightarrow> auth \<Rightarrow> bool" where
  "lockout_IsLocked P now email au = (case au_lockout au of None \<Rightarrow> False | Some l \<Rightarrow> IsLocked P now email l)"

definition lockout_RecordFailure :: "platform \<Rightarrow> time \<Rightarrow> string \<Rightarrow> auth \<Rightarrow> auth" where
  "lockout_RecordFailure P now email au =
     au\<lparr>au_lockout := map_option (\<lambda>l. snd (RecordFailure P now email l)) (au_lockout au)\<rparr>"

definition lockout_RecordSuccess :: "platform \<Rightarrow> string \<Rightarrow> auth \<Rightarrow> auth" where
  "lockout_RecordSuccess P email au = au\<lparr>au_lockout := map_option (RecordSuccess P email) (au_lockout au)\<rparr>"

text \<open>An audit event about a user from a request; the actor is the user, or only an address.\<close>

definition audit_user ::
    "auth_config \<Rightarrow> randoms \<Rightarrow> time \<Rightarrow> web_request \<Rightarrow> user option \<Rightarrow> string \<Rightarrow> string \<Rightarrow> string \<Rightarrow> string \<Rightarrow> auth \<Rightarrow> auth" where
  "audit_user cfg rd now r actor email action targetID detail au =
     au\<lparr>au_store := Record (rd_uuid rd) now (ac_audit cfg)
        \<lparr>ae_Actor = actor, ae_ActorEmail = email, ae_Action = action, ae_TargetType = ''user'', ae_TargetID = targetID,
         ae_Detail = detail, ae_IP = ClientIP (Some (wq_RemoteAddr r))\<rparr> (au_store au)\<rparr>"

definition startSession ::
    "platform \<Rightarrow> auth_config \<Rightarrow> randoms \<Rightarrow> time \<Rightarrow> web_request \<Rightarrow> user \<Rightarrow> string list \<Rightarrow> auth
      \<Rightarrow> goerr option \<times> cookie list \<times> auth" where
  "startSession P cfg rd now r user amr au =
     (let au1 = lockout_RecordSuccess P (user_Email user) au;
          oldToken = (case req_Cookie r SessionCookieName of Some v \<Rightarrow> v | None \<Rightarrow> '''')
      in case RotateSession (rd_session rd) now (ac_sessions cfg) oldToken (user_ID user) (wq_UserAgent r) (getClientIP r) amr
                (au_store au1) of
           (Inl e, st) \<Rightarrow> (Some (Wrapped ''failed to create session'' e), [], au1\<lparr>au_store := st\<rparr>)
         | (Inr (_, token), st) \<Rightarrow>
             (None, [SetSessionCookie (ac_sessions cfg) token, csrf_ClearToken (ac_csrf cfg)],
              audit_user cfg rd now r (Some user) '''' ''login.success'' (user_ID user) '''' (au1\<lparr>au_store := st\<rparr>)))"

definition Login ::
    "platform \<Rightarrow> auth_config \<Rightarrow> randoms \<Rightarrow> time \<Rightarrow> web_request \<Rightarrow> string \<Rightarrow> string \<Rightarrow> auth
      \<Rightarrow> (user option \<times> goerr option) \<times> cookie list \<times> auth" where
  "Login P cfg rd now r email password au =
     (if csrf_ValidateToken P now (ac_csrf cfg) r \<noteq> None
      then ((None, Some (New CodeForbidden ''invalid CSRF token'')), [], au)
      else if lockout_IsLocked P now email au
      then ((None, Some (New CodeForbidden ''account is temporarily locked'')), [],
            audit_user cfg rd now r None email ''login.locked'' '''' '''' au)
      else case Authenticate P email password (au_store au) of
        Inl e \<Rightarrow>
          ((None, Some e), [],
           audit_user cfg rd now r None email ''login.failure'' '''' '''' (lockout_RecordFailure P now email au))
      | Inr user \<Rightarrow>
          if hasSecondFactor cfg user (au_store au) then
            (case pending_add (rd_pending rd) now user (au_pending au) of
               (Inl e, p) \<Rightarrow> ((None, Some e), [], au\<lparr>au_pending := p\<rparr>)
             | (Inr token, p) \<Rightarrow>
                 ((Some user, Some ErrSecondFactorRequired),
                  [setPendingCookie cfg token, csrf_ClearToken (ac_csrf cfg)], au\<lparr>au_pending := p\<rparr>))
          else (case startSession P cfg rd now r user [AMRPassword] au of
                  (e, cks, au') \<Rightarrow> ((Some user, e), cks, au')))"

definition GetCurrentUser :: "time \<Rightarrow> web_request \<Rightarrow> auth \<Rightarrow> user res \<times> auth" where
  "GetCurrentUser now r au =
     (case GetSessionFromRequest now r (au_store au) of
        (Inl e, st) \<Rightarrow> (Inl e, au\<lparr>au_store := st\<rparr>)
      | (Inr session, st) \<Rightarrow>
          (case users_GetByID (session_UserID session) st of
             Inl e \<Rightarrow> (Inl e, au\<lparr>au_store := st\<rparr>)
           | Inr user \<Rightarrow>
               ((if \<not> user_Active user then Inl (New CodeUnauthorized ''account is disabled'') else Inr user),
                au\<lparr>au_store := st\<rparr>)))"

definition CurrentSession :: "time \<Rightarrow> web_request \<Rightarrow> auth \<Rightarrow> (session \<times> user) res \<times> auth" where
  "CurrentSession now r au =
     (case GetSessionFromRequest now r (au_store au) of
        (Inl e, st) \<Rightarrow> (Inl e, au\<lparr>au_store := st\<rparr>)
      | (Inr session, st) \<Rightarrow>
          (case users_GetByID (session_UserID session) st of
             Inl e \<Rightarrow> (Inl e, au\<lparr>au_store := st\<rparr>)
           | Inr user \<Rightarrow>
               ((if \<not> user_Active user then Inl (New CodeUnauthorized ''account is disabled'') else Inr (session, user)),
                au\<lparr>au_store := st\<rparr>)))"

definition IsAuthenticated :: "time \<Rightarrow> web_request \<Rightarrow> auth \<Rightarrow> bool \<times> auth" where
  "IsAuthenticated now r au =
     (case GetSessionFromRequest now r (au_store au) of (res, st) \<Rightarrow> (isOk res, au\<lparr>au_store := st\<rparr>))"

definition Logout :: "auth_config \<Rightarrow> randoms \<Rightarrow> time \<Rightarrow> web_request \<Rightarrow> auth \<Rightarrow> cookie list \<times> auth" where
  "Logout cfg rd now r au =
     ([ClearSessionCookie (ac_sessions cfg), csrf_ClearToken (ac_csrf cfg)],
      case req_Cookie r SessionCookieName of
        None \<Rightarrow> au
      | Some value \<Rightarrow>
          if value = '''' then au
          else let au1 = (if ac_audit cfg then
                            (case GetCurrentUser now r au of
                               (Inr user, au1) \<Rightarrow> audit_user cfg rd now r (Some user) '''' ''logout'' (user_ID user) '''' au1
                             | (Inl _, au1) \<Rightarrow> au1)
                          else au)
               in au1\<lparr>au_store := snd (DeleteSession value (au_store au1))\<rparr>)"

definition CreateUser :: "platform \<Rightarrow> randoms \<Rightarrow> time \<Rightarrow> string \<Rightarrow> string \<Rightarrow> string \<Rightarrow> fstore \<Rightarrow> user res \<times> fstore" where
  "CreateUser P rd now email password displayName st =
     (case HashPassword P (rd_salt rd) password of
        Inl e \<Rightarrow> (Inl (Wrapped ''failed to hash password'' e), st)
      | Inr hash \<Rightarrow>
          (let user = \<lparr>user_ID = rd_uuid rd, user_Email = email, user_PasswordHash = hash, user_DisplayName = displayName,
                       user_GivenName = '''', user_FamilyName = '''', user_Active = True, user_EmailVerified = False,
                       user_Admin = False, user_TOTPSecret = '''', user_TOTPLastStep = 0, user_RecoveryCodes = [],
                       user_CreatedAt = zero_time, user_UpdatedAt = zero_time\<rparr>
           in case users_Create P now user st of
                (Some e, st') \<Rightarrow> (Inl e, st')
              | (None, st') \<Rightarrow> (Inr (user\<lparr>user_CreatedAt := now, user_UpdatedAt := now\<rparr>), st')))"

section \<open>The second step\<close>

definition HasPendingLogin :: "time \<Rightarrow> web_request \<Rightarrow> auth \<Rightarrow> bool \<times> auth" where
  "HasPendingLogin now r au =
     (case req_Cookie r PendingLoginCookieName of
        None \<Rightarrow> (False, au)
      | Some value \<Rightarrow> (case pending_get now value (au_pending au) of (e, p) \<Rightarrow> (e \<noteq> None, au\<lparr>au_pending := p\<rparr>)))"

definition reservePendingAttempt ::
    "platform \<Rightarrow> auth_config \<Rightarrow> time \<Rightarrow> web_request \<Rightarrow> auth \<Rightarrow> (string \<times> user \<times> int) res \<times> cookie list \<times> auth" where
  "reservePendingAttempt P cfg now r au =
     (if csrf_ValidateToken P now (ac_csrf cfg) r \<noteq> None then (Inl (New CodeForbidden ''invalid CSRF token''), [], au)
      else case req_Cookie r PendingLoginCookieName of
        None \<Rightarrow> (Inl ErrPendingLoginExpired, [], au)
      | Some value \<Rightarrow>
          (case pending_reserve now value (au_pending au) of
             (None, p) \<Rightarrow> (Inl ErrPendingLoginExpired, [clearPendingCookie cfg], au\<lparr>au_pending := p\<rparr>)
           | (Some e, p) \<Rightarrow>
               (let au1 = au\<lparr>au_pending := p\<rparr>;
                    gone = au1\<lparr>au_pending := pending_remove value p\<rparr>
                in if lockout_IsLocked P now (pl_email e) au1
                   then (Inl (New CodeForbidden ''account is temporarily locked''), [clearPendingCookie cfg], gone)
                   else case users_GetByID (pl_userID e) (au_store au1) of
                     Inl _ \<Rightarrow> (Inl ErrPendingLoginExpired, [clearPendingCookie cfg], gone)
                   | Inr user \<Rightarrow>
                       if \<not> user_Active user \<or> \<not> hasSecondFactor cfg user (au_store au1)
                       then (Inl ErrPendingLoginExpired, [clearPendingCookie cfg], gone)
                       else (Inr (value, user, pl_attempts e), [], au1))))"

definition secondFactorFailed ::
    "platform \<Rightarrow> auth_config \<Rightarrow> randoms \<Rightarrow> time \<Rightarrow> web_request \<Rightarrow> user \<Rightarrow> string \<Rightarrow> int \<Rightarrow> string \<Rightarrow> auth
      \<Rightarrow> goerr \<times> cookie list \<times> auth" where
  "secondFactorFailed P cfg rd now r user token attempts detail au =
     (let au1 = audit_user cfg rd now r None (user_Email user) ''login.failure'' (user_ID user) detail
                  (lockout_RecordFailure P now (user_Email user) au)
      in if attempts \<ge> pendingLoginAttempts
         then (ErrPendingLoginExpired, [clearPendingCookie cfg], au1\<lparr>au_pending := pending_remove token (au_pending au1)\<rparr>)
         else (ErrInvalidCode, [], au1))"

definition finishPendingLogin ::
    "platform \<Rightarrow> auth_config \<Rightarrow> randoms \<Rightarrow> time \<Rightarrow> web_request \<Rightarrow> string \<Rightarrow> user \<Rightarrow> string list \<Rightarrow> auth
      \<Rightarrow> goerr option \<times> cookie list \<times> auth" where
  "finishPendingLogin P cfg rd now r token user amr au =
     (case startSession P cfg rd now r user amr (au\<lparr>au_pending := pending_remove token (au_pending au)\<rparr>) of
        (e, cks, au') \<Rightarrow> (e, clearPendingCookie cfg # cks, au'))"

text \<open>
  The check and the record of its use happen under a lock per user and against the stored user, so
  one step of the model. The caller's user is replaced by the stored one, which the result carries.
\<close>

definition consumeSecondFactor ::
    "platform \<Rightarrow> auth_config \<Rightarrow> randoms \<Rightarrow> time \<Rightarrow> web_request \<Rightarrow> user \<Rightarrow> string \<Rightarrow> auth \<Rightarrow> (bool res \<times> user) \<times> auth" where
  "consumeSecondFactor P cfg rd now r user code au =
     (let code' = TrimSpace code
      in if code' = '''' then ((Inr False, user), au)
         else case users_GetByID (user_ID user) (au_store au) of
           Inl e \<Rightarrow> ((Inl e, user), au)
         | Inr fresh \<Rightarrow>
             (let recovery =
                (case UseRecoveryCode P (user_RecoveryCodes fresh) code' of
                   (rest, True) \<Rightarrow>
                     (let user1 = fresh\<lparr>user_RecoveryCodes := rest\<rparr>
                      in case users_Update now user1 (au_store au) of
                           (Some e, st) \<Rightarrow> ((Inl (Wrapped ''failed to record recovery code use'' e), user1), au\<lparr>au_store := st\<rparr>)
                         | (None, st) \<Rightarrow>
                             ((Inr True, user1\<lparr>user_UpdatedAt := now\<rparr>),
                              audit_user cfg rd now r (Some user1) '''' ''totp.recovery_code_used'' (user_ID user1)
                                (digits10 (length rest) @ '' left'') (au\<lparr>au_store := st\<rparr>)))
                 | (_, False) \<Rightarrow> ((Inr False, fresh), au))
              in if TOTPEnabled fresh then
                   (case VerifyTOTP P (user_TOTPSecret fresh) code' now (user_TOTPLastStep fresh) of
                      (step, True) \<Rightarrow>
                        (let user1 = fresh\<lparr>user_TOTPLastStep := step\<rparr>
                         in case users_Update now user1 (au_store au) of
                              (Some e, st) \<Rightarrow> ((Inl (Wrapped ''failed to record code use'' e), user1), au\<lparr>au_store := st\<rparr>)
                            | (None, st) \<Rightarrow> ((Inr True, user1\<lparr>user_UpdatedAt := now\<rparr>), au\<lparr>au_store := st\<rparr>))
                    | (_, False) \<Rightarrow> recovery)
                 else recovery))"

definition CompleteSecondFactor ::
    "platform \<Rightarrow> auth_config \<Rightarrow> randoms \<Rightarrow> time \<Rightarrow> web_request \<Rightarrow> string \<Rightarrow> auth
      \<Rightarrow> (user option \<times> goerr option) \<times> cookie list \<times> auth" where
  "CompleteSecondFactor P cfg rd now r code au =
     (case reservePendingAttempt P cfg now r au of
        (Inl e, cks, au1) \<Rightarrow> ((None, Some e), cks, au1)
      | (Inr (token, user, attempts), cks, au1) \<Rightarrow>
          (case consumeSecondFactor P cfg rd now r user code au1 of
             ((Inl e, _), au2) \<Rightarrow> ((None, Some e), cks, au2)
           | ((Inr ok, user1), au2) \<Rightarrow>
               if \<not> ok then
                 (case secondFactorFailed P cfg rd now r user1 token attempts ''wrong authenticator or recovery code'' au2 of
                    (e, cks', au3) \<Rightarrow> ((None, Some e), cks @ cks', au3))
               else
                 (case finishPendingLogin P cfg rd now r token user1 [AMRPassword, AMROneTimePassword, AMRMultiFactor] au2 of
                    (e, cks', au3) \<Rightarrow> ((Some user1, e), cks @ cks', au3))))"

section \<open>Changes to the second factor\<close>

text \<open>
  These operations change the user they are given; the result has that user as the caller then
  sees it (a failed write may also have set its time of update, which nothing reads).
\<close>

text \<open>A check made from a signed-in session: refused while locked, a failure counts.\<close>

definition guarded ::
    "platform \<Rightarrow> time \<Rightarrow> user \<Rightarrow> (auth \<Rightarrow> (bool res \<times> user) \<times> auth) \<Rightarrow> goerr \<Rightarrow> auth \<Rightarrow> (goerr option \<times> user) \<times> auth" where
  "guarded P now user check wrong au =
     (if lockout_IsLocked P now (user_Email user) au then ((Some ErrAccountLocked, user), au)
      else case check au of
        ((Inl e, user1), au1) \<Rightarrow> ((Some e, user1), au1)
      | ((Inr ok, user1), au1) \<Rightarrow>
          if \<not> ok then ((Some wrong, user1), lockout_RecordFailure P now (user_Email user1) au1) else ((None, user1), au1))"

definition VerifyCurrentPassword :: "platform \<Rightarrow> time \<Rightarrow> user \<Rightarrow> string \<Rightarrow> auth \<Rightarrow> goerr option \<times> auth" where
  "VerifyCurrentPassword P now user password au =
     (case guarded P now user
             (\<lambda>au. ((Inr (case VerifyPassword P password (user_PasswordHash user) of Inr ok \<Rightarrow> ok | Inl _ \<Rightarrow> False), user), au))
             ErrInvalidPassword au of
        ((e, _), au1) \<Rightarrow> (e, au1))"

definition EnableTOTP ::
    "platform \<Rightarrow> auth_config \<Rightarrow> randoms \<Rightarrow> time \<Rightarrow> web_request \<Rightarrow> user \<Rightarrow> string \<Rightarrow> string \<Rightarrow> string \<Rightarrow> auth
      \<Rightarrow> (string list res \<times> user) \<times> auth" where
  "EnableTOTP P cfg rd now r user password secret code au =
     (if TOTPEnabled user then ((Inl (InvalidInput ''an authenticator is already set up; turn it off first''), user), au)
      else case VerifyCurrentPassword P now user password au of
        (Some e, au1) \<Rightarrow> ((Inl e, user), au1)
      | (None, au1) \<Rightarrow>
          (case VerifyTOTP P secret code now 0 of
             (_, False) \<Rightarrow> ((Inl ErrInvalidCode, user), au1)
           | (step, True) \<Rightarrow>
               (case NewRecoveryCodes P (rd_recovery rd) of
                  Inl e \<Rightarrow> ((Inl e, user), au1)
                | Inr (codes, hashes) \<Rightarrow>
                    (let user1 = user\<lparr>user_TOTPSecret := ToUpper P secret, user_TOTPLastStep := step, user_RecoveryCodes := hashes\<rparr>
                     in case users_Update now user1 (au_store au1) of
                          (Some e, st) \<Rightarrow> ((Inl e, user1), au1\<lparr>au_store := st\<rparr>)
                        | (None, st) \<Rightarrow>
                            ((Inr codes, user1\<lparr>user_UpdatedAt := now\<rparr>),
                             audit_user cfg rd now r (Some user1) '''' ''totp.enabled'' (user_ID user1) '''' (au1\<lparr>au_store := st\<rparr>))))))"

definition ClearTOTP :: "user \<Rightarrow> user" where
  "ClearTOTP user = user\<lparr>user_TOTPSecret := '''', user_TOTPLastStep := 0\<rparr>"

definition DisableTOTP ::
    "platform \<Rightarrow> auth_config \<Rightarrow> randoms \<Rightarrow> time \<Rightarrow> web_request \<Rightarrow> user \<Rightarrow> string \<Rightarrow> auth \<Rightarrow> (goerr option \<times> user) \<times> auth" where
  "DisableTOTP P cfg rd now r user code au =
     (case guarded P now user (consumeSecondFactor P cfg rd now r user code) ErrInvalidCode au of
        ((Some e, user1), au1) \<Rightarrow> ((Some e, user1), au1)
      | ((None, user1), au1) \<Rightarrow>
          (let user2 = ClearTOTP user1;
               user3 = (if \<not> hasSecondFactor cfg user2 (au_store au1) then user2\<lparr>user_RecoveryCodes := []\<rparr> else user2)
           in case users_Update now user3 (au_store au1) of
                (Some e, st) \<Rightarrow> ((Some e, user3), au1\<lparr>au_store := st\<rparr>)
              | (None, st) \<Rightarrow>
                  ((None, user3\<lparr>user_UpdatedAt := now\<rparr>),
                   audit_user cfg rd now r (Some user3) '''' ''totp.disabled'' (user_ID user3) '''' (au1\<lparr>au_store := st\<rparr>))))"

definition RenewRecoveryCodes ::
    "platform \<Rightarrow> auth_config \<Rightarrow> randoms \<Rightarrow> time \<Rightarrow> web_request \<Rightarrow> user \<Rightarrow> string \<Rightarrow> string \<Rightarrow> auth
      \<Rightarrow> (string list res \<times> user) \<times> auth" where
  "RenewRecoveryCodes P cfg rd now r user code password au =
     (if \<not> hasSecondFactor cfg user (au_store au)
      then ((Inl (InvalidInput ''set up an authenticator app or a passkey first''), user), au)
      else case (if TOTPEnabled user then guarded P now user (consumeSecondFactor P cfg rd now r user code) ErrInvalidCode au
                 else (case VerifyCurrentPassword P now user password au of (e, au1) \<Rightarrow> ((e, user), au1))) of
        ((Some e, user1), au1) \<Rightarrow> ((Inl e, user1), au1)
      | ((None, user1), au1) \<Rightarrow>
          (case NewRecoveryCodes P (rd_recovery rd) of
             Inl e \<Rightarrow> ((Inl e, user1), au1)
           | Inr (codes, hashes) \<Rightarrow>
               (let user2 = user1\<lparr>user_RecoveryCodes := hashes\<rparr>
                in case users_Update now user2 (au_store au1) of
                     (Some e, st) \<Rightarrow> ((Inl e, user2), au1\<lparr>au_store := st\<rparr>)
                   | (None, st) \<Rightarrow>
                       ((Inr codes, user2\<lparr>user_UpdatedAt := now\<rparr>),
                        audit_user cfg rd now r (Some user2) '''' ''totp.recovery_codes_renewed'' (user_ID user2) ''''
                          (au1\<lparr>au_store := st\<rparr>)))))"

definition ResetSecondFactors :: "time \<Rightarrow> user \<Rightarrow> fstore \<Rightarrow> goerr option \<times> fstore" where
  "ResetSecondFactors now user st =
     (let user1 = (ClearTOTP user)\<lparr>user_RecoveryCodes := []\<rparr>
      in case users_Update now user1 st of
           (Some e, st') \<Rightarrow> (Some e, st')
         | (None, st') \<Rightarrow> passkeys_DeleteByUserID (user_ID user1) st')"

end
