(* ===== verification/Passkeys.thy ===== *)
theory Passkeys
  imports AuthService
begin

text \<open>
  \<open>internal/auth/passkeys.go\<close>: passkeys as a second sign-in step. The WebAuthn library is a
  parameter, \<open>webauthn\<close>: it makes challenges, reads and verifies responses, and encodes
  credentials. Whether it could be set up for the issuer's host is a bit of the configuration.
\<close>

section \<open>The WebAuthn library and its view of a user\<close>

record wa_credential =
  wc_ID :: string
  wc_CloneWarning :: bool
  wc_rest :: string

record webauthnUser =
  wu_user :: user
  wu_creds :: "wa_credential list"

definition WebAuthnID :: "webauthnUser \<Rightarrow> string" where
  "WebAuthnID u = user_ID (wu_user u)"

definition WebAuthnName :: "webauthnUser \<Rightarrow> string" where
  "WebAuthnName u = user_Email (wu_user u)"

definition WebAuthnDisplayName :: "webauthnUser \<Rightarrow> string" where
  "WebAuthnDisplayName u =
     (if user_DisplayName (wu_user u) \<noteq> '''' then user_DisplayName (wu_user u) else user_Email (wu_user u))"

text \<open>
  The library sees a user through the four methods of its interface: handle, name, display name
  and credentials. A challenge is returned with the session data that checks its answer; the bit
  of a parsed assertion says that the authenticator verified the user.
\<close>

record webauthn =
  wa_BeginRegistration :: "string \<Rightarrow> string \<Rightarrow> string \<Rightarrow> wa_credential list \<Rightarrow> (string \<times> string) res"
  wa_ParseCreation :: "string \<Rightarrow> string res"
  wa_CreateCredential :: "string \<Rightarrow> wa_credential list \<Rightarrow> string \<Rightarrow> string \<Rightarrow> wa_credential res"
  wa_BeginLogin :: "string \<Rightarrow> wa_credential list \<Rightarrow> (string \<times> string) res"
  wa_ParseAssertion :: "string \<Rightarrow> (string \<times> bool) res"
  wa_ValidateLogin :: "string \<Rightarrow> wa_credential list \<Rightarrow> string \<Rightarrow> string \<Rightarrow> wa_credential res"
  wa_Marshal :: "wa_credential \<Rightarrow> string res"
  wa_Unmarshal :: "string \<Rightarrow> wa_credential res"

definition AMRSoftwareKey :: string where
  "AMRSoftwareKey = ''swk''"

definition AMRUserVerification :: string where
  "AMRUserVerification = ''user''"

definition passkeyCeremonyTTL :: duration where
  "passkeyCeremonyTTL = 5 * minute"

definition ErrPasskeysUnavailable :: goerr where
  "ErrPasskeysUnavailable = Plain ''passkeys are not available on this server''"

definition ErrPasskeyCeremony :: goerr where
  "ErrPasskeyCeremony = Plain ''passkey request expired; please try again''"

definition PasskeysAvailable :: "auth_config \<Rightarrow> bool" where
  "PasskeysAvailable cfg \<longleftrightarrow> ac_passkeys cfg \<and> ac_webauthn cfg"

definition Passkeys_list :: "auth_config \<Rightarrow> string \<Rightarrow> fstore \<Rightarrow> passkey list res" where
  "Passkeys_list cfg userID st = (if \<not> ac_passkeys cfg then Inr [] else passkeys_ListByUserID userID st)"

fun unmarshal_creds :: "webauthn \<Rightarrow> passkey list \<Rightarrow> wa_credential list res" where
  "unmarshal_creds W [] = Inr []"
| "unmarshal_creds W (p # ps) =
     (case wa_Unmarshal W (passkey_Credential p) of
        Inl e \<Rightarrow> Inl (Wrapped (''passkey '' @ passkey_ID p) e)
      | Inr c \<Rightarrow> bindR (unmarshal_creds W ps) (\<lambda>cs. Inr (c # cs)))"

definition webauthn_user :: "webauthn \<Rightarrow> user \<Rightarrow> fstore \<Rightarrow> (webauthnUser \<times> passkey list) res" where
  "webauthn_user W user st =
     bindR (passkeys_ListByUserID (user_ID user) st) (\<lambda>list.
     bindR (unmarshal_creds W list) (\<lambda>cs. Inr (\<lparr>wu_user = user, wu_creds = cs\<rparr>, list)))"

section \<open>Registration\<close>

definition BeginPasskeyRegistration ::
    "platform \<Rightarrow> webauthn \<Rightarrow> auth_config \<Rightarrow> time \<Rightarrow> user \<Rightarrow> string \<Rightarrow> auth \<Rightarrow> string res \<times> auth" where
  "BeginPasskeyRegistration P W cfg now user password au =
     (if \<not> PasskeysAvailable cfg then (Inl ErrPasskeysUnavailable, au)
      else case VerifyCurrentPassword P now user password au of
        (Some e, au1) \<Rightarrow> (Inl e, au1)
      | (None, au1) \<Rightarrow>
          (case webauthn_user W user (au_store au1) of
             Inl e \<Rightarrow> (Inl e, au1)
           | Inr (wu, _) \<Rightarrow>
               (case wa_BeginRegistration W (WebAuthnID wu) (WebAuthnName wu) (WebAuthnDisplayName wu) (wu_creds wu) of
                  Inl e \<Rightarrow> (Inl e, au1)
                | Inr (creation, data) \<Rightarrow>
                    (Inr creation,
                     au1\<lparr>au_registrations :=
                        (au_registrations au1)(user_ID user \<mapsto> \<lparr>rc_data = data, rc_expires = now + passkeyCeremonyTTL\<rparr>)\<rparr>))))"

text \<open>A blank name becomes \<open>Passkey\<close>, a long one is cut at 64 bytes.\<close>

definition passkey_label :: "string \<Rightarrow> string" where
  "passkey_label name =
     (let n = TrimSpace name; n1 = (if n = '''' then ''Passkey'' else n)
      in if length n1 > 64 then take 64 n1 else n1)"

definition passkey_recovery ::
    "platform \<Rightarrow> randoms \<Rightarrow> time \<Rightarrow> user \<Rightarrow> auth \<Rightarrow> string list res \<times> auth" where
  "passkey_recovery P rd now user au =
     (if user_RecoveryCodes user = [] then
        (case NewRecoveryCodes P (rd_recovery rd) of
           Inl e \<Rightarrow> (Inl e, au)
         | Inr (codes, hashes) \<Rightarrow>
             (case users_Update now (user\<lparr>user_RecoveryCodes := hashes\<rparr>) (au_store au) of
                (Some e, st) \<Rightarrow> (Inl e, au\<lparr>au_store := st\<rparr>)
              | (None, st) \<Rightarrow> (Inr codes, au\<lparr>au_store := st\<rparr>)))
      else (Inr [], au))"

definition FinishPasskeyRegistration ::
    "platform \<Rightarrow> webauthn \<Rightarrow> auth_config \<Rightarrow> randoms \<Rightarrow> time \<Rightarrow> web_request \<Rightarrow> user \<Rightarrow> string \<Rightarrow> string \<Rightarrow> auth
      \<Rightarrow> string list res \<times> auth" where
  "FinishPasskeyRegistration P W cfg rd now r user name response au =
     (if \<not> PasskeysAvailable cfg then (Inl ErrPasskeysUnavailable, au)
      else
        let au1 = au\<lparr>au_registrations := (au_registrations au)(user_ID user := None)\<rparr>
        in case au_registrations au (user_ID user) of
             None \<Rightarrow> (Inl ErrPasskeyCeremony, au1)
           | Some ceremony \<Rightarrow>
               if now > rc_expires ceremony then (Inl ErrPasskeyCeremony, au1)
               else case wa_ParseCreation W response of
                 Inl _ \<Rightarrow> (Inl (InvalidInput ''the passkey response could not be read''), au1)
               | Inr parsed \<Rightarrow>
                   (case webauthn_user W user (au_store au1) of
                      Inl e \<Rightarrow> (Inl e, au1)
                    | Inr (wu, _) \<Rightarrow>
                        (case wa_CreateCredential W (WebAuthnID wu) (wu_creds wu) (rc_data ceremony) parsed of
                           Inl _ \<Rightarrow> (Inl (InvalidInput ''the passkey could not be verified''), au1)
                         | Inr cred \<Rightarrow>
                             (case wa_Marshal W cred of
                                Inl e \<Rightarrow> (Inl e, au1)
                              | Inr raw \<Rightarrow>
                                  (case passkeys_Create now
                                          \<lparr>passkey_ID = RawURLEncoding_EncodeToString (wc_ID cred), passkey_UserID = user_ID user,
                                           passkey_Name = passkey_label name, passkey_Credential = raw,
                                           passkey_CreatedAt = zero_time, passkey_LastUsedAt = zero_time\<rparr> (au_store au1) of
                                     (Some e, st) \<Rightarrow> (Inl e, au1\<lparr>au_store := st\<rparr>)
                                   | (None, st) \<Rightarrow>
                                       passkey_recovery P rd now user
                                         (audit_user cfg rd now r (Some user) '''' ''passkey.added'' (user_ID user)
                                            (passkey_label name) (au1\<lparr>au_store := st\<rparr>)))))))"

definition RemovePasskey ::
    "platform \<Rightarrow> auth_config \<Rightarrow> randoms \<Rightarrow> time \<Rightarrow> web_request \<Rightarrow> user \<Rightarrow> string \<Rightarrow> string \<Rightarrow> auth
      \<Rightarrow> (goerr option \<times> user) \<times> auth" where
  "RemovePasskey P cfg rd now r user ident password au =
     (if \<not> ac_passkeys cfg then ((Some ErrPasskeysUnavailable, user), au)
      else case VerifyCurrentPassword P now user password au of
        (Some e, au1) \<Rightarrow> ((Some e, user), au1)
      | (None, au1) \<Rightarrow>
          (case passkeys_Delete (user_ID user) ident (au_store au1) of
             (Some e, st) \<Rightarrow> ((Some e, user), au1\<lparr>au_store := st\<rparr>)
           | (None, st) \<Rightarrow>
               (let au2 = audit_user cfg rd now r (Some user) '''' ''passkey.removed'' (user_ID user) ident (au1\<lparr>au_store := st\<rparr>);
                    user1 = user\<lparr>user_RecoveryCodes := []\<rparr>
                in if \<not> hasSecondFactor cfg user (au_store au2) \<and> user_RecoveryCodes user \<noteq> [] then
                     (case users_Update now user1 (au_store au2) of
                        (Some e, st2) \<Rightarrow> ((Some e, user1), au2\<lparr>au_store := st2\<rparr>)
                      | (None, st2) \<Rightarrow> ((None, user1\<lparr>user_UpdatedAt := now\<rparr>), au2\<lparr>au_store := st2\<rparr>))
                   else ((None, user), au2))))"

section \<open>Sign-in\<close>

definition PendingLoginHasPasskeys :: "auth_config \<Rightarrow> time \<Rightarrow> web_request \<Rightarrow> auth \<Rightarrow> bool \<times> auth" where
  "PendingLoginHasPasskeys cfg now r au =
     (if \<not> PasskeysAvailable cfg then (False, au)
      else case req_Cookie r PendingLoginCookieName of
        None \<Rightarrow> (False, au)
      | Some value \<Rightarrow>
          (case pending_get now value (au_pending au) of
             (None, p) \<Rightarrow> (False, au\<lparr>au_pending := p\<rparr>)
           | (Some e, p) \<Rightarrow>
               ((case passkeys_ListByUserID (pl_userID e) (au_store au) of Inl _ \<Rightarrow> False | Inr list \<Rightarrow> length list > 0),
                au\<lparr>au_pending := p\<rparr>)))"

definition PendingLoginHasTOTP :: "time \<Rightarrow> web_request \<Rightarrow> auth \<Rightarrow> bool \<times> auth" where
  "PendingLoginHasTOTP now r au =
     (case req_Cookie r PendingLoginCookieName of
        None \<Rightarrow> (False, au)
      | Some value \<Rightarrow>
          (case pending_get now value (au_pending au) of
             (None, p) \<Rightarrow> (False, au\<lparr>au_pending := p\<rparr>)
           | (Some e, p) \<Rightarrow>
               ((case users_GetByID (pl_userID e) (au_store au) of Inl _ \<Rightarrow> False | Inr user \<Rightarrow> TOTPEnabled user),
                au\<lparr>au_pending := p\<rparr>)))"

definition BeginPasskeyLogin ::
    "platform \<Rightarrow> webauthn \<Rightarrow> auth_config \<Rightarrow> time \<Rightarrow> web_request \<Rightarrow> auth \<Rightarrow> string res \<times> auth" where
  "BeginPasskeyLogin P W cfg now r au =
     (if \<not> PasskeysAvailable cfg then (Inl ErrPasskeysUnavailable, au)
      else if csrf_ValidateToken P now (ac_csrf cfg) r \<noteq> None then (Inl (New CodeForbidden ''invalid CSRF token''), au)
      else case req_Cookie r PendingLoginCookieName of
        None \<Rightarrow> (Inl ErrPendingLoginExpired, au)
      | Some value \<Rightarrow>
          (case pending_get now value (au_pending au) of
             (None, p) \<Rightarrow> (Inl ErrPendingLoginExpired, au\<lparr>au_pending := p\<rparr>)
           | (Some e, p) \<Rightarrow>
               (let au1 = au\<lparr>au_pending := p\<rparr>
                in case users_GetByID (pl_userID e) (au_store au1) of
                     Inl _ \<Rightarrow> (Inl ErrPendingLoginExpired, au1)
                   | Inr user \<Rightarrow>
                       (case webauthn_user W user (au_store au1) of
                          Inl err \<Rightarrow> (Inl err, au1)
                        | Inr (wu, _) \<Rightarrow>
                            if wu_creds wu = [] then (Inl ErrPasskeysUnavailable, au1)
                            else case wa_BeginLogin W (WebAuthnID wu) (wu_creds wu) of
                              Inl err \<Rightarrow> (Inl err, au1)
                            | Inr (assertion, data) \<Rightarrow>
                                (case setPasskeyChallenge now value data (au_pending au1) of
                                   (False, p1) \<Rightarrow> (Inl ErrPendingLoginExpired, au1\<lparr>au_pending := p1\<rparr>)
                                 | (True, p1) \<Rightarrow> (Inr assertion, au1\<lparr>au_pending := p1\<rparr>))))))"

text \<open>The loop that writes the used credential back.\<close>

fun record_use ::
    "webauthn \<Rightarrow> time \<Rightarrow> string \<Rightarrow> wa_credential \<Rightarrow> passkey list \<Rightarrow> fstore \<Rightarrow> goerr option \<times> fstore" where
  "record_use W now ident cred [] st = (None, st)"
| "record_use W now ident cred (p # ps) st =
     (if passkey_ID p \<noteq> ident then record_use W now ident cred ps st
      else case wa_Marshal W cred of
        Inl e \<Rightarrow> (Some e, st)
      | Inr raw \<Rightarrow>
          (case passkeys_Update (p\<lparr>passkey_Credential := raw, passkey_LastUsedAt := now\<rparr>) st of
             (Some e, st') \<Rightarrow> (Some (Wrapped ''failed to record passkey use'' e), st')
           | (None, st') \<Rightarrow> record_use W now ident cred ps st'))"

text \<open>What the library says of a response: the verified credential and the user-verified bit.\<close>

definition assertion_check :: "webauthn \<Rightarrow> webauthnUser \<Rightarrow> string \<Rightarrow> string \<Rightarrow> (wa_credential \<times> bool) option" where
  "assertion_check W wu challenge response =
     (case wa_ParseAssertion W response of
        Inl _ \<Rightarrow> None
      | Inr (parsed, verified) \<Rightarrow>
          (case wa_ValidateLogin W (WebAuthnID wu) (wu_creds wu) challenge parsed of
             Inl _ \<Rightarrow> None
           | Inr cred \<Rightarrow> if wc_CloneWarning cred then None else Some (cred, verified)))"

definition CompletePasskeyLogin ::
    "platform \<Rightarrow> webauthn \<Rightarrow> auth_config \<Rightarrow> randoms \<Rightarrow> time \<Rightarrow> web_request \<Rightarrow> string \<Rightarrow> auth
      \<Rightarrow> (user option \<times> goerr option) \<times> cookie list \<times> auth" where
  "CompletePasskeyLogin P W cfg rd now r response au =
     (if \<not> PasskeysAvailable cfg then ((None, Some ErrPasskeysUnavailable), [], au)
      else case reservePendingAttempt P cfg now r au of
        (Inl e, cks, au1) \<Rightarrow> ((None, Some e), cks, au1)
      | (Inr (token, user, attempts), cks, au1) \<Rightarrow>
          (case takePasskeyChallenge token (au_pending au1) of (challenge, p) \<Rightarrow>
             let au2 = au1\<lparr>au_pending := p\<rparr>
             in case challenge of
                  None \<Rightarrow> ((None, Some ErrPasskeyCeremony), cks, au2)
                | Some ch \<Rightarrow>
                    (case webauthn_user W user (au_store au2) of
                       Inl e \<Rightarrow> ((None, Some e), cks, au2)
                     | Inr (wu, list) \<Rightarrow>
                         (case assertion_check W wu ch response of
                            None \<Rightarrow>
                              (case secondFactorFailed P cfg rd now r user token attempts ''passkey not accepted'' au2 of
                                 (e, cks', au3) \<Rightarrow> ((None, Some e), cks @ cks', au3))
                          | Some (cred, verified) \<Rightarrow>
                              (case record_use W now (RawURLEncoding_EncodeToString (wc_ID cred)) cred list (au_store au2) of
                                 (Some e, st) \<Rightarrow> ((None, Some e), cks, au2\<lparr>au_store := st\<rparr>)
                               | (None, st) \<Rightarrow>
                                   (case finishPendingLogin P cfg rd now r token user
                                           ([AMRPassword, AMRSoftwareKey, AMRMultiFactor] @ (if verified then [AMRUserVerification] else []))
                                           (au2\<lparr>au_store := st\<rparr>) of
                                      (e, cks', au3) \<Rightarrow> ((Some user, e), cks @ cks', au3)))))))"

end
