(* ===== verification/SignIn.thy ===== *)
theory SignIn
  imports Passkeys
begin

text \<open>
  Sign-in as a state machine: what the requests of browsers, in any order, do to the pending
  logins and the sessions. A step is one call of the service; anything else the server does to
  the store, the lockout entries and the registrations is \<open>CallOther\<close>, an arbitrary change.
\<close>

section \<open>Steps\<close>

datatype auth_call =
    CallLogin web_request string string
  | CallSecondFactor web_request string
  | CallBeginPasskey web_request
  | CallPasskey web_request string
  | CallHasPending web_request
  | CallHasPasskeys web_request
  | CallHasTOTP web_request
  | CallLogout web_request
  | CallOther fstore "lockout option" "string \<rightharpoonup> registrationCeremony"

type_synonym timed_call = "time \<times> randoms \<times> auth_call"

fun auth_step :: "platform \<Rightarrow> webauthn \<Rightarrow> auth_config \<Rightarrow> timed_call \<Rightarrow> auth \<Rightarrow> cookie list \<times> auth" where
  "auth_step P W cfg (now, rd, CallLogin r email password) au = snd (Login P cfg rd now r email password au)"
| "auth_step P W cfg (now, rd, CallSecondFactor r code) au = snd (CompleteSecondFactor P cfg rd now r code au)"
| "auth_step P W cfg (now, rd, CallBeginPasskey r) au = ([], snd (BeginPasskeyLogin P W cfg now r au))"
| "auth_step P W cfg (now, rd, CallPasskey r response) au = snd (CompletePasskeyLogin P W cfg rd now r response au)"
| "auth_step P W cfg (now, rd, CallHasPending r) au = ([], snd (HasPendingLogin now r au))"
| "auth_step P W cfg (now, rd, CallHasPasskeys r) au = ([], snd (PendingLoginHasPasskeys cfg now r au))"
| "auth_step P W cfg (now, rd, CallHasTOTP r) au = ([], snd (PendingLoginHasTOTP now r au))"
| "auth_step P W cfg (now, rd, CallLogout r) au = Logout cfg rd now r au"
| "auth_step P W cfg (now, rd, CallOther st l regs) au = ([], au\<lparr>au_store := st, au_lockout := l, au_registrations := regs\<rparr>)"

text \<open>The pending login a call gets to answer, if it gets that far.\<close>

definition reserved_token :: "(string \<times> user \<times> int) res \<times> cookie list \<times> auth \<Rightarrow> string option" where
  "reserved_token x = (case fst x of Inr (tok, _) \<Rightarrow> Some tok | Inl _ \<Rightarrow> None)"

fun answered :: "platform \<Rightarrow> auth_config \<Rightarrow> timed_call \<Rightarrow> auth \<Rightarrow> string option" where
  "answered P cfg (now, rd, CallSecondFactor r code) au = reserved_token (reservePendingAttempt P cfg now r au)"
| "answered P cfg (now, rd, CallPasskey r response) au =
     (if PasskeysAvailable cfg then reserved_token (reservePendingAttempt P cfg now r au) else None)"
| "answered P cfg _ au = None"

text \<open>The user whose password a call proved.\<close>

fun proved :: "platform \<Rightarrow> auth_config \<Rightarrow> timed_call \<Rightarrow> auth \<Rightarrow> (time \<times> user) list" where
  "proved P cfg (now, rd, CallLogin r email password) au =
     (if csrf_ValidateToken P now (ac_csrf cfg) r = None \<and> \<not> lockout_IsLocked P now email au then
        (case Authenticate P email password (au_store au) of Inr user \<Rightarrow> [(now, user)] | Inl _ \<Rightarrow> [])
      else [])"
| "proved P cfg _ au = []"

lemma proved_Login_iff:
  "(t, user) \<in> set (proved P cfg (now, rd, CallLogin r email password) au) \<longleftrightarrow>
     t = now \<and> csrf_ValidateToken P now (ac_csrf cfg) r = None \<and> \<not> lockout_IsLocked P now email au
     \<and> Authenticate P email password (au_store au) = Inr user"
proof (cases "csrf_ValidateToken P now (ac_csrf cfg) r = None \<and> \<not> lockout_IsLocked P now email au")
  case True
  then show ?thesis unfolding proved.simps by (cases "Authenticate P email password (au_store au)") (simp_all, blast)
next
  case False
  then show ?thesis unfolding proved.simps if_not_P [OF False] by auto
qed

declare proved.simps(1) [simp del]

record signin_event =
  se_call :: timed_call
  se_answered :: "string option"
  se_proved :: "(time \<times> user) list"
  se_cookies :: "cookie list"

inductive signin_step :: "platform \<Rightarrow> webauthn \<Rightarrow> auth_config \<Rightarrow> auth \<Rightarrow> signin_event \<Rightarrow> auth \<Rightarrow> bool" for P W cfg where
  call: "auth_step P W cfg x au = (cks, au') \<Longrightarrow>
    signin_step P W cfg au \<lparr>se_call = x, se_answered = answered P cfg x au, se_proved = proved P cfg x au, se_cookies = cks\<rparr> au'"

inductive_cases signin_stepE: "signin_step P W cfg au e au'"

inductive_simps signin_step_iff: "signin_step P W cfg au e au'"

section \<open>What an operation does to the pending logins\<close>

text \<open>No entry is new, an entry keeps its user and its deadline, and its attempts only grow.\<close>

definition pend_le :: "(string \<rightharpoonup> pendingLogin) \<Rightarrow> (string \<rightharpoonup> pendingLogin) \<Rightarrow> bool" where
  "pend_le p p' \<longleftrightarrow> (\<forall>tok e'. p' tok = Some e' \<longrightarrow>
     (\<exists>e. p tok = Some e \<and> pl_userID e' = pl_userID e \<and> pl_email e' = pl_email e \<and> pl_expires e' = pl_expires e
        \<and> pl_attempts e \<le> pl_attempts e'))"

lemma pend_le_refl [simp, intro]: "pend_le p p"
  by (auto simp: pend_le_def)

lemma pend_le_trans [trans]:
  assumes pq: "pend_le p q" and qr: "pend_le q r"
  shows "pend_le p r"
  unfolding pend_le_def
proof (intro allI impI)
  fix tok e2
  assume "r tok = Some e2"
  then obtain e1 where e1: "q tok = Some e1" "pl_userID e2 = pl_userID e1" "pl_email e2 = pl_email e1"
    "pl_expires e2 = pl_expires e1" "pl_attempts e1 \<le> pl_attempts e2"
    using qr unfolding pend_le_def by blast
  then obtain e where "p tok = Some e" "pl_userID e1 = pl_userID e" "pl_email e1 = pl_email e"
    "pl_expires e1 = pl_expires e" "pl_attempts e \<le> pl_attempts e1"
    using pq unfolding pend_le_def by blast
  with e1 show "\<exists>e. p tok = Some e \<and> pl_userID e2 = pl_userID e \<and> pl_email e2 = pl_email e \<and> pl_expires e2 = pl_expires e
        \<and> pl_attempts e \<le> pl_attempts e2" by auto
qed

lemma pend_le_remove [simp, intro]: "pend_le p q \<Longrightarrow> pend_le p (q(tok := None))"
  by (auto simp: pend_le_def)

lemma pending_remove_le [simp, intro]: "pend_le p q \<Longrightarrow> pend_le p (pending_remove tok q)"
  by (simp add: pending_remove_def)

lemma pending_get_le: "pend_le p (snd (pending_get now tok p))"
  by (auto simp: pending_get_def split: option.split)

lemma pending_reserve_le: "pend_le p (snd (pending_reserve now tok p))"
  by (auto simp: pending_reserve_def pend_le_def Let_def split: option.split)

lemma passkeyChallenge_le:
  "pend_le p (snd (setPasskeyChallenge now tok data p))" "pend_le p (snd (takePasskeyChallenge tok p))"
  by (auto simp: setPasskeyChallenge_def takePasskeyChallenge_def pend_le_def split: option.split)

lemma bookkeeping_pending [simp]:
  "au_pending (audit_user cfg rd now r a e act t d au) = au_pending au"
  "au_pending (lockout_RecordFailure P now email au) = au_pending au"
  "au_pending (lockout_RecordSuccess P email au) = au_pending au"
  by (simp_all add: audit_user_def lockout_RecordFailure_def lockout_RecordSuccess_def)

lemma startSession_pending [simp]: "au_pending (snd (snd (startSession P cfg rd now r user amr au))) = au_pending au"
  by (simp add: startSession_def Let_def split: prod.split sum.split)

lemma finishPendingLogin_le: "pend_le (au_pending au) (au_pending (snd (snd (finishPendingLogin P cfg rd now r tok user amr au))))"
proof -
  obtain e cks au' where s: "startSession P cfg rd now r user amr (au\<lparr>au_pending := pending_remove tok (au_pending au)\<rparr>) = (e, cks, au')"
    by (metis prod_cases3)
  then have "au_pending au' = pending_remove tok (au_pending au)"
    using startSession_pending [of P cfg rd now r user amr "au\<lparr>au_pending := pending_remove tok (au_pending au)\<rparr>"] by simp
  with s show ?thesis by (simp add: finishPendingLogin_def)
qed

lemma secondFactorFailed_le: "pend_le (au_pending au) (au_pending (snd (snd (secondFactorFailed P cfg rd now r user tok n d au))))"
  by (simp add: secondFactorFailed_def Let_def)

lemma consumeSecondFactor_pending [simp]: "au_pending (snd (consumeSecondFactor P cfg rd now r user code au)) = au_pending au"
  by (simp add: consumeSecondFactor_def Let_def split: prod.split sum.split option.split bool.split)

lemma reservePendingAttempt_le: "pend_le (au_pending au) (au_pending (snd (snd (reservePendingAttempt P cfg now r au))))"
proof -
  have "pend_le (au_pending au) p" if "pending_reserve now v (au_pending au) = (x, p)" for v x p
    using pending_reserve_le [of "au_pending au" now v] that by simp
  then show ?thesis
    by (auto simp: reservePendingAttempt_def Let_def split: option.split prod.split sum.split)
qed

text \<open>A reservation that succeeds used up one of the attempts.\<close>

lemma reserved_token_D:
  assumes "reserved_token (reservePendingAttempt P cfg now r au) = Some tok"
  shows "\<exists>e user cks au'. au_pending au tok = Some e \<and> now \<le> pl_expires e \<and> pl_attempts e < pendingLoginAttempts
    \<and> reservePendingAttempt P cfg now r au = (Inr (tok, user, pl_attempts e + 1), [], au')
    \<and> users_GetByID (pl_userID e) (au_store au) = Inr user \<and> user_Active user \<and> hasSecondFactor cfg user (au_store au)
    \<and> csrf_ValidateToken P now (ac_csrf cfg) r = None \<and> \<not> lockout_IsLocked P now (pl_email e) au'
    \<and> au' = au\<lparr>au_pending := (au_pending au)(tok \<mapsto> e\<lparr>pl_attempts := pl_attempts e + 1\<rparr>)\<rparr>"
  using assms
  by (auto simp: reserved_token_def reservePendingAttempt_def pending_reserve_def Let_def
      split: option.splits prod.splits sum.splits if_splits)

lemma CompleteSecondFactor_after:
  "pend_le (au_pending (snd (snd (reservePendingAttempt P cfg now r au)))) (au_pending (snd (snd (CompleteSecondFactor P cfg rd now r code au))))"
proof -
  obtain res cks au1 where res: "reservePendingAttempt P cfg now r au = (res, cks, au1)" by (metis prod_cases3)
  show ?thesis
  proof (cases res)
    case (Inl e)
    with res show ?thesis by (simp add: CompleteSecondFactor_def)
  next
    case (Inr x)
    obtain tok user n where x: "x = (tok, user, n)" by (metis prod_cases3)
    obtain ok user1 au2 where c: "consumeSecondFactor P cfg rd now r user code au1 = ((ok, user1), au2)" by (metis surj_pair)
    then have "au_pending au2 = au_pending au1" using consumeSecondFactor_pending [of P cfg rd now r user code au1] by simp
    then have le2: "pend_le (au_pending au1) (au_pending au2)" by simp
    have failed: "pend_le (au_pending au1) (au_pending au3)" if "secondFactorFailed P cfg rd now r user1 tok n d au2 = (e, cks', au3)"
      for d e cks' au3
      using pend_le_trans [OF le2] secondFactorFailed_le [of au2 P cfg rd now r user1 tok n d] that by simp
    have "pend_le (au_pending au1) (au_pending au3)" if "finishPendingLogin P cfg rd now r tok user1 amr au2 = (e, cks', au3)"
      for amr e cks' au3
      using pend_le_trans [OF le2] finishPendingLogin_le [of au2 P cfg rd now r tok user1 amr] that by simp
    with failed le2 res Inr x c show ?thesis by (auto simp: CompleteSecondFactor_def split: sum.split prod.split)
  qed
qed

lemma CompletePasskeyLogin_after:
  assumes "PasskeysAvailable cfg"
  shows "pend_le (au_pending (snd (snd (reservePendingAttempt P cfg now r au))))
    (au_pending (snd (snd (CompletePasskeyLogin P W cfg rd now r response au))))"
proof -
  obtain res cks au1 where res: "reservePendingAttempt P cfg now r au = (res, cks, au1)" by (metis prod_cases3)
  show ?thesis
  proof (cases res)
    case (Inl e)
    with res assms show ?thesis by (simp add: CompletePasskeyLogin_def)
  next
    case (Inr x)
    obtain tok user n where x: "x = (tok, user, n)" by (metis prod_cases3)
    obtain ch p where t: "takePasskeyChallenge tok (au_pending au1) = (ch, p)" by force
    have p: "pend_le (au_pending au1) p"
      using passkeyChallenge_le(2) [of "au_pending au1" tok] t by simp
    have failed: "pend_le (au_pending au1) (au_pending au3)"
      if "secondFactorFailed P cfg rd now r user tok n d (au1\<lparr>au_pending := p\<rparr>) = (e, cks', au3)" for d e cks' au3
      using pend_le_trans [OF p] secondFactorFailed_le [of "au1\<lparr>au_pending := p\<rparr>" P cfg rd now r user tok n d] that by simp
    have "pend_le (au_pending au1) (au_pending au3)"
      if "finishPendingLogin P cfg rd now r tok user amr (au1\<lparr>au_pending := p, au_store := st\<rparr>) = (e, cks', au3)" for amr st e cks' au3
      using pend_le_trans [OF p] finishPendingLogin_le [of "au1\<lparr>au_pending := p, au_store := st\<rparr>" P cfg rd now r tok user amr] that
      by simp
    with failed assms res Inr x t p show ?thesis
      by (auto simp: CompletePasskeyLogin_def Let_def split: sum.split prod.split option.split)
  qed
qed

lemma completions_le:
  "pend_le (au_pending au) (au_pending (snd (snd (CompleteSecondFactor P cfg rd now r code au))))"
  "pend_le (au_pending au) (au_pending (snd (snd (CompletePasskeyLogin P W cfg rd now r response au))))"
proof -
  note reserve = pend_le_trans [OF reservePendingAttempt_le]
  show "pend_le (au_pending au) (au_pending (snd (snd (CompleteSecondFactor P cfg rd now r code au))))"
    by (rule reserve [OF CompleteSecondFactor_after])
  show "pend_le (au_pending au) (au_pending (snd (snd (CompletePasskeyLogin P W cfg rd now r response au))))"
    by (cases "PasskeysAvailable cfg") (auto intro: reserve [OF CompletePasskeyLogin_after], simp add: CompletePasskeyLogin_def)
qed

lemma reads_le:
  "pend_le (au_pending au) (au_pending (snd (HasPendingLogin now r au)))"
  "pend_le (au_pending au) (au_pending (snd (PendingLoginHasPasskeys cfg now r au)))"
  "pend_le (au_pending au) (au_pending (snd (PendingLoginHasTOTP now r au)))"
  "pend_le (au_pending au) (au_pending (snd (BeginPasskeyLogin P W cfg now r au)))"
proof -
  have get: "pend_le (au_pending au) p" if "pending_get now v (au_pending au) = (x, p)" for v x p
    using pending_get_le [of "au_pending au" now v] that by simp
  then show "pend_le (au_pending au) (au_pending (snd (HasPendingLogin now r au)))"
    "pend_le (au_pending au) (au_pending (snd (PendingLoginHasPasskeys cfg now r au)))"
    "pend_le (au_pending au) (au_pending (snd (PendingLoginHasTOTP now r au)))"
    by (auto simp: HasPendingLogin_def PendingLoginHasPasskeys_def PendingLoginHasTOTP_def split: option.split prod.split)
  have "pend_le (au_pending au) q"
    if "pending_get now v (au_pending au) = (x, p)" "setPasskeyChallenge now v data p = (ok, q)" for v x p data ok q
    using pend_le_trans [OF get [OF that(1)]] passkeyChallenge_le(1) [of p now v data] that(2) by simp
  with get show "pend_le (au_pending au) (au_pending (snd (BeginPasskeyLogin P W cfg now r au)))"
    by (auto simp: BeginPasskeyLogin_def Let_def split: option.split prod.split sum.split bool.split)
qed

lemma GetCurrentUser_pending [simp]: "au_pending (snd (GetCurrentUser now r au)) = au_pending au"
  by (simp add: GetCurrentUser_def split: prod.split sum.split)

lemma Logout_pending [simp]: "au_pending (snd (Logout cfg rd now r au)) = au_pending au"
proof -
  have "au_pending au' = au_pending au" if "GetCurrentUser now r au = (x, au')" for x au'
    using GetCurrentUser_pending [of now r au] that by simp
  then show ?thesis by (auto simp: Logout_def Let_def split: option.split prod.split sum.split)
qed

text \<open>Login adds at most the entry of the user it checked, under the token it drew.\<close>

lemma Login_pending:
  "pend_le (au_pending au) (au_pending (snd (snd (Login P cfg rd now r email password au)))) \<or>
   (\<exists>user b e. (now, user) \<in> set (proved P cfg (now, rd, CallLogin r email password) au) \<and> rd_pending rd = Inr b
      \<and> pl_userID e = user_ID user \<and> pl_expires e = now + pendingLoginTTL \<and> pl_attempts e = 0
      \<and> pend_le ((au_pending au)(RawURLEncoding_EncodeToString b \<mapsto> e)) (au_pending (snd (snd (Login P cfg rd now r email password au)))))"
proof (cases "(\<exists>user. (now, user) \<in> set (proved P cfg (now, rd, CallLogin r email password) au) \<and> hasSecondFactor cfg user (au_store au)
    \<and> Authenticate P email password (au_store au) = Inr user) \<and> (\<exists>b. rd_pending rd = Inr b)")
  case True
  then obtain user b where u: "(now, user) \<in> set (proved P cfg (now, rd, CallLogin r email password) au)"
    "hasSecondFactor cfg user (au_store au)" "Authenticate P email password (au_store au) = Inr user" "rd_pending rd = Inr b" by blast
  let ?e = "\<lparr>pl_userID = user_ID user, pl_email = user_Email user, pl_expires = now + pendingLoginTTL, pl_attempts = 0, pl_passkey = None\<rparr>"
  let ?live = "\<lambda>k. case au_pending au k of None \<Rightarrow> None | Some x \<Rightarrow> if now > pl_expires x then None else Some x"
  have "csrf_ValidateToken P now (ac_csrf cfg) r = None \<and> \<not> lockout_IsLocked P now email au" using u(1) by (simp add: proved_Login_iff)
  then have "au_pending (snd (snd (Login P cfg rd now r email password au))) = ?live(RawURLEncoding_EncodeToString b \<mapsto> ?e)"
    using u(2-4) by (simp add: Login_def pending_add_def Let_def)
  moreover have "pend_le ((au_pending au)(k \<mapsto> ?e)) (?live(k \<mapsto> ?e))" for k
    by (auto simp: pend_le_def split: option.split)
  ultimately have "pend_le ((au_pending au)(RawURLEncoding_EncodeToString b \<mapsto> ?e)) (au_pending (snd (snd (Login P cfg rd now r email password au))))"
    by simp
  with u show ?thesis by (intro disjI2 exI [of _ user] exI [of _ b] exI [of _ ?e]) simp
next
  case False
  have "au_pending au' = au_pending au" if "startSession P cfg rd now r user [AMRPassword] au = (e, cks, au')" for e cks au' user
    using startSession_pending [of P cfg rd now r user "[AMRPassword]" au] that by simp
  with False have "pend_le (au_pending au) (au_pending (snd (snd (Login P cfg rd now r email password au))))"
    by (auto simp: Login_def pending_add_def proved_Login_iff split: sum.splits prod.splits if_splits)
  then show ?thesis ..
qed

section \<open>Where a session cookie comes from\<close>

definition session_cookie :: "cookie \<Rightarrow> bool" where
  "session_cookie ck \<longleftrightarrow> ck_Name ck = SessionCookieName \<and> ck_Value ck \<noteq> ''''"

definition opens :: "cookie \<Rightarrow> string \<Rightarrow> string list \<Rightarrow> auth \<Rightarrow> bool" where
  "opens ck userID amr au \<longleftrightarrow>
     (\<exists>s \<in> set (sessions_of (au_store au)). session_ID s = ck_Value ck \<and> session_UserID s = userID \<and> session_AMR s = amr)"

lemma other_cookies [simp]:
  "\<not> session_cookie (csrf_ClearToken s)" "\<not> session_cookie (clearPendingCookie cfg)" "\<not> session_cookie (setPendingCookie cfg tok)"
  "\<not> session_cookie (ClearSessionCookie ss)"
  by (simp_all add: session_cookie_def csrf_ClearToken_def clearPendingCookie_def setPendingCookie_def ClearSessionCookie_def
      PendingLoginCookieName_def SessionCookieName_def)

lemma audit_user_sessions [simp]: "sessions_of (au_store (audit_user cfg rd now r a e act t d au)) = sessions_of (au_store au)"
proof -
  have "sessions_of (Record u n b ev st) = sessions_of st" for u n b ev st using Record_frame [of u n b ev st] by auto
  then show ?thesis by (simp add: audit_user_def)
qed

lemma RotateSession_Inr:
  assumes "RotateSession rnd now s old u ua ip amr st = (Inr (x, tok), st')"
  shows "x \<in> set (sessions_of st') \<and> session_ID x = tok \<and> session_UserID x = u \<and> session_AMR x = amr"
  using assms
  by (auto simp: RotateSession_def CreateSession_def sessions_Create_def save_sessions_def writeFile_None Let_def
      split: sum.splits option.splits prod.splits)

lemma startSession_cookie:
  assumes "startSession P cfg rd now r user amr au = (e, cks, au')" and "ck \<in> set cks" and "session_cookie ck"
  shows "opens ck (user_ID user) amr au'"
  using assms
  by (auto simp: startSession_def Let_def opens_def SetSessionCookie_def split: prod.splits sum.splits dest!: RotateSession_Inr) blast

lemma consumeSecondFactor_ok:
  assumes "consumeSecondFactor P cfg rd now r user code au = ((Inr True, user1), au')"
  shows "user_ID user1 = user_ID user"
  using assms
  by (auto simp: consumeSecondFactor_def Let_def dest: users_GetByID_D split: if_splits sum.splits prod.splits option.splits bool.splits)

lemma reservePendingAttempt_cookies:
  "reservePendingAttempt P cfg now r au = (x, cks, au') \<Longrightarrow> ck \<in> set cks \<Longrightarrow> \<not> session_cookie ck"
  by (auto simp: reservePendingAttempt_def Let_def split: if_splits option.splits prod.splits sum.splits)

lemma secondFactorFailed_cookies:
  "secondFactorFailed P cfg rd now r user tok n d au = (e, cks, au') \<Longrightarrow> ck \<in> set cks \<Longrightarrow> \<not> session_cookie ck"
  by (auto simp: secondFactorFailed_def Let_def split: if_splits)

lemma finishPendingLogin_cookie:
  assumes "finishPendingLogin P cfg rd now r tok user amr au = (e, cks, au')" and "ck \<in> set cks" and "session_cookie ck"
  shows "opens ck (user_ID user) amr au'"
  using assms startSession_cookie [of P cfg rd now r user amr] by (auto simp: finishPendingLogin_def split: prod.splits)

lemma Login_cookie:
  assumes "snd (Login P cfg rd now r email password au) = (cks, au')" and "ck \<in> set cks" and "session_cookie ck"
  shows "\<exists>user. (now, user) \<in> set (proved P cfg (now, rd, CallLogin r email password) au)
    \<and> \<not> hasSecondFactor cfg user (au_store au) \<and> opens ck (user_ID user) [AMRPassword] au'"
  using assms startSession_cookie [of P cfg rd now r _ "[AMRPassword]" au _ cks au' ck]
  by (auto simp: Login_def proved_Login_iff split: if_splits sum.splits prod.splits)

lemma CompleteSecondFactor_cookie:
  assumes "snd (CompleteSecondFactor P cfg rd now r code au) = (cks, au')" and "ck \<in> set cks" and "session_cookie ck"
  shows "\<exists>tok user n au1. reservePendingAttempt P cfg now r au = (Inr (tok, user, n), [], au1)
    \<and> opens ck (user_ID user) [AMRPassword, AMROneTimePassword, AMRMultiFactor] au'"
proof -
  obtain res cks1 au1 where res: "reservePendingAttempt P cfg now r au = (res, cks1, au1)" by (metis prod_cases3)
  then have no: "\<not> session_cookie c" if "c \<in> set cks1" for c using reservePendingAttempt_cookies that by blast
  with assms res obtain tok user n where r: "res = Inr (tok, user, n)"
    by (cases res) (auto simp: CompleteSecondFactor_def)
  have "cks1 = []" using res r by (auto simp: reservePendingAttempt_def Let_def split: if_splits option.splits prod.splits sum.splits)
  obtain ok user1 au2 where c: "consumeSecondFactor P cfg rd now r user code au1 = ((ok, user1), au2)" by (metis surj_pair)
  obtain e cks2 au3 where f: "finishPendingLogin P cfg rd now r tok user1 [AMRPassword, AMROneTimePassword, AMRMultiFactor] au2 = (e, cks2, au3)"
    by (metis prod_cases3)
  obtain e' cks3 au4 where s: "secondFactorFailed P cfg rd now r user1 tok n ''wrong authenticator or recovery code'' au2 = (e', cks3, au4)"
    by (metis prod_cases3)
  have "ok = Inr True \<and> ck \<in> set cks2 \<and> au' = au3"
    using assms res r c f s \<open>cks1 = []\<close> secondFactorFailed_cookies [OF s]
    by (auto simp: CompleteSecondFactor_def split: sum.splits if_splits)
  then show ?thesis
    using finishPendingLogin_cookie [OF f] assms(3) consumeSecondFactor_ok [of P cfg rd now r user code au1 user1 au2] c res r \<open>cks1 = []\<close>
    by auto
qed

lemma CompletePasskeyLogin_cookie:
  assumes "snd (CompletePasskeyLogin P W cfg rd now r response au) = (cks, au')" and "ck \<in> set cks" and "session_cookie ck"
  shows "PasskeysAvailable cfg \<and> (\<exists>tok user n au1 amr. reservePendingAttempt P cfg now r au = (Inr (tok, user, n), [], au1)
    \<and> opens ck (user_ID user) amr au' \<and> AMRMultiFactor \<in> set amr)"
proof -
  have av: "PasskeysAvailable cfg" using assms(1,2) by (rule_tac ccontr) (auto simp: CompletePasskeyLogin_def)
  obtain res cks1 au1 where res: "reservePendingAttempt P cfg now r au = (res, cks1, au1)" by (metis prod_cases3)
  then have no: "\<not> session_cookie c" if "c \<in> set cks1" for c using reservePendingAttempt_cookies that by blast
  with assms av res obtain tok user n where r: "res = Inr (tok, user, n)"
    by (cases res) (auto simp: CompletePasskeyLogin_def)
  have "cks1 = []" using res r by (auto simp: reservePendingAttempt_def Let_def split: if_splits option.splits prod.splits sum.splits)
  have "\<exists>amr. opens ck (user_ID user) amr au' \<and> AMRMultiFactor \<in> set amr"
    using assms av res r \<open>cks1 = []\<close>
    by (fastforce simp: CompletePasskeyLogin_def Let_def split: sum.splits prod.splits option.splits
        dest: finishPendingLogin_cookie secondFactorFailed_cookies)
  then show ?thesis using av res r \<open>cks1 = []\<close> by blast
qed

text \<open>
  A session cookie is either the answer to a password alone, for a user without a second factor,
  or the answer to a second step of a pending login.
\<close>

lemma session_cookie_origin:
  assumes "signin_step P W cfg au ev au'" and "ck \<in> set (se_cookies ev)" and "session_cookie ck"
  shows "(\<exists>user. (fst (se_call ev), user) \<in> set (se_proved ev) \<and> \<not> hasSecondFactor cfg user (au_store au)
        \<and> opens ck (user_ID user) [AMRPassword] au')
    \<or> (\<exists>tok e amr. se_answered ev = Some tok \<and> au_pending au tok = Some e \<and> fst (se_call ev) \<le> pl_expires e
        \<and> opens ck (pl_userID e) amr au' \<and> AMRMultiFactor \<in> set amr)"
proof -
  from assms(1) obtain x cks where st: "auth_step P W cfg x au = (cks, au')"
    and ev: "ev = \<lparr>se_call = x, se_answered = answered P cfg x au, se_proved = proved P cfg x au, se_cookies = cks\<rparr>"
    by (auto elim: signin_stepE)
  obtain now rd c where x: "x = (now, rd, c)" by (metis prod_cases3)
  have second: ?thesis if "reservePendingAttempt P cfg now r au = (Inr (tok, user, n), [], au1)" "opens ck (user_ID user) amr au'"
    "AMRMultiFactor \<in> set amr" "answered P cfg x au = reserved_token (reservePendingAttempt P cfg now r au)" for r tok user n au1 amr
  proof -
    have "reserved_token (reservePendingAttempt P cfg now r au) = Some tok" using that(1) by (simp add: reserved_token_def)
    from reserved_token_D [OF this] that(1) obtain e where "au_pending au tok = Some e" "now \<le> pl_expires e"
      "users_GetByID (pl_userID e) (au_store au) = Inr user" by auto
    with that x ev show ?thesis by (auto simp: reserved_token_def dest!: users_GetByID_D)
  qed
  show ?thesis
  proof (cases c)
    case (CallLogin r email password)
    with st x ev assms(2,3) Login_cookie [of P cfg rd now r email password au cks au' ck] show ?thesis by auto
  next
    case (CallSecondFactor r code)
    with st x ev assms(2,3) obtain tok user n au1 where "reservePendingAttempt P cfg now r au = (Inr (tok, user, n), [], au1)"
      "opens ck (user_ID user) [AMRPassword, AMROneTimePassword, AMRMultiFactor] au'"
      using CompleteSecondFactor_cookie [of P cfg rd now r code au cks au' ck] by auto
    then show ?thesis using x CallSecondFactor by (intro second) auto
  next
    case (CallPasskey r response)
    with st x ev assms(2,3) obtain tok user n au1 amr where "PasskeysAvailable cfg"
      "reservePendingAttempt P cfg now r au = (Inr (tok, user, n), [], au1)" "opens ck (user_ID user) amr au'" "AMRMultiFactor \<in> set amr"
      using CompletePasskeyLogin_cookie [of P W cfg rd now r response au cks au' ck] by auto
    then show ?thesis using x CallPasskey by (intro second) auto
  next
    case (CallLogout r)
    with st x ev assms(2,3) show ?thesis by (auto simp: Logout_def)
  qed (use st x ev assms(2) in auto)
qed

section \<open>Over a whole run\<close>

text \<open>Every pending login goes back to a password proved at most \<open>pendingLoginTTL\<close> before its deadline.\<close>

definition pending_proved :: "(time \<times> user) list \<Rightarrow> auth \<Rightarrow> bool" where
  "pending_proved hs au \<longleftrightarrow> (\<forall>tok e. au_pending au tok = Some e \<longrightarrow>
     (\<exists>t user. (t, user) \<in> set hs \<and> pl_userID e = user_ID user \<and> pl_expires e = t + pendingLoginTTL))"

lemma pending_proved_le:
  "pending_proved hs au \<Longrightarrow> pend_le (au_pending au) (au_pending au') \<Longrightarrow> set hs \<subseteq> set hs' \<Longrightarrow> pending_proved hs' au'"
  unfolding pending_proved_def pend_le_def by fastforce

lemma step_le:
  assumes "auth_step P W cfg (now, rd, c) au = (cks, au')" and "\<And>r email password. c \<noteq> CallLogin r email password"
  shows "pend_le (au_pending au) (au_pending au')"
proof (cases c)
  case (CallSecondFactor r code)
  with assms(1) completions_le(1) [of au P cfg rd now r code] show ?thesis by simp
next
  case (CallPasskey r response)
  with assms(1) completions_le(2) [of au P W cfg rd now r response] show ?thesis by simp
next
  case (CallLogout r)
  with assms(1) Logout_pending [of cfg rd now r au] show ?thesis by simp
qed (use assms reads_le [of au] in auto)

lemma pending_proved_step:
  assumes "signin_step P W cfg au ev au'" and "pending_proved hs au"
  shows "pending_proved (hs @ se_proved ev) au'"
proof -
  from assms(1) obtain x cks where st: "auth_step P W cfg x au = (cks, au')"
    and ev: "ev = \<lparr>se_call = x, se_answered = answered P cfg x au, se_proved = proved P cfg x au, se_cookies = cks\<rparr>"
    by (auto elim: signin_stepE)
  obtain now rd c where x: "x = (now, rd, c)" by (metis prod_cases3)
  show ?thesis
  proof (cases "\<exists>r email password. c = CallLogin r email password")
    case False
    with st x assms(2) show ?thesis by (intro pending_proved_le [OF assms(2)]) (auto intro: step_le)
  next
    case True
    then obtain r email password where c: "c = CallLogin r email password" by blast
    have "pend_le (au_pending au) (au_pending au') \<or> (\<exists>user b e. (now, user) \<in> set (proved P cfg x au)
      \<and> pl_userID e = user_ID user \<and> pl_expires e = now + pendingLoginTTL
      \<and> pend_le ((au_pending au)(RawURLEncoding_EncodeToString b \<mapsto> e)) (au_pending au'))"
      using Login_pending [of au P cfg rd now r email password] st x c by auto
    then show ?thesis
    proof
      assume "pend_le (au_pending au) (au_pending au')"
      then show ?thesis by (intro pending_proved_le [OF assms(2)]) auto
    next
      assume "\<exists>user b e. (now, user) \<in> set (proved P cfg x au)
        \<and> pl_userID e = user_ID user \<and> pl_expires e = now + pendingLoginTTL
        \<and> pend_le ((au_pending au)(RawURLEncoding_EncodeToString b \<mapsto> e)) (au_pending au')"
      then obtain user b e where u: "(now, user) \<in> set (proved P cfg x au)" "pl_userID e = user_ID user"
        "pl_expires e = now + pendingLoginTTL" "pend_le ((au_pending au)(RawURLEncoding_EncodeToString b \<mapsto> e)) (au_pending au')" by blast
      let ?mid = "au\<lparr>au_pending := (au_pending au)(RawURLEncoding_EncodeToString b \<mapsto> e)\<rparr>"
      have "pending_proved (hs @ se_proved ev) ?mid"
        using assms(2) u(1-3) ev unfolding pending_proved_def by (auto, blast+)
      then show ?thesis by (rule pending_proved_le) (use u(4) in auto)
    qed
  qed
qed

lemma pending_proved_path:
  "path (signin_step P W cfg) au tr au' \<Longrightarrow> pending_proved hs au \<Longrightarrow> pending_proved (hs @ concat (map se_proved tr)) au'"
proof (induction rule: path.induct)
  case (path_snoc s tr s' e s'')
  then have "pending_proved ((hs @ concat (map se_proved tr)) @ se_proved e) s''" using pending_proved_step by blast
  then show ?case by simp
qed simp

lemma pending_proved_New: "pending_proved [] (NewService st l)"
  by (simp add: pending_proved_def NewService_def)

text \<open>
  A budget: an event of the kind counted takes at least one unit, and no step adds any. Over a
  path there are then no more such events than units at the start.
\<close>

locale budget =
  fixes step :: "'s \<Rightarrow> 'e \<Rightarrow> 's \<Rightarrow> bool"
    and counted :: "'e \<Rightarrow> bool"
    and left :: "'s \<Rightarrow> nat"
  assumes spend: "step s e s' \<Longrightarrow> counted e \<Longrightarrow> left s' < left s"
    and keep: "step s e s' \<Longrightarrow> left s' \<le> left s"
begin

lemma spent_and_left: "path step s tr s' \<Longrightarrow> length (filter counted tr) + left s' \<le> left s"
proof (induction rule: path.induct)
  case (path_snoc s tr s' e s'')
  with spend [of s' e s''] keep [of s' e s''] show ?case by (cases "counted e") auto
qed simp

lemma events_bound: "path step s tr s' \<Longrightarrow> length (filter counted tr) \<le> left s"
  using spent_and_left by fastforce

end

text \<open>A sign-in that draws the token of a pending login would replace it.\<close>

definition draws_pending :: "string \<Rightarrow> timed_call \<Rightarrow> bool" where
  "draws_pending tok x \<longleftrightarrow> (case x of (now, rd, CallLogin r email password) \<Rightarrow>
     (case rd_pending rd of Inr b \<Rightarrow> RawURLEncoding_EncodeToString b = tok | Inl _ \<Rightarrow> False) | _ \<Rightarrow> False)"

definition attempts_left :: "string \<Rightarrow> auth \<Rightarrow> nat" where
  "attempts_left tok au =
     (case au_pending au tok of None \<Rightarrow> 0 | Some e \<Rightarrow> nat (pendingLoginAttempts - pl_attempts e))"

lemma attempts_left_le:
  assumes "pend_le p (au_pending au')" and "au_pending au tok = p tok"
  shows "attempts_left tok au' \<le> attempts_left tok au"
proof (cases "au_pending au' tok")
  case (Some e')
  then obtain e where "p tok = Some e" "pl_attempts e \<le> pl_attempts e'" using assms(1) unfolding pend_le_def by blast
  with Some assms(2) show ?thesis by (simp add: attempts_left_def)
qed (simp add: attempts_left_def)

lemma attempts_left_keep:
  assumes st: "auth_step P W cfg x au = (cks, au')" and "\<not> draws_pending tok x"
  shows "attempts_left tok au' \<le> attempts_left tok au"
proof -
  obtain now rd c where x: "x = (now, rd, c)" by (metis prod_cases3)
  show ?thesis
  proof (cases "\<exists>r email password. c = CallLogin r email password")
    case False
    with st x have "pend_le (au_pending au) (au_pending au')" by (auto intro: step_le)
    then show ?thesis by (rule attempts_left_le) simp
  next
    case True
    then obtain r email password where c: "c = CallLogin r email password" by blast
    from Login_pending [of au P cfg rd now r email password] obtain p
      where "pend_le p (au_pending au')" "p tok = au_pending au tok"
      using st x c assms(2) by (fastforce simp: draws_pending_def)
    then show ?thesis using attempts_left_le [of p au' au tok] by simp
  qed
qed

text \<open>The attempt is counted before the answer is looked at, whatever the answer is.\<close>

lemma attempts_left_spend:
  assumes st: "auth_step P W cfg x au = (cks, au')" and ans: "answered P cfg x au = Some tok"
  shows "attempts_left tok au' < attempts_left tok au"
proof -
  obtain now rd c where x: "x = (now, rd, c)" by (metis prod_cases3)
  have "\<exists>r. reserved_token (reservePendingAttempt P cfg now r au) = Some tok
    \<and> pend_le (au_pending (snd (snd (reservePendingAttempt P cfg now r au)))) (au_pending au')"
  proof (cases c)
    case (CallSecondFactor r code)
    with st ans x CompleteSecondFactor_after [of P cfg now r au rd code] show ?thesis by (intro exI [of _ r]) simp
  next
    case (CallPasskey r response)
    with st ans x CompletePasskeyLogin_after [of cfg P now r au W rd response] show ?thesis
      by (intro exI [of _ r]) (simp split: if_splits)
  qed (use ans x in simp_all)
  then obtain r where r: "reserved_token (reservePendingAttempt P cfg now r au) = Some tok"
    and le: "pend_le (au_pending (snd (snd (reservePendingAttempt P cfg now r au)))) (au_pending au')" by blast
  from reserved_token_D [OF r] le obtain e where e: "au_pending au tok = Some e" "pl_attempts e < pendingLoginAttempts"
    and le': "pend_le ((au_pending au)(tok \<mapsto> e\<lparr>pl_attempts := pl_attempts e + 1\<rparr>)) (au_pending au')" by auto
  have "attempts_left tok au' \<le> attempts_left tok (au\<lparr>au_pending := (au_pending au)(tok \<mapsto> e\<lparr>pl_attempts := pl_attempts e + 1\<rparr>)\<rparr>)"
    by (rule attempts_left_le [OF le']) simp
  also have "\<dots> < attempts_left tok au" using e by (simp add: attempts_left_def)
  finally show ?thesis .
qed

interpretation pending_budget: budget
  "\<lambda>au ev au'. signin_step P W cfg au ev au' \<and> \<not> draws_pending tok (se_call ev)"
  "\<lambda>ev. se_answered ev = Some tok" "attempts_left tok" for P W cfg tok
proof unfold_locales
  fix au ev au'
  assume s: "signin_step P W cfg au ev au' \<and> \<not> draws_pending tok (se_call ev)"
  then show "attempts_left tok au' \<le> attempts_left tok au" by (auto elim!: signin_stepE intro: attempts_left_keep)
  show "attempts_left tok au' < attempts_left tok au" if "se_answered ev = Some tok"
    using s that by (auto elim!: signin_stepE intro: attempts_left_spend)
qed

lemma attempts_left_bound:
  "(\<And>e. au_pending au tok = Some e \<Longrightarrow> 0 \<le> pl_attempts e) \<Longrightarrow> attempts_left tok au \<le> 5"
  by (auto simp: attempts_left_def pendingLoginAttempts_def split: option.split)

section \<open>A second factor is used up\<close>

lemma users_Update_stored:
  "users_Update now u st = (None, st') \<Longrightarrow> users_GetByID (user_ID u) st' = Inr (u\<lparr>user_UpdatedAt := now\<rparr>)"
  using find_upd_first_same [of "\<lambda>x. user_ID x = user_ID u" "\<lambda>_. u\<lparr>user_UpdatedAt := now\<rparr>"]
  by (auto simp: users_Update_def save_users_def writeFile_None users_GetByID_def split: sum.splits option.splits)

lemma users_GetByID_audit [simp]: "users_GetByID k (au_store (audit_user cfg rd now r a e act t d au)) = users_GetByID k (au_store au)"
proof -
  have "users_GetByID k (Record u n b ev st) = users_GetByID k st" for u n b ev st
    using Record_frame [of u n b ev st] by (auto simp: users_GetByID_def)
  then show ?thesis by (simp add: audit_user_def)
qed

lemma consumeSecondFactor_spent:
  assumes "consumeSecondFactor P cfg rd now r user code au = ((Inr True, user1), au')"
  shows "\<exists>fresh. users_GetByID (user_ID user) (au_store au) = Inr fresh \<and> users_GetByID (user_ID user) (au_store au') = Inr user1
    \<and> ((\<exists>step. TOTPEnabled fresh \<and> VerifyTOTP P (user_TOTPSecret fresh) (TrimSpace code) now (user_TOTPLastStep fresh) = (step, True)
           \<and> user1 = fresh\<lparr>user_TOTPLastStep := step, user_UpdatedAt := now\<rparr>)
     \<or> (\<exists>rest. UseRecoveryCode P (user_RecoveryCodes fresh) (TrimSpace code) = (rest, True)
           \<and> user1 = fresh\<lparr>user_RecoveryCodes := rest, user_UpdatedAt := now\<rparr>))"
proof -
  from assms obtain fresh where fresh: "users_GetByID (user_ID user) (au_store au) = Inr fresh" "TrimSpace code \<noteq> ''''"
    by (auto simp: consumeSecondFactor_def Let_def split: if_splits sum.splits)
  then have id: "user_ID fresh = user_ID user" by (auto dest: users_GetByID_D)
  let ?v = "VerifyTOTP P (user_TOTPSecret fresh) (TrimSpace code) now (user_TOTPLastStep fresh)"
  show ?thesis
  proof (cases "TOTPEnabled fresh \<and> snd ?v")
    case True
    then obtain step where v: "?v = (step, True)" by (metis prod.collapse)
    with True assms fresh obtain st where "users_Update now (fresh\<lparr>user_TOTPLastStep := step\<rparr>) (au_store au) = (None, st)"
      "user1 = fresh\<lparr>user_TOTPLastStep := step, user_UpdatedAt := now\<rparr>" "au_store au' = st"
      by (auto simp: consumeSecondFactor_def Let_def split: prod.splits option.splits)
    with True v fresh id users_Update_stored [of now "fresh\<lparr>user_TOTPLastStep := step\<rparr>" "au_store au" st] show ?thesis by auto
  next
    case False
    have no: "\<not> (TOTPEnabled fresh \<and> ?v = (s, True))" for s using False by auto
    obtain rest ok where u: "UseRecoveryCode P (user_RecoveryCodes fresh) (TrimSpace code) = (rest, ok)" by force
    obtain s b where v: "?v = (s, b)" by force
    from no [of s] v have b: "TOTPEnabled fresh \<Longrightarrow> \<not> b" by (cases b) auto
    obtain st where "ok" "users_Update now (fresh\<lparr>user_RecoveryCodes := rest\<rparr>) (au_store au) = (None, st)"
      "user1 = fresh\<lparr>user_RecoveryCodes := rest, user_UpdatedAt := now\<rparr>"
      "users_GetByID (user_ID user) (au_store au') = users_GetByID (user_ID user) st"
      using assms fresh u v b
      by (cases "TOTPEnabled fresh"; cases b; cases ok) (auto simp: consumeSecondFactor_def Let_def split: prod.splits option.splits)
    with u fresh id users_Update_stored [of now "fresh\<lparr>user_RecoveryCodes := rest\<rparr>" "au_store au" st] show ?thesis by auto
  qed
qed

section \<open>The right password signs in\<close>

lemma RotateSession_ok:
  assumes "healthy st"
  shows "\<exists>x st'. RotateSession (Inr b) now s old u ua ip amr st = (Inr (x, RawURLEncoding_EncodeToString b), st')"
proof -
  have "healthy (if old \<noteq> '''' then snd (sessions_Delete old st) else st)"
    using assms by (auto simp: sessions_Delete_def healthy_of save_healthy split: option.split)
  then show ?thesis by (simp add: RotateSession_def CreateSession_def sessions_Create_def healthy_of save_healthy Let_def)
qed

lemma Login_signs_in:
  assumes "csrf_ValidateToken P now (ac_csrf cfg) r = None" and "\<not> lockout_IsLocked P now email au"
    and "Authenticate P email password (au_store au) = Inr user" and "\<not> hasSecondFactor cfg user (au_store au)"
    and "healthy (au_store au)" and "rd_session rd = Inr b"
  shows "\<exists>au'. Login P cfg rd now r email password au =
    ((Some user, None), [SetSessionCookie (ac_sessions cfg) (RawURLEncoding_EncodeToString b), csrf_ClearToken (ac_csrf cfg)], au')"
proof -
  obtain x st' where "RotateSession (rd_session rd) now (ac_sessions cfg) (case req_Cookie r SessionCookieName of Some v \<Rightarrow> v | None \<Rightarrow> '''')
      (user_ID user) (wq_UserAgent r) (getClientIP r) [AMRPassword] (au_store au) = (Inr (x, RawURLEncoding_EncodeToString b), st')"
    using RotateSession_ok [OF assms(5)] unfolding assms(6) by blast
  then have "\<exists>au'. startSession P cfg rd now r user [AMRPassword] au =
      (None, [SetSessionCookie (ac_sessions cfg) (RawURLEncoding_EncodeToString b), csrf_ClearToken (ac_csrf cfg)], au')"
    by (simp add: startSession_def Let_def lockout_RecordSuccess_def)
  then show ?thesis using assms(1-4) by (auto simp: Login_def)
qed

end
