(* ===== verification/Account.thy ===== *)
theory Account
  imports AuthService
begin

text \<open>
  \<open>internal/auth/account.go\<close>: password reset and e-mail verification by links. A link carries a
  random token of which the store keeps only the hash. \<open>mail\<close> stands for the mailer: it gets the
  message and may fail. Logging is left out.
\<close>

section \<open>Policy, messages, throttle\<close>

definition MinPasswordLength :: nat where
  "MinPasswordLength = 8"

text \<open>
  \<open>utf8.RuneCountInString\<close>: a valid multi-byte sequence is one rune, every other byte is one.
  \<open>rune_size\<close> is the width of the rune at the front, from the table of lead bytes and the range
  of the second byte.
\<close>

definition is_cont :: "nat \<Rightarrow> bool" where
  "is_cont b \<longleftrightarrow> 128 \<le> b \<and> b \<le> 191"

definition rune_size :: "nat list \<Rightarrow> nat" where
  "rune_size bs =
     (case bs of
        a # b # c # d # _ \<Rightarrow>
          if (a = 240 \<and> 144 \<le> b \<and> b \<le> 191 \<or> 241 \<le> a \<and> a \<le> 243 \<and> is_cont b \<or> a = 244 \<and> 128 \<le> b \<and> b \<le> 143)
             \<and> is_cont c \<and> is_cont d then 4
          else if (a = 224 \<and> 160 \<le> b \<and> b \<le> 191 \<or> 225 \<le> a \<and> a \<le> 236 \<and> is_cont b \<or> a = 237 \<and> 128 \<le> b \<and> b \<le> 159
                   \<or> 238 \<le> a \<and> a \<le> 239 \<and> is_cont b) \<and> is_cont c then 3
          else if 194 \<le> a \<and> a \<le> 223 \<and> is_cont b then 2 else 1
      | [a, b, c] \<Rightarrow>
          if (a = 224 \<and> 160 \<le> b \<and> b \<le> 191 \<or> 225 \<le> a \<and> a \<le> 236 \<and> is_cont b \<or> a = 237 \<and> 128 \<le> b \<and> b \<le> 159
              \<or> 238 \<le> a \<and> a \<le> 239 \<and> is_cont b) \<and> is_cont c then 3
          else if 194 \<le> a \<and> a \<le> 223 \<and> is_cont b then 2 else 1
      | [a, b] \<Rightarrow> if 194 \<le> a \<and> a \<le> 223 \<and> is_cont b then 2 else 1
      | _ \<Rightarrow> 1)"

lemma rune_size_pos: "0 < rune_size bs"
  by (auto simp: rune_size_def split: list.split)

function rune_count :: "nat list \<Rightarrow> nat" where
  "rune_count bs = (if bs = [] then 0 else Suc (rune_count (drop (rune_size bs) bs)))"
  by pat_completeness auto
termination
  by (relation "measure length") (auto simp: rune_size_pos)

declare rune_count.simps [simp del]

definition RuneCountInString :: "string \<Rightarrow> nat" where
  "RuneCountInString s = rune_count (map byte s)"

definition ValidatePassword :: "string \<Rightarrow> goerr option" where
  "ValidatePassword password =
     (if RuneCountInString password < MinPasswordLength
      then Some (InvalidInput (''password must be at least '' @ digits10 MinPasswordLength @ '' characters''))
      else None)"

record message =
  msg_To :: string
  msg_Subject :: string
  msg_Body :: string

record account_service =
  as_baseURL :: string
  as_resetTTL :: duration
  as_verifyTTL :: duration
  as_resetInterval :: duration
  as_audit :: bool

record account =
  acc_store :: fstore
  acc_lastReset :: "string \<rightharpoonup> time"
  acc_outbox :: "message list"

definition TrimRight_slash :: "string \<Rightarrow> string" where
  "TrimRight_slash s = rev (dropWhile (\<lambda>c. c = CHR ''/'') (rev s))"

definition NewAccountService :: "string \<Rightarrow> account_service" where
  "NewAccountService baseURL =
     \<lparr>as_baseURL = TrimRight_slash baseURL, as_resetTTL = hour, as_verifyTTL = 24 * hour, as_resetInterval = 2 * minute, as_audit = False\<rparr>"

text \<open>The stale entries of the throttle are dropped once it holds more than a thousand addresses.\<close>

definition throttled :: "platform \<Rightarrow> time \<Rightarrow> account_service \<Rightarrow> string \<Rightarrow> account \<Rightarrow> bool \<times> account" where
  "throttled P now s email acc =
     (if as_resetInterval s \<le> 0 then (False, acc)
      else
        let key = ToLower P (TrimSpace email);
            m = (if card (dom (acc_lastReset acc)) > 1000
                 then (\<lambda>k. case acc_lastReset acc k of
                         None \<Rightarrow> None | Some at \<Rightarrow> if time_Sub now at \<ge> as_resetInterval s then None else Some at)
                 else acc_lastReset acc)
        in if (case m key of Some at \<Rightarrow> time_Sub now at < as_resetInterval s | None \<Rightarrow> False)
           then (True, acc\<lparr>acc_lastReset := m\<rparr>)
           else (False, acc\<lparr>acc_lastReset := m(key \<mapsto> now)\<rparr>))"

definition hashToken :: "platform \<Rightarrow> string \<Rightarrow> string" where
  "hashToken P token = hex_EncodeToString (sha256 P token)"

definition link :: "account_service \<Rightarrow> string \<Rightarrow> string \<Rightarrow> string" where
  "link s route token = as_baseURL s @ route @ ''?token='' @ QueryEscape token"

definition displayName :: "user \<Rightarrow> string" where
  "displayName u = (if user_DisplayName u \<noteq> '''' then user_DisplayName u else user_Email u)"

text \<open>
  \<open>time.Duration.String\<close>: \<open>1h30m0s\<close>, \<open>1.5s\<close>, \<open>250ms\<close>. \<open>fmt_frac v p\<close> is \<open>v / 10^p\<close> in decimal
  without trailing zeros.
\<close>

definition fmt_frac :: "nat \<Rightarrow> nat \<Rightarrow> string" where
  "fmt_frac v p =
     (let ds = digits10 (v mod 10 ^ p);
          padded = replicate (p - length ds) CHR ''0'' @ ds;
          trimmed = rev (dropWhile (\<lambda>c. c = CHR ''0'') (rev padded))
      in digits10 (v div 10 ^ p) @ (if trimmed = '''' then '''' else CHR ''.'' # trimmed))"

definition duration_magnitude :: "nat \<Rightarrow> string" where
  "duration_magnitude u =
     (if u = 0 then ''0s''
      else if u < 1000 then digits10 u @ ''ns''
      else if u < 1000000 then fmt_frac u 3 @ [CHR 0xC2, CHR 0xB5, CHR ''s'']
      else if u < 1000000000 then fmt_frac u 6 @ ''ms''
      else
        let m = u div 60000000000; secs = fmt_frac (u mod 60000000000) 9 @ ''s''
        in if m = 0 then secs
           else if m < 60 then digits10 m @ ''m'' @ secs
           else digits10 (m div 60) @ ''h'' @ digits10 (m mod 60) @ ''m'' @ secs)"

definition Duration_String :: "duration \<Rightarrow> string" where
  "Duration_String d = (if d < 0 then ''-'' else '''') @ duration_magnitude (nat \<bar>d\<bar>)"

definition humanDuration :: "duration \<Rightarrow> string" where
  "humanDuration d =
     (if d \<ge> 24 * hour \<and> d mod (24 * hour) = 0 then
        (let n = d div (24 * hour) in if n = 1 then ''1 day'' else format_int n @ '' days'')
      else if d \<ge> hour \<and> d mod hour = 0 then
        (let n = d div hour in if n = 1 then ''1 hour'' else format_int n @ '' hours'')
      else Duration_String d)"

definition paragraphs :: "string list \<Rightarrow> string" where
  "paragraphs ps = concat (map (\<lambda>p. p @ [CHR 0x0A, CHR 0x0A]) (butlast ps)) @ last ps @ [CHR 0x0A]"

definition reset_body :: "account_service \<Rightarrow> user \<Rightarrow> string \<Rightarrow> string" where
  "reset_body s user token = paragraphs
     [''Hello '' @ displayName user @ '','',
      ''A password reset was requested for your account. Open the link below to choose a new password. It expires in ''
        @ humanDuration (as_resetTTL s) @ ''.'',
      link s ''/reset-password'' token,
      ''If you did not request this, you can ignore this email.'']"

definition verify_body :: "account_service \<Rightarrow> user \<Rightarrow> string \<Rightarrow> string" where
  "verify_body s user token = paragraphs
     [''Hello '' @ displayName user @ '','',
      ''Please confirm that '' @ user_Email user @ '' is your email address by opening the link below. It expires in ''
        @ humanDuration (as_verifyTTL s) @ ''.'',
      link s ''/verify-email'' token]"

definition send :: "(message \<Rightarrow> goerr option) \<Rightarrow> message \<Rightarrow> account \<Rightarrow> goerr option \<times> account" where
  "send mailer m acc =
     (case mailer m of Some e \<Rightarrow> (Some e, acc) | None \<Rightarrow> (None, acc\<lparr>acc_outbox := acc_outbox acc @ [m]\<rparr>))"

section \<open>Tokens\<close>

definition issueToken ::
    "platform \<Rightarrow> string res \<Rightarrow> time \<Rightarrow> string \<Rightarrow> string \<Rightarrow> duration \<Rightarrow> account \<Rightarrow> string res \<times> account" where
  "issueToken P rnd now userID purpose ttl acc =
     (case rnd of
        Inl e \<Rightarrow> (Inl (Wrapped ''failed to generate token'' e), acc)
      | Inr raw \<Rightarrow>
          (let token = RawURLEncoding_EncodeToString raw
           in case vtokens_DeleteByUserID userID purpose (acc_store acc) of
                (Some e, st) \<Rightarrow> (Inl (Wrapped ''failed to clear old tokens'' e), acc\<lparr>acc_store := st\<rparr>)
              | (None, st) \<Rightarrow>
                  (case vtokens_Create now
                          \<lparr>vt_TokenHash = hashToken P token, vt_UserID = userID, vt_Purpose = purpose, vt_CreatedAt = zero_time,
                           vt_ExpiresAt = now + ttl, vt_Used = False\<rparr> st of
                     (Some e, st') \<Rightarrow> (Inl (Wrapped ''failed to store token'' e), acc\<lparr>acc_store := st'\<rparr>)
                   | (None, st') \<Rightarrow> (Inr token, acc\<lparr>acc_store := st'\<rparr>))))"

definition consumeToken :: "platform \<Rightarrow> time \<Rightarrow> string \<Rightarrow> string \<Rightarrow> fstore \<Rightarrow> verification_token res \<times> fstore" where
  "consumeToken P now token purpose st =
     (let invalid = New CodeTokenInvalid ''this link is invalid or has expired''
      in if token = '''' then (Inl invalid, st)
         else case vtokens_GetByHash (hashToken P token) st of
           Inl e \<Rightarrow> (Inl (if IsCode e CodeNotFound then invalid else Wrapped ''failed to load token'' e), st)
         | Inr vt \<Rightarrow>
             if vt_Purpose vt \<noteq> purpose \<or> \<not> vt_IsValid now vt then (Inl invalid, st)
             else case vtokens_MarkUsed (vt_TokenHash vt) st of
               (Some e, st') \<Rightarrow> (Inl (Wrapped ''failed to mark token used'' e), st')
             | (None, st') \<Rightarrow> (Inr vt, st'))"

section \<open>Password reset\<close>

definition account_audit ::
    "string \<Rightarrow> time \<Rightarrow> account_service \<Rightarrow> user option \<Rightarrow> string \<Rightarrow> string \<Rightarrow> string \<Rightarrow> fstore \<Rightarrow> fstore" where
  "account_audit uuid now s actor email action targetID st =
     Record uuid now (as_audit s)
       \<lparr>ae_Actor = actor, ae_ActorEmail = email, ae_Action = action, ae_TargetType = ''user'', ae_TargetID = targetID,
        ae_Detail = '''', ae_IP = ''''\<rparr> st"

definition SendPasswordReset ::
    "platform \<Rightarrow> (message \<Rightarrow> goerr option) \<Rightarrow> string res \<Rightarrow> string \<Rightarrow> time \<Rightarrow> account_service \<Rightarrow> user \<Rightarrow> account
      \<Rightarrow> goerr option \<times> account" where
  "SendPasswordReset P mailer rnd uuid now s user acc =
     (case issueToken P rnd now (user_ID user) PurposePasswordReset (as_resetTTL s) acc of
        (Inl e, acc1) \<Rightarrow> (Some e, acc1)
      | (Inr token, acc1) \<Rightarrow>
          (case send mailer \<lparr>msg_To = user_Email user, msg_Subject = ''Reset your password'',
                             msg_Body = reset_body s user token\<rparr> acc1 of
             (Some e, acc2) \<Rightarrow> (Some (Wrapped ''failed to send password reset email'' e), acc2)
           | (None, acc2) \<Rightarrow>
               (None, acc2\<lparr>acc_store := account_audit uuid now s None (user_Email user) ''password.reset_requested'' (user_ID user)
                         (acc_store acc2)\<rparr>)))"

definition RequestPasswordReset ::
    "platform \<Rightarrow> (message \<Rightarrow> goerr option) \<Rightarrow> string res \<Rightarrow> string \<Rightarrow> time \<Rightarrow> account_service \<Rightarrow> string \<Rightarrow> account
      \<Rightarrow> goerr option \<times> account" where
  "RequestPasswordReset P mailer rnd uuid now s email acc =
     (case users_GetByEmail P email (acc_store acc) of
        Inl e \<Rightarrow> if IsCode e CodeNotFound then (None, acc) else (Some (Wrapped ''failed to look up user'' e), acc)
      | Inr user \<Rightarrow>
          if \<not> user_Active user then (None, acc)
          else (case throttled P now s (user_Email user) acc of
                  (True, acc1) \<Rightarrow> (None, acc1)
                | (False, acc1) \<Rightarrow> SendPasswordReset P mailer rnd uuid now s user acc1))"

text \<open>The caller's user gets the new hash, and the result carries it.\<close>

definition SetPassword ::
    "platform \<Rightarrow> string res \<Rightarrow> time \<Rightarrow> user \<Rightarrow> string \<Rightarrow> fstore \<Rightarrow> (goerr option \<times> user) \<times> fstore" where
  "SetPassword P salt now user password st =
     (case ValidatePassword password of
        Some e \<Rightarrow> ((Some e, user), st)
      | None \<Rightarrow>
          (case HashPassword P salt password of
             Inl e \<Rightarrow> ((Some (Wrapped ''failed to hash password'' e), user), st)
           | Inr hash \<Rightarrow>
               (let user1 = user\<lparr>user_PasswordHash := hash\<rparr>
                in case users_Update now user1 st of
                     (Some e, st1) \<Rightarrow> ((Some (Wrapped ''failed to update user'' e), user1), st1)
                   | (None, st1) \<Rightarrow>
                       (let st2 = snd (sessions_DeleteByUserID (user_ID user) st1);
                            st3 = snd (tokens_RevokeByUserID now (user_ID user) st2);
                            st4 = snd (vtokens_DeleteByUserID (user_ID user) PurposePasswordReset st3)
                        in ((None, user1\<lparr>user_UpdatedAt := now\<rparr>), st4)))))"

definition ResetPassword ::
    "platform \<Rightarrow> string res \<Rightarrow> string \<Rightarrow> time \<Rightarrow> account_service \<Rightarrow> string \<Rightarrow> string \<Rightarrow> fstore \<Rightarrow> user res \<times> fstore" where
  "ResetPassword P salt uuid now s token newPassword st =
     (case ValidatePassword newPassword of
        Some e \<Rightarrow> (Inl e, st)
      | None \<Rightarrow>
          (case consumeToken P now token PurposePasswordReset st of
             (Inl e, st1) \<Rightarrow> (Inl e, st1)
           | (Inr vt, st1) \<Rightarrow>
               (case users_GetByID (vt_UserID vt) st1 of
                  Inl e \<Rightarrow> (Inl (Wrapped ''failed to load user'' e), st1)
                | Inr user \<Rightarrow>
                    (case SetPassword P salt now user newPassword st1 of
                       ((Some e, _), st2) \<Rightarrow> (Inl e, st2)
                     | ((None, user1), st2) \<Rightarrow>
                         (Inr user1, account_audit uuid now s (Some user1) '''' ''password.reset'' (user_ID user1) st2)))))"

section \<open>E-mail verification\<close>

definition SendEmailVerification ::
    "platform \<Rightarrow> (message \<Rightarrow> goerr option) \<Rightarrow> string res \<Rightarrow> time \<Rightarrow> account_service \<Rightarrow> user \<Rightarrow> account
      \<Rightarrow> goerr option \<times> account" where
  "SendEmailVerification P mailer rnd now s user acc =
     (case issueToken P rnd now (user_ID user) PurposeEmailVerify (as_verifyTTL s) acc of
        (Inl e, acc1) \<Rightarrow> (Some e, acc1)
      | (Inr token, acc1) \<Rightarrow>
          (case send mailer \<lparr>msg_To = user_Email user, msg_Subject = ''Verify your email address'',
                             msg_Body = verify_body s user token\<rparr> acc1 of
             (Some e, acc2) \<Rightarrow> (Some (Wrapped ''failed to send verification email'' e), acc2)
           | (None, acc2) \<Rightarrow> (None, acc2)))"

definition VerifyEmail ::
    "platform \<Rightarrow> string \<Rightarrow> time \<Rightarrow> account_service \<Rightarrow> string \<Rightarrow> fstore \<Rightarrow> user res \<times> fstore" where
  "VerifyEmail P uuid now s token st =
     (case consumeToken P now token PurposeEmailVerify st of
        (Inl e, st1) \<Rightarrow> (Inl e, st1)
      | (Inr vt, st1) \<Rightarrow>
          (case users_GetByID (vt_UserID vt) st1 of
             Inl e \<Rightarrow> (Inl (Wrapped ''failed to load user'' e), st1)
           | Inr user \<Rightarrow>
               (let user1 = user\<lparr>user_EmailVerified := True, user_UpdatedAt := now\<rparr>
                in case (if \<not> user_EmailVerified user
                         then (user1, users_Update now (user\<lparr>user_EmailVerified := True\<rparr>) st1) else (user, None, st1)) of
                     (_, Some e, st2) \<Rightarrow> (Inl (Wrapped ''failed to update user'' e), st2)
                   | (user2, None, st2) \<Rightarrow>
                       (let st3 = snd (vtokens_DeleteByUserID (user_ID user) PurposeEmailVerify st2)
                        in (Inr user2, account_audit uuid now s (Some user2) '''' ''email.verified'' (user_ID user) st3)))))"

end
