(* ===== verification/Links.thy ===== *)
theory Links
  imports Account
begin

text \<open>
  What the links of \<open>internal/auth/account.go\<close> are good for: a link works once, however the calls
  of the account service are ordered, and a password change ends what the old password opened.
\<close>

section \<open>Files the operations write\<close>

lemma vtokens_same [simp]:
  "vtokens_of (snd (users_Update now u st)) = vtokens_of st"
  "vtokens_of (snd (sessions_DeleteByUserID uid st)) = vtokens_of st"
  "vtokens_of (Record uuid now b ev st) = vtokens_of st"
  "vtokens_of (snd (tokens_RevokeByUserID now uid st)) = vtokens_of st"
proof -
  show "vtokens_of (snd (users_Update now u st)) = vtokens_of st"
    by (auto simp: users_Update_def save_users_def writeFile_def split: sum.split option.split)
  show "vtokens_of (snd (sessions_DeleteByUserID uid st)) = vtokens_of st"
    using sessions_frames(3) [of uid st] by auto
  show "vtokens_of (Record uuid now b ev st) = vtokens_of st" using Record_frame [of uuid now b ev st] by auto
  have up: "vtokens_of (snd (upsert k key nb xp s)) = vtokens_of s" for k key nb xp s
    by (auto simp: upsert_def save_revocations_def writeFile_def split: sum.split option.split)
  show "vtokens_of (snd (tokens_RevokeByUserID now uid st)) = vtokens_of st"
    by (simp add: tokens_RevokeByUserID_def RevokeBefore_def save_tokens_def writeFile_def up split: sum.split option.split)
qed

abbreviation links_tame :: "string \<Rightarrow> fstore \<Rightarrow> fstore \<Rightarrow> bool" where
  "links_tame h st st' \<equiv> tame vt_TokenHash vt_Used h (vtokens_of st) (vtokens_of st')"

abbreviation link_spent :: "string \<Rightarrow> fstore \<Rightarrow> bool" where
  "link_spent h st \<equiv> spent vt_TokenHash vt_Used h (vtokens_of st)"

lemma vtokens_DeleteByUserID_tame: "links_tame h st (snd (vtokens_DeleteByUserID uid p st))"
  by (auto simp: vtokens_DeleteByUserID_def save_verification_tokens_def writeFile_def of_load tame_filter split: sum.split option.split)

lemma vtokens_MarkUsed_tame: "links_tame h st (snd (vtokens_MarkUsed k st))"
  by (auto simp: vtokens_MarkUsed_def save_verification_tokens_def writeFile_def of_load tame_upd_first split: sum.split option.split)

lemma vtokens_Create_tame: "vt_TokenHash t \<noteq> h \<Longrightarrow> links_tame h st (snd (vtokens_Create now t st))"
  by (auto simp: vtokens_Create_def save_verification_tokens_def writeFile_def of_load tame_snoc split: sum.split option.split)

section \<open>A link is consumed once\<close>

lemma consumeToken_tame: "links_tame h st (snd (consumeToken P now token purpose st))"
  using vtokens_MarkUsed_tame [of h st]
  by (auto simp: consumeToken_def Let_def split: sum.split option.split prod.split) (metis snd_conv)+

lemma consumeToken_Inr:
  assumes "consumeToken P now token purpose st = (Inr vt, st')"
  shows "vtoken_at st (hashToken P token) = Some vt \<and> vt_Purpose vt = purpose \<and> now \<le> vt_ExpiresAt vt \<and> \<not> vt_Used vt
    \<and> vtokens_of st' = upd_first (\<lambda>x. vt_TokenHash x = hashToken P token) (\<lambda>x. x\<lparr>vt_Used := True\<rparr>) (vtokens_of st)
    \<and> (\<exists>ts. st' = st\<lparr>f_verification_tokens := Content ts\<rparr>)"
proof -
  from assms have g: "vtokens_GetByHash (hashToken P token) st = Inr vt" and v: "vt_Purpose vt = purpose" "vt_IsValid now vt"
    and m: "vtokens_MarkUsed (vt_TokenHash vt) st = (None, st')"
    by (auto simp: consumeToken_def Let_def split: if_splits sum.splits prod.splits option.splits)
  have at: "vtoken_at st (hashToken P token) = Some vt" by (rule vtokens_GetByHash_D [OF g])
  then have h: "vt_TokenHash vt = hashToken P token" by (auto dest: lookup_by_Some_D)
  have "vtokens_of st' = upd_first (\<lambda>x. vt_TokenHash x = hashToken P token) (\<lambda>x. x\<lparr>vt_Used := True\<rparr>) (vtokens_of st)
    \<and> (\<exists>ts. st' = st\<lparr>f_verification_tokens := Content ts\<rparr>)"
    using m unfolding h by (auto simp: vtokens_MarkUsed_def save_verification_tokens_def writeFile_None of_load split: sum.splits option.splits)
  with at v show ?thesis by (simp add: vt_IsValid_def vt_IsExpired_def not_less)
qed

lemma consumeToken_spends:
  assumes "consumeToken P now token purpose st = (Inr vt, st')" and "occurs_once vt_TokenHash (hashToken P token) (vtokens_of st)"
  shows "\<not> link_spent (hashToken P token) st \<and> link_spent (hashToken P token) st'"
  using consumeToken_Inr [OF assms(1)] assms(2) lookup_not_spent [of vt_TokenHash "vtokens_of st" "hashToken P token" vt vt_Used]
  by (auto intro!: spent_upd_first)

lemma SetPassword_tame: "links_tame h st (snd (SetPassword P salt now user password st))"
proof -
  have "links_tame h st (snd (vtokens_DeleteByUserID uid p st'))" if "vtokens_of st' = vtokens_of st" for uid p st'
    using vtokens_DeleteByUserID_tame [of h st' uid p] that by simp
  moreover have "vtokens_of st1 = vtokens_of st" if "users_Update now u st = (e, st1)" for u e st1
    using vtokens_same(1) [of now u st] that by simp
  ultimately show ?thesis by (auto simp: SetPassword_def Let_def split: option.split sum.split prod.split)
qed

lemma ResetPassword_tame: "links_tame h st (snd (ResetPassword P salt uuid now s token pw st))"
proof -
  obtain r st1 where c: "consumeToken P now token PurposePasswordReset st = (r, st1)" by force
  then have t1: "links_tame h st st1" using consumeToken_tame [of h st P now token PurposePasswordReset] by simp
  have "links_tame h st st2" if "SetPassword P salt now user pw st1 = (x, st2)" for user x st2
    using tame_trans [OF t1] SetPassword_tame [of h st1 P salt now user pw] that by simp
  with c t1 show ?thesis by (auto simp: ResetPassword_def account_audit_def split: option.split sum.split prod.split)
qed

lemma VerifyEmail_tame: "links_tame h st (snd (VerifyEmail P uuid now s token st))"
proof -
  obtain r st1 where c: "consumeToken P now token PurposeEmailVerify st = (r, st1)" by force
  then have t1: "links_tame h st st1" using consumeToken_tame [of h st P now token PurposeEmailVerify] by simp
  have up: "vtokens_of st2 = vtokens_of st1" if "users_Update now u st1 = (e, st2)" for u e st2
    using vtokens_same(1) [of now u st1] that by simp
  have "links_tame h st (snd (vtokens_DeleteByUserID uid p st2))" if "vtokens_of st2 = vtokens_of st1" for uid p st2
    using tame_trans [OF t1] vtokens_DeleteByUserID_tame [of h st2 uid p] that by simp
  with c t1 up show ?thesis
    by (auto simp: VerifyEmail_def account_audit_def Let_def split: option.split sum.split prod.split if_split)
qed

text \<open>A draw that gives the hash \<open>h\<close>.\<close>

definition draws_link :: "platform \<Rightarrow> string res \<Rightarrow> string \<Rightarrow> bool" where
  "draws_link P rnd h \<longleftrightarrow>
     (case rnd of Inl _ \<Rightarrow> False | Inr b \<Rightarrow> hashToken P (RawURLEncoding_EncodeToString b) = h)"

lemma issueToken_tame:
  assumes "\<not> draws_link P rnd h"
  shows "links_tame h (acc_store acc) (acc_store (snd (issueToken P rnd now uid p ttl acc)))"
proof (cases rnd)
  case (Inr b)
  obtain e st where d: "vtokens_DeleteByUserID uid p (acc_store acc) = (e, st)" by force
  then have t: "links_tame h (acc_store acc) st" using vtokens_DeleteByUserID_tame [of h "acc_store acc" uid p] by simp
  have "links_tame h (acc_store acc) (snd (vtokens_Create now v st))" if "vt_TokenHash v \<noteq> h" for v
    using tame_trans [OF t vtokens_Create_tame [OF that]] .
  then have "links_tame h (acc_store acc) st'" if "vtokens_Create now v st = (e', st')" "vt_TokenHash v \<noteq> h" for v e' st'
    using that by (metis snd_conv)
  with d t Inr assms show ?thesis
    by (auto simp: issueToken_def Let_def draws_link_def split: option.split prod.split)
qed (simp add: issueToken_def)

lemma send_store [simp]: "acc_store (snd (send mailer m acc)) = acc_store acc"
  by (simp add: send_def split: option.split)

lemma sends_tame:
  assumes "\<not> draws_link P rnd h"
  shows "links_tame h (acc_store acc) (acc_store (snd (SendPasswordReset P mailer rnd uuid now s user acc)))"
    and "links_tame h (acc_store acc) (acc_store (snd (SendEmailVerification P mailer rnd now s user acc)))"
proof -
  have t: "links_tame h (acc_store acc) (acc_store acc1)" if "issueToken P rnd now uid p ttl acc = (r, acc1)" for uid p ttl r acc1
    using issueToken_tame [OF assms, of acc now uid p ttl] that by simp
  have s: "acc_store acc2 = acc_store acc1" if "send mailer m acc1 = (e, acc2)" for m acc1 e acc2
    using send_store [of mailer m acc1] that by simp
  show "links_tame h (acc_store acc) (acc_store (snd (SendPasswordReset P mailer rnd uuid now s user acc)))"
    using t s by (auto simp: SendPasswordReset_def account_audit_def split: sum.split prod.split option.split)
  show "links_tame h (acc_store acc) (acc_store (snd (SendEmailVerification P mailer rnd now s user acc)))"
    using t s by (auto simp: SendEmailVerification_def split: sum.split prod.split option.split)
qed

lemma throttled_store: "throttled P now s email acc = (b, acc') \<Longrightarrow> acc_store acc' = acc_store acc"
  by (auto simp: throttled_def Let_def split: if_splits)

lemma RequestPasswordReset_tame:
  assumes "\<not> draws_link P rnd h"
  shows "links_tame h (acc_store acc) (acc_store (snd (RequestPasswordReset P mailer rnd uuid now s email acc)))"
  using sends_tame(1) [OF assms] throttled_store
  by (auto simp: RequestPasswordReset_def split: sum.split prod.split bool.split) metis+

section \<open>Runs of the account service\<close>

record link_env =
  le_now :: time
  le_rnd :: "string res"
  le_salt :: "string res"
  le_uuid :: string
  le_mailer :: "message \<Rightarrow> goerr option"

datatype link_call =
    LinkRequest string
  | LinkSendReset user
  | LinkSendVerify user
  | LinkReset string string
  | LinkVerify string
  | LinkSetPassword user string

text \<open>A call with the hash of the link it used successfully, if it did.\<close>

fun link_step :: "platform \<Rightarrow> account_service \<Rightarrow> link_env \<Rightarrow> link_call \<Rightarrow> account \<Rightarrow> string option \<times> account" where
  "link_step P s v (LinkRequest email) acc =
     (None, snd (RequestPasswordReset P (le_mailer v) (le_rnd v) (le_uuid v) (le_now v) s email acc))"
| "link_step P s v (LinkSendReset user) acc =
     (None, snd (SendPasswordReset P (le_mailer v) (le_rnd v) (le_uuid v) (le_now v) s user acc))"
| "link_step P s v (LinkSendVerify user) acc =
     (None, snd (SendEmailVerification P (le_mailer v) (le_rnd v) (le_now v) s user acc))"
| "link_step P s v (LinkReset token pw) acc =
     (case ResetPassword P (le_salt v) (le_uuid v) (le_now v) s token pw (acc_store acc) of
        (r, st) \<Rightarrow> (if isOk r then Some (hashToken P token) else None, acc\<lparr>acc_store := st\<rparr>))"
| "link_step P s v (LinkVerify token) acc =
     (case VerifyEmail P (le_uuid v) (le_now v) s token (acc_store acc) of
        (r, st) \<Rightarrow> (if isOk r then Some (hashToken P token) else None, acc\<lparr>acc_store := st\<rparr>))"
| "link_step P s v (LinkSetPassword user pw) acc =
     (None, acc\<lparr>acc_store := snd (SetPassword P (le_salt v) (le_now v) user pw (acc_store acc))\<rparr>)"

inductive link_run_step ::
    "platform \<Rightarrow> account_service \<Rightarrow> account \<Rightarrow> link_env \<times> link_call \<times> string option \<Rightarrow> account \<Rightarrow> bool" for P s where
  call: "link_step P s v c acc = (used, acc') \<Longrightarrow> link_run_step P s acc (v, c, used) acc'"

inductive_simps link_run_step_iff: "link_run_step P s acc (v, c, used) acc'"

lemma link_step_tame:
  assumes "link_step P s v c acc = (used, acc')" and "\<not> draws_link P (le_rnd v) h"
  shows "links_tame h (acc_store acc) (acc_store acc')"
  using assms RequestPasswordReset_tame [OF assms(2)] sends_tame [OF assms(2)]
    ResetPassword_tame [of h "acc_store acc"] VerifyEmail_tame [of h "acc_store acc"] SetPassword_tame [of h "acc_store acc"]
  by (cases c) (auto split: prod.splits, (metis snd_conv)+)

lemma ResetPassword_Inr:
  assumes "ResetPassword P salt uuid now s token pw st = (Inr user, st')"
  shows "\<exists>vt st1 u st2. consumeToken P now token PurposePasswordReset st = (Inr vt, st1) \<and> users_GetByID (vt_UserID vt) st1 = Inr u
    \<and> SetPassword P salt now u pw st1 = ((None, user), st2) \<and> ValidatePassword pw = None
    \<and> st' = account_audit uuid now s (Some user) '''' ''password.reset'' (user_ID user) st2"
  using assms by (auto simp: ResetPassword_def split: option.splits prod.splits sum.splits)

lemma VerifyEmail_Inr:
  assumes "VerifyEmail P uuid now s token st = (Inr user, st')"
  shows "\<exists>vt st1 u st2. consumeToken P now token PurposeEmailVerify st = (Inr vt, st1) \<and> users_GetByID (vt_UserID vt) st1 = Inr u
    \<and> (if user_EmailVerified u then user = u \<and> st2 = st1
       else user = u\<lparr>user_EmailVerified := True, user_UpdatedAt := now\<rparr> \<and> users_Update now (u\<lparr>user_EmailVerified := True\<rparr>) st1 = (None, st2))
    \<and> st' = account_audit uuid now s (Some user) '''' ''email.verified'' (user_ID u)
        (snd (vtokens_DeleteByUserID (user_ID u) PurposeEmailVerify st2))"
  using assms by (auto simp: VerifyEmail_def Let_def split: option.splits prod.splits sum.splits if_splits)

lemma link_step_wins:
  assumes "link_step P s v c acc = (Some h, acc')" and "occurs_once vt_TokenHash h (vtokens_of (acc_store acc))"
  shows "\<not> link_spent h (acc_store acc) \<and> link_spent h (acc_store acc')"
proof -
  have go: "\<not> link_spent h (acc_store acc) \<and> link_spent h st2"
    if "consumeToken P now token purpose (acc_store acc) = (Inr vt, st1)" "hashToken P token = h" "links_tame h st1 st2"
    for now token purpose vt st1 st2
    using consumeToken_spends [OF that(1)] that(2,3) assms(2) tame_spent by fast
  have up: "vtokens_of st2 = vtokens_of st1" if "users_Update now u st1 = (e, st2)" for now u e st1 st2
    using vtokens_same(1) [of now u st1] that by simp
  show ?thesis
  proof (cases c)
    case (LinkReset token pw)
    with assms(1) obtain user st' where r: "ResetPassword P (le_salt v) (le_uuid v) (le_now v) s token pw (acc_store acc) = (Inr user, st')"
      "hashToken P token = h" "acc' = acc\<lparr>acc_store := st'\<rparr>" by (auto split: prod.splits if_splits simp: isOk_iff)
    from ResetPassword_Inr [OF r(1)] obtain vt st1 u st2 where "consumeToken P (le_now v) token PurposePasswordReset (acc_store acc) = (Inr vt, st1)"
      "SetPassword P (le_salt v) (le_now v) u pw st1 = ((None, user), st2)" "vtokens_of st' = vtokens_of st2"
      by (auto simp: account_audit_def)
    with go r SetPassword_tame [of h st1 P "le_salt v" "le_now v" u pw] show ?thesis by simp
  next
    case (LinkVerify token)
    with assms(1) obtain user st' where r: "VerifyEmail P (le_uuid v) (le_now v) s token (acc_store acc) = (Inr user, st')"
      "hashToken P token = h" "acc' = acc\<lparr>acc_store := st'\<rparr>" by (auto split: prod.splits if_splits simp: isOk_iff)
    from VerifyEmail_Inr [OF r(1)] obtain vt st1 u st2 where c: "consumeToken P (le_now v) token PurposeEmailVerify (acc_store acc) = (Inr vt, st1)"
      and st2: "if user_EmailVerified u then user = u \<and> st2 = st1
       else user = u\<lparr>user_EmailVerified := True, user_UpdatedAt := le_now v\<rparr>
         \<and> users_Update (le_now v) (u\<lparr>user_EmailVerified := True\<rparr>) st1 = (None, st2)"
      and st': "st' = account_audit (le_uuid v) (le_now v) s (Some user) '''' ''email.verified'' (user_ID u)
        (snd (vtokens_DeleteByUserID (user_ID u) PurposeEmailVerify st2))" by blast
    have "vtokens_of st2 = vtokens_of st1" using st2 up by (cases "user_EmailVerified u") (simp, metis)
    moreover have "vtokens_of st' = vtokens_of (snd (vtokens_DeleteByUserID (user_ID u) PurposeEmailVerify st2))"
      by (simp add: st' account_audit_def)
    ultimately show ?thesis using go [OF c r(2), of st'] r(3) vtokens_DeleteByUserID_tame [of h st2 "user_ID u" PurposeEmailVerify] by simp
  qed (use assms(1) in auto)
qed

interpretation link_use: single_use
  "\<lambda>acc e acc'. link_run_step P s acc e acc' \<and> \<not> draws_link P (le_rnd (fst e)) h"
  "\<lambda>acc. occurs_once vt_TokenHash h (vtokens_of (acc_store acc))" "\<lambda>acc. link_spent h (acc_store acc)"
  "\<lambda>e. snd (snd e) = Some h" for P s h
proof unfold_locales
  fix acc acc' and e :: "link_env \<times> link_call \<times> string option"
  assume st: "link_run_step P s acc e acc' \<and> \<not> draws_link P (le_rnd (fst e)) h"
  obtain v c used where e: "e = (v, c, used)" by (metis prod_cases3)
  with st have "link_step P s v c acc = (used, acc')" "\<not> draws_link P (le_rnd v) h" by (auto simp: link_run_step_iff)
  note tame = link_step_tame [OF this] and wins = link_step_wins [of P s v c acc h acc']
  show "occurs_once vt_TokenHash h (vtokens_of (acc_store acc')) " if "occurs_once vt_TokenHash h (vtokens_of (acc_store acc))"
    using tame_once [OF tame that] .
  show "link_spent h (acc_store acc')" if "link_spent h (acc_store acc)" using tame_spent [OF tame that] .
  show "\<not> link_spent h (acc_store acc) \<and> link_spent h (acc_store acc')"
    if "occurs_once vt_TokenHash h (vtokens_of (acc_store acc))" "snd (snd e) = Some h"
    using wins that \<open>link_step P s v c acc = (used, acc')\<close> e by simp
qed

section \<open>What a password change ends\<close>

lemma SetPassword_effect:
  assumes "SetPassword P (Inr salt) now user pw st = ((None, user'), st')" and "healthy st" and "argon2_length P"
  shows "\<forall>x \<in> set (sessions_of st'). session_UserID x \<noteq> user_ID user"
    and "\<forall>t \<in> set (tokens_of st'). token_UserID t = user_ID user \<longrightarrow> token_Revoked t"
    and "iat \<le> now \<Longrightarrow> IsRevoked jti (user_ID user) c iat st' = Inr True"
    and "users_GetByID (user_ID user) st' = Inr user'" and "VerifyPassword P pw (user_PasswordHash user') = Inr True"
    and "user_ID user' = user_ID user" and "\<forall>t \<in> set (vtokens_of st'). \<not> (vt_UserID t = user_ID user \<and> vt_Purpose t = PurposePasswordReset)"
proof -
  from assms(1) obtain hash st1 where h: "HashPassword P (Inr salt) pw = Inr hash"
    and u: "users_Update now (user\<lparr>user_PasswordHash := hash\<rparr>) st = (None, st1)"
    and user': "user' = user\<lparr>user_PasswordHash := hash, user_UpdatedAt := now\<rparr>"
    and st': "st' = snd (vtokens_DeleteByUserID (user_ID user) PurposePasswordReset
       (snd (tokens_RevokeByUserID now (user_ID user) (snd (sessions_DeleteByUserID (user_ID user) st1)))))"
    by (auto simp: SetPassword_def Let_def split: option.splits sum.splits prod.splits)
  from u assms(2) obtain us where st1: "st1 = st\<lparr>f_users := Content us\<rparr>" "find (\<lambda>x. user_ID x = user_ID user) us = Some user'"
    using find_upd_first_same [of "\<lambda>x. user_ID x = user_ID user" "\<lambda>_. user'" "users_of st"]
    by (auto simp: users_Update_def healthy_of save_healthy user' split: option.splits)
  let ?ss = "filter (\<lambda>x. session_UserID x \<noteq> user_ID user) (sessions_of st)"
  let ?ts = "map (\<lambda>t. if token_UserID t = user_ID user then t\<lparr>token_Revoked := True\<rparr> else t) (tokens_of st)"
  let ?s2 = "st1\<lparr>f_sessions := Content ?ss\<rparr>"
  let ?s3 = "?s2\<lparr>f_tokens := Content ?ts\<rparr>"
  have s2: "snd (sessions_DeleteByUserID (user_ID user) st1) = ?s2"
    using assms(2) by (simp add: sessions_DeleteByUserID_def st1(1) healthy_of save_healthy)
  obtain rs where rb: "RevokeBefore RevocationUser (user_ID user) now ?s3 = (None, ?s3\<lparr>f_revocations := Content rs\<rparr>)"
    using RevokeBefore_healthy [of ?s3 RevocationUser "user_ID user" now] assms(2) st1(1) by auto
  let ?s4 = "?s3\<lparr>f_revocations := Content rs\<rparr>"
  have s4: "snd (tokens_RevokeByUserID now (user_ID user) ?s2) = ?s4"
    using assms(2) rb by (simp add: tokens_RevokeByUserID_def st1(1) healthy_of save_healthy)
  let ?vs = "filter (\<lambda>t. \<not> (vt_UserID t = user_ID user \<and> (PurposePasswordReset = '''' \<or> vt_Purpose t = PurposePasswordReset))) (vtokens_of st)"
  have st'4: "st' = ?s4\<lparr>f_verification_tokens := Content ?vs\<rparr>"
    using assms(2) unfolding st' s2 s4 by (simp add: vtokens_DeleteByUserID_def st1(1) healthy_of save_healthy)
  show "\<forall>x \<in> set (sessions_of st'). session_UserID x \<noteq> user_ID user" by (simp add: st'4)
  show "\<forall>t \<in> set (tokens_of st'). token_UserID t = user_ID user \<longrightarrow> token_Revoked t" by (auto simp: st'4)
  show "\<forall>t \<in> set (vtokens_of st'). \<not> (vt_UserID t = user_ID user \<and> vt_Purpose t = PurposePasswordReset)" by (auto simp: st'4)
  show "users_GetByID (user_ID user) st' = Inr user'" by (simp add: users_GetByID_def st'4 st1)
  show "user_ID user' = user_ID user" by (simp add: user')
  show "VerifyPassword P pw (user_PasswordHash user') = Inr True" using Verify_after_Hash [OF h assms(3)] by (simp add: user')
  show "IsRevoked jti (user_ID user) c iat st' = Inr True" if "iat \<le> now"
  proof -
    have "revoked_in ?s4 jti (user_ID user) c iat" using revocations.user_revokes [OF rb that] .
    moreover have "load_revocations st' = load_revocations ?s4" "load_revocations ?s4 = Inr rs" by (simp_all add: st'4)
    ultimately show ?thesis by (simp add: IsRevoked_def revoked_in_def of_load list_ex_iff)
  qed
qed

end
