(* ===== verification/UserInfo.thy ===== *)
theory UserInfo
  imports Token Url
begin

text \<open>
  The userinfo endpoint's service (\<open>internal/oidc/userinfo.go\<close>) and the redirect of RP-initiated
  logout (\<open>internal/oidc/logout.go\<close>). Metrics are left out.
\<close>

section \<open>Userinfo\<close>

text \<open>\<open>ui_Groups\<close> tells a nil slice (\<^const>\<open>None\<close>) from an empty one.\<close>

record userinfo_response =
  ui_Sub :: string
  ui_Email :: string
  ui_EmailVerified :: bool
  ui_Name :: string
  ui_GivenName :: string
  ui_FamilyName :: string
  ui_Groups :: "string list option"
  ui_Extra :: json_object

record userinfo_service =
  us_tokenGenerator :: token_generator
  us_groupClaims :: "string option"
  us_revocations :: bool

definition WithUserInfoGroups :: "string option \<Rightarrow> userinfo_service \<Rightarrow> userinfo_service" where
  "WithUserInfoGroups gc s = s\<lparr>us_groupClaims := gc\<rparr>"

definition WithUserInfoRevocations :: "bool \<Rightarrow> userinfo_service \<Rightarrow> userinfo_service" where
  "WithUserInfoRevocations r s = s\<lparr>us_revocations := r\<rparr>"

definition NewUserInfoService :: "token_generator \<Rightarrow> userinfo_service" where
  "NewUserInfoService g = \<lparr>us_tokenGenerator = g, us_groupClaims = None, us_revocations = False\<rparr>"

text \<open>The struct with its \<open>omitempty\<close> tags; \<open>sub\<close> has none.\<close>

definition userInfoJSON :: "userinfo_response \<Rightarrow> json_object" where
  "userInfoJSON r = (\<lambda>k.
     if k = ''sub'' then Some (JString (ui_Sub r))
     else if k = ''email'' then opt_string (ui_Email r)
     else if k = ''email_verified'' then (if ui_EmailVerified r then Some (JBool True) else None)
     else if k = ''name'' then opt_string (ui_Name r)
     else if k = ''given_name'' then opt_string (ui_GivenName r)
     else if k = ''family_name'' then opt_string (ui_FamilyName r)
     else if k = ''groups'' then (case ui_Groups r of None \<Rightarrow> None | Some gs \<Rightarrow> opt_strings gs)
     else None)"

definition userinfo_MarshalJSON :: "userinfo_response \<Rightarrow> json_object" where
  "userinfo_MarshalJSON r =
     (let base = userInfoJSON r;
          merged = (if ui_Groups r = Some [] then base(''groups'' \<mapsto> JArr []) else base)
      in (\<lambda>k. case merged k of Some v \<Rightarrow> Some v | None \<Rightarrow> ui_Extra r k))"

definition userinfo_scope :: "claims \<Rightarrow> string" where
  "userinfo_scope c = (if cl_Scope c = '''' then ''openid profile email'' else cl_Scope c)"

definition GetUserInfo ::
    "platform \<Rightarrow> jwtlib \<Rightarrow> time \<Rightarrow> userinfo_service \<Rightarrow> string \<Rightarrow> fstore \<Rightarrow> key_service \<Rightarrow> userinfo_response res" where
  "GetUserInfo P J now s accessToken st ks =
     (case ValidateAccessToken J now (us_tokenGenerator s) ks accessToken of
        Inl _ \<Rightarrow> Inl (New CodeTokenInvalid ''invalid access token'')
      | Inr c \<Rightarrow>
          bindR (accessTokenRevoked J (us_revocations s) c st) (\<lambda>revoked.
            if revoked then Inl (New CodeTokenInvalid ''access token has been revoked'')
            else case users_GetByID (cl_Subject c) st of
              Inl e \<Rightarrow> if IsCode e CodeNotFound then Inl (New CodeNotFound ''user not found'') else Inl e
            | Inr user \<Rightarrow>
                if \<not> user_Active user then Inl (New CodeTokenInvalid ''user account is disabled'')
                else
                  let scope = userinfo_scope c;
                      r = \<lparr>ui_Sub = user_ID user, ui_Email = '''', ui_EmailVerified = False, ui_Name = '''',
                           ui_GivenName = '''', ui_FamilyName = '''', ui_Groups = None, ui_Extra = Map.empty\<rparr>;
                      r1 = (if hasScope scope ''email''
                            then r\<lparr>ui_Email := user_Email user, ui_EmailVerified := user_EmailVerified user\<rparr> else r);
                      r2 = (if hasScope scope ''profile''
                            then r1\<lparr>ui_Name := user_DisplayName user, ui_GivenName := user_GivenName user,
                                    ui_FamilyName := user_FamilyName user\<rparr> else r1)
                  in case us_groupClaims s of
                       None \<Rightarrow> Inr r2
                     | Some claimName \<Rightarrow>
                         if \<not> hasScope scope ScopeGroups then Inr r2
                         else bindR (gc_Names P (user_ID user) st) (\<lambda>names.
                           if claimName = DefaultGroupsClaim then Inr (r2\<lparr>ui_Groups := Some names\<rparr>)
                           else Inr (r2\<lparr>ui_Extra := [claimName \<mapsto> JArr (map JString names)]\<rparr>))))"

definition ExtractBearerToken :: "string \<Rightarrow> string res" where
  "ExtractBearerToken authHeader =
     (if authHeader = '''' then Inl (Unauthorized ''missing authorization header'')
      else if \<not> HasPrefix authHeader ''Bearer '' then Inl (Unauthorized ''invalid authorization header'')
      else Inr (drop 7 authHeader))"

definition userinfo_GetUserByID :: "string \<Rightarrow> fstore \<Rightarrow> user res" where
  "userinfo_GetUserByID userID st = users_GetByID userID st"

text \<open>Who the answer is about.\<close>

lemma GetUserInfo_Inr:
  assumes "GetUserInfo P J now s tok st ks = Inr r"
  shows "\<exists>c user. ValidateAccessToken J now (us_tokenGenerator s) ks tok = Inr c
    \<and> accessTokenRevoked J (us_revocations s) c st = Inr False
    \<and> users_GetByID (cl_Subject c) st = Inr user \<and> user_Active user \<and> ui_Sub r = cl_Subject c"
  using assms
  by (auto simp: GetUserInfo_def bindR_Inr Let_def split: sum.splits if_splits option.splits dest: users_GetByID_D)

text \<open>And which members a scope opens.\<close>

definition scope_members :: "userinfo_service \<Rightarrow> string \<Rightarrow> string set" where
  "scope_members s scope =
     {''sub''} \<union> (if hasScope scope ''email'' then {''email'', ''email_verified''} else {})
     \<union> (if hasScope scope ''profile'' then {''name'', ''given_name'', ''family_name''} else {})
     \<union> (case us_groupClaims s of Some name \<Rightarrow> if hasScope scope ScopeGroups then {name} else {} | None \<Rightarrow> {})"

lemma GetUserInfo_members:
  assumes "GetUserInfo P J now s tok st ks = Inr r" and "ValidateAccessToken J now (us_tokenGenerator s) ks tok = Inr c"
  shows "dom (userinfo_MarshalJSON r) \<subseteq> scope_members s (userinfo_scope c)"
proof -
  have m: "dom (userinfo_MarshalJSON r) \<subseteq> {''sub''} \<union> (if ui_Email r = '''' \<and> \<not> ui_EmailVerified r then {} else {''email'', ''email_verified''})
     \<union> (if ui_Name r = '''' \<and> ui_GivenName r = '''' \<and> ui_FamilyName r = '''' then {} else {''name'', ''given_name'', ''family_name''})
     \<union> (if ui_Groups r = None then {} else {''groups''}) \<union> dom (ui_Extra r)" for r
    by (auto simp: userinfo_MarshalJSON_def userInfoJSON_def Let_def opt_string_def split: if_splits option.splits)
  let ?sc = "userinfo_scope c"
  have r: "(ui_Email r = '''' \<and> \<not> ui_EmailVerified r \<or> hasScope ?sc ''email'')
     \<and> (ui_Name r = '''' \<and> ui_GivenName r = '''' \<and> ui_FamilyName r = '''' \<or> hasScope ?sc ''profile'')
     \<and> (ui_Groups r = None \<or> us_groupClaims s = Some ''groups'' \<and> hasScope ?sc ScopeGroups)
     \<and> (ui_Extra r = Map.empty \<or> (\<exists>name. us_groupClaims s = Some name \<and> hasScope ?sc ScopeGroups \<and> dom (ui_Extra r) = {name}))"
    using assms unfolding GetUserInfo_def Let_def DefaultGroupsClaim_def
    by (cases "us_groupClaims s"; cases "hasScope ?sc ''email''"; cases "hasScope ?sc ''profile''"; cases "hasScope ?sc ScopeGroups")
       (auto simp: bindR_Inr split: sum.splits if_splits)
  have sc: "hasScope ?sc ''email'' \<Longrightarrow> {''email'', ''email_verified''} \<subseteq> scope_members s ?sc"
    "hasScope ?sc ''profile'' \<Longrightarrow> {''name'', ''given_name'', ''family_name''} \<subseteq> scope_members s ?sc"
    "us_groupClaims s = Some name \<Longrightarrow> hasScope ?sc ScopeGroups \<Longrightarrow> {name} \<subseteq> scope_members s ?sc" for name
    by (simp_all add: scope_members_def)
  have opened: "(\<not> b \<Longrightarrow> A \<subseteq> B) \<Longrightarrow> (if b then {} else A) \<subseteq> B" for b and A B :: "string set"
    by simp
  have "(if ui_Email r = '''' \<and> \<not> ui_EmailVerified r then {} else {''email'', ''email_verified''}) \<subseteq> scope_members s ?sc"
    by (rule opened, rule sc(1)) (use conjunct1 [OF r] in blast)
  moreover have "(if ui_Name r = '''' \<and> ui_GivenName r = '''' \<and> ui_FamilyName r = '''' then {} else {''name'', ''given_name'', ''family_name''}) \<subseteq> scope_members s ?sc"
    by (rule opened, rule sc(2)) (use conjunct1 [OF conjunct2 [OF r]] in blast)
  moreover have "(if ui_Groups r = None then {} else {''groups''}) \<subseteq> scope_members s ?sc"
  proof (rule opened)
    assume "ui_Groups r \<noteq> None"
    then have "us_groupClaims s = Some ''groups'' \<and> hasScope ?sc ScopeGroups"
      using conjunct1 [OF conjunct2 [OF conjunct2 [OF r]]] by auto
    then show "{''groups''} \<subseteq> scope_members s ?sc" using sc(3) by simp
  qed
  moreover have "dom (ui_Extra r) \<subseteq> scope_members s ?sc"
    using conjunct2 [OF conjunct2 [OF conjunct2 [OF r]]]
  proof
    assume "\<exists>name. us_groupClaims s = Some name \<and> hasScope ?sc ScopeGroups \<and> dom (ui_Extra r) = {name}"
    then obtain name where "us_groupClaims s = Some name" "hasScope ?sc ScopeGroups" and d: "dom (ui_Extra r) = {name}"
      by (elim exE conjE)
    then show ?thesis unfolding d by (intro sc(3))
  qed simp
  moreover have "''sub'' \<in> scope_members s ?sc" by (simp add: scope_members_def)
  ultimately show ?thesis using m [of r] by blast
qed

section \<open>Logout redirects\<close>

definition registeredRedirect :: "client \<Rightarrow> string \<Rightarrow> bool" where
  "registeredRedirect client uri = list_ex (\<lambda>r. r = uri) (client_RedirectURIs client)"

text \<open>The client a request names: by the audience of the hint, by \<open>client_id\<close>, or by both in agreement.\<close>

definition logout_client ::
    "jwtlib \<Rightarrow> time \<Rightarrow> token_generator \<Rightarrow> key_service \<Rightarrow> string \<Rightarrow> string \<Rightarrow> string res" where
  "logout_client J now g ks idTokenHint clientID =
     (if idTokenHint \<noteq> '''' then
        (case ParseIDTokenHint J now g ks idTokenHint of
           Inl _ \<Rightarrow> Inl (InvalidInput ''invalid id_token_hint'')
         | Inr c \<Rightarrow>
             (case cl_Audience c of
                [aud] \<Rightarrow>
                  if clientID \<noteq> '''' \<and> clientID \<noteq> aud then Inl (InvalidInput ''client_id does not match id_token_hint'')
                  else Inr aud
              | _ \<Rightarrow> Inl (InvalidInput ''id_token_hint must have a single audience'')))
      else Inr clientID)"

definition PostLogoutRedirect ::
    "jwtlib \<Rightarrow> urllib \<Rightarrow> time \<Rightarrow> token_generator \<Rightarrow> key_service \<Rightarrow> string \<Rightarrow> string \<Rightarrow> string \<Rightarrow> string \<Rightarrow> fstore \<Rightarrow> string res" where
  "PostLogoutRedirect J U now g ks idTokenHint clientID redirectURI state st =
     bindR (logout_client J now g ks idTokenHint clientID) (\<lambda>clientID.
       if clientID = '''' then Inl (InvalidInput ''post_logout_redirect_uri requires id_token_hint or client_id'')
       else case clients_GetByID clientID st of
         Inl _ \<Rightarrow> Inl (InvalidInput ''unknown client'')
       | Inr client \<Rightarrow>
           if \<not> registeredRedirect client redirectURI
           then Inl (InvalidInput ''post_logout_redirect_uri is not registered for the client'')
           else case ul_Parse U redirectURI of
             Inl _ \<Rightarrow> Inl (InvalidInput ''invalid post_logout_redirect_uri'')
           | Inr u \<Rightarrow>
               Inr (ul_String U (if state \<noteq> ''''
                      then u\<lparr>url_RawQuery := values_Encode (values_Set (url_Query u) ''state'' state)\<rparr> else u)))"

text \<open>
  The user agent is only ever sent to a registered redirect URI of the client that was named,
  with nothing but the state parameter of its query changed.
\<close>

lemma PostLogoutRedirect_Inr:
  assumes "PostLogoutRedirect J U now g ks hint clientID uri state st = Inr target"
  shows "\<exists>client u u'. client \<in> set (clients_of st) \<and> uri \<in> set (client_RedirectURIs client)
    \<and> (hint = '''' \<longrightarrow> client_ID client = clientID)
    \<and> (hint \<noteq> '''' \<longrightarrow> (\<exists>c. ParseIDTokenHint J now g ks hint = Inr c \<and> cl_Audience c = [client_ID client])
         \<and> clientID \<in> {'''', client_ID client})
    \<and> ul_Parse U uri = Inr u \<and> target = ul_String U u' \<and> (\<exists>q. u' = u\<lparr>url_RawQuery := q\<rparr>)
    \<and> url_Query u' = (if state = '''' then url_Query u else (url_Query u)(''state'' \<mapsto> [state]))"
proof -
  from assms obtain cid client u where n: "logout_client J now g ks hint clientID = Inr cid" "clients_GetByID cid st = Inr client"
    and r: "registeredRedirect client uri" "ul_Parse U uri = Inr u"
    and t: "target = ul_String U (if state \<noteq> '''' then u\<lparr>url_RawQuery := values_Encode (values_Set (url_Query u) ''state'' state)\<rparr> else u)"
    by (auto simp: PostLogoutRedirect_def bindR_Inr split: if_splits sum.splits)
  let ?u = "if state \<noteq> '''' then u\<lparr>url_RawQuery := values_Encode (values_Set (url_Query u) ''state'' state)\<rparr> else u"
  have q: "url_Query ?u = (if state = '''' then url_Query u else (url_Query u)(''state'' \<mapsto> [state]))"
    by (simp add: values_Set_def [symmetric] values_wf_intros)
  have c: "client \<in> set (clients_of st)" "client_ID client = cid" using clients_GetByID_D [OF n(2)] by auto
  have l: "(hint = '''' \<longrightarrow> cid = clientID)
    \<and> (hint \<noteq> '''' \<longrightarrow> (\<exists>c. ParseIDTokenHint J now g ks hint = Inr c \<and> cl_Audience c = [cid]) \<and> clientID \<in> {'''', cid})"
    using n(1) by (auto simp: logout_client_def split: if_splits sum.splits list.splits)
  have "\<exists>q. ?u = u\<lparr>url_RawQuery := q\<rparr>"
    by (cases "state = ''''") (auto intro: exI [of _ "url_RawQuery u"])
  then show ?thesis
    by (intro exI [of _ client] exI [of _ u] exI [of _ ?u]) (use c l r t q in \<open>auto simp: registeredRedirect_def list_ex_iff\<close>)
qed

end
