(* ===== verification/AuthExample.thy ===== *)
theory AuthExample
  imports Example SignIn Links UserInfo
begin

text \<open>
  The deployment of \<open>Example\<close> with a password for its user, a sign-in form and a session: concrete
  inputs for the theorems about signing in.
\<close>

definition exQ :: platform where
  "exQ = exP\<lparr>hmac_sha256 := (\<lambda>k s. take 32 (s @ replicate 32 CHR ''h''))\<rparr>"

definition exHash :: string where
  "exHash = (case HashPassword exQ (Inr ''saltsaltsaltsalt'') ''password'' of Inr h \<Rightarrow> h | Inl _ \<Rightarrow> '''')"

definition exSigner :: user where
  "exSigner = exUser\<lparr>user_PasswordHash := exHash\<rparr>"

definition exCsrf :: csrf_service where
  "exCsrf = NewCSRFService ''secret'' False ''''"

definition exCsrfToken :: string where
  "exCsrfToken = (case csrf_GenerateToken exQ (Inr ''random'') exNow exCsrf of Inr (t, _) \<Rightarrow> t | Inl _ \<Rightarrow> '''')"

definition exForm :: web_request where
  "exForm = \<lparr>wq_form = [CSRFFormField \<mapsto> [exCsrfToken]], wq_cookies = [(CSRFCookieName, exCsrfToken), (PendingLoginCookieName, ''p'')],
     wq_CSRFHeader = '''', wq_UserAgent = ''ua'', wq_RemoteAddr = ''10.0.0.1:4711''\<rparr>"

definition exCfg :: auth_config where
  "exCfg = \<lparr>ac_sessions = NewSessionService ''secret'', ac_csrf = exCsrf, ac_audit = True, ac_passkeys = True, ac_webauthn = True\<rparr>"

definition exRandoms :: randoms where
  "exRandoms = \<lparr>rd_session = Inr ''session'', rd_pending = Inr ''pending'', rd_recovery = (\<lambda>i. Inr (replicate 7 (char_of i))),
     rd_salt = Inr ''saltsaltsaltsalt'', rd_uuid = ''uuid''\<rparr>"

definition exAuth :: auth where
  "exAuth = NewService (exStore\<lparr>f_users := Content [exSigner]\<rparr>) (Some (NewLockoutService 5 (15 * minute)))"

definition exW :: webauthn where
  "exW = \<lparr>wa_BeginRegistration = (\<lambda>_ _ _ _. Inr (''options'', ''challenge'')), wa_ParseCreation = Inr,
     wa_CreateCredential = (\<lambda>_ _ _ p. Inr \<lparr>wc_ID = p, wc_CloneWarning = False, wc_rest = ''''\<rparr>),
     wa_BeginLogin = (\<lambda>_ _. Inr (''options'', ''challenge'')), wa_ParseAssertion = (\<lambda>r. Inr (r, True)),
     wa_ValidateLogin = (\<lambda>_ _ ch p. if p = ch then Inr \<lparr>wc_ID = ''key'', wc_CloneWarning = False, wc_rest = ''''\<rparr> else Inl (Plain ''bad'')),
     wa_Marshal = (\<lambda>c. Inr (wc_ID c)), wa_Unmarshal = (\<lambda>s. Inr \<lparr>wc_ID = s, wc_CloneWarning = False, wc_rest = ''''\<rparr>)\<rparr>"

definition exLogin :: timed_call where
  "exLogin = (exNow, exRandoms, CallLogin exForm ''a@x'' ''password'')"

lemma exQ_laws: "argon2_length exQ" "hmac_length exQ"
  by (simp_all add: argon2_length_def hmac_length_def exQ_def exP_def argonKeyLen_def min_def)

lemma exCsrf_ok: "csrf_ValidateToken exQ exNow exCsrf exForm = None"
  by code_simp

lemma exHash_ok: "HashPassword exQ (Inr ''saltsaltsaltsalt'') ''password'' = Inr exHash"
  by (simp add: exHash_def HashPassword_def Let_def)

lemma exSigner_ok: "Authenticate exQ ''a@x'' ''password'' (exStore\<lparr>f_users := Content [exSigner]\<rparr>) = Inr exSigner"
proof -
  have "users_GetByEmail exQ ''a@x'' (exStore\<lparr>f_users := Content [exSigner]\<rparr>) = Inr exSigner"
    by (simp add: users_GetByEmail_def exSigner_def exUser_def EqualFold_def)
  moreover have "VerifyPassword exQ ''password'' (user_PasswordHash exSigner) = Inr True"
    using Verify_after_Hash [OF exHash_ok exQ_laws(1)] by (simp add: exSigner_def)
  ultimately show ?thesis by (simp add: Authenticate_def) (simp add: exSigner_def exUser_def)
qed

lemma exLogin_step:
  "\<exists>au'. auth_step exQ exW exCfg exLogin exAuth =
     ([SetSessionCookie (ac_sessions exCfg) (RawURLEncoding_EncodeToString ''session''), csrf_ClearToken exCsrf], au')"
proof -
  have st: "au_store exAuth = exStore\<lparr>f_users := Content [exSigner]\<rparr>" by (simp add: exAuth_def NewService_def)
  have "healthy (au_store exAuth)" by (simp add: st exStore_healthy)
  moreover have "\<not> hasSecondFactor exCfg exSigner (au_store exAuth)"
    by (simp add: st hasSecondFactor_def TOTPEnabled_def exSigner_def exUser_def passkeys_ListByUserID_def exStore_def NewStore_def load_defs)
  moreover have "\<not> lockout_IsLocked exQ exNow ''a@x'' exAuth"
    by (simp add: lockout_IsLocked_def exAuth_def NewService_def IsLocked_def NewLockoutService_def)
  moreover have "csrf_ValidateToken exQ exNow (ac_csrf exCfg) exForm = None" using exCsrf_ok by (simp add: exCfg_def)
  ultimately show ?thesis
    using Login_signs_in [of exQ exNow exCfg exForm "''a@x''" exAuth "''password''" exSigner exRandoms "''session''"] exSigner_ok st
    by (auto simp: exLogin_def exCfg_def exRandoms_def)
qed

definition exTotpUser :: user where
  "exTotpUser = exUser\<lparr>user_TOTPSecret := ''AAAAAAAA''\<rparr>"

definition exPending :: pendingLogin where
  "exPending = \<lparr>pl_userID = ''u1'', pl_email = ''a@x'', pl_expires = exNow + pendingLoginTTL, pl_attempts = 4, pl_passkey = None\<rparr>"

definition exTwoStep :: auth where
  "exTwoStep = (NewService (exStore\<lparr>f_users := Content [exTotpUser]\<rparr>) (Some (NewLockoutService 5 (15 * minute))))\<lparr>
     au_pending := [''p'' \<mapsto> exPending]\<rparr>"

definition exU :: urllib where
  "exU = \<lparr>ul_Parse = (\<lambda>s. Inr \<lparr>url_Scheme = '''', url_Host = '''', url_User = False, url_Path = fst (Cut CHR ''?'' s), url_RawQuery = snd (Cut CHR ''?'' s), url_Fragment = '''', url_rest = ''''\<rparr>),
     ul_String = (\<lambda>u. url_Path u @ (if url_RawQuery u = '''' then '''' else CHR ''?'' # url_RawQuery u))\<rparr>"

end
