(* ===== verification/AuthProps.thy ===== *)
theory AuthProps
  imports AuthExample
begin

text \<open>Properties of signing in and of the account links, each with a concrete case.\<close>

section \<open>Signing in\<close>



text \<open>
  C11. A pending login is good for five answers: in a run that does not draw its random token again, no
  more than five requests get their code or passkey response looked at for it, however many
  arrive and whatever they carry, and fewer when some were spent before.
\<close>

theorem second_factor_attempts:
  assumes "path (signin_step P W cfg) au tr au'" and "\<forall>ev \<in> set tr. \<not> draws_pending tok (se_call ev)"
    and "au_pending au tok = Some e" and "0 \<le> pl_attempts e"
  shows "int (length (filter (\<lambda>ev. se_answered ev = Some tok) tr)) \<le> max 0 (5 - pl_attempts e)"
proof -
  have "length (filter (\<lambda>ev. se_answered ev = Some tok) tr) \<le> attempts_left tok au"
    by (rule pending_budget.events_bound [OF path_restrict [OF assms(1,2)]])
  then show ?thesis using assms(3) by (simp add: attempts_left_def pendingLoginAttempts_def)
qed

theorem second_factor_attempts_witness:
  "\<exists>ev au'. signin_step exQ exW exCfg exTwoStep ev au' \<and> se_answered ev = Some ''p'' \<and>
     int (length (filter (\<lambda>ev. se_answered ev = Some ''p'') [ev])) \<le> max 0 (5 - 4)"
proof -
  let ?x = "(exNow, exRandoms, CallSecondFactor exForm ''000000'')"
  obtain cks au' where st: "auth_step exQ exW exCfg ?x exTwoStep = (cks, au')" by force
  let ?ev = "\<lparr>se_call = ?x, se_answered = answered exQ exCfg ?x exTwoStep, se_proved = proved exQ exCfg ?x exTwoStep, se_cookies = cks\<rparr>"
  have s: "signin_step exQ exW exCfg exTwoStep ?ev au'" using st by (rule signin_step.call)
  have a: "answered exQ exCfg ?x exTwoStep = Some ''p''" by code_simp
  have "path (signin_step exQ exW exCfg) exTwoStep [?ev] au'" using s by (rule path_single)
  from second_factor_attempts [OF this, of "''p''" exPending] s a show ?thesis
    by (intro exI [of _ ?ev] exI [of _ au']) (auto simp: draws_pending_def exTwoStep_def exPending_def)
qed



text \<open>
  C33. A form token is good for an hour: what GenerateToken put into the page and the cookie is accepted by
  ValidateToken exactly until an hour after the whole second it was made in. (HMAC-SHA-256 yields 32 bytes.)
\<close>

theorem csrf_token_window:
  assumes "csrf_GenerateToken P (Inr rnd) t0 s = Inr (tok, ck)" and "hmac_length P"
    and "0 \<le> t0" and "Unix t0 < 2 ^ 63" and "req_Cookie r (ck_Name ck) = Some (ck_Value ck)"
    and "values_Get (wq_form r) CSRFFormField = tok"
  shows "csrf_ValidateToken P now s r = None \<longleftrightarrow> now \<le> Unix t0 * second + CSRFTTL"
  using assms by (rule csrf_roundtrip)

theorem csrf_token_window_witness:
  "csrf_ValidateToken exQ (exNow + hour) exCsrf exForm = None \<and> csrf_ValidateToken exQ (exNow + hour + 1) exCsrf exForm \<noteq> None"
proof -
  obtain ck where g: "csrf_GenerateToken exQ (Inr ''random'') exNow exCsrf = Inr (exCsrfToken, ck)"
    "ck_Name ck = csrf_cookieName exCsrf" "ck_Value ck = exCsrfToken"
    by (auto simp: exCsrfToken_def csrf_GenerateToken_def Let_def)
  have "csrf_ValidateToken exQ now exCsrf exForm = None \<longleftrightarrow> now \<le> Unix exNow * second + CSRFTTL" for now
    using csrf_token_window [OF g(1) exQ_laws(2), of exForm now] g(2,3)
    by (simp add: exNow_def Unix_def exForm_def values_Get_def req_Cookie_def csrf_cookieName_def exCsrf_def NewCSRFService_def)
  then show ?thesis by (simp add: exNow_def Unix_def CSRFTTL_def)
qed

text \<open>
  A one-time code is accepted exactly when, without spaces, it is the code of a time step later than
  the last one used and at most one step away from now.
\<close>

lemma totp_accepts_iff:
  "snd (VerifyTOTP P secret code now lastStep) \<longleftrightarrow>
     (\<exists>key step. b32_DecodeString (ToUpper P secret) = Inr key \<and> lastStep < step \<and> \<bar>step - totpStep now\<bar> \<le> totpSkew
        \<and> filter (\<lambda>c. c \<noteq> CHR '' '') (TrimSpace code) = totpCode P key step)"
  by (rule VerifyTOTP_iff)





end
