(* ===== verification/AccountProps.thy ===== *)
theory AccountProps
  imports AuthExample
begin

text \<open>Properties of the account links, of the userinfo endpoint and of logout, each with a concrete case.\<close>

section \<open>Account links\<close>

text \<open>
  C18. A reset or verification link works at most once: in every run of the account service (requests
  for links, admin sends, resets, verifications and password changes, in any order and with any
  outcome) that does not draw its token again, at most one call succeeds with it.
\<close>

theorem link_single_use:
  assumes "path (link_run_step P s) acc tr acc'" and "\<forall>e \<in> set tr. \<not> draws_link P (le_rnd (fst e)) h"
    and "occurs_once vt_TokenHash h (vtokens_of (acc_store acc))"
  shows "length (filter (\<lambda>e. snd (snd e) = Some h) tr) \<le> 1"
  by (rule link_use.at_most_one [OF path_restrict [OF assms(1,2)] assms(3)])

definition exAccounts :: account_service where
  "exAccounts = NewAccountService ''https://id.example/''"

definition exLink :: verification_token where
  "exLink = \<lparr>vt_TokenHash = hashToken exQ ''T'', vt_UserID = ''u1'', vt_Purpose = PurposePasswordReset, vt_CreatedAt = exNow,
     vt_ExpiresAt = exNow + hour, vt_Used = False\<rparr>"

definition exAcc :: account where
  "exAcc = \<lparr>acc_store = exStore\<lparr>f_verification_tokens := Content [exLink]\<rparr>, acc_lastReset = Map.empty, acc_outbox = []\<rparr>"

definition exLinkEnv :: link_env where
  "exLinkEnv = \<lparr>le_now = exNow, le_rnd = Inl (Plain ''unused''), le_salt = Inr ''saltsaltsaltsalt'', le_uuid = ''uuid'', le_mailer = (\<lambda>_. None)\<rparr>"

lemma exReset_ok: "\<exists>user st. ResetPassword exQ (Inr ''saltsaltsaltsalt'') ''uuid'' exNow exAccounts ''T'' ''new password'' (acc_store exAcc) = (Inr user, st)
   \<and> user_ID user = ''u1''"
proof -
  have v: "ValidatePassword ''new password'' = None" by code_simp
  obtain st0 where st0: "st0 = snd (consumeToken exQ exNow ''T'' PurposePasswordReset (acc_store exAcc))" by simp
  have "fst (consumeToken exQ exNow ''T'' PurposePasswordReset (acc_store exAcc)) = Inr exLink" by code_simp
  then have c: "consumeToken exQ exNow ''T'' PurposePasswordReset (acc_store exAcc) = (Inr exLink, st0)" by (simp add: prod_eq_iff st0)
  have c': "users_GetByID ''u1'' st0 = Inr exUser" "vt_UserID exLink = ''u1''" "user_ID exUser = ''u1''" unfolding st0 by code_simp+
  obtain h where h: "HashPassword exQ (Inr ''saltsaltsaltsalt'') ''new password'' = Inr h" by (simp add: HashPassword_def Let_def)
  have "\<exists>ts. st0 = (acc_store exAcc)\<lparr>f_verification_tokens := Content ts\<rparr>" using consumeToken_Inr [OF c] by blast
  then obtain st1 where "users_Update exNow (exUser\<lparr>user_PasswordHash := h\<rparr>) st0 = (None, st1)"
    using exStore_healthy by (auto simp: users_Update_def exAcc_def exStore_def save_healthy healthy_NewStore)
  with v c c' h show ?thesis by (auto simp: ResetPassword_def SetPassword_def Let_def)
qed

theorem link_single_use_witness:
  "\<exists>acc'. link_run_step exQ exAccounts exAcc (exLinkEnv, LinkReset ''T'' ''new password'', Some (hashToken exQ ''T'')) acc'
     \<and> length (filter (\<lambda>e. snd (snd e) = Some (hashToken exQ ''T'')) [(exLinkEnv, LinkReset ''T'' ''new password'', Some (hashToken exQ ''T''))]) \<le> 1"
proof -
  obtain acc' where s: "link_run_step exQ exAccounts exAcc (exLinkEnv, LinkReset ''T'' ''new password'', Some (hashToken exQ ''T'')) acc'"
    using exReset_ok by (auto simp: link_run_step_iff exLinkEnv_def)
  have p: "path (link_run_step exQ exAccounts) exAcc [(exLinkEnv, LinkReset ''T'' ''new password'', Some (hashToken exQ ''T''))] acc'"
    using s by (rule path_single)
  have "occurs_once vt_TokenHash (hashToken exQ ''T'') (vtokens_of (acc_store exAcc))"
    by (simp add: exAcc_def occurs_once_def exLink_def)
  with link_single_use [OF p, of "hashToken exQ ''T''"] s show ?thesis
    by (intro exI [of _ acc']) (simp add: draws_link_def exLinkEnv_def)
qed

text \<open>
  C19. A password reset ends what the old password opened: after a reset on a store that can be read and
  written the stored user verifies the new password, and has no session, no unrevoked refresh
  token and no reset link left, and every access token issued until now counts as revoked. The
  link was unexpired, unused and made for a reset. (Argon2 returns as many bytes as asked.)
\<close>

theorem password_reset_ends_access:
  assumes "ResetPassword P (Inr salt) uuid now s token pw st = (Inr user, st')" and "healthy st" and "argon2_length P"
  shows "(\<exists>vt. vtoken_at st (hashToken P token) = Some vt \<and> vt_Purpose vt = PurposePasswordReset \<and> vt_UserID vt = user_ID user
        \<and> now \<le> vt_ExpiresAt vt \<and> \<not> vt_Used vt)
    \<and> users_GetByID (user_ID user) st' = Inr user \<and> VerifyPassword P pw (user_PasswordHash user) = Inr True
    \<and> (\<forall>x \<in> set (sessions_of st'). session_UserID x \<noteq> user_ID user)
    \<and> (\<forall>t \<in> set (tokens_of st'). token_UserID t = user_ID user \<longrightarrow> token_Revoked t)
    \<and> (\<forall>t \<in> set (vtokens_of st'). \<not> (vt_UserID t = user_ID user \<and> vt_Purpose t = PurposePasswordReset))
    \<and> (\<forall>jti c iat. iat \<le> now \<longrightarrow> IsRevoked jti (user_ID user) c iat st' = Inr True)"
proof -
  from ResetPassword_Inr [OF assms(1)] obtain vt st1 u st2 where c: "consumeToken P now token PurposePasswordReset st = (Inr vt, st1)"
    and u: "users_GetByID (vt_UserID vt) st1 = Inr u" and set: "SetPassword P (Inr salt) now u pw st1 = ((None, user), st2)"
    and st': "st' = account_audit uuid now s (Some user) '''' ''password.reset'' (user_ID user) st2" by blast
  note ct = consumeToken_Inr [OF c]
  then have "healthy st1" using assms(2) by auto
  note eff = SetPassword_effect [OF set this assms(3)]
  have id: "user_ID u = vt_UserID vt" "user_ID user = user_ID u" using users_GetByID_D [OF u] eff(6) by auto
  obtain v where "st' = st2\<lparr>f_audit_events := v\<rparr>" using Record_frame st' unfolding account_audit_def by blast
  then have same: "sessions_of st' = sessions_of st2" "tokens_of st' = tokens_of st2" "vtokens_of st' = vtokens_of st2"
    "users_GetByID k st' = users_GetByID k st2" "IsRevoked jti k c iat st' = IsRevoked jti k c iat st2" for k jti c iat
    by (simp_all add: users_GetByID_def IsRevoked_def)
  show ?thesis unfolding same id(2) using ct id eff by auto
qed

theorem password_reset_ends_access_witness:
  "\<exists>user st'. ResetPassword exQ (Inr ''saltsaltsaltsalt'') ''uuid'' exNow exAccounts ''T'' ''new password'' (acc_store exAcc) = (Inr user, st')
     \<and> VerifyPassword exQ ''new password'' (user_PasswordHash user) = Inr True
     \<and> (\<forall>t \<in> set (tokens_of st'). token_UserID t = ''u1'' \<longrightarrow> token_Revoked t) \<and> IsRevoked ''AT'' ''u1'' ''c1'' exNow st' = Inr True"
proof -
  obtain user st' where r: "ResetPassword exQ (Inr ''saltsaltsaltsalt'') ''uuid'' exNow exAccounts ''T'' ''new password'' (acc_store exAcc) = (Inr user, st')"
    "user_ID user = ''u1''" using exReset_ok by blast
  have "healthy (acc_store exAcc)" using exStore_healthy by (simp add: exAcc_def)
  from password_reset_ends_access [OF r(1) this exQ_laws(1)] r show ?thesis by auto
qed

section \<open>Userinfo and logout\<close>

text \<open>
  C31. Userinfo answers only a valid, unrevoked access token of an active user, about that user, and reveals no
  member that the token's scope does not open (an empty scope counts as openid profile email).
\<close>

theorem userinfo_scoped:
  assumes "GetUserInfo P J now s tok st ks = Inr r"
  shows "\<exists>c user. ValidateAccessToken J now (us_tokenGenerator s) ks tok = Inr c
    \<and> accessTokenRevoked J (us_revocations s) c st = Inr False
    \<and> users_GetByID (cl_Subject c) st = Inr user \<and> user_Active user
    \<and> userinfo_MarshalJSON r ''sub'' = Some (JString (cl_Subject c))
    \<and> dom (userinfo_MarshalJSON r) \<subseteq> scope_members s (userinfo_scope c)"
proof -
  from GetUserInfo_Inr [OF assms] obtain c user where c: "ValidateAccessToken J now (us_tokenGenerator s) ks tok = Inr c"
    "accessTokenRevoked J (us_revocations s) c st = Inr False" "users_GetByID (cl_Subject c) st = Inr user" "user_Active user"
    "ui_Sub r = cl_Subject c" by blast
  have "userinfo_MarshalJSON r ''sub'' = Some (JString (cl_Subject c))"
    by (simp add: userinfo_MarshalJSON_def userInfoJSON_def c(5) Let_def)
  with c GetUserInfo_members [OF assms c(1)] show ?thesis by blast
qed

theorem userinfo_scoped_witness:
  "\<exists>r (c :: claims). GetUserInfo exP exJ (exNow + minute) \<lparr>us_tokenGenerator = exGen, us_groupClaims = None, us_revocations = True\<rparr> ''AT'' exStore exKeys = Inr r
     \<and> userinfo_MarshalJSON r ''sub'' = Some (JString (cl_Subject c))"
proof -
  let ?s = "\<lparr>us_tokenGenerator = exGen, us_groupClaims = None, us_revocations = True\<rparr>"
  have "isOk (GetUserInfo exP exJ (exNow + minute) ?s ''AT'' exStore exKeys)" by code_simp
  then obtain r where r: "GetUserInfo exP exJ (exNow + minute) ?s ''AT'' exStore exKeys = Inr r" by (auto simp: isOk_iff)
  from userinfo_scoped [OF r] obtain c :: claims where "userinfo_MarshalJSON r ''sub'' = Some (JString (cl_Subject c))"
    by blast
  with r show ?thesis by (intro exI [of _ r] exI [of _ c]) simp
qed

text \<open>
  Logout sends the user agent only to a redirect URI registered for the client that the request names (by
  client_id, by the single audience of a verified id_token_hint, or by both in agreement), with
  path and other query parameters as registered and the state parameter set to the request's.
\<close>

theorem logout_redirect_registered:
  assumes "PostLogoutRedirect J U now g ks hint clientID uri state st = Inr target"
  shows "\<exists>client u u'. client \<in> set (clients_of st) \<and> uri \<in> set (client_RedirectURIs client)
    \<and> (hint = '''' \<longrightarrow> client_ID client = clientID)
    \<and> (hint \<noteq> '''' \<longrightarrow> (\<exists>c. ParseIDTokenHint J now g ks hint = Inr c \<and> cl_Audience c = [client_ID client])
         \<and> clientID \<in> {'''', client_ID client})
    \<and> ul_Parse U uri = Inr u \<and> target = ul_String U u' \<and> (\<exists>q. u' = u\<lparr>url_RawQuery := q\<rparr>)
    \<and> url_Query u' = (if state = '''' then url_Query u else (url_Query u)(''state'' \<mapsto> [state]))"
  using assms by (rule PostLogoutRedirect_Inr)

theorem logout_redirect_registered_witness:
  "\<exists>target (client :: client) u'. PostLogoutRedirect exJ exU exNow exGen exKeys '''' ''c1'' ''r'' ''s'' exStore = Inr target
     \<and> ''r'' \<in> set (client_RedirectURIs client) \<and> target = ul_String exU u' \<and> url_Query u' ''state'' = Some [''s'']"
proof -
  have "isOk (PostLogoutRedirect exJ exU exNow exGen exKeys '''' ''c1'' ''r'' ''s'' exStore)"
  proof -
    have "clients_GetByID ''c1'' exStore = Inr exClient" "registeredRedirect exClient ''r''" by code_simp+
    then show ?thesis by (simp add: PostLogoutRedirect_def logout_client_def exU_def)
  qed
  then obtain t where t: "PostLogoutRedirect exJ exU exNow exGen exKeys '''' ''c1'' ''r'' ''s'' exStore = Inr t" by (auto simp: isOk_iff)
  from logout_redirect_registered [OF t] obtain client :: client and u u' where "''r'' \<in> set (client_RedirectURIs client)" "t = ul_String exU u'"
    "url_Query u' = (if ''s'' = '''' then url_Query u else (url_Query u)(''state'' \<mapsto> [''s'']))" by blast
  with t show ?thesis by (intro exI [of _ t] exI [of _ client] exI [of _ u']) simp
qed

end
