(* ===== verification/Pages.thy ===== *)
theory Pages
  imports Keys
begin

text \<open>
  What the HTML pages are rendered from: the page data structs of \<open>internal/http\<close>, one record each,
  as the handlers fill them. A page of the model is its data; the HTML templates are not modelled.
  An embedded \<open>adminBase\<close> or \<open>wideBase\<close> is a field, a nil pointer is \<^const>\<open>None\<close>.
\<close>

section \<open>Sign-in, consent and messages\<close>

record loginPageData =
  lp_CSRFToken :: string
  lp_ReturnURL :: string
  lp_Error :: string
  lp_Message :: string
  lp_ForgotPasswordURL :: string
  lp_HasTOTP :: bool
  lp_HasPasskeys :: bool

record consentScope =
  sc_Name :: string
  sc_Description :: string

record consentPageData =
  cp_CSRFToken :: string
  cp_AuthorizeQuery :: string
  cp_ClientID :: string
  cp_ClientName :: string
  cp_UserEmail :: string
  cp_Scopes :: "consentScope list"

record errorPageData =
  ep_Title :: string
  ep_Message :: string
  ep_BackURL :: string
  ep_BackLabel :: string

record messagePageData =
  mp_Title :: string
  mp_Message :: string
  mp_Error :: string
  mp_BackURL :: string
  mp_BackLabel :: string
  mp_SecondURL :: string
  mp_SecondLabel :: string

record forgotPasswordData =
  fp_CSRFToken :: string
  fp_Email :: string
  fp_Error :: string
  fp_Sent :: bool
  fp_TTL :: string

record resetPasswordData =
  rp_CSRFToken :: string
  rp_Token :: string
  rp_Error :: string
  rp_MinLength :: nat

section \<open>The account pages\<close>

record wideBase =
  wb_Section :: string
  wb_CurrentUser :: "user option"
  wb_CSRFToken :: string
  wb_Flash :: string
  wb_Error :: string

record accountSession =
  acs_Session :: session
  acs_Current :: bool

record accountPageData =
  apd_base :: wideBase
  apd_Sessions :: "accountSession list"
  apd_Tokens :: "token list"
  apd_Consents :: "consent list"
  apd_CanChangePassword :: bool
  apd_MinPasswordLength :: nat
  apd_PasskeysAvailable :: bool
  apd_Passkeys :: "passkey list"
  apd_HasSecondFactor :: bool

record twoStepPageData =
  tsp_base :: wideBase
  tsp_Secret :: string
  tsp_SecretDisplay :: string
  tsp_QRDataURI :: string
  tsp_RecoveryCodes :: "string list"

section \<open>The administration pages\<close>

record adminBase =
  ab_Section :: string
  ab_CurrentUser :: "user option"
  ab_CSRFToken :: string
  ab_Flash :: string
  ab_Error :: string
  ab_PlaygroundEnabled :: bool

record dashboardData =
  dd_base :: adminBase
  dd_UserCount :: nat
  dd_GroupCount :: nat
  dd_ClientCount :: nat
  dd_KeyCount :: nat
  dd_IssuerURL :: string

record usersData =
  ud_base :: adminBase
  ud_Users :: "user list"

record groupMembership =
  gm_Group :: group
  gm_Member :: bool

record userFormData =
  uf_base :: adminBase
  uf_IsNew :: bool
  uf_IsSelf :: bool
  uf_User :: "user option"
  uf_Consents :: "consent list"
  uf_AllGroups :: "groupMembership list"
  uf_Sessions :: "session list"
  uf_Tokens :: "token list"
  uf_Passkeys :: "passkey list"
  uf_MinPasswordLength :: nat

record groupRow =
  grw_Group :: group
  grw_MemberCount :: nat

record groupsData =
  gsd_base :: adminBase
  gsd_Groups :: "groupRow list"
  gsd_ClaimName :: string

record groupFormData =
  gf_base :: adminBase
  gf_IsNew :: bool
  gf_Group :: group
  gf_Members :: "user list"

record clientsData =
  cd_base :: adminBase
  cd_Clients :: "client list"

record clientFormData =
  cf_base :: adminBase
  cf_IsNew :: bool
  cf_Client :: "client option"
  cf_NewSecret :: string
  cf_IssuerURL :: string
  cf_DefaultAccessTTL :: string
  cf_DefaultRefreshTTL :: string
  cf_EffectiveAccessTTL :: string
  cf_EffectiveRefreshTTL :: string

record auditData =
  ad_base :: adminBase
  ad_Events :: "audit_event list"
  ad_Limit :: nat

record keysData =
  kd_base :: adminBase
  kd_Keys :: "keypair list"
  kd_GracePeriod :: string

datatype page =
    LoginData loginPageData
  | ConsentData consentPageData
  | ErrorData errorPageData
  | MessageData messagePageData
  | ForgotData forgotPasswordData
  | ResetData resetPasswordData
  | SetupData string
  | AccountData accountPageData
  | TwoStepData twoStepPageData
  | DashboardData dashboardData
  | UsersData usersData
  | UserFormData userFormData
  | GroupsData groupsData
  | GroupFormData groupFormData
  | ClientsData clientsData
  | ClientFormData clientFormData
  | AuditData auditData
  | KeysData keysData

end
