(* ===== verification/Http.thy ===== *)
theory Http
  imports Pages Passkeys Account UserInfo
begin

text \<open>
  What the handlers of \<open>internal/http\<close> share: a request as \<open>net/http\<close> presents it, the response being
  written, \<open>http.Redirect\<close> and \<open>http.Error\<close>, the page renderer of \<open>templates.go\<close>, and the state the
  services keep between requests. A handler is a function from the environment (the libraries, the
  configuration, the clock and the random values of this request), the request and the state to the
  response and the new state. Log lines and metrics are left out.
\<close>

section \<open>Requests\<close>

text \<open>
  \<open>hq_PostForm\<close> and \<open>hq_PostFormErr\<close> are what \<open>ParseForm\<close> makes of a urlencoded body, \<open>hq_Multipart\<close> the
  values of a multipart one (which only \<open>FormValue\<close> reads). Header names are spelled as in the
  sources. \<open>hq_URLParam\<close> holds the parameters the router took from the path, \<open>hq_RequestURI\<close> is
  \<open>r.URL.RequestURI()\<close>.
\<close>

record request =
  hq_Method :: string
  hq_Path :: string
  hq_RawQuery :: string
  hq_RequestURI :: string
  hq_FormEncoded :: bool
  hq_BodySize :: nat
  hq_PostForm :: url_values
  hq_PostFormErr :: "goerr option"
  hq_Multipart :: url_values
  hq_Header :: "string \<rightharpoonup> string list"
  hq_cookies :: "(string \<times> string) list"
  hq_RemoteAddr :: string
  hq_TLS :: bool
  hq_URLParam :: "string \<rightharpoonup> string"

definition Header_Get :: "request \<Rightarrow> string \<Rightarrow> string" where
  "Header_Get r k = values_Get (hq_Header r) k"

definition URLParam :: "request \<Rightarrow> string \<Rightarrow> string" where
  "URLParam r k = (case hq_URLParam r k of Some v \<Rightarrow> v | None \<Rightarrow> '''')"

definition req_Query :: "request \<Rightarrow> url_values" where
  "req_Query r = fst (ParseQuery (hq_RawQuery r))"

definition has_form_body :: "request \<Rightarrow> bool" where
  "has_form_body r \<longleftrightarrow> hq_Method r \<in> {''POST'', ''PUT'', ''PATCH''}"

definition req_PostForm :: "request \<Rightarrow> url_values" where
  "req_PostForm r = (if has_form_body r then hq_PostForm r else Map.empty)"

definition ParseForm :: "request \<Rightarrow> goerr option" where
  "ParseForm r =
     (case (if has_form_body r then hq_PostFormErr r else None) of
        Some e \<Rightarrow> Some e
      | None \<Rightarrow> snd (ParseQuery (hq_RawQuery r)))"

definition copyValues :: "url_values \<Rightarrow> url_values \<Rightarrow> url_values" where
  "copyValues a b = (\<lambda>k. case b k of None \<Rightarrow> a k | Some vs \<Rightarrow> Some ((case a k of None \<Rightarrow> [] | Some us \<Rightarrow> us) @ vs))"

text \<open>\<open>r.Form\<close> after \<open>ParseForm\<close>, and after the first \<open>FormValue\<close>.\<close>

definition req_Form :: "request \<Rightarrow> url_values" where
  "req_Form r = copyValues (req_PostForm r) (req_Query r)"

definition req_FormAll :: "request \<Rightarrow> url_values" where
  "req_FormAll r = copyValues (req_Form r) (hq_Multipart r)"

definition FormValue :: "request \<Rightarrow> string \<Rightarrow> string" where
  "FormValue r k = values_Get (req_FormAll r) k"

text \<open>\<open>http.MaxBytesReader\<close>: a larger body fails where it is read.\<close>

definition MaxBytesReader :: "nat \<Rightarrow> request \<Rightarrow> request" where
  "MaxBytesReader n r =
     (if hq_BodySize r \<le> n then r
      else if hq_FormEncoded r
      then r\<lparr>hq_PostForm := Map.empty, hq_PostFormErr := Some (Plain ''http: request body too large'')\<rparr>
      else r\<lparr>hq_Multipart := Map.empty\<rparr>)"

text \<open>The parts of a request that the authentication package and the token service read.\<close>

definition to_web :: "request \<Rightarrow> web_request" where
  "to_web r =
     \<lparr>wq_form = req_FormAll r, wq_cookies = hq_cookies r, wq_CSRFHeader = Header_Get r ''X-CSRF-Token'',
      wq_UserAgent = Header_Get r ''User-Agent'', wq_RemoteAddr = hq_RemoteAddr r\<rparr>"

definition to_http :: "request \<Rightarrow> http_request" where
  "to_http r =
     \<lparr>hr_form = (case ParseForm r of Some e \<Rightarrow> Inl e | None \<Rightarrow> Inr (req_FormAll r)),
      hr_Authorization = Header_Get r ''Authorization''\<rparr>"

lemma to_web_simps [simp]:
  "wq_form (to_web r) = req_FormAll r" "wq_cookies (to_web r) = hq_cookies r" "wq_RemoteAddr (to_web r) = hq_RemoteAddr r"
  by (simp_all add: to_web_def)

lemma req_Cookie_to_web: "req_Cookie (to_web r) k = map_option snd (find (\<lambda>c. fst c = k) (hq_cookies r))"
  by (simp add: req_Cookie_def)

section \<open>Responses\<close>

text \<open>
  A body is a page, the argument of a redirect, JSON (encoded from a value of the model, or the
  options a library made), plain text, or nothing; \<open>Panicked\<close> is a handler that dereferences nil, which
  the router's recovery turns into a 500.
\<close>

datatype body =
    NoBody
  | Page string page
  | RedirectTo string
  | Json json_object
  | JsonRaw string
  | Text string
  | Panicked

record response =
  rs_Status :: int
  rs_Cookies :: "cookie list"
  rs_Headers :: "string \<rightharpoonup> string"
  rs_Body :: body

text \<open>The status is 200 until it is set.\<close>

definition NewResponse :: response where
  "NewResponse = \<lparr>rs_Status = 200, rs_Cookies = [], rs_Headers = Map.empty, rs_Body = NoBody\<rparr>"

definition Header_Set :: "string \<Rightarrow> string \<Rightarrow> response \<Rightarrow> response" where
  "Header_Set k v w = w\<lparr>rs_Headers := (rs_Headers w)(k \<mapsto> v)\<rparr>"

definition SetCookies :: "cookie list \<Rightarrow> response \<Rightarrow> response" where
  "SetCookies cks w = w\<lparr>rs_Cookies := rs_Cookies w @ cks\<rparr>"

definition http_Error :: "response \<Rightarrow> string \<Rightarrow> int \<Rightarrow> response" where
  "http_Error w msg code =
     (Header_Set ''X-Content-Type-Options'' ''nosniff'' (Header_Set ''Content-Type'' ''text/plain; charset=utf-8'' w))
       \<lparr>rs_Status := code, rs_Body := Text msg\<rparr>"

text \<open>\<open>Templates.Render\<close>; the templates are embedded and parsed when the server starts.\<close>

definition Render :: "response \<Rightarrow> int \<Rightarrow> string \<Rightarrow> page \<Rightarrow> response" where
  "Render w status name data =
     (Header_Set ''Content-Type'' ''text/html; charset=utf-8'' w)\<lparr>rs_Status := status, rs_Body := Page name data\<rparr>"

definition http_panic :: "response \<Rightarrow> response" where
  "http_panic w = w\<lparr>rs_Status := 500, rs_Body := Panicked\<rparr>"

definition write_json :: "response \<Rightarrow> int \<Rightarrow> json_object \<Rightarrow> response" where
  "write_json w status v = (Header_Set ''Content-Type'' ''application/json'' w)\<lparr>rs_Status := status, rs_Body := Json v\<rparr>"

subsection \<open>Redirects\<close>

text \<open>
  \<open>path.Clean\<close>, on the components between slashes: empty ones and dots go, a dot-dot takes the component before
  it along, and stays only at the start of a relative path. The components are kept last first.
\<close>

definition clean_step :: "bool \<Rightarrow> string list \<Rightarrow> string \<Rightarrow> string list" where
  "clean_step rooted out c =
     (if c = '''' \<or> c = ''.'' then out
      else if c = ''..'' then
        (case out of
           [] \<Rightarrow> if rooted then [] else [''..'']
         | t # ts \<Rightarrow> if t = ''..'' then ''..'' # out else ts)
      else c # out)"

fun join_slash :: "string list \<Rightarrow> string" where
  "join_slash [] = []"
| "join_slash [w] = w"
| "join_slash (w # ws) = w @ CHR ''/'' # join_slash ws"

definition path_Clean :: "string \<Rightarrow> string" where
  "path_Clean p =
     (let rooted = take 1 p = ''/'';
          out = join_slash (rev (foldl (clean_step rooted) [] (Split CHR ''/'' p)))
      in if rooted then CHR ''/'' # out else if out = '''' then ''.'' else out)"

definition path_dir :: "string \<Rightarrow> string" where
  "path_dir p = (case last_index CHR ''/'' p of None \<Rightarrow> '''' | Some i \<Rightarrow> take (Suc i) p)"

definition lowerhex :: string where
  "lowerhex = ''0123456789abcdef''"

definition hexEscapeNonASCII :: "string \<Rightarrow> string" where
  "hexEscapeNonASCII s =
     concat (map (\<lambda>c. if byte c < 128 then [c] else [CHR ''%'', lowerhex ! (byte c div 16), lowerhex ! (byte c mod 16)]) s)"

text \<open>A URL without scheme and host is made absolute and cleaned, with its query kept.\<close>

definition clean_location :: "string \<Rightarrow> string \<Rightarrow> string" where
  "clean_location oldpath url =
     (let url1 = (if take 1 url \<noteq> ''/'' then path_dir (if oldpath = '''' then ''/'' else oldpath) @ url else url);
          p = takeWhile (\<lambda>c. c \<noteq> CHR ''?'') url1;
          q = dropWhile (\<lambda>c. c \<noteq> CHR ''?'') url1;
          p1 = path_Clean p;
          p2 = (if p \<noteq> '''' \<and> last p = CHR ''/'' \<and> \<not> (p1 \<noteq> '''' \<and> last p1 = CHR ''/'') then p1 @ ''/'' else p1)
      in p2 @ q)"

definition redirect_location :: "urllib \<Rightarrow> request \<Rightarrow> string \<Rightarrow> string" where
  "redirect_location U r url =
     hexEscapeNonASCII
       (case ul_Parse U url of
          Inl _ \<Rightarrow> url
        | Inr u \<Rightarrow> if url_Scheme u = '''' \<and> url_Host u = '''' then clean_location (hq_Path r) url else url)"

definition http_Redirect :: "urllib \<Rightarrow> request \<Rightarrow> response \<Rightarrow> string \<Rightarrow> int \<Rightarrow> response" where
  "http_Redirect U r w url code =
     (let w1 = Header_Set ''Location'' (redirect_location U r url) w;
          w2 = (if rs_Headers w ''Content-Type'' = None \<and> hq_Method r \<in> {''GET'', ''HEAD''}
                then Header_Set ''Content-Type'' ''text/html; charset=utf-8'' w1 else w1)
      in w2\<lparr>rs_Status := code, rs_Body := RedirectTo url\<rparr>)"

section \<open>Environment and state\<close>

record env =
  en_P :: platform
  en_J :: jwtlib
  en_U :: urllib
  en_W :: webauthn
  en_mailer :: "message \<Rightarrow> goerr option"
  en_auth :: auth_config
  en_codeTTL :: duration
  en_consents :: bool
  en_tokens :: token_service
  en_userinfo :: userinfo_service
  en_audit :: bool
  en_forgotPasswordURL :: string
  en_postLogout :: bool
  en_account :: "account_service option"
  en_resetTTL :: string
  en_now :: time
  en_rd :: randoms
  en_csrf :: "string res"
  en_codeID :: string
  en_consentID :: string
  en_ent :: entropy
  en_link :: "string res"
  en_totp :: "string res"
  en_qr :: "string \<Rightarrow> string res"

record site =
  si_auth :: auth
  si_keys :: key_service
  si_lastReset :: "string \<rightharpoonup> time"
  si_outbox :: "message list"

abbreviation si_store :: "site \<Rightarrow> fstore" where
  "si_store s \<equiv> au_store (si_auth s)"

definition with_store :: "fstore \<Rightarrow> site \<Rightarrow> site" where
  "with_store st s = s\<lparr>si_auth := (si_auth s)\<lparr>au_store := st\<rparr>\<rparr>"

definition to_sys :: "site \<Rightarrow> sys" where
  "to_sys s = \<lparr>sys_store = si_store s, sys_keys = si_keys s\<rparr>"

definition of_sys :: "sys \<Rightarrow> site \<Rightarrow> site" where
  "of_sys y s = (with_store (sys_store y) s)\<lparr>si_keys := sys_keys y\<rparr>"

definition to_account :: "site \<Rightarrow> account" where
  "to_account s = \<lparr>acc_store = si_store s, acc_lastReset = si_lastReset s, acc_outbox = si_outbox s\<rparr>"

definition of_account :: "account \<Rightarrow> site \<Rightarrow> site" where
  "of_account a s = (with_store (acc_store a) s)\<lparr>si_lastReset := acc_lastReset a, si_outbox := acc_outbox a\<rparr>"

lemma si_store_simps [simp]:
  "si_store (with_store st s) = st" "si_store (of_sys y s) = sys_store y" "si_store (of_account a s) = acc_store a"
  "sys_store (to_sys s) = si_store s" "sys_keys (to_sys s) = si_keys s" "si_keys (with_store st s) = si_keys s"
  "acc_store (to_account s) = si_store s"
  by (simp_all add: with_store_def of_sys_def of_account_def to_sys_def to_account_def)

text \<open>\<open>err.(*idperrors.Error)\<close> looks at the error itself, \<open>errors.As\<close> through what wraps it.\<close>

definition as_Error :: "goerr \<Rightarrow> (errcode \<times> string) option" where
  "as_Error e = (case e of IdpError c m _ \<Rightarrow> Some (c, m) | _ \<Rightarrow> None)"

fun As_RedirectError :: "goerr \<Rightarrow> (string \<times> string) option" where
  "As_RedirectError (RedirectError c d) = Some (c, d)"
| "As_RedirectError (IdpError _ _ (Some e)) = As_RedirectError e"
| "As_RedirectError (IdpError _ _ None) = None"
| "As_RedirectError (Wrapped _ e) = As_RedirectError e"
| "As_RedirectError (Plain _) = None"

fun As_Error :: "goerr \<Rightarrow> (errcode \<times> string) option" where
  "As_Error (IdpError c m _) = Some (c, m)"
| "As_Error (RedirectError _ _) = None"
| "As_Error (Wrapped _ e) = As_Error e"
| "As_Error (Plain _) = None"

text \<open>The message of a structured error, for display.\<close>

definition userMessage :: "goerr \<Rightarrow> string" where
  "userMessage err = (case as_Error err of Some (_, m) \<Rightarrow> m | None \<Rightarrow> error_text err)"

text \<open>A form token: its text and the cookie that carries it; when none can be drawn, nothing.\<close>

definition GenerateToken :: "env \<Rightarrow> response \<Rightarrow> (string \<times> response) res" where
  "GenerateToken E w =
     (case csrf_GenerateToken (en_P E) (en_csrf E) (en_now E) (ac_csrf (en_auth E)) of
        Inl e \<Rightarrow> Inl e
      | Inr (token, ck) \<Rightarrow> Inr (token, SetCookies [ck] w))"

definition GenerateToken_or_empty :: "env \<Rightarrow> response \<Rightarrow> string \<times> response" where
  "GenerateToken_or_empty E w = (case GenerateToken E w of Inl _ \<Rightarrow> ('''', w) | Inr p \<Rightarrow> p)"

definition ValidateToken :: "env \<Rightarrow> request \<Rightarrow> goerr option" where
  "ValidateToken E r = csrf_ValidateToken (en_P E) (en_now E) (ac_csrf (en_auth E)) (to_web r)"

section \<open>Where a path redirects to\<close>

lemma clean_step_set: "set (clean_step True out c) \<subseteq> set out \<union> ({c} - {''''})"
  by (cases out) (auto simp: clean_step_def)

lemma foldl_clean_step: "set (foldl (clean_step True) out cs) \<subseteq> set out \<union> (set cs - {''''})"
proof (induction cs arbitrary: out)
  case (Cons a cs)
  have "set (foldl (clean_step True) out (a # cs)) \<subseteq> set (clean_step True out a) \<union> (set cs - {''''})"
    using Cons [of "clean_step True out a"] by simp
  with clean_step_set [of out a] show ?case by auto
qed simp

lemma Split_no_sep: "w \<in> set (Split c s) \<Longrightarrow> c \<notin> set w \<and> set w \<subseteq> set s"
proof (induction s arbitrary: w)
  case (Cons a s)
  then show ?case by (cases "Split c s") (fastforce split: if_splits)+
qed simp

lemma join_slash_set: "set (join_slash ws) \<subseteq> insert CHR ''/'' (\<Union> (set ` set ws))"
  by (induction ws rule: join_slash.induct) auto

lemma join_slash_first: "\<lbrakk>\<And>w. w \<in> set ws \<Longrightarrow> w \<noteq> [] \<and> CHR ''/'' \<notin> set w\<rbrakk> \<Longrightarrow> take 1 (join_slash ws) \<noteq> ''/''"
proof (induction ws rule: join_slash.induct)
  case (2 w)
  then have "w \<noteq> []" "CHR ''/'' \<notin> set w" by auto
  then show ?case by (cases w) auto
next
  case (3 w v ws)
  then have "w \<noteq> []" "CHR ''/'' \<notin> set w" by auto
  then show ?case by (cases w) auto
qed simp

text \<open>Cleaning a rooted path leaves one slash at its start, and brings in no character.\<close>

lemma path_Clean_rooted:
  assumes "take 1 p = ''/''"
  shows "\<exists>out. path_Clean p = CHR ''/'' # out \<and> take 1 out \<noteq> ''/'' \<and> set out \<subseteq> set p"
proof -
  let ?cs = "foldl (clean_step True) [] (Split CHR ''/'' p)"
  have c: "CHR ''/'' \<notin> set w" "set w \<subseteq> set p" "w \<noteq> []" if "w \<in> set (rev ?cs)" for w
    using that foldl_clean_step [of "[]" "Split CHR ''/'' p"] Split_no_sep [of w "CHR ''/''" p] by auto
  have "take 1 (join_slash (rev ?cs)) \<noteq> ''/''" by (rule join_slash_first) (use c in auto)
  moreover have "CHR ''/'' \<in> set p" using assms by (cases p) auto
  then have "set (join_slash (rev ?cs)) \<subseteq> set p" using join_slash_set [of "rev ?cs"] c(2) by fastforce
  ultimately show ?thesis using assms by (simp add: path_Clean_def)
qed

definition on_origin :: "string \<Rightarrow> bool" where
  "on_origin url \<longleftrightarrow> (\<exists>rest. url = CHR ''/'' # rest \<and> take 1 rest \<noteq> ''/'' \<and> take 1 rest \<noteq> [CHR 0x5C])"

lemma clean_location_on_origin:
  assumes "take 1 url = ''/''" and "CHR 0x5C \<notin> set url"
  shows "on_origin (clean_location old url)" and "set (clean_location old url) \<subseteq> set url"
proof -
  let ?p = "takeWhile (\<lambda>c. c \<noteq> CHR ''?'') url" and ?q = "dropWhile (\<lambda>c. c \<noteq> CHR ''?'') url"
  have p: "take 1 ?p = ''/''" using assms(1) by (cases url) auto
  then obtain out where out: "path_Clean ?p = CHR ''/'' # out" "take 1 out \<noteq> ''/''" "set out \<subseteq> set ?p"
    using path_Clean_rooted by blast
  have s: "set ?p \<subseteq> set url" "set ?q \<subseteq> set url" by (auto dest: set_takeWhileD set_dropWhileD)
  let ?t = "if ?p \<noteq> '''' \<and> last ?p = CHR ''/'' \<and> last (CHR ''/'' # out) \<noteq> CHR ''/'' then ''/'' else ''''"
  obtain t where t: "clean_location old url = CHR ''/'' # out @ t @ ?q" "t = '''' \<or> t = ''/'' \<and> out \<noteq> ''''"
  proof (rule that [of ?t])
    show "clean_location old url = CHR ''/'' # out @ ?t @ ?q"
      using assms(1) out(1) by (simp add: clean_location_def Let_def del: last.simps)
    show "?t = '''' \<or> ?t = ''/'' \<and> out \<noteq> ''''" by (cases "out = ''''") simp_all
  qed
  have bs: "CHR 0x5C \<notin> set out" using out(3) s(1) assms(2) by blast
  have q: "take 1 ?q \<noteq> ''/'' \<and> take 1 ?q \<noteq> [CHR 0x5C]"
  proof (cases ?q)
    case (Cons c cs)
    then have "c = CHR ''?''" using hd_dropWhile [of "\<lambda>c. c \<noteq> CHR ''?''" url] by simp
    with Cons show ?thesis by simp
  next
    case Nil
    show ?thesis unfolding Nil by simp
  qed
  have "take 1 (out @ t @ ?q) \<noteq> ''/'' \<and> take 1 (out @ t @ ?q) \<noteq> [CHR 0x5C]"
    using out(2) bs t(2) q by (cases out) auto
  then show "on_origin (clean_location old url)" using t(1) by (auto simp: on_origin_def)
  have "CHR ''/'' \<in> set url" using assms(1) by (cases url) auto
  then show "set (clean_location old url) \<subseteq> set url" using t out(3) s by auto
qed

end
