(* ===== verification/OidcHandlers.thy ===== *)
theory OidcHandlers
  imports Http
begin

text \<open>
  \<open>internal/http/oidc.go\<close>: the OAuth and OpenID Connect endpoints. The authorization endpoint reads
  the request, the session and the consent and ends in an error page, an error redirect, the login
  page, the consent page or a code; the other endpoints map the errors of the token service to
  the codes and statuses of RFC 6749, 6750, 7009 and 7662.
\<close>

section \<open>Errors\<close>

definition renderAuthError :: "env \<Rightarrow> request \<Rightarrow> response \<Rightarrow> string \<Rightarrow> string \<Rightarrow> string \<Rightarrow> string \<Rightarrow> response" where
  "renderAuthError E r w redirectURI errorDesc errorCode state =
     (if redirectURI \<noteq> '''' then
        (case BuildErrorResponse (en_U E) redirectURI (if errorCode = '''' then ''invalid_request'' else errorCode) errorDesc state of
           None \<Rightarrow> http_panic w
         | Some url \<Rightarrow> http_Redirect (en_U E) r w url 302)
      else Render w 400 ''error''
             (ErrorData \<lparr>ep_Title = ''Authorization Error'', ep_Message = errorDesc, ep_BackURL = '''', ep_BackLabel = ''''\<rparr>))"

definition redirectError :: "env \<Rightarrow> request \<Rightarrow> response \<Rightarrow> authorize_request \<Rightarrow> string \<Rightarrow> string \<Rightarrow> response" where
  "redirectError E r w authReq code desc =
     (case BuildErrorResponse (en_U E) (ar_RedirectURI authReq) code desc (ar_State authReq) of
        None \<Rightarrow> http_panic w
      | Some url \<Rightarrow> http_Redirect (en_U E) r w url 302)"

definition authorizeFailed :: "env \<Rightarrow> request \<Rightarrow> response \<Rightarrow> authorize_request \<Rightarrow> goerr \<Rightarrow> response" where
  "authorizeFailed E r w authReq err =
     (case As_RedirectError err of
        Some (code, desc) \<Rightarrow> redirectError E r w authReq code desc
      | None \<Rightarrow>
          if IsCode err CodeInvalidInput
          then renderAuthError E r w '''' (case as_Error err of Some (_, m) \<Rightarrow> m | None \<Rightarrow> ''invalid request'') '''' ''''
          else Render w 500 ''error''
                 (ErrorData \<lparr>ep_Title = ''Authorization Error'', ep_Message = ''internal error'', ep_BackURL = '''', ep_BackLabel = ''''\<rparr>))"

section \<open>The authorization endpoint\<close>

definition issueCode ::
    "env \<Rightarrow> request \<Rightarrow> response \<Rightarrow> authorize_request \<Rightarrow> string \<Rightarrow> time \<Rightarrow> string list \<Rightarrow> site \<Rightarrow> response \<times> site" where
  "issueCode E r w authReq userID authTime amr s =
     (case CreateAuthCode (en_codeID E) (en_now E) (en_codeTTL E) authReq userID authTime amr (si_store s) of
        (Inl _, st) \<Rightarrow>
          ((case BuildErrorResponse (en_U E) (ar_RedirectURI authReq) ''server_error'' ''failed to create authorization code''
                   (ar_State authReq) of
              None \<Rightarrow> http_panic w
            | Some url \<Rightarrow> http_Redirect (en_U E) r w url 302), with_store st s)
      | (Inr authCode, st) \<Rightarrow>
          ((case BuildAuthorizationResponse (en_U E) (ar_RedirectURI authReq) (code_Code authCode) (ar_State authReq) of
              None \<Rightarrow> http_panic w
            | Some url \<Rightarrow> http_Redirect (en_U E) r w url 302), with_store st s))"

definition renderConsent ::
    "env \<Rightarrow> response \<Rightarrow> authorize_request \<Rightarrow> string \<Rightarrow> client \<Rightarrow> string \<Rightarrow> response" where
  "renderConsent E w authReq authorizeQuery client userEmail =
     (case GenerateToken E w of
        Inl _ \<Rightarrow> http_Error w ''Internal Server Error'' 500
      | Inr (csrfToken, w1) \<Rightarrow>
          Render w1 200 ''consent''
            (ConsentData \<lparr>cp_CSRFToken = csrfToken, cp_AuthorizeQuery = authorizeQuery, cp_ClientID = client_ID client,
               cp_ClientName = (if client_Name client = '''' then client_ID client else client_Name client),
               cp_UserEmail = userEmail,
               cp_Scopes = map (\<lambda>sc. \<lparr>sc_Name = sc, sc_Description = ScopeDescription sc\<rparr>) (Scopes authReq)\<rparr>))"

text \<open>The request as a GET URL, without the prompt values (and then the parameters) that would loop.\<close>

definition values_Del :: "url_values \<Rightarrow> string \<Rightarrow> url_values" where
  "values_Del q k = q(k := None)"

definition withoutPrompt :: "string \<Rightarrow> string \<Rightarrow> string list \<Rightarrow> string" where
  "withoutPrompt upath rawQuery drops =
     (let q = fst (ParseQuery rawQuery);
          kept = filter (\<lambda>p. p \<notin> set drops) (Fields (values_Get q ''prompt''));
          q1 = (if length kept = 0 then values_Del q ''prompt'' else values_Set q ''prompt'' (join_spaces kept))
      in upath @ ''?'' @ values_Encode q1)"

definition withoutParams :: "urllib \<Rightarrow> string \<Rightarrow> string list \<Rightarrow> string" where
  "withoutParams U pathAndQuery names =
     (case ul_Parse U pathAndQuery of
        Inl _ \<Rightarrow> pathAndQuery
      | Inr u \<Rightarrow> url_Path u @ ''?'' @ values_Encode (foldl values_Del (url_Query u) names))"

definition authorize_login_url :: "env \<Rightarrow> request \<Rightarrow> url_values \<Rightarrow> string" where
  "authorize_login_url E r params =
     ''/login?return_url='' @
       QueryEscape (withoutParams (en_U E) (withoutPrompt (hq_Path r) (values_Encode params) [''login'', ''select_account'']) [''max_age''])"

text \<open>From the consent check on: the user is signed in, and recently enough.\<close>

definition authorize_signed_in ::
    "env \<Rightarrow> request \<Rightarrow> response \<Rightarrow> url_values \<Rightarrow> authorize_request \<Rightarrow> client \<Rightarrow> session \<Rightarrow> user \<Rightarrow> site \<Rightarrow> response \<times> site" where
  "authorize_signed_in E r w params authReq client session user s =
     (let go = issueCode E r w authReq (user_ID user) (session_CreatedAt session) (session_AMR session) s
      in if en_consents E then
           (case IsGranted (user_ID user) client (Scopes authReq) (si_store s) of
              Inl _ \<Rightarrow> (redirectError E r w authReq ''server_error'' ''failed to check consent'', s)
            | Inr granted \<Rightarrow>
                if \<not> granted \<or> HasPrompt authReq ''consent'' then
                  (if HasPrompt authReq ''none''
                   then (redirectError E r w authReq ''consent_required'' ''user consent is required'', s)
                   else (renderConsent E w authReq (values_Encode params) client (user_Email user), s))
                else go)
         else go)"

definition oidc_Authorize :: "env \<Rightarrow> request \<Rightarrow> site \<Rightarrow> response \<times> site" where
  "oidc_Authorize E r s =
     (let w = NewResponse; post = (hq_Method r = ''POST'');
          params = (if post then req_PostForm r else req_Query r)
      in if post \<and> ParseForm r \<noteq> None then (renderAuthError E r w '''' ''invalid form data'' '''' '''', s)
         else case ParseAuthorizeQuery params of
           Inl err \<Rightarrow> (renderAuthError E r w '''' (error_text err) '''' '''', s)
         | Inr authReq0 \<Rightarrow>
             (case ValidateClient authReq0 (si_store s) of
                (Inl err, authReq) \<Rightarrow> (authorizeFailed E r w authReq err, s)
              | (Inr client, authReq) \<Rightarrow>
                  (case CurrentSession (en_now E) (to_web r) (si_auth s) of
                     (Inl _, au) \<Rightarrow>
                       (let s1 = s\<lparr>si_auth := au\<rparr>
                        in if HasPrompt authReq ''none''
                           then (redirectError E r w authReq ''login_required'' ''user is not authenticated'', s1)
                           else (http_Redirect (en_U E) r w (authorize_login_url E r params) 302, s1))
                   | (Inr (session, user), au) \<Rightarrow>
                       (let s1 = s\<lparr>si_auth := au\<rparr>
                        in if RequiresFreshLogin (en_now E) authReq (session_CreatedAt session) then
                             (if HasPrompt authReq ''none''
                              then (redirectError E r w authReq ''login_required'' ''user is not authenticated'', s1)
                              else (case Logout (en_auth E) (en_rd E) (en_now E) (to_web r) au of
                                      (cks, au1) \<Rightarrow>
                                        (http_Redirect (en_U E) r (SetCookies cks w) (authorize_login_url E r params) 302,
                                         s1\<lparr>si_auth := au1\<rparr>)))
                           else authorize_signed_in E r w params authReq client session user s1))))"

text \<open>The audit event of a consent decision.\<close>

definition consent_audit :: "env \<Rightarrow> request \<Rightarrow> user \<Rightarrow> string \<Rightarrow> string \<Rightarrow> string \<Rightarrow> site \<Rightarrow> site" where
  "consent_audit E r user action clientID scope s =
     with_store (Record (rd_uuid (en_rd E)) (en_now E) (en_audit E)
       \<lparr>ae_Actor = Some user, ae_ActorEmail = '''', ae_Action = action, ae_TargetType = ''client'', ae_TargetID = clientID,
        ae_Detail = scope, ae_IP = ClientIP (Some (hq_RemoteAddr r))\<rparr> (si_store s)) s"

definition consent_allowed ::
    "env \<Rightarrow> request \<Rightarrow> response \<Rightarrow> authorize_request \<Rightarrow> client \<Rightarrow> session \<Rightarrow> user \<Rightarrow> site \<Rightarrow> response \<times> site" where
  "consent_allowed E r w authReq client session user s =
     (case (if en_consents E
            then Grant (en_consentID E) (en_now E) (user_ID user) (client_ID client) (Scopes authReq) (si_store s)
            else (None, si_store s)) of
        (Some _, st) \<Rightarrow> (redirectError E r w authReq ''server_error'' ''failed to record consent'', with_store st s)
      | (None, st) \<Rightarrow>
          issueCode E r w authReq (user_ID user) (session_CreatedAt session) (session_AMR session)
            (consent_audit E r user ''consent.granted'' (client_ID client) (ar_Scope authReq) (with_store st s)))"

definition oidc_Consent :: "env \<Rightarrow> request \<Rightarrow> site \<Rightarrow> response \<times> site" where
  "oidc_Consent E r s =
     (let w = NewResponse
      in if ParseForm r \<noteq> None then (renderAuthError E r w '''' ''invalid form data'' '''' '''', s)
         else if ValidateToken E r \<noteq> None
         then (renderAuthError E r w '''' ''invalid or expired form, please try again'' '''' '''', s)
         else case ParseQuery (FormValue r ''authorize_query'') of
           (_, Some _) \<Rightarrow> (renderAuthError E r w '''' ''invalid authorization request'' '''' '''', s)
         | (query, None) \<Rightarrow>
             (case ParseAuthorizeQuery query of
                Inl err \<Rightarrow> (renderAuthError E r w '''' (error_text err) '''' '''', s)
              | Inr authReq0 \<Rightarrow>
                  (case ValidateClient authReq0 (si_store s) of
                     (Inl err, authReq) \<Rightarrow> (authorizeFailed E r w authReq err, s)
                   | (Inr client, authReq) \<Rightarrow>
                       (case CurrentSession (en_now E) (to_web r) (si_auth s) of
                          (Inl _, au) \<Rightarrow>
                            (http_Redirect (en_U E) r w (''/login?return_url='' @ QueryEscape (''/authorize?'' @ values_Encode query)) 302,
                             s\<lparr>si_auth := au\<rparr>)
                        | (Inr (session, user), au) \<Rightarrow>
                            (let s1 = s\<lparr>si_auth := au\<rparr>
                             in if ar_MaxAge authReq \<ge> 0 \<and> RequiresFreshLogin (en_now E) authReq (session_CreatedAt session)
                                then (http_Redirect (en_U E) r w (''/authorize?'' @ values_Encode query) 302, s1)
                                else if FormValue r ''action'' \<noteq> ''allow''
                                then (redirectError E r w authReq ''access_denied'' ''user denied the request'',
                                      consent_audit E r user ''consent.denied'' (client_ID client) (ar_Scope authReq) s1)
                                else consent_allowed E r w authReq client session user s1)))))"

section \<open>The token endpoint\<close>

definition no_store :: "response \<Rightarrow> response" where
  "no_store w = Header_Set ''Pragma'' ''no-cache'' (Header_Set ''Cache-Control'' ''no-store'' w)"

definition writeTokenError :: "response \<Rightarrow> string \<Rightarrow> string \<Rightarrow> int \<Rightarrow> response" where
  "writeTokenError w errorCode errorDesc status =
     write_json (no_store w) status [''error'' \<mapsto> JString errorCode, ''error_description'' \<mapsto> JString errorDesc]"

definition token_response_JSON :: "token_response \<Rightarrow> json_object" where
  "token_response_JSON t = (\<lambda>k.
     if k = ''access_token'' then Some (JString (tr_AccessToken t))
     else if k = ''token_type'' then Some (JString (tr_TokenType t))
     else if k = ''expires_in'' then Some (JNum (tr_ExpiresIn t))
     else if k = ''refresh_token'' then opt_string (tr_RefreshToken t)
     else if k = ''id_token'' then opt_string (tr_IDToken t)
     else if k = ''scope'' then opt_string (tr_Scope t)
     else None)"

definition opt_num :: "int \<Rightarrow> json option" where
  "opt_num n = (if n = 0 then None else Some (JNum n))"

definition introspection_JSON :: "introspection_response \<Rightarrow> json_object" where
  "introspection_JSON i = (\<lambda>k.
     if k = ''active'' then Some (JBool (ir_Active i))
     else if k = ''scope'' then opt_string (ir_Scope i)
     else if k = ''client_id'' then opt_string (ir_ClientID i)
     else if k = ''username'' then opt_string (ir_Username i)
     else if k = ''token_type'' then opt_string (ir_TokenType i)
     else if k = ''exp'' then opt_num (ir_Exp i)
     else if k = ''iat'' then opt_num (ir_Iat i)
     else if k = ''sub'' then opt_string (ir_Sub i)
     else if k = ''aud'' then opt_string (ir_Aud i)
     else if k = ''iss'' then opt_string (ir_Iss i)
     else None)"

definition token_error_code :: "goerr \<Rightarrow> string \<times> int" where
  "token_error_code err =
     (if IsCode err CodeUnauthorized then (''invalid_client'', 401)
      else if IsCode err CodeInvalidGrant then (''invalid_grant'', 400)
      else if IsCode err CodeInvalidScope then (''invalid_scope'', 400)
      else if IsCode err CodeUnauthorizedClient then (''unauthorized_client'', 400)
      else (''invalid_request'', 400))"

definition token_grant :: "env \<Rightarrow> token_request \<Rightarrow> sys \<Rightarrow> (token_response res \<times> sys) option" where
  "token_grant E tokenReq y =
     (if rq_GrantType tokenReq = ''authorization_code''
      then Some (HandleAuthorizationCode (en_P E) (en_J E) (en_ent E) (en_now E) (en_tokens E) tokenReq y)
      else if rq_GrantType tokenReq = ''refresh_token''
      then Some (HandleRefreshToken (en_P E) (en_J E) (en_ent E) (en_now E) (en_tokens E) tokenReq y)
      else None)"

definition oidc_Token :: "env \<Rightarrow> request \<Rightarrow> site \<Rightarrow> response \<times> site" where
  "oidc_Token E r s =
     (let w = NewResponse
      in if hq_Method r \<noteq> ''POST'' then (writeTokenError w ''invalid_request'' ''method must be POST'' 405, s)
         else case ParseTokenRequest (to_http r) of
           Inl err \<Rightarrow> (writeTokenError w ''invalid_request'' (error_text err) 400, s)
         | Inr tokenReq \<Rightarrow>
             (case token_grant E tokenReq (to_sys s) of
                None \<Rightarrow> (writeTokenError w ''unsupported_grant_type'' ''grant_type not supported'' 400, s)
              | Some (Inl err, y) \<Rightarrow>
                  (case token_error_code err of (errorCode, status) \<Rightarrow>
                     (writeTokenError w errorCode (case as_Error err of Some (_, m) \<Rightarrow> m | None \<Rightarrow> ''request failed'') status, of_sys y s))
              | Some (Inr response, y) \<Rightarrow> (write_json (no_store w) 200 (token_response_JSON response), of_sys y s)))"

section \<open>Userinfo, revocation, introspection\<close>

text \<open>The bearer token of a request: from the header, else from a form body.\<close>

definition bearer_token :: "request \<Rightarrow> string res" where
  "bearer_token r =
     (let header = Header_Get r ''Authorization'';
          token = ExtractBearerToken header
      in if isl token \<and> header = '''' \<and> hq_Method r = ''POST''
            \<and> HasPrefix (Header_Get r ''Content-Type'') ''application/x-www-form-urlencoded''
            \<and> ParseForm r = None \<and> values_Get (req_PostForm r) ''access_token'' \<noteq> ''''
         then Inr (values_Get (req_PostForm r) ''access_token'')
         else token)"

definition quoted_json :: "string \<Rightarrow> string" where
  "quoted_json s = CHR 0x22 # s @ [CHR 0x22]"

definition oidc_UserInfo :: "env \<Rightarrow> request \<Rightarrow> site \<Rightarrow> response" where
  "oidc_UserInfo E r s =
     (let w = NewResponse; invalid = ''Bearer error='' @ quoted_json ''invalid_token''
      in if hq_Method r \<noteq> ''GET'' \<and> hq_Method r \<noteq> ''POST'' then http_Error w ''Method Not Allowed'' 405
         else case bearer_token r of
           Inl _ \<Rightarrow>
             http_Error (Header_Set ''WWW-Authenticate'' (if Header_Get r ''Authorization'' = '''' then ''Bearer'' else invalid) w)
               ''Unauthorized'' 401
         | Inr token \<Rightarrow>
             (case GetUserInfo (en_P E) (en_J E) (en_now E) (en_userinfo E) token (si_store s) (si_keys s) of
                Inl _ \<Rightarrow> http_Error (Header_Set ''WWW-Authenticate'' invalid w) ''Unauthorized'' 401
              | Inr userInfo \<Rightarrow> write_json w 200 (userinfo_MarshalJSON userInfo)))"

definition oidc_Revoke :: "env \<Rightarrow> request \<Rightarrow> site \<Rightarrow> response \<times> site" where
  "oidc_Revoke E r s =
     (let w = NewResponse
      in if hq_Method r \<noteq> ''POST'' then (writeTokenError w ''invalid_request'' ''method must be POST'' 405, s)
         else case ParseRevocationRequest (to_http r) of
           Inl err \<Rightarrow> (writeTokenError w ''invalid_request'' (error_text err) 400, s)
         | Inr req \<Rightarrow>
             (case HandleRevocation (en_P E) (en_J E) (ent_salt (en_ent E)) (en_now E) (en_tokens E) req (to_sys s) of
                (e, y) \<Rightarrow>
                  ((case e of
                      Some err \<Rightarrow>
                        if IsCode err CodeUnauthorized
                        then writeTokenError w ''invalid_client'' ''invalid client credentials'' 401
                        else (no_store w)\<lparr>rs_Status := 200\<rparr>
                    | None \<Rightarrow> (no_store w)\<lparr>rs_Status := 200\<rparr>), of_sys y s)))"

text \<open>The service's error for a token without time claims is the panic of the nil dereference.\<close>

definition oidc_Introspect :: "env \<Rightarrow> request \<Rightarrow> site \<Rightarrow> response \<times> site" where
  "oidc_Introspect E r s =
     (let w = NewResponse
      in if hq_Method r \<noteq> ''POST'' then (writeTokenError w ''invalid_request'' ''method must be POST'' 405, s)
         else case ParseIntrospectionRequest (to_http r) of
           Inl err \<Rightarrow> (writeTokenError w ''invalid_request'' (error_text err) 400, s)
         | Inr req \<Rightarrow>
             (case HandleIntrospection (en_P E) (en_J E) (ent_salt (en_ent E)) (en_now E) (en_tokens E) req (to_sys s) of
                (Inl err, y) \<Rightarrow>
                  ((if err = Plain ''panic: nil NumericDate'' then http_panic w
                    else if IsCode err CodeUnauthorized
                    then writeTokenError w ''invalid_client'' ''client authentication required'' 401
                    else writeTokenError w ''server_error'' ''introspection failed'' 500), of_sys y s)
              | (Inr response, y) \<Rightarrow> (write_json (no_store w) 200 (introspection_JSON response), of_sys y s)))"

section \<open>What it takes to get a code\<close>

lemma CurrentSession_Inr:
  assumes "CurrentSession now r au = (Inr (session, user), au')"
  shows "au' = au" and "req_Cookie r SessionCookieName = Some (session_ID session)" and "session \<in> set (sessions_of (au_store au))"
    and "now \<le> session_ExpiresAt session" and "users_GetByID (session_UserID session) (au_store au) = Inr user" and "user_Active user"
  using assms
  by (auto simp: CurrentSession_def GetSessionFromRequest_def dest!: GetSession_Inr split: option.splits prod.splits sum.splits if_splits)

lemma CurrentSession_Inl:
  assumes "CurrentSession now r au = (Inl e, au')"
  shows "\<exists>v. au' = au\<lparr>au_store := (au_store au)\<lparr>f_sessions := v\<rparr>\<rparr>"
proof -
  have "\<exists>v. snd (GetSessionFromRequest now r (au_store au)) = (au_store au)\<lparr>f_sessions := v\<rparr>"
    using sessions_frames(2)
    by (auto simp: GetSessionFromRequest_def GetSession_def intro: exI [of _ "f_sessions (au_store au)"] split: option.split sum.split)
  then obtain res v where v: "GetSessionFromRequest now r (au_store au) = (res, (au_store au)\<lparr>f_sessions := v\<rparr>)"
    by (metis prod.collapse)
  show ?thesis using assms
    by (intro exI [of _ v]) (auto simp: CurrentSession_def v split: sum.splits)
qed

text \<open>A sign-out touches the sessions and the audit log.\<close>

lemma Logout_frame: "\<exists>v a. snd (Logout cfg rd now r au) = au\<lparr>au_store := (au_store au)\<lparr>f_sessions := v, f_audit_events := a\<rparr>\<rparr>"
proof -
  let ?st = "au_store au"
  have g: "\<exists>v. snd (GetCurrentUser now r au) = au\<lparr>au_store := ?st\<lparr>f_sessions := v\<rparr>\<rparr>"
  proof -
    have "\<exists>v. snd (GetSessionFromRequest now r ?st) = ?st\<lparr>f_sessions := v\<rparr>"
      using sessions_frames(2)
      by (auto simp: GetSessionFromRequest_def GetSession_def intro: exI [of _ "f_sessions ?st"] split: option.split sum.split)
    then obtain res v where "GetSessionFromRequest now r ?st = (res, ?st\<lparr>f_sessions := v\<rparr>)" by (metis prod.collapse)
    then show ?thesis by (intro exI [of _ v]) (auto simp: GetCurrentUser_def split: sum.split)
  qed
  have rec: "\<exists>a. audit_user cfg rd now r u e act tid d x = x\<lparr>au_store := (au_store x)\<lparr>f_audit_events := a\<rparr>\<rparr>" for u e act tid d x
    using Record_frame by (simp add: audit_user_def) (metis auth.surjective auth.update_convs(1))
  let ?au1 = "if ac_audit cfg then
      (case GetCurrentUser now r au of
         (Inr user, au1) \<Rightarrow> audit_user cfg rd now r (Some user) '''' ''logout'' (user_ID user) '''' au1 | (Inl _, au1) \<Rightarrow> au1) else au"
  obtain v a where au1: "?au1 = au\<lparr>au_store := ?st\<lparr>f_sessions := v, f_audit_events := a\<rparr>\<rparr>"
  proof (cases "ac_audit cfg")
    case True
    obtain res v where v: "GetCurrentUser now r au = (res, au\<lparr>au_store := ?st\<lparr>f_sessions := v\<rparr>\<rparr>)" using g by (metis prod.collapse)
    show ?thesis
    proof (cases res)
      case (Inl e)
      with True v show ?thesis by (intro that [of "f_audit_events ?st" v]) simp
    next
      case (Inr user)
      obtain a where "audit_user cfg rd now r (Some user) '''' ''logout'' (user_ID user) '''' (au\<lparr>au_store := ?st\<lparr>f_sessions := v\<rparr>\<rparr>)
          = au\<lparr>au_store := ?st\<lparr>f_sessions := v, f_audit_events := a\<rparr>\<rparr>"
        using rec [of "Some user" "''''" "''logout''" "user_ID user" "''''" "au\<lparr>au_store := ?st\<lparr>f_sessions := v\<rparr>\<rparr>"] by auto
      with True v Inr show ?thesis by (intro that [of a v]) simp
    qed
  next
    case False
    then show ?thesis by (intro that [of "f_audit_events ?st" "f_sessions ?st"]) simp
  qed
  show ?thesis
  proof (cases "req_Cookie r SessionCookieName")
    case None
    then show ?thesis by (intro exI [of _ "f_sessions ?st"] exI [of _ "f_audit_events ?st"]) (simp add: Logout_def)
  next
    case (Some tok)
    show ?thesis
    proof (cases "tok = ''''")
      case True
      with Some show ?thesis by (intro exI [of _ "f_sessions ?st"] exI [of _ "f_audit_events ?st"]) (simp add: Logout_def)
    next
      case False
      obtain v' where "snd (sessions_Delete tok (?st\<lparr>f_sessions := v, f_audit_events := a\<rparr>)) = ?st\<lparr>f_sessions := v, f_audit_events := a, f_sessions := v'\<rparr>"
        using sessions_frames(2) [of tok "?st\<lparr>f_sessions := v, f_audit_events := a\<rparr>"] by blast
      moreover have "?st\<lparr>f_sessions := v, f_audit_events := a, f_sessions := v'\<rparr> = ?st\<lparr>f_sessions := v', f_audit_events := a\<rparr>"
        by (cases ?st) simp
      ultimately have "snd (sessions_Delete tok (?st\<lparr>f_sessions := v, f_audit_events := a\<rparr>)) = ?st\<lparr>f_sessions := v', f_audit_events := a\<rparr>"
        by (rule trans)
      with Some False show ?thesis
        by (intro exI [of _ v'] exI [of _ a]) (simp add: Logout_def DeleteSession_def Let_def au1)
    qed
  qed
qed

definition issued_code :: "env \<Rightarrow> authorize_request \<Rightarrow> string \<Rightarrow> time \<Rightarrow> string list \<Rightarrow> auth_code" where
  "issued_code E req userID authTime amr =
     \<lparr>code_Code = en_codeID E, code_ClientID = ar_ClientID req, code_UserID = userID, code_RedirectURI = ar_RedirectURI req,
      code_Scope = ar_Scope req, code_CodeChallenge = ar_CodeChallenge req, code_CodeChallengeMethod = ar_CodeChallengeMethod req,
      code_Nonce = ar_Nonce req, code_AuthTime = authTime, code_AMR = amr, code_CreatedAt = en_now E,
      code_ExpiresAt = en_now E + en_codeTTL E, code_Used = False\<rparr>"

lemma issueCode_new:
  assumes "issueCode E r w req u at amr s = (w', s')" and "f_auth_codes (si_store s') \<noteq> f_auth_codes (si_store s)"
  shows "si_store s' = (si_store s)\<lparr>f_auth_codes := Content (codes_of (si_store s) @ [issued_code E req u at amr])\<rparr>"
  using assms
  by (auto simp: issueCode_def CreateAuthCode_def codes_Create_def save_auth_codes_def writeFile_def Let_def of_load issued_code_def
      split: sum.splits option.splits prod.splits)

text \<open>The grounds on which a code is issued for the parameters \<open>q\<close>.\<close>

definition code_grounds :: "env \<Rightarrow> request \<Rightarrow> url_values \<Rightarrow> fstore \<Rightarrow> authorize_request \<Rightarrow> client \<Rightarrow> session \<Rightarrow> user \<Rightarrow> bool" where
  "code_grounds E r q st req client session user \<longleftrightarrow>
     (\<exists>req0. ParseAuthorizeQuery q = Inr req0 \<and> parse_max_age req0 = Inr req)
     \<and> client \<in> set (clients_of st) \<and> client_ID client = ar_ClientID req
     \<and> ar_RedirectURI req \<in> set (client_RedirectURIs client) \<and> set (Scopes req) \<subseteq> set (client_Scopes client)
     \<and> (client_Public client \<longrightarrow> ar_CodeChallenge req \<noteq> '''')
     \<and> req_Cookie (to_web r) SessionCookieName = Some (session_ID session) \<and> session \<in> set (sessions_of st)
     \<and> en_now E \<le> session_ExpiresAt session
     \<and> user \<in> set (users_of st) \<and> user_ID user = session_UserID session \<and> user_Active user"

lemma code_grounds_intro:
  assumes "ParseAuthorizeQuery q = Inr req0" and "ValidateClient req0 (si_store s) = (Inr client, req)"
    and "CurrentSession (en_now E) (to_web r) (si_auth s) = (Inr (session, user), au)"
  shows "code_grounds E r q (si_store s) req client session user" and "client_ID client = ar_ClientID req0"
proof -
  note v = ValidateClient_Inr [OF assms(2)] and c = CurrentSession_Inr [OF assms(3)]
  have req: "ar_ClientID req = ar_ClientID req0" "ar_RedirectURI req = ar_RedirectURI req0" "Scopes req = Scopes req0"
    "ar_CodeChallenge req = ar_CodeChallenge req0"
    using parse_max_age_Inr [OF v(7)] by (auto simp: Scopes_def)
  show "code_grounds E r q (si_store s) req client session user"
    unfolding code_grounds_def
    using assms(1) v c req clients_GetByID_D [OF v(1)] users_GetByID_D [OF c(5)] by (auto simp: validate_rest_None)
  show "client_ID client = ar_ClientID req0" using clients_GetByID_D [OF v(1)] by simp
qed

text \<open>The consent the code rests on, where the server asks for consent at all.\<close>

definition consent_given :: "env \<Rightarrow> authorize_request \<Rightarrow> client \<Rightarrow> user \<Rightarrow> fstore \<Rightarrow> bool" where
  "consent_given E req client user st \<longleftrightarrow>
     \<not> en_consents E \<or> client_SkipConsent client \<or> set (Scopes req) \<subseteq> granted_scopes st (user_ID user) (client_ID client)"

lemma authorize_signed_in_new:
  assumes "authorize_signed_in E r w q req client session user s = (w', s')"
    and "f_auth_codes (si_store s') \<noteq> f_auth_codes (si_store s)"
  shows "consent_given E req client user (si_store s)"
    and "si_store s' = (si_store s)\<lparr>f_auth_codes := Content (codes_of (si_store s)
           @ [issued_code E req (user_ID user) (session_CreatedAt session) (session_AMR session)])\<rparr>"
proof -
  have i: "issueCode E r w req (user_ID user) (session_CreatedAt session) (session_AMR session) s = (w', s')
      \<and> (en_consents E \<longrightarrow> IsGranted (user_ID user) client (Scopes req) (si_store s) = Inr True)"
    using assms by (auto simp: authorize_signed_in_def Let_def split: if_splits sum.splits)
  then show "consent_given E req client user (si_store s)"
    by (auto simp: consent_given_def dest!: IsGranted_iff)
  show "si_store s' = (si_store s)\<lparr>f_auth_codes := Content (codes_of (si_store s)
           @ [issued_code E req (user_ID user) (session_CreatedAt session) (session_AMR session)])\<rparr>"
    using issueCode_new [OF conjunct1 [OF i] assms(2)] .
qed

lemma oidc_Authorize_new:
  assumes "oidc_Authorize E r s = (w, s')" and "f_auth_codes (si_store s') \<noteq> f_auth_codes (si_store s)"
  shows "\<exists>req client session user. code_grounds E r (if hq_Method r = ''POST'' then req_PostForm r else req_Query r) (si_store s) req client session user
    \<and> \<not> RequiresFreshLogin (en_now E) req (session_CreatedAt session)
    \<and> consent_given E req client user (si_store s)
    \<and> si_store s' = (si_store s)\<lparr>f_auth_codes := Content (codes_of (si_store s)
           @ [issued_code E req (user_ID user) (session_CreatedAt session) (session_AMR session)])\<rparr>"
proof -
  let ?q = "if hq_Method r = ''POST'' then req_PostForm r else req_Query r"
  obtain req0 req client where p: "ParseAuthorizeQuery ?q = Inr req0" "ValidateClient req0 (si_store s) = (Inr client, req)"
    using assms by (auto simp: oidc_Authorize_def Let_def split: if_splits sum.splits prod.splits)
  obtain cur au where c: "CurrentSession (en_now E) (to_web r) (si_auth s) = (cur, au)" by fastforce
  show ?thesis
  proof (cases cur)
    case (Inl e)
    then obtain v where "au = (si_auth s)\<lparr>au_store := (si_store s)\<lparr>f_sessions := v\<rparr>\<rparr>" using CurrentSession_Inl c by blast
    then show ?thesis using assms p c Inl by (auto simp: oidc_Authorize_def Let_def split: if_splits)
  next
    case (Inr su)
    obtain session user where su: "su = (session, user)" by fastforce
    note cs = c [unfolded Inr su]
    have au: "au = si_auth s" using CurrentSession_Inr(1) [OF cs] .
    obtain cks lau where l: "Logout (en_auth E) (en_rd E) (en_now E) (to_web r) au = (cks, lau)" by fastforce
    have "f_auth_codes (au_store lau) = f_auth_codes (si_store s)"
      using Logout_frame [of "en_auth E" "en_rd E" "en_now E" "to_web r" au] l au by auto
    then have f: "\<not> RequiresFreshLogin (en_now E) req (session_CreatedAt session)"
      and a: "authorize_signed_in E r NewResponse ?q req client session user s = (w, s')"
      using assms p cs l au by (auto simp: oidc_Authorize_def Let_def split: if_splits)
    show ?thesis
      by (rule exI [of _ req], rule exI [of _ client], rule exI [of _ session], rule exI [of _ user], intro conjI)
         (rule code_grounds_intro(1) [OF p cs] f authorize_signed_in_new [OF a assms(2)])+
  qed
qed

lemma Grant_frame: "\<exists>v. snd (Grant uuid now u c scopes st) = st\<lparr>f_consents := v\<rparr>"
proof -
  have "\<exists>v. snd (consents_Upsert uuid now x st) = st\<lparr>f_consents := v\<rparr>" for x
    by (auto simp: consents_Upsert_def save_consents_def writeFile_def Let_def intro: exI [of _ "f_consents st"]
        split: sum.split option.split)
  then show ?thesis by (auto simp: Grant_def intro: exI [of _ "f_consents st"] split: sum.split)
qed

lemma consent_audit_frame: "\<exists>v. si_store (consent_audit E r u act c sc s) = (si_store s)\<lparr>f_audit_events := v\<rparr>"
  using Record_frame by (simp add: consent_audit_def)

lemma consent_allowed_new:
  assumes "consent_allowed E r w req client session user s = (w', s')"
    and "f_auth_codes (si_store s') \<noteq> f_auth_codes (si_store s)"
  shows "granted_scopes (si_store s') u k = granted_scopes (si_store s) u k
        \<union> (if en_consents E \<and> u = user_ID user \<and> k = client_ID client then set (Scopes req) else {})"
    and "\<exists>cs ev. si_store s' = (si_store s)\<lparr>f_consents := cs, f_audit_events := ev, f_auth_codes := Content (codes_of (si_store s)
           @ [issued_code E req (user_ID user) (session_CreatedAt session) (session_AMR session)])\<rparr>"
proof -
  let ?g = "if en_consents E
            then Grant (en_consentID E) (en_now E) (user_ID user) (client_ID client) (Scopes req) (si_store s) else (None, si_store s)"
  obtain e v where g: "?g = (e, (si_store s)\<lparr>f_consents := v\<rparr>)"
  proof (cases "en_consents E")
    case True
    with Grant_frame [of "en_consentID E" "en_now E" "user_ID user" "client_ID client" "Scopes req" "si_store s"] show ?thesis
      by (auto intro: that simp: prod_eq_iff)
  next
    case False
    then show ?thesis by (intro that [of None "f_consents (si_store s)"]) simp
  qed
  have e: "e = None" using assms g by (auto simp: consent_allowed_def split: option.splits)
  let ?s1 = "consent_audit E r user ''consent.granted'' (client_ID client) (ar_Scope req) (with_store ((si_store s)\<lparr>f_consents := v\<rparr>) s)"
  obtain a where a: "si_store ?s1 = (si_store s)\<lparr>f_consents := v, f_audit_events := a\<rparr>"
    using consent_audit_frame [of E r user "''consent.granted''" "client_ID client" "ar_Scope req" "with_store ((si_store s)\<lparr>f_consents := v\<rparr>) s"]
    by auto
  have i: "issueCode E r w req (user_ID user) (session_CreatedAt session) (session_AMR session) ?s1 = (w', s')"
    using assms(1) g e by (simp add: consent_allowed_def)
  have s': "si_store s' = (si_store ?s1)\<lparr>f_auth_codes := Content (codes_of (si_store ?s1)
           @ [issued_code E req (user_ID user) (session_CreatedAt session) (session_AMR session)])\<rparr>"
    by (rule issueCode_new [OF i]) (use assms(2) a in simp)
  show "\<exists>cs ev. si_store s' = (si_store s)\<lparr>f_consents := cs, f_audit_events := ev, f_auth_codes := Content (codes_of (si_store s)
           @ [issued_code E req (user_ID user) (session_CreatedAt session) (session_AMR session)])\<rparr>"
    by (intro exI [of _ v] exI [of _ a]) (simp add: s' a)
  have same: "granted_scopes (si_store s') u k = granted_scopes ((si_store s)\<lparr>f_consents := v\<rparr>) u k" by (simp add: s' a granted_scopes_def)
  show "granted_scopes (si_store s') u k = granted_scopes (si_store s) u k
        \<union> (if en_consents E \<and> u = user_ID user \<and> k = client_ID client then set (Scopes req) else {})"
  proof (cases "en_consents E")
    case True
    then have gr: "Grant (en_consentID E) (en_now E) (user_ID user) (client_ID client) (Scopes req) (si_store s) = (None, (si_store s)\<lparr>f_consents := v\<rparr>)"
      using g e by simp
    show ?thesis
    proof (cases "(u, k) = (user_ID user, client_ID client)")
      case pair: True
      then show ?thesis unfolding same using Grant_scopes(1) [OF gr] True by simp
    next
      case pair: False
      show ?thesis unfolding same Grant_scopes(2) [OF gr pair] using pair by auto
    qed
  next
    case False
    then have "(si_store s)\<lparr>f_consents := v\<rparr> = si_store s" using g e by simp
    then show ?thesis unfolding same using False by simp
  qed
qed

lemma oidc_Consent_new:
  assumes "oidc_Consent E r s = (w, s')" and "f_auth_codes (si_store s') \<noteq> f_auth_codes (si_store s)"
  shows "\<exists>req client session user. ValidateToken E r = None \<and> FormValue r ''action'' = ''allow''
    \<and> code_grounds E r (fst (ParseQuery (FormValue r ''authorize_query''))) (si_store s) req client session user
    \<and> (ar_MaxAge req \<ge> 0 \<longrightarrow> \<not> RequiresFreshLogin (en_now E) req (session_CreatedAt session))
    \<and> (\<forall>u k. granted_scopes (si_store s') u k = granted_scopes (si_store s) u k
         \<union> (if en_consents E \<and> u = user_ID user \<and> k = client_ID client then set (Scopes req) else {}))
    \<and> (\<exists>cs ev. si_store s' = (si_store s)\<lparr>f_consents := cs, f_audit_events := ev, f_auth_codes := Content (codes_of (si_store s)
           @ [issued_code E req (user_ID user) (session_CreatedAt session) (session_AMR session)])\<rparr>)"
proof -
  obtain q req0 req client where t: "ParseForm r = None" "ValidateToken E r = None"
    and p: "ParseAuthorizeQuery q = Inr req0" "ValidateClient req0 (si_store s) = (Inr client, req)"
    and pq: "ParseQuery (FormValue r ''authorize_query'') = (q, None)"
    using assms by (auto simp: oidc_Consent_def Let_def split: if_splits sum.splits prod.splits option.splits)
  obtain cur au where c: "CurrentSession (en_now E) (to_web r) (si_auth s) = (cur, au)" by fastforce
  show ?thesis
  proof (cases cur)
    case (Inl e)
    then obtain v where "au = (si_auth s)\<lparr>au_store := (si_store s)\<lparr>f_sessions := v\<rparr>\<rparr>" using CurrentSession_Inl c by blast
    then show ?thesis using assms t p pq c Inl by (auto simp: oidc_Consent_def)
  next
    case (Inr su)
    obtain session user where su: "su = (session, user)" by fastforce
    note cs = c [unfolded Inr su]
    have au: "au = si_auth s" using CurrentSession_Inr(1) [OF cs] .
    obtain v where "si_store (consent_audit E r user ''consent.denied'' (client_ID client) (ar_Scope req) s) = (si_store s)\<lparr>f_audit_events := v\<rparr>"
      using consent_audit_frame by blast
    then have d: "f_auth_codes (si_store (consent_audit E r user ''consent.denied'' (client_ID client) (ar_Scope req) s)) = f_auth_codes (si_store s)"
      by simp
    have f: "FormValue r ''action'' = ''allow''" "ar_MaxAge req \<ge> 0 \<longrightarrow> \<not> RequiresFreshLogin (en_now E) req (session_CreatedAt session)"
      and a: "consent_allowed E r NewResponse req client session user s = (w, s')"
      using assms t p pq cs au d by (auto simp: oidc_Consent_def Let_def split: if_splits)
    note n = consent_allowed_new [OF a assms(2)]
    show ?thesis
      unfolding pq fst_conv
      by (rule exI [of _ req], rule exI [of _ client], rule exI [of _ session], rule exI [of _ user], intro conjI)
         (rule t f code_grounds_intro(1) [OF p cs] allI n)+
  qed
qed

section \<open>Back from the login page\<close>

text \<open>
  \<open>url.Parse\<close> of a path with an encoded query: the path comes back as it is and the query as its raw text.
\<close>

definition parses_path_query :: "urllib \<Rightarrow> string \<Rightarrow> bool" where
  "parses_path_query U p \<longleftrightarrow>
     (\<forall>q. values_wf q \<longrightarrow> (\<exists>u. ul_Parse U (p @ ''?'' @ values_Encode q) = Inr u \<and> url_Path u = p \<and> url_RawQuery u = values_Encode q))"

text \<open>The parameters of the request that the browser comes back with after it has signed in.\<close>

definition login_kept :: "url_values \<Rightarrow> string list" where
  "login_kept q = filter (\<lambda>p. p \<notin> {''login'', ''select_account''}) (Fields (values_Get q ''prompt''))"

definition back_params :: "url_values \<Rightarrow> url_values" where
  "back_params q =
     values_Del (if login_kept q = [] then values_Del q ''prompt'' else values_Set q ''prompt'' (join_spaces (login_kept q))) ''max_age''"

lemma values_wf_Del [simp, intro]: "values_wf q \<Longrightarrow> values_wf (values_Del q k)"
  by (auto simp: values_wf_def values_Del_def)

lemma back_params_wf: "values_wf q \<Longrightarrow> values_wf (back_params q)"
  by (auto simp: back_params_def)

lemma authorize_login_url_back:
  assumes "parses_path_query (en_U E) (hq_Path r)" and "values_wf q"
  shows "authorize_login_url E r q = ''/login?return_url='' @ QueryEscape (hq_Path r @ ''?'' @ values_Encode (back_params q))"
proof -
  let ?q1 = "if login_kept q = [] then values_Del q ''prompt'' else values_Set q ''prompt'' (join_spaces (login_kept q))"
  have p: "withoutPrompt (hq_Path r) (values_Encode q) [''login'', ''select_account''] = hq_Path r @ ''?'' @ values_Encode ?q1"
    using ParseQuery_Encode_wf [OF assms(2)] by (simp add: withoutPrompt_def login_kept_def Let_def)
  have wf: "values_wf ?q1" using assms(2) by auto
  then obtain u where "ul_Parse (en_U E) (hq_Path r @ ''?'' @ values_Encode ?q1) = Inr u" "url_Path u = hq_Path r"
      "url_RawQuery u = values_Encode ?q1" using assms(1) unfolding parses_path_query_def by blast
  then show ?thesis using ParseQuery_Encode_wf [OF wf] unfolding authorize_login_url_def p
    by (simp add: withoutParams_def url_Query_def back_params_def)
qed

lemma back_params_other: "k \<notin> {''prompt'', ''max_age''} \<Longrightarrow> back_params q k = q k"
  by (auto simp: back_params_def values_Del_def values_Set_def)

lemma back_params_prompt: "Fields (values_Get (back_params q) ''prompt'') = login_kept q"
proof (cases "login_kept q = []")
  case True
  then show ?thesis by (simp add: back_params_def values_Del_def values_Get_def Fields_def)
next
  case False
  have "Fields (join_spaces (login_kept q)) = login_kept q"
    by (rule Fields_join_words) (auto simp: login_kept_def dest: Fields_nonempty Fields_space_free)
  then show ?thesis using False by (simp add: back_params_def values_Del_def values_Set_def values_Get_def)
qed

lemma back_params_fresh:
  assumes "ParseAuthorizeQuery (back_params q) = Inr req0" and "parse_max_age req0 = Inr req"
  shows "\<not> RequiresFreshLogin now req t"
proof -
  have "ar_maxAge_raw req0 = ''''" "ar_MaxAge req0 = -1" "ar_Prompt req0 = login_kept q"
    using assms(1) back_params_prompt [of q]
    by (auto simp: ParseAuthorizeQuery_def Let_def back_params_def values_Del_def values_Get_def split: if_splits)
  with assms(2) show ?thesis
    by (auto simp: parse_max_age_def RequiresFreshLogin_def HasPrompt_def list_ex_iff login_kept_def)
qed

lemma back_signed_in:
  assumes "hq_Method r \<noteq> ''POST''" and "hq_RawQuery r = values_Encode (back_params q)" and "values_wf q"
    and "ParseAuthorizeQuery (back_params q) = Inr req0" and "ValidateClient req0 (si_store s) = (Inr client, req)"
    and "CurrentSession (en_now E) (to_web r) (si_auth s) = (Inr (session, user), au)"
  shows "oidc_Authorize E r s = authorize_signed_in E r NewResponse (back_params q) req client session user s"
proof -
  have q: "req_Query r = back_params q" using ParseQuery_Encode_wf [OF back_params_wf [OF assms(3)]] assms(2) by (simp add: req_Query_def)
  have f: "\<not> RequiresFreshLogin (en_now E) req (session_CreatedAt session)"
    using back_params_fresh [OF assms(4)] ValidateClient_Inr(7) [OF assms(5)] by blast
  have "au = si_auth s" using CurrentSession_Inr(1) [OF assms(6)] .
  then show ?thesis using assms q f by (simp add: oidc_Authorize_def Let_def)
qed

end
