(* ===== verification/LoginHandlers.thy ===== *)
theory LoginHandlers
  imports Http
begin

text \<open>
  \<open>internal/http/login.go\<close> and the sign-in half of \<open>internal/http/passkeys.go\<close>: the password form, the
  second step, logout. Whatever a request says, the redirects of these handlers stay on this server,
  except for the registered URI of RP-initiated logout.
\<close>

section \<open>Return URLs\<close>

definition isValidReturnURL :: "urllib \<Rightarrow> string \<Rightarrow> bool" where
  "isValidReturnURL U returnURL =
     (if length returnURL < 1 \<or> returnURL ! 0 \<noteq> CHR ''/'' then False
      else if length returnURL > 1 \<and> (returnURL ! 1 = CHR ''/'' \<or> returnURL ! 1 = CHR 0x5C) then False
      else if list_ex (\<lambda>c. c \<in> {CHR 0x5C, CHR 0x0D, CHR 0x0A}) returnURL then False
      else case ul_Parse U returnURL of
        Inl _ \<Rightarrow> False
      | Inr u \<Rightarrow> url_Scheme u = '''' \<and> url_Host u = '''' \<and> \<not> url_User u)"

section \<open>The password form\<close>

definition renderLoginError :: "env \<Rightarrow> response \<Rightarrow> string \<Rightarrow> string \<Rightarrow> response" where
  "renderLoginError E w errMsg returnURL =
     (case GenerateToken_or_empty E w of (csrfToken, w1) \<Rightarrow>
        Render w1 401 ''login''
          (LoginData \<lparr>lp_CSRFToken = csrfToken, lp_ReturnURL = returnURL, lp_Error = errMsg, lp_Message = '''',
             lp_ForgotPasswordURL = en_forgotPasswordURL E, lp_HasTOTP = False, lp_HasPasskeys = False\<rparr>))"

definition login_LoginPage :: "env \<Rightarrow> request \<Rightarrow> site \<Rightarrow> response \<times> site" where
  "login_LoginPage E r s =
     (let w = NewResponse; q = req_Query r; returnURL = values_Get q ''return_url''
      in case IsAuthenticated (en_now E) (to_web r) (si_auth s) of (authenticated, au) \<Rightarrow>
           (let s1 = s\<lparr>si_auth := au\<rparr>
            in if authenticated
               then (http_Redirect (en_U E) r w
                       (if returnURL = '''' \<or> \<not> isValidReturnURL (en_U E) returnURL then ''/'' else returnURL) 302, s1)
               else case GenerateToken E w of
                 Inl _ \<Rightarrow> (http_Error w ''Internal Server Error'' 500, s1)
               | Inr (csrfToken, w1) \<Rightarrow>
                   (Render w1 200 ''login''
                      (LoginData \<lparr>lp_CSRFToken = csrfToken, lp_ReturnURL = returnURL, lp_Error = '''',
                         lp_Message = values_Get q ''message'', lp_ForgotPasswordURL = en_forgotPasswordURL E,
                         lp_HasTOTP = False, lp_HasPasskeys = False\<rparr>), s1)))"

text \<open>\<open>errors.Is\<close> of an error and a sentinel; no error is none.\<close>

definition errors_Is :: "goerr option \<Rightarrow> goerr \<Rightarrow> bool" where
  "errors_Is e sentinel = (case e of None \<Rightarrow> False | Some err \<Rightarrow> Is err sentinel)"

definition login_error_message :: "goerr \<Rightarrow> string" where
  "login_error_message err =
     (if IsCode err CodeForbidden then
        (case as_Error err of
           Some (_, m) \<Rightarrow>
             if m = ''account is temporarily locked''
             then ''Account is temporarily locked due to too many failed attempts. Please try again later.''
             else ''Invalid request. Please try again.''
         | None \<Rightarrow> ''Invalid request. Please try again.'')
      else ''Invalid email or password'')"

definition login_Login :: "env \<Rightarrow> request \<Rightarrow> site \<Rightarrow> response \<times> site" where
  "login_Login E r s =
     (let w = NewResponse; returnURL = FormValue r ''return_url''; email = FormValue r ''email''; password = FormValue r ''password''
      in if ParseForm r \<noteq> None then (renderLoginError E w ''Invalid form data'' returnURL, s)
         else if email = '''' \<or> password = '''' then (renderLoginError E w ''Email and password are required'' returnURL, s)
         else case Login (en_P E) (en_auth E) (en_rd E) (en_now E) (to_web r) email password (si_auth s) of
           ((_, err), cks, au) \<Rightarrow>
             (let w1 = SetCookies cks w; s1 = s\<lparr>si_auth := au\<rparr>
              in if errors_Is err ErrSecondFactorRequired
                 then (http_Redirect (en_U E) r w1
                         (''/login/code'' @ (if returnURL \<noteq> '''' \<and> isValidReturnURL (en_U E) returnURL
                                             then ''?return_url='' @ QueryEscape returnURL else '''')) 302, s1)
                 else case err of
                   Some e \<Rightarrow> (renderLoginError E w1 (login_error_message e) returnURL, s1)
                 | None \<Rightarrow>
                     (let u1 = (if returnURL = '''' then ''/'' else returnURL);
                          u2 = (if \<not> isValidReturnURL (en_U E) u1 then ''/'' else u1)
                      in (http_Redirect (en_U E) r w1 u2 302, s1))))"

section \<open>Logout\<close>

definition resolvePostLogoutRedirect :: "env \<Rightarrow> request \<Rightarrow> string \<Rightarrow> string \<Rightarrow> site \<Rightarrow> string res" where
  "resolvePostLogoutRedirect E r uri state s =
     (if isValidReturnURL (en_U E) uri then
        (if state \<noteq> '''' then
           bindR (ul_Parse (en_U E) uri) (\<lambda>u.
             Inr (ul_String (en_U E) (u\<lparr>url_RawQuery := values_Encode (values_Set (url_Query u) ''state'' state)\<rparr>)))
         else Inr uri)
      else if \<not> en_postLogout E then Inl (Plain ''only same-origin paths are allowed'')
      else PostLogoutRedirect (en_J E) (en_U E) (en_now E) (ts_tokenGenerator (en_tokens E)) (si_keys s)
             (FormValue r ''id_token_hint'') (FormValue r ''client_id'') uri state (si_store s))"

definition login_Logout :: "env \<Rightarrow> request \<Rightarrow> site \<Rightarrow> response \<times> site" where
  "login_Logout E r s =
     (case Logout (en_auth E) (en_rd E) (en_now E) (to_web r) (si_auth s) of (cks, au) \<Rightarrow>
        (let w = SetCookies cks NewResponse; s1 = s\<lparr>si_auth := au\<rparr>;
             uri = FormValue r ''post_logout_redirect_uri''; state = FormValue r ''state'';
             target = (if uri \<noteq> ''''
                       then (case resolvePostLogoutRedirect E r uri state s1 of Inr t \<Rightarrow> t | Inl _ \<Rightarrow> ''/login'')
                       else ''/login'')
         in (http_Redirect (en_U E) r w target 302, s1)))"

section \<open>The second step\<close>

definition renderCodePage :: "env \<Rightarrow> request \<Rightarrow> response \<Rightarrow> int \<Rightarrow> string \<Rightarrow> string \<Rightarrow> site \<Rightarrow> response \<times> site" where
  "renderCodePage E r w status returnURL errMsg s =
     (case GenerateToken E w of
        Inl _ \<Rightarrow> (http_Error w ''Internal Server Error'' 500, s)
      | Inr (csrfToken, w1) \<Rightarrow>
          (case PendingLoginHasTOTP (en_now E) (to_web r) (si_auth s) of (hasTOTP, au) \<Rightarrow>
           (case PendingLoginHasPasskeys (en_auth E) (en_now E) (to_web r) au of (hasPasskeys, au1) \<Rightarrow>
             (Render w1 status ''login_code''
                (LoginData \<lparr>lp_CSRFToken = csrfToken, lp_ReturnURL = returnURL, lp_Error = errMsg, lp_Message = '''',
                   lp_ForgotPasswordURL = '''', lp_HasTOTP = hasTOTP, lp_HasPasskeys = hasPasskeys\<rparr>),
              s\<lparr>si_auth := au1\<rparr>))))"

definition restart_url :: "urllib \<Rightarrow> string \<Rightarrow> string" where
  "restart_url U returnURL =
     (let q = [''message'' \<mapsto> [''Your sign-in expired. Please enter your password again.'']];
          q1 = (if returnURL \<noteq> '''' \<and> isValidReturnURL U returnURL then values_Set q ''return_url'' returnURL else q)
      in ''/login?'' @ values_Encode q1)"

definition restartLogin :: "env \<Rightarrow> request \<Rightarrow> response \<Rightarrow> string \<Rightarrow> response" where
  "restartLogin E r w returnURL = http_Redirect (en_U E) r w (restart_url (en_U E) returnURL) 302"

definition login_CodePage :: "env \<Rightarrow> request \<Rightarrow> site \<Rightarrow> response \<times> site" where
  "login_CodePage E r s =
     (let w = NewResponse; returnURL = values_Get (req_Query r) ''return_url''
      in case HasPendingLogin (en_now E) (to_web r) (si_auth s) of (pending, au) \<Rightarrow>
           (let s1 = s\<lparr>si_auth := au\<rparr>
            in if \<not> pending then (restartLogin E r w returnURL, s1) else renderCodePage E r w 200 returnURL '''' s1))"

definition code_error_message :: "goerr \<Rightarrow> string" where
  "code_error_message err =
     (case as_Error err of
        Some (_, m) \<Rightarrow>
          if m = ''account is temporarily locked''
          then ''Account is temporarily locked due to too many failed attempts. Please try again later.''
          else ''Invalid request. Please try again.''
      | None \<Rightarrow> ''Invalid request. Please try again.'')"

definition login_Code :: "env \<Rightarrow> request \<Rightarrow> site \<Rightarrow> response \<times> site" where
  "login_Code E r s =
     (let returnURL = FormValue r ''return_url''
      in case CompleteSecondFactor (en_P E) (en_auth E) (en_rd E) (en_now E) (to_web r) (FormValue r ''code'') (si_auth s) of
           ((_, err), cks, au) \<Rightarrow>
             (let w = SetCookies cks NewResponse; s1 = s\<lparr>si_auth := au\<rparr>
              in if errors_Is err ErrInvalidCode
                 then renderCodePage E r w 401 returnURL
                        ''That code is not valid. Check the time on your device, or use a recovery code.'' s1
                 else if errors_Is err ErrPendingLoginExpired then (restartLogin E r w returnURL, s1)
                 else case err of
                   Some e \<Rightarrow>
                     if IsCode e CodeForbidden then renderCodePage E r w 403 returnURL (code_error_message e) s1
                     else (http_Error w ''Internal Server Error'' 500, s1)
                 | None \<Rightarrow>
                     (http_Redirect (en_U E) r w
                        (if returnURL = '''' \<or> \<not> isValidReturnURL (en_U E) returnURL then ''/'' else returnURL) 302, s1)))"

section \<open>Passkeys\<close>

definition maxPasskeyResponse :: nat where
  "maxPasskeyResponse = 64 * 1024"

definition lockedMessage :: string where
  "lockedMessage = ''Too many failed attempts. Please try again later.''"

definition isLockedError :: "goerr option \<Rightarrow> bool" where
  "isLockedError err =
     (case err of None \<Rightarrow> False | Some e \<Rightarrow> As_Error e = Some (CodeForbidden, ''account is temporarily locked''))"

definition writeJSON :: "response \<Rightarrow> int \<Rightarrow> body \<Rightarrow> response" where
  "writeJSON w status v =
     (Header_Set ''Cache-Control'' ''no-store'' (Header_Set ''Content-Type'' ''application/json'' w))\<lparr>rs_Status := status, rs_Body := v\<rparr>"

definition passkeyError :: "response \<Rightarrow> int \<Rightarrow> string \<Rightarrow> response" where
  "passkeyError w status msg = writeJSON w status (Json [''error'' \<mapsto> JString msg])"

definition passkeyFailure :: "response \<Rightarrow> goerr \<Rightarrow> response" where
  "passkeyFailure w err =
     (if Is err ErrInvalidPassword then passkeyError w 400 ''Your current password is incorrect.''
      else if Is err ErrAccountLocked then passkeyError w 403 lockedMessage
      else if Is err ErrPasskeyCeremony then passkeyError w 400 ''That took too long. Please try again.''
      else if Is err ErrPasskeysUnavailable then passkeyError w 404 ''Passkeys are not available on this server.''
      else if IsCode err CodeForbidden then passkeyError w 403 ''This page has expired. Reload it and try again.''
      else if IsCode err CodeInvalidInput \<or> IsCode err CodeAlreadyExists then
        passkeyError w 400
          (case as_Error err of
             Some (_, m) \<Rightarrow>
               if IsCode err CodeInvalidInput then ''The passkey could not be added: '' @ m @ ''.''
               else ''The passkey could not be added.''
           | None \<Rightarrow> ''The passkey could not be added.'')
      else passkeyError w 500 ''Something went wrong. Please try again.'')"

definition login_PasskeyBegin :: "env \<Rightarrow> request \<Rightarrow> site \<Rightarrow> response \<times> site" where
  "login_PasskeyBegin E r s =
     (case BeginPasskeyLogin (en_P E) (en_W E) (en_auth E) (en_now E) (to_web r) (si_auth s) of (res, au) \<Rightarrow>
        ((case res of
            Inl err \<Rightarrow>
              if Is err ErrPendingLoginExpired
              then writeJSON NewResponse 401 (Json [''error'' \<mapsto> JString ''Your sign-in expired.'', ''redirect'' \<mapsto> JString ''/login''])
              else passkeyFailure NewResponse err
          | Inr assertion \<Rightarrow> writeJSON NewResponse 200 (JsonRaw assertion)),
         s\<lparr>si_auth := au\<rparr>))"

definition login_PasskeyFinish :: "env \<Rightarrow> request \<Rightarrow> site \<Rightarrow> response \<times> site" where
  "login_PasskeyFinish E r0 s =
     (let r = MaxBytesReader maxPasskeyResponse r0; returnURL = FormValue r ''return_url''
      in if ParseForm r \<noteq> None then (passkeyError NewResponse 400 ''Invalid request.'', s)
         else case CompletePasskeyLogin (en_P E) (en_W E) (en_auth E) (en_rd E) (en_now E) (to_web r) (FormValue r ''credential'')
                     (si_auth s) of
           ((_, err), cks, au) \<Rightarrow>
             (let w = SetCookies cks NewResponse; s1 = s\<lparr>si_auth := au\<rparr>
              in if errors_Is err ErrInvalidCode
                 then (passkeyError w 401 ''That passkey was not accepted. Try again, or use a code.'', s1)
                 else if errors_Is err ErrPendingLoginExpired
                 then (writeJSON w 401 (Json [''error'' \<mapsto> JString ''Your sign-in expired.'',
                         ''redirect'' \<mapsto> JString (restart_url (en_U E) returnURL)]), s1)
                 else if isLockedError err
                 then (passkeyError w 403 ''Account is temporarily locked due to too many failed attempts. Please try again later.'', s1)
                 else case err of
                   Some e \<Rightarrow> (passkeyFailure w e, s1)
                 | None \<Rightarrow>
                     (writeJSON w 200 (Json [''redirect'' \<mapsto>
                        JString (if returnURL = '''' \<or> \<not> isValidReturnURL (en_U E) returnURL then ''/'' else returnURL)]), s1)))"

section \<open>Redirects stay on this server\<close>

text \<open>A path that a browser cannot read as the name of another server.\<close>

definition local_path :: "string \<Rightarrow> bool" where
  "local_path url \<longleftrightarrow> on_origin url \<and> CHR 0x5C \<notin> set url"

lemma on_origin_first: "on_origin url \<Longrightarrow> take 1 url = ''/''"
  by (auto simp: on_origin_def)

lemma hexEscape_Cons:
  "hexEscapeNonASCII (c # s) =
     (if byte c < 128 then [c] else [CHR ''%'', lowerhex ! (byte c div 16), lowerhex ! (byte c mod 16)]) @ hexEscapeNonASCII s"
  by (simp add: hexEscapeNonASCII_def)

lemma hexEscape_on_origin: "on_origin url \<Longrightarrow> on_origin (hexEscapeNonASCII url)"
proof -
  assume "on_origin url"
  then obtain rest where u: "url = CHR ''/'' # rest" "take 1 rest \<noteq> ''/''" "take 1 rest \<noteq> [CHR 0x5C]" by (auto simp: on_origin_def)
  have "take 1 (hexEscapeNonASCII rest) \<noteq> ''/'' \<and> take 1 (hexEscapeNonASCII rest) \<noteq> [CHR 0x5C]"
  proof (cases rest)
    case (Cons c cs)
    show ?thesis
    proof (cases "byte c < 128")
      case True
      with u(2,3) Cons show ?thesis by (simp add: hexEscape_Cons)
    next
      case False
      with Cons show ?thesis by (simp add: hexEscape_Cons)
    qed
  qed (simp add: hexEscapeNonASCII_def)
  then show ?thesis using u(1) by (auto simp: on_origin_def hexEscape_Cons)
qed

lemma redirect_location_local: "local_path url \<Longrightarrow> on_origin (redirect_location U r url)"
  unfolding redirect_location_def local_path_def
  by (rule hexEscape_on_origin) (auto intro: clean_location_on_origin(1) dest: on_origin_first split: sum.split)

lemma isValidReturnURL_local: "isValidReturnURL U url \<Longrightarrow> local_path url"
proof -
  assume v: "isValidReturnURL U url"
  then have "url \<noteq> [] \<and> url ! 0 = CHR ''/''" by (simp add: isValidReturnURL_def split: if_splits)
  then obtain rest where u: "url = CHR ''/'' # rest" by (cases url) simp_all
  with v have "CHR 0x5C \<notin> set rest" by (auto simp: isValidReturnURL_def list_ex_iff split: if_splits)
  moreover from v u have "take 1 rest \<noteq> ''/'' \<and> take 1 rest \<noteq> [CHR 0x5C]"
    by (cases rest) (simp_all add: isValidReturnURL_def split: if_splits)
  ultimately show ?thesis using u by (auto simp: local_path_def on_origin_def)
qed

lemma escaped_local: "CHR 0x5C \<notin> set (QueryEscape s)"
  by (auto dest!: QueryEscape_set simp: unreserved_def)

lemma values_Encode_local: "CHR 0x5C \<notin> set (values_Encode q)"
proof -
  have j: "(\<And>w. w \<in> set ws \<Longrightarrow> CHR 0x5C \<notin> set w) \<Longrightarrow> CHR 0x5C \<notin> set (join_amp ws)" for ws
    by (induction ws rule: join_amp.induct) auto
  show ?thesis unfolding values_Encode_def by (rule j) (auto simp: encode_pair_def escaped_local)
qed

lemma local_paths:
  "local_path ''/''" "local_path (''/login/code'')" "local_path (''/login/code?return_url='' @ QueryEscape u)"
  "local_path (restart_url U u)" "local_path ''/login''"
  using escaped_local values_Encode_local by (auto simp: local_path_def on_origin_def restart_url_def Let_def)

lemma return_url_local: "local_path (if u = '''' \<or> \<not> isValidReturnURL U u then ''/'' else u)"
  using isValidReturnURL_local [of U u] local_paths(1) by simp

lemma response_headers [simp]:
  "rs_Headers (http_Redirect U r w url c) ''Location'' = Some (redirect_location U r url)"
  "rs_Headers (Render w st n d) ''Location'' = rs_Headers w ''Location''"
  "rs_Headers (http_Error w m c) ''Location'' = rs_Headers w ''Location''"
  "rs_Headers (SetCookies cks w) = rs_Headers w" "rs_Headers NewResponse = Map.empty"
  by (simp_all add: http_Redirect_def Render_def http_Error_def Header_Set_def SetCookies_def NewResponse_def Let_def)

lemma GenerateToken_headers: "GenerateToken E w = Inr (t, w1) \<Longrightarrow> rs_Headers w1 = rs_Headers w"
  by (auto simp: GenerateToken_def split: sum.splits)

lemma renderLoginError_headers: "rs_Headers (renderLoginError E w m u) ''Location'' = rs_Headers w ''Location''"
  by (auto simp: renderLoginError_def GenerateToken_or_empty_def dest: GenerateToken_headers split: sum.split)

lemma renderCodePage_headers: "rs_Headers (fst (renderCodePage E r w st u m s)) ''Location'' = rs_Headers w ''Location''"
  by (auto simp: renderCodePage_def dest: GenerateToken_headers split: sum.split prod.split)

lemma login_LoginPage_local:
  "rs_Headers (fst (login_LoginPage E r s)) ''Location'' = Some loc \<Longrightarrow> on_origin loc"
  by (auto simp: login_LoginPage_def Let_def dest: GenerateToken_headers isValidReturnURL_local
      intro!: redirect_location_local local_paths split: prod.splits if_splits sum.splits)

lemma login_Login_local:
  "rs_Headers (fst (login_Login E r s)) ''Location'' = Some loc \<Longrightarrow> on_origin loc"
  by (auto simp: login_Login_def Let_def renderLoginError_headers dest: isValidReturnURL_local
      intro!: redirect_location_local local_paths local_paths(2,3) [simplified]
      split: prod.splits if_splits option.splits)

lemma login_CodePage_local:
  "rs_Headers (fst (login_CodePage E r s)) ''Location'' = Some loc \<Longrightarrow> on_origin loc"
  by (auto simp: login_CodePage_def Let_def restartLogin_def renderCodePage_headers
      intro!: redirect_location_local local_paths split: prod.splits if_splits)

lemma login_Code_local:
  "rs_Headers (fst (login_Code E r s)) ''Location'' = Some loc \<Longrightarrow> on_origin loc"
  by (auto simp: login_Code_def Let_def restartLogin_def renderCodePage_headers dest: isValidReturnURL_local
      intro!: redirect_location_local local_paths split: prod.splits if_splits option.splits)

lemma passkeyFailure_body: "rs_Body (passkeyFailure w err) = Json v \<Longrightarrow> v ''redirect'' = None"
  by (auto simp: passkeyFailure_def passkeyError_def writeJSON_def split: if_splits option.splits)

lemma login_PasskeyFinish_local:
  "rs_Body (fst (login_PasskeyFinish E r s)) = Json v \<Longrightarrow> v ''redirect'' = Some (JString u) \<Longrightarrow> local_path u"
  by (auto simp: login_PasskeyFinish_def Let_def writeJSON_def passkeyError_def dest: passkeyFailure_body isValidReturnURL_local
      intro!: local_paths split: prod.splits if_splits option.splits)

end
