(* ===== verification/AccountHandlers.thy ===== *)
theory AccountHandlers
  imports LoginHandlers
begin

text \<open>
  The self-service pages: password reset and e-mail verification (\<open>internal/http/account.go\<close>), the
  page of the signed-in user (\<open>account_page.go\<close>, \<open>account_twostep.go\<close>) and the registration of passkeys
  (\<open>passkeys.go\<close>). A handler behind \<open>requireUser\<close> gets the signed-in user as an argument; where a
  service changes that user, the pages that follow show the changed one.
\<close>

section \<open>Reset and verification links\<close>

definition empty_message :: messagePageData where
  "empty_message = \<lparr>mp_Title = '''', mp_Message = '''', mp_Error = '''', mp_BackURL = '''', mp_BackLabel = '''', mp_SecondURL = '''',
     mp_SecondLabel = ''''\<rparr>"

definition renderForgot :: "env \<Rightarrow> response \<Rightarrow> int \<Rightarrow> string \<Rightarrow> string \<Rightarrow> response" where
  "renderForgot E w status email err =
     (case GenerateToken_or_empty E w of (token, w1) \<Rightarrow>
        Render w1 status ''forgot_password''
          (ForgotData \<lparr>fp_CSRFToken = token, fp_Email = email, fp_Error = err, fp_Sent = False, fp_TTL = en_resetTTL E\<rparr>))"

definition renderReset :: "env \<Rightarrow> response \<Rightarrow> int \<Rightarrow> string \<Rightarrow> string \<Rightarrow> response" where
  "renderReset E w status tok err =
     (case GenerateToken_or_empty E w of (token, w1) \<Rightarrow>
        Render w1 status ''reset_password''
          (ResetData \<lparr>rp_CSRFToken = token, rp_Token = tok, rp_Error = err, rp_MinLength = MinPasswordLength\<rparr>))"

definition renderInvalidLink :: "response \<Rightarrow> response" where
  "renderInvalidLink w =
     Render w 400 ''message''
       (MessageData (empty_message\<lparr>mp_Title := ''Link Invalid'',
          mp_Error := ''This password reset link is invalid or has expired. Please request a new one.'',
          mp_BackURL := ''/forgot-password'', mp_BackLabel := ''Request a new link''\<rparr>))"

definition account_ForgotPasswordPage :: "env \<Rightarrow> request \<Rightarrow> site \<Rightarrow> response \<times> site" where
  "account_ForgotPasswordPage E r s = (renderForgot E NewResponse 200 '''' '''', s)"

definition account_ForgotPassword :: "account_service \<Rightarrow> env \<Rightarrow> request \<Rightarrow> site \<Rightarrow> response \<times> site" where
  "account_ForgotPassword svc E r s =
     (let w = NewResponse; email = FormValue r ''email''
      in if ParseForm r \<noteq> None then (renderForgot E w 400 '''' ''Invalid form data'', s)
         else if ValidateToken E r \<noteq> None then (renderForgot E w 400 email ''Invalid or expired form, please try again'', s)
         else if email = '''' then (renderForgot E w 400 '''' ''Email is required'', s)
         else case RequestPasswordReset (en_P E) (en_mailer E) (en_link E) (rd_uuid (en_rd E)) (en_now E) svc email (to_account s) of
           (Some _, a) \<Rightarrow> (renderForgot E w 500 email ''Something went wrong, please try again later'', of_account a s)
         | (None, a) \<Rightarrow>
             (Render (SetCookies [csrf_ClearToken (ac_csrf (en_auth E))] w) 200 ''forgot_password''
                (ForgotData \<lparr>fp_CSRFToken = '''', fp_Email = email, fp_Error = '''', fp_Sent = True, fp_TTL = en_resetTTL E\<rparr>),
              of_account a s))"

definition account_ResetPasswordPage :: "env \<Rightarrow> request \<Rightarrow> site \<Rightarrow> response \<times> site" where
  "account_ResetPasswordPage E r s =
     (let token = values_Get (req_Query r) ''token''
      in (if token = '''' then renderInvalidLink NewResponse else renderReset E NewResponse 200 token '''', s))"

definition account_ResetPassword :: "account_service \<Rightarrow> env \<Rightarrow> request \<Rightarrow> site \<Rightarrow> response \<times> site" where
  "account_ResetPassword svc E r s =
     (let w = NewResponse; token = FormValue r ''token''; password = FormValue r ''password''; confirm = FormValue r ''confirm''
      in if ParseForm r \<noteq> None then (renderReset E w 400 '''' ''Invalid form data'', s)
         else if ValidateToken E r \<noteq> None then (renderReset E w 400 token ''Invalid or expired form, please try again'', s)
         else if password \<noteq> confirm then (renderReset E w 400 token ''Passwords do not match'', s)
         else case ResetPassword (en_P E) (rd_salt (en_rd E)) (rd_uuid (en_rd E)) (en_now E) svc token password (si_store s) of
           (Inl err, st) \<Rightarrow>
             ((if IsCode err CodeInvalidInput then renderReset E w 400 token (userMessage err)
               else if IsCode err CodeTokenInvalid then renderInvalidLink w
               else renderReset E w 500 token ''Something went wrong, please try again later''), with_store st s)
         | (Inr _, st) \<Rightarrow>
             (http_Redirect (en_U E) r (SetCookies [csrf_ClearToken (ac_csrf (en_auth E))] w)
                (''/login?message='' @ QueryEscape ''Your password has been updated. Please sign in.'') 302, with_store st s))"

definition account_VerifyEmail :: "account_service \<Rightarrow> env \<Rightarrow> request \<Rightarrow> site \<Rightarrow> response \<times> site" where
  "account_VerifyEmail svc E r s =
     (case VerifyEmail (en_P E) (rd_uuid (en_rd E)) (en_now E) svc (values_Get (req_Query r) ''token'') (si_store s) of
        (Inl _, st) \<Rightarrow>
          (Render NewResponse 400 ''message''
             (MessageData (empty_message\<lparr>mp_Title := ''Verification Failed'', mp_Error := ''This verification link is invalid or has expired.'',
                mp_BackURL := ''/login'', mp_BackLabel := ''Go to sign in''\<rparr>)), with_store st s)
      | (Inr user, st) \<Rightarrow>
          (Render NewResponse 200 ''message''
             (MessageData (empty_message\<lparr>mp_Title := ''Email Verified'', mp_Message := user_Email user @ '' has been verified.'',
                mp_BackURL := ''/login'', mp_BackLabel := ''Go to sign in''\<rparr>)), with_store st s))"

section \<open>The page of the signed-in user\<close>

definition requireUser :: "env \<Rightarrow> (user \<Rightarrow> request \<Rightarrow> site \<Rightarrow> response \<times> site) \<Rightarrow> request \<Rightarrow> site \<Rightarrow> response \<times> site" where
  "requireUser E next_h r s =
     (case GetCurrentUser (en_now E) (to_web r) (si_auth s) of
        (Inl _, au) \<Rightarrow>
          (http_Redirect (en_U E) r NewResponse (''/login?return_url='' @ QueryEscape (hq_RequestURI r)) 302, s\<lparr>si_auth := au\<rparr>)
      | (Inr user, au) \<Rightarrow> next_h user r (s\<lparr>si_auth := au\<rparr>))"

definition currentSessionID :: "env \<Rightarrow> request \<Rightarrow> site \<Rightarrow> string \<times> site" where
  "currentSessionID E r s =
     (case GetSessionFromRequest (en_now E) (to_web r) (si_store s) of
        (Inl _, st) \<Rightarrow> ('''', with_store st s)
      | (Inr sess, st) \<Rightarrow> (session_ID sess, with_store st s))"

definition account_base :: "env \<Rightarrow> request \<Rightarrow> user \<Rightarrow> response \<Rightarrow> wideBase \<times> response" where
  "account_base E r user w =
     (case GenerateToken_or_empty E w of (token, w1) \<Rightarrow>
        (\<lparr>wb_Section = ''account'', wb_CurrentUser = Some user, wb_CSRFToken = token, wb_Flash = values_Get (req_Query r) ''flash'',
          wb_Error = ''''\<rparr>, w1))"

definition account_render :: "env \<Rightarrow> request \<Rightarrow> user \<Rightarrow> response \<Rightarrow> int \<Rightarrow> string \<Rightarrow> site \<Rightarrow> response \<times> site" where
  "account_render E r user w status errMsg s =
     (case currentSessionID E r s of (current, s1) \<Rightarrow>
      case account_base E r user w of (base, w1) \<Rightarrow>
        (let st = si_store s1; uid = user_ID user;
             pks = (case Passkeys_list (en_auth E) uid st of Inr ps \<Rightarrow> ps | Inl _ \<Rightarrow> []);
             data = \<lparr>apd_base = base\<lparr>wb_Error := errMsg\<rparr>,
               apd_Sessions = (case sessions_ListByUserID (en_now E) uid st of
                   Inr xs \<Rightarrow> map (\<lambda>x. \<lparr>acs_Session = x, acs_Current = (session_ID x = current)\<rparr>) xs | Inl _ \<Rightarrow> []),
               apd_Tokens = (case tokens_ListByUserID (en_now E) uid st of Inr ts \<Rightarrow> filter (\<lambda>t. \<not> token_Revoked t) ts | Inl _ \<Rightarrow> []),
               apd_Consents = (case consents_ListByUserID uid st of Inr cs \<Rightarrow> cs | Inl _ \<Rightarrow> []),
               apd_CanChangePassword = (en_account E \<noteq> None), apd_MinPasswordLength = MinPasswordLength,
               apd_PasskeysAvailable = PasskeysAvailable (en_auth E), apd_Passkeys = pks,
               apd_HasSecondFactor = (TOTPEnabled user \<or> length pks > 0)\<rparr>
         in (Render w1 status ''wide/account'' (AccountData data), s1)))"

definition account_Page :: "env \<Rightarrow> user \<Rightarrow> request \<Rightarrow> site \<Rightarrow> response \<times> site" where
  "account_Page E user r s = account_render E r user NewResponse 200 '''' s"

text \<open>The check of the form; the continuation runs when it passes.\<close>

definition account_checkCSRF ::
    "env \<Rightarrow> user \<Rightarrow> request \<Rightarrow> site \<Rightarrow> (response \<times> site) \<Rightarrow> response \<times> site" where
  "account_checkCSRF E user r s ok =
     (if ParseForm r \<noteq> None then account_render E r user NewResponse 400 ''Invalid form data'' s
      else if ValidateToken E r \<noteq> None then account_render E r user NewResponse 400 ''Invalid or expired form, please try again'' s
      else ok)"

definition account_done :: "env \<Rightarrow> request \<Rightarrow> response \<Rightarrow> string \<Rightarrow> response" where
  "account_done E r w flash = http_Redirect (en_U E) r w (''/account?flash='' @ QueryEscape flash) 302"

definition account_record :: "env \<Rightarrow> request \<Rightarrow> user \<Rightarrow> string \<Rightarrow> string \<Rightarrow> site \<Rightarrow> site" where
  "account_record E r user action detail s =
     with_store (Record (rd_uuid (en_rd E)) (en_now E) (en_audit E)
       \<lparr>ae_Actor = Some user, ae_ActorEmail = '''', ae_Action = action, ae_TargetType = ''user'', ae_TargetID = user_ID user,
        ae_Detail = detail, ae_IP = ClientIP (Some (hq_RemoteAddr r))\<rparr> (si_store s)) s"

definition failed_but :: "goerr option \<Rightarrow> errcode \<Rightarrow> bool" where
  "failed_but e code = (case e of None \<Rightarrow> False | Some err \<Rightarrow> \<not> IsCode err code)"

definition account_RevokeSession :: "env \<Rightarrow> user \<Rightarrow> request \<Rightarrow> site \<Rightarrow> response \<times> site" where
  "account_RevokeSession E user r s =
     account_checkCSRF E user r s
       (let w = NewResponse; ident = URLParam r ''sessionID''
        in case sessions_GetByID ident (si_store s) of
             Inl _ \<Rightarrow> (account_done E r w ''Session not found'', s)
           | Inr sess \<Rightarrow>
               if session_UserID sess \<noteq> user_ID user then (account_done E r w ''Session not found'', s)
               else case sessions_Delete ident (si_store s) of (e, st) \<Rightarrow>
                 if failed_but e CodeNotFound
                 then account_render E r user w 500 ''Failed to sign out that session'' (with_store st s)
                 else (case currentSessionID E r
                              (account_record E r user ''user.session_revoked'' (''session '' @ ident @ '' (self-service)'') (with_store st s)) of
                         (current, s1) \<Rightarrow>
                           if ident = current
                           then (case Logout (en_auth E) (en_rd E) (en_now E) (to_web r) (si_auth s1) of (cks, au) \<Rightarrow>
                                   (http_Redirect (en_U E) r (SetCookies cks w) (''/login?message='' @ QueryEscape ''Signed out'') 302,
                                    s1\<lparr>si_auth := au\<rparr>))
                           else (account_done E r w ''Session signed out'', s1)))"

definition delete_others :: "string \<Rightarrow> session list \<Rightarrow> fstore \<Rightarrow> fstore" where
  "delete_others current xs st =
     fold (\<lambda>x st. if session_ID x = current then st else snd (sessions_Delete (session_ID x) st)) xs st"

definition account_RevokeOtherSessions :: "env \<Rightarrow> user \<Rightarrow> request \<Rightarrow> site \<Rightarrow> response \<times> site" where
  "account_RevokeOtherSessions E user r s =
     account_checkCSRF E user r s
       (case currentSessionID E r s of (current, s1) \<Rightarrow>
          (case sessions_ListByUserID (en_now E) (user_ID user) (si_store s1) of
             Inl _ \<Rightarrow> account_render E r user NewResponse 500 ''Failed to list sessions'' s1
           | Inr sessions \<Rightarrow>
               (account_done E r NewResponse ''Signed out everywhere else; refresh tokens revoked'',
                account_record E r user ''user.sessions_revoked'' ''all other sessions and refresh tokens (self-service)''
                  (with_store (snd (tokens_RevokeByUserID (en_now E) (user_ID user) (delete_others current sessions (si_store s1)))) s1))))"

definition account_RevokeToken :: "env \<Rightarrow> user \<Rightarrow> request \<Rightarrow> site \<Rightarrow> response \<times> site" where
  "account_RevokeToken E user r s =
     account_checkCSRF E user r s
       (let w = NewResponse; ident = URLParam r ''tokenID''
        in case tokens_GetByID ident (si_store s) of
             Inl _ \<Rightarrow> (account_done E r w ''Token not found'', s)
           | Inr tok \<Rightarrow>
               if token_UserID tok \<noteq> user_ID user then (account_done E r w ''Token not found'', s)
               else case tokens_Revoke (en_now E) ident (si_store s) of (e, st) \<Rightarrow>
                 if failed_but e CodeNotFound then account_render E r user w 500 ''Failed to revoke token'' (with_store st s)
                 else (account_done E r w ''Refresh token revoked'',
                       account_record E r user ''user.token_revoked'' (''token for '' @ token_ClientID tok @ '' (self-service)'') (with_store st s)))"

definition revoke_client_tokens :: "time \<Rightarrow> string \<Rightarrow> token list \<Rightarrow> fstore \<Rightarrow> fstore" where
  "revoke_client_tokens now clientID ts st =
     fold (\<lambda>t st. if token_ClientID t = clientID \<and> \<not> token_Revoked t then snd (tokens_Revoke now (token_ID t) st) else st) ts st"

definition account_RevokeConsent :: "env \<Rightarrow> user \<Rightarrow> request \<Rightarrow> site \<Rightarrow> response \<times> site" where
  "account_RevokeConsent E user r s =
     account_checkCSRF E user r s
       (let w = NewResponse; clientID = URLParam r ''clientID''
        in case consents_Delete (user_ID user) clientID (si_store s) of (e, st) \<Rightarrow>
             if failed_but e CodeNotFound then account_render E r user w 500 ''Failed to revoke consent'' (with_store st s)
             else let st1 = (case tokens_ListByUserID (en_now E) (user_ID user) st of
                               Inr tokens \<Rightarrow> revoke_client_tokens (en_now E) clientID tokens st | Inl _ \<Rightarrow> st)
                  in (account_done E r w (''Access for '' @ clientID @ '' revoked''),
                      account_record E r user ''user.consent_revoked'' (''client '' @ clientID @ '' (self-service)'') (with_store st1 s)))"

definition account_ChangePassword :: "env \<Rightarrow> user \<Rightarrow> request \<Rightarrow> site \<Rightarrow> response \<times> site" where
  "account_ChangePassword E user r s =
     (let w = NewResponse
      in if en_account E = None then (http_Error w ''404 page not found'' 404, s)
         else account_checkCSRF E user r s
           (let current = FormValue r ''current_password''; nxt = FormValue r ''new_password''; confirm = FormValue r ''confirm_password''
            in case VerifyCurrentPassword (en_P E) (en_now E) user current (si_auth s) of
                 (Some err, au) \<Rightarrow>
                   if Is err ErrAccountLocked then account_render E r user w 403 lockedMessage (s\<lparr>si_auth := au\<rparr>)
                   else account_render E r user w 400 ''Current password is incorrect'' (s\<lparr>si_auth := au\<rparr>)
               | (None, au) \<Rightarrow>
                   (let s1 = s\<lparr>si_auth := au\<rparr>
                    in if nxt \<noteq> confirm then account_render E r user w 400 ''New passwords do not match'' s1
                       else case SetPassword (en_P E) (rd_salt (en_rd E)) (en_now E) user nxt (si_store s1) of
                         ((Some err, user1), st) \<Rightarrow>
                           account_render E r user1 w 400
                             (case as_Error err of Some (c, m) \<Rightarrow> if c = CodeInvalidInput then m else ''Failed to change password''
                              | None \<Rightarrow> ''Failed to change password'') (with_store st s1)
                       | ((None, user1), st) \<Rightarrow>
                           (let s2 = account_record E r user1 ''password.changed'' ''self-service'' (with_store st s1)
                            in case Logout (en_auth E) (en_rd E) (en_now E) (to_web r) (si_auth s2) of (cks, au2) \<Rightarrow>
                                 (http_Redirect (en_U E) r (SetCookies cks w)
                                    (''/login?message='' @ QueryEscape ''Password changed; please sign in again'') 302, s2\<lparr>si_auth := au2\<rparr>)))))"

section \<open>Two-step sign-in\<close>

function groupsOf4 :: "string \<Rightarrow> string list" where
  "groupsOf4 s = (if length s > 4 then take 4 s # groupsOf4 (drop 4 s) else [s])"
  by pat_completeness auto
termination
  by (relation "measure length") auto

declare groupsOf4.simps [simp del]

definition StdEncoding_EncodeToString :: "string \<Rightarrow> string" where
  "StdEncoding_EncodeToString s =
     (let body = RawStdEncoding_EncodeToString s in body @ replicate ((4 - length body mod 4) mod 4) CHR ''='')"

definition renderTwoStepSetup ::
    "env \<Rightarrow> request \<Rightarrow> user \<Rightarrow> int \<Rightarrow> string \<Rightarrow> string \<Rightarrow> response" where
  "renderTwoStepSetup E r user status secret errMsg =
     (case account_base E r user NewResponse of (base, w1) \<Rightarrow>
        Render (Header_Set ''Cache-Control'' ''no-store'' w1) status ''wide/two_step''
          (TwoStepData \<lparr>tsp_base = base\<lparr>wb_Error := errMsg\<rparr>, tsp_Secret = secret, tsp_SecretDisplay = join_spaces (groupsOf4 secret),
             tsp_QRDataURI = (case en_qr E (TOTPURI ''IDPico'' (user_Email user) secret) of
                 Inl _ \<Rightarrow> '''' | Inr png \<Rightarrow> ''data:image/png;base64,'' @ StdEncoding_EncodeToString png),
             tsp_RecoveryCodes = []\<rparr>))"

definition renderRecoveryCodes :: "env \<Rightarrow> request \<Rightarrow> user \<Rightarrow> string list \<Rightarrow> string \<Rightarrow> response" where
  "renderRecoveryCodes E r user codes flash =
     (case account_base E r user NewResponse of (base, w1) \<Rightarrow>
        Render (Header_Set ''Cache-Control'' ''no-store'' w1) 200 ''wide/two_step''
          (TwoStepData \<lparr>tsp_base = base\<lparr>wb_Flash := flash\<rparr>, tsp_Secret = '''', tsp_SecretDisplay = '''', tsp_QRDataURI = '''',
             tsp_RecoveryCodes = codes\<rparr>))"

definition account_TwoStepSetup :: "env \<Rightarrow> user \<Rightarrow> request \<Rightarrow> site \<Rightarrow> response \<times> site" where
  "account_TwoStepSetup E user r s =
     (if TOTPEnabled user then (account_done E r NewResponse ''Two-step sign-in is already on'', s)
      else case NewTOTPSecret (en_totp E) of
        Inl _ \<Rightarrow> account_render E r user NewResponse 500 ''Failed to start setup'' s
      | Inr secret \<Rightarrow> (renderTwoStepSetup E r user 200 secret '''', s))"

definition account_TwoStepEnable :: "env \<Rightarrow> user \<Rightarrow> request \<Rightarrow> site \<Rightarrow> response \<times> site" where
  "account_TwoStepEnable E user r s =
     account_checkCSRF E user r s
       (let secret = FormValue r ''secret''
        in case EnableTOTP (en_P E) (en_auth E) (en_rd E) (en_now E) (to_web r) user (FormValue r ''current_password'') secret
                  (FormValue r ''code'') (si_auth s) of
             ((Inl err, user1), au) \<Rightarrow>
               (let s1 = s\<lparr>si_auth := au\<rparr>
                in if Is err ErrInvalidPassword then (renderTwoStepSetup E r user1 400 secret ''Your current password is incorrect.'', s1)
                   else if Is err ErrAccountLocked then (renderTwoStepSetup E r user1 403 secret lockedMessage, s1)
                   else if Is err ErrInvalidCode
                   then (renderTwoStepSetup E r user1 400 secret
                           (''That code did not match. Check that the app added the account and that your phone''
                            @ [CHR 0x27] @ ''s clock is right, then try the current code.''), s1)
                   else account_render E r user1 NewResponse 500 ''Failed to turn on two-step sign-in'' s1)
           | ((Inr codes, user1), au) \<Rightarrow> (renderRecoveryCodes E r user1 codes ''Two-step sign-in is on.'', s\<lparr>si_auth := au\<rparr>))"

definition twoStepError :: "env \<Rightarrow> request \<Rightarrow> user \<Rightarrow> goerr \<Rightarrow> site \<Rightarrow> response \<times> site" where
  "twoStepError E r user err s =
     (if Is err ErrInvalidCode
      then account_render E r user NewResponse 400 ''That code is not valid. Use the current code from your app, or a recovery code.'' s
      else if Is err ErrAccountLocked then account_render E r user NewResponse 403 lockedMessage s
      else if Is err ErrInvalidPassword then account_render E r user NewResponse 400 ''Your current password is incorrect.'' s
      else account_render E r user NewResponse 500 ''Failed to change two-step sign-in'' s)"

definition account_TwoStepDisable :: "env \<Rightarrow> user \<Rightarrow> request \<Rightarrow> site \<Rightarrow> response \<times> site" where
  "account_TwoStepDisable E user r s =
     account_checkCSRF E user r s
       (case DisableTOTP (en_P E) (en_auth E) (en_rd E) (en_now E) (to_web r) user (FormValue r ''code'') (si_auth s) of
          ((Some err, user1), au) \<Rightarrow> twoStepError E r user1 err (s\<lparr>si_auth := au\<rparr>)
        | ((None, _), au) \<Rightarrow> (account_done E r NewResponse ''Two-step sign-in is off'', s\<lparr>si_auth := au\<rparr>))"

definition account_TwoStepRecoveryCodes :: "env \<Rightarrow> user \<Rightarrow> request \<Rightarrow> site \<Rightarrow> response \<times> site" where
  "account_TwoStepRecoveryCodes E user r s =
     account_checkCSRF E user r s
       (case RenewRecoveryCodes (en_P E) (en_auth E) (en_rd E) (en_now E) (to_web r) user (FormValue r ''code'')
               (FormValue r ''current_password'') (si_auth s) of
          ((Inl err, user1), au) \<Rightarrow> twoStepError E r user1 err (s\<lparr>si_auth := au\<rparr>)
        | ((Inr codes, user1), au) \<Rightarrow>
            (renderRecoveryCodes E r user1 codes ''New recovery codes; the old ones no longer work.'', s\<lparr>si_auth := au\<rparr>))"

section \<open>Passkeys\<close>

definition jsonCSRF :: "env \<Rightarrow> request \<Rightarrow> site \<Rightarrow> (response \<times> site) \<Rightarrow> response \<times> site" where
  "jsonCSRF E r s ok =
     (if ParseForm r \<noteq> None then (passkeyError NewResponse 400 ''Invalid request.'', s)
      else if ValidateToken E r \<noteq> None then (passkeyError NewResponse 400 ''This page has expired. Reload it and try again.'', s)
      else ok)"

definition account_PasskeyRegisterBegin :: "env \<Rightarrow> user \<Rightarrow> request \<Rightarrow> site \<Rightarrow> response \<times> site" where
  "account_PasskeyRegisterBegin E user r0 s =
     (let r = MaxBytesReader maxPasskeyResponse r0
      in jsonCSRF E r s
        (case BeginPasskeyRegistration (en_P E) (en_W E) (en_auth E) (en_now E) user (FormValue r ''current_password'') (si_auth s) of
           (Inl err, au) \<Rightarrow> (passkeyFailure NewResponse err, s\<lparr>si_auth := au\<rparr>)
         | (Inr creation, au) \<Rightarrow> (writeJSON NewResponse 200 (JsonRaw creation), s\<lparr>si_auth := au\<rparr>)))"

definition account_PasskeyRegisterFinish :: "env \<Rightarrow> user \<Rightarrow> request \<Rightarrow> site \<Rightarrow> response \<times> site" where
  "account_PasskeyRegisterFinish E user r0 s =
     (let r = MaxBytesReader maxPasskeyResponse r0
      in jsonCSRF E r s
        (case FinishPasskeyRegistration (en_P E) (en_W E) (en_auth E) (en_rd E) (en_now E) (to_web r) user (FormValue r ''name'')
                (FormValue r ''credential'') (si_auth s) of
           (Inl err, au) \<Rightarrow> (passkeyFailure NewResponse err, s\<lparr>si_auth := au\<rparr>)
         | (Inr codes, au) \<Rightarrow>
             (if length codes > 0
              then writeJSON NewResponse 200 (Json [''recovery_codes'' \<mapsto> JArr (map JString codes)])
              else writeJSON NewResponse 200 (Json [''redirect'' \<mapsto> JString (''/account?flash='' @ QueryEscape ''Passkey added'')]),
              s\<lparr>si_auth := au\<rparr>)))"

definition account_PasskeyRemove :: "env \<Rightarrow> user \<Rightarrow> request \<Rightarrow> site \<Rightarrow> response \<times> site" where
  "account_PasskeyRemove E user r s =
     account_checkCSRF E user r s
       (case RemovePasskey (en_P E) (en_auth E) (en_rd E) (en_now E) (to_web r) user (URLParam r ''passkeyID'')
               (FormValue r ''current_password'') (si_auth s) of
          ((Some err, user1), au) \<Rightarrow>
            (let s1 = s\<lparr>si_auth := au\<rparr>
             in if Is err ErrInvalidPassword then account_render E r user1 NewResponse 400 ''Your current password is incorrect.'' s1
                else if Is err ErrAccountLocked then account_render E r user1 NewResponse 403 lockedMessage s1
                else if IsCode err CodeNotFound then (account_done E r NewResponse ''Passkey not found'', s1)
                else account_render E r user1 NewResponse 500 ''Failed to remove the passkey'' s1)
        | ((None, _), au) \<Rightarrow> (account_done E r NewResponse ''Passkey removed'', s\<lparr>si_auth := au\<rparr>))"

end
