(* ===== verification/Durations.thy ===== *)
theory Durations
  imports Account Totp
begin

text \<open>
  Durations as people type them in a form: \<open>time.ParseDuration\<close>, and \<open>parseTTLField\<close> and \<open>ttlForm\<close> of
  \<open>internal/http/admin.go\<close>, which add a day unit. The product of a fraction and its unit is computed
  in \<open>float64\<close>; it is the argument \<open>frac\<close>.
\<close>

section \<open>time.ParseDuration\<close>

definition leadingInt :: "string \<Rightarrow> (nat \<times> string) option" where
  "leadingInt s =
     (let ds = takeWhile is_digit s;
          step = (\<lambda>acc c. case acc of
                    None \<Rightarrow> None
                  | Some x \<Rightarrow> if x > 2 ^ 63 div 10 then None
                              else let y = x * 10 + (byte c - 48) in if y > 2 ^ 63 then None else Some y)
      in case foldl step (Some 0) ds of None \<Rightarrow> None | Some x \<Rightarrow> Some (x, dropWhile is_digit s))"

text \<open>The digits after the point: their value and the power of ten below it; digits that overflow are skipped.\<close>

definition leadingFraction :: "string \<Rightarrow> nat \<times> nat \<times> string" where
  "leadingFraction s =
     (let step = (\<lambda>(x, scale, overflow) c.
                    if overflow then (x, scale, True)
                    else if x > (2 ^ 63 - 1) div 10 then (x, scale, True)
                    else let y = x * 10 + (byte c - 48) in if y > 2 ^ 63 then (x, scale, True) else (y, scale * 10, False))
      in case foldl step (0, 1, False) (takeWhile is_digit s) of (x, scale, _) \<Rightarrow> (x, scale, dropWhile is_digit s))"

definition unitMap :: "string \<Rightarrow> nat option" where
  "unitMap u =
     (if u = ''ns'' then Some 1
      else if u = ''us'' \<or> u = [CHR 0xC2, CHR 0xB5, CHR ''s''] \<or> u = [CHR 0xCE, CHR 0xBC, CHR ''s''] then Some 1000
      else if u = ''ms'' then Some 1000000
      else if u = ''s'' then Some 1000000000
      else if u = ''m'' then Some 60000000000
      else if u = ''h'' then Some 3600000000000
      else None)"

text \<open>One number with its unit: the nanoseconds and what follows; \<open>None\<close> is any of the errors.\<close>

definition duration_term :: "(nat \<Rightarrow> nat \<Rightarrow> nat \<Rightarrow> nat) \<Rightarrow> string \<Rightarrow> (nat \<times> string) option" where
  "duration_term frac s =
     (if \<not> (take 1 s = ''.'' \<or> list_ex is_digit (take 1 s)) then None
      else case leadingInt s of
        None \<Rightarrow> None
      | Some (v, s1) \<Rightarrow>
          (let pre = (length s \<noteq> length s1);
               point = (take 1 s1 = ''.'');
               (f, scale, s2) = (if point then leadingFraction (drop 1 s1) else (0, 1, s1));
               post = (point \<and> length (drop 1 s1) \<noteq> length s2);
               is_unit = (\<lambda>c. \<not> (c = CHR ''.'' \<or> is_digit c));
               u = takeWhile is_unit s2;
               rest = dropWhile is_unit s2
           in if \<not> pre \<and> \<not> post then None
              else if u = '''' then None
              else case unitMap u of
                None \<Rightarrow> None
              | Some ns \<Rightarrow>
                  if v > 2 ^ 63 div ns then None
                  else let w = v * ns + (if f > 0 then frac f ns scale else 0)
                       in if f > 0 \<and> w > 2 ^ 63 then None else Some (w, rest)))"

lemma duration_term_shorter: "duration_term frac s = Some (w, rest) \<Longrightarrow> length rest < length s"
proof -
  assume a: "duration_term frac s = Some (w, rest)"
  have li: "leadingInt s = Some (v, s1) \<Longrightarrow> length s1 \<le> length s" for v s1
    by (auto simp: leadingInt_def Let_def length_dropWhile_le split: option.splits)
  have lf: "leadingFraction s = (f, scale, s2) \<Longrightarrow> length s2 \<le> length s" for s f scale s2
    by (auto simp: leadingFraction_def Let_def length_dropWhile_le split: prod.splits)
  obtain v s1 where l: "leadingInt s = Some (v, s1)" using a by (auto simp: duration_term_def split: if_splits option.splits)
  obtain f scale s2 where d: "(if take 1 s1 = ''.'' then leadingFraction (drop 1 s1) else (0, 1, s1)) = (f, scale, s2)"
    by (metis prod_cases3)
  let ?u = "takeWhile (\<lambda>c. \<not> (c = CHR ''.'' \<or> is_digit c)) s2"
  have "?u \<noteq> [] \<and> rest = dropWhile (\<lambda>c. \<not> (c = CHR ''.'' \<or> is_digit c)) s2"
    using a l d unfolding duration_term_def
    by (simp only: l option.case prod.case d Let_def) (auto split: if_splits option.splits)
  then have "length rest < length s2" by (metis append_self_conv2 length_append length_greater_0_conv less_add_same_cancel2 takeWhile_dropWhile_id)
  moreover have "length s2 \<le> length s1" using d lf [of "drop 1 s1" f scale s2] by (auto split: if_splits)
  ultimately show ?thesis using li [OF l] by simp
qed

function duration_terms :: "(nat \<Rightarrow> nat \<Rightarrow> nat \<Rightarrow> nat) \<Rightarrow> nat \<Rightarrow> string \<Rightarrow> nat option" where
  "duration_terms frac d s =
     (if s = '''' then Some d
      else case duration_term frac s of
        None \<Rightarrow> None
      | Some (v, rest) \<Rightarrow> if d + v > 2 ^ 63 then None else duration_terms frac (d + v) rest)"
  by pat_completeness auto
termination
  by (relation "measure (\<lambda>(frac, d, s). length s)") (auto dest: duration_term_shorter)

declare duration_terms.simps [simp del]

definition ParseDuration :: "(nat \<Rightarrow> nat \<Rightarrow> nat \<Rightarrow> nat) \<Rightarrow> string \<Rightarrow> duration res" where
  "ParseDuration frac s =
     (let neg = (take 1 s = ''-'');
          s1 = (if take 1 s = ''-'' \<or> take 1 s = ''+'' then drop 1 s else s)
      in if s1 = ''0'' then Inr 0
         else if s1 = '''' then Inl (Plain ''time: invalid duration'')
         else case duration_terms frac 0 s1 of
           None \<Rightarrow> Inl (Plain ''time: invalid duration'')
         | Some d \<Rightarrow>
             if neg then Inr (- int d)
             else if d > 2 ^ 63 - 1 then Inl (Plain ''time: invalid duration'')
             else Inr (int d))"

section \<open>The lifetime fields of the client form\<close>

definition HasSuffix :: "string \<Rightarrow> string \<Rightarrow> bool" where
  "HasSuffix s suffix \<longleftrightarrow> length suffix \<le> length s \<and> drop (length s - length suffix) s = suffix"

definition parseTTLField :: "(nat \<Rightarrow> nat \<Rightarrow> nat \<Rightarrow> nat) \<Rightarrow> string \<Rightarrow> duration \<times> string" where
  "parseTTLField frac field =
     (let v = TrimSpace field
      in if v = '''' then (0, '''')
         else if HasSuffix v ''d'' then
           (case Atoi (butlast v) of
              Inl _ \<Rightarrow> (0, ''Invalid duration: '' @ v)
            | Inr n \<Rightarrow> if n \<le> 0 then (0, ''Invalid duration: '' @ v) else (wrap64 (wrap64 (n * 24) * hour), ''''))
         else
           (case ParseDuration frac v of
              Inl _ \<Rightarrow> (0, ''Invalid duration: '' @ v @ '' (use e.g. 15m, 12h, 7d)'')
            | Inr d \<Rightarrow> if d \<le> 0 then (0, ''Invalid duration: '' @ v @ '' (use e.g. 15m, 12h, 7d)'') else (d, '''')))"

definition ttlForm :: "duration \<Rightarrow> string" where
  "ttlForm d =
     (if d \<le> 0 then ''''
      else if d mod (24 * hour) = 0 then format_int (d div (24 * hour)) @ ''d''
      else if d mod hour = 0 then format_int (d div hour) @ ''h''
      else if d mod minute = 0 then format_int (d div minute) @ ''m''
      else Duration_String d)"

section \<open>What the form shows is read back\<close>

lemma leadingInt_fold:
  "decimal ds \<le> 2 ^ 63 \<Longrightarrow> list_all is_digit ds \<Longrightarrow>
     foldl (\<lambda>acc c. case acc of
                    None \<Rightarrow> None
                  | Some x \<Rightarrow> if x > 2 ^ 63 div 10 then None
                              else let y = x * 10 + (byte c - 48) in if y > 2 ^ 63 then None else Some y) (Some 0) ds = Some (decimal ds)"
proof (induction ds rule: rev_induct)
  case (snoc c ds)
  then show ?case by (simp add: decimal_snoc Let_def)
qed (simp add: decimal_def)

lemma leadingInt_digits10:
  assumes "n \<le> 2 ^ 63" and "rest = [] \<or> \<not> is_digit (hd rest)"
  shows "leadingInt (digits10 n @ rest) = Some (n, rest)"
proof -
  have "takeWhile is_digit (digits10 n @ rest) = digits10 n \<and> dropWhile is_digit (digits10 n @ rest) = rest"
    using digits10_is_digit [of _ n] assms(2) by (cases rest) (auto simp: takeWhile_append dropWhile_append)
  then show ?thesis using leadingInt_fold [of "digits10 n"] assms(1) digits10_is_digit [of _ n]
    by (simp add: leadingInt_def Let_def decimal_digits10 list_all_iff)
qed

lemma digits10_first: "take 1 (digits10 n @ s) \<noteq> ''-'' \<and> take 1 (digits10 n @ s) \<noteq> ''+'' \<and> list_ex is_digit (take 1 (digits10 n @ s))"
proof -
  obtain c cs where ds: "digits10 n = c # cs" "is_digit c"
    using digits10_nonempty [of n] digits10_is_digit [of _ n] by (cases "digits10 n") auto
  then show ?thesis by (auto simp: is_digit_def)
qed

text \<open>A number with one of the units \<open>m\<close> and \<open>h\<close>.\<close>

lemma ParseDuration_unit:
  assumes "c \<in> {CHR ''m'', CHR ''h''}" and "unitMap [c] = Some ns" and "n * ns \<le> 2 ^ 63 - 1" and "0 < ns"
  shows "ParseDuration frac (digits10 n @ [c]) = Inr (int (n * ns))"
proof -
  let ?s = "digits10 n @ [c]"
  have nd: "\<not> is_digit c" "c \<noteq> CHR ''.''" using assms(1) by (auto simp: is_digit_def)
  have "n \<le> n * ns" using assms(4) by simp
  then have n: "n \<le> 2 ^ 63" using assms(3) by linarith
  have "n \<le> 2 ^ 63 div ns" using assms(3,4) by (simp add: less_eq_div_iff_mult_less_eq)
  then have "duration_term frac ?s = Some (n * ns, [])"
    using digits10_first [of n "[c]"] leadingInt_digits10 [OF n, of "[c]"] nd assms(2)
    by (simp add: duration_term_def Let_def digits10_nonempty)
  moreover have "?s \<noteq> []" "?s \<noteq> ''0''" using nd(1) digits10_nonempty [of n] by (auto simp: append_eq_Cons_conv)
  moreover have "duration_terms frac 0 ?s = Some (n * ns)"
    using calculation assms(3) by (subst duration_terms.simps) (simp add: duration_terms.simps)
  ultimately show ?thesis using digits10_first [of n "[c]"] assms(3) digits10_nonempty [of n] unfolding ParseDuration_def Let_def by simp
qed

lemma Atoi_digits10: "int n < 2 ^ 63 \<Longrightarrow> Atoi (digits10 n) = Inr (int n)"
  using digits10_first [of n "[]"] digits10_is_digit [of _ n]
  by (auto simp: Atoi_def Let_def digits10_nonempty list_all_iff decimal_digits10)

lemma digits10_token: "33 \<le> (of_char c :: nat) \<Longrightarrow> (of_char c :: nat) < 127 \<Longrightarrow> scope_token (digits10 n @ [c])"
  using digits10_is_digit [of _ n] is_digit_token by (auto simp: scope_token_def)

lemma parse_ttl_days:
  assumes "0 < n" and "int n * (24 * hour) < 2 ^ 63"
  shows "parseTTLField frac (digits10 n @ ''d'') = (int n * (24 * hour), '''')"
proof -
  have "wrap64 (int n * 24) = int n * 24" "wrap64 (int n * 24 * hour) = int n * 24 * hour"
    using assms by (auto intro!: wrap64_id)
  then show ?thesis using assms Atoi_digits10 [of n] TrimSpace_token [OF digits10_token, of "CHR ''d''" n]
    by (simp add: parseTTLField_def Let_def HasSuffix_def mult.assoc)
qed

lemma parse_ttl_unit:
  assumes "0 < n" and "c \<in> {CHR ''m'', CHR ''h''}" and "unitMap [c] = Some ns" and "n * ns \<le> 2 ^ 63 - 1" and "0 < ns"
  shows "parseTTLField frac (digits10 n @ [c]) = (int (n * ns), '''')"
proof -
  have "TrimSpace (digits10 n @ [c]) = digits10 n @ [c]" by (rule TrimSpace_token [OF digits10_token]) (use assms(2) in auto)
  moreover have "0 < int n * int ns" using assms(1,5) by simp
  ultimately show ?thesis using assms(2) ParseDuration_unit [OF assms(2-5), of frac]
    by (auto simp: parseTTLField_def Let_def HasSuffix_def)
qed

lemma ttl_roundtrip:
  assumes "0 < d" and "d < 2 ^ 63" and "d mod minute = 0"
  shows "parseTTLField frac (ttlForm d) = (d, '''')"
proof -
  have f: "format_int (d div k) = digits10 (nat (d div k))" if "0 < k" for k using that assms(1) pos_imp_zdiv_nonneg_iff [of k d] by (simp add: format_int_def)
  have p: "0 < nat (d div k)" "int (nat (d div k)) * k = d" if "0 < k" "d mod k = 0" for k
  proof -
    have "d div k * k = d" using that div_mult_mod_eq [of d k] by simp
    then have "0 < d div k" using that(1) assms(1) by (metis mult_eq_0_iff neg_imp_zdiv_neg_iff not_less_iff_gr_or_eq pos_imp_zdiv_neg_iff)
    with \<open>d div k * k = d\<close> show "0 < nat (d div k)" "int (nat (d div k)) * k = d" by simp_all
  qed
  have b: "m \<le> 2 ^ 63 - 1" if "int m = d" for m :: nat
  proof -
    have "m < 2 ^ 63" using that assms(2) by (simp add: nat_less_iff [symmetric])
    then show ?thesis by simp
  qed
  have unit: "parseTTLField frac (ttlForm d) = (d, [])"
    if u: "u \<in> {''m'', ''h''}" "unitMap u = Some (nat k)" "0 < k" "d mod k = 0" "ttlForm d = digits10 (nat (d div k)) @ u" for u k
  proof -
    obtain c where c: "u = [c]" "c \<in> {CHR ''m'', CHR ''h''}" using u(1) by auto
    have e: "int (nat (d div k) * nat k) = d" using p(2) [OF u(3,4)] u(3) by simp
    have "parseTTLField frac (digits10 (nat (d div k)) @ [c]) = (int (nat (d div k) * nat k), [])"
      by (rule parse_ttl_unit [OF p(1) [OF u(3,4)] c(2) _ b [OF e]]) (use u(2,3) c(1) in auto)
    then show ?thesis using e u(5) c(1) by simp
  qed
  consider "d mod (24 * hour) = 0" | "d mod (24 * hour) \<noteq> 0" "d mod hour = 0" | "d mod (24 * hour) \<noteq> 0" "d mod hour \<noteq> 0" by blast
  then show ?thesis
  proof cases
    case 1
    have "ttlForm d = digits10 (nat (d div (24 * hour))) @ ''d''" unfolding ttlForm_def using 1 assms(1) f [of "24 * hour"] by simp
    moreover have "parseTTLField frac (digits10 (nat (d div (24 * hour))) @ ''d'') = (int (nat (d div (24 * hour))) * (24 * hour), [])"
      by (rule parse_ttl_days) (use p [OF _ 1] assms(2) in \<open>simp_all only: zero_less_mult_iff, simp_all\<close>)
    ultimately show ?thesis using p(2) [OF _ 1] by simp
  next
    case 2
    show ?thesis by (rule unit [of "''h''"]) (use 2 assms(1) f [of hour] in \<open>simp_all add: ttlForm_def unitMap_def\<close>)
  next
    case 3
    show ?thesis by (rule unit [of "''m''"]) (use 3 assms f [of minute] in \<open>simp_all add: ttlForm_def unitMap_def\<close>)
  qed
qed

text \<open>The product of a day count and its unit wraps around: more than 292 years become a negative lifetime, twice as much 25 minutes.\<close>

lemma ttl_days_overflow:
  "parseTTLField frac ''106752d'' = (-9223371273709551616, '''')" "parseTTLField frac ''213504d'' = (1526290448384, '''')"
proof -
  have t: "TrimSpace ''106752d'' = ''106752d''" "TrimSpace ''213504d'' = ''213504d''" by code_simp+
  have a: "Atoi ''106752'' = Inr 106752" "Atoi ''213504'' = Inr 213504" by (simp_all add: Atoi_def decimal_def is_digit_def)
  show "parseTTLField frac ''106752d'' = (-9223371273709551616, '''')" "parseTTLField frac ''213504d'' = (1526290448384, '''')"
    by (simp_all add: parseTTLField_def t a HasSuffix_def wrap64_def)
qed

end
