(* ===== verification/AdminHandlers.thy ===== *)
theory AdminHandlers
  imports AccountHandlers Durations
begin

text \<open>
  The administration pages, \<open>internal/http/admin.go\<close>. Every handler runs behind \<open>requireAdmin\<close>, which
  hands it the signed-in administrator, and every form behind \<open>checkCSRF\<close>. \<open>admin\<close> has the configuration
  of the pages with what a request draws beyond the environment.
\<close>

section \<open>Configuration and plumbing\<close>

record admin =
  am_account :: account_service
  am_keys :: bool
  am_IssuerURL :: string
  am_KeyGracePeriod :: duration
  am_GroupsClaim :: string
  am_AccessTokenTTL :: duration
  am_RefreshTokenTTL :: duration
  am_Playground :: bool
  am_Quote :: "string \<Rightarrow> string"
  am_frac :: "nat \<Rightarrow> nat \<Rightarrow> nat \<Rightarrow> nat"
  am_newID :: string
  am_secret :: "string res"
  am_link2 :: "string res"
  am_uuid2 :: string
  am_keygen :: keygen

definition NewAdminHandler :: "admin \<Rightarrow> admin" where
  "NewAdminHandler cfg =
     (let c1 = (if am_KeyGracePeriod cfg = 0 then cfg\<lparr>am_KeyGracePeriod := 24 * hour\<rparr> else cfg)
      in if am_GroupsClaim c1 = '''' then c1\<lparr>am_GroupsClaim := ''groups''\<rparr> else c1)"

text \<open>The response as \<open>requireAdmin\<close> hands it on.\<close>

definition admin_w :: response where
  "admin_w = Header_Set ''Cache-Control'' ''no-store'' NewResponse"

definition requireAdmin :: "env \<Rightarrow> (user \<Rightarrow> request \<Rightarrow> site \<Rightarrow> response \<times> site) \<Rightarrow> request \<Rightarrow> site \<Rightarrow> response \<times> site" where
  "requireAdmin E next_h r s =
     (case GetCurrentUser (en_now E) (to_web r) (si_auth s) of
        (Inl _, au) \<Rightarrow>
          (http_Redirect (en_U E) r NewResponse (''/login?return_url='' @ QueryEscape (hq_RequestURI r)) 302, s\<lparr>si_auth := au\<rparr>)
      | (Inr user, au) \<Rightarrow>
          if \<not> user_Admin user
          then (Render NewResponse 403 ''message''
                  (MessageData (empty_message\<lparr>mp_Title := ''Access Denied'',
                     mp_Error := ''Your account ('' @ user_Email user @ '') is not an administrator.'',
                     mp_BackURL := ''/logout'', mp_BackLabel := ''Sign out''\<rparr>)), s\<lparr>si_auth := au\<rparr>)
          else next_h user r (s\<lparr>si_auth := au\<rparr>))"

definition admin_record :: "env \<Rightarrow> string \<Rightarrow> request \<Rightarrow> user \<Rightarrow> string \<Rightarrow> string \<Rightarrow> string \<Rightarrow> string \<Rightarrow> site \<Rightarrow> site" where
  "admin_record E uuid r actor action targetType targetID detail s =
     with_store (Record uuid (en_now E) (en_audit E)
       \<lparr>ae_Actor = Some actor, ae_ActorEmail = '''', ae_Action = action, ae_TargetType = targetType, ae_TargetID = targetID,
        ae_Detail = detail, ae_IP = ClientIP (Some (hq_RemoteAddr r))\<rparr> (si_store s)) s"

abbreviation recordU :: "env \<Rightarrow> request \<Rightarrow> user \<Rightarrow> string \<Rightarrow> string \<Rightarrow> string \<Rightarrow> string \<Rightarrow> site \<Rightarrow> site" where
  "recordU E \<equiv> admin_record E (rd_uuid (en_rd E))"

definition admin_base :: "admin \<Rightarrow> env \<Rightarrow> user \<Rightarrow> request \<Rightarrow> string \<Rightarrow> response \<Rightarrow> adminBase \<times> response" where
  "admin_base A E me r section w =
     (case GenerateToken_or_empty E w of (token, w1) \<Rightarrow>
        (\<lparr>ab_Section = section, ab_CurrentUser = Some me, ab_CSRFToken = token, ab_Flash = values_Get (req_Query r) ''flash'',
          ab_Error = '''', ab_PlaygroundEnabled = am_Playground A\<rparr>, w1))"

text \<open>The base of a page that is not rendered yet.\<close>

definition no_base :: adminBase where
  "no_base = \<lparr>ab_Section = '''', ab_CurrentUser = None, ab_CSRFToken = '''', ab_Flash = '''', ab_Error = '''', ab_PlaygroundEnabled = False\<rparr>"

definition admin_fail :: "int \<Rightarrow> string \<Rightarrow> response" where
  "admin_fail status msg =
     Render admin_w status ''message''
       (MessageData (empty_message\<lparr>mp_Title := ''Error'', mp_Error := msg, mp_BackURL := ''/admin'', mp_BackLabel := ''Back to admin''\<rparr>))"

definition admin_notFound :: "string \<Rightarrow> response" where
  "admin_notFound what = admin_fail 404 (what @ '' not found'')"

definition admin_redirect :: "env \<Rightarrow> request \<Rightarrow> string \<Rightarrow> string \<Rightarrow> response" where
  "admin_redirect E r target flash =
     http_Redirect (en_U E) r admin_w (if flash \<noteq> '''' then target @ ''?flash='' @ QueryEscape flash else target) 302"

definition admin_checkCSRF :: "env \<Rightarrow> request \<Rightarrow> site \<Rightarrow> (response \<times> site) \<Rightarrow> response \<times> site" where
  "admin_checkCSRF E r s ok =
     (if ParseForm r \<noteq> None then (admin_fail 400 ''Invalid form data'', s)
      else if ValidateToken E r \<noteq> None then (admin_fail 400 ''Invalid or expired form, please go back and try again'', s)
      else ok)"

definition loadUser :: "request \<Rightarrow> site \<Rightarrow> (user \<Rightarrow> response \<times> site) \<Rightarrow> response \<times> site" where
  "loadUser r s k =
     (case users_GetByID (URLParam r ''id'') (si_store s) of
        Inl err \<Rightarrow> ((if IsCode err CodeNotFound then admin_notFound ''User'' else admin_fail 500 ''Failed to load user''), s)
      | Inr user \<Rightarrow> k user)"

definition loadGroup :: "request \<Rightarrow> site \<Rightarrow> (group \<Rightarrow> response \<times> site) \<Rightarrow> response \<times> site" where
  "loadGroup r s k =
     (case groups_GetByID (URLParam r ''id'') (si_store s) of
        Inl err \<Rightarrow> ((if IsCode err CodeNotFound then admin_notFound ''Group'' else admin_fail 500 ''Failed to load group''), s)
      | Inr grp \<Rightarrow> k grp)"

definition loadClient :: "request \<Rightarrow> site \<Rightarrow> (client \<Rightarrow> response \<times> site) \<Rightarrow> response \<times> site" where
  "loadClient r s k =
     (case clients_GetByID (URLParam r ''id'') (si_store s) of
        Inl err \<Rightarrow> ((if IsCode err CodeNotFound then admin_notFound ''Client'' else admin_fail 500 ''Failed to load client''), s)
      | Inr client \<Rightarrow> k client)"

definition or_nil :: "'a list res \<Rightarrow> 'a list" where
  "or_nil x = (case x of Inr xs \<Rightarrow> xs | Inl _ \<Rightarrow> [])"

section \<open>Dashboard, keys and audit log\<close>

definition admin_Dashboard :: "admin \<Rightarrow> env \<Rightarrow> user \<Rightarrow> request \<Rightarrow> site \<Rightarrow> response \<times> site" where
  "admin_Dashboard A E me r s =
     (case admin_base A E me r '''' admin_w of (base, w1) \<Rightarrow>
        (Render w1 200 ''admin/dashboard''
           (DashboardData \<lparr>dd_base = base, dd_UserCount = length (or_nil (users_List (si_store s))),
              dd_GroupCount = length (or_nil (groups_List (en_P E) (si_store s))),
              dd_ClientCount = length (or_nil (clients_List (si_store s))),
              dd_KeyCount = (if am_keys A then length (or_nil (ListKeys (si_keys s))) else 0), dd_IssuerURL = am_IssuerURL A\<rparr>), s))"

definition admin_Keys :: "admin \<Rightarrow> env \<Rightarrow> user \<Rightarrow> request \<Rightarrow> site \<Rightarrow> response \<times> site" where
  "admin_Keys A E me r s =
     (if \<not> am_keys A then (admin_fail 404 ''Key management is not enabled'', s)
      else case ListKeys (si_keys s) of
        Inl _ \<Rightarrow> (admin_fail 500 ''Failed to list keys'', s)
      | Inr ks \<Rightarrow>
          (case admin_base A E me r ''keys'' admin_w of (base, w1) \<Rightarrow>
             (Render w1 200 ''admin/keys'' (KeysData \<lparr>kd_base = base, kd_Keys = ks, kd_GracePeriod = Duration_String (am_KeyGracePeriod A)\<rparr>), s)))"

definition admin_RotateKey :: "admin \<Rightarrow> env \<Rightarrow> user \<Rightarrow> request \<Rightarrow> site \<Rightarrow> response \<times> site" where
  "admin_RotateKey A E me r s =
     admin_checkCSRF E r s
       (if \<not> am_keys A then (admin_fail 404 ''Key management is not enabled'', s)
        else case RotateKey (am_keygen A) (en_now E) (am_KeyGracePeriod A) (si_keys s) of
          (Inl _, ks) \<Rightarrow> (admin_redirect E r ''/admin/keys'' ''Failed to rotate key'', s\<lparr>si_keys := ks\<rparr>)
        | (Inr key, ks) \<Rightarrow>
            (admin_redirect E r ''/admin/keys'' (''New signing key '' @ kp_Kid key @ '' is active''),
             recordU E r me ''key.rotated'' ''key'' (kp_Kid key) ''rotated from admin UI'' (s\<lparr>si_keys := ks\<rparr>)))"

definition admin_Audit :: "admin \<Rightarrow> env \<Rightarrow> user \<Rightarrow> request \<Rightarrow> site \<Rightarrow> response \<times> site" where
  "admin_Audit A E me r s =
     (case audit_List 200 (si_store s) of
        Inl _ \<Rightarrow> (admin_fail 500 ''Failed to load audit log'', s)
      | Inr events \<Rightarrow>
          (case admin_base A E me r ''audit'' admin_w of (base, w1) \<Rightarrow>
             (Render w1 200 ''admin/audit'' (AuditData \<lparr>ad_base = base, ad_Events = events, ad_Limit = 200\<rparr>), s)))"

section \<open>Users\<close>

definition empty_user :: user where
  "empty_user = \<lparr>user_ID = '''', user_Email = '''', user_PasswordHash = '''', user_DisplayName = '''', user_GivenName = '''',
     user_FamilyName = '''', user_Active = False, user_EmailVerified = False, user_Admin = False, user_TOTPSecret = '''',
     user_TOTPLastStep = 0, user_RecoveryCodes = [], user_CreatedAt = zero_time, user_UpdatedAt = zero_time\<rparr>"

definition user_form :: "bool \<Rightarrow> user \<Rightarrow> string \<Rightarrow> userFormData" where
  "user_form isNew user err =
     \<lparr>uf_base = no_base\<lparr>ab_Error := err\<rparr>, uf_IsNew = isNew, uf_IsSelf = False, uf_User = Some user, uf_Consents = [], uf_AllGroups = [],
      uf_Sessions = [], uf_Tokens = [], uf_Passkeys = [], uf_MinPasswordLength = 0\<rparr>"

text \<open>The base of the page replaces the one in the data, with the error in it.\<close>

definition renderUserForm :: "admin \<Rightarrow> env \<Rightarrow> user \<Rightarrow> request \<Rightarrow> int \<Rightarrow> userFormData \<Rightarrow> site \<Rightarrow> response" where
  "renderUserForm A E me r status data s =
     (case admin_base A E me r ''users'' admin_w of (base, w1) \<Rightarrow>
        (let d1 = data\<lparr>uf_base := base, uf_MinPasswordLength := MinPasswordLength\<rparr>;
             d2 = (case uf_User data of Some u \<Rightarrow> d1\<lparr>uf_IsSelf := (user_ID u = user_ID me)\<rparr> | None \<Rightarrow> d1);
             d3 = (case uf_User data of
                     Some u \<Rightarrow> if \<not> uf_IsNew data then d2\<lparr>uf_Passkeys := or_nil (passkeys_ListByUserID (user_ID u) (si_store s))\<rparr> else d2
                   | None \<Rightarrow> d2)
         in Render w1 status ''admin/user_form'' (UserFormData d3)))"

definition admin_Users :: "admin \<Rightarrow> env \<Rightarrow> user \<Rightarrow> request \<Rightarrow> site \<Rightarrow> response \<times> site" where
  "admin_Users A E me r s =
     (case users_List (si_store s) of
        Inl _ \<Rightarrow> (admin_fail 500 ''Failed to list users'', s)
      | Inr users \<Rightarrow>
          (case admin_base A E me r ''users'' admin_w of (base, w1) \<Rightarrow>
             (Render w1 200 ''admin/users'' (UsersData \<lparr>ud_base = base, ud_Users = users\<rparr>), s)))"

definition admin_NewUser :: "admin \<Rightarrow> env \<Rightarrow> user \<Rightarrow> request \<Rightarrow> site \<Rightarrow> response \<times> site" where
  "admin_NewUser A E me r s =
     (renderUserForm A E me r 200 (user_form True (empty_user\<lparr>user_Active := True\<rparr>) '''') s, s)"

definition randomSecret :: "string res \<Rightarrow> string res" where
  "randomSecret rnd =
     (case rnd of Inl e \<Rightarrow> Inl (Wrapped ''failed to generate random bytes'' e) | Inr b \<Rightarrow> Inr (RawURLEncoding_EncodeToString b))"

definition form_user :: "admin \<Rightarrow> request \<Rightarrow> user" where
  "form_user A r =
     empty_user\<lparr>user_ID := am_newID A, user_Email := TrimSpace (FormValue r ''email''),
       user_DisplayName := TrimSpace (FormValue r ''display_name''), user_GivenName := TrimSpace (FormValue r ''given_name''),
       user_FamilyName := TrimSpace (FormValue r ''family_name''), user_Active := (FormValue r ''active'' = ''1''),
       user_EmailVerified := (FormValue r ''email_verified'' = ''1''), user_Admin := (FormValue r ''admin'' = ''1'')\<rparr>"

text \<open>The password of a new user, or the message that refuses it; without one an unusable placeholder.\<close>

definition new_user_password :: "admin \<Rightarrow> request \<Rightarrow> string + string" where
  "new_user_password A r =
     (let password = FormValue r ''password''
      in if password = '''' then
           (case randomSecret (am_secret A) of
              Inl _ \<Rightarrow> Inl ''Failed to generate placeholder password'' | Inr random \<Rightarrow> Inr random)
         else case ValidatePassword password of Some err \<Rightarrow> Inl (userMessage err) | None \<Rightarrow> Inr password)"

definition send_invite :: "admin \<Rightarrow> env \<Rightarrow> user \<Rightarrow> request \<Rightarrow> user \<Rightarrow> string \<Rightarrow> site \<Rightarrow> string \<times> site" where
  "send_invite A E me r user flash s =
     (if FormValue r ''password'' = '''' then
        (case SendPasswordReset (en_P E) (en_mailer E) (en_link E) (am_uuid2 A) (en_now E) (am_account A) user (to_account s) of
           (Some _, a) \<Rightarrow> (flash @ '', but the invite email could not be sent'', of_account a s)
         | (None, a) \<Rightarrow>
             (flash @ '' and invite email sent'',
              admin_record E (am_uuid2 A) r me ''user.invited'' ''user'' (user_ID user) (user_Email user) (of_account a s)))
      else (flash, s))"

definition send_verification :: "admin \<Rightarrow> env \<Rightarrow> request \<Rightarrow> user \<Rightarrow> string \<Rightarrow> site \<Rightarrow> string \<times> site" where
  "send_verification A E r user flash s =
     (if FormValue r ''send_verification'' = ''1'' \<and> \<not> user_EmailVerified user then
        (case SendEmailVerification (en_P E) (en_mailer E) (am_link2 A) (en_now E) (am_account A) user (to_account s) of
           (Some _, a) \<Rightarrow> (flash @ '', but the verification email could not be sent'', of_account a s)
         | (None, a) \<Rightarrow> (flash @ ''; verification email sent'', of_account a s))
      else (flash, s))"

definition admin_CreateUser :: "admin \<Rightarrow> env \<Rightarrow> user \<Rightarrow> request \<Rightarrow> site \<Rightarrow> response \<times> site" where
  "admin_CreateUser A E me r s =
     admin_checkCSRF E r s
       (let user = form_user A r;
            renderErr = (\<lambda>u msg s. (renderUserForm A E me r 400 (user_form True u msg) s, s))
        in if user_Email user = '''' then renderErr user ''Email is required'' s
           else case new_user_password A r of
             Inl msg \<Rightarrow> renderErr user msg s
           | Inr password \<Rightarrow>
               (case HashPassword (en_P E) (rd_salt (en_rd E)) password of
                  Inl _ \<Rightarrow> renderErr user ''Failed to hash password'' s
                | Inr hash \<Rightarrow>
                    (let user1 = user\<lparr>user_PasswordHash := hash\<rparr>
                     in case users_Create (en_P E) (en_now E) user1 (si_store s) of
                          (Some err, st) \<Rightarrow>
                            renderErr user1 (if IsCode err CodeAlreadyExists then ''A user with that email already exists''
                                             else ''Failed to create user'') (with_store st s)
                        | (None, st) \<Rightarrow>
                            (let user2 = user1\<lparr>user_CreatedAt := en_now E, user_UpdatedAt := en_now E\<rparr>;
                                 s1 = recordU E r me ''user.created'' ''user'' (user_ID user2) (user_Email user2) (with_store st s)
                             in case send_invite A E me r user2 ''User created'' s1 of (flash1, s2) \<Rightarrow>
                                case send_verification A E r user2 flash1 s2 of (flash2, s3) \<Rightarrow>
                                  (admin_redirect E r (''/admin/users/'' @ user_ID user2) flash2, s3)))))"

definition groupMemberships :: "env \<Rightarrow> string \<Rightarrow> fstore \<Rightarrow> groupMembership list" where
  "groupMemberships E userID st =
     (case groups_List (en_P E) st of
        Inl _ \<Rightarrow> []
      | Inr all \<Rightarrow>
          (let mine = set (map group_ID (or_nil (groups_GroupsForUser (en_P E) userID st)))
           in map (\<lambda>g. \<lparr>gm_Group = g, gm_Member = (group_ID g \<in> mine)\<rparr>) all))"

definition admin_EditUser :: "admin \<Rightarrow> env \<Rightarrow> user \<Rightarrow> request \<Rightarrow> site \<Rightarrow> response \<times> site" where
  "admin_EditUser A E me r s =
     loadUser r s (\<lambda>user.
       (renderUserForm A E me r 200
          ((user_form False user '''')\<lparr>uf_Consents := or_nil (consents_ListByUserID (user_ID user) (si_store s)),
             uf_AllGroups := groupMemberships E (user_ID user) (si_store s),
             uf_Sessions := or_nil (sessions_ListByUserID (en_now E) (user_ID user) (si_store s)),
             uf_Tokens := or_nil (tokens_ListByUserID (en_now E) (user_ID user) (si_store s))\<rparr>) s, s))"

abbreviation user_page :: "user \<Rightarrow> string" where
  "user_page user \<equiv> ''/admin/users/'' @ user_ID user"

definition admin_RevokeUserSession :: "admin \<Rightarrow> env \<Rightarrow> user \<Rightarrow> request \<Rightarrow> site \<Rightarrow> response \<times> site" where
  "admin_RevokeUserSession A E me r s =
     admin_checkCSRF E r s (loadUser r s (\<lambda>user.
       (let sessionID = URLParam r ''sessionID'';
            missing = (case sessions_GetByID sessionID (si_store s) of Inl _ \<Rightarrow> True | Inr sess \<Rightarrow> session_UserID sess \<noteq> user_ID user)
        in if missing then (admin_redirect E r (user_page user) ''Session not found'', s)
           else case sessions_Delete sessionID (si_store s) of (e, st) \<Rightarrow>
             if failed_but e CodeNotFound then (admin_redirect E r (user_page user) ''Failed to revoke session'', with_store st s)
             else (admin_redirect E r (user_page user) ''Session revoked'',
                   recordU E r me ''user.session_revoked'' ''user'' (user_ID user) (''session '' @ sessionID) (with_store st s)))))"

definition admin_RevokeUserToken :: "admin \<Rightarrow> env \<Rightarrow> user \<Rightarrow> request \<Rightarrow> site \<Rightarrow> response \<times> site" where
  "admin_RevokeUserToken A E me r s =
     admin_checkCSRF E r s (loadUser r s (\<lambda>user.
       (let tokenID = URLParam r ''tokenID'';
            missing = (case tokens_GetByID tokenID (si_store s) of Inl _ \<Rightarrow> True | Inr tok \<Rightarrow> token_UserID tok \<noteq> user_ID user)
        in if missing then (admin_redirect E r (user_page user) ''Token not found'', s)
           else case tokens_Revoke (en_now E) tokenID (si_store s) of
             (Some _, st) \<Rightarrow> (admin_redirect E r (user_page user) ''Failed to revoke token'', with_store st s)
           | (None, st) \<Rightarrow>
               (admin_redirect E r (user_page user) ''Token revoked'',
                recordU E r me ''user.token_revoked'' ''user'' (user_ID user) (''token '' @ tokenID) (with_store st s)))))"

definition set_groups :: "string set \<Rightarrow> string \<Rightarrow> groupMembership list \<Rightarrow> fstore \<Rightarrow> fstore" where
  "set_groups wanted userID gms st =
     fold (\<lambda>gm st.
             if group_ID (gm_Group gm) \<in> wanted \<and> \<not> gm_Member gm then snd (groups_AddMember (group_ID (gm_Group gm)) userID st)
             else if group_ID (gm_Group gm) \<notin> wanted \<and> gm_Member gm then snd (groups_RemoveMember (group_ID (gm_Group gm)) userID st)
             else st) gms st"

definition admin_SetUserGroups :: "admin \<Rightarrow> env \<Rightarrow> user \<Rightarrow> request \<Rightarrow> site \<Rightarrow> response \<times> site" where
  "admin_SetUserGroups A E me r s =
     admin_checkCSRF E r s (loadUser r s (\<lambda>user.
       (let wanted = set (case req_FormAll r ''group'' of Some ids \<Rightarrow> ids | None \<Rightarrow> []);
            st = set_groups wanted (user_ID user) (groupMemberships E (user_ID user) (si_store s)) (si_store s)
        in (admin_redirect E r (user_page user) ''Groups updated'',
            recordU E r me ''user.groups_updated'' ''user'' (user_ID user) (user_Email user) (with_store st s)))))"

definition format_bool :: "bool \<Rightarrow> string" where
  "format_bool b = (if b then ''true'' else ''false'')"

definition updated_user :: "env \<Rightarrow> user \<Rightarrow> request \<Rightarrow> user \<Rightarrow> user" where
  "updated_user E me r user =
     (let newEmail = TrimSpace (FormValue r ''email'')
      in user\<lparr>user_EmailVerified :=
                (if FormValue r ''email_verified'' = ''1'' then True
                 else if \<not> EqualFold (en_P E) newEmail (user_Email user) then False else user_EmailVerified user),
              user_Email := newEmail, user_DisplayName := TrimSpace (FormValue r ''display_name''),
              user_GivenName := TrimSpace (FormValue r ''given_name''), user_FamilyName := TrimSpace (FormValue r ''family_name''),
              user_Active := (FormValue r ''active'' = ''1''),
              user_Admin := (if user_ID user = user_ID me then True else FormValue r ''admin'' = ''1'')\<rparr>)"

definition admin_UpdateUser :: "admin \<Rightarrow> env \<Rightarrow> user \<Rightarrow> request \<Rightarrow> site \<Rightarrow> response \<times> site" where
  "admin_UpdateUser A E me r s =
     admin_checkCSRF E r s (loadUser r s (\<lambda>user.
       (let user1 = updated_user E me r user; self = (user_ID user = user_ID me)
        in if TrimSpace (FormValue r ''email'') = ''''
           then (renderUserForm A E me r 400 (user_form False user ''Email is required'') s, s)
           else if self \<and> \<not> user_Active user1
           then (renderUserForm A E me r 400 (user_form False (user1\<lparr>user_Active := True\<rparr>) ''You cannot disable your own account'') s, s)
           else case users_Update (en_now E) user1 (si_store s) of
             (Some err, st) \<Rightarrow>
               (renderUserForm A E me r 400
                  (user_form False user1 (if IsCode err CodeAlreadyExists then ''A user with that email already exists''
                                          else ''Failed to update user'')) (with_store st s), with_store st s)
           | (None, st) \<Rightarrow>
               (let detail = user_Email user1
                      @ (if user_Admin user \<noteq> user_Admin user1
                         then '' admin: '' @ format_bool (user_Admin user) @ '' -> '' @ format_bool (user_Admin user1) else '''')
                      @ (if user_Active user \<noteq> user_Active user1
                         then '' active: '' @ format_bool (user_Active user) @ '' -> '' @ format_bool (user_Active user1) else '''');
                    st1 = (if user_Active user \<and> \<not> user_Active user1
                           then snd (tokens_RevokeByUserID (en_now E) (user_ID user1) (snd (sessions_DeleteByUserID (user_ID user1) st)))
                           else st)
                in (admin_redirect E r (user_page user1) ''User updated'',
                    recordU E r me ''user.updated'' ''user'' (user_ID user1) detail (with_store st1 s))))))"

definition admin_SetUserPassword :: "admin \<Rightarrow> env \<Rightarrow> user \<Rightarrow> request \<Rightarrow> site \<Rightarrow> response \<times> site" where
  "admin_SetUserPassword A E me r s =
     admin_checkCSRF E r s (loadUser r s (\<lambda>user.
       (case SetPassword (en_P E) (rd_salt (en_rd E)) (en_now E) user (FormValue r ''password'') (si_store s) of
          ((Some err, user1), st) \<Rightarrow>
            ((if IsCode err CodeInvalidInput then renderUserForm A E me r 400 (user_form False user1 (userMessage err)) (with_store st s)
              else admin_fail 500 ''Failed to set password''), with_store st s)
        | ((None, user1), st) \<Rightarrow>
            (admin_redirect E r (user_page user1) ''Password updated; the user has been signed out everywhere'',
             recordU E r me ''password.changed'' ''user'' (user_ID user1) (user_Email user1) (with_store st s)))))"

definition admin_SendUserReset :: "admin \<Rightarrow> env \<Rightarrow> user \<Rightarrow> request \<Rightarrow> site \<Rightarrow> response \<times> site" where
  "admin_SendUserReset A E me r s =
     admin_checkCSRF E r s (loadUser r s (\<lambda>user.
       (case SendPasswordReset (en_P E) (en_mailer E) (en_link E) (am_uuid2 A) (en_now E) (am_account A) user (to_account s) of
          (Some _, a) \<Rightarrow> (admin_redirect E r (user_page user) ''Failed to send password reset email'', of_account a s)
        | (None, a) \<Rightarrow>
            (admin_redirect E r (user_page user) (''Password reset email sent to '' @ user_Email user),
             recordU E r me ''password.reset_requested'' ''user'' (user_ID user) (user_Email user @ '' (sent by admin)'') (of_account a s)))))"

definition admin_SendUserVerification :: "admin \<Rightarrow> env \<Rightarrow> user \<Rightarrow> request \<Rightarrow> site \<Rightarrow> response \<times> site" where
  "admin_SendUserVerification A E me r s =
     admin_checkCSRF E r s (loadUser r s (\<lambda>user.
       (case SendEmailVerification (en_P E) (en_mailer E) (en_link E) (en_now E) (am_account A) user (to_account s) of
          (Some _, a) \<Rightarrow> (admin_redirect E r (user_page user) ''Failed to send verification email'', of_account a s)
        | (None, a) \<Rightarrow> (admin_redirect E r (user_page user) (''Verification email sent to '' @ user_Email user), of_account a s))))"

definition admin_RevokeUserSessions :: "admin \<Rightarrow> env \<Rightarrow> user \<Rightarrow> request \<Rightarrow> site \<Rightarrow> response \<times> site" where
  "admin_RevokeUserSessions A E me r s =
     admin_checkCSRF E r s (loadUser r s (\<lambda>user.
       (let st = snd (tokens_RevokeByUserID (en_now E) (user_ID user) (snd (sessions_DeleteByUserID (user_ID user) (si_store s))))
        in (admin_redirect E r (user_page user) ''Sessions and tokens revoked'',
            recordU E r me ''user.sessions_revoked'' ''user'' (user_ID user) (user_Email user) (with_store st s)))))"

definition admin_ResetUserTwoStep :: "admin \<Rightarrow> env \<Rightarrow> user \<Rightarrow> request \<Rightarrow> site \<Rightarrow> response \<times> site" where
  "admin_ResetUserTwoStep A E me r s =
     admin_checkCSRF E r s (loadUser r s (\<lambda>user.
       (case ResetSecondFactors (en_now E) user (si_store s) of
          (Some _, st) \<Rightarrow> (admin_redirect E r (user_page user) ''Failed to reset two-step sign-in'', with_store st s)
        | (None, st) \<Rightarrow>
            (admin_redirect E r (user_page user) ''Two-step sign-in reset'',
             recordU E r me ''totp.disabled'' ''user'' (user_ID user) (user_Email user @ '' (reset by admin)'') (with_store st s)))))"

definition admin_RevokeUserConsent :: "admin \<Rightarrow> env \<Rightarrow> user \<Rightarrow> request \<Rightarrow> site \<Rightarrow> response \<times> site" where
  "admin_RevokeUserConsent A E me r s =
     admin_checkCSRF E r s (loadUser r s (\<lambda>user.
       (let clientID = URLParam r ''clientID''
        in case consents_Delete (user_ID user) clientID (si_store s) of (e, st) \<Rightarrow>
             if failed_but e CodeNotFound then (admin_redirect E r (user_page user) ''Failed to revoke consent'', with_store st s)
             else (admin_redirect E r (user_page user) (''Consent for '' @ clientID @ '' revoked''),
                   recordU E r me ''user.consent_revoked'' ''user'' (user_ID user) (''client '' @ clientID) (with_store st s)))))"

text \<open>The clean-up before a user is deleted; its errors are ignored.\<close>

definition purge_user :: "time \<Rightarrow> string \<Rightarrow> fstore \<Rightarrow> fstore" where
  "purge_user now userID st =
     (let st1 = snd (sessions_DeleteByUserID userID st);
          st2 = snd (tokens_RevokeByUserID now userID st1);
          st3 = snd (consents_DeleteByUserID userID st2);
          st4 = snd (passkeys_DeleteByUserID userID st3);
          st5 = snd (vtokens_DeleteByUserID userID '''' st4)
      in snd (groups_RemoveUser userID st5))"

definition admin_DeleteUser :: "admin \<Rightarrow> env \<Rightarrow> user \<Rightarrow> request \<Rightarrow> site \<Rightarrow> response \<times> site" where
  "admin_DeleteUser A E me r s =
     admin_checkCSRF E r s (loadUser r s (\<lambda>user.
       (if user_ID user = user_ID me then (admin_fail 400 ''You cannot delete your own account'', s)
        else case users_Delete (user_ID user) (purge_user (en_now E) (user_ID user) (si_store s)) of
          (Some _, st) \<Rightarrow> (admin_fail 500 ''Failed to delete user'', with_store st s)
        | (None, st) \<Rightarrow>
            (admin_redirect E r ''/admin/users'' (''User '' @ user_Email user @ '' deleted''),
             recordU E r me ''user.deleted'' ''user'' (user_ID user) (user_Email user) (with_store st s)))))"

section \<open>Groups\<close>

definition group_form :: "bool \<Rightarrow> group \<Rightarrow> user list \<Rightarrow> string \<Rightarrow> groupFormData" where
  "group_form isNew grp members err = \<lparr>gf_base = no_base\<lparr>ab_Error := err\<rparr>, gf_IsNew = isNew, gf_Group = grp, gf_Members = members\<rparr>"

definition renderGroupForm :: "admin \<Rightarrow> env \<Rightarrow> user \<Rightarrow> request \<Rightarrow> int \<Rightarrow> groupFormData \<Rightarrow> response" where
  "renderGroupForm A E me r status data =
     (case admin_base A E me r ''groups'' admin_w of (base, w1) \<Rightarrow>
        Render w1 status ''admin/group_form'' (GroupFormData (data\<lparr>gf_base := base\<rparr>)))"

definition admin_Groups :: "admin \<Rightarrow> env \<Rightarrow> user \<Rightarrow> request \<Rightarrow> site \<Rightarrow> response \<times> site" where
  "admin_Groups A E me r s =
     (case groups_List (en_P E) (si_store s) of
        Inl _ \<Rightarrow> (admin_fail 500 ''Failed to list groups'', s)
      | Inr gs \<Rightarrow>
          (case admin_base A E me r ''groups'' admin_w of (base, w1) \<Rightarrow>
             (Render w1 200 ''admin/groups''
                (GroupsData \<lparr>gsd_base = base,
                   gsd_Groups = map (\<lambda>g. \<lparr>grw_Group = g, grw_MemberCount = length (or_nil (groups_MemberIDs (group_ID g) (si_store s)))\<rparr>) gs,
                   gsd_ClaimName = am_GroupsClaim A\<rparr>), s)))"

definition empty_group :: group where
  "empty_group = \<lparr>group_ID = '''', group_Name = '''', group_Description = '''', group_CreatedAt = zero_time, group_UpdatedAt = zero_time\<rparr>"

definition admin_NewGroup :: "admin \<Rightarrow> env \<Rightarrow> user \<Rightarrow> request \<Rightarrow> site \<Rightarrow> response \<times> site" where
  "admin_NewGroup A E me r s = (renderGroupForm A E me r 200 (group_form True empty_group [] ''''), s)"

abbreviation group_page :: "group \<Rightarrow> string" where
  "group_page grp \<equiv> ''/admin/groups/'' @ group_ID grp"

definition admin_CreateGroup :: "admin \<Rightarrow> env \<Rightarrow> user \<Rightarrow> request \<Rightarrow> site \<Rightarrow> response \<times> site" where
  "admin_CreateGroup A E me r s =
     admin_checkCSRF E r s
       (let grp = empty_group\<lparr>group_ID := am_newID A, group_Name := TrimSpace (FormValue r ''name''),
                    group_Description := TrimSpace (FormValue r ''description'')\<rparr>
        in if group_Name grp = '''' then (renderGroupForm A E me r 400 (group_form True grp [] ''Name is required''), s)
           else case groups_Create (en_P E) (en_now E) grp (si_store s) of
             (Some err, st) \<Rightarrow>
               (renderGroupForm A E me r 400 (group_form True grp []
                  (if IsCode err CodeAlreadyExists then ''A group with that name already exists'' else ''Failed to create group'')),
                with_store st s)
           | (None, st) \<Rightarrow>
               (admin_redirect E r (group_page grp) ''Group created'',
                recordU E r me ''group.created'' ''group'' (group_ID grp) (group_Name grp) (with_store st s)))"

definition groupMembers :: "string \<Rightarrow> fstore \<Rightarrow> user list" where
  "groupMembers groupID st =
     List.map_filter (\<lambda>uid. case users_GetByID uid st of Inr u \<Rightarrow> Some u | Inl _ \<Rightarrow> None) (or_nil (groups_MemberIDs groupID st))"

definition admin_EditGroup :: "admin \<Rightarrow> env \<Rightarrow> user \<Rightarrow> request \<Rightarrow> site \<Rightarrow> response \<times> site" where
  "admin_EditGroup A E me r s =
     loadGroup r s (\<lambda>grp.
       (renderGroupForm A E me r 200 (group_form False grp (groupMembers (group_ID grp) (si_store s)) ''''), s))"

definition admin_UpdateGroup :: "admin \<Rightarrow> env \<Rightarrow> user \<Rightarrow> request \<Rightarrow> site \<Rightarrow> response \<times> site" where
  "admin_UpdateGroup A E me r s =
     admin_checkCSRF E r s (loadGroup r s (\<lambda>grp.
       (let grp1 = grp\<lparr>group_Name := TrimSpace (FormValue r ''name''), group_Description := TrimSpace (FormValue r ''description'')\<rparr>;
            bad = (\<lambda>msg st. (renderGroupForm A E me r 400 (group_form False grp1 (groupMembers (group_ID grp1) st) msg), with_store st s))
        in if group_Name grp1 = '''' then bad ''Name is required'' (si_store s)
           else case groups_Update (en_P E) (en_now E) grp1 (si_store s) of
             (Some err, st) \<Rightarrow>
               bad (if IsCode err CodeAlreadyExists then ''A group with that name already exists'' else ''Failed to update group'') st
           | (None, st) \<Rightarrow>
               (admin_redirect E r (group_page grp1) ''Group updated'',
                recordU E r me ''group.updated'' ''group'' (group_ID grp1) (group_Name grp1) (with_store st s)))))"

definition admin_AddGroupMember :: "admin \<Rightarrow> env \<Rightarrow> user \<Rightarrow> request \<Rightarrow> site \<Rightarrow> response \<times> site" where
  "admin_AddGroupMember A E me r s =
     admin_checkCSRF E r s (loadGroup r s (\<lambda>grp.
       (let email = TrimSpace (FormValue r ''email'')
        in case users_GetByEmail (en_P E) email (si_store s) of
             Inl _ \<Rightarrow> (admin_redirect E r (group_page grp) (''No user with email '' @ email), s)
           | Inr user \<Rightarrow>
               (case groups_AddMember (group_ID grp) (user_ID user) (si_store s) of
                  (Some _, st) \<Rightarrow> (admin_redirect E r (group_page grp) ''Failed to add member'', with_store st s)
                | (None, st) \<Rightarrow>
                    (admin_redirect E r (group_page grp) (user_Email user @ '' added to '' @ group_Name grp),
                     recordU E r me ''group.member_added'' ''group'' (group_ID grp) (group_Name grp @ '' += '' @ user_Email user)
                       (with_store st s))))))"

definition admin_RemoveGroupMember :: "admin \<Rightarrow> env \<Rightarrow> user \<Rightarrow> request \<Rightarrow> site \<Rightarrow> response \<times> site" where
  "admin_RemoveGroupMember A E me r s =
     admin_checkCSRF E r s (loadGroup r s (\<lambda>grp.
       (let userID = URLParam r ''userID''
        in case groups_RemoveMember (group_ID grp) userID (si_store s) of (e, st) \<Rightarrow>
             if failed_but e CodeNotFound then (admin_redirect E r (group_page grp) ''Failed to remove member'', with_store st s)
             else (admin_redirect E r (group_page grp) ''Member removed'',
                   recordU E r me ''group.member_removed'' ''group'' (group_ID grp) (group_Name grp @ '' -= '' @ userID) (with_store st s)))))"

definition admin_DeleteGroup :: "admin \<Rightarrow> env \<Rightarrow> user \<Rightarrow> request \<Rightarrow> site \<Rightarrow> response \<times> site" where
  "admin_DeleteGroup A E me r s =
     admin_checkCSRF E r s (loadGroup r s (\<lambda>grp.
       (case groups_Delete (group_ID grp) (si_store s) of
          (Some _, st) \<Rightarrow> (admin_fail 500 ''Failed to delete group'', with_store st s)
        | (None, st) \<Rightarrow>
            (admin_redirect E r ''/admin/groups'' (''Group '' @ group_Name grp @ '' deleted''),
             recordU E r me ''group.deleted'' ''group'' (group_ID grp) (group_Name grp) (with_store st s)))))"

section \<open>Clients\<close>

definition defaultClientScopes :: "string list" where
  "defaultClientScopes = [''openid'', ''profile'', ''email'', ''offline_access'', ''groups'']"

definition defaultClientGrantTypes :: "string list" where
  "defaultClientGrantTypes = [''authorization_code'', ''refresh_token'']"

definition clientIDPattern :: "string \<Rightarrow> bool" where
  "clientIDPattern s \<longleftrightarrow> s \<noteq> '''' \<and>
     list_all (\<lambda>c. (let b = byte c in 48 \<le> b \<and> b \<le> 57 \<or> 65 \<le> b \<and> b \<le> 90 \<or> 97 \<le> b \<and> b \<le> 122)
       \<or> c \<in> {CHR ''.'', CHR ''_'', CHR '':'', CHR ''-''}) s"

definition empty_client :: client where
  "empty_client = \<lparr>client_ID = '''', client_Secret = '''', client_Name = '''', client_RedirectURIs = [], client_GrantTypes = [],
     client_Scopes = [], client_Public = False, client_SkipConsent = False, client_MinimalIDToken = False, client_AccessTokenTTL = 0,
     client_RefreshTokenTTL = 0, client_CreatedAt = zero_time, client_UpdatedAt = zero_time\<rparr>"

definition client_form :: "bool \<Rightarrow> client \<Rightarrow> string \<Rightarrow> string \<Rightarrow> string \<Rightarrow> clientFormData" where
  "client_form isNew client newSecret flash err =
     \<lparr>cf_base = no_base\<lparr>ab_Flash := flash, ab_Error := err\<rparr>, cf_IsNew = isNew, cf_Client = Some client, cf_NewSecret = newSecret,
      cf_IssuerURL = '''', cf_DefaultAccessTTL = '''', cf_DefaultRefreshTTL = '''', cf_EffectiveAccessTTL = '''', cf_EffectiveRefreshTTL = ''''\<rparr>"

definition renderClientForm :: "admin \<Rightarrow> env \<Rightarrow> user \<Rightarrow> request \<Rightarrow> int \<Rightarrow> clientFormData \<Rightarrow> response" where
  "renderClientForm A E me r status data =
     (case admin_base A E me r ''clients'' admin_w of (base, w1) \<Rightarrow>
        (let da = ttlForm (am_AccessTokenTTL A); dr = ttlForm (am_RefreshTokenTTL A)
         in Render w1 status ''admin/client_form''
              (ClientFormData (data\<lparr>cf_base := base, cf_IssuerURL := am_IssuerURL A, cf_DefaultAccessTTL := da, cf_DefaultRefreshTTL := dr,
                 cf_EffectiveAccessTTL := (case cf_Client data of
                     Some c \<Rightarrow> if client_AccessTokenTTL c > 0 then ttlForm (client_AccessTokenTTL c) else da | None \<Rightarrow> da),
                 cf_EffectiveRefreshTTL := (case cf_Client data of
                     Some c \<Rightarrow> if client_RefreshTokenTTL c > 0 then ttlForm (client_RefreshTokenTTL c) else dr | None \<Rightarrow> dr)\<rparr>))))"

definition admin_Clients :: "admin \<Rightarrow> env \<Rightarrow> user \<Rightarrow> request \<Rightarrow> site \<Rightarrow> response \<times> site" where
  "admin_Clients A E me r s =
     (case clients_List (si_store s) of
        Inl _ \<Rightarrow> (admin_fail 500 ''Failed to list clients'', s)
      | Inr clients \<Rightarrow>
          (case admin_base A E me r ''clients'' admin_w of (base, w1) \<Rightarrow>
             (Render w1 200 ''admin/clients'' (ClientsData \<lparr>cd_base = base, cd_Clients = clients\<rparr>), s)))"

definition admin_NewClient :: "admin \<Rightarrow> env \<Rightarrow> user \<Rightarrow> request \<Rightarrow> site \<Rightarrow> response \<times> site" where
  "admin_NewClient A E me r s =
     (renderClientForm A E me r 200
        (client_form True (empty_client\<lparr>client_Scopes := defaultClientScopes, client_GrantTypes := defaultClientGrantTypes\<rparr>) '''' '''' ''''), s)"

definition redirect_uri_message :: "admin \<Rightarrow> env \<Rightarrow> string \<Rightarrow> string option" where
  "redirect_uri_message A E uri =
     (case ul_Parse (en_U E) uri of
        Inl _ \<Rightarrow> Some (''Invalid redirect URI: '' @ uri)
      | Inr u \<Rightarrow>
          if url_Scheme u = '''' \<or> (url_Host u = '''' \<and> url_Scheme u \<noteq> ''urn'') then Some (''Invalid redirect URI: '' @ uri)
          else map_option (\<lambda>m. ''Invalid redirect URI: '' @ m) (ValidateRedirectURI (en_P E) (en_U E) (am_Quote A) uri))"

fun drop_cr :: "string \<Rightarrow> string" where
  "drop_cr (a # b # s) = (if a = CHR 0x0D \<and> b = CHR 0x0A then b # drop_cr s else a # drop_cr (b # s))"
| "drop_cr s = s"

definition splitLines :: "string \<Rightarrow> string list" where
  "splitLines s = filter (\<lambda>l. l \<noteq> '''') (map TrimSpace (Split CHR 0x0A (drop_cr s)))"

fun first_message :: "('a \<Rightarrow> string option) \<Rightarrow> 'a list \<Rightarrow> string option" where
  "first_message f [] = None"
| "first_message f (x # xs) = (case f x of Some m \<Rightarrow> Some m | None \<Rightarrow> first_message f xs)"

text \<open>The form copied onto the client: the client as it leaves it, and a message when the form is refused.\<close>

definition form_client :: "request \<Rightarrow> client \<Rightarrow> client" where
  "form_client r c =
     c\<lparr>client_Name := TrimSpace (FormValue r ''name''), client_Public := (FormValue r ''public'' = ''1''),
       client_SkipConsent := (FormValue r ''skip_consent'' = ''1''), client_MinimalIDToken := (FormValue r ''minimal_id_token'' = ''1''),
       client_RedirectURIs := splitLines (FormValue r ''redirect_uris''), client_Scopes := Fields (FormValue r ''scopes''),
       client_GrantTypes := Fields (FormValue r ''grant_types'')\<rparr>"

definition with_defaults :: "client \<Rightarrow> client" where
  "with_defaults c =
     c\<lparr>client_Scopes := (if length (client_Scopes c) = 0 then defaultClientScopes else client_Scopes c),
       client_GrantTypes := (if length (client_GrantTypes c) = 0 then defaultClientGrantTypes else client_GrantTypes c)\<rparr>"

definition apply_ttls :: "admin \<Rightarrow> request \<Rightarrow> client \<Rightarrow> client \<times> string" where
  "apply_ttls A r c =
     (case parseTTLField (am_frac A) (FormValue r ''access_token_ttl'') of (attl, msg) \<Rightarrow>
        (let c1 = c\<lparr>client_AccessTokenTTL := attl\<rparr>
         in if msg \<noteq> '''' then (c1, ''Access token lifetime: '' @ msg)
            else if client_AccessTokenTTL c1 > MaxAccessTokenTTL then (c1, ''Access token lifetime: at most 24h'')
            else case parseTTLField (am_frac A) (FormValue r ''refresh_token_ttl'') of (rttl, msg2) \<Rightarrow>
              (let c2 = c1\<lparr>client_RefreshTokenTTL := rttl\<rparr>
               in if msg2 \<noteq> '''' then (c2, ''Refresh token lifetime: '' @ msg2) else (c2, ''''))))"

definition applyClientForm :: "admin \<Rightarrow> env \<Rightarrow> request \<Rightarrow> client \<Rightarrow> client \<times> string" where
  "applyClientForm A E r c =
     (let c1 = form_client r c
      in if client_Name c1 = '''' then (c1, ''Name is required'')
         else if length (client_RedirectURIs c1) = 0 then (c1, ''At least one redirect URI is required'')
         else case first_message (redirect_uri_message A E) (client_RedirectURIs c1) of
           Some m \<Rightarrow> (c1, m)
         | None \<Rightarrow>
             (let c2 = with_defaults c1
              in case first_message (\<lambda>g. if g \<noteq> ''authorization_code'' \<and> g \<noteq> ''refresh_token''
                          then Some (''Unsupported grant type '' @ g @ '' (authorization_code, refresh_token)'') else None) (client_GrantTypes c2) of
                   Some m \<Rightarrow> (c2, m)
                 | None \<Rightarrow> apply_ttls A r (if client_Public c2 then c2\<lparr>client_Secret := ''''\<rparr> else c2)))"

definition newClientSecret :: "admin \<Rightarrow> env \<Rightarrow> client \<Rightarrow> (string \<times> client) res" where
  "newClientSecret A E client =
     (case randomSecret (am_secret A) of
        Inl e \<Rightarrow> Inl e
      | Inr secret \<Rightarrow>
          (case HashClientSecret (en_P E) (rd_salt (en_rd E)) secret of
             Inl e \<Rightarrow> Inl e | Inr hash \<Rightarrow> Inr (secret, client\<lparr>client_Secret := hash\<rparr>)))"

definition admin_CreateClient :: "admin \<Rightarrow> env \<Rightarrow> user \<Rightarrow> request \<Rightarrow> site \<Rightarrow> response \<times> site" where
  "admin_CreateClient A E me r s =
     admin_checkCSRF E r s
       (let renderErr = (\<lambda>c msg s. (renderClientForm A E me r 400 (client_form True c '''' '''' msg), s))
        in case applyClientForm A E r (empty_client\<lparr>client_ID := TrimSpace (FormValue r ''id'')\<rparr>) of (client, msg) \<Rightarrow>
             if msg \<noteq> '''' then renderErr client msg s
             else if \<not> clientIDPattern (client_ID client)
             then renderErr client (''Client ID may only contain letters, digits, '' @ quoted ''.'' @ '', '' @ quoted ''_'' @ '', ''
                    @ quoted '':'' @ '' and '' @ quoted ''-'') s
             else case (if \<not> client_Public client then newClientSecret A E client else Inr ('''', client)) of
               Inl _ \<Rightarrow> renderErr client ''Failed to generate client secret'' s
             | Inr (secret, client1) \<Rightarrow>
                 (case clients_Create (en_now E) client1 (si_store s) of
                    (Some err, st) \<Rightarrow>
                      renderErr client1 (if IsCode err CodeAlreadyExists then ''A client with that ID already exists''
                                         else ''Failed to create client'') (with_store st s)
                  | (None, st) \<Rightarrow>
                      (let client2 = client1\<lparr>client_CreatedAt := en_now E, client_UpdatedAt := en_now E\<rparr>
                       in (renderClientForm A E me r 200 (client_form False client2 secret ''Client created'' ''''),
                           recordU E r me ''client.created'' ''client'' (client_ID client2) (client_Name client2) (with_store st s)))))"

definition admin_EditClient :: "admin \<Rightarrow> env \<Rightarrow> user \<Rightarrow> request \<Rightarrow> site \<Rightarrow> response \<times> site" where
  "admin_EditClient A E me r s =
     loadClient r s (\<lambda>client. (renderClientForm A E me r 200 (client_form False client '''' '''' ''''), s))"

abbreviation client_page :: "client \<Rightarrow> string" where
  "client_page client \<equiv> ''/admin/clients/'' @ client_ID client"

definition admin_UpdateClient :: "admin \<Rightarrow> env \<Rightarrow> user \<Rightarrow> request \<Rightarrow> site \<Rightarrow> response \<times> site" where
  "admin_UpdateClient A E me r s =
     admin_checkCSRF E r s (loadClient r s (\<lambda>client0.
       (case applyClientForm A E r client0 of (client, msg) \<Rightarrow>
          if msg \<noteq> '''' then (renderClientForm A E me r 400 (client_form False client '''' '''' msg), s)
          else case (if client_Public client0 \<and> \<not> client_Public client then newClientSecret A E client else Inr ('''', client)) of
            Inl _ \<Rightarrow> (admin_fail 500 ''Failed to generate client secret'', s)
          | Inr (newSecret, client1) \<Rightarrow>
              (case clients_Update (en_now E) client1 (si_store s) of
                 (Some _, st) \<Rightarrow>
                   (renderClientForm A E me r 400 (client_form False client1 '''' '''' ''Failed to update client''), with_store st s)
               | (None, st) \<Rightarrow>
                   (let client2 = client1\<lparr>client_UpdatedAt := en_now E\<rparr>
                    in ((if newSecret \<noteq> ''''
                         then renderClientForm A E me r 200 (client_form False client2 newSecret ''Client updated and secret generated'' '''')
                         else admin_redirect E r (client_page client2) ''Client updated''),
                        recordU E r me ''client.updated'' ''client'' (client_ID client2) (client_Name client2) (with_store st s)))))))"

definition admin_RegenerateClientSecret :: "admin \<Rightarrow> env \<Rightarrow> user \<Rightarrow> request \<Rightarrow> site \<Rightarrow> response \<times> site" where
  "admin_RegenerateClientSecret A E me r s =
     admin_checkCSRF E r s (loadClient r s (\<lambda>client.
       (if client_Public client then (admin_fail 400 ''Public clients do not have a secret'', s)
        else case newClientSecret A E client of
          Inl _ \<Rightarrow> (admin_fail 500 ''Failed to generate client secret'', s)
        | Inr (secret, client1) \<Rightarrow>
            (case clients_Update (en_now E) client1 (si_store s) of
               (Some _, st) \<Rightarrow> (admin_fail 500 ''Failed to update client'', with_store st s)
             | (None, st) \<Rightarrow>
                 (let client2 = client1\<lparr>client_UpdatedAt := en_now E\<rparr>
                  in (renderClientForm A E me r 200
                        (client_form False client2 secret ''Secret regenerated; the previous secret no longer works'' ''''),
                      recordU E r me ''client.secret_regenerated'' ''client'' (client_ID client2) (client_Name client2) (with_store st s)))))))"

definition admin_RevokeClientTokens :: "admin \<Rightarrow> env \<Rightarrow> user \<Rightarrow> request \<Rightarrow> site \<Rightarrow> response \<times> site" where
  "admin_RevokeClientTokens A E me r s =
     admin_checkCSRF E r s (loadClient r s (\<lambda>client.
       (case tokens_RevokeByClientID (en_now E) (client_ID client) (si_store s) of
          (Some _, st) \<Rightarrow> (admin_redirect E r (client_page client) ''Failed to revoke tokens'', with_store st s)
        | (None, st) \<Rightarrow>
            (admin_redirect E r (client_page client) (''All tokens for '' @ client_ID client @ '' revoked''),
             recordU E r me ''client.tokens_revoked'' ''client'' (client_ID client) (client_Name client) (with_store st s)))))"

definition admin_DeleteClient :: "admin \<Rightarrow> env \<Rightarrow> user \<Rightarrow> request \<Rightarrow> site \<Rightarrow> response \<times> site" where
  "admin_DeleteClient A E me r s =
     admin_checkCSRF E r s (loadClient r s (\<lambda>client.
       (case clients_Delete (client_ID client) (snd (tokens_RevokeByClientID (en_now E) (client_ID client) (si_store s))) of
          (Some _, st) \<Rightarrow> (admin_fail 500 ''Failed to delete client'', with_store st s)
        | (None, st) \<Rightarrow>
            (admin_redirect E r ''/admin/clients'' (''Client '' @ client_ID client @ '' deleted''),
             recordU E r me ''client.deleted'' ''client'' (client_ID client) (client_Name client) (with_store st s)))))"

section \<open>Routes\<close>

datatype admin_route =
    GetDashboard | GetUsers | GetNewUser | PostUsers | GetUser | PostUser | PostUserPassword | PostSendReset | PostSendVerification
  | PostRevokeSessions | PostTwoStepReset | PostRevokeSession | PostRevokeToken | PostRevokeConsent | PostDeleteUser | PostUserGroups
  | GetGroups | GetNewGroup | PostGroups | GetGroup | PostGroup | PostMembers | PostRemoveMember | PostDeleteGroup
  | GetClients | GetNewClient | PostClients | GetClient | PostClient | PostSecret | PostRevokeTokens | PostDeleteClient
  | GetKeys | PostRotate | GetAudit

fun admin_handler :: "admin_route \<Rightarrow> admin \<Rightarrow> env \<Rightarrow> user \<Rightarrow> request \<Rightarrow> site \<Rightarrow> response \<times> site" where
  "admin_handler GetDashboard = admin_Dashboard"
| "admin_handler GetUsers = admin_Users"
| "admin_handler GetNewUser = admin_NewUser"
| "admin_handler PostUsers = admin_CreateUser"
| "admin_handler GetUser = admin_EditUser"
| "admin_handler PostUser = admin_UpdateUser"
| "admin_handler PostUserPassword = admin_SetUserPassword"
| "admin_handler PostSendReset = admin_SendUserReset"
| "admin_handler PostSendVerification = admin_SendUserVerification"
| "admin_handler PostRevokeSessions = admin_RevokeUserSessions"
| "admin_handler PostTwoStepReset = admin_ResetUserTwoStep"
| "admin_handler PostRevokeSession = admin_RevokeUserSession"
| "admin_handler PostRevokeToken = admin_RevokeUserToken"
| "admin_handler PostRevokeConsent = admin_RevokeUserConsent"
| "admin_handler PostDeleteUser = admin_DeleteUser"
| "admin_handler PostUserGroups = admin_SetUserGroups"
| "admin_handler GetGroups = admin_Groups"
| "admin_handler GetNewGroup = admin_NewGroup"
| "admin_handler PostGroups = admin_CreateGroup"
| "admin_handler GetGroup = admin_EditGroup"
| "admin_handler PostGroup = admin_UpdateGroup"
| "admin_handler PostMembers = admin_AddGroupMember"
| "admin_handler PostRemoveMember = admin_RemoveGroupMember"
| "admin_handler PostDeleteGroup = admin_DeleteGroup"
| "admin_handler GetClients = admin_Clients"
| "admin_handler GetNewClient = admin_NewClient"
| "admin_handler PostClients = admin_CreateClient"
| "admin_handler GetClient = admin_EditClient"
| "admin_handler PostClient = admin_UpdateClient"
| "admin_handler PostSecret = admin_RegenerateClientSecret"
| "admin_handler PostRevokeTokens = admin_RevokeClientTokens"
| "admin_handler PostDeleteClient = admin_DeleteClient"
| "admin_handler GetKeys = admin_Keys"
| "admin_handler PostRotate = admin_RotateKey"
| "admin_handler GetAudit = admin_Audit"

definition admin_Routes :: "admin_route \<Rightarrow> admin \<Rightarrow> env \<Rightarrow> request \<Rightarrow> site \<Rightarrow> response \<times> site" where
  "admin_Routes route A E = requireAdmin E (admin_handler route (NewAdminHandler A) E)"

end
