(* ===== verification/Guards.thy ===== *)
theory Guards
  imports AdminHandlers
begin

text \<open>
  What protects the signed-in pages: a handler behind \<open>requireAdmin\<close> or \<open>requireUser\<close> changes nothing
  for a browser without a live session of an active user (an administrator), and nothing when the form
  does not carry a valid token. The contract of such a handler is the locale \<open>form_handler\<close>; the
  administration and the account routes are its instances.
\<close>

section \<open>The signed-in user\<close>

definition signed_in :: "env \<Rightarrow> request \<Rightarrow> site \<Rightarrow> user \<Rightarrow> bool" where
  "signed_in E r s user \<longleftrightarrow>
     (\<exists>session. req_Cookie (to_web r) SessionCookieName = Some (session_ID session) \<and> session \<in> set (sessions_of (si_store s))
        \<and> en_now E \<le> session_ExpiresAt session \<and> users_GetByID (session_UserID session) (si_store s) = Inr user \<and> user_Active user)"

lemma GetSessionFromRequest_frame: "\<exists>v. snd (GetSessionFromRequest now r st) = st\<lparr>f_sessions := v\<rparr>"
  using sessions_frames(2)
  by (auto simp: GetSessionFromRequest_def GetSession_def intro: exI [of _ "f_sessions st"] split: option.split sum.split)

lemma GetSessionFromRequest_Inr:
  "GetSessionFromRequest now r st = (Inr sess, st') \<Longrightarrow> st' = st \<and> req_Cookie r SessionCookieName = Some (session_ID sess)
     \<and> sess \<in> set (sessions_of st) \<and> now \<le> session_ExpiresAt sess"
  by (auto simp: GetSessionFromRequest_def dest!: GetSession_Inr split: option.splits)

lemma GetCurrentUser_Inr:
  assumes "GetCurrentUser now r au = (Inr user, au')"
  shows "au' = au" and "\<exists>session. GetSessionFromRequest now r (au_store au) = (Inr session, au_store au)
    \<and> users_GetByID (session_UserID session) (au_store au) = Inr user \<and> user_Active user"
  using assms by (auto simp: GetCurrentUser_def dest: GetSessionFromRequest_Inr split: prod.splits sum.splits if_splits)

lemma GetCurrentUser_signed_in:
  "GetCurrentUser (en_now E) (to_web r) (si_auth s) = (Inr user, au) \<Longrightarrow> signed_in E r s user"
  unfolding signed_in_def using GetCurrentUser_Inr(2) GetSessionFromRequest_Inr by metis

lemma GetCurrentUser_frame: "\<exists>v. snd (GetCurrentUser now r au) = au\<lparr>au_store := (au_store au)\<lparr>f_sessions := v\<rparr>\<rparr>"
proof -
  obtain res v where "GetSessionFromRequest now r (au_store au) = (res, (au_store au)\<lparr>f_sessions := v\<rparr>)"
    using GetSessionFromRequest_frame [of now r "au_store au"] by (metis prod.collapse)
  then show ?thesis by (intro exI [of _ v]) (auto simp: GetCurrentUser_def split: sum.split)
qed

section \<open>Pages that check their form\<close>

text \<open>
  Looking up the session of a request removes that session when it has expired. \<open>same_but_expired\<close>: that happened
  any number of times, and nothing else.
\<close>

definition expired_dropped :: "env \<Rightarrow> request \<Rightarrow> site \<Rightarrow> site \<Rightarrow> bool" where
  "expired_dropped E r s s' \<longleftrightarrow>
     (\<exists>sess. req_Cookie (to_web r) SessionCookieName = Some (session_ID sess)
        \<and> find (\<lambda>x. session_ID x = session_ID sess) (sessions_of (si_store s)) = Some sess \<and> session_ExpiresAt sess < en_now E
        \<and> s' = with_store ((si_store s)\<lparr>f_sessions := Content (del_first (\<lambda>x. session_ID x = session_ID sess) (sessions_of (si_store s)))\<rparr>) s)"

definition same_but_expired :: "env \<Rightarrow> request \<Rightarrow> site \<Rightarrow> site \<Rightarrow> bool" where
  "same_but_expired E r = (expired_dropped E r)\<^sup>*\<^sup>*"

lemma same_but_expired_refl [simp, intro]: "same_but_expired E r s s"
  by (simp add: same_but_expired_def)

lemma same_but_expired_trans: "same_but_expired E r a b \<Longrightarrow> same_but_expired E r b c \<Longrightarrow> same_but_expired E r a c"
  unfolding same_but_expired_def by (rule rtranclp_trans)

lemma GetSessionFromRequest_drops:
  "same_but_expired E r s (with_store (snd (GetSessionFromRequest (en_now E) (to_web r) (si_store s))) s)"
proof -
  have same: "with_store (si_store s) s = s" by (simp add: with_store_def)
  show ?thesis
  proof (cases "snd (GetSessionFromRequest (en_now E) (to_web r) (si_store s)) = si_store s")
    case False
    then obtain v sess where v: "req_Cookie (to_web r) SessionCookieName = Some v" "sessions_GetByID v (si_store s) = Inr sess"
      "session_IsExpired (en_now E) sess" "snd (sessions_Delete v (si_store s)) \<noteq> si_store s"
      "snd (GetSessionFromRequest (en_now E) (to_web r) (si_store s)) = snd (sessions_Delete v (si_store s))"
      by (auto simp: GetSessionFromRequest_def GetSession_def split: option.splits sum.splits if_splits)
    then have f: "find (\<lambda>x. session_ID x = session_ID sess) (sessions_of (si_store s)) = Some sess" "v = session_ID sess"
      by (auto simp: sessions_GetByID_def of_load dest: find_Some_D split: sum.splits option.splits)
    have "snd (sessions_Delete v (si_store s)) =
        (si_store s)\<lparr>f_sessions := Content (del_first (\<lambda>x. session_ID x = session_ID sess) (sessions_of (si_store s)))\<rparr>"
      using v(4) f(2) by (auto simp: sessions_Delete_def save_sessions_def writeFile_def of_load split: sum.splits option.splits)
    then have "expired_dropped E r s (with_store (snd (sessions_Delete v (si_store s))) s)"
      unfolding expired_dropped_def using v(1,3) f by (intro exI [of _ sess]) (simp add: session_IsExpired_def)
    then show ?thesis unfolding same_but_expired_def v(5) by (rule r_into_rtranclp)
  qed (simp add: same)
qed

lemma GetCurrentUser_drops: "same_but_expired E r s (s\<lparr>si_auth := snd (GetCurrentUser (en_now E) (to_web r) (si_auth s))\<rparr>)"
proof -
  have "s\<lparr>si_auth := snd (GetCurrentUser (en_now E) (to_web r) (si_auth s))\<rparr>
      = with_store (snd (GetSessionFromRequest (en_now E) (to_web r) (si_store s))) s"
    by (auto simp: GetCurrentUser_def with_store_def split: prod.split sum.split)
  then show ?thesis using GetSessionFromRequest_drops [of E r s] by simp
qed

definition form_ok :: "env \<Rightarrow> request \<Rightarrow> bool" where
  "form_ok E r \<longleftrightarrow> ParseForm r = None \<and> ValidateToken E r = None"

locale form_handler =
  fixes E :: env and view :: "request \<Rightarrow> request" and h :: "user \<Rightarrow> request \<Rightarrow> site \<Rightarrow> response \<times> site"
  assumes refused: "\<not> form_ok E (view r) \<Longrightarrow> same_but_expired E r s (snd (h me r s))"
begin

lemma behind_admin:
  assumes "\<not> same_but_expired E r s (snd (requireAdmin E h r s))"
  shows "\<exists>user. signed_in E r s user \<and> user_Admin user \<and> form_ok E (view r)"
proof -
  obtain res au where g: "GetCurrentUser (en_now E) (to_web r) (si_auth s) = (res, au)" by fastforce
  have s: "same_but_expired E r s (s\<lparr>si_auth := au\<rparr>)" using GetCurrentUser_drops [of E r s] g by simp
  then obtain user where u: "res = Inr user" "user_Admin user"
    using assms g by (cases res) (auto simp: requireAdmin_def split: if_splits)
  then have "\<not> same_but_expired E r s (snd (h user r (s\<lparr>si_auth := au\<rparr>)))" using assms g by (simp add: requireAdmin_def)
  then have "form_ok E (view r)" using refused [of r "s\<lparr>si_auth := au\<rparr>" user] same_but_expired_trans [OF s] by blast
  then show ?thesis using u GetCurrentUser_signed_in g by blast
qed

lemma behind_user:
  assumes "\<not> same_but_expired E r s (snd (requireUser E h r s))"
  shows "\<exists>user. signed_in E r s user \<and> form_ok E (view r)"
proof -
  obtain res au where g: "GetCurrentUser (en_now E) (to_web r) (si_auth s) = (res, au)" by fastforce
  have s: "same_but_expired E r s (s\<lparr>si_auth := au\<rparr>)" using GetCurrentUser_drops [of E r s] g by simp
  then obtain user where u: "res = Inr user" using assms g by (cases res) (auto simp: requireUser_def)
  then have "\<not> same_but_expired E r s (snd (h user r (s\<lparr>si_auth := au\<rparr>)))" using assms g by (simp add: requireUser_def)
  then have "form_ok E (view r)" using refused [of r "s\<lparr>si_auth := au\<rparr>" user] same_but_expired_trans [OF s] by blast
  then show ?thesis using u GetCurrentUser_signed_in g by blast
qed

end

text \<open>Without a signed-in administrator the answer is the login page or the 403 page, without a user the login page.\<close>

lemma requireAdmin_answer:
  assumes "rs_Status (fst (requireAdmin E h r s)) \<notin> {302, 403}"
  shows "\<exists>user. signed_in E r s user \<and> user_Admin user"
proof -
  obtain res au where g: "GetCurrentUser (en_now E) (to_web r) (si_auth s) = (res, au)" by fastforce
  then obtain user where "res = Inr user" "user_Admin user"
    using assms by (cases res) (auto simp: requireAdmin_def http_Redirect_def Render_def Let_def split: if_splits)
  then show ?thesis using GetCurrentUser_signed_in g by blast
qed

lemma requireUser_answer:
  assumes "rs_Status (fst (requireUser E h r s)) \<noteq> 302"
  shows "\<exists>user. signed_in E r s user"
proof -
  obtain res au where g: "GetCurrentUser (en_now E) (to_web r) (si_auth s) = (res, au)" by fastforce
  then obtain user where "res = Inr user" using assms by (cases res) (auto simp: requireUser_def http_Redirect_def Let_def)
  then show ?thesis using GetCurrentUser_signed_in g by blast
qed

subsection \<open>The administration routes\<close>

lemma admin_checkCSRF_refused: "\<not> form_ok E r \<Longrightarrow> snd (admin_checkCSRF E r s ok) = s"
  by (auto simp: admin_checkCSRF_def form_ok_def)

lemma load_read_only: "snd (loadUser r s (\<lambda>u. (f u, s))) = s" "snd (loadGroup r s (\<lambda>g. (f' g, s))) = s"
  "snd (loadClient r s (\<lambda>c. (f'' c, s))) = s"
  by (auto simp: loadUser_def loadGroup_def loadClient_def split: sum.split)

lemma admin_handler_refused: "\<not> form_ok E r \<Longrightarrow> snd (admin_handler route A E me r s) = s"
proof (cases route)
  case GetUser
  then show ?thesis by (simp add: admin_EditUser_def load_read_only)
next
  case GetGroup
  then show ?thesis by (simp add: admin_EditGroup_def load_read_only)
next
  case GetClient
  then show ?thesis by (simp add: admin_EditClient_def load_read_only)
qed (auto simp: admin_Dashboard_def admin_Users_def admin_NewUser_def admin_Groups_def admin_NewGroup_def admin_Clients_def
    admin_NewClient_def admin_Keys_def admin_Audit_def admin_CreateUser_def admin_UpdateUser_def admin_SetUserPassword_def
    admin_SendUserReset_def admin_SendUserVerification_def admin_RevokeUserSessions_def admin_ResetUserTwoStep_def
    admin_RevokeUserSession_def admin_RevokeUserToken_def admin_RevokeUserConsent_def admin_DeleteUser_def admin_SetUserGroups_def
    admin_CreateGroup_def admin_UpdateGroup_def admin_AddGroupMember_def admin_RemoveGroupMember_def admin_DeleteGroup_def
    admin_CreateClient_def admin_UpdateClient_def admin_RegenerateClientSecret_def admin_RevokeClientTokens_def admin_DeleteClient_def
    admin_RotateKey_def admin_checkCSRF_refused split: sum.split prod.split)

interpretation admin_pages: form_handler E "\<lambda>r. r" "admin_handler route A E" for E route A
  by unfold_locales (simp add: admin_handler_refused)

subsection \<open>The account routes\<close>

datatype account_route =
    AccountPage | TwoStepSetup | PostOwnSessionRevoke | PostOthersRevoke | PostOwnTokenRevoke | PostOwnConsentRevoke | PostPassword
  | PostTwoStepEnable | PostTwoStepDisable | PostRecoveryCodes | PostRegisterBegin | PostRegisterFinish | PostPasskeyRemove

fun account_handler :: "account_route \<Rightarrow> env \<Rightarrow> user \<Rightarrow> request \<Rightarrow> site \<Rightarrow> response \<times> site" where
  "account_handler AccountPage = account_Page"
| "account_handler TwoStepSetup = account_TwoStepSetup"
| "account_handler PostOwnSessionRevoke = account_RevokeSession"
| "account_handler PostOthersRevoke = account_RevokeOtherSessions"
| "account_handler PostOwnTokenRevoke = account_RevokeToken"
| "account_handler PostOwnConsentRevoke = account_RevokeConsent"
| "account_handler PostPassword = account_ChangePassword"
| "account_handler PostTwoStepEnable = account_TwoStepEnable"
| "account_handler PostTwoStepDisable = account_TwoStepDisable"
| "account_handler PostRecoveryCodes = account_TwoStepRecoveryCodes"
| "account_handler PostRegisterBegin = account_PasskeyRegisterBegin"
| "account_handler PostRegisterFinish = account_PasskeyRegisterFinish"
| "account_handler PostPasskeyRemove = account_PasskeyRemove"

definition account_Routes :: "account_route \<Rightarrow> env \<Rightarrow> request \<Rightarrow> site \<Rightarrow> response \<times> site" where
  "account_Routes route E = requireUser E (account_handler route E)"

text \<open>The part of the request that a route reads: the passkey routes limit the body.\<close>

definition account_view :: "account_route \<Rightarrow> request \<Rightarrow> request" where
  "account_view route r = (if route \<in> {PostRegisterBegin, PostRegisterFinish} then MaxBytesReader maxPasskeyResponse r else r)"

lemma currentSessionID_frame: "same_but_expired E r s (snd (currentSessionID E r s))"
  using GetSessionFromRequest_drops [of E r s] by (auto simp: currentSessionID_def split: prod.split sum.split)

lemma account_render_frame: "same_but_expired E r s (snd (account_render E r user w st m s))"
  using currentSessionID_frame [of E r s] by (auto simp: account_render_def Let_def split: prod.split)

lemma account_checkCSRF_refused: "\<not> form_ok E r \<Longrightarrow> same_but_expired E r s (snd (account_checkCSRF E user r s ok))"
  by (auto simp: account_checkCSRF_def form_ok_def account_render_frame)

lemma jsonCSRF_refused: "\<not> form_ok E r \<Longrightarrow> snd (jsonCSRF E r s ok) = s"
  by (auto simp: jsonCSRF_def form_ok_def)

lemma account_handler_refused:
  "\<not> form_ok E (account_view route r) \<Longrightarrow> same_but_expired E r s (snd (account_handler route E user r s))"
  by (cases route)
    (auto simp: account_view_def account_Page_def account_TwoStepSetup_def account_RevokeSession_def account_RevokeOtherSessions_def
      account_RevokeToken_def account_RevokeConsent_def account_ChangePassword_def account_TwoStepEnable_def account_TwoStepDisable_def
      account_TwoStepRecoveryCodes_def account_PasskeyRegisterBegin_def account_PasskeyRegisterFinish_def account_PasskeyRemove_def
      account_render_frame account_checkCSRF_refused jsonCSRF_refused Let_def split: sum.split)

interpretation account_pages: form_handler E "account_view route" "account_handler route E" for E route
  by unfold_locales (rule account_handler_refused)

end
