(* ===== verification/AdminSafety.thy ===== *)
theory AdminSafety
  imports Guards
begin

text \<open>
  What administration leaves intact: whatever an administrator submits, the account they act with stays
  an active administrator, and a deleted user leaves no session, consent, passkey, link or membership.
\<close>

section \<open>Operations that leave the user file alone\<close>

named_theorems users_kept \<open>operations that leave the user file alone\<close>

lemma save_users_kept [users_kept]:
  "f_users (snd (save_sessions a st)) = f_users st" "f_users (snd (save_tokens b st)) = f_users st"
  "f_users (snd (save_revocations c st)) = f_users st" "f_users (snd (save_consents d st)) = f_users st"
  "f_users (snd (save_verification_tokens e st)) = f_users st" "f_users (snd (save_groups f st)) = f_users st"
  "f_users (snd (save_passkeys g st)) = f_users st" "f_users (snd (save_clients h st)) = f_users st"
  by (simp_all add: save_sessions_def save_tokens_def save_revocations_def save_consents_def save_verification_tokens_def
      save_groups_def save_passkeys_def save_clients_def writeFile_def split: option.split)

lemma session_ops_kept [users_kept]:
  "f_users (snd (sessions_Delete k st)) = f_users st" "f_users (snd (sessions_DeleteByUserID u st)) = f_users st"
  by (simp_all add: sessions_Delete_def sessions_DeleteByUserID_def users_kept split: sum.split option.split)

lemma RevokeBefore_users_kept [users_kept]: "f_users (snd (RevokeBefore kind key t st)) = f_users st"
  by (simp add: RevokeBefore_def upsert_def users_kept split: sum.split option.split)

lemma token_ops_kept [users_kept]:
  "f_users (snd (tokens_Revoke now k st)) = f_users st" "f_users (snd (tokens_RevokeByUserID now u st)) = f_users st"
  "f_users (snd (tokens_RevokeByClientID now c st)) = f_users st"
proof -
  have s: "save_tokens ts st = (e, st') \<Longrightarrow> f_users st' = f_users st" for ts e st' using save_users_kept(2) [of ts st] by simp
  show "f_users (snd (tokens_Revoke now k st)) = f_users st" "f_users (snd (tokens_RevokeByUserID now u st)) = f_users st"
    "f_users (snd (tokens_RevokeByClientID now c st)) = f_users st"
    by (auto simp: tokens_Revoke_def tokens_RevokeByUserID_def tokens_RevokeByClientID_def users_kept dest: s
        split: sum.split option.split prod.split)
qed

lemma consent_ops_kept [users_kept]:
  "f_users (snd (consents_Delete u c st)) = f_users st" "f_users (snd (consents_DeleteByUserID u st)) = f_users st"
  "f_users (snd (vtokens_DeleteByUserID u p st)) = f_users st" "f_users (snd (vtokens_Create now t st)) = f_users st"
  by (simp_all add: consents_Delete_def consents_DeleteByUserID_def vtokens_DeleteByUserID_def vtokens_Create_def Let_def users_kept
      split: sum.split option.split)

lemma group_ops_kept [users_kept]:
  "f_users (snd (groups_Create P now g st)) = f_users st" "f_users (snd (groups_Update P now g st)) = f_users st"
  "f_users (snd (groups_Delete k st)) = f_users st" "f_users (snd (groups_AddMember k u st)) = f_users st"
  "f_users (snd (groups_RemoveMember k u st)) = f_users st" "f_users (snd (groups_RemoveUser u st)) = f_users st"
  by (simp_all add: groups_Create_def groups_Update_def groups_Delete_def groups_AddMember_def groups_RemoveMember_def
      groups_RemoveUser_def Let_def users_kept split: sum.split option.split)

lemma client_ops_kept [users_kept]:
  "f_users (snd (clients_Create now c st)) = f_users st" "f_users (snd (clients_Update now c st)) = f_users st"
  "f_users (snd (clients_Delete k st)) = f_users st" "f_users (snd (passkeys_DeleteByUserID u st)) = f_users st"
  by (simp_all add: clients_Create_def clients_Update_def clients_Delete_def passkeys_DeleteByUserID_def Let_def users_kept
      split: sum.split option.split)

lemma Record_kept [users_kept]: "f_users (Record uuid now b e st) = f_users st"
  using Record_frame [of uuid now b e st] by auto

lemma admin_record_kept [users_kept]: "f_users (si_store (admin_record E i r u a t k d s)) = f_users (si_store s)"
  by (simp add: admin_record_def users_kept)

lemma issueToken_kept: "issueToken P rnd now u p ttl acc = (res, acc') \<Longrightarrow> f_users (acc_store acc') = f_users (acc_store acc)"
proof -
  have "vtokens_DeleteByUserID u p st = (e, st') \<Longrightarrow> f_users st' = f_users st" for st e st'
    using consent_ops_kept(3) [of u p st] by simp
  moreover have "vtokens_Create now t st = (e, st') \<Longrightarrow> f_users st' = f_users st" for t st e st'
    using consent_ops_kept(4) [of now t st] by simp
  ultimately show "issueToken P rnd now u p ttl acc = (res, acc') \<Longrightarrow> ?thesis"
    by (fastforce simp: issueToken_def Let_def split: sum.splits prod.splits option.splits)
qed

lemma send_kept: "send mailer m acc = (e, acc') \<Longrightarrow> acc_store acc' = acc_store acc"
  by (auto simp: send_def split: option.splits)

lemma SendPasswordReset_kept [users_kept]:
  "f_users (acc_store (snd (SendPasswordReset P mailer rnd uuid now svc user acc))) = f_users (acc_store acc)"
  by (auto simp: SendPasswordReset_def account_audit_def users_kept dest!: issueToken_kept send_kept split: prod.split sum.split option.split)

lemma SendEmailVerification_kept [users_kept]:
  "f_users (acc_store (snd (SendEmailVerification P mailer rnd now svc user acc))) = f_users (acc_store acc)"
  by (auto simp: SendEmailVerification_def dest!: issueToken_kept send_kept split: prod.split sum.split option.split)

lemma set_groups_kept [users_kept]: "f_users (set_groups w u gms st) = f_users st"
  unfolding set_groups_def by (induction gms arbitrary: st) (auto simp: users_kept)

lemma purge_user_kept [users_kept]: "f_users (purge_user now u st) = f_users st"
  by (simp add: purge_user_def Let_def users_kept)

section \<open>The administrator stays\<close>

definition admin_alive :: "string \<Rightarrow> fstore \<Rightarrow> bool" where
  "admin_alive k st \<longleftrightarrow> (case users_GetByID k st of Inr u \<Rightarrow> user_Admin u \<and> user_Active u | Inl _ \<Rightarrow> False)"

lemma admin_alive_cong: "f_users st' = f_users st \<Longrightarrow> admin_alive k st' = admin_alive k st"
  by (simp add: admin_alive_def users_GetByID_def load_users_def)

lemmas alive_kept = users_kept [THEN admin_alive_cong]

lemma find_append_Some: "find p xs = Some x \<Longrightarrow> find p (xs @ ys) = Some x"
  by (induction xs) auto

lemma alive_users_Update:
  assumes "admin_alive k st" and "user_ID u = k \<longrightarrow> user_Admin u \<and> user_Active u"
  shows "admin_alive k (snd (users_Update now u st))"
proof -
  obtain us x where l: "load_users st = Inr us" "find (\<lambda>u. user_ID u = k) us = Some x" "user_Admin x" "user_Active x"
    using assms(1) by (auto simp: admin_alive_def users_GetByID_def split: sum.splits option.splits)
  let ?us = "upd_first (\<lambda>y. user_ID y = user_ID u) (\<lambda>_. u\<lparr>user_UpdatedAt := now\<rparr>) us"
  have "\<exists>y. find (\<lambda>u. user_ID u = k) ?us = Some y \<and> user_Admin y \<and> user_Active y"
  proof (cases "user_ID u = k")
    case True
    then show ?thesis using find_upd_first_same [of "\<lambda>y. user_ID y = k" "\<lambda>_. u\<lparr>user_UpdatedAt := now\<rparr>" us] l(2) assms(2) by simp
  next
    case False
    then show ?thesis using find_upd_first_other [of "\<lambda>y. user_ID y = user_ID u" "\<lambda>y. user_ID y = k" "\<lambda>_. u\<lparr>user_UpdatedAt := now\<rparr>" us] l by simp
  qed
  then show ?thesis using l
    by (auto simp: users_Update_def admin_alive_def users_GetByID_def save_users_def writeFile_def load_users_def split: option.splits)
qed

lemma alive_users_Delete:
  assumes "admin_alive k st" and "ident \<noteq> k"
  shows "admin_alive k (snd (users_Delete ident st))"
proof -
  obtain us x where l: "load_users st = Inr us" "find (\<lambda>u. user_ID u = k) us = Some x" "user_Admin x" "user_Active x"
    using assms(1) by (auto simp: admin_alive_def users_GetByID_def split: sum.splits option.splits)
  have "find (\<lambda>u. user_ID u = k) (del_first (\<lambda>u. user_ID u = ident) us) = Some x"
    using find_del_first_other [of "\<lambda>u. user_ID u = ident" "\<lambda>u. user_ID u = k" us] assms(2) l(2) by auto
  then show ?thesis using l
    by (auto simp: users_Delete_def admin_alive_def users_GetByID_def save_users_def writeFile_def load_users_def split: option.splits)
qed

lemma alive_users_Create:
  assumes "admin_alive k st"
  shows "admin_alive k (snd (users_Create P now u st))"
proof -
  obtain us x where l: "load_users st = Inr us" "find (\<lambda>u. user_ID u = k) us = Some x" "user_Admin x" "user_Active x"
    using assms(1) by (auto simp: admin_alive_def users_GetByID_def split: sum.splits option.splits)
  then show ?thesis using find_append_Some [OF l(2)]
    by (auto simp: users_Create_def admin_alive_def users_GetByID_def save_users_def writeFile_def load_users_def split: option.splits)
qed

text \<open>A user that was read from the store keeps its flags.\<close>

lemma alive_loaded:
  "admin_alive k st \<Longrightarrow> users_GetByID i st = Inr u \<Longrightarrow> user_ID u = k \<longrightarrow> user_Admin u \<and> user_Active u"
  using users_GetByID_D [of i st u] by (auto simp: admin_alive_def)

lemma alive_SetPassword:
  assumes "admin_alive k st" and "users_GetByID i st = Inr u"
  shows "admin_alive k (snd (SetPassword P salt now u pw st))"
proof -
  have "admin_alive k (snd (users_Update now (u\<lparr>user_PasswordHash := h\<rparr>) st))" for h
    by (rule alive_users_Update [OF assms(1)]) (use alive_loaded [OF assms] in auto)
  then have "users_Update now (u\<lparr>user_PasswordHash := h\<rparr>) st = (e, st1) \<Longrightarrow> admin_alive k st1" for h e st1 by (metis snd_conv)
  then show ?thesis using assms(1)
    by (auto simp: SetPassword_def Let_def alive_kept split: option.split sum.split prod.split)
qed

lemma alive_ResetSecondFactors:
  assumes "admin_alive k st" and "users_GetByID i st = Inr u"
  shows "admin_alive k (snd (ResetSecondFactors now u st))"
proof -
  let ?u = "(ClearTOTP u)\<lparr>user_RecoveryCodes := []\<rparr>"
  have "admin_alive k (snd (users_Update now ?u st))"
    by (rule alive_users_Update [OF assms(1)]) (use alive_loaded [OF assms] in \<open>auto simp: ClearTOTP_def\<close>)
  then have "users_Update now ?u st = (e, st1) \<Longrightarrow> admin_alive k st1" for e st1 by (metis snd_conv)
  then show ?thesis
    by (auto simp: ResetSecondFactors_def Let_def alive_kept split: option.split prod.split)
qed

lemma admin_checkCSRF_inv: "Q s \<Longrightarrow> Q (snd ok) \<Longrightarrow> Q (snd (admin_checkCSRF E r s ok))"
  by (simp add: admin_checkCSRF_def)

lemma loadUser_inv:
  "Q s \<Longrightarrow> (\<And>u. users_GetByID (URLParam r ''id'') (si_store s) = Inr u \<Longrightarrow> Q (snd (k u))) \<Longrightarrow> Q (snd (loadUser r s k))"
  by (simp add: loadUser_def split: sum.split)

lemma loadGroup_inv: "Q s \<Longrightarrow> (\<And>g. Q (snd (k g))) \<Longrightarrow> Q (snd (loadGroup r s k))"
  by (simp add: loadGroup_def split: sum.split)

lemma loadClient_inv: "Q s \<Longrightarrow> (\<And>c. Q (snd (k c))) \<Longrightarrow> Q (snd (loadClient r s k))"
  by (simp add: loadClient_def split: sum.split)

text \<open>An operation outside the user file, taken apart into its result and the new store.\<close>

lemma alive_pair:
  "sessions_Delete k' st = (e, st') \<Longrightarrow> admin_alive k st' = admin_alive k st"
  "tokens_Revoke now k' st = (e, st') \<Longrightarrow> admin_alive k st' = admin_alive k st"
  "tokens_RevokeByClientID now c st = (e, st') \<Longrightarrow> admin_alive k st' = admin_alive k st"
  "consents_Delete u c st = (e, st') \<Longrightarrow> admin_alive k st' = admin_alive k st"
  "groups_Create P now g st = (e, st') \<Longrightarrow> admin_alive k st' = admin_alive k st"
  "groups_Update P now g st = (e, st') \<Longrightarrow> admin_alive k st' = admin_alive k st"
  "groups_Delete k' st = (e, st') \<Longrightarrow> admin_alive k st' = admin_alive k st"
  "groups_AddMember k' u st = (e, st') \<Longrightarrow> admin_alive k st' = admin_alive k st"
  "groups_RemoveMember k' u st = (e, st') \<Longrightarrow> admin_alive k st' = admin_alive k st"
  "clients_Create now cl st = (e, st') \<Longrightarrow> admin_alive k st' = admin_alive k st"
  "clients_Update now cl st = (e, st') \<Longrightarrow> admin_alive k st' = admin_alive k st"
  "clients_Delete k' st = (e, st') \<Longrightarrow> admin_alive k st' = admin_alive k st"
  using alive_kept by (metis snd_conv)+

lemma alive_account_pair:
  "SendPasswordReset P mailer rnd uuid now svc user acc = (e, acc') \<Longrightarrow> admin_alive k (acc_store acc') = admin_alive k (acc_store acc)"
  "SendEmailVerification P mailer rnd now svc user acc = (e, acc') \<Longrightarrow> admin_alive k (acc_store acc') = admin_alive k (acc_store acc)"
  using alive_kept by (metis snd_conv)+

lemma alive_UpdateUser:
  assumes "admin_alive (user_ID me) (si_store s)"
  shows "admin_alive (user_ID me) (si_store (snd (admin_UpdateUser A E me r s)))"
  unfolding admin_UpdateUser_def
proof (intro admin_checkCSRF_inv [of "\<lambda>s. admin_alive (user_ID me) (si_store s)"]
    loadUser_inv [of "\<lambda>s. admin_alive (user_ID me) (si_store s)"] assms, goal_cases)
  case (1 user)
  let ?k = "user_ID me" and ?u = "updated_user E me r user"
  show ?case
  proof (cases "user_ID user = ?k \<and> \<not> user_Active ?u")
    case True
    then show ?thesis using assms by (simp add: Let_def)
  next
    case False
    have "admin_alive ?k (snd (users_Update (en_now E) ?u (si_store s)))"
      by (rule alive_users_Update [OF assms]) (use False in \<open>auto simp: updated_user_def Let_def\<close>)
    then have "users_Update (en_now E) ?u (si_store s) = (e, st1) \<Longrightarrow> admin_alive ?k st1" for e st1 by (metis snd_conv)
    then show ?thesis using assms by (auto simp: Let_def alive_kept split: prod.split option.split)
  qed
qed

lemma alive_CreateUser:
  assumes "admin_alive k (si_store s)"
  shows "admin_alive k (si_store (snd (admin_CreateUser A E me r s)))"
proof -
  have c: "users_Create P now u st = (e, st') \<Longrightarrow> admin_alive k st \<Longrightarrow> admin_alive k st'" for P now u st e st'
    using alive_users_Create [of k st P now u] by simp
  have i: "send_invite A E me r u fl s1 = (fl', s2) \<Longrightarrow> admin_alive k (si_store s2) = admin_alive k (si_store s1)" for u fl s1 fl' s2
    by (auto simp: send_invite_def alive_kept dest: alive_account_pair(1) split: if_splits prod.splits option.splits)
  have v: "send_verification A E r u fl s1 = (fl', s2) \<Longrightarrow> admin_alive k (si_store s2) = admin_alive k (si_store s1)" for u fl s1 fl' s2
    by (auto simp: send_verification_def dest: alive_account_pair(2) split: if_splits prod.splits option.splits)
  show ?thesis unfolding admin_CreateUser_def
    by (rule admin_checkCSRF_inv [of "\<lambda>s. admin_alive k (si_store s)", OF assms])
       (use assms in \<open>auto simp: Let_def alive_kept dest!: c i v split: sum.split prod.split option.split\<close>)
qed

lemma alive_user_routes:
  assumes "admin_alive (user_ID me) (si_store s)"
  shows "admin_alive (user_ID me) (si_store (snd (admin_SetUserPassword A E me r s)))"
    and "admin_alive (user_ID me) (si_store (snd (admin_ResetUserTwoStep A E me r s)))"
    and "admin_alive (user_ID me) (si_store (snd (admin_DeleteUser A E me r s)))"
proof -
  let ?k = "user_ID me"
  let ?Q = "\<lambda>s. admin_alive ?k (si_store s)"
  have p: "SetPassword P salt now u pw st = (x, st') \<Longrightarrow> admin_alive ?k st \<Longrightarrow> users_GetByID i st = Inr u \<Longrightarrow> admin_alive ?k st'"
    for P salt now u pw st x st' i using alive_SetPassword [of ?k st i u P salt now pw] by simp
  have t: "ResetSecondFactors now u st = (x, st') \<Longrightarrow> admin_alive ?k st \<Longrightarrow> users_GetByID i st = Inr u \<Longrightarrow> admin_alive ?k st'"
    for now u st x st' i using alive_ResetSecondFactors [of ?k st i u now] by simp
  have d: "users_Delete i (purge_user now i' st) = (x, st') \<Longrightarrow> admin_alive ?k st \<Longrightarrow> i \<noteq> ?k \<Longrightarrow> admin_alive ?k st'"
    for i now i' st x st' using alive_users_Delete [of ?k "purge_user now i' st" i] by (simp add: alive_kept)
  show "?Q (snd (admin_SetUserPassword A E me r s))" unfolding admin_SetUserPassword_def
    by (intro admin_checkCSRF_inv [of ?Q] loadUser_inv [of ?Q] assms)
       (auto simp: alive_kept dest: p [OF _ assms] split: prod.split option.split)
  show "?Q (snd (admin_ResetUserTwoStep A E me r s))" unfolding admin_ResetUserTwoStep_def
    by (intro admin_checkCSRF_inv [of ?Q] loadUser_inv [of ?Q] assms)
       (auto simp: alive_kept dest: t [OF _ assms] split: prod.split option.split)
  show "?Q (snd (admin_DeleteUser A E me r s))" unfolding admin_DeleteUser_def
    by (intro admin_checkCSRF_inv [of ?Q] loadUser_inv [of ?Q] assms)
       (use assms in \<open>auto simp: alive_kept dest: d [OF _ assms] split: prod.split option.split\<close>)
qed

lemma alive_other_user_routes:
  assumes "admin_alive k (si_store s)"
  shows "admin_alive k (si_store (snd (admin_SendUserReset A E me r s)))"
    and "admin_alive k (si_store (snd (admin_SendUserVerification A E me r s)))"
    and "admin_alive k (si_store (snd (admin_RevokeUserSessions A E me r s)))"
    and "admin_alive k (si_store (snd (admin_RevokeUserSession A E me r s)))"
    and "admin_alive k (si_store (snd (admin_RevokeUserToken A E me r s)))"
    and "admin_alive k (si_store (snd (admin_RevokeUserConsent A E me r s)))"
    and "admin_alive k (si_store (snd (admin_SetUserGroups A E me r s)))"
  unfolding admin_SendUserReset_def admin_SendUserVerification_def admin_RevokeUserSessions_def admin_RevokeUserSession_def
    admin_RevokeUserToken_def admin_RevokeUserConsent_def admin_SetUserGroups_def
  by (intro admin_checkCSRF_inv [of "\<lambda>s. admin_alive k (si_store s)"] loadUser_inv [of "\<lambda>s. admin_alive k (si_store s)"] assms;
      use assms in \<open>auto simp: alive_kept Let_def dest: alive_pair [where k = k] alive_account_pair [where k = k] split: prod.split option.split\<close>)+

lemma alive_group_routes:
  assumes "admin_alive k (si_store s)"
  shows "admin_alive k (si_store (snd (admin_CreateGroup A E me r s)))"
    and "admin_alive k (si_store (snd (admin_UpdateGroup A E me r s)))"
    and "admin_alive k (si_store (snd (admin_AddGroupMember A E me r s)))"
    and "admin_alive k (si_store (snd (admin_RemoveGroupMember A E me r s)))"
    and "admin_alive k (si_store (snd (admin_DeleteGroup A E me r s)))"
  unfolding admin_CreateGroup_def admin_UpdateGroup_def admin_AddGroupMember_def admin_RemoveGroupMember_def admin_DeleteGroup_def
  by (intro admin_checkCSRF_inv [of "\<lambda>s. admin_alive k (si_store s)"] loadGroup_inv [of "\<lambda>s. admin_alive k (si_store s)"] assms;
      use assms in \<open>auto simp: alive_kept Let_def dest: alive_pair [where k = k] split: prod.split option.split sum.split\<close>)+

lemma alive_client_routes:
  assumes "admin_alive k (si_store s)"
  shows "admin_alive k (si_store (snd (admin_CreateClient A E me r s)))"
    and "admin_alive k (si_store (snd (admin_UpdateClient A E me r s)))"
    and "admin_alive k (si_store (snd (admin_RegenerateClientSecret A E me r s)))"
    and "admin_alive k (si_store (snd (admin_RevokeClientTokens A E me r s)))"
    and "admin_alive k (si_store (snd (admin_DeleteClient A E me r s)))"
    and "admin_alive k (si_store (snd (admin_RotateKey A E me r s)))"
  unfolding admin_CreateClient_def admin_UpdateClient_def admin_RegenerateClientSecret_def admin_RevokeClientTokens_def
    admin_DeleteClient_def admin_RotateKey_def
  by (intro admin_checkCSRF_inv [of "\<lambda>s. admin_alive k (si_store s)"] loadClient_inv [of "\<lambda>s. admin_alive k (si_store s)"] assms;
      use assms in \<open>auto simp: alive_kept Let_def dest: alive_pair [where k = k] split: prod.split option.split sum.split\<close>)+

lemma admin_handler_alive:
  assumes "admin_alive (user_ID me) (si_store s)"
  shows "admin_alive (user_ID me) (si_store (snd (admin_handler route A E me r s)))"
proof -
  note rd = load_read_only admin_Dashboard_def admin_Users_def admin_NewUser_def admin_EditUser_def admin_Groups_def admin_NewGroup_def
    admin_EditGroup_def admin_Clients_def admin_NewClient_def admin_EditClient_def admin_Keys_def admin_Audit_def
  note wr = alive_UpdateUser [OF assms] alive_CreateUser [OF assms] alive_user_routes [OF assms] alive_other_user_routes [OF assms]
    alive_group_routes [OF assms] alive_client_routes [OF assms]
  show ?thesis using assms by (cases route) (simp_all add: wr, simp_all add: rd split: sum.split prod.split)
qed

text \<open>A sequence of requests to the administration pages, of any number of administrators.\<close>

definition admin_step :: "admin_route \<times> admin \<times> env \<times> request \<Rightarrow> site \<Rightarrow> site" where
  "admin_step c s = (case c of (route, A, E, r) \<Rightarrow> snd (admin_Routes route A E r s))"

text \<open>Someone is an active administrator.\<close>

definition has_admin :: "fstore \<Rightarrow> bool" where
  "has_admin st \<longleftrightarrow> (\<exists>k. admin_alive k st)"

lemma has_admin_step: "has_admin (si_store s) \<Longrightarrow> has_admin (si_store (admin_step c s))"
proof -
  assume a: "has_admin (si_store s)"
  obtain route A E r where c: "c = (route, A, E, r)" by (cases c) auto
  obtain res au where g: "GetCurrentUser (en_now E) (to_web r) (si_auth s) = (res, au)" by fastforce
  obtain v where v: "au = (si_auth s)\<lparr>au_store := (si_store s)\<lparr>f_sessions := v\<rparr>\<rparr>"
    using GetCurrentUser_frame [of "en_now E" "to_web r" "si_auth s"] g by auto
  have same: "admin_alive k (si_store (s\<lparr>si_auth := au\<rparr>)) = admin_alive k (si_store s)" for k
    by (rule admin_alive_cong) (simp add: v)
  show ?thesis
  proof (cases "\<exists>user. res = Inr user \<and> user_Admin user")
    case True
    then obtain user where u: "res = Inr user" "user_Admin user" by blast
    with g GetCurrentUser_Inr(2) obtain i where i: "users_GetByID i (si_store s) = Inr user" "user_Active user" by blast
    then have "user_ID user = i" using users_GetByID_D by blast
    then have "admin_alive (user_ID user) (si_store (s\<lparr>si_auth := au\<rparr>))" using i u(2) unfolding same by (simp add: admin_alive_def)
    from admin_handler_alive [OF this, of route "NewAdminHandler A" E r] show ?thesis
      unfolding has_admin_def by (intro exI [of _ "user_ID user"]) (simp add: c admin_step_def admin_Routes_def requireAdmin_def g u)
  next
    case False
    then have "admin_step c s = s\<lparr>si_auth := au\<rparr>" using g by (cases res) (auto simp: c admin_step_def admin_Routes_def requireAdmin_def)
    then show ?thesis using a same by (simp add: has_admin_def)
  qed
qed

lemma has_admin_run: "has_admin (si_store s) \<Longrightarrow> has_admin (si_store (fold admin_step cs s))"
  by (induction cs arbitrary: s) (simp_all add: has_admin_step)

section \<open>A deleted user leaves nothing behind\<close>

text \<open>The clean-up on a store that can be read and written, file by file.\<close>

lemma purge_user_healthy:
  assumes "healthy st"
  obtains rs where
    "purge_user now k st =
       st\<lparr>f_sessions := Content (filter (\<lambda>x. session_UserID x \<noteq> k) (sessions_of st)),
         f_tokens := Content (map (\<lambda>t. if token_UserID t = k then t\<lparr>token_Revoked := True\<rparr> else t) (tokens_of st)),
         f_revocations := Content rs,
         f_consents := Content (filter (\<lambda>c. consent_UserID c \<noteq> k) (consents_of st)),
         f_passkeys := Content (filter (\<lambda>p. passkey_UserID p \<noteq> k) (passkeys_of st)),
         f_verification_tokens := Content (filter (\<lambda>t. vt_UserID t \<noteq> k) (vtokens_of st)),
         f_groups := Content ((groups_of st)\<lparr>gd_Memberships := filter (\<lambda>m. m_UserID m \<noteq> k) (gd_Memberships (groups_of st))\<rparr>)\<rparr>"
    and "\<And>jti c iat. iat \<le> now \<Longrightarrow> list_ex (row_revokes jti k c iat) rs"
proof -
  let ?s1 = "st\<lparr>f_sessions := Content (filter (\<lambda>x. session_UserID x \<noteq> k) (sessions_of st))\<rparr>"
  let ?s2 = "?s1\<lparr>f_tokens := Content (map (\<lambda>t. if token_UserID t = k then t\<lparr>token_Revoked := True\<rparr> else t) (tokens_of st))\<rparr>"
  have s1: "snd (sessions_DeleteByUserID k st) = ?s1" using assms by (simp add: sessions_DeleteByUserID_def healthy_of save_healthy)
  obtain rs where rb: "RevokeBefore RevocationUser k now ?s2 = (None, ?s2\<lparr>f_revocations := Content rs\<rparr>)"
    using RevokeBefore_healthy [of ?s2 RevocationUser k now] assms by auto
  have s2: "snd (tokens_RevokeByUserID now k ?s1) = ?s2\<lparr>f_revocations := Content rs\<rparr>"
    using assms rb by (simp add: tokens_RevokeByUserID_def healthy_of save_healthy)
  have "list_ex (row_revokes jti k c iat) rs" if "iat \<le> now" for jti c iat
    using revocations.user_revokes [OF rb that, of jti c] by (simp add: revoked_in_def of_load list_ex_iff)
  moreover note that [of rs]
  ultimately show ?thesis
    using assms unfolding purge_user_def Let_def s1 s2
    by (simp add: consents_DeleteByUserID_def passkeys_DeleteByUserID_def vtokens_DeleteByUserID_def groups_RemoveUser_def
        healthy_of save_healthy)
qed

end
