(* ===== verification/Middleware.thy ===== *)
theory Middleware
  imports Http
begin

text \<open>
  \<open>internal/http/middleware.go\<close>: the client address behind trusted proxies, security headers, CORS. A
  middleware takes the handler it wraps; the headers it sets before calling it stay unless the handler
  sets them again. Addresses and prefixes of \<open>net/netip\<close> are opaque values of the parameter \<open>netip\<close>.
\<close>

type_synonym 's handler = "request \<Rightarrow> 's \<Rightarrow> response \<times> 's"

record netip =
  ni_ParseAddr :: "string \<Rightarrow> string res"
  ni_Unmap :: "string \<Rightarrow> string"
  ni_String :: "string \<Rightarrow> string"
  ni_Contains :: "string \<Rightarrow> string \<Rightarrow> bool"

section \<open>The client behind trusted proxies\<close>

definition prefixesContain :: "netip \<Rightarrow> string list \<Rightarrow> string \<Rightarrow> bool" where
  "prefixesContain N prefixes addr = list_ex (\<lambda>p. ni_Contains N p addr) prefixes"

definition peerIsTrusted :: "netip \<Rightarrow> string \<Rightarrow> string list \<Rightarrow> bool" where
  "peerIsTrusted N remoteAddr trusted =
     (let host = (case SplitHostPort remoteAddr of None \<Rightarrow> remoteAddr | Some h \<Rightarrow> h)
      in case ni_ParseAddr N host of
           Inl _ \<Rightarrow> False
         | Inr addr \<Rightarrow> prefixesContain N trusted (ni_Unmap N addr))"

definition forwarded_hops :: "string list \<Rightarrow> string list" where
  "forwarded_hops values = filter (\<lambda>h. h \<noteq> '''') (map TrimSpace (concat (map (Split CHR '','') values)))"

text \<open>The hops from the right; the list is reversed, so the leftmost is the last.\<close>

fun walk_hops :: "netip \<Rightarrow> string list \<Rightarrow> string list \<Rightarrow> string option" where
  "walk_hops N trusted [] = None"
| "walk_hops N trusted (h # rest) =
     (case ni_ParseAddr N h of
        Inl _ \<Rightarrow> None
      | Inr addr \<Rightarrow>
          if rest = [] \<or> \<not> prefixesContain N trusted (ni_Unmap N addr) then Some (ni_String N (ni_Unmap N addr))
          else walk_hops N trusted rest)"

definition clientFromForwardedFor :: "netip \<Rightarrow> string list \<Rightarrow> string list \<Rightarrow> string option" where
  "clientFromForwardedFor N values trusted = walk_hops N trusted (rev (forwarded_hops values))"

definition forwardingHeaders :: "string list" where
  "forwardingHeaders = [''X-Forwarded-For'', ''X-Forwarded-Proto'', ''X-Forwarded-Host'', ''X-Real-IP'', ''True-Client-IP'']"

definition Header_Del :: "string \<Rightarrow> request \<Rightarrow> request" where
  "Header_Del k r = r\<lparr>hq_Header := (hq_Header r)(k := None)\<rparr>"

definition Header_Values :: "request \<Rightarrow> string \<Rightarrow> string list" where
  "Header_Values r k = (case hq_Header r k of None \<Rightarrow> [] | Some vs \<Rightarrow> vs)"

text \<open>The request as \<open>RealIPFromTrustedProxies\<close> passes it on.\<close>

definition real_ip_request :: "netip \<Rightarrow> string list \<Rightarrow> request \<Rightarrow> request" where
  "real_ip_request N trusted r =
     (if length trusted > 0 \<and> peerIsTrusted N (hq_RemoteAddr r) trusted then
        (let r1 = (case clientFromForwardedFor N (Header_Values r ''X-Forwarded-For'') trusted of
                     Some ip \<Rightarrow> r\<lparr>hq_RemoteAddr := ip\<rparr> | None \<Rightarrow> r)
         in Header_Del ''True-Client-IP'' (Header_Del ''X-Real-IP'' r1))
      else fold Header_Del forwardingHeaders r)"

definition RealIPFromTrustedProxies :: "netip \<Rightarrow> string list \<Rightarrow> 's handler \<Rightarrow> 's handler" where
  "RealIPFromTrustedProxies N trusted next_h r s = next_h (real_ip_request N trusted r) s"

lemma walk_hops_rightmost:
  assumes "\<And>p. p \<in> set post \<Longrightarrow> \<exists>a. ni_ParseAddr N p = Inr a \<and> prefixesContain N trusted (ni_Unmap N a)"
    and "ni_ParseAddr N h = Inr addr" and "\<not> prefixesContain N trusted (ni_Unmap N addr)"
  shows "walk_hops N trusted (post @ h # pre) = Some (ni_String N (ni_Unmap N addr))"
  using assms
proof (induction post)
  case (Cons p post)
  obtain a where "ni_ParseAddr N p = Inr a" "prefixesContain N trusted (ni_Unmap N a)" using Cons.prems(1) [of p] by auto
  with Cons show ?case by simp
qed simp

lemma forwarded_hops_append: "forwarded_hops (vs @ ws) = forwarded_hops vs @ forwarded_hops ws"
  by (simp add: forwarded_hops_def)

text \<open>A proxy that appends to the last line of the header appends to the hops.\<close>

lemma forwarded_hops_line: "forwarded_hops (vs @ [v @ CHR '','' # w]) = forwarded_hops (vs @ [v]) @ forwarded_hops [w]"
proof -
  have "Split c (v @ c # w) = Split c v @ Split c w" for c
  proof (induction v)
    case Nil
    have "Split c w \<noteq> []" by (cases w) (auto split: list.splits)
    then show ?case by simp
  next
    case (Cons a v)
    have "Split c v \<noteq> []" by (cases v) (auto split: list.splits)
    then obtain x xs where "Split c v = x # xs" by (cases "Split c v") auto
    with Cons show ?case by simp
  qed
  then show ?thesis by (simp add: forwarded_hops_def)
qed

lemma clientFromForwardedFor_rightmost:
  assumes "forwarded_hops values = pre @ h # post"
    and "\<And>p. p \<in> set post \<Longrightarrow> \<exists>a. ni_ParseAddr N p = Inr a \<and> prefixesContain N trusted (ni_Unmap N a)"
    and "ni_ParseAddr N h = Inr addr" and "\<not> prefixesContain N trusted (ni_Unmap N addr)"
  shows "clientFromForwardedFor N values trusted = Some (ni_String N (ni_Unmap N addr))"
  using walk_hops_rightmost [of "rev post" N trusted h addr "rev pre"] assms by (simp add: clientFromForwardedFor_def)

lemma fold_Header_Del:
  "hq_Header (fold Header_Del ks r) k = (if k \<in> set ks then None else hq_Header r k)"
  "hq_RemoteAddr (fold Header_Del ks r) = hq_RemoteAddr r"
  by (induction ks arbitrary: r) (auto simp: Header_Del_def)

section \<open>Security headers\<close>

definition isHTTPS :: "platform \<Rightarrow> request \<Rightarrow> bool" where
  "isHTTPS P r =
     (if hq_TLS r then True
      else EqualFold P (TrimSpace (takeWhile (\<lambda>c. c \<noteq> CHR '','') (Header_Get r ''X-Forwarded-Proto''))) ''https'')"

record security_headers =
  sh_ContentSecurityPolicy :: string
  sh_XFrameOptions :: string
  sh_XContentTypeOptions :: string
  sh_ReferrerPolicy :: string
  sh_StrictTransportSecurity :: string
  sh_PermissionsPolicy :: string
  sh_XSSProtection :: string

definition DefaultSecurityHeadersConfig :: security_headers where
  "DefaultSecurityHeadersConfig =
     \<lparr>sh_ContentSecurityPolicy = ''default-src '' @ quoted ''self'' @ ''; style-src '' @ quoted ''self'' @ '' '' @ quoted ''unsafe-inline''
        @ ''; img-src '' @ quoted ''self'' @ '' data:; frame-ancestors '' @ quoted ''none'' @ ''; base-uri '' @ quoted ''none''
        @ ''; object-src '' @ quoted ''none'',
      sh_XFrameOptions = ''DENY'', sh_XContentTypeOptions = ''nosniff'', sh_ReferrerPolicy = ''strict-origin-when-cross-origin'',
      sh_StrictTransportSecurity = '''', sh_PermissionsPolicy = ''geolocation=(), microphone=(), camera=()'', sh_XSSProtection = ''0''\<rparr>"

definition set_if :: "string \<Rightarrow> string \<Rightarrow> response \<Rightarrow> response" where
  "set_if k v w = (if v \<noteq> '''' then Header_Set k v w else w)"

text \<open>The headers set before the wrapped handler runs.\<close>

definition under :: "response \<Rightarrow> response \<times> 's \<Rightarrow> response \<times> 's" where
  "under pre res = (case res of (w, s) \<Rightarrow> (w\<lparr>rs_Headers := rs_Headers pre ++ rs_Headers w\<rparr>, s))"

definition security_response :: "platform \<Rightarrow> security_headers option \<Rightarrow> request \<Rightarrow> response" where
  "security_response P config r =
     (let c = (case config of None \<Rightarrow> DefaultSecurityHeadersConfig | Some c \<Rightarrow> c);
          w = set_if ''Permissions-Policy'' (sh_PermissionsPolicy c)
             (set_if ''X-XSS-Protection'' (sh_XSSProtection c)
             (set_if ''Referrer-Policy'' (sh_ReferrerPolicy c)
             (set_if ''X-Content-Type-Options'' (sh_XContentTypeOptions c)
             (set_if ''X-Frame-Options'' (sh_XFrameOptions c)
             (set_if ''Content-Security-Policy'' (sh_ContentSecurityPolicy c) NewResponse)))))
      in if sh_StrictTransportSecurity c \<noteq> '''' \<and> isHTTPS P r
         then Header_Set ''Strict-Transport-Security'' (sh_StrictTransportSecurity c) w else w)"

definition SecurityHeadersMiddleware :: "platform \<Rightarrow> security_headers option \<Rightarrow> 's handler \<Rightarrow> 's handler" where
  "SecurityHeadersMiddleware P config next_h r s = under (security_response P config r) (next_h r s)"

section \<open>CORS\<close>

record cors_config =
  co_AllowedOrigins :: "string list"
  co_AllowCredentials :: bool
  co_AllowedMethods :: "string list"
  co_AllowedHeaders :: "string list"
  co_ExposedHeaders :: "string list"
  co_MaxAge :: int

definition DefaultCORSConfig :: cors_config where
  "DefaultCORSConfig =
     \<lparr>co_AllowedOrigins = [], co_AllowCredentials = True, co_AllowedMethods = [''GET'', ''POST'', ''OPTIONS''],
      co_AllowedHeaders = [''Authorization'', ''Content-Type'', ''X-CSRF-Token''], co_ExposedHeaders = [], co_MaxAge = 86400\<rparr>"

fun join_comma :: "string list \<Rightarrow> string" where
  "join_comma [] = []"
| "join_comma [w] = w"
| "join_comma (w # ws) = w @ '', '' @ join_comma ws"

definition cors_allowed :: "cors_config \<Rightarrow> string \<Rightarrow> bool" where
  "cors_allowed c origin \<longleftrightarrow> ''*'' \<in> set (co_AllowedOrigins c) \<or> origin \<in> set (co_AllowedOrigins c)"

definition cors_response :: "cors_config \<Rightarrow> request \<Rightarrow> response" where
  "cors_response c r =
     (let origin = Header_Get r ''Origin'';
          allowed = (origin \<noteq> '''' \<and> cors_allowed c origin);
          w1 = (if allowed then
                  (let w = Header_Set ''Access-Control-Allow-Origin'' origin NewResponse;
                       w' = (if co_AllowCredentials c then Header_Set ''Access-Control-Allow-Credentials'' ''true'' w else w)
                   in set_if ''Access-Control-Expose-Headers'' (join_comma (co_ExposedHeaders c)) w')
                else NewResponse)
      in if hq_Method r = ''OPTIONS'' \<and> allowed then
           (let w2 = Header_Set ''Access-Control-Allow-Headers'' (join_comma (co_AllowedHeaders c))
                       (Header_Set ''Access-Control-Allow-Methods'' (join_comma (co_AllowedMethods c)) w1)
            in if co_MaxAge c > 0 then Header_Set ''Access-Control-Max-Age'' (format_int (co_MaxAge c)) w2 else w2)
         else w1)"

definition CORSMiddleware :: "cors_config option \<Rightarrow> 's handler \<Rightarrow> 's handler" where
  "CORSMiddleware config next_h r s =
     (let c = (case config of None \<Rightarrow> DefaultCORSConfig | Some c \<Rightarrow> c); w = cors_response c r
      in if hq_Method r = ''OPTIONS'' then (w\<lparr>rs_Status := 204\<rparr>, s) else under w (next_h r s))"

lemma set_if_other [simp]: "k \<noteq> k' \<Longrightarrow> rs_Headers (set_if k v w) k' = rs_Headers w k'"
  by (simp add: set_if_def Header_Set_def)

lemma cors_origin:
  "rs_Headers (cors_response c r) ''Access-Control-Allow-Origin'' =
     (if Header_Get r ''Origin'' \<noteq> '''' \<and> cors_allowed c (Header_Get r ''Origin'') then Some (Header_Get r ''Origin'') else None)"
  by (simp add: cors_response_def Let_def Header_Set_def NewResponse_def)

end
