(* ===== verification/HandlerExample.thy ===== *)
theory HandlerExample
  imports AuthExample OidcHandlers AdminSafety Middleware
begin

text \<open>
  The deployment of \<open>AuthExample\<close> behind its HTTP handlers: an environment, a site with two signed-in
  browsers (a user and an administrator), requests to it, and addresses behind a proxy.
\<close>

definition exEnv :: env where
  "exEnv = \<lparr>en_P = exQ, en_J = exJ, en_U = exU, en_W = exW, en_mailer = (\<lambda>_. None), en_auth = exCfg, en_codeTTL = 10 * minute,
     en_consents = True, en_tokens = exService, en_userinfo = \<lparr>us_tokenGenerator = exGen, us_groupClaims = None, us_revocations = True\<rparr>,
     en_audit = True, en_forgotPasswordURL = '''', en_postLogout = True, en_account = None, en_resetTTL = ''1h0m0s'', en_now = exNow,
     en_rd = exRandoms, en_csrf = Inr ''random'', en_codeID = ''k2'', en_consentID = ''cs'', en_ent = exEnt, en_link = Inr ''link'',
     en_totp = Inr ''totp'', en_qr = Inr\<rparr>"

definition exSession :: session where
  "exSession = \<lparr>session_ID = ''sid'', session_UserID = ''u1'', session_CreatedAt = exNow - minute, session_ExpiresAt = exNow + hour,
     session_UserAgent = ''ua'', session_IPAddress = ''10.0.0.1'', session_AMR = [''pwd'']\<rparr>"

definition exAdmin :: user where
  "exAdmin = exUser\<lparr>user_ID := ''a1'', user_Email := ''root@x'', user_Admin := True\<rparr>"

definition exSiteStore :: fstore where
  "exSiteStore = exStore\<lparr>f_users := Content [exUser, exAdmin],
     f_sessions := Content [exSession, exSession\<lparr>session_ID := ''root'', session_UserID := ''a1''\<rparr>]\<rparr>"

definition exSite :: site where
  "exSite = \<lparr>si_auth = NewService exSiteStore None, si_keys = exKeys, si_lastReset = Map.empty, si_outbox = []\<rparr>"

text \<open>A request with a valid form token, from the browser with the session cookie.\<close>

definition exPost :: "string \<Rightarrow> (string \<times> string) list \<Rightarrow> request" where
  "exPost sid fs = \<lparr>hq_Method = ''POST'', hq_Path = ''/form'', hq_RawQuery = '''', hq_RequestURI = ''/form'', hq_FormEncoded = True,
     hq_BodySize = 0, hq_PostForm = map_of ((CSRFFormField, [exCsrfToken]) # map (\<lambda>(k, v). (k, [v])) fs),
     hq_PostFormErr = None, hq_Multipart = Map.empty, hq_Header = Map.empty,
     hq_cookies = [(CSRFCookieName, exCsrfToken), (SessionCookieName, sid)], hq_RemoteAddr = ''10.0.0.1:4711'', hq_TLS = True,
     hq_URLParam = [''id'' \<mapsto> ''u1'']\<rparr>"

definition exQuery :: "(string \<times> string) list" where
  "exQuery = [(''client_id'', ''c1''), (''redirect_uri'', ''r''), (''response_type'', ''code''), (''scope'', ''openid''),
     (''code_challenge'', ''challenge-challenge-challenge-challenge-ch''), (''code_challenge_method'', ''S256'')]"

lemma exSite_healthy: "healthy (si_store exSite)"
  using exStore_healthy by (simp add: exSite_def NewService_def exSiteStore_def)

lemma exPost_form_ok: "form_ok exEnv (exPost sid [])"
  by code_simp

definition exAdminCfg :: admin where
  "exAdminCfg = \<lparr>am_account = NewAccountService ''https://id.example/'', am_keys = True, am_IssuerURL = ''https://id.example'',
     am_KeyGracePeriod = 0, am_GroupsClaim = '''', am_AccessTokenTTL = 900 * second, am_RefreshTokenTTL = 24 * hour, am_Playground = False,
     am_Quote = (\<lambda>s. s), am_frac = (\<lambda>_ _ _. 0), am_newID = ''n1'', am_secret = Inr ''secret'', am_link2 = Inr ''link2'',
     am_uuid2 = ''uuid2'', am_keygen = exKeygen\<rparr>"

text \<open>Addresses as they are, one trusted prefix.\<close>

definition exNetip :: netip where
  "exNetip = \<lparr>ni_ParseAddr = (\<lambda>s. if s = '''' then Inl (Plain ''empty'') else Inr s), ni_Unmap = (\<lambda>a. a), ni_String = (\<lambda>a. a),
     ni_Contains = (\<lambda>p a. HasPrefix a p)\<rparr>"

end
