(* ===== verification/HandlerProps.thy ===== *)
theory HandlerProps
  imports HandlerExample
begin

text \<open>
  The properties of the HTTP surface: what it takes to get an authorization code, that sign-in never
  redirects off the server and never loops, whose address a request behind a proxy counts as, and what
  the account and administration pages protect.
\<close>

section \<open>Authorization codes\<close>

text \<open>
  C3. The authorization endpoint writes at most one code per request, and only on these grounds: the
  parameters name a registered client, one of its redirect URIs and scopes within its own, with a PKCE
  challenge if the client is public; the browser has an unexpired session of an active user, recent
  enough for prompt and max_age; and the user has granted every scope, unless consent is switched off
  or waived for the client. The code is bound to that client, redirect URI, challenge, nonce, user and
  session, and nothing else of the store changes.
\<close>

theorem authorize_code_sound:
  assumes "oidc_Authorize E r s = (w, s')" and "f_auth_codes (si_store s') \<noteq> f_auth_codes (si_store s)"
  shows "\<exists>req client session user. code_grounds E r (if hq_Method r = ''POST'' then req_PostForm r else req_Query r) (si_store s) req client session user
    \<and> \<not> RequiresFreshLogin (en_now E) req (session_CreatedAt session)
    \<and> consent_given E req client user (si_store s)
    \<and> si_store s' = (si_store s)\<lparr>f_auth_codes := Content (codes_of (si_store s)
           @ [issued_code E req (user_ID user) (session_CreatedAt session) (session_AMR session)])\<rparr>"
  by (rule oidc_Authorize_new [OF assms])

lemma issueCode_store:
  assumes "healthy (si_store s)"
  shows "si_store (snd (issueCode E r w req u t amr s)) =
    (si_store s)\<lparr>f_auth_codes := Content (codes_of (si_store s) @ [issued_code E req u t amr])\<rparr>"
  using assms by (simp add: issueCode_def CreateAuthCode_def codes_Create_def healthy_of save_healthy Let_def issued_code_def)

text \<open>The authorization request of the example, and the session it comes with.\<close>

definition exOpenID :: authorize_request where
  "exOpenID = \<lparr>ar_ClientID = ''c1'', ar_RedirectURI = ''r'', ar_ResponseType = ''code'', ar_Scope = ''openid'', ar_State = '''', ar_Nonce = '''',
     ar_CodeChallenge = ''challenge-challenge-challenge-challenge-ch'', ar_CodeChallengeMethod = ''S256'', ar_Prompt = [], ar_MaxAge = -1,
     ar_maxAge_raw = '''', ar_hasRequest = False, ar_hasRequestURI = False, ar_hasRegistration = False\<rparr>"

lemma exRequest_parsed:
  "ParseAuthorizeQuery (req_PostForm (exPost ''sid'' exQuery)) = Inr exOpenID
   \<and> ValidateClient exOpenID (si_store exSite) = (Inr exClient, exOpenID)"
  by code_simp

lemma exRequest_valid:
  "ParseAuthorizeQuery (req_PostForm (exPost ''sid'' exQuery)) = Inr exOpenID"
  "ValidateClient exOpenID (si_store exSite) = (Inr exClient, exOpenID)"
  "ParseForm (exPost sid fs) = None" "RequiresFreshLogin exNow exOpenID t = False"
  subgoal by (rule conjunct1 [OF exRequest_parsed])
  subgoal by (rule conjunct2 [OF exRequest_parsed])
  subgoal by (simp add: ParseForm_def exPost_def has_form_body_def ParseQuery_def parse_part_def)
  subgoal by (simp add: RequiresFreshLogin_def exOpenID_def HasPrompt_def)
  done

lemma exCurrent: "CurrentSession exNow (to_web (exPost ''sid'' fs)) (si_auth exSite) = (Inr (exSession, exUser), si_auth exSite)"
proof -
  have "req_Cookie (to_web (exPost ''sid'' fs)) SessionCookieName = Some ''sid''"
    by (simp add: req_Cookie_to_web exPost_def CSRFCookieName_def SessionCookieName_def)
  moreover have "GetSession exNow ''sid'' (si_store exSite) = (Inr exSession, si_store exSite)"
    by (simp add: GetSession_def sessions_GetByID_def exSite_def NewService_def exSiteStore_def exSession_def session_IsExpired_def)
  moreover have "users_GetByID ''u1'' (si_store exSite) = Inr exUser \<and> user_Active exUser \<and> session_UserID exSession = ''u1''" by code_simp
  ultimately show ?thesis by (simp add: CurrentSession_def GetSessionFromRequest_def)
qed

theorem authorize_code_sound_witness:
  "\<exists>w s'. oidc_Authorize (exEnv\<lparr>en_consents := False\<rparr>) (exPost ''sid'' exQuery) exSite = (w, s')
     \<and> length (codes_of (si_store s')) = Suc (length (codes_of (si_store exSite)))"
proof -
  let ?E = "exEnv\<lparr>en_consents := False\<rparr>" and ?r = "exPost ''sid'' exQuery"
  have m: "hq_Method ?r = ''POST''" "en_now ?E = exNow" "\<not> en_consents ?E" by (simp_all add: exPost_def exEnv_def)
  have "si_store (snd (oidc_Authorize ?E ?r exSite)) =
      (si_store exSite)\<lparr>f_auth_codes := Content (codes_of (si_store exSite)
        @ [issued_code ?E exOpenID (user_ID exUser) (session_CreatedAt exSession) (session_AMR exSession)])\<rparr>"
    using m exRequest_valid exCurrent issueCode_store [OF exSite_healthy]
    by (simp add: oidc_Authorize_def authorize_signed_in_def Let_def)
  moreover obtain w s' where a: "oidc_Authorize ?E ?r exSite = (w, s')" by fastforce
  ultimately have "codes_of (si_store s') \<noteq> codes_of (si_store exSite)" by (simp add: codes_of_def)
  then have "f_auth_codes (si_store s') \<noteq> f_auth_codes (si_store exSite)" by (auto simp: codes_of_def load_auth_codes_def)
  from authorize_code_sound [OF a this] obtain c where "si_store s' = (si_store exSite)\<lparr>f_auth_codes := Content (codes_of (si_store exSite) @ [c])\<rparr>"
    by blast
  then show ?thesis using a by (intro exI [of _ w] exI [of _ s']) (simp add: codes_of_def)
qed

text \<open>
  C7. The consent form writes a code only when it carries a valid form token and the answer \<open>allow\<close>, for
  an authorization request that passes the checks of the authorization endpoint on client, redirect URI, scopes
  and PKCE, from a browser with an unexpired session of an active user that is not older than the \<open>max_age\<close> of
  the request. The code is the one for that request, user and session. With the consent service on, the scopes
  of the request are then granted by this user to this client, even to a client that skips the consent page, and
  no other grant changes; with it off no grant changes. Nothing else in the store changes but the audit log.
\<close>

theorem consent_code_sound:
  assumes "oidc_Consent E r s = (w, s')" and "f_auth_codes (si_store s') \<noteq> f_auth_codes (si_store s)"
  shows "\<exists>req client session user. ValidateToken E r = None \<and> FormValue r ''action'' = ''allow''
    \<and> code_grounds E r (fst (ParseQuery (FormValue r ''authorize_query''))) (si_store s) req client session user
    \<and> (ar_MaxAge req \<ge> 0 \<longrightarrow> \<not> RequiresFreshLogin (en_now E) req (session_CreatedAt session))
    \<and> (\<forall>u k. granted_scopes (si_store s') u k = granted_scopes (si_store s) u k
         \<union> (if en_consents E \<and> u = user_ID user \<and> k = client_ID client then set (Scopes req) else {}))
    \<and> (\<exists>cs ev. si_store s' = (si_store s)\<lparr>f_consents := cs, f_audit_events := ev, f_auth_codes := Content (codes_of (si_store s)
           @ [issued_code E req (user_ID user) (session_CreatedAt session) (session_AMR session)])\<rparr>)"
  by (rule oidc_Consent_new [OF assms])

definition exConsentForm :: request where
  "exConsentForm = exPost ''sid'' [(''action'', ''allow''), (''authorize_query'',
     ''client_id=c1&redirect_uri=r&response_type=code&scope=openid&code_challenge=challenge-challenge-challenge-challenge-ch&code_challenge_method=S256'')]"

lemma exConsentForm_checks:
  "ValidateToken exEnv exConsentForm = None \<and> FormValue exConsentForm ''action'' = ''allow''
   \<and> snd (ParseQuery (FormValue exConsentForm ''authorize_query'')) = None
   \<and> ParseAuthorizeQuery (fst (ParseQuery (FormValue exConsentForm ''authorize_query''))) = Inr exOpenID"
  by code_simp

lemma exConsentForm_valid:
  "ValidateToken exEnv exConsentForm = None" "FormValue exConsentForm ''action'' = ''allow''"
  "snd (ParseQuery (FormValue exConsentForm ''authorize_query'')) = None"
  "ParseAuthorizeQuery (fst (ParseQuery (FormValue exConsentForm ''authorize_query''))) = Inr exOpenID"
  using exConsentForm_checks by (simp_all only:)

theorem consent_code_sound_witness:
  "\<exists>w s' client. oidc_Consent exEnv exConsentForm exSite = (w, s') \<and> client \<in> set (clients_of (si_store exSite))
     \<and> code_ClientID (last (codes_of (si_store s'))) = client_ID client"
proof -
  let ?g = "Grant ''cs'' exNow ''u1'' ''c1'' [''openid''] (si_store exSite)"
  let ?s = "consent_audit exEnv exConsentForm exUser ''consent.granted'' ''c1'' ''openid'' (with_store (snd ?g) exSite)"
  have "fst ?g = None" by code_simp
  then obtain st2 where g: "?g = (None, st2)" by (cases ?g) simp
  obtain v where "snd ?g = (si_store exSite)\<lparr>f_consents := v\<rparr>" using Grant_frame by blast
  moreover obtain a where "si_store ?s = (snd ?g)\<lparr>f_audit_events := a\<rparr>" using Record_frame by (fastforce simp: consent_audit_def)
  moreover have "readable (f_consents (si_store ?s)) \<and> readable (f_audit_events (si_store ?s))" by code_simp
  ultimately have h: "healthy (si_store ?s)" using exSite_healthy by (simp add: healthy_def)
  have f: "en_now exEnv = exNow" "en_consents exEnv" "en_consentID exEnv = ''cs''" "ParseForm exConsentForm = None"
    "CurrentSession exNow (to_web exConsentForm) (si_auth exSite) = (Inr (exSession, exUser), si_auth exSite)"
    "user_ID exUser = ''u1''" "client_ID exClient = ''c1''" "ar_Scope exOpenID = ''openid''"
    using exRequest_valid(3) exCurrent by (simp_all add: exEnv_def exConsentForm_def exUser_def exClient_def exOpenID_def)
  have sc: "Scopes exOpenID = [''openid'']" by code_simp
  obtain q where q: "ParseQuery (FormValue exConsentForm ''authorize_query'') = (q, None)"
    using exConsentForm_valid(3) by (metis prod.collapse)
  with exConsentForm_valid(4) have "ParseAuthorizeQuery q = Inr exOpenID" by simp
  then have "snd (oidc_Consent exEnv exConsentForm exSite) = snd (issueCode exEnv exConsentForm NewResponse exOpenID ''u1''
      (session_CreatedAt exSession) (session_AMR exSession) ?s)"
    using q g f sc exConsentForm_valid(1,2) exRequest_valid(2,4) by (simp add: oidc_Consent_def consent_allowed_def Let_def)
  moreover obtain w s' where o: "oidc_Consent exEnv exConsentForm exSite = (w, s')" by fastforce
  ultimately have "codes_of (si_store s') = codes_of (si_store ?s) @ [issued_code exEnv exOpenID ''u1'' (session_CreatedAt exSession) (session_AMR exSession)]"
    using issueCode_store [OF h] by (simp add: codes_of_def)
  moreover have "length (codes_of (si_store ?s)) = length (codes_of (si_store exSite))" by code_simp
  ultimately have "codes_of (si_store s') \<noteq> codes_of (si_store exSite)" by (metis length_append_singleton n_not_Suc_n)
  then have "f_auth_codes (si_store s') \<noteq> f_auth_codes (si_store exSite)" by (auto simp: codes_of_def load_auth_codes_def)
  from consent_code_sound [OF o this] obtain req client session user cs ev
    where "code_grounds exEnv exConsentForm (fst (ParseQuery (FormValue exConsentForm ''authorize_query''))) (si_store exSite) req client session user"
    and "si_store s' = (si_store exSite)\<lparr>f_consents := cs, f_audit_events := ev, f_auth_codes := Content (codes_of (si_store exSite)
           @ [issued_code exEnv req (user_ID user) (session_CreatedAt session) (session_AMR session)])\<rparr>" by blast
  then show ?thesis using o by (intro exI [of _ w] exI [of _ s'] exI [of _ client]) (simp add: code_grounds_def issued_code_def)
qed

section \<open>Sign-in\<close>

text \<open>
  C15. Signing in never loops: a browser sent to the login page comes back, as the path its return URL
  names, with a request that has every parameter of the first one except that \<open>prompt\<close> has lost \<open>login\<close> and
  \<open>select_account\<close> and \<open>max_age\<close> is gone; for that request, in any later state in which the browser has a
  session, the endpoint goes on to consent and the code and asks for no further login. (\<open>url.Parse\<close>
  reads a path with an encoded query back as such.)
\<close>

theorem login_loop_ends:
  assumes "parses_path_query (en_U E) (hq_Path r)" and "values_wf q"
  shows "\<exists>q'. authorize_login_url E r q = ''/login?return_url='' @ QueryEscape (hq_Path r @ ''?'' @ values_Encode q')
    \<and> fst (ParseQuery (values_Encode q')) = q' \<and> (\<forall>k. k \<noteq> ''prompt'' \<and> k \<noteq> ''max_age'' \<longrightarrow> q' k = q k)
    \<and> Fields (values_Get q' ''prompt'') = filter (\<lambda>p. p \<notin> {''login'', ''select_account''}) (Fields (values_Get q ''prompt''))
    \<and> (\<forall>E' r' s req0 client req session user au. hq_Method r' \<noteq> ''POST'' \<and> hq_RawQuery r' = values_Encode q'
         \<and> ParseAuthorizeQuery q' = Inr req0 \<and> ValidateClient req0 (si_store s) = (Inr client, req)
         \<and> CurrentSession (en_now E') (to_web r') (si_auth s) = (Inr (session, user), au)
         \<longrightarrow> oidc_Authorize E' r' s = authorize_signed_in E' r' NewResponse q' req client session user s)"
proof (intro exI [of _ "back_params q"] conjI allI impI)
  show "authorize_login_url E r q = ''/login?return_url='' @ QueryEscape (hq_Path r @ ''?'' @ values_Encode (back_params q))"
    by (rule authorize_login_url_back [OF assms])
  show "fst (ParseQuery (values_Encode (back_params q))) = back_params q"
    using ParseQuery_Encode_wf [OF back_params_wf [OF assms(2)]] by simp
  show "back_params q k = q k" if "k \<noteq> ''prompt'' \<and> k \<noteq> ''max_age''" for k using that back_params_other by simp
  show "Fields (values_Get (back_params q) ''prompt'') = filter (\<lambda>p. p \<notin> {''login'', ''select_account''}) (Fields (values_Get q ''prompt''))"
    using back_params_prompt [of q] by (simp add: login_kept_def)
qed (use back_signed_in [OF _ _ assms(2)] in blast)

lemma exU_path_query: "parses_path_query exU ''/authorize''"
  unfolding parses_path_query_def
proof (intro allI impI)
  fix q :: url_values
  have "Cut CHR ''?'' (''/authorize'' @ CHR ''?'' # s) = (''/authorize'', s)" for s by (rule Cut_append) simp
  then show "\<exists>u. ul_Parse exU (''/authorize'' @ ''?'' @ values_Encode q) = Inr u \<and> url_Path u = ''/authorize'' \<and> url_RawQuery u = values_Encode q"
    by (simp add: exU_def)
qed

theorem login_loop_ends_witness:
  "\<exists>q'. authorize_login_url exEnv ((exPost ''sid'' [])\<lparr>hq_Path := ''/authorize''\<rparr>) [''prompt'' \<mapsto> [''login consent''], ''max_age'' \<mapsto> [''0'']]
       = ''/login?return_url='' @ QueryEscape (''/authorize?'' @ values_Encode q')
     \<and> Fields (values_Get q' ''prompt'') = [''consent'']"
proof -
  let ?r = "(exPost ''sid'' [])\<lparr>hq_Path := ''/authorize''\<rparr>" and ?q = "[''prompt'' \<mapsto> [''login consent''], ''max_age'' \<mapsto> [''0'']] :: url_values"
  have "parses_path_query (en_U exEnv) (hq_Path ?r)" using exU_path_query by (simp add: exEnv_def)
  moreover have "values_wf ?q" by (simp add: values_wf_def)
  moreover have "filter (\<lambda>p. p \<notin> {''login'', ''select_account''}) (Fields (values_Get ?q ''prompt'')) = [''consent'']" by code_simp
  ultimately show ?thesis using login_loop_ends [of exEnv ?r ?q] by auto
qed

text \<open>
  C16. No sign-in handler sends the browser off this server, whatever \<open>return_url\<close> a link puts into the
  form: every \<open>Location\<close> of the login page, the login form and the second-step page and form starts with
  a single slash that no slash or backslash follows, and so does the address the passkey script is told to go to.
\<close>

theorem login_stays_on_origin:
  assumes "h \<in> {login_LoginPage E, login_Login E, login_CodePage E, login_Code E}"
  shows "(\<forall>loc. rs_Headers (fst (h r s)) ''Location'' = Some loc \<longrightarrow> on_origin loc)
    \<and> (\<forall>v u. rs_Body (fst (login_PasskeyFinish E r s)) = Json v \<and> v ''redirect'' = Some (JString u) \<longrightarrow> on_origin u)"
  using assms login_LoginPage_local login_Login_local login_CodePage_local login_Code_local login_PasskeyFinish_local
  by (auto simp: local_path_def)

definition exLoginGet :: request where
  "exLoginGet = (exPost ''sid'' [])\<lparr>hq_Method := ''GET'', hq_Path := ''/login'', hq_RawQuery := ''return_url=//evil.example/''\<rparr>"

theorem login_stays_on_origin_witness:
  "\<exists>loc. rs_Headers (fst (login_LoginPage exEnv exLoginGet exSite)) ''Location'' = Some loc \<and> on_origin loc"
proof -
  have "rs_Headers (fst (login_LoginPage exEnv exLoginGet exSite)) ''Location'' \<noteq> None" by code_simp
  then show ?thesis using login_stays_on_origin [of "login_LoginPage exEnv" exEnv exLoginGet exSite] by auto
qed

section \<open>The address of a request\<close>



section \<open>The signed-in pages\<close>

text \<open>
  C12. The administration routes serve administrators only: a request that gets anything but a redirect
  or the 403 page, or that changes anything beyond dropping the expired session its own cookie names, comes from a browser with an
  unexpired session of an active user who is an administrator; and one that changes more than that
  also carries a valid form token.
\<close>

theorem admin_requires_admin:
  assumes "admin_Routes route A E r s = (w, s')" and "rs_Status w \<notin> {302, 403} \<or> \<not> same_but_expired E r s s'"
  shows "(\<exists>user. signed_in E r s user \<and> user_Admin user) \<and> (\<not> same_but_expired E r s s' \<longrightarrow> form_ok E r)"
proof (cases "same_but_expired E r s s'")
  case True
  then have "rs_Status (fst (requireAdmin E (admin_handler route (NewAdminHandler A) E) r s)) \<notin> {302, 403}"
    using assms by (simp add: admin_Routes_def)
  then show ?thesis using requireAdmin_answer True by blast
next
  case False
  then show ?thesis using admin_pages.behind_admin [of E r s route "NewAdminHandler A"] assms(1) by (auto simp: admin_Routes_def)
qed

theorem admin_requires_admin_witness:
  "\<exists>w s'. admin_Routes GetUsers exAdminCfg exEnv (exPost ''root'' []) exSite = (w, s') \<and> rs_Status w = 200
     \<and> (\<exists>user. signed_in exEnv (exPost ''root'' []) exSite user \<and> user_Admin user)"
proof -
  obtain w s' where a: "admin_Routes GetUsers exAdminCfg exEnv (exPost ''root'' []) exSite = (w, s')" by fastforce
  have "rs_Status (fst (admin_Routes GetUsers exAdminCfg exEnv (exPost ''root'' []) exSite)) = 200" by code_simp
  with a have "rs_Status w = 200" by simp
  with admin_requires_admin [OF a] a show ?thesis by auto
qed

text \<open>
  C13. The account routes serve signed-in users only: a request that gets anything but a redirect, or that
  changes anything beyond dropping the expired session its own cookie names, comes from a browser with an
  unexpired session of an active user; and one that changes more than that also carries a valid form token in the part of the
  body the route reads.
\<close>

theorem account_requires_user:
  assumes "account_Routes route E r s = (w, s')" and "rs_Status w \<noteq> 302 \<or> \<not> same_but_expired E r s s'"
  shows "(\<exists>user. signed_in E r s user) \<and> (\<not> same_but_expired E r s s' \<longrightarrow> form_ok E (account_view route r))"
proof (cases "same_but_expired E r s s'")
  case True
  then have "rs_Status (fst (requireUser E (account_handler route E) r s)) \<noteq> 302"
    using assms by (simp add: account_Routes_def)
  then show ?thesis using requireUser_answer True by blast
next
  case False
  then show ?thesis using account_pages.behind_user [of E r s route] assms(1) by (auto simp: account_Routes_def)
qed

theorem account_requires_user_witness:
  "\<exists>w s'. account_Routes AccountPage exEnv (exPost ''sid'' []) exSite = (w, s') \<and> rs_Status w = 200
     \<and> (\<exists>user. signed_in exEnv (exPost ''sid'' []) exSite user)"
proof -
  obtain w s' where a: "account_Routes AccountPage exEnv (exPost ''sid'' []) exSite = (w, s')" by fastforce
  have "rs_Status (fst (requireUser exEnv (account_Page exEnv) (exPost ''sid'' []) exSite)) = 200" by code_simp
  with a have "rs_Status w = 200" by (simp add: account_Routes_def)
  with account_requires_user [OF a] a show ?thesis by auto
qed

text \<open>
  C17. Administrators cannot lock everybody out: if some active user is an administrator, then after any
  sequence of requests to the administration routes, of any administrators and with any forms
  (deletions, demotions, deactivations included), some active user is still an administrator.
\<close>

theorem admin_never_locked_out:
  assumes "has_admin (si_store s)"
  shows "has_admin (si_store (fold admin_step cs s))"
  using assms by (rule has_admin_run)

theorem admin_never_locked_out_witness:
  "has_admin (si_store (fold admin_step [(PostDeleteUser, exAdminCfg, exEnv, (exPost ''root'' [])\<lparr>hq_URLParam := [''id'' \<mapsto> ''a1'']\<rparr>),
     (PostUser, exAdminCfg, exEnv, (exPost ''root'' [(''email'', ''root@x'')])\<lparr>hq_URLParam := [''id'' \<mapsto> ''a1'']\<rparr>)] exSite))"
proof -
  have "admin_alive ''a1'' (si_store exSite)" by code_simp
  then have "has_admin (si_store exSite)" unfolding has_admin_def by blast
  then show ?thesis by (rule admin_never_locked_out)
qed

text \<open>
  C20. A deleted user leaves nothing behind: on a store that can be read and written, after an administrator
  deletes another user nobody has that ID, there is no session, consent, passkey, pending link or
  group membership of theirs, every refresh token of theirs is revoked and every access token issued until
  now counts as revoked; the rows of other users are as they were.
\<close>

theorem deleted_user_gone:
  assumes "healthy (si_store s)" and "form_ok E r" and "users_GetByID (URLParam r ''id'') (si_store s) = Inr user"
    and "user_ID user \<noteq> user_ID me" and "distinct (map user_ID (users_of (si_store s)))"
    and "admin_DeleteUser A E me r s = (w, s')"
  shows "users_of (si_store s') = filter (\<lambda>u. user_ID u \<noteq> user_ID user) (users_of (si_store s))
    \<and> sessions_of (si_store s') = filter (\<lambda>x. session_UserID x \<noteq> user_ID user) (sessions_of (si_store s))
    \<and> consents_of (si_store s') = filter (\<lambda>x. consent_UserID x \<noteq> user_ID user) (consents_of (si_store s))
    \<and> passkeys_of (si_store s') = filter (\<lambda>x. passkey_UserID x \<noteq> user_ID user) (passkeys_of (si_store s))
    \<and> vtokens_of (si_store s') = filter (\<lambda>x. vt_UserID x \<noteq> user_ID user) (vtokens_of (si_store s))
    \<and> gd_Memberships (groups_of (si_store s')) = filter (\<lambda>x. m_UserID x \<noteq> user_ID user) (gd_Memberships (groups_of (si_store s)))
    \<and> tokens_of (si_store s') = map (\<lambda>t. if token_UserID t = user_ID user then t\<lparr>token_Revoked := True\<rparr> else t) (tokens_of (si_store s))
    \<and> (\<forall>jti c iat. iat \<le> en_now E \<longrightarrow> IsRevoked jti (user_ID user) c iat (si_store s') = Inr True)"
proof -
  let ?k = "user_ID user" and ?st = "si_store s"
  obtain rs where p: "purge_user (en_now E) ?k ?st =
       ?st\<lparr>f_sessions := Content (filter (\<lambda>x. session_UserID x \<noteq> ?k) (sessions_of ?st)),
         f_tokens := Content (map (\<lambda>t. if token_UserID t = ?k then t\<lparr>token_Revoked := True\<rparr> else t) (tokens_of ?st)),
         f_revocations := Content rs,
         f_consents := Content (filter (\<lambda>c. consent_UserID c \<noteq> ?k) (consents_of ?st)),
         f_passkeys := Content (filter (\<lambda>p. passkey_UserID p \<noteq> ?k) (passkeys_of ?st)),
         f_verification_tokens := Content (filter (\<lambda>t. vt_UserID t \<noteq> ?k) (vtokens_of ?st)),
         f_groups := Content ((groups_of ?st)\<lparr>gd_Memberships := filter (\<lambda>m. m_UserID m \<noteq> ?k) (gd_Memberships (groups_of ?st))\<rparr>)\<rparr>"
    and rs: "\<And>jti c iat. iat \<le> en_now E \<Longrightarrow> list_ex (row_revokes jti ?k c iat) rs"
    using purge_user_healthy [OF assms(1), of "en_now E" ?k] by blast
  obtain x where x: "find (\<lambda>u. user_ID u = ?k) (users_of ?st) = Some x"
    using assms(1,3) users_GetByID_D [OF assms(3)] by (auto simp: users_GetByID_def healthy_of split: option.splits)
  have del: "del_first (\<lambda>u. user_ID u = ?k) (users_of ?st) = filter (\<lambda>u. user_ID u \<noteq> ?k) (users_of ?st)"
    using assms(5) by (rule del_first_filter)
  have "users_Delete ?k (purge_user (en_now E) ?k ?st) = (None, (purge_user (en_now E) ?k ?st)\<lparr>f_users :=
      Content (filter (\<lambda>u. user_ID u \<noteq> ?k) (users_of ?st))\<rparr>)"
    unfolding p users_Delete_def using assms(1) x del by (simp add: healthy_of save_healthy)
  then obtain a where "si_store s' = (purge_user (en_now E) ?k ?st)\<lparr>f_users := Content (filter (\<lambda>u. user_ID u \<noteq> ?k) (users_of ?st)),
      f_audit_events := a\<rparr>"
    using assms Record_frame by (fastforce simp: admin_DeleteUser_def admin_checkCSRF_def form_ok_def loadUser_def admin_record_def)
  then show ?thesis using rs by (simp add: p IsRevoked_def of_defs)
qed

theorem deleted_user_gone_witness:
  "\<exists>w s'. admin_DeleteUser exAdminCfg exEnv exAdmin (exPost ''root'' []) exSite = (w, s') \<and> users_of (si_store s') = [exAdmin]
     \<and> (\<forall>x \<in> set (sessions_of (si_store s')). session_UserID x \<noteq> ''u1'') \<and> IsRevoked ''AT'' ''u1'' ''c1'' exNow (si_store s') = Inr True"
proof -
  obtain w s' where a: "admin_DeleteUser exAdminCfg exEnv exAdmin (exPost ''root'' []) exSite = (w, s')" by fastforce
  have u: "users_of (si_store exSite) = [exUser, exAdmin]" by (simp add: exSite_def NewService_def exSiteStore_def users_of_def)
  have i: "user_ID exUser = ''u1''" "user_ID exAdmin = ''a1''" by (simp_all add: exUser_def exAdmin_def)
  have "users_GetByID (URLParam (exPost ''root'' []) ''id'') (si_store exSite) = Inr exUser"
    by (simp add: URLParam_def exPost_def users_GetByID_def exSite_def NewService_def exSiteStore_def i)
  from deleted_user_gone [OF exSite_healthy exPost_form_ok this _ _ a] show ?thesis
    using a by (intro exI [of _ w] exI [of _ s']) (simp add: u i exEnv_def)
qed

section \<open>Lifetimes in the client form\<close>

text \<open>
  The client form reads back what it shows: a lifetime of whole minutes, however large, is displayed in
  days, hours or minutes such that submitting the form unchanged gives the same lifetime and no
  error.
\<close>

theorem client_ttl_roundtrip:
  assumes "0 < d" and "d < 2 ^ 63" and "d mod minute = 0"
  shows "parseTTLField frac (ttlForm d) = (d, '''')"
  using assms by (rule ttl_roundtrip)

theorem client_ttl_roundtrip_witness: "parseTTLField (\<lambda>_ _ _. 0) (ttlForm (90 * minute)) = (90 * minute, '''')"
  by (rule client_ttl_roundtrip) simp_all

section \<open>Errors the forms lose\<close>

text \<open>
  The form pages of the administration overwrite the part of the page data that carries the error and the
  notice: whatever message the handler put there, the page shows none, and the notice of the query string.
\<close>

lemma admin_base_message: "ab_Error (fst (admin_base A E me r sec w)) = '''' \<and> ab_Flash (fst (admin_base A E me r sec w)) = values_Get (req_Query r) ''flash''"
  by (simp add: admin_base_def split: prod.split)

lemma form_errors_lost:
  "rs_Body (renderUserForm A E me r st data s) = Page ''admin/user_form'' (UserFormData d) \<Longrightarrow> ab_Error (uf_base d) = ''''"
  "rs_Body (renderGroupForm A E me r st data') = Page ''admin/group_form'' (GroupFormData d') \<Longrightarrow> ab_Error (gf_base d') = ''''"
  "rs_Body (renderClientForm A E me r st data'') = Page ''admin/client_form'' (ClientFormData d'') \<Longrightarrow>
     ab_Error (cf_base d'') = '''' \<and> ab_Flash (cf_base d'') = values_Get (req_Query r) ''flash''"
  using admin_base_message [of A E me r "''users''" admin_w] admin_base_message [of A E me r "''groups''" admin_w]
    admin_base_message [of A E me r "''clients''" admin_w]
  by (auto simp: renderUserForm_def renderGroupForm_def renderClientForm_def Render_def Let_def split: prod.splits option.splits if_splits)

end
