(* ===== verification/Config.thy ===== *)
theory Config
  imports Middleware
begin

text \<open>
  \<open>internal/config/config.go\<close>: the configuration record, \<open>Load\<close> with every check it makes, and the
  parsers of the list-valued settings. Filling the record from the environment is the library \<open>cleanenv\<close>:
  its result is an argument of \<open>Load\<close>, beside \<open>os.LookupEnv\<close>, the random bytes and the prefixes of
  \<open>net/netip\<close>. \<open>quote\<close> is the verb \<open>%q\<close>.
\<close>

section \<open>The configuration\<close>

record config =
  cfg_Host :: string
  cfg_Port :: int
  cfg_IssuerURL :: string
  cfg_StoreDriver :: string
  cfg_DataDir :: string
  cfg_StoreDSN :: string
  cfg_SessionDuration :: duration
  cfg_CookieSecret :: string
  cfg_CookieSecure :: bool
  cfg_CookieDomain :: string
  cfg_AccessTokenTTL :: duration
  cfg_RefreshTokenTTL :: duration
  cfg_AuthCodeTTL :: duration
  cfg_PasswordResetTTL :: duration
  cfg_PasswordResetInterval :: duration
  cfg_EmailVerifyTTL :: duration
  cfg_MailDriver :: string
  cfg_SMTPHost :: string
  cfg_SMTPPort :: int
  cfg_SMTPUsername :: string
  cfg_SMTPPassword :: string
  cfg_SMTPFrom :: string
  cfg_SMTPImplicitTLS :: bool
  cfg_PlaygroundEnabled :: bool
  cfg_RequireConsent :: bool
  cfg_SigningAlgorithm :: string
  cfg_SigningKeyRotationDays :: int
  cfg_SigningKeyGracePeriod :: duration
  cfg_MaintenanceInterval :: duration
  cfg_AuditRetention :: duration
  cfg_LoginRateLimit :: int
  cfg_LockoutMaxAttempts :: int
  cfg_LockoutDuration :: duration
  cfg_LogLevel :: string
  cfg_LogFormat :: string
  cfg_CORSAllowedOrigins :: string
  cfg_CORSAllowCredentials :: bool
  cfg_TrustedProxies :: string
  cfg_SecurityHeadersEnabled :: bool
  cfg_ContentSecurityPolicy :: string
  cfg_HSTSMaxAge :: int
  cfg_MetricsEnabled :: bool
  cfg_GroupsClaim :: string
  cfg_BootstrapGroups :: string
  cfg_AdminEmails :: string
  cfg_BootstrapUsers :: string
  cfg_ClientID :: string
  cfg_ClientSecret :: string
  cfg_ClientRedirectURI :: string
  cfg_BootstrapClients :: string
  cfg_CookieSecretGenerated :: bool

text \<open>The prefixes of \<open>net/netip\<close>, opaque as the addresses are.\<close>

record netip_prefixes =
  np_ParseAddr :: "string \<Rightarrow> string res"
  np_ParsePrefix :: "string \<Rightarrow> string res"
  np_BitLen :: "string \<Rightarrow> int"
  np_PrefixFrom :: "string \<Rightarrow> int \<Rightarrow> string"

section \<open>Lists in a string\<close>

definition splitList :: "string \<Rightarrow> string list" where
  "splitList v = (if v = '''' then [] else filter (\<lambda>item. item \<noteq> '''') (map TrimSpace (Split CHR '','' v)))"

definition ParseCORSAllowedOrigins :: "config \<Rightarrow> string list" where
  "ParseCORSAllowedOrigins c =
     (if cfg_CORSAllowedOrigins c = '''' then []
      else filter (\<lambda>origin. origin \<noteq> '''') (map TrimSpace (Split CHR '','' (cfg_CORSAllowedOrigins c))))"

definition ParseAdminEmails :: "config \<Rightarrow> string list" where
  "ParseAdminEmails c = splitList (cfg_AdminEmails c)"

text \<open>\<open>strings.SplitN(s, sep, 3)\<close>.\<close>

definition SplitN3 :: "char \<Rightarrow> string \<Rightarrow> string list" where
  "SplitN3 sep s = (case SplitN2 sep s of [a, b] \<Rightarrow> a # SplitN2 sep b | xs \<Rightarrow> xs)"

record bootstrap_user =
  bu_Email :: string
  bu_Password :: string
  bu_Name :: string

record bootstrap_client =
  bc_ID :: string
  bc_Secret :: string
  bc_RedirectURIs :: "string list"
  bc_Public :: bool

record bootstrap_group =
  bg_Name :: string
  bg_Members :: "string list"

definition bootstrap_user_entry :: "string \<Rightarrow> bootstrap_user option" where
  "bootstrap_user_entry entry =
     (if entry = '''' then None
      else case SplitN3 CHR '':'' entry of
        email # password # rest \<Rightarrow>
          Some \<lparr>bu_Email = TrimSpace email, bu_Password = TrimSpace password,
                bu_Name = (case rest of name # _ \<Rightarrow> TrimSpace name | [] \<Rightarrow> '''')\<rparr>
      | _ \<Rightarrow> None)"

definition ParseBootstrapUsers :: "config \<Rightarrow> bootstrap_user list" where
  "ParseBootstrapUsers c =
     (if cfg_BootstrapUsers c = '''' then []
      else List.map_filter (\<lambda>entry. bootstrap_user_entry (TrimSpace entry)) (Split CHR '','' (cfg_BootstrapUsers c)))"

definition ParseBootstrapGroups :: "config \<Rightarrow> bootstrap_group list" where
  "ParseBootstrapGroups c =
     List.map_filter
       (\<lambda>entry. (let (name, members) = Cut CHR '':'' entry; name' = TrimSpace name
                 in if name' = '''' then None else Some \<lparr>bg_Name = name', bg_Members = Fields members\<rparr>))
       (splitList (cfg_BootstrapGroups c))"

definition bootstrap_client_entry :: "string \<Rightarrow> bootstrap_client option" where
  "bootstrap_client_entry entry =
     (if entry = '''' then None
      else case SplitN3 CHR ''|'' entry of
        [ident, secret, uris] \<Rightarrow>
          Some \<lparr>bc_ID = TrimSpace ident, bc_Secret = TrimSpace secret, bc_RedirectURIs = Fields uris, bc_Public = (TrimSpace secret = '''')\<rparr>
      | _ \<Rightarrow> None)"

definition ParseBootstrapClients :: "config \<Rightarrow> bootstrap_client list" where
  "ParseBootstrapClients c =
     (if cfg_ClientID c \<noteq> '''' \<and> cfg_ClientRedirectURI c \<noteq> ''''
      then [\<lparr>bc_ID = cfg_ClientID c, bc_Secret = cfg_ClientSecret c, bc_RedirectURIs = Fields (cfg_ClientRedirectURI c),
             bc_Public = (cfg_ClientSecret c = '''')\<rparr>]
      else [])
     @ (if cfg_BootstrapClients c \<noteq> ''''
        then List.map_filter (\<lambda>entry. bootstrap_client_entry (TrimSpace entry)) (Split CHR '','' (cfg_BootstrapClients c))
        else [])"

section \<open>Trusted proxies\<close>

definition private_networks :: "string list" where
  "private_networks = [''127.0.0.0/8'', ''10.0.0.0/8'', ''172.16.0.0/12'', ''192.168.0.0/16'', ''100.64.0.0/10'', ''169.254.0.0/16'',
     ''::1/128'', ''fc00::/7'', ''fe80::/10'']"

text \<open>
  \<open>MustParsePrefix\<close> panics when the package is initialised, before anything else runs, on a literal that is
  no prefix: a program that reaches \<open>Load\<close> has parsed them all.
\<close>

definition privateProxyPrefixes :: "netip_prefixes \<Rightarrow> string list" where
  "privateProxyPrefixes N = List.map_filter (\<lambda>p. case np_ParsePrefix N p of Inr q \<Rightarrow> Some q | Inl _ \<Rightarrow> None) private_networks"

fun proxy_items :: "netip_prefixes \<Rightarrow> (string \<Rightarrow> string) \<Rightarrow> string list \<Rightarrow> string list res" where
  "proxy_items N quote [] = Inr []"
| "proxy_items N quote (raw # rest) =
     (let item = TrimSpace raw
      in if item = '''' then proxy_items N quote rest
         else case np_ParsePrefix N item of
           Inr p \<Rightarrow> map_sum id ((#) p) (proxy_items N quote rest)
         | Inl _ \<Rightarrow>
             (case np_ParseAddr N item of
                Inl _ \<Rightarrow> Inl (Plain (''IDPICO_TRUSTED_PROXIES: '' @ quote item @ '' is not an IP or CIDR''))
              | Inr addr \<Rightarrow> map_sum id ((#) (np_PrefixFrom N addr (np_BitLen N addr))) (proxy_items N quote rest)))"

definition ParseTrustedProxies :: "platform \<Rightarrow> netip_prefixes \<Rightarrow> (string \<Rightarrow> string) \<Rightarrow> config \<Rightarrow> string list res" where
  "ParseTrustedProxies P N quote c =
     (let v = ToLower P (TrimSpace (cfg_TrustedProxies c))
      in if v = '''' \<or> v = ''none'' then Inr []
         else if v = ''private'' then Inr (privateProxyPrefixes N)
         else proxy_items N quote (Split CHR '','' (cfg_TrustedProxies c)))"

section \<open>Drivers\<close>

definition StoreDriverSQLite :: string where
  "StoreDriverSQLite = ''sqlite''"

definition StoreDriverFile :: string where
  "StoreDriverFile = ''file''"

definition validateStore :: "platform \<Rightarrow> (string \<Rightarrow> string) \<Rightarrow> config \<Rightarrow> goerr option \<times> config" where
  "validateStore P quote c =
     (let driver = ToLower P (TrimSpace (cfg_StoreDriver c)); c' = c\<lparr>cfg_StoreDriver := driver\<rparr>
      in if driver = StoreDriverSQLite \<or> driver = StoreDriverFile then (None, c')
         else (Some (Plain (''invalid IDPICO_STORE_DRIVER '' @ quote driver @ '' (expected '' @ quote StoreDriverSQLite @ '' or ''
                 @ quote StoreDriverFile @ '')'')), c'))"

definition MailDriverLog :: string where
  "MailDriverLog = ''log''"

definition MailDriverSMTP :: string where
  "MailDriverSMTP = ''smtp''"

definition validateMail :: "platform \<Rightarrow> (string \<Rightarrow> string) \<Rightarrow> config \<Rightarrow> goerr option \<times> config" where
  "validateMail P quote c =
     (let driver = ToLower P (TrimSpace (cfg_MailDriver c)); c' = c\<lparr>cfg_MailDriver := driver\<rparr>
      in if driver = MailDriverLog then (None, c')
         else if driver = MailDriverSMTP then
           (if cfg_SMTPHost c' = '''' \<or> cfg_SMTPFrom c' = ''''
            then (Some (Plain ''IDPICO_SMTP_HOST and IDPICO_SMTP_FROM are required when IDPICO_MAIL_DRIVER=smtp''), c')
            else (None, c'))
         else (Some (Plain (''invalid IDPICO_MAIL_DRIVER '' @ quote driver @ '' (expected '' @ quote MailDriverLog @ '' or ''
                 @ quote MailDriverSMTP @ '')'')), c'))"

section \<open>Derived settings\<close>

text \<open>\<open>time.Duration(days) * 24 * time.Hour\<close>, two products of 64 bits.\<close>

definition SigningKeyMaxAge :: "config \<Rightarrow> duration" where
  "SigningKeyMaxAge c =
     (if cfg_SigningKeyRotationDays c \<le> 0 then 0
      else wrap64 (wrap64 (cfg_SigningKeyRotationDays c * 24) * hour))"

text \<open>\<open>filepath.Join\<close> of two elements: empty ones are left out, the rest is cleaned.\<close>

definition filepath_Join :: "string \<Rightarrow> string \<Rightarrow> string" where
  "filepath_Join a b =
     (case filter (\<lambda>e. e \<noteq> '''') [a, b] of [] \<Rightarrow> '''' | es \<Rightarrow> path_Clean (join_slash es))"

definition SQLitePath :: "config \<Rightarrow> string" where
  "SQLitePath c = (if cfg_StoreDSN c \<noteq> '''' then cfg_StoreDSN c else filepath_Join (cfg_DataDir c) ''idpico.db'')"

definition Addr :: "config \<Rightarrow> string" where
  "Addr c = cfg_Host c @ '':'' @ format_int (cfg_Port c)"

definition generateRandomSecret :: "string res \<Rightarrow> string res" where
  "generateRandomSecret rnd = (case rnd of Inl e \<Rightarrow> Inl e | Inr bytes \<Rightarrow> Inr (RawURLEncoding_EncodeToString bytes))"

section \<open>Loading\<close>

definition with_secret :: "string res \<Rightarrow> config \<Rightarrow> config res" where
  "with_secret rnd c =
     (if cfg_CookieSecret c = '''' then
        (case generateRandomSecret rnd of
           Inl e \<Rightarrow> Inl (Wrapped ''failed to generate cookie secret'' e)
         | Inr secret \<Rightarrow> Inr (c\<lparr>cfg_CookieSecret := secret, cfg_CookieSecretGenerated := True\<rparr>))
      else Inr c)"

definition https_issuer :: "platform \<Rightarrow> config \<Rightarrow> bool" where
  "https_issuer P c = HasPrefix (ToLower P (cfg_IssuerURL c)) ''https://''"

definition issuer_defaults :: "platform \<Rightarrow> (string \<rightharpoonup> string) \<Rightarrow> config \<Rightarrow> config" where
  "issuer_defaults P env c =
     (let c1 = (if env ''IDPICO_COOKIE_SECURE'' = None \<and> https_issuer P c then c\<lparr>cfg_CookieSecure := True\<rparr> else c)
      in if env ''IDPICO_PLAYGROUND_ENABLED'' = None \<and> https_issuer P c then c1\<lparr>cfg_PlaygroundEnabled := False\<rparr> else c1)"

definition Load :: "platform \<Rightarrow> netip_prefixes \<Rightarrow> (string \<Rightarrow> string) \<Rightarrow> (string \<rightharpoonup> string) \<Rightarrow> config res \<Rightarrow> string res \<Rightarrow> config res" where
  "Load P N quote env readEnv rnd =
     (case readEnv of
        Inl e \<Rightarrow> Inl (Wrapped ''failed to load config'' e)
      | Inr cfg \<Rightarrow>
          bindR (with_secret rnd cfg) (\<lambda>cfg1.
            let cfg2 = issuer_defaults P env cfg1
            in if cfg_AccessTokenTTL cfg2 \<le> 0 \<or> cfg_AccessTokenTTL cfg2 > MaxAccessTokenTTL
               then Inl (Plain (''IDPICO_ACCESS_TOKEN_TTL: '' @ Duration_String (cfg_AccessTokenTTL cfg2) @ '' is out of range (at most ''
                      @ Duration_String MaxAccessTokenTTL @ '')''))
               else if cfg_CORSAllowCredentials cfg2 \<and> list_ex (\<lambda>o'. o' = ''*'') (ParseCORSAllowedOrigins cfg2)
               then Inl (Plain ''IDPICO_CORS_ALLOWED_ORIGINS=* cannot be combined with IDPICO_CORS_ALLOW_CREDENTIALS=true; list the origins'')
               else case validateStore P quote cfg2 of
                 (Some e, _) \<Rightarrow> Inl e
               | (None, cfg3) \<Rightarrow>
                   (case validateMail P quote cfg3 of
                      (Some e, _) \<Rightarrow> Inl e
                    | (None, cfg4) \<Rightarrow>
                        (case ParseTrustedProxies P N quote cfg4 of
                           Inl e \<Rightarrow> Inl e
                         | Inr _ \<Rightarrow>
                             if \<not> ValidAlgorithm (cfg_SigningAlgorithm cfg4)
                             then Inl (Plain (''IDPICO_SIGNING_ALGORITHM: '' @ quote (cfg_SigningAlgorithm cfg4)
                                    @ '' is not supported (use one of ['' @ join_spaces SupportedAlgorithms @ ''])''))
                             else Inr cfg4))))"

section \<open>What a loaded configuration guarantees\<close>

text \<open>
  The checks as one predicate: what \<open>main\<close> and the services rely on without looking again. \<open>main\<close> drops
  the error of \<open>ParseTrustedProxies\<close> and its \<open>switch\<close> over the drivers has a default branch for neither.
\<close>

definition config_wf :: "platform \<Rightarrow> netip_prefixes \<Rightarrow> (string \<Rightarrow> string) \<Rightarrow> config \<Rightarrow> bool" where
  "config_wf P N quote c \<longleftrightarrow>
     0 < cfg_AccessTokenTTL c \<and> cfg_AccessTokenTTL c \<le> MaxAccessTokenTTL
     \<and> cfg_StoreDriver c \<in> {StoreDriverSQLite, StoreDriverFile}
     \<and> cfg_MailDriver c \<in> {MailDriverLog, MailDriverSMTP}
     \<and> (cfg_MailDriver c = MailDriverSMTP \<longrightarrow> cfg_SMTPHost c \<noteq> '''' \<and> cfg_SMTPFrom c \<noteq> '''')
     \<and> isOk (ParseTrustedProxies P N quote c)
     \<and> ValidAlgorithm (cfg_SigningAlgorithm c)
     \<and> \<not> (cfg_CORSAllowCredentials c \<and> ''*'' \<in> set (ParseCORSAllowedOrigins c))"

lemma issuer_defaults_eq:
  "issuer_defaults P env c = c
     \<lparr>cfg_CookieSecure := cfg_CookieSecure c \<or> env ''IDPICO_COOKIE_SECURE'' = None \<and> https_issuer P c,
      cfg_PlaygroundEnabled := cfg_PlaygroundEnabled c \<and> \<not> (env ''IDPICO_PLAYGROUND_ENABLED'' = None \<and> https_issuer P c)\<rparr>"
  by (cases "env ''IDPICO_COOKIE_SECURE''"; cases "env ''IDPICO_PLAYGROUND_ENABLED''"; cases "https_issuer P c")
     (simp_all add: issuer_defaults_def Let_def)

lemma validateStore_eq:
  "\<exists>es. validateStore P quote c = (es, c\<lparr>cfg_StoreDriver := ToLower P (TrimSpace (cfg_StoreDriver c))\<rparr>)
     \<and> (es = None \<longleftrightarrow> ToLower P (TrimSpace (cfg_StoreDriver c)) \<in> {StoreDriverSQLite, StoreDriverFile})"
  by (simp add: validateStore_def Let_def)

lemma validateMail_eq:
  "\<exists>em. validateMail P quote c = (em, c\<lparr>cfg_MailDriver := ToLower P (TrimSpace (cfg_MailDriver c))\<rparr>)
     \<and> (em = None \<longleftrightarrow> (let d = ToLower P (TrimSpace (cfg_MailDriver c))
           in d \<in> {MailDriverLog, MailDriverSMTP} \<and> (d = MailDriverSMTP \<longrightarrow> cfg_SMTPHost c \<noteq> '''' \<and> cfg_SMTPFrom c \<noteq> '''')))"
  by (simp add: validateMail_def Let_def MailDriverLog_def MailDriverSMTP_def)

text \<open>The configuration \<open>Load\<close> hands out: the one read, with a secret, the defaults and the drivers' names normalised.\<close>

definition loaded_from :: "platform \<Rightarrow> (string \<rightharpoonup> string) \<Rightarrow> config \<Rightarrow> config" where
  "loaded_from P env c =
     (issuer_defaults P env c)\<lparr>cfg_StoreDriver := ToLower P (TrimSpace (cfg_StoreDriver c)),
        cfg_MailDriver := ToLower P (TrimSpace (cfg_MailDriver c))\<rparr>"

lemma Load_iff:
  "Load P N quote env readEnv rnd = Inr c \<longleftrightarrow>
     (\<exists>cfg cfg1. readEnv = Inr cfg \<and> with_secret rnd cfg = Inr cfg1 \<and> c = loaded_from P env cfg1 \<and> config_wf P N quote c)"
proof (cases readEnv)
  case (Inr cfg)
  show ?thesis
  proof (cases "with_secret rnd cfg")
    case w: (Inr cfg1)
    let ?d = "issuer_defaults P env cfg1" and ?c = "loaded_from P env cfg1"
    have k: "cfg_StoreDriver ?d = cfg_StoreDriver cfg1" "cfg_MailDriver ?d = cfg_MailDriver cfg1" by (simp_all add: issuer_defaults_eq)
    obtain es where s: "validateStore P quote ?d = (es, ?d\<lparr>cfg_StoreDriver := ToLower P (TrimSpace (cfg_StoreDriver cfg1))\<rparr>)"
      and es: "es = None \<longleftrightarrow> cfg_StoreDriver ?c \<in> {StoreDriverSQLite, StoreDriverFile}"
      using validateStore_eq [of P quote ?d] unfolding k loaded_from_def by auto
    obtain em where m: "validateMail P quote (?d\<lparr>cfg_StoreDriver := ToLower P (TrimSpace (cfg_StoreDriver cfg1))\<rparr>) = (em, ?c)"
      and em: "em = None \<longleftrightarrow> cfg_MailDriver ?c \<in> {MailDriverLog, MailDriverSMTP}
        \<and> (cfg_MailDriver ?c = MailDriverSMTP \<longrightarrow> cfg_SMTPHost ?c \<noteq> '''' \<and> cfg_SMTPFrom ?c \<noteq> '''')"
      using validateMail_eq [of P quote "?d\<lparr>cfg_StoreDriver := ToLower P (TrimSpace (cfg_StoreDriver cfg1))\<rparr>"]
      by (auto simp: loaded_from_def k Let_def)
    have o: "cfg_AccessTokenTTL ?c = cfg_AccessTokenTTL ?d" "cfg_CORSAllowCredentials ?c = cfg_CORSAllowCredentials ?d"
      "ParseCORSAllowedOrigins ?c = ParseCORSAllowedOrigins ?d" by (simp_all add: loaded_from_def ParseCORSAllowedOrigins_def)
    have wf: "config_wf P N quote ?c \<longleftrightarrow> \<not> (cfg_AccessTokenTTL ?d \<le> 0 \<or> cfg_AccessTokenTTL ?d > MaxAccessTokenTTL)
        \<and> \<not> (cfg_CORSAllowCredentials ?d \<and> list_ex (\<lambda>o'. o' = ''*'') (ParseCORSAllowedOrigins ?d))
        \<and> es = None \<and> em = None \<and> isOk (ParseTrustedProxies P N quote ?c) \<and> ValidAlgorithm (cfg_SigningAlgorithm ?c)"
      unfolding config_wf_def es em o list_ex_iff by force
    have "Load P N quote env readEnv rnd = Inr c \<longleftrightarrow> c = ?c \<and> config_wf P N quote ?c"
      unfolding wf Load_def Inr w bindR.simps Let_def sum.case s m prod.case
      by (cases es; cases em; cases "ParseTrustedProxies P N quote ?c") auto
    then show ?thesis using Inr w by auto
  qed (simp add: Load_def Inr)
qed (simp add: Load_def)

end
