(* ===== verification/Routes.thy ===== *)
theory Routes
  imports Guards OidcHandlers Middleware
begin

text \<open>
  The server as \<open>NewServer\<close> of \<open>internal/http/server.go\<close> puts it together: its options, the routes it
  registers with the limiter in front of each, the middleware around them, and the endpoints that have no file
  of handlers of their own (health, discovery, the key set, the landing page). Matching a request against the
  registered patterns is the router \<open>chi\<close> and counting requests is \<open>httprate\<close>: both are parameters of
  \<open>ServeHTTP\<close>, as are the handlers for static files, metrics and the playground. The \<open>RequestID\<close>,
  \<open>Timeout\<close>, metrics and logging middleware only observe a request.
\<close>

section \<open>Health\<close>

definition Healthz :: response where
  "Healthz = write_json NewResponse 200 [''status'' \<mapsto> JString ''ok'']"

text \<open>\<open>check\<close> is the outcome of the readiness check when one is configured.\<close>

record health =
  hh_ready :: bool
  hh_check :: "goerr option option"

definition NewHealthHandler :: "goerr option option \<Rightarrow> health" where
  "NewHealthHandler check = \<lparr>hh_ready = True, hh_check = check\<rparr>"

definition SetReady :: "bool \<Rightarrow> health \<Rightarrow> health" where
  "SetReady ready h = h\<lparr>hh_ready := ready\<rparr>"

definition Readyz :: "health \<Rightarrow> response" where
  "Readyz h =
     (let ready = (hh_ready h \<and> (case hh_check h of Some (Some _) \<Rightarrow> False | _ \<Rightarrow> True))
      in if ready then write_json NewResponse 200 [''status'' \<mapsto> JString ''ready'']
         else write_json NewResponse 503 [''status'' \<mapsto> JString ''not ready''])"

section \<open>Discovery\<close>

record discovery =
  od_Issuer :: string
  od_AuthorizationEndpoint :: string
  od_TokenEndpoint :: string
  od_UserinfoEndpoint :: string
  od_JwksURI :: string
  od_EndSessionEndpoint :: string
  od_RevocationEndpoint :: string
  od_IntrospectionEndpoint :: string
  od_RegistrationEndpoint :: string
  od_ScopesSupported :: "string list"
  od_ResponseTypesSupported :: "string list"
  od_ResponseModesSupported :: "string list"
  od_GrantTypesSupported :: "string list"
  od_SubjectTypesSupported :: "string list"
  od_IDTokenSigningAlgValuesSupported :: "string list"
  od_TokenEndpointAuthMethodsSupported :: "string list"
  od_ClaimsSupported :: "string list"
  od_CodeChallengeMethodsSupported :: "string list"
  od_RevocationEndpointAuthMethods :: "string list"
  od_IntrospectionEndpointAuthMethods :: "string list"
  od_RequestParameterSupported :: bool
  od_RequestURIParameterSupported :: bool
  od_ClaimsParameterSupported :: bool

record discovery_handler =
  dh_issuerURL :: string
  dh_groupsClaim :: string

text \<open>\<open>strings.TrimSuffix(s, "/")\<close>: one slash at most.\<close>

definition TrimSuffix_slash :: "string \<Rightarrow> string" where
  "TrimSuffix_slash s = (if s \<noteq> '''' \<and> last s = CHR ''/'' then butlast s else s)"

definition NewDiscoveryHandler :: "string \<Rightarrow> string \<Rightarrow> discovery_handler" where
  "NewDiscoveryHandler issuerURL groupsClaim = \<lparr>dh_issuerURL = TrimSuffix_slash issuerURL, dh_groupsClaim = groupsClaim\<rparr>"

definition discovery_document :: "discovery_handler \<Rightarrow> discovery" where
  "discovery_document h =
     (let scopes = [''openid'', ''profile'', ''email'', ''offline_access''];
          claims = [''iss'', ''sub'', ''aud'', ''exp'', ''iat'', ''auth_time'', ''amr'', ''nonce'', ''email'', ''email_verified'', ''name'']
      in \<lparr>od_Issuer = dh_issuerURL h,
          od_AuthorizationEndpoint = dh_issuerURL h @ ''/authorize'',
          od_TokenEndpoint = dh_issuerURL h @ ''/token'',
          od_UserinfoEndpoint = dh_issuerURL h @ ''/userinfo'',
          od_JwksURI = dh_issuerURL h @ ''/.well-known/jwks.json'',
          od_EndSessionEndpoint = dh_issuerURL h @ ''/logout'',
          od_RevocationEndpoint = dh_issuerURL h @ ''/revoke'',
          od_IntrospectionEndpoint = dh_issuerURL h @ ''/introspect'',
          od_RegistrationEndpoint = '''',
          od_ScopesSupported = scopes @ (if dh_groupsClaim h \<noteq> '''' then [''groups''] else []),
          od_ResponseTypesSupported = [''code''],
          od_ResponseModesSupported = [''query''],
          od_GrantTypesSupported = [''authorization_code'', ''refresh_token''],
          od_SubjectTypesSupported = [''public''],
          od_IDTokenSigningAlgValuesSupported = [''RS256'', ''EdDSA''],
          od_TokenEndpointAuthMethodsSupported = [''client_secret_basic'', ''client_secret_post'', ''none''],
          od_ClaimsSupported = claims @ (if dh_groupsClaim h \<noteq> '''' then [dh_groupsClaim h] else []),
          od_CodeChallengeMethodsSupported = [''S256''],
          od_RevocationEndpointAuthMethods = [''client_secret_basic'', ''client_secret_post''],
          od_IntrospectionEndpointAuthMethods = [''client_secret_basic'', ''client_secret_post''],
          od_RequestParameterSupported = False, od_RequestURIParameterSupported = False, od_ClaimsParameterSupported = False\<rparr>)"

definition json_strings :: "string list \<Rightarrow> json" where
  "json_strings xs = JArr (map JString xs)"

definition set_opt :: "string \<Rightarrow> json option \<Rightarrow> json_object \<Rightarrow> json_object" where
  "set_opt k v obj = (case v of None \<Rightarrow> obj | Some x \<Rightarrow> obj(k \<mapsto> x))"

text \<open>The struct as \<open>encoding/json\<close> writes it: the members marked \<open>omitempty\<close> are left out when empty.\<close>

definition discovery_JSON :: "discovery \<Rightarrow> json_object" where
  "discovery_JSON d =
     set_opt ''userinfo_endpoint'' (opt_string (od_UserinfoEndpoint d))
     (set_opt ''end_session_endpoint'' (opt_string (od_EndSessionEndpoint d))
     (set_opt ''revocation_endpoint'' (opt_string (od_RevocationEndpoint d))
     (set_opt ''introspection_endpoint'' (opt_string (od_IntrospectionEndpoint d))
     (set_opt ''registration_endpoint'' (opt_string (od_RegistrationEndpoint d))
     (set_opt ''response_modes_supported'' (opt_strings (od_ResponseModesSupported d))
     (set_opt ''claims_supported'' (opt_strings (od_ClaimsSupported d))
     (set_opt ''code_challenge_methods_supported'' (opt_strings (od_CodeChallengeMethodsSupported d))
     (set_opt ''revocation_endpoint_auth_methods_supported'' (opt_strings (od_RevocationEndpointAuthMethods d))
     (set_opt ''introspection_endpoint_auth_methods_supported'' (opt_strings (od_IntrospectionEndpointAuthMethods d))
     [''issuer'' \<mapsto> JString (od_Issuer d),
      ''authorization_endpoint'' \<mapsto> JString (od_AuthorizationEndpoint d),
      ''token_endpoint'' \<mapsto> JString (od_TokenEndpoint d),
      ''jwks_uri'' \<mapsto> JString (od_JwksURI d),
      ''scopes_supported'' \<mapsto> json_strings (od_ScopesSupported d),
      ''response_types_supported'' \<mapsto> json_strings (od_ResponseTypesSupported d),
      ''grant_types_supported'' \<mapsto> json_strings (od_GrantTypesSupported d),
      ''subject_types_supported'' \<mapsto> json_strings (od_SubjectTypesSupported d),
      ''id_token_signing_alg_values_supported'' \<mapsto> json_strings (od_IDTokenSigningAlgValuesSupported d),
      ''token_endpoint_auth_methods_supported'' \<mapsto> json_strings (od_TokenEndpointAuthMethodsSupported d),
      ''request_parameter_supported'' \<mapsto> JBool (od_RequestParameterSupported d),
      ''request_uri_parameter_supported'' \<mapsto> JBool (od_RequestURIParameterSupported d),
      ''claims_parameter_supported'' \<mapsto> JBool (od_ClaimsParameterSupported d)])))))))))"

definition public_json :: "string \<Rightarrow> json_object \<Rightarrow> response" where
  "public_json cacheControl v =
     (Header_Set ''Access-Control-Allow-Origin'' ''*''
        (Header_Set ''Cache-Control'' cacheControl (Header_Set ''Content-Type'' ''application/json'' NewResponse)))
       \<lparr>rs_Status := 200, rs_Body := Json v\<rparr>"

definition OpenIDConfiguration :: "discovery_handler \<Rightarrow> request \<Rightarrow> response" where
  "OpenIDConfiguration h r =
     (if hq_Method r \<noteq> ''GET'' then http_Error NewResponse ''Method Not Allowed'' 405
      else public_json ''public, max-age=3600'' (discovery_JSON (discovery_document h)))"

section \<open>The key set\<close>

definition jwk_JSON :: "jwk \<Rightarrow> json" where
  "jwk_JSON k =
     JObj ([(''kty'', JString (jwk_Kty k)), (''use'', JString (jwk_Use k)), (''kid'', JString (jwk_Kid k)), (''alg'', JString (jwk_Alg k))]
       @ (if jwk_N k = '''' then [] else [(''n'', JString (jwk_N k))]) @ (if jwk_E k = '''' then [] else [(''e'', JString (jwk_E k))])
       @ (if jwk_Crv k = '''' then [] else [(''crv'', JString (jwk_Crv k))]) @ (if jwk_X k = '''' then [] else [(''x'', JString (jwk_X k))]))"

definition JWKS :: "time \<Rightarrow> key_service \<Rightarrow> request \<Rightarrow> response" where
  "JWKS now ks r =
     (if hq_Method r \<noteq> ''GET'' then http_Error NewResponse ''Method Not Allowed'' 405
      else case GetJWKS now ks of
        Inl _ \<Rightarrow> http_Error NewResponse ''Internal Server Error'' 500
      | Inr jwks \<Rightarrow> public_json ''public, max-age=300'' [''keys'' \<mapsto> JArr (map jwk_JSON jwks)])"

section \<open>The server and its options\<close>

record server =
  sv_keyService :: bool
  sv_authService :: bool
  sv_accountService :: "account_service option"
  sv_accountResetTTL :: string
  sv_oidcServices :: bool
  sv_consentService :: bool
  sv_issuerURL :: string
  sv_loginRateLimit :: int
  sv_trustedProxies :: "string list"
  sv_corsConfig :: "cors_config option"
  sv_securityHeadersConfig :: "security_headers option"
  sv_metricsEnabled :: bool
  sv_adminConfig :: "admin option"
  sv_accountStore :: bool
  sv_readinessCheck :: "goerr option option"
  sv_groupsClaim :: string
  sv_audit :: bool
  sv_playground :: bool

text \<open>The zero \<open>Server\<close>, and the options as functions on it.\<close>

definition no_options :: server where
  "no_options = \<lparr>sv_keyService = False, sv_authService = False, sv_accountService = None, sv_accountResetTTL = '''', sv_oidcServices = False,
     sv_consentService = False, sv_issuerURL = '''', sv_loginRateLimit = 0, sv_trustedProxies = [], sv_corsConfig = None,
     sv_securityHeadersConfig = None, sv_metricsEnabled = False, sv_adminConfig = None, sv_accountStore = False, sv_readinessCheck = None,
     sv_groupsClaim = '''', sv_audit = False, sv_playground = False\<rparr>"

datatype server_option =
    WithKeyService
  | WithIssuerURL string
  | WithAuthService
  | WithOIDCServices
  | WithAccountService account_service string
  | WithPlayground
  | WithAudit
  | WithGroupsClaim string
  | WithAdmin admin
  | WithReadinessCheck "goerr option"
  | WithAccountPage
  | WithConsentService
  | WithLoginRateLimit int
  | WithTrustedProxies "string list"
  | WithCORS cors_config
  | WithSecurityHeaders security_headers
  | WithMetrics bool

fun apply_option :: "server_option \<Rightarrow> server \<Rightarrow> server" where
  "apply_option WithKeyService s = s\<lparr>sv_keyService := True\<rparr>"
| "apply_option (WithIssuerURL u) s = s\<lparr>sv_issuerURL := u\<rparr>"
| "apply_option WithAuthService s = s\<lparr>sv_authService := True\<rparr>"
| "apply_option WithOIDCServices s = s\<lparr>sv_oidcServices := True\<rparr>"
| "apply_option (WithAccountService a ttl) s = s\<lparr>sv_accountService := Some a, sv_accountResetTTL := ttl\<rparr>"
| "apply_option WithPlayground s = s\<lparr>sv_playground := True\<rparr>"
| "apply_option WithAudit s = s\<lparr>sv_audit := True\<rparr>"
| "apply_option (WithGroupsClaim name) s = s\<lparr>sv_groupsClaim := name\<rparr>"
| "apply_option (WithAdmin cfg) s = s\<lparr>sv_adminConfig := Some cfg\<rparr>"
| "apply_option (WithReadinessCheck check) s = s\<lparr>sv_readinessCheck := Some check\<rparr>"
| "apply_option WithAccountPage s = s\<lparr>sv_accountStore := True\<rparr>"
| "apply_option WithConsentService s = s\<lparr>sv_consentService := True\<rparr>"
| "apply_option (WithLoginRateLimit n) s = s\<lparr>sv_loginRateLimit := n\<rparr>"
| "apply_option (WithTrustedProxies ps) s = s\<lparr>sv_trustedProxies := ps\<rparr>"
| "apply_option (WithCORS c) s = s\<lparr>sv_corsConfig := Some c\<rparr>"
| "apply_option (WithSecurityHeaders c) s = s\<lparr>sv_securityHeadersConfig := Some c\<rparr>"
| "apply_option (WithMetrics b) s = s\<lparr>sv_metricsEnabled := b\<rparr>"

definition server_of :: "server_option list \<Rightarrow> server" where
  "server_of opts = fold apply_option opts no_options"

section \<open>Routes\<close>

datatype limiter = Unlimited | Interactive | Api

datatype endpoint =
    EpHealthz | EpReadyz | EpMetrics | EpDiscovery | EpJWKS | EpStatic | EpFavicon
  | EpLoginPage | EpLogin | EpCodePage | EpCode | EpPasskeyBegin | EpPasskeyFinish | EpLogout
  | EpForgotPasswordPage | EpResetPasswordPage | EpVerifyEmail | EpForgotPassword | EpResetPassword
  | EpAuthorize | EpConsent | EpToken | EpUserInfo | EpRevoke | EpIntrospect
  | EpLanding | EpPlayground | EpAccount account_route | EpAdmin admin_route

text \<open>A registration: the method (\<open>*\<close> for \<open>Handle\<close> and \<open>Route\<close>), the pattern, the limiter, the handler.\<close>

record route =
  rt_Method :: string
  rt_Pattern :: string
  rt_Limiter :: limiter
  rt_Endpoint :: endpoint

definition route_Get :: "string \<Rightarrow> endpoint \<Rightarrow> route" where
  "route_Get p e = \<lparr>rt_Method = ''GET'', rt_Pattern = p, rt_Limiter = Unlimited, rt_Endpoint = e\<rparr>"

definition route_Post :: "string \<Rightarrow> endpoint \<Rightarrow> route" where
  "route_Post p e = \<lparr>rt_Method = ''POST'', rt_Pattern = p, rt_Limiter = Unlimited, rt_Endpoint = e\<rparr>"

definition route_Handle :: "string \<Rightarrow> endpoint \<Rightarrow> route" where
  "route_Handle p e = \<lparr>rt_Method = ''*'', rt_Pattern = p, rt_Limiter = Unlimited, rt_Endpoint = e\<rparr>"

text \<open>\<open>limited(limiter)\<close>: the plain router when no limit is configured.\<close>

definition limited :: "server \<Rightarrow> limiter \<Rightarrow> route \<Rightarrow> route" where
  "limited sv l rt = (if sv_loginRateLimit sv > 0 then rt\<lparr>rt_Limiter := l\<rparr> else rt)"

definition health_routes :: "server \<Rightarrow> route list" where
  "health_routes sv =
     [route_Get ''/healthz'' EpHealthz, route_Get ''/readyz'' EpReadyz]
     @ (if sv_metricsEnabled sv then [route_Handle ''/metrics'' EpMetrics] else [])
     @ (if sv_issuerURL sv \<noteq> '''' then [route_Get ''/.well-known/openid-configuration'' EpDiscovery] else [])
     @ (if sv_keyService sv then [route_Get ''/.well-known/jwks.json'' EpJWKS, route_Get ''/jwks'' EpJWKS] else [])
     @ [route_Handle ''/static/*'' EpStatic, route_Handle ''/favicon.ico'' EpFavicon]"

definition login_routes :: "server \<Rightarrow> route list" where
  "login_routes sv =
     (if sv_authService sv then
        [route_Get ''/login'' EpLoginPage,
         limited sv Interactive (route_Post ''/login'' EpLogin),
         route_Get ''/login/code'' EpCodePage,
         limited sv Interactive (route_Post ''/login/code'' EpCode),
         route_Post ''/login/passkey/begin'' EpPasskeyBegin,
         limited sv Interactive (route_Post ''/login/passkey/finish'' EpPasskeyFinish),
         route_Post ''/logout'' EpLogout,
         route_Get ''/logout'' EpLogout]
        @ (if sv_accountService sv \<noteq> None then
             [route_Get ''/forgot-password'' EpForgotPasswordPage,
              route_Get ''/reset-password'' EpResetPasswordPage,
              limited sv Interactive (route_Get ''/verify-email'' EpVerifyEmail),
              limited sv Interactive (route_Post ''/forgot-password'' EpForgotPassword),
              limited sv Interactive (route_Post ''/reset-password'' EpResetPassword)]
           else [])
      else [])"

definition oidc_routes :: "server \<Rightarrow> route list" where
  "oidc_routes sv =
     (if sv_oidcServices sv \<and> sv_authService sv then
        [route_Get ''/authorize'' EpAuthorize,
         route_Post ''/authorize'' EpAuthorize,
         limited sv Interactive (route_Post ''/consent'' EpConsent),
         limited sv Api (route_Post ''/token'' EpToken),
         route_Get ''/userinfo'' EpUserInfo,
         route_Post ''/userinfo'' EpUserInfo,
         limited sv Api (route_Post ''/revoke'' EpRevoke),
         limited sv Api (route_Post ''/introspect'' EpIntrospect)]
      else [])"

text \<open>\<open>AccountPageHandler.Routes\<close>, in its three groups.\<close>

definition account_page_routes :: "server \<Rightarrow> route list" where
  "account_page_routes sv =
     [route_Get ''/account'' (EpAccount AccountPage),
      route_Get ''/account/two-step'' (EpAccount TwoStepSetup),
      route_Post ''/account/sessions/{sessionID}/revoke'' (EpAccount PostOwnSessionRevoke),
      route_Post ''/account/sessions/revoke-others'' (EpAccount PostOthersRevoke),
      route_Post ''/account/tokens/{tokenID}/revoke'' (EpAccount PostOwnTokenRevoke),
      route_Post ''/account/consents/{clientID}/revoke'' (EpAccount PostOwnConsentRevoke)]
     @ map (limited sv Interactive)
         [route_Post ''/account/password'' (EpAccount PostPassword),
          route_Post ''/account/two-step/enable'' (EpAccount PostTwoStepEnable),
          route_Post ''/account/two-step/disable'' (EpAccount PostTwoStepDisable),
          route_Post ''/account/two-step/recovery-codes'' (EpAccount PostRecoveryCodes),
          route_Post ''/account/passkeys/register/begin'' (EpAccount PostRegisterBegin),
          route_Post ''/account/passkeys/{passkeyID}/remove'' (EpAccount PostPasskeyRemove)]
     @ [route_Post ''/account/passkeys/register/finish'' (EpAccount PostRegisterFinish)]"

text \<open>\<open>AdminHandler.Routes\<close>, mounted at \<open>/admin\<close>.\<close>

definition admin_page_routes :: "route list" where
  "admin_page_routes =
     map (\<lambda>(m, p, e). \<lparr>rt_Method = m, rt_Pattern = ''/admin'' @ p, rt_Limiter = Unlimited, rt_Endpoint = EpAdmin e\<rparr>)
       [(''GET'', ''/'', GetDashboard),
        (''GET'', ''/users'', GetUsers), (''GET'', ''/users/new'', GetNewUser), (''POST'', ''/users'', PostUsers),
        (''GET'', ''/users/{id}'', GetUser), (''POST'', ''/users/{id}'', PostUser),
        (''POST'', ''/users/{id}/password'', PostUserPassword), (''POST'', ''/users/{id}/send-reset'', PostSendReset),
        (''POST'', ''/users/{id}/send-verification'', PostSendVerification),
        (''POST'', ''/users/{id}/revoke-sessions'', PostRevokeSessions), (''POST'', ''/users/{id}/two-step/reset'', PostTwoStepReset),
        (''POST'', ''/users/{id}/sessions/{sessionID}/revoke'', PostRevokeSession),
        (''POST'', ''/users/{id}/tokens/{tokenID}/revoke'', PostRevokeToken),
        (''POST'', ''/users/{id}/consents/{clientID}/revoke'', PostRevokeConsent),
        (''POST'', ''/users/{id}/delete'', PostDeleteUser), (''POST'', ''/users/{id}/groups'', PostUserGroups),
        (''GET'', ''/groups'', GetGroups), (''GET'', ''/groups/new'', GetNewGroup), (''POST'', ''/groups'', PostGroups),
        (''GET'', ''/groups/{id}'', GetGroup), (''POST'', ''/groups/{id}'', PostGroup), (''POST'', ''/groups/{id}/members'', PostMembers),
        (''POST'', ''/groups/{id}/members/{userID}/remove'', PostRemoveMember), (''POST'', ''/groups/{id}/delete'', PostDeleteGroup),
        (''GET'', ''/clients'', GetClients), (''GET'', ''/clients/new'', GetNewClient), (''POST'', ''/clients'', PostClients),
        (''GET'', ''/clients/{id}'', GetClient), (''POST'', ''/clients/{id}'', PostClient), (''POST'', ''/clients/{id}/secret'', PostSecret),
        (''POST'', ''/clients/{id}/revoke-tokens'', PostRevokeTokens), (''POST'', ''/clients/{id}/delete'', PostDeleteClient),
        (''GET'', ''/keys'', GetKeys), (''POST'', ''/keys/rotate'', PostRotate), (''GET'', ''/audit'', GetAudit)]"

text \<open>\<open>pg\<close>: whether \<open>NewPlaygroundHandler\<close> returned a handler.\<close>

definition playground_mounted :: "bool \<Rightarrow> server \<Rightarrow> bool" where
  "playground_mounted pg sv \<longleftrightarrow> sv_playground sv \<and> sv_authService sv \<and> sv_issuerURL sv \<noteq> '''' \<and> pg"

definition routes :: "bool \<Rightarrow> server \<Rightarrow> route list" where
  "routes pg sv =
     health_routes sv @ login_routes sv @ oidc_routes sv @ [route_Get ''/'' EpLanding]
     @ (if playground_mounted pg sv then [route_Handle ''/playground'' EpPlayground] else [])
     @ (if sv_accountStore sv \<and> sv_authService sv then account_page_routes sv else [])
     @ (if sv_adminConfig sv \<noteq> None \<and> sv_authService sv then admin_page_routes else [])"

section \<open>The landing page\<close>

definition landing_anonymous :: "server \<Rightarrow> site \<Rightarrow> response" where
  "landing_anonymous sv s =
     (let nobody = (sv_accountStore sv \<and> (case users_List (si_store s) of Inr us \<Rightarrow> us = [] | Inl _ \<Rightarrow> False));
          landing = empty_message\<lparr>mp_Title := ''IDPico'', mp_Message := ''This is an OpenID Connect identity provider.'',
                      mp_BackURL := ''/login'', mp_BackLabel := ''Sign in''\<rparr>
      in if nobody then Render NewResponse 200 ''setup'' (SetupData ''you@example.com'')
         else Render NewResponse 200 ''message'' (MessageData
                (if sv_playground sv then landing\<lparr>mp_SecondURL := ''/playground'', mp_SecondLabel := ''Try the OIDC playground''\<rparr> else landing)))"

definition landing_page :: "server \<Rightarrow> env \<Rightarrow> request \<Rightarrow> site \<Rightarrow> response \<times> site" where
  "landing_page sv E r s =
     (if sv_authService sv then
        (case GetCurrentUser (en_now E) (to_web r) (si_auth s) of
           (Inr user, au) \<Rightarrow>
             (let s' = s\<lparr>si_auth := au\<rparr>
              in if user_Admin user \<and> sv_adminConfig sv \<noteq> None then (http_Redirect (en_U E) r NewResponse ''/admin'' 302, s')
                 else if sv_accountStore sv then (http_Redirect (en_U E) r NewResponse ''/account'' 302, s')
                 else (Render NewResponse 200 ''message'' (MessageData (empty_message
                         \<lparr>mp_Title := ''Signed In'', mp_Message := ''You are signed in as '' @ user_Email user @ ''.'',
                          mp_BackURL := ''/logout'', mp_BackLabel := ''Sign out''\<rparr>)), s'))
         | (Inl _, au) \<Rightarrow> (landing_anonymous sv (s\<lparr>si_auth := au\<rparr>), s\<lparr>si_auth := au\<rparr>))
      else (landing_anonymous sv s, s))"

section \<open>Serving a request\<close>

text \<open>What \<open>NewServer\<close> hands to the handlers: the services of the options.\<close>

definition server_env :: "server \<Rightarrow> env \<Rightarrow> env" where
  "server_env sv E = E
     \<lparr>en_forgotPasswordURL := (if sv_accountService sv \<noteq> None then ''/forgot-password'' else ''''),
      en_postLogout := sv_oidcServices sv, en_consents := sv_consentService sv, en_audit := sv_audit sv,
      en_account := sv_accountService sv, en_resetTTL := sv_accountResetTTL sv\<rparr>"

text \<open>Handlers that are not modelled: metrics, static files, the icon, the playground.\<close>

type_synonym other_handlers = "endpoint \<Rightarrow> request \<Rightarrow> site \<Rightarrow> response \<times> site"

fun endpoint_handler :: "bool \<Rightarrow> server \<Rightarrow> env \<Rightarrow> other_handlers \<Rightarrow> endpoint \<Rightarrow> request \<Rightarrow> site \<Rightarrow> response \<times> site" where
  "endpoint_handler pg sv E oth EpHealthz r s = (Healthz, s)"
| "endpoint_handler pg sv E oth EpReadyz r s = (Readyz (NewHealthHandler (sv_readinessCheck sv)), s)"
| "endpoint_handler pg sv E oth EpDiscovery r s = (OpenIDConfiguration (NewDiscoveryHandler (sv_issuerURL sv) (sv_groupsClaim sv)) r, s)"
| "endpoint_handler pg sv E oth EpJWKS r s = (JWKS (en_now E) (si_keys s) r, s)"
| "endpoint_handler pg sv E oth EpLoginPage r s = login_LoginPage (server_env sv E) r s"
| "endpoint_handler pg sv E oth EpLogin r s = login_Login (server_env sv E) r s"
| "endpoint_handler pg sv E oth EpCodePage r s = login_CodePage (server_env sv E) r s"
| "endpoint_handler pg sv E oth EpCode r s = login_Code (server_env sv E) r s"
| "endpoint_handler pg sv E oth EpPasskeyBegin r s = login_PasskeyBegin (server_env sv E) r s"
| "endpoint_handler pg sv E oth EpPasskeyFinish r s = login_PasskeyFinish (server_env sv E) r s"
| "endpoint_handler pg sv E oth EpLogout r s = login_Logout (server_env sv E) r s"
| "endpoint_handler pg sv E oth EpForgotPasswordPage r s = account_ForgotPasswordPage (server_env sv E) r s"
| "endpoint_handler pg sv E oth EpResetPasswordPage r s = account_ResetPasswordPage (server_env sv E) r s"
| "endpoint_handler pg sv E oth EpVerifyEmail r s =
     (case sv_accountService sv of Some a \<Rightarrow> account_VerifyEmail a (server_env sv E) r s | None \<Rightarrow> (http_panic NewResponse, s))"
| "endpoint_handler pg sv E oth EpForgotPassword r s =
     (case sv_accountService sv of Some a \<Rightarrow> account_ForgotPassword a (server_env sv E) r s | None \<Rightarrow> (http_panic NewResponse, s))"
| "endpoint_handler pg sv E oth EpResetPassword r s =
     (case sv_accountService sv of Some a \<Rightarrow> account_ResetPassword a (server_env sv E) r s | None \<Rightarrow> (http_panic NewResponse, s))"
| "endpoint_handler pg sv E oth EpAuthorize r s = oidc_Authorize (server_env sv E) r s"
| "endpoint_handler pg sv E oth EpConsent r s = oidc_Consent (server_env sv E) r s"
| "endpoint_handler pg sv E oth EpToken r s = oidc_Token (server_env sv E) r s"
| "endpoint_handler pg sv E oth EpUserInfo r s = (oidc_UserInfo (server_env sv E) r s, s)"
| "endpoint_handler pg sv E oth EpRevoke r s = oidc_Revoke (server_env sv E) r s"
| "endpoint_handler pg sv E oth EpIntrospect r s = oidc_Introspect (server_env sv E) r s"
| "endpoint_handler pg sv E oth EpLanding r s = landing_page sv E r s"
| "endpoint_handler pg sv E oth (EpAccount route) r s = account_Routes route (server_env sv E) r s"
| "endpoint_handler pg sv E oth (EpAdmin route) r s =
     (case sv_adminConfig sv of
        Some A \<Rightarrow> admin_Routes route (A\<lparr>am_Playground := playground_mounted pg sv\<rparr>) (server_env sv E) r s
      | None \<Rightarrow> (http_panic NewResponse, s))"
| "endpoint_handler pg sv E oth e r s = oth e r s"

text \<open>
  \<open>mx_Match\<close> is the router: which of the registered routes takes the request, with its URL parameters.
  \<open>rl_Exceeded\<close> is the limiter \<open>httprate.Limit\<close> at the time of the request: given which limiter it is, how
  many requests it lets through in what window, and the key it counts under, whether this one is too many.
  \<open>rl_KeyByIP\<close> is the key function \<open>httprate.KeyByIP\<close>.
\<close>

record mux =
  mx_Match :: "route list \<Rightarrow> request \<Rightarrow> (route \<times> (string \<rightharpoonup> string)) option"
  mx_NotFound :: "request \<Rightarrow> response"
  rl_Exceeded :: "limiter \<Rightarrow> int \<Rightarrow> duration \<Rightarrow> string \<Rightarrow> bool"
  rl_KeyByIP :: "request \<Rightarrow> string"

definition limit_of :: "server \<Rightarrow> limiter \<Rightarrow> int" where
  "limit_of sv l = (case l of Unlimited \<Rightarrow> 0 | Interactive \<Rightarrow> sv_loginRateLimit sv | Api \<Rightarrow> wrap64 (sv_loginRateLimit sv * 10))"

definition rate_limited :: "mux \<Rightarrow> server \<Rightarrow> limiter \<Rightarrow> site handler \<Rightarrow> site handler" where
  "rate_limited M sv l next_h r s =
     (if l \<noteq> Unlimited \<and> rl_Exceeded M l (limit_of sv l) minute (rl_KeyByIP M r)
      then (http_Error NewResponse ''Too Many Requests'' 429, s) else next_h r s)"

definition dispatch :: "mux \<Rightarrow> bool \<Rightarrow> server \<Rightarrow> env \<Rightarrow> other_handlers \<Rightarrow> site handler" where
  "dispatch M pg sv E oth r s =
     (case mx_Match M (routes pg sv) r of
        None \<Rightarrow> (mx_NotFound M r, s)
      | Some (rt, params) \<Rightarrow>
          rate_limited M sv (rt_Limiter rt) (endpoint_handler pg sv E oth (rt_Endpoint rt)) (r\<lparr>hq_URLParam := params\<rparr>) s)"

definition security_layer :: "platform \<Rightarrow> server \<Rightarrow> site handler \<Rightarrow> site handler" where
  "security_layer P sv next_h =
     (if sv_securityHeadersConfig sv \<noteq> None then SecurityHeadersMiddleware P (sv_securityHeadersConfig sv) next_h else next_h)"

definition cors_layer :: "server \<Rightarrow> site handler \<Rightarrow> site handler" where
  "cors_layer sv next_h =
     (case sv_corsConfig sv of
        Some c \<Rightarrow> if length (co_AllowedOrigins c) > 0 then CORSMiddleware (Some c) next_h else next_h
      | None \<Rightarrow> next_h)"

definition ServeHTTP :: "platform \<Rightarrow> netip \<Rightarrow> mux \<Rightarrow> bool \<Rightarrow> server \<Rightarrow> env \<Rightarrow> other_handlers \<Rightarrow> site handler" where
  "ServeHTTP P N M pg sv E oth =
     RealIPFromTrustedProxies N (sv_trustedProxies sv) (security_layer P sv (cors_layer sv (dispatch M pg sv E oth)))"

end
