(* ===== verification/Startup.thy ===== *)
theory Startup
  imports Config Routes
begin

text \<open>
  \<open>cmd/idpico/main.go\<close>: what happens between reading the configuration and serving the first request. The
  data of the environment variables is put into the store (users, clients, groups, administrators), the
  signing key is made ready, and the services and the options of the server are built from the configuration.
  The values a loop draws (identifiers, salts) are functions of the position in the list it goes through.
\<close>

section \<open>The store\<close>

text \<open>\<open>openStore\<close>: the two backends are arguments.\<close>

definition openStore :: "(string \<Rightarrow> 's res) \<Rightarrow> (string \<Rightarrow> 's res) \<Rightarrow> (string \<Rightarrow> string) \<Rightarrow> config \<Rightarrow> 's res" where
  "openStore sqlite file' quote cfg =
     (if cfg_StoreDriver cfg = StoreDriverSQLite then sqlite (SQLitePath cfg)
      else if cfg_StoreDriver cfg = StoreDriverFile then file' (cfg_DataDir cfg)
      else Inl (Plain (''unsupported store driver '' @ quote (cfg_StoreDriver cfg))))"

section \<open>Data from the environment\<close>

record startup_draws =
  sd_uuid :: "nat \<Rightarrow> string"
  sd_salt :: "nat \<Rightarrow> string res"
  sd_clientSalt :: "nat \<Rightarrow> string res"
  sd_groupID :: "nat \<Rightarrow> string"
  sd_auditID :: "nat \<Rightarrow> string"
  sd_playground :: "string res"
  sd_playgroundSalt :: "string res"

definition new_bootstrap_user :: "string \<Rightarrow> string \<Rightarrow> bootstrap_user \<Rightarrow> user" where
  "new_bootstrap_user uuid hash u = empty_user
     \<lparr>user_ID := uuid, user_Email := bu_Email u, user_PasswordHash := hash, user_DisplayName := bu_Name u, user_Active := True,
      user_EmailVerified := True\<rparr>"

definition bootstrap_user_step :: "platform \<Rightarrow> time \<Rightarrow> string \<Rightarrow> string res \<Rightarrow> bootstrap_user \<Rightarrow> fstore \<Rightarrow> fstore" where
  "bootstrap_user_step P now uuid salt u st =
     (case users_GetByEmail P (bu_Email u) st of
        Inr _ \<Rightarrow> st
      | Inl _ \<Rightarrow>
          (case HashPassword P salt (bu_Password u) of
             Inl _ \<Rightarrow> st
           | Inr hash \<Rightarrow> snd (users_Create P now (new_bootstrap_user uuid hash u) st)))"

fun firstInvalidRedirect :: "platform \<Rightarrow> urllib \<Rightarrow> (string \<Rightarrow> string) \<Rightarrow> string list \<Rightarrow> string option" where
  "firstInvalidRedirect P U quote [] = None"
| "firstInvalidRedirect P U quote (uri # uris) =
     (case ValidateRedirectURI P U quote uri of Some e \<Rightarrow> Some e | None \<Rightarrow> firstInvalidRedirect P U quote uris)"

definition new_bootstrap_client :: "string \<Rightarrow> bootstrap_client \<Rightarrow> client" where
  "new_bootstrap_client secretHash c = empty_client
     \<lparr>client_ID := bc_ID c, client_Secret := secretHash, client_Name := bc_ID c, client_RedirectURIs := bc_RedirectURIs c,
      client_GrantTypes := [''authorization_code'', ''refresh_token''],
      client_Scopes := [''openid'', ''profile'', ''email'', ''offline_access'', ''groups''], client_Public := bc_Public c\<rparr>"

definition bootstrap_client_step ::
    "platform \<Rightarrow> urllib \<Rightarrow> (string \<Rightarrow> string) \<Rightarrow> time \<Rightarrow> string res \<Rightarrow> bootstrap_client \<Rightarrow> fstore \<Rightarrow> fstore" where
  "bootstrap_client_step P U quote now salt c st =
     (case clients_GetByID (bc_ID c) st of
        Inr _ \<Rightarrow> st
      | Inl _ \<Rightarrow>
          if firstInvalidRedirect P U quote (bc_RedirectURIs c) \<noteq> None then st
          else if bc_Secret c \<noteq> '''' then
            (case HashClientSecret P salt (bc_Secret c) of
               Inl _ \<Rightarrow> st
             | Inr hash \<Rightarrow> snd (clients_Create now (new_bootstrap_client hash c) st))
          else snd (clients_Create now (new_bootstrap_client '''' c) st))"

definition bootstrapData :: "platform \<Rightarrow> urllib \<Rightarrow> (string \<Rightarrow> string) \<Rightarrow> time \<Rightarrow> startup_draws \<Rightarrow> config \<Rightarrow> fstore \<Rightarrow> fstore" where
  "bootstrapData P U quote now dr cfg st =
     (let st1 = fold (\<lambda>(i, u). bootstrap_user_step P now (sd_uuid dr i) (sd_salt dr i) u) (enumerate 0 (ParseBootstrapUsers cfg)) st
      in fold (\<lambda>(i, c). bootstrap_client_step P U quote now (sd_clientSalt dr i) c) (enumerate 0 (ParseBootstrapClients cfg)) st1)"

definition add_bootstrap_members :: "platform \<Rightarrow> string \<Rightarrow> string list \<Rightarrow> fstore \<Rightarrow> fstore" where
  "add_bootstrap_members P groupID emails st =
     fold (\<lambda>email st. case users_GetByEmail P email st of Inl _ \<Rightarrow> st | Inr user \<Rightarrow> snd (groups_AddMember groupID (user_ID user) st)) emails st"

definition bootstrap_group_step :: "platform \<Rightarrow> time \<Rightarrow> string \<Rightarrow> bootstrap_group \<Rightarrow> fstore \<Rightarrow> fstore" where
  "bootstrap_group_step P now uuid bg st =
     (case groups_GetByName P (bg_Name bg) st of
        Inr g \<Rightarrow> add_bootstrap_members P (group_ID g) (bg_Members bg) st
      | Inl _ \<Rightarrow>
          (case groups_Create P now (empty_group\<lparr>group_ID := uuid, group_Name := bg_Name bg\<rparr>) st of
             (Some _, st') \<Rightarrow> st'
           | (None, st') \<Rightarrow> add_bootstrap_members P uuid (bg_Members bg) st'))"

definition bootstrapGroups :: "platform \<Rightarrow> time \<Rightarrow> startup_draws \<Rightarrow> config \<Rightarrow> fstore \<Rightarrow> fstore" where
  "bootstrapGroups P now dr cfg st =
     fold (\<lambda>(i, g). bootstrap_group_step P now (sd_groupID dr i) g) (enumerate 0 (ParseBootstrapGroups cfg)) st"

definition grant_admin_step :: "platform \<Rightarrow> time \<Rightarrow> string \<Rightarrow> string \<Rightarrow> fstore \<Rightarrow> fstore" where
  "grant_admin_step P now auditID email st =
     (case users_GetByEmail P email st of
        Inl _ \<Rightarrow> st
      | Inr user \<Rightarrow>
          if user_Admin user then st
          else case users_Update now (user\<lparr>user_Admin := True\<rparr>) st of
            (Some _, st') \<Rightarrow> st'
          | (None, st') \<Rightarrow>
              Record auditID now True
                \<lparr>ae_Actor = None, ae_ActorEmail = ''IDPICO_ADMIN_EMAILS'', ae_Action = ''user.updated'', ae_TargetType = ''user'',
                 ae_TargetID = user_ID user, ae_Detail = email @ '' admin: false -> true (IDPICO_ADMIN_EMAILS at startup)'', ae_IP = ''''\<rparr> st')"

definition grantAdmins :: "platform \<Rightarrow> time \<Rightarrow> startup_draws \<Rightarrow> config \<Rightarrow> fstore \<Rightarrow> fstore" where
  "grantAdmins P now dr cfg st =
     fold (\<lambda>(i, email). grant_admin_step P now (sd_auditID dr i) email) (enumerate 0 (ParseAdminEmails cfg)) st"

text \<open>What \<open>main\<close> does to the store before it builds the services.\<close>

definition bootstrap_store :: "platform \<Rightarrow> urllib \<Rightarrow> (string \<Rightarrow> string) \<Rightarrow> time \<Rightarrow> startup_draws \<Rightarrow> config \<Rightarrow> fstore \<Rightarrow> fstore" where
  "bootstrap_store P U quote now dr cfg st =
     grantAdmins P now dr cfg (bootstrapGroups P now dr cfg (bootstrapData P U quote now dr cfg st))"

text \<open>
  \<open>NewServer\<close> registers the client of the playground when that is on: \<open>NewPlaygroundHandler\<close> draws a secret, and
  creates the client or refreshes everything of it but the consent choice and the time it was created. The result
  is the secret the handler keeps.
\<close>

definition PlaygroundClientID :: string where
  "PlaygroundClientID = ''playground''"

definition playground_client :: "string \<Rightarrow> string \<Rightarrow> client" where
  "playground_client issuer hash = empty_client
     \<lparr>client_ID := PlaygroundClientID, client_Secret := hash, client_Name := ''OIDC Playground'',
      client_RedirectURIs := [TrimRight_slash issuer @ ''/playground/callback''],
      client_GrantTypes := [''authorization_code'', ''refresh_token''],
      client_Scopes := [''openid'', ''profile'', ''email'', ''offline_access'', ''groups'']\<rparr>"

definition NewPlaygroundHandler :: "platform \<Rightarrow> time \<Rightarrow> string res \<Rightarrow> string res \<Rightarrow> string \<Rightarrow> fstore \<Rightarrow> string res \<times> fstore" where
  "NewPlaygroundHandler P now rnd salt issuer st =
     (case randomSecret rnd of
        Inl e \<Rightarrow> (Inl e, st)
      | Inr secret \<Rightarrow>
          (case HashClientSecret P salt secret of
             Inl e \<Rightarrow> (Inl e, st)
           | Inr hash \<Rightarrow>
               (case (case clients_GetByID PlaygroundClientID st of
                        Inr existing \<Rightarrow>
                          clients_Update now ((playground_client issuer hash)
                            \<lparr>client_SkipConsent := client_SkipConsent existing, client_CreatedAt := client_CreatedAt existing\<rparr>) st
                      | Inl e \<Rightarrow>
                          if IsCode e CodeNotFound then clients_Create now (playground_client issuer hash) st else (Some e, st)) of
                  (Some e, st') \<Rightarrow> (Inl (Wrapped ''failed to register playground client'' e), st')
                | (None, st') \<Rightarrow> (Inr secret, st'))))"

definition playground_on :: "config \<Rightarrow> bool" where
  "playground_on cfg \<longleftrightarrow> cfg_PlaygroundEnabled cfg \<and> cfg_IssuerURL cfg \<noteq> ''''"

text \<open>The store after a start that gets as far as serving: bootstrap first, the server later.\<close>

definition startup_store :: "platform \<Rightarrow> urllib \<Rightarrow> (string \<Rightarrow> string) \<Rightarrow> time \<Rightarrow> startup_draws \<Rightarrow> config \<Rightarrow> fstore \<Rightarrow> fstore" where
  "startup_store P U quote now dr cfg st =
     (let st1 = bootstrap_store P U quote now dr cfg st
      in if playground_on cfg
         then snd (NewPlaygroundHandler P now (sd_playground dr) (sd_playgroundSalt dr) (cfg_IssuerURL cfg) st1)
         else st1)"

section \<open>The signing key\<close>

text \<open>\<open>g\<close> and \<open>g'\<close>: the material for a first key, and for the rotation to another algorithm.\<close>

definition startup_key :: "keygen \<Rightarrow> keygen \<Rightarrow> time \<Rightarrow> config \<Rightarrow> key_file \<Rightarrow> keypair res \<times> key_service" where
  "startup_key g g' now cfg keyRepo =
     (case EnsureActiveKey g now (NewKeyService keyRepo (cfg_SigningAlgorithm cfg)) of
        (Inl e, ks) \<Rightarrow> (Inl e, ks)
      | (Inr activeKey, ks) \<Rightarrow>
          if kp_Alg activeKey \<noteq> cfg_SigningAlgorithm cfg then RotateKey g' now (cfg_SigningKeyGracePeriod cfg) ks
          else (Inr activeKey, ks))"

section \<open>The services\<close>

text \<open>\<open>newWebAuthn\<close>: \<open>u.Hostname()\<close> written out; \<open>net.ParseIP\<close> and \<open>webauthn.New\<close> are arguments.\<close>

definition url_Hostname :: "string \<Rightarrow> string" where
  "url_Hostname hostport =
     (let host = (case last_index CHR '':'' hostport of
                    Some i \<Rightarrow> if list_all is_digit (drop (Suc i) hostport) then take i hostport else hostport
                  | None \<Rightarrow> hostport)
      in if take 1 host = ''['' \<and> host \<noteq> '''' \<and> last host = CHR '']'' then butlast (drop 1 host) else host)"

definition newWebAuthn :: "urllib \<Rightarrow> (string \<Rightarrow> bool) \<Rightarrow> (string \<Rightarrow> string \<Rightarrow> bool) \<Rightarrow> string \<Rightarrow> bool" where
  "newWebAuthn U isIP waNew issuerURL =
     (case ul_Parse U issuerURL of
        Inl _ \<Rightarrow> False
      | Inr u \<Rightarrow>
          (let host = url_Hostname (url_Host u)
           in url_Host u \<noteq> '''' \<and> (url_Scheme u = ''https'' \<or> host = ''localhost'') \<and> \<not> isIP host
              \<and> waNew host (url_Scheme u @ ''://'' @ url_Host u)))"

definition main_auth :: "bool \<Rightarrow> config \<Rightarrow> auth_config" where
  "main_auth webauthn cfg =
     \<lparr>ac_sessions = (NewSessionService (cfg_CookieSecret cfg))
        \<lparr>ss_cookieSecure := cfg_CookieSecure cfg, ss_cookieDomain := cfg_CookieDomain cfg, ss_sessionTTL := cfg_SessionDuration cfg\<rparr>,
      ac_csrf = NewCSRFService (cfg_CookieSecret cfg) (cfg_CookieSecure cfg) (cfg_CookieDomain cfg),
      ac_audit = True, ac_passkeys = True, ac_webauthn = webauthn\<rparr>"

definition main_lockout :: "config \<Rightarrow> lockout option" where
  "main_lockout cfg =
     (if cfg_LockoutMaxAttempts cfg > 0 then Some (NewLockoutService (cfg_LockoutMaxAttempts cfg) (cfg_LockoutDuration cfg)) else None)"

definition main_account :: "config \<Rightarrow> account_service" where
  "main_account cfg = (NewAccountService (cfg_IssuerURL cfg))
     \<lparr>as_resetTTL := cfg_PasswordResetTTL cfg, as_resetInterval := cfg_PasswordResetInterval cfg, as_verifyTTL := cfg_EmailVerifyTTL cfg,
      as_audit := True\<rparr>"

definition main_generator :: "keypair \<Rightarrow> config \<Rightarrow> token_generator" where
  "main_generator activeKey cfg = NewTokenGeneratorWithKeyService activeKey (cfg_IssuerURL cfg) (cfg_IssuerURL cfg)"

definition main_tokens :: "keypair \<Rightarrow> config \<Rightarrow> token_service" where
  "main_tokens activeKey cfg =
     (NewTokenService (main_generator activeKey cfg) (cfg_IssuerURL cfg) (cfg_AccessTokenTTL cfg) (cfg_RefreshTokenTTL cfg))
       \<lparr>ts_groupClaims := NewGroupClaims (cfg_GroupsClaim cfg), ts_revocations := True\<rparr>"

definition main_userinfo :: "keypair \<Rightarrow> config \<Rightarrow> userinfo_service" where
  "main_userinfo activeKey cfg =
     (NewUserInfoService (main_generator activeKey cfg))\<lparr>us_groupClaims := NewGroupClaims (cfg_GroupsClaim cfg), us_revocations := True\<rparr>"

definition ClaimName :: "string option \<Rightarrow> string" where
  "ClaimName gc = (case gc of Some name \<Rightarrow> name | None \<Rightarrow> '''')"

text \<open>The admin configuration; the rest of the record is what its requests draw.\<close>

definition main_admin :: "admin \<Rightarrow> config \<Rightarrow> admin" where
  "main_admin A cfg = A
     \<lparr>am_account := main_account cfg, am_keys := True, am_IssuerURL := cfg_IssuerURL cfg,
      am_KeyGracePeriod := cfg_SigningKeyGracePeriod cfg, am_AccessTokenTTL := cfg_AccessTokenTTL cfg,
      am_RefreshTokenTTL := cfg_RefreshTokenTTL cfg, am_GroupsClaim := ClaimName (NewGroupClaims (cfg_GroupsClaim cfg))\<rparr>"

definition main_security :: "config \<Rightarrow> security_headers" where
  "main_security cfg =
     (let c1 = (if cfg_ContentSecurityPolicy cfg \<noteq> ''''
                then DefaultSecurityHeadersConfig\<lparr>sh_ContentSecurityPolicy := cfg_ContentSecurityPolicy cfg\<rparr>
                else DefaultSecurityHeadersConfig)
      in if cfg_HSTSMaxAge cfg > 0
         then c1\<lparr>sh_StrictTransportSecurity := ''max-age='' @ format_int (cfg_HSTSMaxAge cfg) @ ''; includeSubDomains''\<rparr> else c1)"

definition main_cors :: "config \<Rightarrow> cors_config" where
  "main_cors cfg = DefaultCORSConfig
     \<lparr>co_AllowedOrigins := ParseCORSAllowedOrigins cfg, co_AllowCredentials := cfg_CORSAllowCredentials cfg\<rparr>"

text \<open>\<open>ready\<close>: the outcome of the readiness check.\<close>

definition main_options :: "platform \<Rightarrow> netip_prefixes \<Rightarrow> (string \<Rightarrow> string) \<Rightarrow> goerr option \<Rightarrow> admin \<Rightarrow> config \<Rightarrow> server_option list" where
  "main_options P N quote ready A cfg =
     [WithKeyService, WithIssuerURL (cfg_IssuerURL cfg), WithAuthService,
      WithAccountService (main_account cfg) (Duration_String (cfg_PasswordResetTTL cfg)), WithOIDCServices,
      WithGroupsClaim (ClaimName (NewGroupClaims (cfg_GroupsClaim cfg))), WithAudit, WithLoginRateLimit (cfg_LoginRateLimit cfg),
      WithTrustedProxies (case ParseTrustedProxies P N quote cfg of Inr ps \<Rightarrow> ps | Inl _ \<Rightarrow> []),
      WithAccountPage, WithReadinessCheck ready, WithAdmin (main_admin A cfg)]
     @ (if cfg_PlaygroundEnabled cfg then [WithPlayground] else [])
     @ (if cfg_RequireConsent cfg then [WithConsentService] else [])
     @ (if cfg_SecurityHeadersEnabled cfg then [WithSecurityHeaders (main_security cfg)] else [])
     @ (if ParseCORSAllowedOrigins cfg \<noteq> [] then [WithCORS (main_cors cfg)] else [])
     @ (if cfg_MetricsEnabled cfg then [WithMetrics True] else [])"

text \<open>The environment of the handlers: \<open>E\<close> supplies the libraries and what a request draws.\<close>

definition main_env :: "bool \<Rightarrow> keypair \<Rightarrow> config \<Rightarrow> env \<Rightarrow> env" where
  "main_env webauthn activeKey cfg E = E
     \<lparr>en_auth := main_auth webauthn cfg, en_codeTTL := cfg_AuthCodeTTL cfg, en_tokens := main_tokens activeKey cfg,
      en_userinfo := main_userinfo activeKey cfg\<rparr>"

definition main_site :: "fstore \<Rightarrow> key_service \<Rightarrow> config \<Rightarrow> site" where
  "main_site st ks cfg =
     \<lparr>si_auth = NewService st (main_lockout cfg), si_keys = ks, si_lastReset = Map.empty, si_outbox = []\<rparr>"

definition main_runner :: "config \<Rightarrow> runner option" where
  "main_runner cfg =
     (if cfg_MaintenanceInterval cfg > 0 then
        Some ((NewRunner True)\<lparr>rn_keyMaxAge := SigningKeyMaxAge cfg, rn_keyGrace := cfg_SigningKeyGracePeriod cfg,
          rn_auditRetention := cfg_AuditRetention cfg, rn_audit := True\<rparr>)
      else None)"

end
