(* ===== verification/Provision.thy ===== *)
theory Provision
  imports Startup
begin

text \<open>
  What the data of the environment variables does to a store: which users there are after a start, that nobody
  else is touched, and that starting again with the same configuration changes nothing.
\<close>

section \<open>A loop that settles its items\<close>

text \<open>
  Each of the four loops goes through a list and does something for an item unless it is settled already. The
  contract: a settled item is skipped whatever is drawn, a step settles its item when the draws are good, and it
  unsettles no other. \<open>good ds s\<close> says that the draws still to come will do on the state \<open>s\<close>.
\<close>

definition drawn_fold :: "('d \<Rightarrow> 'a \<Rightarrow> 's \<Rightarrow> 's) \<Rightarrow> (nat \<Rightarrow> 'd) \<Rightarrow> nat \<Rightarrow> 'a list \<Rightarrow> 's \<Rightarrow> 's" where
  "drawn_fold step draw n xs s = fold (\<lambda>(i, x). step (draw i) x) (enumerate n xs) s"

lemma drawn_list: "map draw [n ..< n + length (x # xs)] = draw n # map draw [Suc n ..< Suc n + length xs]"
  by (subst upt_conv_Cons) simp_all

locale provisioning =
  fixes step :: "'d \<Rightarrow> 'a \<Rightarrow> 's \<Rightarrow> 's"
    and settled :: "'a \<Rightarrow> 's \<Rightarrow> bool"
    and good :: "'d list \<Rightarrow> 's \<Rightarrow> bool"
  assumes settled_skip: "settled x s \<Longrightarrow> step d x s = s"
    and step_settles: "good (d # ds) s \<Longrightarrow> settled x (step d x s)"
    and step_good: "good (d # ds) s \<Longrightarrow> good ds (step d x s)"
    and step_keeps: "good (d # ds) s \<Longrightarrow> settled y s \<Longrightarrow> settled y (step d x s)"
begin

lemma loop_simps: "drawn_fold step draw n [] s = s" "drawn_fold step draw n (x # xs) s = drawn_fold step draw (Suc n) xs (step (draw n) x s)"
  by (simp_all add: drawn_fold_def)

lemma loop_skip: "(\<And>x. x \<in> set xs \<Longrightarrow> settled x s) \<Longrightarrow> drawn_fold step draw n xs s = s"
  by (induction xs arbitrary: n) (simp_all add: loop_simps settled_skip)

lemma loop_keeps:
  "good (map draw [n ..< n + length xs]) s \<Longrightarrow> settled y s \<Longrightarrow> settled y (drawn_fold step draw n xs s)"
proof (induction xs arbitrary: n s)
  case (Cons x xs)
  have g: "good (draw n # map draw [Suc n ..< Suc n + length xs]) s" using Cons.prems(1) unfolding drawn_list .
  show ?case using Cons.IH [OF step_good [OF g] step_keeps [OF g Cons.prems(2)]] by (simp add: loop_simps)
qed (simp add: loop_simps)

lemma loop_settles:
  "good (map draw [n ..< n + length xs]) s \<Longrightarrow> x \<in> set xs \<Longrightarrow> settled x (drawn_fold step draw n xs s)"
proof (induction xs arbitrary: n s)
  case (Cons a xs)
  have g: "good (draw n # map draw [Suc n ..< Suc n + length xs]) s" using Cons.prems(1) unfolding drawn_list .
  show ?case
  proof (cases "x = a")
    case True
    then show ?thesis using loop_keeps [OF step_good [OF g]] step_settles [OF g] by (simp add: loop_simps)
  next
    case False
    then show ?thesis using Cons step_good [OF g] by (simp add: loop_simps)
  qed
qed simp

lemma loop_invariant:
  "good (map draw [n ..< n + length xs]) s \<Longrightarrow> I s \<Longrightarrow>
   (\<And>d ds x s. x \<in> set xs \<Longrightarrow> good (d # ds) s \<Longrightarrow> I s \<Longrightarrow> I (step d x s)) \<Longrightarrow> I (drawn_fold step draw n xs s) \<and> good [] (drawn_fold step draw n xs s)"
proof (induction xs arbitrary: n s)
  case (Cons a xs)
  have g: "good (draw n # map draw [Suc n ..< Suc n + length xs]) s" using Cons.prems(1) unfolding drawn_list .
  have "I (step (draw n) a s)" using Cons.prems g by simp
  then show ?case using Cons.IH [OF step_good [OF g]] Cons.prems(3) by (simp add: loop_simps)
qed (simp add: loop_simps)

end

section \<open>Users\<close>

definition email_settled :: "platform \<Rightarrow> bootstrap_user \<Rightarrow> fstore \<Rightarrow> bool" where
  "email_settled P b st \<longleftrightarrow> isOk (users_GetByEmail P (bu_Email b) st)"

text \<open>The identifiers still to be drawn are new, and the salts are there.\<close>

definition users_good :: "(string \<times> string res) list \<Rightarrow> fstore \<Rightarrow> bool" where
  "users_good ds st \<longleftrightarrow> users_ready st \<and> distinct (map fst ds) \<and> set (map fst ds) \<inter> user_ID ` set (users_of st) = {}
     \<and> (\<forall>d \<in> set ds. isOk (snd d))"

lemma GetByEmail_ready: "users_ready st \<Longrightarrow> users_GetByEmail P e st =
    (case find (\<lambda>u. EqualFold P (user_Email u) e) (users_of st) of Some u \<Rightarrow> Inr u | None \<Rightarrow> Inl (NotFound ''user with email'' e))"
  by (simp add: users_GetByEmail_def users_ready_load)

lemma HashPassword_ok: "isOk salt \<Longrightarrow> \<exists>h. HashPassword P salt pw = Inr h"
  by (cases salt) (simp_all add: HashPassword_def Let_def)

lemma bootstrap_user_step_new:
  assumes "users_good ((uuid, salt) # ds) st" and "\<not> email_settled P b st"
  shows "\<exists>h. HashPassword P salt (bu_Password b) = Inr h \<and> bootstrap_user_step P now uuid salt b st =
    st\<lparr>f_users := Content (users_of st @ [(new_bootstrap_user uuid h b)\<lparr>user_CreatedAt := now, user_UpdatedAt := now\<rparr>])\<rparr>"
proof -
  have r: "users_ready st" and i: "uuid \<notin> user_ID ` set (users_of st)" and s: "isOk salt" using assms(1) by (auto simp: users_good_def)
  obtain h where h: "HashPassword P salt (bu_Password b) = Inr h" using HashPassword_ok s by blast
  have n: "find (\<lambda>u. EqualFold P (user_Email u) (bu_Email b)) (users_of st) = None"
    using assms(2) by (auto simp: email_settled_def GetByEmail_ready [OF r] split: option.splits)
  then have "find (\<lambda>u. user_ID u = uuid \<or> EqualFold P (user_Email u) (bu_Email b)) (users_of st) = None"
    using i by (auto simp: find_None_iff)
  then show ?thesis using h n r
    by (simp add: bootstrap_user_step_def GetByEmail_ready users_Create_def new_bootstrap_user_def users_ready_load users_ready_save)
qed

lemma email_settled_iff:
  "users_ready st \<Longrightarrow> email_settled P b st \<longleftrightarrow> (\<exists>u \<in> set (users_of st). EqualFold P (user_Email u) (bu_Email b))"
  by (auto simp: email_settled_def GetByEmail_ready find_None_iff split: option.splits dest: find_Some_D)

lemma email_settled_skip: "email_settled P b st \<Longrightarrow> bootstrap_user_step P now uuid salt b st = st"
  by (auto simp: bootstrap_user_step_def email_settled_def split: sum.splits)

text \<open>A step appends the user of its item, or does nothing because the address is taken.\<close>

lemma bootstrap_user_step_cases:
  assumes "users_good (d # ds) st"
  shows "\<exists>new. users_of (bootstrap_user_step P now (fst d) (snd d) b st) = users_of st @ new
     \<and> users_good ds (bootstrap_user_step P now (fst d) (snd d) b st)
     \<and> (new = [] \<and> email_settled P b st \<or> (\<exists>h. HashPassword P (snd d) (bu_Password b) = Inr h \<and> \<not> email_settled P b st
          \<and> new = [(new_bootstrap_user (fst d) h b)\<lparr>user_CreatedAt := now, user_UpdatedAt := now\<rparr>]))"
proof (cases "email_settled P b st")
  case True
  then show ?thesis using assms by (auto simp: email_settled_skip users_good_def)
next
  case False
  have "users_good ((fst d, snd d) # ds) st" using assms by simp
  then obtain h where h: "HashPassword P (snd d) (bu_Password b) = Inr h" and e: "bootstrap_user_step P now (fst d) (snd d) b st =
      st\<lparr>f_users := Content (users_of st @ [(new_bootstrap_user (fst d) h b)\<lparr>user_CreatedAt := now, user_UpdatedAt := now\<rparr>])\<rparr>"
    using bootstrap_user_step_new False by blast
  have "users_good ds (bootstrap_user_step P now (fst d) (snd d) b st)"
    using assms unfolding e by (auto simp: users_good_def users_ready_def new_bootstrap_user_def)
  then show ?thesis using e h False by simp
qed

interpretation boot_users: provisioning
  "\<lambda>d b. bootstrap_user_step P now (fst d) (snd d) b" "email_settled P" users_good for P now
proof (unfold_locales, goal_cases)
  case (1 x s d)
  then show ?case by (rule email_settled_skip)
next
  case (2 d ds s x)
  then obtain new where n: "users_of (bootstrap_user_step P now (fst d) (snd d) x s) = users_of s @ new"
    and g: "users_good ds (bootstrap_user_step P now (fst d) (snd d) x s)"
    and c: "new = [] \<and> email_settled P x s \<or> (\<exists>h. new = [(new_bootstrap_user (fst d) h x)\<lparr>user_CreatedAt := now, user_UpdatedAt := now\<rparr>])"
    using bootstrap_user_step_cases [of d ds s P now x] by blast
  have "users_ready s" "users_ready (bootstrap_user_step P now (fst d) (snd d) x s)" using 2 g by (simp_all add: users_good_def)
  with c show ?case by (auto simp: email_settled_iff n new_bootstrap_user_def)
next
  case (3 d ds s x)
  then show ?case using bootstrap_user_step_cases by blast
next
  case (4 d ds s y x)
  obtain new where n: "users_of (bootstrap_user_step P now (fst d) (snd d) x s) = users_of s @ new"
    and g: "users_good ds (bootstrap_user_step P now (fst d) (snd d) x s)"
    using bootstrap_user_step_cases [OF 4(1), of P now x] by blast
  have "users_ready s" "users_ready (bootstrap_user_step P now (fst d) (snd d) x s)" using 4 g by (simp_all add: users_good_def)
  then show ?case using 4(2) by (auto simp: email_settled_iff n)
qed

section \<open>Clients\<close>

definition client_settled :: "platform \<Rightarrow> urllib \<Rightarrow> (string \<Rightarrow> string) \<Rightarrow> bootstrap_client \<Rightarrow> fstore \<Rightarrow> bool" where
  "client_settled P U quote c st \<longleftrightarrow>
     isOk (clients_GetByID (bc_ID c) st) \<or> firstInvalidRedirect P U quote (bc_RedirectURIs c) \<noteq> None"

definition clients_good :: "string res list \<Rightarrow> fstore \<Rightarrow> bool" where
  "clients_good ds st \<longleftrightarrow> clients_ready st \<and> (\<forall>d \<in> set ds. isOk d)"

text \<open>The client an item stands for, with the hash of its secret or none.\<close>

definition client_of_item :: "platform \<Rightarrow> string res \<Rightarrow> time \<Rightarrow> bootstrap_client \<Rightarrow> client \<Rightarrow> bool" where
  "client_of_item P salt now c client \<longleftrightarrow>
     (\<exists>h. client = (new_bootstrap_client h c)\<lparr>client_CreatedAt := now, client_UpdatedAt := now\<rparr>
        \<and> (if bc_Secret c = '''' then h = '''' else HashClientSecret P salt (bc_Secret c) = Inr h))"

lemma client_settled_skip: "client_settled P U quote c st \<Longrightarrow> bootstrap_client_step P U quote now salt c st = st"
  by (auto simp: bootstrap_client_step_def client_settled_def split: sum.splits)

lemma client_settled_iff:
  "clients_ready st \<Longrightarrow> client_settled P U quote c st \<longleftrightarrow>
     (\<exists>cl \<in> set (clients_of st). client_ID cl = bc_ID c) \<or> firstInvalidRedirect P U quote (bc_RedirectURIs c) \<noteq> None"
  by (auto simp: client_settled_def clients_GetByID_def clients_ready_load find_None_iff split: option.splits dest: find_Some_D)

lemma bootstrap_client_step_cases:
  assumes "clients_good (d # ds) st"
  shows "\<exists>new. clients_of (bootstrap_client_step P U quote now d c st) = clients_of st @ new
     \<and> clients_good ds (bootstrap_client_step P U quote now d c st)
     \<and> (new = [] \<and> client_settled P U quote c st \<or> (\<exists>cl. new = [cl] \<and> client_of_item P d now c cl \<and> \<not> client_settled P U quote c st))"
proof (cases "client_settled P U quote c st")
  case True
  then show ?thesis using assms by (auto simp: client_settled_skip clients_good_def)
next
  case False
  have r: "clients_ready st" and d: "isOk d" using assms by (auto simp: clients_good_def)
  have new: "\<not> (\<exists>cl \<in> set (clients_of st). client_ID cl = bc_ID c)" and v: "firstInvalidRedirect P U quote (bc_RedirectURIs c) = None"
    using False by (auto simp: client_settled_iff [OF r])
  then have f: "find (\<lambda>cl. client_ID cl = bc_ID c) (clients_of st) = None" by (auto simp: find_None_iff)
  obtain h where h: "if bc_Secret c = '''' then h = '''' else HashClientSecret P d (bc_Secret c) = Inr h"
    using HashPassword_ok [OF d, of P "bc_Secret c"] by (cases "bc_Secret c = []") (auto simp: HashClientSecret_def)
  let ?cl = "(new_bootstrap_client h c)\<lparr>client_CreatedAt := now, client_UpdatedAt := now\<rparr>"
  have e: "bootstrap_client_step P U quote now d c st = st\<lparr>f_clients := Content (clients_of st @ [?cl])\<rparr>"
    using h f v r by (auto simp: bootstrap_client_step_def clients_GetByID_def clients_Create_def clients_ready_load clients_ready_save
        new_bootstrap_client_def split: if_splits)
  have "clients_good ds (bootstrap_client_step P U quote now d c st)"
    using assms new unfolding e by (auto simp: clients_good_def clients_ready_def new_bootstrap_client_def)
  moreover have "client_of_item P d now c ?cl" using h by (auto simp: client_of_item_def)
  ultimately show ?thesis using e False by simp
qed

interpretation boot_clients: provisioning
  "\<lambda>d c. bootstrap_client_step P U quote now d c" "client_settled P U quote" clients_good for P U quote now
proof (unfold_locales, goal_cases)
  case (1 x s d)
  then show ?case by (rule client_settled_skip)
next
  case (2 d ds s x)
  then obtain new where n: "clients_of (bootstrap_client_step P U quote now d x s) = clients_of s @ new"
    and g: "clients_good ds (bootstrap_client_step P U quote now d x s)"
    and c: "new = [] \<and> client_settled P U quote x s \<or> (\<exists>cl. new = [cl] \<and> client_of_item P d now x cl)"
    using bootstrap_client_step_cases [of d ds s P U quote now x] by blast
  have "clients_ready s" "clients_ready (bootstrap_client_step P U quote now d x s)" using 2 g by (simp_all add: clients_good_def)
  with c show ?case by (auto simp: client_settled_iff n client_of_item_def new_bootstrap_client_def)
next
  case (3 d ds s x)
  then show ?case using bootstrap_client_step_cases by blast
next
  case (4 d ds s y x)
  obtain new where n: "clients_of (bootstrap_client_step P U quote now d x s) = clients_of s @ new"
    and g: "clients_good ds (bootstrap_client_step P U quote now d x s)"
    using bootstrap_client_step_cases [OF 4(1), of P U quote now x] by blast
  have "clients_ready s" "clients_ready (bootstrap_client_step P U quote now d x s)" using 4 g by (simp_all add: clients_good_def)
  then show ?case using 4(2) by (auto simp: client_settled_iff n)
qed

section \<open>Administrators\<close>

text \<open>What a list of addresses does to a user; the time of the update moves only when the flag does.\<close>

definition granted :: "platform \<Rightarrow> time \<Rightarrow> string list \<Rightarrow> user \<Rightarrow> user" where
  "granted P now emails u =
     (if \<not> user_Admin u \<and> (\<exists>e \<in> set emails. EqualFold P (user_Email u) e) then u\<lparr>user_Admin := True, user_UpdatedAt := now\<rparr> else u)"

definition admins_good :: "platform \<Rightarrow> string list \<Rightarrow> fstore \<Rightarrow> bool" where
  "admins_good P ds st \<longleftrightarrow> users_ready st \<and> emails_distinct P (users_of st)"

definition admin_settled :: "platform \<Rightarrow> string \<Rightarrow> fstore \<Rightarrow> bool" where
  "admin_settled P e st \<longleftrightarrow> (\<forall>u. users_GetByEmail P e st = Inr u \<longrightarrow> user_Admin u)"

lemma granted_fields [simp]: "user_ID (granted P now es u) = user_ID u" "user_Email (granted P now es u) = user_Email u"
  by (simp_all add: granted_def)

lemma granted_Nil [simp]: "granted P now [] = id"
  by (simp add: granted_def fun_eq_iff)

lemma granted_Cons: "granted P now (e # es) u = granted P now es (granted P now [e] u)"
  by (auto simp: granted_def)

lemma emails_distinct_same:
  "emails_distinct P us \<Longrightarrow> u \<in> set us \<Longrightarrow> v \<in> set us \<Longrightarrow> EqualFold P (user_Email u) e \<Longrightarrow> EqualFold P (user_Email v) e \<Longrightarrow> u = v"
  unfolding emails_distinct_def EqualFold_def by (simp add: distinct_map inj_on_def)

lemma Record_users:
  "f_users (Record i now b e st) = f_users st" "write_err (Record i now b e st) = write_err st"
  "users_of (Record i now b e st) = users_of st" "f_clients (Record i now b e st) = f_clients st" "f_groups (Record i now b e st) = f_groups st"
  using Record_frame [of i now b e st] by (auto simp: users_of_def load_users_def)

lemma grant_admin_step_users:
  assumes r: "users_ready st" and d: "emails_distinct P (users_of st)"
  shows "users_of (grant_admin_step P now aid e st) = map (granted P now [e]) (users_of st)
     \<and> write_err (grant_admin_step P now aid e st) = write_err st \<and> readable (f_users (grant_admin_step P now aid e st))"
proof (cases "find (\<lambda>u. EqualFold P (user_Email u) e) (users_of st)")
  case None
  then have "map (granted P now [e]) (users_of st) = users_of st" by (intro map_idI) (auto simp: granted_def find_None_iff)
  with None r show ?thesis by (simp add: grant_admin_step_def GetByEmail_ready users_ready_def)
next
  case (Some u)
  have u: "EqualFold P (user_Email u) e" "u \<in> set (users_of st)" using find_Some_D [OF Some] by auto
  show ?thesis
  proof (cases "user_Admin u")
    case True
    have "granted P now [e] v = v" if "v \<in> set (users_of st)" for v
      using True u emails_distinct_same [OF d] that by (auto simp: granted_def)
    then have "map (granted P now [e]) (users_of st) = users_of st" by (intro map_idI)
    with True Some r show ?thesis by (simp add: grant_admin_step_def GetByEmail_ready users_ready_def)
  next
    case False
    have ids: "distinct (map user_ID (users_of st))" using r by (simp add: users_ready_def)
    obtain w where w: "find (\<lambda>v. user_ID v = user_ID u) (users_of st) = Some w"
      using u(2) by (cases "find (\<lambda>v. user_ID v = user_ID u) (users_of st)") (auto simp: find_None_iff)
    have m: "upd_first (\<lambda>v. user_ID v = user_ID u) (\<lambda>_. u\<lparr>user_Admin := True, user_UpdatedAt := now\<rparr>) (users_of st)
        = map (granted P now [e]) (users_of st)"
      unfolding upd_first_distinct [OF ids]
    proof (intro map_cong refl)
      fix v assume v: "v \<in> set (users_of st)"
      then have "user_ID v = user_ID u \<longleftrightarrow> v = u" using ids u(2) by (auto simp: distinct_map inj_on_def)
      moreover have "EqualFold P (user_Email v) e \<longleftrightarrow> v = u" using emails_distinct_same [OF d v u(2)] u(1) by auto
      ultimately show "(if user_ID v = user_ID u then u\<lparr>user_Admin := True, user_UpdatedAt := now\<rparr> else v) = granted P now [e] v"
        using False by (auto simp: granted_def)
    qed
    have "users_Update now (u\<lparr>user_Admin := True\<rparr>) st = (None, st\<lparr>f_users := Content (map (granted P now [e]) (users_of st))\<rparr>)"
      using w r by (simp add: users_Update_def users_ready_load users_ready_save m [symmetric])
    then show ?thesis using Some False r by (simp add: grant_admin_step_def GetByEmail_ready Record_users)
  qed
qed

lemma grant_admin_step_good:
  assumes "admins_good P ds st"
  shows "admins_good P ds' (grant_admin_step P now aid e st)"
proof -
  note g = grant_admin_step_users [of st P now aid e]
  have "map user_ID (map f us) = map user_ID us" if "\<And>u. user_ID (f u) = user_ID u" for f us using that by simp
  then show ?thesis using assms g by (simp add: admins_good_def users_ready_def emails_distinct_def comp_def)
qed

lemma admin_settled_iff:
  assumes "admins_good P ds st"
  shows "admin_settled P e st \<longleftrightarrow> (\<forall>u \<in> set (users_of st). EqualFold P (user_Email u) e \<longrightarrow> user_Admin u)"
proof (cases "find (\<lambda>u. EqualFold P (user_Email u) e) (users_of st)")
  case None
  then have "admin_settled P e st" using assms by (simp add: admin_settled_def admins_good_def GetByEmail_ready)
  moreover have "\<forall>u \<in> set (users_of st). \<not> EqualFold P (user_Email u) e" using None by (simp add: find_None_iff)
  ultimately show ?thesis by blast
next
  case (Some u)
  have u: "EqualFold P (user_Email u) e" "u \<in> set (users_of st)" using find_Some_D [OF Some] by auto
  have r: "users_ready st" and d: "emails_distinct P (users_of st)" using assms by (simp_all add: admins_good_def)
  have "admin_settled P e st \<longleftrightarrow> user_Admin u" using Some by (simp add: admin_settled_def GetByEmail_ready [OF r])
  then show ?thesis using u emails_distinct_same [OF d u(2)] by auto
qed

interpretation boot_admins: provisioning
  "\<lambda>d e. grant_admin_step P now d e" "admin_settled P" "admins_good P" for P now
proof (unfold_locales, goal_cases)
  case (1 x s d)
  then show ?case by (auto simp: grant_admin_step_def admin_settled_def split: sum.split)
next
  case (2 d ds s x)
  then have "users_of (grant_admin_step P now d x s) = map (granted P now [x]) (users_of s)"
    using grant_admin_step_users by (simp add: admins_good_def)
  then show ?case using grant_admin_step_good [OF 2, of ds now d x] by (auto simp: admin_settled_iff granted_def)
next
  case (3 d ds s x)
  then show ?case by (rule grant_admin_step_good)
next
  case (4 d ds s y x)
  then have "users_of (grant_admin_step P now d x s) = map (granted P now [x]) (users_of s)"
    using grant_admin_step_users by (simp add: admins_good_def)
  then show ?case using grant_admin_step_good [OF 4(1), of ds now d x] 4
    by (auto simp: admin_settled_iff [OF 4(1)] admin_settled_iff granted_def)
qed

text \<open>The whole loop.\<close>

lemma grantAdmins_users:
  "admins_good P ds st \<Longrightarrow>
   users_of (drawn_fold (grant_admin_step P now) draw n es st) = map (granted P now es) (users_of st)"
proof (induction es arbitrary: n st)
  case (Cons e es)
  have "users_of (grant_admin_step P now (draw n) e st) = map (granted P now [e]) (users_of st)"
    using Cons.prems grant_admin_step_users by (simp add: admins_good_def)
  then show ?case using Cons.IH [OF grant_admin_step_good [OF Cons.prems]]
    by (simp add: boot_admins.loop_simps granted_Cons [of P now e es] comp_def)
qed (simp add: boot_admins.loop_simps)

section \<open>Groups\<close>

definition groups_ready :: "fstore \<Rightarrow> bool" where
  "groups_ready st \<longleftrightarrow> readable (f_groups st) \<and> write_err st ''groups'' = None"

definition is_member :: "string \<Rightarrow> string \<Rightarrow> fstore \<Rightarrow> bool" where
  "is_member groupID userID st \<longleftrightarrow> (\<exists>m \<in> set (gd_Memberships (groups_of st)). m_GroupID m = groupID \<and> m_UserID m = userID)"

text \<open>The members of an item that are in the store are members of the group of that name.\<close>

definition group_settled :: "platform \<Rightarrow> bootstrap_group \<Rightarrow> fstore \<Rightarrow> bool" where
  "group_settled P bg st \<longleftrightarrow> (\<exists>g. groups_GetByName P (bg_Name bg) st = Inr g
     \<and> (\<forall>e \<in> set (bg_Members bg). \<forall>u. users_GetByEmail P e st = Inr u \<longrightarrow> is_member (group_ID g) (user_ID u) st))"

definition groups_good :: "string list \<Rightarrow> fstore \<Rightarrow> bool" where
  "groups_good ds st \<longleftrightarrow> groups_ready st \<and> distinct ds \<and> set ds \<inter> group_ID ` set (gd_Groups (groups_of st)) = {}"

lemma groups_ready_load: "groups_ready st \<Longrightarrow> load_groups st = Inr (groups_of st)"
  by (simp add: groups_ready_def readable_load)

text \<open>Adding members: nothing but memberships is added, and afterwards everybody found is a member.\<close>

lemma add_member_effect:
  assumes "groups_ready st" and "groupID \<in> group_ID ` set (gd_Groups (groups_of st))"
  shows "\<exists>ms. snd (groups_AddMember groupID userID st) = st\<lparr>f_groups := Content ((groups_of st)\<lparr>gd_Memberships := gd_Memberships (groups_of st) @ ms\<rparr>)\<rparr>
       \<or> snd (groups_AddMember groupID userID st) = st" "is_member groupID userID (snd (groups_AddMember groupID userID st))"
proof -
  have "\<exists>g. findGroup (groups_of st) groupID = Inr g"
    using assms(2) by (cases "find (\<lambda>g. group_ID g = groupID) (gd_Groups (groups_of st))") (auto simp: findGroup_def find_None_iff)
  then obtain g where g: "findGroup (groups_of st) groupID = Inr g" by blast
  show "\<exists>ms. snd (groups_AddMember groupID userID st) = st\<lparr>f_groups := Content ((groups_of st)\<lparr>gd_Memberships := gd_Memberships (groups_of st) @ ms\<rparr>)\<rparr>
       \<or> snd (groups_AddMember groupID userID st) = st"
    using assms(1) g by (auto simp: groups_AddMember_def groups_ready_load groups_ready_def save_groups_def writeFile_def)
  show "is_member groupID userID (snd (groups_AddMember groupID userID st))"
    using assms(1) g
    by (auto simp: groups_AddMember_def groups_ready_load groups_ready_def save_groups_def writeFile_def is_member_def list_ex_iff)
qed

lemma add_bootstrap_members_effect:
  assumes "groups_ready st" and "groupID \<in> group_ID ` set (gd_Groups (groups_of st))"
  shows "\<exists>v. add_bootstrap_members P groupID emails st = st\<lparr>f_groups := v\<rparr>
     \<and> groups_ready (st\<lparr>f_groups := v\<rparr>) \<and> gd_Groups (groups_of (st\<lparr>f_groups := v\<rparr>)) = gd_Groups (groups_of st)
     \<and> set (gd_Memberships (groups_of st)) \<subseteq> set (gd_Memberships (groups_of (st\<lparr>f_groups := v\<rparr>)))
     \<and> (\<forall>e \<in> set emails. \<forall>u. users_GetByEmail P e st = Inr u \<longrightarrow> is_member groupID (user_ID u) (st\<lparr>f_groups := v\<rparr>))"
  using assms
proof (induction emails arbitrary: st)
  case Nil
  then show ?case by (intro exI [of _ "f_groups st"]) (simp add: add_bootstrap_members_def)
next
  case (Cons e es)
  let ?st1 = "case users_GetByEmail P e st of Inl _ \<Rightarrow> st | Inr user \<Rightarrow> snd (groups_AddMember groupID (user_ID user) st)"
  have "\<exists>w. ?st1 = st\<lparr>f_groups := w\<rparr> \<and> groups_ready (st\<lparr>f_groups := w\<rparr>) \<and> gd_Groups (groups_of (st\<lparr>f_groups := w\<rparr>)) = gd_Groups (groups_of st)
      \<and> set (gd_Memberships (groups_of st)) \<subseteq> set (gd_Memberships (groups_of (st\<lparr>f_groups := w\<rparr>)))
      \<and> (\<forall>u. users_GetByEmail P e st = Inr u \<longrightarrow> is_member groupID (user_ID u) (st\<lparr>f_groups := w\<rparr>))"
  proof (cases "users_GetByEmail P e st")
    case (Inl x)
    then show ?thesis using Cons.prems by (intro exI [of _ "f_groups st"]) simp
  next
    case (Inr u)
    note ef = add_member_effect [OF Cons.prems, of "user_ID u"]
    from ef(1) consider ms where "snd (groups_AddMember groupID (user_ID u) st)
        = st\<lparr>f_groups := Content ((groups_of st)\<lparr>gd_Memberships := gd_Memberships (groups_of st) @ ms\<rparr>)\<rparr>"
      | "snd (groups_AddMember groupID (user_ID u) st) = st" by blast
    then show ?thesis
    proof cases
      case 1
      then show ?thesis using Inr ef(2) Cons.prems
        by (intro exI [of _ "Content ((groups_of st)\<lparr>gd_Memberships := gd_Memberships (groups_of st) @ ms\<rparr>)"]) (auto simp: groups_ready_def)
    next
      case 2
      then show ?thesis using Inr ef(2) Cons.prems by (intro exI [of _ "f_groups st"]) simp
    qed
  qed
  then obtain w where w: "?st1 = st\<lparr>f_groups := w\<rparr>" "groups_ready (st\<lparr>f_groups := w\<rparr>)"
      "gd_Groups (groups_of (st\<lparr>f_groups := w\<rparr>)) = gd_Groups (groups_of st)"
      "set (gd_Memberships (groups_of st)) \<subseteq> set (gd_Memberships (groups_of (st\<lparr>f_groups := w\<rparr>)))"
      "\<forall>u. users_GetByEmail P e st = Inr u \<longrightarrow> is_member groupID (user_ID u) (st\<lparr>f_groups := w\<rparr>)" by blast
  have em: "users_GetByEmail P e' (st\<lparr>f_groups := w\<rparr>) = users_GetByEmail P e' st" for e'
    by (simp add: users_GetByEmail_def load_users_def)
  have st: "add_bootstrap_members P groupID (e # es) st = add_bootstrap_members P groupID es (st\<lparr>f_groups := w\<rparr>)"
    using w(1) by (simp add: add_bootstrap_members_def)
  obtain v where v: "add_bootstrap_members P groupID es (st\<lparr>f_groups := w\<rparr>) = st\<lparr>f_groups := v\<rparr>"
      "groups_ready (st\<lparr>f_groups := v\<rparr>)" "gd_Groups (groups_of (st\<lparr>f_groups := v\<rparr>)) = gd_Groups (groups_of st)"
      "set (gd_Memberships (groups_of (st\<lparr>f_groups := w\<rparr>))) \<subseteq> set (gd_Memberships (groups_of (st\<lparr>f_groups := v\<rparr>)))"
      "\<forall>e' \<in> set es. \<forall>u. users_GetByEmail P e' st = Inr u \<longrightarrow> is_member groupID (user_ID u) (st\<lparr>f_groups := v\<rparr>)"
    using Cons.IH [of "st\<lparr>f_groups := w\<rparr>"] Cons.prems(2) w(2,3) by (auto simp: em)
  have "is_member groupID (user_ID u) (st\<lparr>f_groups := v\<rparr>)" if "users_GetByEmail P e st = Inr u" for u
    using w(5) that v(4) by (auto simp: is_member_def)
  then show ?case using st v w(4) by (intro exI [of _ v]) auto
qed

lemma add_bootstrap_members_skip:
  assumes "load_groups st = Inr (groups_of st)" and "groupID \<in> group_ID ` set (gd_Groups (groups_of st))"
    and "\<And>e u. e \<in> set emails \<Longrightarrow> users_GetByEmail P e st = Inr u \<Longrightarrow> is_member groupID (user_ID u) st"
  shows "add_bootstrap_members P groupID emails st = st"
proof -
  have g: "\<exists>g. findGroup (groups_of st) groupID = Inr g"
    using assms(2) by (cases "find (\<lambda>g. group_ID g = groupID) (gd_Groups (groups_of st))") (auto simp: findGroup_def find_None_iff)
  have "(case users_GetByEmail P e st of Inl _ \<Rightarrow> st | Inr user \<Rightarrow> snd (groups_AddMember groupID (user_ID user) st)) = st"
    if "e \<in> set emails" for e
    using assms(1) g assms(3) [OF that] by (auto simp: groups_AddMember_def is_member_def list_ex_iff split: sum.split)
  then show ?thesis unfolding add_bootstrap_members_def by (induction emails) simp_all
qed

lemma GetByName_D:
  "groups_GetByName P name st = Inr g \<Longrightarrow> load_groups st = Inr (groups_of st) \<and> find (\<lambda>g. EqualFold P (group_Name g) name) (gd_Groups (groups_of st)) = Some g"
  by (auto simp: groups_GetByName_def of_load split: sum.splits option.splits)

lemma GetByName_ready:
  "groups_ready st \<Longrightarrow> groups_GetByName P name st = Inr g \<longleftrightarrow> find (\<lambda>g. EqualFold P (group_Name g) name) (gd_Groups (groups_of st)) = Some g"
  by (auto simp: groups_GetByName_def groups_ready_load split: option.splits)

lemma group_settled_skip: "group_settled P bg st \<Longrightarrow> bootstrap_group_step P now uuid bg st = st"
  using GetByName_D find_Some_D
  by (fastforce simp: group_settled_def bootstrap_group_step_def intro!: add_bootstrap_members_skip)

lemma group_settled_kept:
  assumes "group_settled P bg st" and "groups_ready (st\<lparr>f_groups := v\<rparr>)"
    and "gd_Groups (groups_of (st\<lparr>f_groups := v\<rparr>)) = gd_Groups (groups_of st) @ gs"
    and "set (gd_Memberships (groups_of st)) \<subseteq> set (gd_Memberships (groups_of (st\<lparr>f_groups := v\<rparr>)))"
  shows "group_settled P bg (st\<lparr>f_groups := v\<rparr>)"
proof -
  obtain g where g: "groups_GetByName P (bg_Name bg) st = Inr g"
    and m: "\<And>e u. e \<in> set (bg_Members bg) \<Longrightarrow> users_GetByEmail P e st = Inr u \<Longrightarrow> is_member (group_ID g) (user_ID u) st"
    using assms(1) by (auto simp: group_settled_def)
  have "groups_GetByName P (bg_Name bg) (st\<lparr>f_groups := v\<rparr>) = Inr g"
    using GetByName_D [OF g] assms(3) by (simp add: GetByName_ready [OF assms(2)] find_append)
  moreover have "is_member (group_ID g) (user_ID u) (st\<lparr>f_groups := v\<rparr>)"
    if "e \<in> set (bg_Members bg)" "users_GetByEmail P e (st\<lparr>f_groups := v\<rparr>) = Inr u" for e u
    using m [of e u] that assms(4) by (auto simp: users_GetByEmail_def load_users_def is_member_def)
  ultimately show ?thesis by (auto simp: group_settled_def)
qed

lemma bootstrap_group_step_cases:
  assumes "groups_good (d # ds) st"
  shows "\<exists>v gs. bootstrap_group_step P now d bg st = st\<lparr>f_groups := v\<rparr> \<and> groups_good ds (st\<lparr>f_groups := v\<rparr>)
     \<and> gd_Groups (groups_of (st\<lparr>f_groups := v\<rparr>)) = gd_Groups (groups_of st) @ gs
     \<and> set (gd_Memberships (groups_of st)) \<subseteq> set (gd_Memberships (groups_of (st\<lparr>f_groups := v\<rparr>))) \<and> group_settled P bg (st\<lparr>f_groups := v\<rparr>)"
proof -
  have r: "groups_ready st" and d: "d \<notin> group_ID ` set (gd_Groups (groups_of st))" "d \<notin> set ds" "distinct ds"
    and i: "set ds \<inter> group_ID ` set (gd_Groups (groups_of st)) = {}"
    using assms by (auto simp: groups_good_def)
  let ?f = "find (\<lambda>g. EqualFold P (group_Name g) (bg_Name bg)) (gd_Groups (groups_of st))"
  have em: "users_GetByEmail P e (st\<lparr>f_groups := v\<rparr>) = users_GetByEmail P e st" for e v
    by (simp add: users_GetByEmail_def load_users_def)
  obtain st1 g w gs where st1: "st1 = st\<lparr>f_groups := w\<rparr>" "groups_ready st1" "gd_Groups (groups_of st1) = gd_Groups (groups_of st) @ gs"
      "gd_Memberships (groups_of st1) = gd_Memberships (groups_of st)"
      "find (\<lambda>g. EqualFold P (group_Name g) (bg_Name bg)) (gd_Groups (groups_of st1)) = Some g"
      "set ds \<inter> group_ID ` set gs = {}"
      "bootstrap_group_step P now d bg st = add_bootstrap_members P (group_ID g) (bg_Members bg) st1"
  proof (cases ?f)
    case (Some g)
    then have "groups_GetByName P (bg_Name bg) st = Inr g" by (simp add: GetByName_ready [OF r])
    then show ?thesis using that [of st "f_groups st" "[]" g] Some r by (simp add: bootstrap_group_step_def)
  next
    case None
    let ?g = "empty_group\<lparr>group_ID := d, group_Name := bg_Name bg, group_CreatedAt := now, group_UpdatedAt := now\<rparr>"
    let ?v = "Content ((groups_of st)\<lparr>gd_Groups := gd_Groups (groups_of st) @ [?g]\<rparr>)"
    have n: "find (\<lambda>g. group_ID g = d \<or> EqualFold P (group_Name g) (bg_Name bg)) (gd_Groups (groups_of st)) = None"
      using None d(1) by (auto simp: find_None_iff)
    have "groups_Create P now (empty_group\<lparr>group_ID := d, group_Name := bg_Name bg\<rparr>) st = (None, st\<lparr>f_groups := ?v\<rparr>)"
      using n r by (simp add: groups_Create_def groups_ready_load groups_ready_def save_groups_def writeFile_def)
    then show ?thesis using that [of "st\<lparr>f_groups := ?v\<rparr>" ?v "[?g]" ?g] r None d(2)
      by (simp add: bootstrap_group_step_def groups_GetByName_def groups_ready_load groups_ready_def find_append)
  qed
  have "group_ID g \<in> group_ID ` set (gd_Groups (groups_of st1))" using find_Some_D [OF st1(5)] by simp
  then obtain v where v: "add_bootstrap_members P (group_ID g) (bg_Members bg) st1 = st1\<lparr>f_groups := v\<rparr>"
      "groups_ready (st1\<lparr>f_groups := v\<rparr>)" "gd_Groups (groups_of (st1\<lparr>f_groups := v\<rparr>)) = gd_Groups (groups_of st1)"
      "set (gd_Memberships (groups_of st1)) \<subseteq> set (gd_Memberships (groups_of (st1\<lparr>f_groups := v\<rparr>)))"
      "\<forall>e \<in> set (bg_Members bg). \<forall>u. users_GetByEmail P e st1 = Inr u \<longrightarrow> is_member (group_ID g) (user_ID u) (st1\<lparr>f_groups := v\<rparr>)"
    using add_bootstrap_members_effect [OF st1(2)] by blast
  have "group_settled P bg (st\<lparr>f_groups := v\<rparr>)"
    using v(2,3,5) st1(5) by (auto simp: group_settled_def GetByName_ready st1(1) em)
  then show ?thesis using v st1 d(3) i by (intro exI [of _ v] exI [of _ gs]) (auto simp: groups_good_def)
qed

interpretation boot_groups: provisioning
  "\<lambda>d bg. bootstrap_group_step P now d bg" "group_settled P" groups_good for P now
proof (unfold_locales, goal_cases)
  case (1 x s d)
  then show ?case by (rule group_settled_skip)
next
  case (2 d ds s x)
  then show ?case using bootstrap_group_step_cases [of d ds s P now x] by auto
next
  case (3 d ds s x)
  then show ?case using bootstrap_group_step_cases [of d ds s P now x] by auto
next
  case (4 d ds s y x)
  obtain v gs where v: "bootstrap_group_step P now d x s = s\<lparr>f_groups := v\<rparr>" "groups_good ds (s\<lparr>f_groups := v\<rparr>)"
      "gd_Groups (groups_of (s\<lparr>f_groups := v\<rparr>)) = gd_Groups (groups_of s) @ gs"
      "set (gd_Memberships (groups_of s)) \<subseteq> set (gd_Memberships (groups_of (s\<lparr>f_groups := v\<rparr>)))"
    using bootstrap_group_step_cases [OF 4(1), of P now x] by blast
  then show ?case using group_settled_kept [OF 4(2), of v gs] by (simp add: groups_good_def)
qed

section \<open>The loops one after the other\<close>

text \<open>What each step leaves alone.\<close>

lemma save_kept:
  "f_clients (snd (save_users us st)) = f_clients st" "f_groups (snd (save_users us st)) = f_groups st"
  "write_err (snd (save_users us st)) = write_err st"
  "f_users (snd (save_clients cs st)) = f_users st" "f_groups (snd (save_clients cs st)) = f_groups st"
  "write_err (snd (save_clients cs st)) = write_err st"
  "f_users (snd (save_groups d st)) = f_users st" "f_clients (snd (save_groups d st)) = f_clients st"
  "write_err (snd (save_groups d st)) = write_err st"
  by (simp_all add: save_defs split: option.split)

lemma bootstrap_user_step_frame:
  "f_clients (bootstrap_user_step P now i s b st) = f_clients st" "f_groups (bootstrap_user_step P now i s b st) = f_groups st"
  "write_err (bootstrap_user_step P now i s b st) = write_err st"
  by (simp_all add: bootstrap_user_step_def users_Create_def save_kept split: sum.split option.split)

lemma bootstrap_client_step_frame:
  "f_users (bootstrap_client_step P U quote now s c st) = f_users st" "f_groups (bootstrap_client_step P U quote now s c st) = f_groups st"
  "write_err (bootstrap_client_step P U quote now s c st) = write_err st"
  by (simp_all add: bootstrap_client_step_def clients_Create_def save_kept split: sum.split option.split)

lemma add_bootstrap_members_frame:
  "f_users (add_bootstrap_members P g es st) = f_users st \<and> f_clients (add_bootstrap_members P g es st) = f_clients st
   \<and> write_err (add_bootstrap_members P g es st) = write_err st"
  unfolding add_bootstrap_members_def
  by (induction es arbitrary: st) (simp_all add: groups_AddMember_def save_kept split: sum.split)

lemma bootstrap_group_step_frame:
  "f_users (bootstrap_group_step P now i bg st) = f_users st" "f_clients (bootstrap_group_step P now i bg st) = f_clients st"
  "write_err (bootstrap_group_step P now i bg st) = write_err st"
proof -
  obtain e st' where c: "groups_Create P now (empty_group\<lparr>group_ID := i, group_Name := bg_Name bg\<rparr>) st = (e, st')" by fastforce
  then have "st' = snd (groups_Create P now (empty_group\<lparr>group_ID := i, group_Name := bg_Name bg\<rparr>) st)" by simp
  then have "f_users st' = f_users st" "f_clients st' = f_clients st" "write_err st' = write_err st"
    by (simp_all add: groups_Create_def save_kept split: sum.split option.split)
  with c show "f_users (bootstrap_group_step P now i bg st) = f_users st" "f_clients (bootstrap_group_step P now i bg st) = f_clients st"
    "write_err (bootstrap_group_step P now i bg st) = write_err st"
    using add_bootstrap_members_frame by (simp_all add: bootstrap_group_step_def split: sum.split option.split)
qed

lemma grant_admin_step_frame:
  "f_clients (grant_admin_step P now i e st) = f_clients st" "f_groups (grant_admin_step P now i e st) = f_groups st"
  "write_err (grant_admin_step P now i e st) = write_err st"
proof -
  have "f_clients (snd (users_Update now u st)) = f_clients st" "f_groups (snd (users_Update now u st)) = f_groups st"
    "write_err (snd (users_Update now u st)) = write_err st" for u
    by (simp_all add: users_Update_def save_kept split: sum.split option.split)
  moreover have "write_err (Record i now b ev x) = write_err x" for b ev x using Record_frame [of i now b ev x] by auto
  ultimately show "f_clients (grant_admin_step P now i e st) = f_clients st" "f_groups (grant_admin_step P now i e st) = f_groups st"
    "write_err (grant_admin_step P now i e st) = write_err st"
    by (auto simp: grant_admin_step_def Record_users split: sum.split option.split prod.split) (metis snd_conv)+
qed

lemma drawn_fold_frame:
  "(\<And>d x s. \<pi> (step d x s) = \<pi> s) \<Longrightarrow> \<pi> (drawn_fold step draw n xs s) = \<pi> s"
  by (induction xs arbitrary: n s) (simp_all add: drawn_fold_def)

lemma bootstrap_store_eq:
  "bootstrap_store P U quote now dr cfg st =
     drawn_fold (grant_admin_step P now) (sd_auditID dr) 0 (ParseAdminEmails cfg)
       (drawn_fold (bootstrap_group_step P now) (sd_groupID dr) 0 (ParseBootstrapGroups cfg)
         (drawn_fold (bootstrap_client_step P U quote now) (sd_clientSalt dr) 0 (ParseBootstrapClients cfg)
           (drawn_fold (\<lambda>d. bootstrap_user_step P now (fst d) (snd d)) (\<lambda>i. (sd_uuid dr i, sd_salt dr i)) 0 (ParseBootstrapUsers cfg) st)))"
  by (simp add: bootstrap_store_def grantAdmins_def bootstrapGroups_def bootstrapData_def drawn_fold_def Let_def)

text \<open>A store that works, and draws that do: identifiers not in use, and random bytes for the salts.\<close>

definition startup_good :: "platform \<Rightarrow> startup_draws \<Rightarrow> config \<Rightarrow> fstore \<Rightarrow> bool" where
  "startup_good P dr cfg st \<longleftrightarrow> emails_distinct P (users_of st)
     \<and> users_good (map (\<lambda>i. (sd_uuid dr i, sd_salt dr i)) [0 ..< length (ParseBootstrapUsers cfg)]) st
     \<and> clients_good (map (sd_clientSalt dr) [0 ..< length (ParseBootstrapClients cfg)]) st
     \<and> groups_good (map (sd_groupID dr) [0 ..< length (ParseBootstrapGroups cfg)]) st
     \<and> (playground_on cfg \<longrightarrow> isOk (sd_playground dr) \<and> isOk (sd_playgroundSalt dr))"

text \<open>The users after the first loop: those there were, and one for each address that was missing.\<close>

definition provisioned :: "platform \<Rightarrow> time \<Rightarrow> config \<Rightarrow> user list \<Rightarrow> user \<Rightarrow> bool" where
  "provisioned P now cfg us u \<longleftrightarrow> \<not> (\<exists>v \<in> set us. EqualFold P (user_Email v) (user_Email u))
     \<and> (\<exists>b \<in> set (ParseBootstrapUsers cfg). user_Email u = bu_Email b \<and> user_DisplayName u = bu_Name b
          \<and> (\<exists>salt. HashPassword P salt (bu_Password b) = Inr (user_PasswordHash u)))
     \<and> user_Active u \<and> user_EmailVerified u \<and> \<not> user_Admin u \<and> \<not> TOTPEnabled u \<and> user_RecoveryCodes u = []
     \<and> user_CreatedAt u = now \<and> user_UpdatedAt u = now"

lemma new_bootstrap_user_Email [simp]: "user_Email (new_bootstrap_user i h b) = bu_Email b"
  by (simp add: new_bootstrap_user_def)

lemma new_bootstrap_user_provisioned:
  assumes "b \<in> set (ParseBootstrapUsers cfg)" and "HashPassword P salt (bu_Password b) = Inr h"
    and "\<not> (\<exists>v \<in> set us. EqualFold P (user_Email v) (bu_Email b))"
  shows "provisioned P now cfg us ((new_bootstrap_user i h b)\<lparr>user_CreatedAt := now, user_UpdatedAt := now\<rparr>)"
  using assms by (auto simp: provisioned_def new_bootstrap_user_def empty_user_def TOTPEnabled_def)

lemma users_loop:
  assumes "users_good (map draw [0 ..< length (ParseBootstrapUsers cfg)]) st" and "emails_distinct P (users_of st)"
    and st': "st' = drawn_fold (\<lambda>d. bootstrap_user_step P now (fst d) (snd d)) draw 0 (ParseBootstrapUsers cfg) st"
  shows "(\<exists>new. users_of st' = users_of st @ new \<and> (\<forall>u \<in> set new. provisioned P now cfg (users_of st) u)) \<and> admins_good P ds st'"
proof -
  let ?I = "\<lambda>s. emails_distinct P (users_of s)
     \<and> (\<exists>new. users_of s = users_of st @ new \<and> (\<forall>u \<in> set new. provisioned P now cfg (users_of st) u))"
  have "?I st' \<and> users_good [] st'"
    unfolding st'
  proof (rule boot_users.loop_invariant)
    show "users_good (map draw [0 ..< 0 + length (ParseBootstrapUsers cfg)]) st" using assms(1) by simp
    show "?I st" using assms(2) by simp
    fix d ds b s
    assume b: "b \<in> set (ParseBootstrapUsers cfg)" and g: "users_good (d # ds) s" and i: "?I s"
    obtain new where new: "users_of s = users_of st @ new" "\<forall>u \<in> set new. provisioned P now cfg (users_of st) u" using i by blast
    obtain more where m: "users_of (bootstrap_user_step P now (fst d) (snd d) b s) = users_of s @ more"
      "more = [] \<and> email_settled P b s \<or> (\<exists>h. HashPassword P (snd d) (bu_Password b) = Inr h \<and> \<not> email_settled P b s
          \<and> more = [(new_bootstrap_user (fst d) h b)\<lparr>user_CreatedAt := now, user_UpdatedAt := now\<rparr>])"
      using bootstrap_user_step_cases [OF g, of P now b] by blast
    have n: "email_settled P b s \<longleftrightarrow> (\<exists>u \<in> set (users_of s). EqualFold P (user_Email u) (bu_Email b))"
      using g by (intro email_settled_iff) (simp add: users_good_def)
    have "\<forall>u \<in> set more. provisioned P now cfg (users_of st) u"
      using m(2) new(1) by (auto simp: n intro!: new_bootstrap_user_provisioned [OF b])
    moreover have "emails_distinct P (users_of s @ more)"
      using m(2) i by (auto simp: n emails_distinct_def new_bootstrap_user_def EqualFold_def)
    ultimately show "?I (bootstrap_user_step P now (fst d) (snd d) b s)" using new by (auto simp: m(1))
  qed
  then show ?thesis by (auto simp: admins_good_def users_good_def)
qed

text \<open>The four loops on a store that is good for them, with what the later ones leave alone.\<close>

lemma startup_loops:
  assumes "startup_good P dr cfg st"
  obtains s1 s2 s3 new where
    "users_of s1 = users_of st @ new" "\<forall>u \<in> set new. provisioned P now cfg (users_of st) u" "admins_good P [] s3"
    "\<And>b. b \<in> set (ParseBootstrapUsers cfg) \<Longrightarrow> email_settled P b s1" "f_users s3 = f_users s1" "users_ready s1"
    "\<And>c. c \<in> set (ParseBootstrapClients cfg) \<Longrightarrow> client_settled P U quote c s2" "f_clients s3 = f_clients s2"
    "\<And>g. g \<in> set (ParseBootstrapGroups cfg) \<Longrightarrow> group_settled P g s3" "clients_ready s3"
    "bootstrap_store P U quote now dr cfg st = drawn_fold (grant_admin_step P now) (sd_auditID dr) 0 (ParseAdminEmails cfg) s3"
proof -
  let ?ud = "\<lambda>i. (sd_uuid dr i, sd_salt dr i)"
  define s1 where "s1 = drawn_fold (\<lambda>d. bootstrap_user_step P now (fst d) (snd d)) ?ud 0 (ParseBootstrapUsers cfg) st"
  define s2 where "s2 = drawn_fold (bootstrap_client_step P U quote now) (sd_clientSalt dr) 0 (ParseBootstrapClients cfg) s1"
  define s3 where "s3 = drawn_fold (bootstrap_group_step P now) (sd_groupID dr) 0 (ParseBootstrapGroups cfg) s2"
  have ug: "users_good (map ?ud [0 ..< length (ParseBootstrapUsers cfg)]) st" and cg: "clients_good (map (sd_clientSalt dr) [0 ..< length (ParseBootstrapClients cfg)]) st"
    and gg: "groups_good (map (sd_groupID dr) [0 ..< length (ParseBootstrapGroups cfg)]) st" and ed: "emails_distinct P (users_of st)"
    using assms by (simp_all add: startup_good_def)
  have f1: "f_clients s1 = f_clients st" "f_groups s1 = f_groups st" "write_err s1 = write_err st"
    unfolding s1_def by (rule drawn_fold_frame, rule bootstrap_user_step_frame)+
  have f2: "f_users s2 = f_users s1" "f_groups s2 = f_groups s1" "write_err s2 = write_err s1"
    unfolding s2_def by (rule drawn_fold_frame, rule bootstrap_client_step_frame)+
  have f3: "f_users s3 = f_users s2" "f_clients s3 = f_clients s2" "write_err s3 = write_err s2"
    unfolding s3_def by (rule drawn_fold_frame, rule bootstrap_group_step_frame)+
  obtain new where new: "users_of s1 = users_of st @ new" "\<forall>u \<in> set new. provisioned P now cfg (users_of st) u" and a1: "admins_good P [] s1"
    using users_loop [OF ug ed s1_def] by blast
  have cg1: "clients_good (map (sd_clientSalt dr) [0 ..< length (ParseBootstrapClients cfg)]) s1"
    using cg f1 by (simp add: clients_good_def clients_ready_def clients_of_def load_clients_def)
  have gg2: "groups_good (map (sd_groupID dr) [0 ..< length (ParseBootstrapGroups cfg)]) s2"
    using gg f1 f2 by (simp add: groups_good_def groups_ready_def groups_of_def load_groups_def)
  have "admins_good P [] s3"
    using a1 f2 f3 by (simp add: admins_good_def users_ready_def users_of_def load_users_def)
  moreover have "clients_good (map (sd_clientSalt dr) [0 ..< 0 + length (ParseBootstrapClients cfg)]) s1" using cg1 by simp
  then have "clients_good [] s2" unfolding s2_def using boot_clients.loop_invariant [where I = "\<lambda>_. True"] by blast
  then have "clients_ready s3" using f3 by (simp add: clients_good_def clients_ready_def clients_of_def load_clients_def)
  moreover have "email_settled P b s1" if "b \<in> set (ParseBootstrapUsers cfg)" for b
    using boot_users.loop_settles [of ?ud 0 "ParseBootstrapUsers cfg" st b P now] ug that by (simp add: s1_def)
  moreover have "client_settled P U quote c s2" if "c \<in> set (ParseBootstrapClients cfg)" for c
    using boot_clients.loop_settles [of "sd_clientSalt dr" 0 "ParseBootstrapClients cfg" s1 c P U quote now] cg1 that by (simp add: s2_def)
  moreover have "group_settled P g s3" if "g \<in> set (ParseBootstrapGroups cfg)" for g
    using boot_groups.loop_settles [of "sd_groupID dr" 0 "ParseBootstrapGroups cfg" s2 g P now] gg2 that by (simp add: s3_def)
  ultimately show ?thesis
    using that [of s1 new s3 s2] new a1 f2 f3 by (simp add: admins_good_def bootstrap_store_eq s1_def s2_def s3_def)
qed

lemma GetByEmail_granted:
  assumes "admins_good P [] s" and "admins_good P [] s'" and "users_of s' = map (granted P now es) (users_of s)"
  shows "users_GetByEmail P e s' = map_sum id (granted P now es) (users_GetByEmail P e s)"
proof -
  have "find p (map f xs) = map_option f (find (p \<circ> f) xs)" for p and f :: "user \<Rightarrow> user" and xs by (induction xs) auto
  then show ?thesis using assms by (simp add: admins_good_def GetByEmail_ready comp_def split: option.split)
qed

section \<open>A second start\<close>

text \<open>The loops find nothing to do on a store in which every item is settled, and the first start leaves such a store.\<close>

definition all_settled :: "platform \<Rightarrow> urllib \<Rightarrow> (string \<Rightarrow> string) \<Rightarrow> config \<Rightarrow> fstore \<Rightarrow> bool" where
  "all_settled P U quote cfg st \<longleftrightarrow>
     (\<forall>b \<in> set (ParseBootstrapUsers cfg). email_settled P b st) \<and> (\<forall>c \<in> set (ParseBootstrapClients cfg). client_settled P U quote c st)
     \<and> (\<forall>g \<in> set (ParseBootstrapGroups cfg). group_settled P g st) \<and> (\<forall>e \<in> set (ParseAdminEmails cfg). admin_settled P e st)"

lemma bootstrap_skip: "all_settled P U quote cfg st \<Longrightarrow> bootstrap_store P U quote now dr cfg st = st"
  unfolding bootstrap_store_eq all_settled_def
  by (simp add: boot_users.loop_skip boot_clients.loop_skip boot_groups.loop_skip boot_admins.loop_skip)

lemma bootstrap_settles:
  assumes "startup_good P dr cfg st"
  shows "all_settled P U quote cfg (bootstrap_store P U quote now dr cfg st)" and "clients_ready (bootstrap_store P U quote now dr cfg st)"
proof -
  obtain s1 s2 s3 new where n: "users_of s1 = users_of st @ new"
    and a: "admins_good P [] s3" and e: "\<And>b. b \<in> set (ParseBootstrapUsers cfg) \<Longrightarrow> email_settled P b s1"
    and f: "f_users s3 = f_users s1" and r: "users_ready s1"
    and c: "\<And>x. x \<in> set (ParseBootstrapClients cfg) \<Longrightarrow> client_settled P U quote x s2" and fc: "f_clients s3 = f_clients s2"
    and g: "\<And>x. x \<in> set (ParseBootstrapGroups cfg) \<Longrightarrow> group_settled P x s3" and cr: "clients_ready s3"
    and st': "bootstrap_store P U quote now dr cfg st = drawn_fold (grant_admin_step P now) (sd_auditID dr) 0 (ParseAdminEmails cfg) s3"
    using startup_loops [OF assms, of now U quote] by metis
  let ?s = "bootstrap_store P U quote now dr cfg st"
  have us: "users_of ?s = map (granted P now (ParseAdminEmails cfg)) (users_of s3)" unfolding st' by (rule grantAdmins_users [OF a])
  have ag: "admins_good P (map d [0 ..< 0 + length es]) s3" for d es using a by (simp add: admins_good_def)
  have a': "admins_good P [] ?s"
    unfolding st' using boot_admins.loop_invariant [OF ag, where I = "\<lambda>_. True"] by blast
  have fs: "f_clients ?s = f_clients s3" "f_groups ?s = f_groups s3" "write_err ?s = write_err s3"
    unfolding st' by (rule drawn_fold_frame, rule grant_admin_step_frame)+
  have us1: "users_of s3 = users_of s1" using f by (simp add: users_of_def load_users_def)
  show "clients_ready ?s" using cr fs by (simp add: clients_ready_def clients_of_def load_clients_def)
  have "email_settled P b ?s" if "b \<in> set (ParseBootstrapUsers cfg)" for b
    using e [OF that] a' email_settled_iff [OF r, of P b] by (simp add: admins_good_def email_settled_iff us us1)
  moreover have "client_settled P U quote x ?s" if "x \<in> set (ParseBootstrapClients cfg)" for x
    using c [OF that] fs fc by (simp add: client_settled_def clients_GetByID_def load_clients_def)
  moreover have "group_settled P x ?s" if "x \<in> set (ParseBootstrapGroups cfg)" for x
    using g [OF that] fs GetByEmail_granted [OF a a' us]
    by (auto simp: group_settled_def groups_GetByName_def load_groups_def is_member_def groups_of_def map_sum_def split: sum.splits)
  moreover have "admin_settled P x ?s" if "x \<in> set (ParseAdminEmails cfg)" for x
    unfolding st' by (rule boot_admins.loop_settles [OF ag that])
  ultimately show "all_settled P U quote cfg ?s" by (simp add: all_settled_def)
qed

text \<open>What registering the client of the playground does to the list of clients.\<close>

definition with_playground :: "time \<Rightarrow> string \<Rightarrow> string \<Rightarrow> client list \<Rightarrow> client list" where
  "with_playground now issuer h cs =
     (case find (\<lambda>c. client_ID c = PlaygroundClientID) cs of
        Some c \<Rightarrow> upd_first (\<lambda>c. client_ID c = PlaygroundClientID)
          (\<lambda>_. (playground_client issuer h)\<lparr>client_SkipConsent := client_SkipConsent c, client_CreatedAt := client_CreatedAt c, client_UpdatedAt := now\<rparr>) cs
      | None \<Rightarrow> cs @ [(playground_client issuer h)\<lparr>client_CreatedAt := now, client_UpdatedAt := now\<rparr>])"

lemma NewPlaygroundHandler_store:
  assumes "clients_ready st"
  shows "\<not> (isOk rnd \<and> isOk salt) \<and> snd (NewPlaygroundHandler P now rnd salt issuer st) = st
    \<or> isOk rnd \<and> isOk salt
       \<and> (\<exists>h. snd (NewPlaygroundHandler P now rnd salt issuer st) = st\<lparr>f_clients := Content (with_playground now issuer h (clients_of st))\<rparr>)"
proof (cases "isOk rnd \<and> isOk salt")
  case True
  then obtain b where b: "rnd = Inr b" by (auto simp: isOk_iff)
  obtain h where "HashPassword P salt (RawURLEncoding_EncodeToString b) = Inr h"
    using HashPassword_ok [of salt P "RawURLEncoding_EncodeToString b"] True by blast
  then have h: "HashClientSecret P salt (RawURLEncoding_EncodeToString b) = Inr h" by (simp add: HashClientSecret_def)
  have id: "client_ID (playground_client issuer h) = PlaygroundClientID" by (simp add: playground_client_def)
  have "snd (NewPlaygroundHandler P now rnd salt issuer st) = st\<lparr>f_clients := Content (with_playground now issuer h (clients_of st))\<rparr>"
    by (simp add: NewPlaygroundHandler_def randomSecret_def b h clients_GetByID_def clients_Update_def clients_Create_def clients_ready_load [OF assms]
        clients_ready_save [OF assms] with_playground_def id split: option.split)
  then show ?thesis using True by blast
next
  case False
  then have "snd (NewPlaygroundHandler P now rnd salt issuer st) = st"
    by (auto simp: NewPlaygroundHandler_def randomSecret_def HashClientSecret_def HashPassword_def isOk_iff split: sum.splits)
  then show ?thesis using False by blast
qed

lemma upd_first_found: "find p xs = Some x \<Longrightarrow> p (f x) \<Longrightarrow> find p (upd_first p f xs) = Some (f x)"
  by (induction xs) (auto split: if_splits)

lemma upd_first_cong: "find p xs = Some x \<Longrightarrow> f x = g x \<Longrightarrow> upd_first p f xs = upd_first p g xs"
  by (induction xs) (auto split: if_splits)

lemma with_playground_finds:
  "\<exists>skip created. find (\<lambda>c. client_ID c = PlaygroundClientID) (with_playground now issuer h cs)
     = Some ((playground_client issuer h)\<lparr>client_SkipConsent := skip, client_CreatedAt := created, client_UpdatedAt := now\<rparr>)"
proof (cases "find (\<lambda>c. client_ID c = PlaygroundClientID) cs")
  case None
  then have "find (\<lambda>c. client_ID c = PlaygroundClientID) (with_playground now issuer h cs)
     = Some ((playground_client issuer h)\<lparr>client_SkipConsent := False, client_CreatedAt := now, client_UpdatedAt := now\<rparr>)"
    by (simp add: with_playground_def find_append playground_client_def empty_client_def)
  then show ?thesis by blast
next
  case (Some c)
  have "client_ID (playground_client issuer h) = PlaygroundClientID" by (simp add: playground_client_def)
  then show ?thesis using upd_first_found [OF Some] Some by (simp add: with_playground_def) blast
qed

lemma with_playground_again:
  "with_playground now' issuer h' (with_playground now issuer h cs)
     = upd_first (\<lambda>c. client_ID c = PlaygroundClientID) (\<lambda>c. c\<lparr>client_Secret := h', client_UpdatedAt := now'\<rparr>) (with_playground now issuer h cs)"
proof -
  obtain skip created where f: "find (\<lambda>c. client_ID c = PlaygroundClientID) (with_playground now issuer h cs)
     = Some ((playground_client issuer h)\<lparr>client_SkipConsent := skip, client_CreatedAt := created, client_UpdatedAt := now\<rparr>)"
    using with_playground_finds by blast
  show ?thesis
    by (subst with_playground_def) (simp add: f, rule upd_first_cong [OF f], simp add: playground_client_def)
qed

lemma with_playground_IDs: "client_ID ` set cs \<subseteq> client_ID ` set (with_playground now issuer h cs)"
proof (cases "find (\<lambda>c. client_ID c = PlaygroundClientID) cs")
  case (Some c)
  have "map client_ID (with_playground now issuer h cs) = map client_ID cs"
    unfolding with_playground_def Some option.case by (rule map_upd_first) (simp add: playground_client_def)
  then show ?thesis by (metis list.set_map order_refl)
qed (auto simp: with_playground_def)

lemma with_playground_distinct:
  assumes "distinct (map client_ID cs)"
  shows "distinct (map client_ID (with_playground now issuer h cs))"
proof (cases "find (\<lambda>c. client_ID c = PlaygroundClientID) cs")
  case (Some c)
  have "map client_ID (with_playground now issuer h cs) = map client_ID cs"
    unfolding with_playground_def Some option.case by (rule map_upd_first) (simp add: playground_client_def)
  then show ?thesis using assms by simp
next
  case None
  then have "PlaygroundClientID \<notin> client_ID ` set cs" by (auto simp: find_None_iff)
  then show ?thesis using assms None by (simp add: with_playground_def playground_client_def)
qed

lemma all_settled_playground:
  assumes "all_settled P U quote cfg st" and "clients_ready st" and "client_ID ` set (clients_of st) \<subseteq> client_ID ` set cs"
  shows "all_settled P U quote cfg (st\<lparr>f_clients := Content cs\<rparr>)"
proof -
  have "client_settled P U quote c (st\<lparr>f_clients := Content cs\<rparr>)" if "client_settled P U quote c st" for c
  proof -
    have "load_clients (st\<lparr>f_clients := Content cs\<rparr>) = Inr cs" by (simp add: load_clients_def)
    then show ?thesis
      using that assms(3) unfolding client_settled_iff [OF assms(2)]
      by (auto simp: client_settled_def clients_GetByID_def find_None_iff image_iff subset_iff split: option.split)
  qed
  moreover have "users_GetByEmail P e (st\<lparr>f_clients := Content cs\<rparr>) = users_GetByEmail P e st" for e by (simp add: users_GetByEmail_def load_users_def)
  moreover have "groups_GetByName P g (st\<lparr>f_clients := Content cs\<rparr>) = groups_GetByName P g st" for g by (simp add: groups_GetByName_def load_groups_def)
  ultimately show ?thesis
    using assms(1) by (simp add: all_settled_def email_settled_def admin_settled_def group_settled_def is_member_def)
qed

lemma startup_store_users:
  assumes "startup_good P dr cfg st"
  shows "users_of (startup_store P U quote now dr cfg st) = users_of (bootstrap_store P U quote now dr cfg st)"
proof -
  let ?b = "bootstrap_store P U quote now dr cfg st"
  have "users_of (snd (NewPlaygroundHandler P now (sd_playground dr) (sd_playgroundSalt dr) (cfg_IssuerURL cfg) ?b)) = users_of ?b"
    using NewPlaygroundHandler_store [OF bootstrap_settles(2) [OF assms, of U quote now], of "sd_playground dr" "sd_playgroundSalt dr" P now "cfg_IssuerURL cfg"]
    by (elim disjE conjE exE) (simp_all add: users_of_def load_users_def)
  then show ?thesis by (simp add: startup_store_def Let_def)
qed

lemma startup_store_playground:
  assumes "startup_good P dr cfg st" and "playground_on cfg"
  obtains h where "startup_store P U quote now dr cfg st = (bootstrap_store P U quote now dr cfg st)
    \<lparr>f_clients := Content (with_playground now (cfg_IssuerURL cfg) h (clients_of (bootstrap_store P U quote now dr cfg st)))\<rparr>"
  using NewPlaygroundHandler_store [OF bootstrap_settles(2) [OF assms(1), of U quote now], of "sd_playground dr" "sd_playgroundSalt dr" P now "cfg_IssuerURL cfg"]
    assms by (auto simp: startup_store_def Let_def startup_good_def)

end
