(* ===== verification/StartupProps.thy ===== *)
theory StartupProps
  imports Provision HandlerExample
begin

text \<open>
  The properties of configuration and start, and of the server they produce, each with a configuration for which
  its hypotheses hold.
\<close>

section \<open>Data from the environment\<close>

definition exConfig :: config where
  "exConfig = \<lparr>cfg_Host = ''0.0.0.0'', cfg_Port = 8080, cfg_IssuerURL = ''https://id.example/'', cfg_StoreDriver = ''FILE'', cfg_DataDir = ''./data'',
     cfg_StoreDSN = '''', cfg_SessionDuration = 24 * hour, cfg_CookieSecret = ''cookie-secret'', cfg_CookieSecure = False, cfg_CookieDomain = '''',
     cfg_AccessTokenTTL = 5 * minute, cfg_RefreshTokenTTL = 168 * hour, cfg_AuthCodeTTL = 10 * minute, cfg_PasswordResetTTL = hour,
     cfg_PasswordResetInterval = 2 * minute, cfg_EmailVerifyTTL = 24 * hour, cfg_MailDriver = ''log'', cfg_SMTPHost = '''', cfg_SMTPPort = 587,
     cfg_SMTPUsername = '''', cfg_SMTPPassword = '''', cfg_SMTPFrom = '''', cfg_SMTPImplicitTLS = False, cfg_PlaygroundEnabled = True,
     cfg_RequireConsent = True, cfg_SigningAlgorithm = ''EdDSA'', cfg_SigningKeyRotationDays = 30, cfg_SigningKeyGracePeriod = 24 * hour,
     cfg_MaintenanceInterval = 10 * minute, cfg_AuditRetention = 2160 * hour, cfg_LoginRateLimit = 5, cfg_LockoutMaxAttempts = 5,
     cfg_LockoutDuration = 15 * minute, cfg_LogLevel = ''info'', cfg_LogFormat = ''json'', cfg_CORSAllowedOrigins = ''https://app.example'',
     cfg_CORSAllowCredentials = True, cfg_TrustedProxies = ''none'', cfg_SecurityHeadersEnabled = True, cfg_ContentSecurityPolicy = '''',
     cfg_HSTSMaxAge = 0, cfg_MetricsEnabled = True, cfg_GroupsClaim = ''groups'', cfg_BootstrapGroups = ''ops:b@x'', cfg_AdminEmails = ''a@x, b@x'',
     cfg_BootstrapUsers = ''b@x:longpassword:Bob,a@x:otherpassword'', cfg_ClientID = '''', cfg_ClientSecret = '''', cfg_ClientRedirectURI = '''',
     cfg_BootstrapClients = '''', cfg_CookieSecretGenerated = False\<rparr>"

definition exDraws :: startup_draws where
  "exDraws = \<lparr>sd_uuid = (\<lambda>i. ''new'' @ digits10 i), sd_salt = (\<lambda>_. Inr ''saltsaltsaltsalt''), sd_clientSalt = (\<lambda>_. Inr ''saltsaltsaltsalt''),
     sd_groupID = (\<lambda>i. ''g'' @ digits10 i), sd_auditID = (\<lambda>i. ''a'' @ digits10 i),
     sd_playground = Inr (replicate 32 CHR ''p''), sd_playgroundSalt = Inr ''saltsaltsaltsalt''\<rparr>"

lemma exBootstrap:
  "map bu_Email (ParseBootstrapUsers exConfig) = [''b@x'', ''a@x''] \<and> ParseAdminEmails exConfig = [''a@x'', ''b@x'']
   \<and> map bg_Members (ParseBootstrapGroups exConfig) = [[''b@x'']] \<and> ParseBootstrapClients exConfig = []"
  by code_simp

lemma exStartup_good: "startup_good exQ exDraws exConfig exSiteStore"
  by code_simp

text \<open>
  C36. Starting provisions exactly what the configuration lists. Given a store whose users, clients and groups can
  be read and written, in which users and clients have distinct identifiers and no two users share an address
  (in whatever letter case), and draws of identifiers
  that are not in use and of random bytes that succeed (\<open>startup_good\<close>), the users after the start are those there
  were, in their order, and one new active and verified user with the listed password and name for each listed
  address that nobody had; of all these, exactly the ones whose address is in the list of administrators are made
  administrators, and nothing else of an existing user (password, name, state) changes. Every listed address
  then has a user, and still no two users share an address.
\<close>

theorem startup_users:
  assumes "startup_good P dr cfg st"
  shows "(\<exists>new. users_of (startup_store P U quote now dr cfg st) = map (granted P now (ParseAdminEmails cfg)) (users_of st @ new)
       \<and> (\<forall>u \<in> set new. provisioned P now cfg (users_of st) u))
     \<and> (\<forall>b \<in> set (ParseBootstrapUsers cfg). \<exists>u \<in> set (users_of (startup_store P U quote now dr cfg st)).
           EqualFold P (user_Email u) (bu_Email b))
     \<and> emails_distinct P (users_of (startup_store P U quote now dr cfg st))"
proof -
  obtain s1 s2 s3 new where n: "users_of s1 = users_of st @ new" "\<forall>u \<in> set new. provisioned P now cfg (users_of st) u"
    and a: "admins_good P [] s3" and e: "\<And>b. b \<in> set (ParseBootstrapUsers cfg) \<Longrightarrow> email_settled P b s1"
    and f: "f_users s3 = f_users s1" and r: "users_ready s1"
    and st': "bootstrap_store P U quote now dr cfg st = drawn_fold (grant_admin_step P now) (sd_auditID dr) 0 (ParseAdminEmails cfg) s3"
    using startup_loops [OF assms, of now U quote] by metis
  have us: "users_of s3 = users_of st @ new" using n(1) f by (simp add: users_of_def load_users_def)
  have m: "users_of (startup_store P U quote now dr cfg st) = map (granted P now (ParseAdminEmails cfg)) (users_of st @ new)"
    unfolding startup_store_users [OF assms] st' grantAdmins_users [OF a] us ..
  have "\<exists>u \<in> set (users_of (startup_store P U quote now dr cfg st)). EqualFold P (user_Email u) (bu_Email b)"
    if "b \<in> set (ParseBootstrapUsers cfg)" for b
    using e [OF that] n(1) unfolding email_settled_iff [OF r] m set_map by (simp only: bex_simps granted_fields)
  moreover have "emails_distinct P (users_of (startup_store P U quote now dr cfg st))"
    using a unfolding m admins_good_def us by (simp add: emails_distinct_def comp_def)
  ultimately show ?thesis using n(2) m by blast
qed

theorem startup_users_witness:
  "startup_good exQ exDraws exConfig exSiteStore
   \<and> (\<exists>u \<in> set (users_of (startup_store exQ exU id exNow exDraws exConfig exSiteStore)). EqualFold exQ (user_Email u) ''b@x'')
   \<and> emails_distinct exQ (users_of (startup_store exQ exU id exNow exDraws exConfig exSiteStore))"
proof -
  obtain b where "b \<in> set (ParseBootstrapUsers exConfig)" "bu_Email b = ''b@x''"
    using exBootstrap by (metis (no_types, lifting) image_iff list.set_intros(1) list.set_map)
  then show ?thesis using exStartup_good startup_users [OF exStartup_good, of exU id exNow] by metis
qed

text \<open>
  C35. Restarting changes nothing of what the first start set up, given a store and draws that work for the first
  start (\<open>startup_good\<close>: users, clients and groups can be read and written, users and clients have distinct
  identifiers, no two users share an address, identifiers drawn are new and random bytes are there): whatever time it is and whatever is drawn, a second start
  with the same configuration leaves the store exactly as the first one left it when the playground is off. No
  user, client or group is created twice, no password or client secret goes back to the configured one, and no
  membership or audit event is added again. With the playground on, the one thing that changes is the playground's
  own client: its secret and the time of its update are new; when the random bytes for that secret fail, not even
  that.
\<close>

theorem restart_changes_nothing:
  assumes "startup_good P dr cfg st" and "s1 = startup_store P U quote now dr cfg st" and "s2 = startup_store P U quote now' dr' cfg s1"
  shows "if playground_on cfg \<and> isOk (sd_playground dr') \<and> isOk (sd_playgroundSalt dr')
     then \<exists>h. s2 = s1\<lparr>f_clients := Content (upd_first (\<lambda>c. client_ID c = PlaygroundClientID)
                        (\<lambda>c. c\<lparr>client_Secret := h, client_UpdatedAt := now'\<rparr>) (clients_of s1))\<rparr>
     else s2 = s1"
proof (cases "playground_on cfg")
  case False
  then show ?thesis using assms(2,3) bootstrap_settles(1) [OF assms(1)] by (simp add: startup_store_def Let_def bootstrap_skip)
next
  case True
  obtain h b where b: "b = bootstrap_store P U quote now dr cfg st"
    and s1: "s1 = b\<lparr>f_clients := Content (with_playground now (cfg_IssuerURL cfg) h (clients_of b))\<rparr>"
    using startup_store_playground [OF assms(1) True, of U quote now] assms(2) by blast
  have c1: "clients_of s1 = with_playground now (cfg_IssuerURL cfg) h (clients_of b)" by (simp add: s1 clients_of_def load_clients_def)
  have r: "clients_ready b" and a: "all_settled P U quote cfg b" using bootstrap_settles [OF assms(1)] by (simp_all add: b)
  have "all_settled P U quote cfg s1" unfolding s1 by (rule all_settled_playground [OF a r with_playground_IDs])
  then have s2: "s2 = snd (NewPlaygroundHandler P now' (sd_playground dr') (sd_playgroundSalt dr') (cfg_IssuerURL cfg) s1)"
    using assms(3) True by (simp add: startup_store_def Let_def bootstrap_skip)
  have "clients_ready s1" using r with_playground_distinct unfolding clients_ready_def c1 by (simp add: s1)
  note step = NewPlaygroundHandler_store [OF this, of "sd_playground dr'" "sd_playgroundSalt dr'" P now' "cfg_IssuerURL cfg", folded s2]
  show ?thesis
  proof (cases "isOk (sd_playground dr') \<and> isOk (sd_playgroundSalt dr')")
    case ok: True
    then obtain h' where "s2 = s1\<lparr>f_clients := Content (with_playground now' (cfg_IssuerURL cfg) h' (clients_of s1))\<rparr>" using step by blast
    then show ?thesis using True ok unfolding c1 with_playground_again by auto
  next
    case no: False
    then have "s2 = s1" using step by blast
    then show ?thesis using no by auto
  qed
qed

theorem restart_changes_nothing_witness:
  "playground_on exConfig \<and> startup_good exQ exDraws exConfig exSiteStore
   \<and> (let s1 = startup_store exQ exU id exNow exDraws exConfig exSiteStore
      in \<exists>h. startup_store exQ exU id (exNow + hour) exDraws exConfig s1
           = s1\<lparr>f_clients := Content (upd_first (\<lambda>c. client_ID c = PlaygroundClientID)
               (\<lambda>c. c\<lparr>client_Secret := h, client_UpdatedAt := exNow + hour\<rparr>) (clients_of s1))\<rparr>)"
proof -
  have "playground_on exConfig" "isOk (sd_playground exDraws)" "isOk (sd_playgroundSalt exDraws)"
    by (simp_all add: playground_on_def exConfig_def exDraws_def isOk_iff)
  then show ?thesis using exStartup_good restart_changes_nothing [OF exStartup_good refl refl] by (simp add: Let_def)
qed

section \<open>Loading and the signing key\<close>

text \<open>
  C37. A configuration that loads is well formed: the access-token lifetime is positive and at most a day, the
  store and mail drivers are known ones (so opening the store never ends in the branch for an unsupported
  driver) and SMTP has a host and a sender, the trusted proxies parse (the start drops that error), the signing
  algorithm is supported, wildcard CORS never comes with credentials, and the cookie secret is not empty. With
  an https issuer, cookies are Secure and the playground is off unless the operator set those variables.
\<close>

theorem loaded_config_wf:
  assumes "Load P N quote env readEnv rnd = Inr c" and "\<And>b. rnd = Inr b \<Longrightarrow> length b = 32"
  shows "config_wf P N quote c \<and> cfg_CookieSecret c \<noteq> ''''
     \<and> openStore sq fi quote c \<in> {sq (SQLitePath c), fi (cfg_DataDir c)}
     \<and> (https_issuer P c \<and> env ''IDPICO_COOKIE_SECURE'' = None \<longrightarrow> cfg_CookieSecure c)
     \<and> (https_issuer P c \<and> env ''IDPICO_PLAYGROUND_ENABLED'' = None \<longrightarrow> \<not> cfg_PlaygroundEnabled c)"
proof -
  obtain cfg cfg1 where l: "readEnv = Inr cfg" "with_secret rnd cfg = Inr cfg1" "c = loaded_from P env cfg1" and wf: "config_wf P N quote c"
    using assms(1) unfolding Load_iff by blast
  have "cfg_CookieSecret cfg1 \<noteq> ''''"
  proof (cases "cfg_CookieSecret cfg = []")
    case True
    then obtain b where b: "rnd = Inr b" "cfg1 = cfg\<lparr>cfg_CookieSecret := RawURLEncoding_EncodeToString b, cfg_CookieSecretGenerated := True\<rparr>"
      using l(2) by (cases rnd) (simp_all add: with_secret_def generateRandomSecret_def)
    then have "b \<noteq> []" using assms(2) [OF b(1)] by auto
    then show ?thesis using b(2) RawURL_nonempty by simp
  qed (use l(2) in \<open>simp add: with_secret_def\<close>)
  moreover have "https_issuer P c = https_issuer P cfg1" "cfg_CookieSecret c = cfg_CookieSecret cfg1"
    "cfg_CookieSecure c \<longleftrightarrow> cfg_CookieSecure cfg1 \<or> env ''IDPICO_COOKIE_SECURE'' = None \<and> https_issuer P cfg1"
    "cfg_PlaygroundEnabled c \<longleftrightarrow> cfg_PlaygroundEnabled cfg1 \<and> \<not> (env ''IDPICO_PLAYGROUND_ENABLED'' = None \<and> https_issuer P cfg1)"
    by (simp_all add: l(3) loaded_from_def issuer_defaults_eq https_issuer_def)
  moreover have "openStore sq fi quote c \<in> {sq (SQLitePath c), fi (cfg_DataDir c)}"
    using wf by (cases "cfg_StoreDriver c = StoreDriverSQLite") (simp_all add: config_wf_def openStore_def)
  ultimately show ?thesis using wf by simp
qed

definition exPrefixes :: netip_prefixes where
  "exPrefixes = \<lparr>np_ParseAddr = Inr, np_ParsePrefix = (\<lambda>s. if CHR ''/'' \<in> set s then Inr s else Inl (Plain ''no prefix'')),
     np_BitLen = (\<lambda>_. 32), np_PrefixFrom = (\<lambda>a n. a @ ''/'' @ format_int n)\<rparr>"

definition exLoaded :: config where
  "exLoaded = loaded_from exQ Map.empty exConfig"

lemma exLoad: "Load exQ exPrefixes id Map.empty (Inr exConfig) (Inr (replicate 32 CHR ''r'')) = Inr exLoaded"
proof -
  have "config_wf exQ exPrefixes id exLoaded" by code_simp
  then show ?thesis by (simp add: Load_iff exLoaded_def with_secret_def exConfig_def)
qed

theorem loaded_config_wf_witness:
  "https_issuer exQ exLoaded \<and> cfg_CookieSecure exLoaded \<and> \<not> cfg_PlaygroundEnabled exLoaded \<and> config_wf exQ exPrefixes id exLoaded"
proof -
  have "https_issuer exQ exLoaded" by code_simp
  then show ?thesis using loaded_config_wf [OF exLoad, of Inr Inr] by simp
qed

definition stored_alg :: "keypair \<Rightarrow> string" where
  "stored_alg k = (if kp_Alg k = '''' then AlgRS256 else kp_Alg k)"

lemma restore_sel: "restore k = Inr l \<Longrightarrow> kp_PrivateKey k = None \<Longrightarrow> kp_Kid l = kp_Kid k \<and> kp_Alg l = stored_alg k"
  by (auto simp: restore_def LoadFromPEM_def stored_alg_def Let_def split: sum.splits if_splits)

text \<open>
  After a successful start on a well-formed key file the active key has the configured algorithm. If the
  active key of the file had it (one stored without an algorithm counts as RS256), the file is untouched; if it had another one, it has been rotated out and stays
  in the file, expiring at the end of the grace period. Either way the file is well formed and the key in memory
  is the one the file names as active.
\<close>

theorem startup_key_ready:
  assumes "startup_key g g' now cfg kf = (Inr k, ks)" and "keys_wf (keys_of kf)"
    and "gen_kid g \<notin> kp_Kid ` set (keys_data.kd_Keys (keys_of kf))" and "gen_kid g \<noteq> ''''"
    and "gen_kid g' \<notin> kp_Kid ` set (keys_data.kd_Keys (keys_of kf))" and "gen_kid g' \<noteq> ''''"
  shows "kp_Alg k = cfg_SigningAlgorithm cfg \<and> ks_active ks = Some k \<and> kp_Kid k = keys_data.kd_ActiveKid (keys_of (ks_repo ks))
     \<and> keys_wf (keys_of (ks_repo ks))
     \<and> (\<forall>old. keys_GetActive kf = Inr old \<longrightarrow>
          (if stored_alg old = cfg_SigningAlgorithm cfg then ks_repo ks = kf
           else old\<lparr>kp_Active := False, kp_ExpiresAt := now + cfg_SigningKeyGracePeriod cfg\<rparr> \<in> set (keys_data.kd_Keys (keys_of (ks_repo ks)))))"
proof (cases "keys_GetActive kf")
  case (Inl e)
  let ?s = "NewKeyService kf (cfg_SigningAlgorithm cfg)"
  have s: "ks_repo ?s = kf" "ks_algorithm ?s = cfg_SigningAlgorithm cfg" by (simp_all add: NewKeyService_def)
  obtain r ks1 where sa: "saveAndActivate g now ?s = (r, ks1)" by fastforce
  have k1: "kp_Alg k1 = cfg_SigningAlgorithm cfg" if "r = Inr k1" for k1
    using RotateKey_Ok(3) [of g now 0 ?s k1 ks1] GenerateKeyPairForAlg_Ok(2) Inl sa that assms(2,3) by (fastforce simp: RotateKey_def s)
  then have "RotateKey g now 0 ?s = (Inr k, ks)" using assms(1) Inl sa
    by (auto simp: startup_key_def EnsureActiveKey_def RotateKey_def s split: sum.splits if_splits)
  then show ?thesis
    using RotateKey_Ok [of g now 0 ?s k ks] RotateKey_wf [of g now 0 ?s k ks] GenerateKeyPairForAlg_Ok assms(2-4) Inl
    by (auto simp: s keys_load_of)
next
  case (Inr old)
  let ?s = "NewKeyService kf (cfg_SigningAlgorithm cfg)"
  have s: "ks_repo ?s = kf" "ks_algorithm ?s = cfg_SigningAlgorithm cfg" by (simp_all add: NewKeyService_def)
  note mem = keys_GetActive_D [OF Inr]
  obtain key where key: "restore old = Inr key"
    using assms(1) Inr by (auto simp: startup_key_def EnsureActiveKey_def s split: sum.splits)
  have "json_keypair old = old" using mem assms(2) by (simp add: keys_wf_def)
  then have "kp_PrivateKey old = None" using json_keypair_sel(8,9) [of old] by simp
  then have sel: "kp_Kid key = kp_Kid old" "kp_Alg key = stored_alg old" using restore_sel [OF key] by simp_all
  have en: "EnsureActiveKey g now ?s = (Inr key, setActive now key ?s)" using Inr key by (simp add: EnsureActiveKey_def s)
  show ?thesis
  proof (cases "stored_alg old = cfg_SigningAlgorithm cfg")
    case True
    then have "key = k \<and> setActive now key ?s = ks" using assms(1) sel by (auto simp: startup_key_def en)
    then have "k = key" "ks = setActive now key ?s" by blast+
    then show ?thesis using True Inr sel mem assms(2) by (simp add: setActive_def s)
  next
    case False
    have rot: "RotateKey g' now (cfg_SigningKeyGracePeriod cfg) (setActive now key ?s) = (Inr k, ks)"
      using assms(1) sel False by (simp add: startup_key_def en)
    have r: "ks_repo (setActive now key ?s) = kf" "ks_algorithm (setActive now key ?s) = cfg_SigningAlgorithm cfg" by (simp_all add: setActive_def s)
    note ok = RotateKey_Ok [OF rot, unfolded r, OF assms(2) assms(5)]
    have "old\<lparr>kp_Active := False, kp_ExpiresAt := now + cfg_SigningKeyGracePeriod cfg\<rparr>
        = retire now (cfg_SigningKeyGracePeriod cfg) (keys_data.kd_ActiveKid (keys_of kf)) old" using mem by (simp add: retire_def)
    then show ?thesis
      using ok GenerateKeyPairForAlg_Ok(1,2) [OF ok(3)] RotateKey_wf [OF rot, unfolded r, OF assms(2,5,6)] Inr False mem
      by (auto simp: keys_load_of)
  qed
qed

lemma exKeyFile_startup:
  "keys_wf (keys_of exKeyFile)" "gen_kid exKeygen \<notin> kp_Kid ` set (keys_data.kd_Keys (keys_of exKeyFile))" "gen_kid exKeygen \<noteq> ''''"
  by (simp_all add: keys_wf_def keys_of_def keys_load_def exKeyFile_def exKey_def IsZero_def json_keypair_def exKeygen_def)

theorem startup_key_ready_witness:
  "\<exists>k ks old. startup_key exKeygen exKeygen exNow exLoaded exKeyFile = (Inr k, ks) \<and> kp_Alg k = ''EdDSA''
     \<and> keys_GetActive exKeyFile = Inr old \<and> stored_alg old = ''RS256''
     \<and> old\<lparr>kp_Active := False, kp_ExpiresAt := exNow + 24 * hour\<rparr> \<in> set (keys_data.kd_Keys (keys_of (ks_repo ks)))"
proof -
  have c: "isOk (fst (startup_key exKeygen exKeygen exNow exLoaded exKeyFile)) \<and> isOk (keys_GetActive exKeyFile)
      \<and> map_sum id stored_alg (keys_GetActive exKeyFile) = Inr ''RS256'' \<and> cfg_SigningAlgorithm exLoaded = ''EdDSA''
      \<and> cfg_SigningKeyGracePeriod exLoaded = 24 * hour" by code_simp
  then obtain k ks old where k: "startup_key exKeygen exKeygen exNow exLoaded exKeyFile = (Inr k, ks)" "keys_GetActive exKeyFile = Inr old"
    by (metis isOk_iff prod.collapse)
  have "kp_Alg k = ''EdDSA'' \<and> stored_alg old = ''RS256'' \<and> (stored_alg old \<noteq> ''EdDSA'' \<longrightarrow>
      old\<lparr>kp_Active := False, kp_ExpiresAt := exNow + 24 * hour\<rparr> \<in> set (keys_data.kd_Keys (keys_of (ks_repo ks))))"
    using startup_key_ready [OF k(1) exKeyFile_startup exKeyFile_startup(2,3)] c k(2) by simp
  then show ?thesis using k by simp
qed

section \<open>The server\<close>

text \<open>What \<open>main\<close> configures, read off the options.\<close>

lemma main_server:
  fixes P N quote ready A cfg
  defines "sv \<equiv> server_of (main_options P N quote ready A cfg)"
  shows "sv_corsConfig sv = (if ParseCORSAllowedOrigins cfg = [] then None else Some (main_cors cfg))"
    and "sv_issuerURL sv = cfg_IssuerURL cfg" and "sv_keyService sv" and "sv_authService sv" and "sv_oidcServices sv"
    and "sv_groupsClaim sv = ClaimName (NewGroupClaims (cfg_GroupsClaim cfg))"
    and "sv_loginRateLimit sv = cfg_LoginRateLimit cfg" and "sv_accountService sv = Some (main_account cfg)" and "sv_accountStore sv"
    and "sv_trustedProxies sv = (case ParseTrustedProxies P N quote cfg of Inr ps \<Rightarrow> ps | Inl _ \<Rightarrow> [])"
  unfolding sv_def server_of_def main_options_def by (auto simp: no_options_def)

lemma security_response_no_cors: "rs_Headers (security_response P c r) ''Access-Control-Allow-Credentials'' = None"
  by (simp add: security_response_def Let_def Header_Set_def NewResponse_def)

lemma cors_credentials:
  "rs_Headers (cors_response c r) ''Access-Control-Allow-Credentials'' =
     (if Header_Get r ''Origin'' \<noteq> '''' \<and> cors_allowed c (Header_Get r ''Origin'') \<and> co_AllowCredentials c then Some ''true'' else None)"
  by (simp add: cors_response_def Let_def Header_Set_def NewResponse_def)

lemma under_header: "rs_Headers (fst (under pre res)) k = (case rs_Headers (fst res) k of Some v \<Rightarrow> Some v | None \<Rightarrow> rs_Headers pre k)"
  by (cases res) (simp add: under_def map_add_def)

lemma cors_layer_credentials:
  assumes "rs_Headers (fst (cors_layer sv h r s)) ''Access-Control-Allow-Credentials'' \<noteq> None"
    and "\<And>r s. rs_Headers (fst (h r s)) ''Access-Control-Allow-Credentials'' = None"
  shows "\<exists>c. sv_corsConfig sv = Some c \<and> co_AllowCredentials c \<and> cors_allowed c (Header_Get r ''Origin'')"
proof -
  obtain c where c: "sv_corsConfig sv = Some c" "co_AllowedOrigins c \<noteq> []"
    using assms by (cases "sv_corsConfig sv") (auto simp: cors_layer_def split: if_splits)
  have "fst (CORSMiddleware (Some c) h r s) = (cors_response c r)\<lparr>rs_Status := 204\<rparr>
      \<or> fst (CORSMiddleware (Some c) h r s) = fst (under (cors_response c r) (h r s))"
    by (simp add: CORSMiddleware_def Let_def)
  then have "rs_Headers (cors_response c r) ''Access-Control-Allow-Credentials'' \<noteq> None"
    using assms c by (auto simp: cors_layer_def under_header)
  then show ?thesis using c(1) by (simp add: cors_credentials split: if_splits)
qed

lemma real_ip_Origin: "Header_Get (real_ip_request N trusted r) ''Origin'' = Header_Get r ''Origin''"
proof -
  have "hq_Header (real_ip_request N trusted r) ''Origin'' = hq_Header r ''Origin''"
    by (simp add: real_ip_request_def Let_def Header_Del_def fold_Header_Del forwardingHeaders_def split: option.split)
  then show ?thesis by (simp add: Header_Get_def values_Get_def)
qed

text \<open>
  Credentials are offered to listed origins only: with any configuration that loads, a response of the
  server started with it carries Access-Control-Allow-Credentials only if the Origin of the request is, letter
  by letter, in the configured list, and that list has no wildcard. This is for handlers that leave the header
  to the CORS middleware, the only code that names it.
\<close>

theorem cors_credentials_listed:
  assumes "Load P N quote env readEnv rnd = Inr cfg"
    and "ServeHTTP P N' M pg (server_of (main_options P N quote ready A cfg)) E oth r s = (w, s')"
    and "rs_Headers w ''Access-Control-Allow-Credentials'' \<noteq> None"
    and "\<And>r s. rs_Headers (fst (dispatch M pg (server_of (main_options P N quote ready A cfg)) E oth r s))
           ''Access-Control-Allow-Credentials'' = None"
  shows "Header_Get r ''Origin'' \<in> set (ParseCORSAllowedOrigins cfg) \<and> ''*'' \<notin> set (ParseCORSAllowedOrigins cfg)"
proof -
  let ?sv = "server_of (main_options P N quote ready A cfg)"
  let ?d = "dispatch M pg ?sv E oth" and ?r = "real_ip_request N' (sv_trustedProxies ?sv) r"
  have "w = fst (security_layer P ?sv (cors_layer ?sv ?d) ?r s)"
    using assms(2) by (simp add: ServeHTTP_def RealIPFromTrustedProxies_def)
  then have "rs_Headers (fst (cors_layer ?sv ?d ?r s)) ''Access-Control-Allow-Credentials'' \<noteq> None"
    using assms(3) security_response_no_cors
    by (auto simp: security_layer_def SecurityHeadersMiddleware_def under_header split: if_splits option.splits)
  then obtain c where c: "sv_corsConfig ?sv = Some c" "co_AllowCredentials c" "cors_allowed c (Header_Get ?r ''Origin'')"
    using cors_layer_credentials assms(4) by blast
  then have "c = main_cors cfg" by (simp add: main_server(1) split: if_splits)
  moreover have "Header_Get ?r ''Origin'' = Header_Get r ''Origin''" by (rule real_ip_Origin)
  moreover have "\<not> (cfg_CORSAllowCredentials cfg \<and> ''*'' \<in> set (ParseCORSAllowedOrigins cfg))"
    using assms(1) by (auto simp: Load_iff config_wf_def)
  ultimately show ?thesis using c by (simp add: main_cors_def cors_allowed_def)
qed

text \<open>A router without a match, and a request of the listed origin.\<close>

definition exMux :: mux where
  "exMux = \<lparr>mx_Match = (\<lambda>_ _. None), mx_NotFound = (\<lambda>_. http_Error NewResponse ''404 page not found'' 404), rl_Exceeded = (\<lambda>_ _ _ _. False),
     rl_KeyByIP = hq_RemoteAddr\<rparr>"

definition exOrigin :: request where
  "exOrigin = (exPost ''sid'' [])\<lparr>hq_Header := [''Origin'' \<mapsto> [''https://app.example'']]\<rparr>"

abbreviation exServer :: server where
  "exServer \<equiv> server_of (main_options exQ exPrefixes id None exAdminCfg exLoaded)"

theorem cors_credentials_listed_witness:
  "Header_Get exOrigin ''Origin'' \<in> set (ParseCORSAllowedOrigins exLoaded) \<and> ''*'' \<notin> set (ParseCORSAllowedOrigins exLoaded)"
proof -
  let ?h = "ServeHTTP exQ exNetip exMux False exServer exEnv (\<lambda>_ _ s. (NewResponse, s)) exOrigin exSite"
  have d: "rs_Headers (fst (dispatch exMux False exServer exEnv (\<lambda>_ _ s. (NewResponse, s)) r s)) ''Access-Control-Allow-Credentials'' = None" for r s
    by (simp add: dispatch_def exMux_def http_Error_def Header_Set_def NewResponse_def)
  have o: "ParseCORSAllowedOrigins exLoaded = [''https://app.example''] \<and> cfg_CORSAllowCredentials exLoaded
      \<and> hq_Method (real_ip_request exNetip [] exOrigin) = ''POST'' \<and> Header_Get exOrigin ''Origin'' = ''https://app.example''
      \<and> ParseTrustedProxies exQ exPrefixes id exLoaded = Inr []" by code_simp
  then have "rs_Headers (fst ?h) ''Access-Control-Allow-Credentials'' = Some ''true''"
    by (simp add: ServeHTTP_def RealIPFromTrustedProxies_def security_layer_def SecurityHeadersMiddleware_def under_header d cors_layer_def
        main_server main_cors_def CORSMiddleware_def cors_credentials cors_allowed_def real_ip_Origin Let_def security_response_no_cors)
  then show ?thesis using cors_credentials_listed [OF exLoad, of exNetip exMux False None exAdminCfg exEnv _ exOrigin exSite "fst ?h" "snd ?h"] d by simp
qed

text \<open>
  C38. The discovery document tells the truth about the server that serves it: every endpoint it names is
  registered under the issuer's base with the method clients use, an authorization request that is accepted uses
  an advertised response type and code-challenge method and no request object, the token endpoint serves exactly
  the advertised grant types, the signing algorithm of a configuration that loads is one of the advertised, and
  the claim that carries the groups in tokens is among the supported claims.
\<close>

theorem discovery_truthful:
  assumes "Load P N quote env readEnv rnd = Inr cfg" and "cfg_IssuerURL cfg \<noteq> ''''"
    and "sv = server_of (main_options P N quote ready A cfg)"
    and "d = discovery_document (NewDiscoveryHandler (sv_issuerURL sv) (sv_groupsClaim sv))"
  shows "(\<forall>(url, p, m, e) \<in> {(od_AuthorizationEndpoint d, ''/authorize'', ''GET'', EpAuthorize), (od_AuthorizationEndpoint d, ''/authorize'', ''POST'', EpAuthorize),
         (od_TokenEndpoint d, ''/token'', ''POST'', EpToken), (od_UserinfoEndpoint d, ''/userinfo'', ''GET'', EpUserInfo),
         (od_JwksURI d, ''/.well-known/jwks.json'', ''GET'', EpJWKS), (od_EndSessionEndpoint d, ''/logout'', ''GET'', EpLogout),
         (od_RevocationEndpoint d, ''/revoke'', ''POST'', EpRevoke), (od_IntrospectionEndpoint d, ''/introspect'', ''POST'', EpIntrospect)}.
         url = od_Issuer d @ p \<and> (\<exists>rt \<in> set (routes pg sv). rt_Method rt = m \<and> rt_Pattern rt = p \<and> rt_Endpoint rt = e))
     \<and> (\<forall>req st cl req'. ValidateClient req st = (Inr cl, req') \<longrightarrow> ar_ResponseType req \<in> set (od_ResponseTypesSupported d)
         \<and> (ar_CodeChallenge req \<noteq> '''' \<longrightarrow> ar_CodeChallengeMethod req \<in> set (od_CodeChallengeMethodsSupported d))
         \<and> (ar_hasRequest req \<longrightarrow> od_RequestParameterSupported d) \<and> (ar_hasRequestURI req \<longrightarrow> od_RequestURIParameterSupported d))
     \<and> (\<forall>E tr y. token_grant E tr y \<noteq> None \<longleftrightarrow> rq_GrantType tr \<in> set (od_GrantTypesSupported d))
     \<and> cfg_SigningAlgorithm cfg \<in> set (od_IDTokenSigningAlgValuesSupported d)
     \<and> (\<exists>name. ts_groupClaims (main_tokens key cfg) = Some name \<and> name \<in> set (od_ClaimsSupported d) \<and> ScopeGroups \<in> set (od_ScopesSupported d))"
proof (intro conjI)
  note sv = main_server [of P N quote ready A cfg, folded assms(3)]
  have r: "set (health_routes sv) \<union> set (login_routes sv) \<union> set (oidc_routes sv) \<subseteq> set (routes pg sv)" by (auto simp: routes_def)
  have lim: "rt_Method (limited sv l rt) = rt_Method rt" "rt_Pattern (limited sv l rt) = rt_Pattern rt" "rt_Endpoint (limited sv l rt) = rt_Endpoint rt"
    for l rt by (simp_all add: limited_def)
  have reg: "\<exists>rt \<in> set (routes pg sv). rt_Method rt = m \<and> rt_Pattern rt = p \<and> rt_Endpoint rt = e"
    if "\<exists>rt \<in> set (health_routes sv) \<union> set (login_routes sv) \<union> set (oidc_routes sv). rt_Method rt = m \<and> rt_Pattern rt = p \<and> rt_Endpoint rt = e" for m p e
    using that r by blast
  show "\<forall>(url, p, m, e) \<in> {(od_AuthorizationEndpoint d, ''/authorize'', ''GET'', EpAuthorize), (od_AuthorizationEndpoint d, ''/authorize'', ''POST'', EpAuthorize),
         (od_TokenEndpoint d, ''/token'', ''POST'', EpToken), (od_UserinfoEndpoint d, ''/userinfo'', ''GET'', EpUserInfo),
         (od_JwksURI d, ''/.well-known/jwks.json'', ''GET'', EpJWKS), (od_EndSessionEndpoint d, ''/logout'', ''GET'', EpLogout),
         (od_RevocationEndpoint d, ''/revoke'', ''POST'', EpRevoke), (od_IntrospectionEndpoint d, ''/introspect'', ''POST'', EpIntrospect)}.
         url = od_Issuer d @ p \<and> (\<exists>rt \<in> set (routes pg sv). rt_Method rt = m \<and> rt_Pattern rt = p \<and> rt_Endpoint rt = e)"
    using reg assms(2,4) sv(2-5) by (simp add: discovery_document_def Let_def health_routes_def login_routes_def oidc_routes_def lim route_Get_def route_Post_def)
  show "\<forall>req st cl req'. ValidateClient req st = (Inr cl, req') \<longrightarrow> ar_ResponseType req \<in> set (od_ResponseTypesSupported d)
         \<and> (ar_CodeChallenge req \<noteq> '''' \<longrightarrow> ar_CodeChallengeMethod req \<in> set (od_CodeChallengeMethodsSupported d))
         \<and> (ar_hasRequest req \<longrightarrow> od_RequestParameterSupported d) \<and> (ar_hasRequestURI req \<longrightarrow> od_RequestURIParameterSupported d)"
    using assms(4) ValidateClient_Inr(3,4,6) by (fastforce simp: discovery_document_def Let_def validate_rest_None)
  show "\<forall>E tr y. token_grant E tr y \<noteq> None \<longleftrightarrow> rq_GrantType tr \<in> set (od_GrantTypesSupported d)"
    using assms(4) by (simp add: token_grant_def discovery_document_def Let_def)
  show "cfg_SigningAlgorithm cfg \<in> set (od_IDTokenSigningAlgValuesSupported d)"
    using assms(1,4) by (auto simp: Load_iff config_wf_def ValidAlgorithm_def SupportedAlgorithms_def AlgRS256_def AlgEdDSA_def discovery_document_def Let_def)
  show "\<exists>name. ts_groupClaims (main_tokens key cfg) = Some name \<and> name \<in> set (od_ClaimsSupported d) \<and> ScopeGroups \<in> set (od_ScopesSupported d)"
    using assms(4) sv(6) by (simp add: main_tokens_def discovery_document_def Let_def NewGroupClaims_def ClaimName_def NewDiscoveryHandler_def
        DefaultGroupsClaim_def ScopeGroups_def)
qed

theorem discovery_truthful_witness:
  "\<exists>d. d = discovery_document (NewDiscoveryHandler (sv_issuerURL exServer) (sv_groupsClaim exServer))
     \<and> od_Issuer d = ''https://id.example'' \<and> cfg_SigningAlgorithm exLoaded \<in> set (od_IDTokenSigningAlgValuesSupported d)"
proof -
  have "cfg_IssuerURL exLoaded = ''https://id.example/''" by code_simp
  then have "cfg_IssuerURL exLoaded \<noteq> ''''"
    "od_Issuer (discovery_document (NewDiscoveryHandler (sv_issuerURL exServer) (sv_groupsClaim exServer))) = ''https://id.example''"
    by (simp_all add: main_server discovery_document_def NewDiscoveryHandler_def TrimSuffix_slash_def Let_def)
  then show ?thesis using discovery_truthful [OF exLoad _ refl refl] by blast
qed

section \<open>Limits on guessing\<close>

text \<open>The routes with a limiter: method, pattern, limiter and handler.\<close>

definition limited_routes :: "(string \<times> string \<times> limiter \<times> endpoint) list" where
  "limited_routes =
     [(''POST'', ''/login'', Interactive, EpLogin), (''POST'', ''/login/code'', Interactive, EpCode),
      (''POST'', ''/login/passkey/finish'', Interactive, EpPasskeyFinish), (''GET'', ''/verify-email'', Interactive, EpVerifyEmail),
      (''POST'', ''/forgot-password'', Interactive, EpForgotPassword), (''POST'', ''/reset-password'', Interactive, EpResetPassword),
      (''POST'', ''/consent'', Interactive, EpConsent), (''POST'', ''/token'', Api, EpToken), (''POST'', ''/revoke'', Api, EpRevoke),
      (''POST'', ''/introspect'', Api, EpIntrospect), (''POST'', ''/account/password'', Interactive, EpAccount PostPassword),
      (''POST'', ''/account/two-step/enable'', Interactive, EpAccount PostTwoStepEnable),
      (''POST'', ''/account/two-step/disable'', Interactive, EpAccount PostTwoStepDisable),
      (''POST'', ''/account/two-step/recovery-codes'', Interactive, EpAccount PostRecoveryCodes),
      (''POST'', ''/account/passkeys/register/begin'', Interactive, EpAccount PostRegisterBegin),
      (''POST'', ''/account/passkeys/{passkeyID}/remove'', Interactive, EpAccount PostPasskeyRemove)]"

definition as_limited :: "route \<Rightarrow> string \<times> string \<times> limiter \<times> endpoint" where
  "as_limited rt = (rt_Method rt, rt_Pattern rt, rt_Limiter rt, rt_Endpoint rt)"

lemma routes_limited:
  assumes "sv_loginRateLimit sv > 0" and "sv_authService sv" "sv_oidcServices sv" "sv_accountService sv = Some a" "sv_accountStore sv"
  shows "map as_limited (filter (\<lambda>rt. rt_Limiter rt \<noteq> Unlimited) (routes pg sv)) = limited_routes"
  using assms by (simp add: routes_def health_routes_def login_routes_def oidc_routes_def account_page_routes_def admin_page_routes_def limited_def
      route_Get_def route_Post_def route_Handle_def as_limited_def limited_routes_def)

text \<open>A route without a limiter has another method and pattern than any in the table.\<close>

definition not_limited :: "route \<Rightarrow> bool" where
  "not_limited rt \<longleftrightarrow> rt_Limiter rt = Unlimited \<and> list_all (\<lambda>(m, p, _). m \<noteq> rt_Method rt \<or> p \<noteq> rt_Pattern rt) limited_routes"

lemma not_limited_open:
  "not_limited (route_Get p e) \<longleftrightarrow> p \<noteq> ''/verify-email''" "not_limited (route_Handle p e)"
  by (auto simp: not_limited_def route_Get_def route_Handle_def limited_routes_def)

lemma not_limited_admin:
  "list_all not_limited (map (\<lambda>(m, p, e). \<lparr>rt_Method = m, rt_Pattern = ''/admin'' @ p, rt_Limiter = Unlimited, rt_Endpoint = EpAdmin e\<rparr>) xs)"
proof -
  have "not_limited \<lparr>rt_Method = m, rt_Pattern = ''/admin'' @ p, rt_Limiter = Unlimited, rt_Endpoint = e\<rparr>" for m p e
    by (simp add: not_limited_def limited_routes_def)
  then show ?thesis by (simp add: list.pred_map list_all_iff split: prod.split)
qed

lemma not_limited_posts:
  "list_all (\<lambda>p. not_limited (route_Post p e))
     [''/login/passkey/begin'', ''/logout'', ''/authorize'', ''/userinfo'', ''/account/sessions/{sessionID}/revoke'', ''/account/sessions/revoke-others'',
      ''/account/tokens/{tokenID}/revoke'', ''/account/consents/{clientID}/revoke'', ''/account/passkeys/register/finish'']"
  by (simp add: not_limited_def route_Post_def limited_routes_def)

lemma routes_once:
  assumes "sv_loginRateLimit sv > 0"
  shows "list_all (\<lambda>rt. rt_Limiter rt \<noteq> Unlimited \<or> not_limited rt) (routes pg sv)"
proof -
  have "list_all not_limited admin_page_routes"
    unfolding admin_page_routes_def by (rule not_limited_admin)
  then have "list_all (\<lambda>rt. rt_Limiter rt \<noteq> Unlimited \<or> not_limited rt) admin_page_routes" by (simp add: list_all_iff)
  then show ?thesis
    using not_limited_posts assms
    by (simp add: routes_def health_routes_def login_routes_def oidc_routes_def account_page_routes_def limited_def not_limited_open)
qed

lemma limited_routes_distinct: "distinct (map (\<lambda>(m, p, _). (m, p)) limited_routes)"
  by code_simp

lemma limited_unique:
  assumes "(m, p, l, e) \<in> set limited_routes" and "(m, p, l', e') \<in> set limited_routes"
  shows "l' = l \<and> e' = e"
proof -
  have "inj_on (\<lambda>(m, p, _). (m, p)) (set limited_routes)" using limited_routes_distinct by (simp add: distinct_map)
  from inj_onD [OF this _ assms] show ?thesis by simp
qed

text \<open>
  C30. What is behind a rate limiter: with a configured limit of \<open>n\<close> (and \<open>10 n\<close> within 64 bits), the routes with a limiter are exactly those
  of \<open>limited_routes\<close> (submitting a password, a code, a passkey, a consent or a mailed link, asking for a reset
  mail, the changes of a password, second factor or passkey in the account, and the token, revocation and
  introspection endpoints), and no route for the same method and pattern goes around it. A request that the
  router gives to one of them is counted under the key of its address over a window of one minute, against \<open>n\<close>
  for what a person submits and \<open>10 n\<close> for the three endpoints that applications call; over that limit it is
  answered 429 with the state unchanged, and otherwise the handler of the table runs.
\<close>

theorem guessing_limited:
  assumes "sv = server_of (main_options P N quote ready A cfg)" and "0 < cfg_LoginRateLimit cfg" and "cfg_LoginRateLimit cfg * 10 < 2 ^ 63"
  shows "map as_limited (filter (\<lambda>rt. rt_Limiter rt \<noteq> Unlimited) (routes pg sv)) = limited_routes
     \<and> (\<forall>rt \<in> set (routes pg sv). \<forall>l e. (rt_Method rt, rt_Pattern rt, l, e) \<in> set limited_routes \<longrightarrow>
          rt_Limiter rt = l \<and> rt_Endpoint rt = e
          \<and> (\<forall>M r params. mx_Match M (routes pg sv) r = Some (rt, params) \<longrightarrow>
               dispatch M pg sv E oth r s =
                 (if rl_Exceeded M l ((if l = Api then 10 else 1) * cfg_LoginRateLimit cfg) minute (rl_KeyByIP M (r\<lparr>hq_URLParam := params\<rparr>))
                  then (http_Error NewResponse ''Too Many Requests'' 429, s)
                  else endpoint_handler pg sv E oth e (r\<lparr>hq_URLParam := params\<rparr>) s)))"
proof (intro conjI ballI allI impI)
  have n: "sv_loginRateLimit sv = cfg_LoginRateLimit cfg" "sv_loginRateLimit sv > 0" using assms(1,2) by (simp_all add: main_server)
  show t: "map as_limited (filter (\<lambda>rt. rt_Limiter rt \<noteq> Unlimited) (routes pg sv)) = limited_routes"
    using n(2) assms(1) by (intro routes_limited) (simp_all add: main_server)
  fix rt l e
  assume rt: "rt \<in> set (routes pg sv)" and le: "(rt_Method rt, rt_Pattern rt, l, e) \<in> set limited_routes"
  have u: "rt_Limiter rt \<noteq> Unlimited" using routes_once [OF n(2), of pg] rt le by (fastforce simp: list_all_iff not_limited_def)
  then have "as_limited rt \<in> set limited_routes" unfolding t [symmetric] using rt by simp
  then show l: "rt_Limiter rt = l" and e: "rt_Endpoint rt = e" using limited_unique [OF le] by (simp_all add: as_limited_def)
  have "wrap64 (cfg_LoginRateLimit cfg * 10) = cfg_LoginRateLimit cfg * 10" using assms(2,3) by (simp add: wrap64_id)
  then have "limit_of sv l = (if l = Api then 10 else 1) * cfg_LoginRateLimit cfg"
    using u l by (cases l) (simp_all add: limit_of_def n(1))
  then show "dispatch M pg sv E oth r s =
       (if rl_Exceeded M l ((if l = Api then 10 else 1) * cfg_LoginRateLimit cfg) minute (rl_KeyByIP M (r\<lparr>hq_URLParam := params\<rparr>))
        then (http_Error NewResponse ''Too Many Requests'' 429, s) else endpoint_handler pg sv E oth e (r\<lparr>hq_URLParam := params\<rparr>) s)"
    if "mx_Match M (routes pg sv) r = Some (rt, params)" for M r params
    using that u by (simp add: dispatch_def rate_limited_def l e)
qed

text \<open>A router that takes the path of a pattern without parameters, and a limiter that is full for one address.\<close>

definition exFullMux :: mux where
  "exFullMux = exMux\<lparr>mx_Match := (\<lambda>rts r. map_option (\<lambda>rt. (rt, Map.empty)) (find (\<lambda>rt. rt_Method rt = hq_Method r \<and> rt_Pattern rt = ''/login'') rts)),
     rl_Exceeded := (\<lambda>l n w k. l = Interactive \<and> n = 5 \<and> w = minute \<and> k = hq_RemoteAddr (exPost ''sid'' []))\<rparr>"

theorem guessing_limited_witness:
  "dispatch exFullMux False exServer exEnv (\<lambda>_ _ s. (NewResponse, s)) (exPost ''sid'' []) exSite = (http_Error NewResponse ''Too Many Requests'' 429, exSite)"
proof -
  let ?rt = "(route_Post ''/login'' EpLogin)\<lparr>rt_Limiter := Interactive\<rparr>"
  have c: "cfg_LoginRateLimit exLoaded = 5 \<and> hq_Method (exPost ''sid'' []) = ''POST''" by code_simp
  have m: "?rt \<in> set (routes False exServer)"
    using c by (simp add: routes_def login_routes_def limited_def main_server)
  have t: "(rt_Method ?rt, rt_Pattern ?rt, Interactive, EpLogin) \<in> set limited_routes" by (simp add: route_Post_def limited_routes_def)
  have f: "find (\<lambda>rt. rt_Method rt = ''POST'' \<and> rt_Pattern rt = ''/login'') (routes False exServer) = Some ?rt"
    using c by (simp add: routes_def health_routes_def login_routes_def limited_def main_server route_Get_def route_Post_def route_Handle_def)
  have mm: "mx_Match exFullMux (routes False exServer) (exPost ''sid'' []) = Some (?rt, Map.empty)"
    using f c by (simp add: exFullMux_def)
  have k: "rl_Exceeded exFullMux Interactive 5 minute (rl_KeyByIP exFullMux ((exPost ''sid'' [])\<lparr>hq_URLParam := Map.empty\<rparr>))"
    by (simp add: exFullMux_def exMux_def)
  have "0 < cfg_LoginRateLimit exLoaded" "cfg_LoginRateLimit exLoaded * 10 < 2 ^ 63" using c by simp_all
  from guessing_limited [OF refl this] m t mm show ?thesis using c k by fastforce
qed

section \<open>Where the document and the program differ\<close>

text \<open>
  Two places where the document and the rest of the program differ. With an issuer that ends in a slash the
  issuer of the tokens is not the one of the document. And userinfo hands out the given and family name to the
  scope \<open>profile\<close>, which the supported claims leave out.
\<close>

lemma issuer_trailing_slash:
  assumes "cfg_IssuerURL cfg = base @ ''/''"
  shows "tg_issuer (ts_tokenGenerator (main_tokens key cfg)) = base @ ''/''
     \<and> od_Issuer (discovery_document (NewDiscoveryHandler (cfg_IssuerURL cfg) claim)) = base"
  using assms by (simp add: main_tokens_def NewTokenService_def main_generator_def NewTokenGeneratorWithKeyService_def discovery_document_def
      NewDiscoveryHandler_def TrimSuffix_slash_def Let_def)

lemma given_name_unadvertised:
  "claim \<noteq> ''given_name'' \<Longrightarrow> ''given_name'' \<notin> set (od_ClaimsSupported (discovery_document (NewDiscoveryHandler issuer claim)))"
  "hasScope sc ''profile'' \<Longrightarrow> ''given_name'' \<in> scope_members s sc"
  by (simp_all add: discovery_document_def NewDiscoveryHandler_def Let_def scope_members_def)

end
