(* ===== verification/Cli.thy ===== *)
theory Cli
  imports Config AdminHandlers
begin

text \<open>
  \<open>cmd/idpicoctl\<close>: the administration command, which works on the store and the keys directly. The commands
  are modelled on the file store, with what they print as a list of lines and tables; the flags are parsed as the
  package \<open>flag\<close> does it. What a command draws, the formatting of times and the help text are arguments.
\<close>

section \<open>The package flag\<close>

text \<open>The value of a flag, with its kind; the third is a flag that may be repeated.\<close>

datatype flag_value = VString string | VBool bool | VMulti "string list" | VDuration duration

type_synonym flags = "string \<rightharpoonup> flag_value"

definition ParseBool :: "string \<Rightarrow> bool option" where
  "ParseBool s =
     (if s \<in> {''1'', ''t'', ''T'', ''TRUE'', ''true'', ''True''} then Some True
      else if s \<in> {''0'', ''f'', ''F'', ''FALSE'', ''false'', ''False''} then Some False else None)"

text \<open>\<open>flag.Value.Set\<close>; \<open>frac\<close> is the product in \<open>time.ParseDuration\<close>.\<close>

fun flag_Set :: "(nat \<Rightarrow> nat \<Rightarrow> nat \<Rightarrow> nat) \<Rightarrow> flag_value \<Rightarrow> string \<Rightarrow> flag_value option" where
  "flag_Set frac (VString _) v = Some (VString v)"
| "flag_Set frac (VMulti vs) v = Some (VMulti (vs @ [v]))"
| "flag_Set frac (VBool _) v = map_option VBool (ParseBool v)"
| "flag_Set frac (VDuration _) v = (case ParseDuration frac v of Inr d \<Rightarrow> Some (VDuration d) | Inl _ \<Rightarrow> None)"

text \<open>An argument that \<open>Parse\<close> stops at.\<close>

definition not_a_flag :: "string \<Rightarrow> bool" where
  "not_a_flag s \<longleftrightarrow> length s < 2 \<or> hd s \<noteq> CHR ''-''"

text \<open>The name and, after an equals sign that is not its first character, the value of a flag argument.\<close>

definition flag_name :: "string \<Rightarrow> string" where
  "flag_name s = (if take 2 s = ''--'' then drop 2 s else drop 1 s)"

definition split_flag :: "string \<Rightarrow> string \<times> string option" where
  "split_flag name =
     (let rest = takeWhile (\<lambda>c. c \<noteq> CHR ''='') (tl name); after = dropWhile (\<lambda>c. c \<noteq> CHR ''='') (tl name)
      in (hd name # rest, if after = [] then None else Some (tl after)))"

definition set_flag :: "(nat \<Rightarrow> nat \<Rightarrow> nat \<Rightarrow> nat) \<Rightarrow> flags \<Rightarrow> string \<Rightarrow> flag_value \<Rightarrow> string \<Rightarrow> flags option" where
  "set_flag frac fs name old v = map_option (\<lambda>x. fs(name \<mapsto> x)) (flag_Set frac old v)"

definition IsBoolFlag :: "flag_value \<Rightarrow> bool" where
  "IsBoolFlag v = (case v of VBool _ \<Rightarrow> True | _ \<Rightarrow> False)"

text \<open>The value of a flag that needs one: after the equals sign, or the next argument.\<close>

definition take_value :: "string option \<Rightarrow> string list \<Rightarrow> (string \<times> string list) option" where
  "take_value given args =
     (case given of Some v \<Rightarrow> Some (v, args) | None \<Rightarrow> (case args of [] \<Rightarrow> None | v # args' \<Rightarrow> Some (v, args')))"

text \<open>One flag (the unexported \<open>parseOne\<close> of the package): the argument \<open>s\<close>, and those after it.\<close>

definition flag_step ::
    "(nat \<Rightarrow> nat \<Rightarrow> nat \<Rightarrow> nat) \<Rightarrow> (string \<Rightarrow> string) \<Rightarrow> flags \<Rightarrow> string \<Rightarrow> string list \<Rightarrow> (flags \<times> string list) res" where
  "flag_step frac quote fs s args =
     (if flag_name s = '''' \<or> hd (flag_name s) \<in> {CHR ''-'', CHR ''=''} then Inl (Plain (''bad flag syntax: '' @ s))
      else case split_flag (flag_name s) of (name, given) \<Rightarrow>
        (case fs name of
           None \<Rightarrow>
             if name = ''help'' \<or> name = ''h'' then Inl (Plain ''flag: help requested'')
             else Inl (Plain (''flag provided but not defined: -'' @ name))
         | Some old \<Rightarrow>
             if IsBoolFlag old then
               (case set_flag frac fs name old (case given of Some v \<Rightarrow> v | None \<Rightarrow> ''true'') of
                  None \<Rightarrow> Inl (Plain (''invalid boolean value '' @ quote (case given of Some v \<Rightarrow> v | None \<Rightarrow> ''true'') @ '' for -'' @ name
                            @ '': parse error''))
                | Some fs' \<Rightarrow> Inr (fs', args))
             else
               (case take_value given args of
                  None \<Rightarrow> Inl (Plain (''flag needs an argument: -'' @ name))
                | Some (v, args') \<Rightarrow>
                    (case set_flag frac fs name old v of
                       None \<Rightarrow> Inl (Plain (''invalid value '' @ quote v @ '' for flag -'' @ name @ '': parse error''))
                     | Some fs' \<Rightarrow> Inr (fs', args')))))"

lemma take_value_append: "take_value given args = Some (v, rest) \<Longrightarrow> length rest \<le> length args \<and> take_value given (args @ xs) = Some (v, rest @ xs)"
  by (cases given; cases args) (auto simp: take_value_def)

lemma flag_step_append:
  assumes "flag_step frac quote fs s args = Inr (fs', rest)"
  shows "length rest \<le> length args \<and> flag_step frac quote fs s (args @ xs) = Inr (fs', rest @ xs)"
proof -
  obtain name given where n: "split_flag (flag_name s) = (name, given)" by fastforce
  have ok: "\<not> (flag_name s = [] \<or> hd (flag_name s) \<in> {CHR ''-'', CHR ''=''})" using assms by (auto simp: flag_step_def)
  note step = flag_step_def [of frac quote fs s, unfolded if_not_P [OF ok] n prod.case]
  obtain old where old: "fs name = Some old" using assms unfolding step by (cases "fs name") (simp_all split: if_splits)
  show ?thesis
  proof (cases "IsBoolFlag old")
    case True
    show ?thesis using assms unfolding step old option.case if_P [OF True]
      by (cases "set_flag frac fs name old (case given of Some v \<Rightarrow> v | None \<Rightarrow> ''true'')") simp_all
  next
    case False
    obtain v as where a: "take_value given args = Some (v, as)"
      using assms unfolding step old option.case if_not_P [OF False] by (cases "take_value given args") auto
    have "length as \<le> length args" and t: "take_value given (args @ xs) = Some (v, as @ xs)" using take_value_append [OF a] by blast+
    then show ?thesis using assms unfolding step old option.case if_not_P [OF False]
      by (cases "set_flag frac fs name old v") (auto simp: a t)
  qed
qed

lemma flag_step_length: "flag_step frac quote fs s args = Inr (fs', rest) \<Longrightarrow> length rest \<le> length args"
  using flag_step_append by blast

lemma flag_step_subset:
  assumes "flag_step frac quote fs s args = Inr (fs', rest)"
  shows "set rest \<subseteq> set args"
proof -
  have t: "set as \<subseteq> set args" if "take_value given args = Some (v, as)" for given v as
    using that by (cases given; cases args) (auto simp: take_value_def)
  obtain name given where n: "split_flag (flag_name s) = (name, given)" by fastforce
  show ?thesis
    using assms t by (auto simp: flag_step_def n split: if_splits option.splits prod.splits)
qed

text \<open>\<open>FlagSet.Parse\<close>: the flags with their values set, and the arguments it did not take.\<close>

function flag_Parse :: "(nat \<Rightarrow> nat \<Rightarrow> nat \<Rightarrow> nat) \<Rightarrow> (string \<Rightarrow> string) \<Rightarrow> flags \<Rightarrow> string list \<Rightarrow> (flags \<times> string list) res" where
  "flag_Parse frac quote fs [] = Inr (fs, [])"
| "flag_Parse frac quote fs (s # args) =
     (if not_a_flag s then Inr (fs, s # args)
      else if s = ''--'' then Inr (fs, args)
      else case flag_step frac quote fs s args of
        Inl e \<Rightarrow> Inl e
      | Inr (fs', rest) \<Rightarrow> flag_Parse frac quote fs' rest)"
  by pat_completeness auto
termination
  by (relation "measure (\<lambda>(frac, quote, fs, args). length args)") (auto dest: flag_step_length simp: less_Suc_eq_le)

lemma flag_Parse_shorter: "flag_Parse frac quote fs args = Inr (fs', rest) \<Longrightarrow> length rest \<le> length args"
proof (induction frac quote fs args rule: flag_Parse.induct)
  case (2 frac quote fs s args)
  show ?case
  proof (cases "not_a_flag s \<or> s = ''--''")
    case False
    then obtain fs1 rest1 where f: "flag_step frac quote fs s args = Inr (fs1, rest1)"
      using 2(2) by (cases "flag_step frac quote fs s args") auto
    then have "length rest \<le> length rest1" using 2 False by simp
    then show ?thesis using flag_step_length [OF f] by simp
  qed (use 2(2) in \<open>auto split: if_splits\<close>)
qed simp

text \<open>The loop of \<open>parseOne\<close>: parse, take one positional argument, go on with what follows it.\<close>

function positionals ::
    "(nat \<Rightarrow> nat \<Rightarrow> nat \<Rightarrow> nat) \<Rightarrow> (string \<Rightarrow> string) \<Rightarrow> flags \<Rightarrow> string list \<Rightarrow> string list \<Rightarrow> (flags \<times> string list) res" where
  "positionals frac quote fs acc args =
     (if args = [] then Inr (fs, acc)
      else case flag_Parse frac quote fs args of
        Inl e \<Rightarrow> Inl e
      | Inr (fs', []) \<Rightarrow> Inr (fs', acc)
      | Inr (fs', p # rest) \<Rightarrow> positionals frac quote fs' (acc @ [p]) rest)"
  by pat_completeness auto
termination
  by (relation "measure (\<lambda>(frac, quote, fs, acc, args). length args)") (auto dest!: flag_Parse_shorter)

declare positionals.simps [simp del]

definition parseOne :: "(nat \<Rightarrow> nat \<Rightarrow> nat \<Rightarrow> nat) \<Rightarrow> (string \<Rightarrow> string) \<Rightarrow> flags \<Rightarrow> string list \<Rightarrow> string \<Rightarrow> (flags \<times> string) res" where
  "parseOne frac quote fs args what =
     (case positionals frac quote fs [] args of
        Inl e \<Rightarrow> Inl e
      | Inr (fs', [p]) \<Rightarrow> Inr (fs', p)
      | Inr _ \<Rightarrow> Inl (Plain (''expected exactly one '' @ what @ '' argument'')))"

text \<open>Flags may stand before and after the positional argument.\<close>

lemma flag_Parse_flags:
  "flag_Parse frac quote fs fl = Inr (fs1, []) \<Longrightarrow> not_a_flag p \<Longrightarrow> flag_Parse frac quote fs (fl @ p # rest) = Inr (fs1, p # rest)"
proof (induction frac quote fs fl rule: flag_Parse.induct)
  case (2 frac quote fs s args)
  show ?case
  proof (cases "not_a_flag s \<or> s = ''--''")
    case False
    then obtain fs' rest' where f: "flag_step frac quote fs s args = Inr (fs', rest')"
      using 2(2) by (cases "flag_step frac quote fs s args") auto
    then have "flag_step frac quote fs s (args @ p # rest) = Inr (fs', rest' @ p # rest)" using flag_step_append by blast
    then show ?thesis using 2 False f by simp
  qed (use 2(2) in \<open>auto split: if_splits\<close>)
qed simp

lemma flag_Parse_append:
  "flag_Parse frac quote fs fl = Inr (fs1, []) \<Longrightarrow> ''--'' \<notin> set fl \<Longrightarrow> flag_Parse frac quote fs (fl @ xs) = flag_Parse frac quote fs1 xs"
proof (induction frac quote fs fl rule: flag_Parse.induct)
  case (2 frac quote fs s args)
  then have n: "\<not> not_a_flag s" "s \<noteq> ''--''" by (auto split: if_splits)
  then obtain fs' rest' where f: "flag_step frac quote fs s args = Inr (fs', rest')"
    using 2(2) by (cases "flag_step frac quote fs s args") auto
  then have "flag_step frac quote fs s (args @ xs) = Inr (fs', rest' @ xs)" using flag_step_append by blast
  moreover have "''--'' \<notin> set rest'" using 2(3) flag_step_subset [OF f] by auto
  ultimately show ?case using 2 n f by simp
qed simp

section \<open>The commands\<close>

datatype printed = Line string | Table "string list list"

record ctl =
  ct_store :: fstore
  ct_keys :: key_service
  ct_out :: "printed list"

record ctl_env =
  cx_P :: platform
  cx_U :: urllib
  cx_quote :: "string \<Rightarrow> string"
  cx_frac :: "nat \<Rightarrow> nat \<Rightarrow> nat \<Rightarrow> nat"
  cx_now :: time
  cx_uuid :: string
  cx_salt :: "string res"
  cx_random :: "string res"
  cx_keygen :: keygen
  cx_keygen2 :: keygen
  cx_RFC3339 :: "time \<Rightarrow> string"
  cx_usage :: string
  cx_backup :: "(string \<Rightarrow> goerr option) option"

definition ct_print :: "printed list \<Rightarrow> ctl \<Rightarrow> ctl" where
  "ct_print out a = a\<lparr>ct_out := ct_out a @ out\<rparr>"

definition randomPassword :: "string res \<Rightarrow> string res" where
  "randomPassword rnd = RandomToken rnd"

fun get_str :: "flag_value option \<Rightarrow> string" where
  "get_str (Some (VString s)) = s"
| "get_str _ = ''''"

fun get_flag :: "flag_value option \<Rightarrow> bool" where
  "get_flag (Some (VBool b)) = b"
| "get_flag _ = False"

fun get_multi :: "flag_value option \<Rightarrow> string list" where
  "get_multi (Some (VMulti vs)) = vs"
| "get_multi _ = []"

fun get_dur :: "flag_value option \<Rightarrow> duration" where
  "get_dur (Some (VDuration d)) = d"
| "get_dur _ = 0"

subsection \<open>Users\<close>

definition user_list :: "ctl \<Rightarrow> goerr option \<times> ctl" where
  "user_list a =
     (case users_List (ct_store a) of
        Inl e \<Rightarrow> (Some e, a)
      | Inr us \<Rightarrow> (None, ct_print [Table ([''EMAIL'', ''NAME'', ''ACTIVE'', ''VERIFIED'', ''ADMIN'', ''TWO-STEP'', ''ID'']
          # map (\<lambda>u. [user_Email u, user_DisplayName u, format_bool (user_Active u), format_bool (user_EmailVerified u),
                      format_bool (user_Admin u), format_bool (TOTPEnabled u), user_ID u]) us)] a))"

definition user_add_flags :: flags where
  "user_add_flags = [''name'' \<mapsto> VString '''', ''given-name'' \<mapsto> VString '''', ''family-name'' \<mapsto> VString '''', ''password'' \<mapsto> VString '''',
     ''admin'' \<mapsto> VBool False, ''verified'' \<mapsto> VBool False, ''inactive'' \<mapsto> VBool False]"

definition user_add :: "ctl_env \<Rightarrow> string list \<Rightarrow> ctl \<Rightarrow> goerr option \<times> ctl" where
  "user_add X args a =
     (case parseOne (cx_frac X) (cx_quote X) user_add_flags args ''email'' of
        Inl e \<Rightarrow> (Some e, a)
      | Inr (fs, email) \<Rightarrow>
          (let given = get_str (fs ''password'');
               generated = (given = '''')
           in case (if generated then randomPassword (cx_random X) else Inr given) of
                Inl e \<Rightarrow> (Some e, a)
              | Inr pw \<Rightarrow>
                  (case ValidatePassword pw of
                     Some e \<Rightarrow> (Some e, a)
                   | None \<Rightarrow>
                       (case HashPassword (cx_P X) (cx_salt X) pw of
                          Inl e \<Rightarrow> (Some e, a)
                        | Inr hash \<Rightarrow>
                            (let u = empty_user\<lparr>user_ID := cx_uuid X, user_Email := email, user_DisplayName := get_str (fs ''name''),
                                       user_GivenName := get_str (fs ''given-name''), user_FamilyName := get_str (fs ''family-name''),
                                       user_PasswordHash := hash, user_Active := \<not> get_flag (fs ''inactive''),
                                       user_EmailVerified := get_flag (fs ''verified''), user_Admin := get_flag (fs ''admin'')\<rparr>
                             in case users_Create (cx_P X) (cx_now X) u (ct_store a) of
                                  (Some e, st) \<Rightarrow> (Some e, a\<lparr>ct_store := st\<rparr>)
                                | (None, st) \<Rightarrow>
                                    (None, ct_print (Line (''created user '' @ user_Email u @ '' ('' @ user_ID u @ '')'')
                                       # (if generated then [Line (''password: '' @ pw)] else [])) (a\<lparr>ct_store := st\<rparr>)))))))"

definition user_passwd :: "ctl_env \<Rightarrow> string list \<Rightarrow> ctl \<Rightarrow> goerr option \<times> ctl" where
  "user_passwd X args a =
     (case args of
        [email, password] \<Rightarrow>
          (case users_GetByEmail (cx_P X) email (ct_store a) of
             Inl e \<Rightarrow> (Some e, a)
           | Inr u \<Rightarrow>
               (case ValidatePassword password of
                  Some e \<Rightarrow> (Some e, a)
                | None \<Rightarrow>
                    (case HashPassword (cx_P X) (cx_salt X) password of
                       Inl e \<Rightarrow> (Some e, a)
                     | Inr hash \<Rightarrow>
                         (case users_Update (cx_now X) (u\<lparr>user_PasswordHash := hash\<rparr>) (ct_store a) of
                            (Some e, st) \<Rightarrow> (Some e, a\<lparr>ct_store := st\<rparr>)
                          | (None, st) \<Rightarrow>
                              (let st1 = snd (sessions_DeleteByUserID (user_ID u) st);
                                   st2 = snd (tokens_RevokeByUserID (cx_now X) (user_ID u) st1)
                               in (None, ct_print [Line (''password updated for '' @ user_Email u @ ''; sessions and refresh tokens revoked'')]
                                    (a\<lparr>ct_store := st2\<rparr>)))))))
      | _ \<Rightarrow> (Some (Plain ''usage: user passwd <email> <password>''), a))"

definition user_reset_two_step :: "ctl_env \<Rightarrow> string list \<Rightarrow> ctl \<Rightarrow> goerr option \<times> ctl" where
  "user_reset_two_step X args a =
     (case args of
        [email] \<Rightarrow>
          (case users_GetByEmail (cx_P X) email (ct_store a) of
             Inl e \<Rightarrow> (Some e, a)
           | Inr u \<Rightarrow>
               (case ResetSecondFactors (cx_now X) u (ct_store a) of
                  (Some e, st) \<Rightarrow> (Some e, a\<lparr>ct_store := st\<rparr>)
                | (None, st) \<Rightarrow> (None, ct_print [Line (''two-step sign-in reset for '' @ user_Email u
                     @ '': authenticator app, passkeys and recovery codes removed'')] (a\<lparr>ct_store := st\<rparr>))))
      | _ \<Rightarrow> (Some (Plain ''usage: user reset-two-step <email>''), a))"

definition user_set_admin :: "ctl_env \<Rightarrow> string list \<Rightarrow> ctl \<Rightarrow> goerr option \<times> ctl" where
  "user_set_admin X args a =
     (if length args \<noteq> 2 \<or> (args ! 1 \<noteq> ''true'' \<and> args ! 1 \<noteq> ''false'') then (Some (Plain ''usage: user set-admin <email> true|false''), a)
      else case users_GetByEmail (cx_P X) (args ! 0) (ct_store a) of
        Inl e \<Rightarrow> (Some e, a)
      | Inr u \<Rightarrow>
          (let u1 = u\<lparr>user_Admin := (args ! 1 = ''true'')\<rparr>
           in case users_Update (cx_now X) u1 (ct_store a) of
                (Some e, st) \<Rightarrow> (Some e, a\<lparr>ct_store := st\<rparr>)
              | (None, st) \<Rightarrow> (None, ct_print [Line (user_Email u1 @ '' admin='' @ format_bool (user_Admin u1))] (a\<lparr>ct_store := st\<rparr>))))"

text \<open>The six collections are purged as the administration page does it.\<close>

definition user_delete :: "ctl_env \<Rightarrow> string list \<Rightarrow> ctl \<Rightarrow> goerr option \<times> ctl" where
  "user_delete X args a =
     (case args of
        [email] \<Rightarrow>
          (case users_GetByEmail (cx_P X) email (ct_store a) of
             Inl e \<Rightarrow> (Some e, a)
           | Inr u \<Rightarrow>
               (case users_Delete (user_ID u) (purge_user (cx_now X) (user_ID u) (ct_store a)) of
                  (Some e, st) \<Rightarrow> (Some e, a\<lparr>ct_store := st\<rparr>)
                | (None, st) \<Rightarrow> (None, ct_print [Line (''deleted user '' @ user_Email u)] (a\<lparr>ct_store := st\<rparr>))))
      | _ \<Rightarrow> (Some (Plain ''usage: user delete <email>''), a))"

definition ctl_user :: "ctl_env \<Rightarrow> string \<Rightarrow> string list \<Rightarrow> ctl \<Rightarrow> goerr option \<times> ctl" where
  "ctl_user X cmd args a =
     (if cmd = ''list'' then user_list a
      else if cmd = ''add'' then user_add X args a
      else if cmd = ''passwd'' then user_passwd X args a
      else if cmd = ''reset-two-step'' then user_reset_two_step X args a
      else if cmd = ''set-admin'' then user_set_admin X args a
      else if cmd = ''delete'' then user_delete X args a
      else (Some (Plain (''unknown user command '' @ cx_quote X cmd)), a))"

subsection \<open>Groups\<close>

definition group_list :: "ctl_env \<Rightarrow> ctl \<Rightarrow> goerr option \<times> ctl" where
  "group_list X a =
     (case groups_List (cx_P X) (ct_store a) of
        Inl e \<Rightarrow> (Some e, a)
      | Inr gs \<Rightarrow> (None, ct_print [Table ([''NAME'', ''MEMBERS'', ''DESCRIPTION'']
          # map (\<lambda>g. [group_Name g, digits10 (length (or_nil (groups_MemberIDs (group_ID g) (ct_store a)))), group_Description g]) gs)] a))"

definition group_add :: "ctl_env \<Rightarrow> string list \<Rightarrow> ctl \<Rightarrow> goerr option \<times> ctl" where
  "group_add X args a =
     (case parseOne (cx_frac X) (cx_quote X) [''desc'' \<mapsto> VString ''''] args ''name'' of
        Inl e \<Rightarrow> (Some e, a)
      | Inr (fs, name) \<Rightarrow>
          (case groups_Create (cx_P X) (cx_now X)
                  (empty_group\<lparr>group_ID := cx_uuid X, group_Name := name, group_Description := get_str (fs ''desc'')\<rparr>) (ct_store a) of
             (Some e, st) \<Rightarrow> (Some e, a\<lparr>ct_store := st\<rparr>)
           | (None, st) \<Rightarrow> (None, ct_print [Line (''created group '' @ name)] (a\<lparr>ct_store := st\<rparr>))))"

definition group_delete :: "ctl_env \<Rightarrow> string list \<Rightarrow> ctl \<Rightarrow> goerr option \<times> ctl" where
  "group_delete X args a =
     (case args of
        [name] \<Rightarrow>
          (case groups_GetByName (cx_P X) name (ct_store a) of
             Inl e \<Rightarrow> (Some e, a)
           | Inr g \<Rightarrow>
               (case groups_Delete (group_ID g) (ct_store a) of
                  (Some e, st) \<Rightarrow> (Some e, a\<lparr>ct_store := st\<rparr>)
                | (None, st) \<Rightarrow> (None, ct_print [Line (''deleted group '' @ group_Name g)] (a\<lparr>ct_store := st\<rparr>))))
      | _ \<Rightarrow> (Some (Plain ''usage: group delete <name>''), a))"

definition group_members :: "ctl_env \<Rightarrow> string list \<Rightarrow> ctl \<Rightarrow> goerr option \<times> ctl" where
  "group_members X args a =
     (case args of
        [name] \<Rightarrow>
          (case groups_GetByName (cx_P X) name (ct_store a) of
             Inl e \<Rightarrow> (Some e, a)
           | Inr g \<Rightarrow>
               (case groups_MemberIDs (group_ID g) (ct_store a) of
                  Inl e \<Rightarrow> (Some e, a)
                | Inr ids \<Rightarrow> (None, ct_print (List.map_filter (\<lambda>i. case users_GetByID i (ct_store a) of
                     Inr u \<Rightarrow> Some (Line (user_Email u)) | Inl _ \<Rightarrow> None) ids) a)))
      | _ \<Rightarrow> (Some (Plain ''usage: group members <name>''), a))"

definition group_member :: "ctl_env \<Rightarrow> string \<Rightarrow> string list \<Rightarrow> ctl \<Rightarrow> goerr option \<times> ctl" where
  "group_member X cmd args a =
     (case args of
        [name, email] \<Rightarrow>
          (case groups_GetByName (cx_P X) name (ct_store a) of
             Inl e \<Rightarrow> (Some e, a)
           | Inr g \<Rightarrow>
               (case users_GetByEmail (cx_P X) email (ct_store a) of
                  Inl e \<Rightarrow> (Some e, a)
                | Inr u \<Rightarrow>
                    if cmd = ''add-member'' then
                      (case groups_AddMember (group_ID g) (user_ID u) (ct_store a) of
                         (Some e, st) \<Rightarrow> (Some e, a\<lparr>ct_store := st\<rparr>)
                       | (None, st) \<Rightarrow> (None, ct_print [Line (''added '' @ user_Email u @ '' to '' @ group_Name g)] (a\<lparr>ct_store := st\<rparr>)))
                    else
                      (case groups_RemoveMember (group_ID g) (user_ID u) (ct_store a) of
                         (Some e, st) \<Rightarrow> (Some e, a\<lparr>ct_store := st\<rparr>)
                       | (None, st) \<Rightarrow> (None, ct_print [Line (''removed '' @ user_Email u @ '' from '' @ group_Name g)] (a\<lparr>ct_store := st\<rparr>)))))
      | _ \<Rightarrow> (Some (Plain (''usage: group '' @ cmd @ '' <name> <email>'')), a))"

definition ctl_group :: "ctl_env \<Rightarrow> string \<Rightarrow> string list \<Rightarrow> ctl \<Rightarrow> goerr option \<times> ctl" where
  "ctl_group X cmd args a =
     (if cmd = ''list'' then group_list X a
      else if cmd = ''add'' then group_add X args a
      else if cmd = ''delete'' then group_delete X args a
      else if cmd = ''members'' then group_members X args a
      else if cmd = ''add-member'' \<or> cmd = ''remove-member'' then group_member X cmd args a
      else (Some (Plain (''unknown group command '' @ cx_quote X cmd)), a))"

subsection \<open>Clients\<close>

definition client_list :: "ctl \<Rightarrow> goerr option \<times> ctl" where
  "client_list a =
     (case clients_List (ct_store a) of
        Inl e \<Rightarrow> (Some e, a)
      | Inr cs \<Rightarrow> (None, ct_print [Table ([''ID'', ''NAME'', ''TYPE'', ''CONSENT'', ''REDIRECT URIS'']
          # map (\<lambda>c. [client_ID c, client_Name c, if client_Public c then ''public'' else ''confidential'',
                      if client_SkipConsent c then ''skipped'' else ''required'', join_spaces (client_RedirectURIs c)]) cs)] a))"

definition client_add_flags :: flags where
  "client_add_flags = [''redirect'' \<mapsto> VMulti [], ''name'' \<mapsto> VString '''', ''public'' \<mapsto> VBool False, ''skip-consent'' \<mapsto> VBool False,
     ''minimal-id-token'' \<mapsto> VBool False, ''scopes'' \<mapsto> VString ''openid profile email offline_access groups'',
     ''grant-types'' \<mapsto> VString ''authorization_code refresh_token'', ''access-ttl'' \<mapsto> VDuration 0, ''refresh-ttl'' \<mapsto> VDuration 0]"

text \<open>The checks of \<open>client add\<close>, in their order.\<close>

definition client_add_check :: "ctl_env \<Rightarrow> flags \<Rightarrow> goerr option" where
  "client_add_check X fs =
     (if get_multi (fs ''redirect'') = [] then Some (Plain ''at least one -redirect URI is required'')
      else case first_message (ValidateRedirectURI (cx_P X) (cx_U X) (cx_quote X)) (get_multi (fs ''redirect'')) of
        Some m \<Rightarrow> Some (Plain m)
      | None \<Rightarrow>
          if get_dur (fs ''access-ttl'') < 0 \<or> get_dur (fs ''access-ttl'') > MaxAccessTokenTTL
          then Some (Plain (''-access-ttl: at most '' @ Duration_String MaxAccessTokenTTL))
          else map_option (\<lambda>g. Plain (''unsupported grant type '' @ cx_quote X g @ '' (authorization_code, refresh_token)''))
                 (find (\<lambda>g. g \<noteq> ''authorization_code'' \<and> g \<noteq> ''refresh_token'') (Fields (get_str (fs ''grant-types'')))))"

definition client_of_flags :: "flags \<Rightarrow> string \<Rightarrow> client" where
  "client_of_flags fs ident = empty_client
     \<lparr>client_ID := ident, client_Name := (if get_str (fs ''name'') = '''' then ident else get_str (fs ''name'')),
      client_RedirectURIs := get_multi (fs ''redirect''), client_Public := get_flag (fs ''public''),
      client_SkipConsent := get_flag (fs ''skip-consent''), client_MinimalIDToken := get_flag (fs ''minimal-id-token''),
      client_Scopes := Fields (get_str (fs ''scopes'')), client_GrantTypes := Fields (get_str (fs ''grant-types'')),
      client_AccessTokenTTL := get_dur (fs ''access-ttl''), client_RefreshTokenTTL := get_dur (fs ''refresh-ttl'')\<rparr>"

text \<open>A new secret, with its hash in the client.\<close>

definition fresh_secret :: "ctl_env \<Rightarrow> client \<Rightarrow> (string \<times> client) res" where
  "fresh_secret X c =
     (case randomPassword (cx_random X) of
        Inl e \<Rightarrow> Inl e
      | Inr secret \<Rightarrow>
          (case HashClientSecret (cx_P X) (cx_salt X) secret of Inl e \<Rightarrow> Inl e | Inr hash \<Rightarrow> Inr (secret, c\<lparr>client_Secret := hash\<rparr>)))"

definition client_add :: "ctl_env \<Rightarrow> string list \<Rightarrow> ctl \<Rightarrow> goerr option \<times> ctl" where
  "client_add X args a =
     (case parseOne (cx_frac X) (cx_quote X) client_add_flags args ''id'' of
        Inl e \<Rightarrow> (Some e, a)
      | Inr (fs, ident) \<Rightarrow>
          (case client_add_check X fs of
             Some e \<Rightarrow> (Some e, a)
           | None \<Rightarrow>
               (let c = client_of_flags fs ident
                in case (if client_Public c then Inr ('''', c) else fresh_secret X c) of
                     Inl e \<Rightarrow> (Some e, a)
                   | Inr (secret, c1) \<Rightarrow>
                       (case clients_Create (cx_now X) c1 (ct_store a) of
                          (Some e, st) \<Rightarrow> (Some e, a\<lparr>ct_store := st\<rparr>)
                        | (None, st) \<Rightarrow>
                            (None, ct_print (Line (''created client '' @ client_ID c1)
                               # (if secret \<noteq> '''' then [Line (''client_secret: '' @ secret)] else [])) (a\<lparr>ct_store := st\<rparr>))))))"

definition client_reset_secret :: "ctl_env \<Rightarrow> string list \<Rightarrow> ctl \<Rightarrow> goerr option \<times> ctl" where
  "client_reset_secret X args a =
     (case args of
        [ident] \<Rightarrow>
          (case clients_GetByID ident (ct_store a) of
             Inl e \<Rightarrow> (Some e, a)
           | Inr c \<Rightarrow>
               if client_Public c then (Some (Plain (''client '' @ client_ID c @ '' is public and has no secret'')), a)
               else case fresh_secret X c of
                 Inl e \<Rightarrow> (Some e, a)
               | Inr (secret, c1) \<Rightarrow>
                   (case clients_Update (cx_now X) c1 (ct_store a) of
                      (Some e, st) \<Rightarrow> (Some e, a\<lparr>ct_store := st\<rparr>)
                    | (None, st) \<Rightarrow> (None, ct_print [Line (''client_secret: '' @ secret)] (a\<lparr>ct_store := st\<rparr>))))
      | _ \<Rightarrow> (Some (Plain ''usage: client reset-secret <id>''), a))"

definition client_delete :: "ctl_env \<Rightarrow> string list \<Rightarrow> ctl \<Rightarrow> goerr option \<times> ctl" where
  "client_delete X args a =
     (case args of
        [ident] \<Rightarrow>
          (case clients_Delete ident (snd (tokens_RevokeByClientID (cx_now X) ident (ct_store a))) of
             (Some e, st) \<Rightarrow> (Some e, a\<lparr>ct_store := st\<rparr>)
           | (None, st) \<Rightarrow> (None, ct_print [Line (''deleted client '' @ ident)] (a\<lparr>ct_store := st\<rparr>)))
      | _ \<Rightarrow> (Some (Plain ''usage: client delete <id>''), a))"

definition ctl_client :: "ctl_env \<Rightarrow> string \<Rightarrow> string list \<Rightarrow> ctl \<Rightarrow> goerr option \<times> ctl" where
  "ctl_client X cmd args a =
     (if cmd = ''list'' then client_list a
      else if cmd = ''add'' then client_add X args a
      else if cmd = ''reset-secret'' then client_reset_secret X args a
      else if cmd = ''delete'' then client_delete X args a
      else (Some (Plain (''unknown client command '' @ cx_quote X cmd)), a))"

subsection \<open>Keys\<close>

definition key_list :: "ctl_env \<Rightarrow> ctl \<Rightarrow> goerr option \<times> ctl" where
  "key_list X a =
     (case ListKeys (ct_keys a) of
        Inl e \<Rightarrow> (Some e, a)
      | Inr ks \<Rightarrow> (None, ct_print [Table ([''KID'', ''ALG'', ''ACTIVE'', ''CREATED'', ''EXPIRES'']
          # map (\<lambda>k. [kp_Kid k, kp_Alg k, format_bool (kp_Active k), cx_RFC3339 X (kp_CreatedAt k),
                      if IsZero (kp_ExpiresAt k) then ''-'' else cx_RFC3339 X (kp_ExpiresAt k)]) ks)] a))"

text \<open>
  With another algorithm a second key service works on the same repository; the one of the application keeps
  what it has cached.
\<close>

definition key_rotate :: "ctl_env \<Rightarrow> string list \<Rightarrow> ctl \<Rightarrow> goerr option \<times> ctl" where
  "key_rotate X args a =
     (case flag_Parse (cx_frac X) (cx_quote X)
             [''grace'' \<mapsto> VDuration (24 * hour), ''alg'' \<mapsto> VString (ks_algorithm (ct_keys a))] args of
        Inl e \<Rightarrow> (Some e, a)
      | Inr (fs, _) \<Rightarrow>
          (let alg = get_str (fs ''alg''); grace = get_dur (fs ''grace'');
               same = (alg = ks_algorithm (ct_keys a));
               put = (\<lambda>ks. if same then a\<lparr>ct_keys := ks\<rparr> else a\<lparr>ct_keys := (ct_keys a)\<lparr>ks_repo := ks_repo ks\<rparr>\<rparr>)
           in if \<not> ValidAlgorithm alg
              then (Some (Plain (''unsupported -alg '' @ cx_quote X alg @ '' (use one of ['' @ join_spaces SupportedAlgorithms @ ''])'')), a)
              else case EnsureActiveKey (cx_keygen X) (cx_now X) (if same then ct_keys a else NewKeyService (ks_repo (ct_keys a)) alg) of
                (Inl e, ks) \<Rightarrow> (Some e, put ks)
              | (Inr _, ks) \<Rightarrow>
                  (case RotateKey (cx_keygen2 X) (cx_now X) grace ks of
                     (Inl e, ks') \<Rightarrow> (Some e, put ks')
                   | (Inr k, ks') \<Rightarrow>
                       (None, ct_print [Line (''active key is now '' @ kp_Kid k @ '' ('' @ kp_Alg k @ ''; previous key valid for ''
                          @ Duration_String grace @ '')'')] (put ks')))))"

definition ctl_key :: "ctl_env \<Rightarrow> string \<Rightarrow> string list \<Rightarrow> ctl \<Rightarrow> goerr option \<times> ctl" where
  "ctl_key X cmd args a =
     (if cmd = ''list'' then key_list X a
      else if cmd = ''rotate'' then key_rotate X args a
      else (Some (Plain (''unknown key command '' @ cx_quote X cmd)), a))"

subsection \<open>The application\<close>

text \<open>\<open>cx_backup\<close>: the method \<open>Backup\<close> of the opened store; the file store has none.\<close>

definition ctl_backup :: "ctl_env \<Rightarrow> string \<Rightarrow> ctl \<Rightarrow> goerr option \<times> ctl" where
  "ctl_backup X path' a =
     (case cx_backup X of
        None \<Rightarrow> (Some (Plain ''backup needs the sqlite driver; with -driver file, stop the server and copy the data directory''), a)
      | Some backup \<Rightarrow>
          (case backup path' of
             Some e \<Rightarrow> (Some e, a)
           | None \<Rightarrow> (None, ct_print [Line (''backed up to '' @ path')] a)))"

definition ctl_run :: "ctl_env \<Rightarrow> string list \<Rightarrow> ctl \<Rightarrow> goerr option \<times> ctl" where
  "ctl_run X args a =
     (case args of
        resource # cmd # rest \<Rightarrow>
          if resource = ''backup'' \<and> rest = [] then ctl_backup X cmd a
          else if resource = ''user'' then ctl_user X cmd rest a
          else if resource = ''group'' then ctl_group X cmd rest a
          else if resource = ''client'' then ctl_client X cmd rest a
          else if resource = ''key'' then ctl_key X cmd rest a
          else (Some (Plain (''unknown resource '' @ cx_quote X resource @ [CHR 0x0A, CHR 0x0A] @ TrimSpace (cx_usage X))), a)
      | _ \<Rightarrow> (Some (Plain (TrimSpace (cx_usage X))), a))"

text \<open>\<open>main\<close> after the global flags: the algorithm of the key service, and the store.\<close>

definition ctl_openStore :: "(string \<Rightarrow> 's res) \<Rightarrow> (string \<Rightarrow> 's res) \<Rightarrow> (string \<Rightarrow> string) \<Rightarrow> string \<Rightarrow> string \<Rightarrow> string \<Rightarrow> 's res" where
  "ctl_openStore sqlite file' quote driver dataDir dsn =
     (if driver = ''sqlite'' then sqlite (if dsn = '''' then filepath_Join dataDir ''idpico.db'' else dsn)
      else if driver = ''file'' then file' dataDir
      else Inl (Plain (''unknown driver '' @ quote driver @ '' (expected sqlite or file)'')))"

definition ctl_main :: "ctl_env \<Rightarrow> string option \<Rightarrow> (string \<Rightarrow> (fstore \<times> key_file) res) \<Rightarrow> (string \<Rightarrow> (fstore \<times> key_file) res) \<Rightarrow> string list
    \<Rightarrow> int \<times> ctl option" where
  "ctl_main X signingAlg sqlite file' osArgs =
     (case flag_Parse (cx_frac X) (cx_quote X)
             [''driver'' \<mapsto> VString ''sqlite'', ''data-dir'' \<mapsto> VString ''./data'', ''dsn'' \<mapsto> VString ''''] osArgs of
        Inl _ \<Rightarrow> (2, None)
      | Inr (fs, args) \<Rightarrow>
          (case ctl_openStore sqlite file' (cx_quote X) (get_str (fs ''driver'')) (get_str (fs ''data-dir'')) (get_str (fs ''dsn'')) of
             Inl _ \<Rightarrow> (1, None)
           | Inr (st, keyRepo) \<Rightarrow>
               (let alg = (case signingAlg of None \<Rightarrow> '''' | Some v \<Rightarrow> v);
                    a = \<lparr>ct_store = st, ct_keys = NewKeyService keyRepo (if alg = '''' then AlgRS256 else alg), ct_out = []\<rparr>
                in case ctl_run X args a of
                     (Some _, a') \<Rightarrow> (1, Some a')
                   | (None, a') \<Rightarrow> (0, Some a'))))"

end
