(* ===== verification/CliProps.thy ===== *)
theory CliProps
  imports Cli HandlerExample
begin

text \<open>
  The properties of the administration command, each with a command line for which its hypotheses hold.
\<close>

text \<open>
  C40. Flags may stand anywhere: if two stretches of a command line are flags with their values, as the package
  \<open>flag\<close> reads them one after the other, then with the positional argument between them \<open>parseOne\<close> returns that
  argument and those flags. Unless the first stretch has the argument \<open>--\<close>, which ends the flags, it returns
  the same with the argument in front of both stretches or behind them.
\<close>

theorem flags_anywhere:
  assumes "flag_Parse frac quote fs before = Inr (fs1, [])" and "flag_Parse frac quote fs1 after = Inr (fs2, [])" and "not_a_flag p"
  shows "parseOne frac quote fs (before @ p # after) what = Inr (fs2, p)
    \<and> (''--'' \<notin> set before \<longrightarrow> parseOne frac quote fs (p # before @ after) what = Inr (fs2, p)
         \<and> parseOne frac quote fs (before @ after @ [p]) what = Inr (fs2, p))"
proof -
  have between: "parseOne frac quote fs' (b @ p # a) what = Inr (fs2', p)"
    if "flag_Parse frac quote fs' b = Inr (fs1', [])" and "flag_Parse frac quote fs1' a = Inr (fs2', [])" for fs' b fs1' a fs2'
  proof -
    have "positionals frac quote fs' [] (b @ p # a) = positionals frac quote fs1' [p] a"
      using flag_Parse_flags [OF that(1) assms(3), of a] by (subst positionals.simps) simp
    also have "\<dots> = Inr (fs2', [p])" using that(2) by (subst positionals.simps) auto
    finally show ?thesis by (simp add: parseOne_def)
  qed
  have "flag_Parse frac quote fs (before @ after) = Inr (fs2, [])" if "''--'' \<notin> set before"
    using flag_Parse_append [OF assms(1) that] assms(2) by simp
  then show ?thesis
    using between [OF assms(1,2)] between [of fs "[]" fs "before @ after" fs2] between [of fs "before @ after" fs2 "[]" fs2] by simp
qed

theorem flags_anywhere_witness:
  "\<exists>fs. parseOne (\<lambda>_ _ _. 0) id user_add_flags [''-admin'', ''--name=A'', ''a@x'', ''-password'', ''-secret-'', ''-verified'', ''--''] ''email'' = Inr (fs, ''a@x'')
     \<and> parseOne (\<lambda>_ _ _. 0) id user_add_flags [''a@x'', ''-admin'', ''--name=A'', ''-password'', ''-secret-'', ''-verified'', ''--''] ''email'' = Inr (fs, ''a@x'')
     \<and> fs ''password'' = Some (VString ''-secret-'') \<and> fs ''verified'' = Some (VBool True)"
proof -
  let ?p = "flag_Parse (\<lambda>_ _ _. 0) id"
  let ?fs1 = "user_add_flags(''admin'' \<mapsto> VBool True, ''name'' \<mapsto> VString ''A'')"
  let ?fs2 = "?fs1(''password'' \<mapsto> VString ''-secret-'', ''verified'' \<mapsto> VBool True)"
  note defs = not_a_flag_def flag_step_def flag_name_def split_flag_def set_flag_def take_value_def IsBoolFlag_def user_add_flags_def ParseBool_def
  have 1: "?p user_add_flags [''-admin'', ''--name=A''] = Inr (?fs1, [])" by (simp add: defs)
  have 2: "?p ?fs1 [''-password'', ''-secret-'', ''-verified'', ''--''] = Inr (?fs2, [])" by (simp add: defs)
  have 3: "not_a_flag ''a@x''" by (simp add: not_a_flag_def)
  show ?thesis using flags_anywhere [OF 1 2 3, of "''email''"] by (simp add: user_add_flags_def)
qed

lemma first_message_None: "first_message f xs = None \<longleftrightarrow> (\<forall>x \<in> set xs. f x = None)"
  by (induction xs) (auto split: option.splits)

lemma client_add_check_None:
  assumes "client_add_check X fs = None"
  shows "get_multi (fs ''redirect'') \<noteq> []" "\<forall>uri \<in> set (get_multi (fs ''redirect'')). ValidateRedirectURI (cx_P X) (cx_U X) (cx_quote X) uri = None"
    "0 \<le> get_dur (fs ''access-ttl'')" "get_dur (fs ''access-ttl'') \<le> MaxAccessTokenTTL"
    "set (Fields (get_str (fs ''grant-types''))) \<subseteq> {''authorization_code'', ''refresh_token''}"
proof -
  have "get_multi (fs ''redirect'') \<noteq> [] \<and> first_message (ValidateRedirectURI (cx_P X) (cx_U X) (cx_quote X)) (get_multi (fs ''redirect'')) = None
      \<and> \<not> (get_dur (fs ''access-ttl'') < 0 \<or> get_dur (fs ''access-ttl'') > MaxAccessTokenTTL)
      \<and> find (\<lambda>g. g \<noteq> ''authorization_code'' \<and> g \<noteq> ''refresh_token'') (Fields (get_str (fs ''grant-types''))) = None"
    using assms unfolding client_add_check_def by (simp only: split: if_splits option.splits) simp_all
  then show "get_multi (fs ''redirect'') \<noteq> []"
    "\<forall>uri \<in> set (get_multi (fs ''redirect'')). ValidateRedirectURI (cx_P X) (cx_U X) (cx_quote X) uri = None"
    "0 \<le> get_dur (fs ''access-ttl'')" "get_dur (fs ''access-ttl'') \<le> MaxAccessTokenTTL"
    "set (Fields (get_str (fs ''grant-types''))) \<subseteq> {''authorization_code'', ''refresh_token''}"
    by (simp_all add: first_message_None find_None_iff subset_iff)
qed

lemma fresh_secret_verifies:
  assumes "fresh_secret X c = Inr (secret, c1)" and "argon2_length (cx_P X)" and "\<And>b. cx_random X = Inr b \<Longrightarrow> length b = 24"
  shows "\<exists>h. c1 = c\<lparr>client_Secret := h\<rparr> \<and> secret \<noteq> [] \<and> fst (VerifyClientSecret (cx_P X) h secret) \<and> IsHashedClientSecret h"
proof -
  obtain b where b0: "cx_random X = Inr b" using assms(1) by (cases "cx_random X") (simp_all add: fresh_secret_def randomPassword_def RandomToken_def)
  let ?s = "RawURLEncoding_EncodeToString b"
  obtain h where h0: "HashPassword (cx_P X) (cx_salt X) ?s = Inr h"
    using assms(1) b0 by (cases "HashPassword (cx_P X) (cx_salt X) ?s") (simp_all add: fresh_secret_def randomPassword_def RandomToken_def HashClientSecret_def)
  have eq: "secret = ?s" "c1 = c\<lparr>client_Secret := h\<rparr>"
    using assms(1) by (simp_all add: fresh_secret_def randomPassword_def RandomToken_def HashClientSecret_def b0 h0)
  note b = b0 eq(1) and c1 = eq(2) and h = h0 [folded eq(1)]
  have "b \<noteq> []" using assms(3) [OF b(1)] by auto
  then have ne: "secret \<noteq> []" unfolding b(2) by (rule RawURL_nonempty)
  obtain salt where salt: "cx_salt X = Inr salt" using h by (cases "cx_salt X") (simp_all add: HashPassword_def)
  note hash = h [unfolded salt]
  have i: "IsHashedClientSecret h" by (rule IsHashed_HashPassword [OF hash])
  then have "h \<noteq> []" by (auto simp: IsHashedClientSecret_def HasPrefix_def clientSecretHashPrefix_def)
  then have "fst (VerifyClientSecret (cx_P X) h secret)"
    using ne i Verify_after_Hash [OF hash assms(2)] by (simp add: VerifyClientSecret_def)
  then show ?thesis using c1 ne i by blast
qed

text \<open>
  C39. What \<open>client add\<close> registers is sound: exactly one client is added, it has at least one redirect URI and
  every one of them passes the validation, its access-token lifetime is at most a day, and its grant types are
  supported ones. A public client has no secret; for a confidential one the secret that is printed is accepted by
  the check of client secrets, and only its hash is stored.
\<close>
theorem cli_client_sound:
  assumes "ctl_run X (''client'' # ''add'' # args) a = (None, a')" and "clients_ready (ct_store a)"
    and "argon2_length (cx_P X)" and "\<And>b. cx_random X = Inr b \<Longrightarrow> length b = 24"
  shows "\<exists>c. clients_of (ct_store a') = clients_of (ct_store a) @ [c]
     \<and> client_RedirectURIs c \<noteq> [] \<and> (\<forall>uri \<in> set (client_RedirectURIs c). ValidateRedirectURI (cx_P X) (cx_U X) (cx_quote X) uri = None)
     \<and> 0 \<le> client_AccessTokenTTL c \<and> client_AccessTokenTTL c \<le> MaxAccessTokenTTL
     \<and> set (client_GrantTypes c) \<subseteq> {''authorization_code'', ''refresh_token''}
     \<and> (if client_Public c then client_Secret c = ''''
        else \<exists>secret. Line (''client_secret: '' @ secret) \<in> set (ct_out a') \<and> fst (VerifyClientSecret (cx_P X) (client_Secret c) secret)
               \<and> IsHashedClientSecret (client_Secret c))"
proof -
  have r: "client_add X args a = (None, a')" using assms(1) by (simp add: ctl_run_def ctl_client_def)
  obtain fs ident where p: "parseOne (cx_frac X) (cx_quote X) client_add_flags args ''id'' = Inr (fs, ident)"
    using r by (auto simp: client_add_def split: sum.splits)
  have ck: "client_add_check X fs = None" using r p by (auto simp: client_add_def split: option.splits)
  let ?c = "client_of_flags fs ident"
  obtain secret c1 where s: "(if client_Public ?c then Inr ('''', ?c) else fresh_secret X ?c) = Inr (secret, c1)"
    using r p ck by (auto simp: client_add_def Let_def split: sum.splits)
  let ?c1 = "c1\<lparr>client_CreatedAt := cx_now X, client_UpdatedAt := cx_now X\<rparr>"
  obtain st where cr: "clients_Create (cx_now X) c1 (ct_store a) = (None, st)"
    and a': "a' = ct_print (Line (''created client '' @ client_ID c1)
               # (if secret \<noteq> '''' then [Line (''client_secret: '' @ secret)] else [])) (a\<lparr>ct_store := st\<rparr>)"
    using r unfolding client_add_def p sum.case prod.case ck option.case Let_def s by (auto split: prod.splits option.splits)
  have "clients_of st = clients_of (ct_store a) @ [?c1]"
    using cr assms(2) by (auto simp: clients_Create_def clients_ready_load clients_ready_save split: option.splits)
  then have st: "clients_of (ct_store a') = clients_of (ct_store a) @ [?c1]" by (simp add: a' ct_print_def)
  obtain h where c1: "c1 = ?c\<lparr>client_Secret := h\<rparr>"
    and h: "if client_Public ?c then h = [] else secret \<noteq> [] \<and> fst (VerifyClientSecret (cx_P X) h secret) \<and> IsHashedClientSecret h"
  proof (cases "client_Public ?c")
    case True
    then have "c1 = ?c" using s by simp
    moreover have "?c = ?c\<lparr>client_Secret := []\<rparr>" by (simp add: client_of_flags_def empty_client_def)
    ultimately show ?thesis using True that [of "[]"] by simp
  next
    case False
    then show ?thesis using s that fresh_secret_verifies [OF _ assms(3,4), of ?c secret c1] by auto
  qed
  have f: "client_RedirectURIs ?c1 = get_multi (fs ''redirect'')" "client_AccessTokenTTL ?c1 = get_dur (fs ''access-ttl'')"
    "client_GrantTypes ?c1 = Fields (get_str (fs ''grant-types''))" "client_Public ?c1 = client_Public ?c" "client_Secret ?c1 = h"
    by (simp_all add: c1 client_of_flags_def)
  have "if client_Public ?c1 then client_Secret ?c1 = []
      else \<exists>secret. Line (''client_secret: '' @ secret) \<in> set (ct_out a') \<and> fst (VerifyClientSecret (cx_P X) (client_Secret ?c1) secret)
             \<and> IsHashedClientSecret (client_Secret ?c1)"
    unfolding f using h by (cases "client_Public ?c") (auto simp: a' ct_print_def)
  then show ?thesis using client_add_check_None [OF ck] st unfolding f [symmetric] by (intro exI [of _ ?c1] conjI)
qed

definition exCtlEnv :: ctl_env where
  "exCtlEnv = \<lparr>cx_P = exQ, cx_U = exU\<lparr>ul_Parse := (\<lambda>s. map_sum id (\<lambda>u. u\<lparr>url_Scheme := ''https'', url_Host := ''app.example''\<rparr>) (ul_Parse exU s))\<rparr>, cx_quote = id, cx_frac = (\<lambda>_ _ _. 0), cx_now = exNow, cx_uuid = ''n1'', cx_salt = Inr ''saltsaltsaltsalt'',
     cx_random = Inr (replicate 24 CHR ''r''), cx_keygen = exKeygen, cx_keygen2 = exKeygen, cx_RFC3339 = (\<lambda>_. ''-''), cx_usage = ''Usage: idpicoctl'', cx_backup = None\<rparr>"

definition exCtl :: ctl where
  "exCtl = \<lparr>ct_store = exSiteStore, ct_keys = exKeys, ct_out = []\<rparr>"

lemma exCtl_flags:
  "parseOne (cx_frac exCtlEnv) (cx_quote exCtlEnv) client_add_flags [''app'', ''-redirect'', ''https://app.example/cb''] ''id''
     = Inr (client_add_flags(''redirect'' \<mapsto> VMulti [''https://app.example/cb'']), ''app'')"
  by (simp add: parseOne_def positionals.simps not_a_flag_def flag_step_def flag_name_def split_flag_def set_flag_def take_value_def IsBoolFlag_def
      client_add_flags_def)

lemma exCtl_check: "client_add_check exCtlEnv (client_add_flags(''redirect'' \<mapsto> VMulti [''https://app.example/cb''])) = None"
  by code_simp

theorem cli_client_sound_witness:
  "\<exists>a' c. ctl_run exCtlEnv [''client'', ''add'', ''app'', ''-redirect'', ''https://app.example/cb''] exCtl = (None, a')
     \<and> clients_of (ct_store a') = clients_of exSiteStore @ [c] \<and> client_RedirectURIs c \<noteq> []"
proof -
  have c: "clients_ready exSiteStore \<and> Option.is_none (find (\<lambda>c. client_ID c = ''app'') (clients_of exSiteStore))" by code_simp
  obtain h where h: "HashPassword exQ (Inr ''saltsaltsaltsalt'') (RawURLEncoding_EncodeToString (replicate 24 CHR ''r'')) = Inr h"
    by (simp add: HashPassword_def Let_def)
  let ?c = "(client_of_flags (client_add_flags(''redirect'' \<mapsto> VMulti [''https://app.example/cb''])) ''app'')"
  have s: "fresh_secret exCtlEnv ?c = Inr (RawURLEncoding_EncodeToString (replicate 24 CHR ''r''), ?c\<lparr>client_Secret := h\<rparr>)" and "\<not> client_Public ?c"
    using h by (simp_all add: fresh_secret_def randomPassword_def RandomToken_def HashClientSecret_def exCtlEnv_def client_of_flags_def client_add_flags_def)
  moreover have "\<exists>st. clients_Create (cx_now exCtlEnv) (?c\<lparr>client_Secret := h\<rparr>) exSiteStore = (None, st)"
  proof -
    have "find (\<lambda>c. client_ID c = ''app'') (clients_of exSiteStore) = None"
      using conjunct2 [OF c] by (simp add: Option.is_none_def)
    then show ?thesis using c by (simp add: clients_Create_def clients_ready_load clients_ready_save client_of_flags_def)
  qed
  ultimately have "\<exists>a'. ctl_run exCtlEnv [''client'', ''add'', ''app'', ''-redirect'', ''https://app.example/cb''] exCtl = (None, a')"
    by (auto simp: ctl_run_def ctl_client_def client_add_def exCtl_flags exCtl_check Let_def exCtl_def)
  then obtain a' where a: "ctl_run exCtlEnv [''client'', ''add'', ''app'', ''-redirect'', ''https://app.example/cb''] exCtl = (None, a')" by blast
  have "clients_ready (ct_store exCtl)" "argon2_length (cx_P exCtlEnv)" "\<And>b. cx_random exCtlEnv = Inr b \<Longrightarrow> length b = 24"
    using c exQ_laws(1) by (auto simp: exCtl_def exCtlEnv_def)
  from cli_client_sound [OF a this] show ?thesis using a by (auto simp: exCtl_def)
qed

end
