(* ===== verification/Spec2Isabelle.thy ===== *)
theory Spec2Isabelle
  imports GrantProps AuthzProps KeyProps KeyCache StoreProps AuthProps AccountProps HandlerProps StartupProps CliProps
begin

text \<open>
  \<^bold>\<open>idpico\<close> is an OpenID Connect provider in Go: one process that signs users in with a password, an
  authenticator app or a passkey, asks for consent, issues authorization codes, access, ID and
  refresh tokens, and has pages for the account and for administration. This development models the
  program's own logic, from the files on disk to the HTTP handlers, and proves what makes it safe.
  Definitions keep the names of the Go functions; where two packages use one name, a prefix tells them
  apart (\<open>users_Create\<close>, \<open>admin_CreateUser\<close>).

  \<^bold>\<open>How the program is put together.\<close> A handler of \<open>internal/http\<close> reads the request and calls services
  (\<open>internal/oidc\<close>, \<open>internal/auth\<close>, \<open>internal/crypto\<close>); these call the repositories of \<open>internal/store\<close>, each
  of which reads one JSON file, changes the list in memory and writes the file back. Nothing else holds
  state, except the pending logins, the passkey ceremonies, the lockout table, the cached signing key and
  the times of the last reset mails. The model follows the calls: the state is a record per layer
  (\<open>fstore\<close> for the files, \<open>key_service\<close>, \<open>auth\<close>, \<open>account\<close>, and \<open>site\<close> for all of it), every operation takes the
  state and returns its result with the new state, an error is a value of \<open>goerr\<close> in a sum or an option.

  \<^bold>\<open>Theories and sources.\<close>
  \<^item> \<open>Prelude\<close>: time and 64-bit durations, the package \<open>strings\<close>, searches in lists, runs of operations, the
    parameter \<open>platform\<close>. \<open>Errors\<close>: \<open>internal/errors\<close>. \<open>Domain\<close>: \<open>internal/domain/types.go\<close>. \<open>Encoding\<close>: base64,
    base32, hex, decimal numbers, \<open>fmt.Sscanf\<close>. \<open>Url\<close>: query strings and redirect URLs. \<open>Durations\<close>: \<open>time.ParseDuration\<close>.
  \<^item> \<open>FileStore\<close> and \<open>RepoUsers\<close>, \<open>RepoSessions\<close>, \<open>RepoTokens\<close>, \<open>RepoConsents\<close>, \<open>RepoGroups\<close>: \<open>internal/store/file\<close>, every
    operation of every repository, with files that cannot be read or written as error results. The contracts of
    \<open>internal/store/interfaces.go\<close> are the locales \<open>keyed_repository\<close>, \<open>consume_once\<close> and \<open>revocation_list\<close>, interpreted
    on these definitions.
  \<^item> \<open>Keys\<close>, \<open>Jwt\<close>, \<open>KeyCache\<close>: \<open>internal/crypto\<close>: key pairs and their PEM text, the key file, rotation and clean-up,
    the key set, claims and their JSON, signing and validation, the cache of the active key.
  \<^item> \<open>Password\<close>, \<open>Web\<close>, \<open>Lockout\<close>, \<open>Totp\<close>, \<open>AuthService\<close>, \<open>Passkeys\<close>, \<open>SignIn\<close>, \<open>Account\<close>, \<open>Links\<close>: \<open>internal/auth\<close>: password
    hashes, sessions, cookies and form tokens, lockout, one-time codes, sign-in with its second step, links
    for password reset and e-mail verification. \<open>SignIn\<close> and \<open>Links\<close> run these as step relations.
  \<^item> \<open>Authorize\<close>, \<open>Token\<close>, \<open>TokenGrants\<close>, \<open>UserInfo\<close>: \<open>internal/oidc\<close>: authorization requests, PKCE, consent, the two
    grants, revocation, introspection, userinfo, logout redirects. \<open>Maintenance\<close>: \<open>internal/maintenance\<close> and
    \<open>internal/audit\<close>. \<open>Server\<close>, \<open>TokenReplay\<close>: the token operations and the maintenance as one labelled
    transition system.
  \<^item> \<open>Http\<close>, \<open>Pages\<close>, \<open>OidcHandlers\<close>, \<open>LoginHandlers\<close>, \<open>AccountHandlers\<close>, \<open>AdminHandlers\<close>, \<open>Middleware\<close>, \<open>Guards\<close>, \<open>AdminSafety\<close>:
    \<open>internal/http\<close>: requests, responses and redirects as \<open>net/http\<close> makes them, the page data, every handler of
    the endpoints, the login, account and administration pages, and the middleware. The contract of
    a page behind a login is the locale \<open>form_handler\<close>, interpreted on the administration and the account routes.
  \<^item> \<open>Routes\<close>: \<open>internal/http/server.go\<close>, \<open>discovery.go\<close>, \<open>jwks.go\<close>, \<open>health.go\<close>: the server options, every registered route
    with its limiter and its handler, the order of the middleware, the landing page and the discovery document.
    \<open>ServeHTTP\<close> composes them: a request goes through the middleware to the route and the handlers above.
  \<^item> \<open>Config\<close>: \<open>internal/config\<close>: the configuration record, its checks and defaults, the parsers of its lists. \<open>Startup\<close>:
    \<open>cmd/idpico\<close>: what \<open>main\<close> does to the store and the key file before it serves (with the client that
    \<open>NewPlaygroundHandler\<close> registers when the playground is on), and the services and options it builds from the
    configuration. \<open>Provision\<close>: the contract of a start-up loop (an item that is settled is skipped,
    an item that is not is settled and disturbs no other) as the locale \<open>provisioning\<close>, interpreted on the loops for
    users, clients, groups and administrators.
  \<^item> \<open>Cli\<close>: \<open>cmd/idpicoctl\<close>: the flag parser of the package \<open>flag\<close> and every command over the store and the key service.
  \<^item> \<open>Example\<close>, \<open>AuthExample\<close>, \<open>HandlerExample\<close>: one small deployment with concrete functions for all parameters, to
    which the theorems are applied.

  \<^bold>\<open>What is proved.\<close> The theorems with a number (C1 to C40) are in the theories whose names end in \<open>Props\<close> and in \<open>KeyCache\<close>.
  \<^item> \<open>GrantProps\<close>: along every history a code and a refresh token are each redeemed at most once; what a grant must
    have checked; a replay cuts the grant off; an issued code can be redeemed; introspection is exact; a
    revocation outlives clean-up.
  \<^item> \<open>AuthzProps\<close>: which authorization requests pass, and where errors may be sent; when a fresh login is due.
  \<^item> \<open>KeyProps\<close>, \<open>KeyCache\<close>: token lifetimes, ID tokens are no access tokens, rotation keeps one active key and verifies old
    tokens through the grace period, caching the active key changes no answer, claims and keys survive their encoding.
  \<^item> \<open>StoreProps\<close>: the user repository refines a map; groups stay well-formed; passwords and client secrets; maintenance.
  \<^item> \<open>AuthProps\<close>, \<open>AccountProps\<close>: no session without the password and the second step, bounds on guesses, one-time codes
    and links are spent once, a password reset ends all access, userinfo and logout redirects.
  \<^item> \<open>HandlerProps\<close>: what it takes to get a code over HTTP, the login neither loops nor leaves the server, the
    administration and account pages are protected, no administrator can lock everybody out, a deleted user leaves
    nothing behind, nobody chooses the address their requests count under.
  \<^item> \<open>StartupProps\<close>: a start creates the users the configuration lists, a restart changes nothing but the secret of the
    playground's client, what a loaded configuration guarantees, the key after a start, which routes are behind a
    rate limiter and what it does to a request, the discovery document agrees with the server. \<open>CliProps\<close>: where flags
    may stand, and a client added by the command line is sound.

  \<^bold>\<open>Parameters.\<close> Code outside the repository is an argument: hash functions and Unicode tables (\<open>platform\<close>), the JWT
  library (\<open>jwtlib\<close>), \<open>url.Parse\<close> and \<open>URL.String\<close> (\<open>urllib\<close>), WebAuthn (\<open>webauthn\<close>), key generation (\<open>keygen\<close>), the mailer,
  \<open>net/netip\<close> (\<open>netip\<close>), the QR encoder, \<open>strconv.Quote\<close>, and the float product in \<open>time.ParseDuration\<close>. Random values and
  the clock are arguments of each call. What a theorem needs of them it assumes under a name (\<open>argon2_length\<close>,
  \<open>date_law\<close>, \<open>keygen_ok\<close>, \<open>parses_path_query\<close>), and its witness gives an instance.

  \<^bold>\<open>Bounds.\<close> Every function terminates; there is no fuel. Go's \<open>int\<close> and \<open>time.Duration\<close> are integers with the wrap-around
  written out (\<open>wrap64\<close>) where the code computes products that can overflow. Times are nanoseconds since the
  epoch, as integers.

  \<^bold>\<open>Not modelled.\<close> The SQLite store and its migrations (SQL run by a database engine); the pages of the playground, a
  built-in relying party; the matching of paths in the router and the counting of the rate limiter (it gets the limit, the
  window and the key of the request), which are arguments of \<open>dispatch\<close>; reading variables into the configuration record; mail transport, metrics, logs and the handling of
  signals (output and process control); HTML templates, of which only the data is modelled; demo data, test
  suites and examples. Mutexes are not modelled: an operation of a repository is one step.
\<close>

end
